(* ===== verification/Prelude.thy ===== *)
theory Prelude
  imports Main "HOL-Library.AList" "HOL-Library.Multiset"
begin

text \<open>
  Shared vocabulary of the development: the result type of fallible code, a small
  state-and-exception monad for code that threads a runtime state and may raise, JavaScript
  objects used as dictionaries (association lists in insertion order), insertion-ordered sets,
  and the generic list lemmas the components share.
\<close>

section \<open>Collections of facts\<close>

named_theorems sx_simps \<open>running the state-and-exception monad\<close>
named_theorems obj_simps \<open>lookups in objects used as dictionaries\<close>

section \<open>Exceptions\<close>

text \<open>
  An exception of the source: the constructor's name and its message. \<open>String(e)\<close> on an
  \<open>Error\<close> object is the name, a colon and the message.
\<close>

record js_error =
  err_name :: string
  err_message :: string

definition type_error :: "string \<Rightarrow> js_error" where
  "type_error m = \<lparr>err_name = ''TypeError'', err_message = m\<rparr>"

definition plain_error :: "string \<Rightarrow> js_error" where
  "plain_error m = \<lparr>err_name = ''Error'', err_message = m\<rparr>"

definition error_to_string :: "js_error \<Rightarrow> string" where
  "error_to_string e =
     (if err_message e = [] then err_name e
      else if err_name e = [] then err_message e
      else err_name e @ '': '' @ err_message e)"

section \<open>State and exceptions\<close>

text \<open>
  Code that reads and advances a state and may raise is a function from the state to either the
  exception or the value with the next state. The state of a raising run is dropped: no caller in
  the source looks at it afterwards.
\<close>

type_synonym ('s, 'a) sx = "'s \<Rightarrow> js_error + ('a \<times> 's)"

definition sx_ret :: "'a \<Rightarrow> ('s, 'a) sx" where
  "sx_ret a = (\<lambda>s. Inr (a, s))"

definition sx_throw :: "js_error \<Rightarrow> ('s, 'a) sx" where
  "sx_throw e = (\<lambda>s. Inl e)"

definition sx_bind :: "('s, 'a) sx \<Rightarrow> ('a \<Rightarrow> ('s, 'b) sx) \<Rightarrow> ('s, 'b) sx" where
  "sx_bind m f = (\<lambda>s. case m s of Inl e \<Rightarrow> Inl e | Inr (a, s') \<Rightarrow> f a s')"

fun sx_mapM :: "('a \<Rightarrow> ('s, 'b) sx) \<Rightarrow> 'a list \<Rightarrow> ('s, 'b list) sx" where
  "sx_mapM f [] = sx_ret []"
| "sx_mapM f (x # xs) =
     sx_bind (f x) (\<lambda>y. sx_bind (sx_mapM f xs) (\<lambda>ys. sx_ret (y # ys)))"

lemma sx_ret_run [sx_simps, simp]: "sx_ret a s = Inr (a, s)"
  by (simp add: sx_ret_def)

lemma sx_throw_run [sx_simps, simp]: "sx_throw e s = Inl e"
  by (simp add: sx_throw_def)

lemma sx_bind_run [sx_simps]:
  "sx_bind m f s = (case m s of Inl e \<Rightarrow> Inl e | Inr (a, s') \<Rightarrow> f a s')"
  by (simp add: sx_bind_def)

lemma sx_bind_Inr:
  assumes "m s = Inr (a, s')"
  shows "sx_bind m f s = f a s'"
  using assms by (simp add: sx_bind_run)

lemma sx_bind_InrE:
  assumes "sx_bind m f s = Inr (b, t)"
  obtains a s' where "m s = Inr (a, s')" and "f a s' = Inr (b, t)"
  using assms by (auto simp: sx_bind_run split: sum.splits prod.splits)

lemma sx_mapM_all_ret:
  assumes "\<And>x s. x \<in> set xs \<Longrightarrow> f x s = Inr (g x, s)"
  shows "sx_mapM f xs s = Inr (map g xs, s)"
  using assms by (induction xs) (auto simp: sx_bind_run)

text \<open>Every run of the elements collects: the results, a fold of the state, what they add to it.\<close>

lemma sx_mapM_fold:
  assumes "\<And>x s. x \<in> set xs \<Longrightarrow> f x s = Inr (g x, h x s)"
  shows "sx_mapM f xs s = Inr (map g xs, fold h xs s)"
  using assms by (induction xs arbitrary: s) (auto simp: sx_bind_run)

lemma sx_mapM_collect:
  assumes "\<And>x s y s'. x \<in> set xs \<Longrightarrow> f x s = Inr (y, s') \<Longrightarrow> c s' = c s \<union> g x"
    and "sx_mapM f xs s = Inr (ys, t)"
  shows "c t = c s \<union> (\<Union>x \<in> set xs. g x)"
  using assms
proof (induction xs arbitrary: s ys t)
  case Nil
  then show ?case by simp
next
  case (Cons x xs)
  from Cons.prems(2) obtain y s1 ys' where x: "f x s = Inr (y, s1)" and r: "sx_mapM f xs s1 = Inr (ys', t)"
    by (auto simp: sx_bind_run split: sum.splits prod.splits)
  have "c t = c s1 \<union> (\<Union>x \<in> set xs. g x)"
    by (rule Cons.IH [OF _ r]) (rule Cons.prems(1), auto)
  moreover have "c s1 = c s \<union> g x" by (rule Cons.prems(1) [OF _ x]) simp
  ultimately show ?case by auto
qed

lemma sx_mapM_invariant:
  assumes "\<And>x s y s'. x \<in> set xs \<Longrightarrow> f x s = Inr (y, s') \<Longrightarrow> P s \<Longrightarrow> P s'"
    and "sx_mapM f xs s = Inr (ys, t)" and "P s"
  shows "P t"
  using assms
proof (induction xs arbitrary: s ys t)
  case Nil
  then show ?case by simp
next
  case (Cons x xs)
  from Cons.prems(2) obtain y s1 ys' where x: "f x s = Inr (y, s1)" and r: "sx_mapM f xs s1 = Inr (ys', t)"
    by (auto simp: sx_bind_run split: sum.splits prod.splits)
  have "P s1" by (rule Cons.prems(1) [OF _ x Cons.prems(3)]) simp
  show ?case by (rule Cons.IH [OF _ r \<open>P s1\<close>]) (rule Cons.prems(1), auto)
qed

lemma sx_mapM_length:
  "sx_mapM f xs s = Inr (ys, t) \<Longrightarrow> length ys = length xs"
  by (induction xs arbitrary: s ys t)
    (auto simp: sx_bind_run split: sum.splits prod.splits)

section \<open>Insertion-ordered sets\<close>

text \<open>
  A JavaScript \<open>Set\<close> keeps its elements in the order of their first insertion; spreading it
  gives that order.
\<close>

definition set_add :: "'a \<Rightarrow> 'a list \<Rightarrow> 'a list" where
  "set_add x xs = (if x \<in> set xs then xs else xs @ [x])"

lemma set_set_add [simp]: "set (set_add x xs) = insert x (set xs)"
  by (auto simp: set_add_def)

lemma distinct_set_add [simp]: "distinct (set_add x xs) = distinct xs"
  by (auto simp: set_add_def)

lemma set_fold_set_add [simp]: "set (fold set_add ys xs) = set ys \<union> set xs"
  by (induction ys arbitrary: xs) auto

lemma distinct_fold_set_add [simp]: "distinct (fold set_add ys xs) = distinct xs"
  by (induction ys arbitrary: xs) auto

section \<open>Objects as dictionaries\<close>

text \<open>
  A plain object used as a dictionary is an association list of its own enumerable properties in
  insertion order. \<open>Object.fromEntries\<close>, a spread and a computed key in an object literal
  define an own property (the position of an existing key is kept, its value replaced), which is
  \<open>AList.update\<close>. Keys that look like array indices, which a JavaScript engine lists first,
  are not reordered here: no component reads the order of such keys.
\<close>

type_synonym 'v obj = "(string \<times> 'v) list"

definition obj_from_entries :: "(string \<times> 'v) list \<Rightarrow> 'v obj" where
  "obj_from_entries kvs = fold (\<lambda>(k, v). AList.update k v) kvs []"

definition obj_spread :: "'v obj \<Rightarrow> 'v obj \<Rightarrow> 'v obj" where
  "obj_spread base over = fold (\<lambda>(k, v). AList.update k v) over base"

definition obj_own :: "'v obj \<Rightarrow> string \<Rightarrow> 'v option" where
  "obj_own ob k = map_of ob k"

text \<open>
  Reading a property that is not an own one continues at \<open>Object.prototype\<close>: the keys below
  give a function (or, for \<open>__proto__\<close>, an object), never \<open>undefined\<close>.
\<close>

definition object_prototype_keys :: "string list" where
  "object_prototype_keys =
     [''constructor'', ''__proto__'', ''__defineGetter__'', ''__defineSetter__'',
      ''__lookupGetter__'', ''__lookupSetter__'', ''hasOwnProperty'', ''isPrototypeOf'',
      ''propertyIsEnumerable'', ''toLocaleString'', ''toString'', ''valueOf'']"

datatype 'v prop_read = Own 'v | Inherited | Absent

definition obj_read :: "'v obj \<Rightarrow> string \<Rightarrow> 'v prop_read" where
  "obj_read ob k =
     (case obj_own ob k of
        Some v \<Rightarrow> Own v
      | None \<Rightarrow> if k \<in> set object_prototype_keys then Inherited else Absent)"

text \<open>
  An assignment \<open>o[k] = v\<close> defines an own property, except that assigning a string to
  \<open>__proto__\<close> of an object without such an own property runs the inherited setter, which
  ignores a value that is no object.
\<close>

definition obj_assign :: "string \<Rightarrow> 'v \<Rightarrow> 'v obj \<Rightarrow> 'v obj" where
  "obj_assign k v ob =
     (if k = ''__proto__'' \<and> obj_own ob k = None then ob else AList.update k v ob)"

lemma obj_own_update [obj_simps, simp]:
  "obj_own (AList.update k v ob) k' = (if k' = k then Some v else obj_own ob k')"
  by (simp add: obj_own_def update_conv')

lemma set_update_subset: "x \<in> set (AList.update k v ob) \<Longrightarrow> x = (k, v) \<or> x \<in> set ob"
  by (induction ob) (auto split: if_splits)

lemma set_obj_assign: "x \<in> set (obj_assign k v ob) \<Longrightarrow> x = (k, v) \<or> x \<in> set ob"
  by (auto simp: obj_assign_def split: if_splits dest: set_update_subset)

lemma obj_own_spread:
  "obj_own (obj_spread base over) k =
     (case map_of (rev over) k of Some v \<Rightarrow> Some v | None \<Rightarrow> obj_own base k)"
proof (induction over arbitrary: base)
  case Nil
  then show ?case by (simp add: obj_spread_def)
next
  case (Cons p over)
  have "obj_spread base (p # over) = obj_spread (AList.update (fst p) (snd p) base) over"
    by (simp add: obj_spread_def case_prod_beta)
  with Cons show ?case
    by (cases p) (auto simp: map_add_def split: option.splits)
qed

lemma obj_own_from_entries: "obj_own (obj_from_entries kvs) k = map_of (rev kvs) k"
  using obj_own_spread [of "[]" kvs k]
  by (simp add: obj_spread_def obj_from_entries_def obj_own_def split: option.splits)

lemma obj_spread_distinct:
  "distinct (map fst base) \<Longrightarrow> distinct (map fst (obj_spread base over))"
  by (induction over arbitrary: base) (auto simp: obj_spread_def distinct_update)

lemma obj_from_entries_distinct: "distinct (map fst (obj_from_entries kvs))"
  using obj_spread_distinct [of "[]" kvs]
  by (simp add: obj_spread_def obj_from_entries_def)

section \<open>Lists\<close>

lemma take_Cons_le: "length (take n (x # xs)) \<le> n"
  by simp

lemma find_Some_in: "find P xs = Some x \<Longrightarrow> x \<in> set xs \<and> P x"
  by (auto simp: find_Some_iff)

lemma filter_eq_all: "(\<And>x. x \<in> set xs \<Longrightarrow> P x) \<Longrightarrow> filter P xs = xs"
  by (induction xs) auto

section \<open>Sorting with a comparison function\<close>

text \<open>
  \<open>Array.prototype.sort\<close> is stable. For a comparison function that is a total preorder (\<open>le x y\<close>
  is "not greater") its result is the stable insertion below.
\<close>

fun sort_insert :: "('a \<Rightarrow> 'a \<Rightarrow> bool) \<Rightarrow> 'a \<Rightarrow> 'a list \<Rightarrow> 'a list" where
  "sort_insert le x [] = [x]"
| "sort_insert le x (y # ys) = (if le x y then x # y # ys else y # sort_insert le x ys)"

definition stable_sort :: "('a \<Rightarrow> 'a \<Rightarrow> bool) \<Rightarrow> 'a list \<Rightarrow> 'a list" where
  "stable_sort le xs = foldr (sort_insert le) xs []"

lemma mset_sort_insert [simp]: "mset (sort_insert le x xs) = add_mset x (mset xs)"
  by (induction xs) auto

lemma mset_stable_sort [simp]: "mset (stable_sort le xs) = mset xs"
  by (induction xs) (auto simp: stable_sort_def)

lemma set_stable_sort [simp]: "set (stable_sort le xs) = set xs"
  by (metis mset_stable_sort set_mset_mset)

lemma length_stable_sort [simp]: "length (stable_sort le xs) = length xs"
  by (metis mset_stable_sort size_mset)

lemma distinct_stable_sort [simp]: "distinct (stable_sort le xs) = distinct xs"
  by (metis distinct_count_atmost_1 mset_stable_sort set_stable_sort)

lemma sorted_sort_insert:
  assumes "\<And>a b. le a b \<or> le b a" and "\<And>a b c. le a b \<Longrightarrow> le b c \<Longrightarrow> le a c"
    and "sorted_wrt le xs"
  shows "sorted_wrt le (sort_insert le x xs)"
  using assms(3)
proof (induction xs)
  case Nil
  then show ?case by simp
next
  case (Cons y ys)
  have "set (sort_insert le x ys) = insert x (set ys)"
    by (metis mset_sort_insert set_mset_add_mset_insert set_mset_mset)
  with Cons assms(1,2) show ?case by auto
qed

lemma sorted_stable_sort:
  assumes "\<And>a b. le a b \<or> le b a" and "\<And>a b c. le a b \<Longrightarrow> le b c \<Longrightarrow> le a c"
  shows "sorted_wrt le (stable_sort le xs)"
  by (induction xs) (simp_all add: stable_sort_def sorted_sort_insert [OF assms])

end
