(* ===== verification/Js_String.thy ===== *)
theory Js_String
  imports Prelude "HOL-Library.Char_ord" "HOL-Library.List_Lexorder"
begin

text \<open>
  The string operations of the source's standard library. A JavaScript string is a sequence of
  16-bit code units; the model's strings are sequences of code units below 256 (HOL's
  \<open>char\<close>), so ASCII and Latin-1 text is covered and text outside it is not. Every operation
  below is the library's on such strings; case mapping, white space and byte lengths include the
  Latin-1 characters.
\<close>

section \<open>Characters\<close>

abbreviation lbrace :: char where "lbrace \<equiv> CHR ''{''"
abbreviation rbrace :: char where "rbrace \<equiv> CHR ''}''"
abbreviation newline :: char where "newline \<equiv> CHR 0x0A"
abbreviation carriage :: char where "carriage \<equiv> CHR 0x0D"
abbreviation dquote :: char where "dquote \<equiv> CHR 0x22"
abbreviation squote :: char where "squote \<equiv> CHR 0x27"
abbreviation backslash :: char where "backslash \<equiv> CHR 0x5C"

definition code_unit :: "char \<Rightarrow> nat" where
  "code_unit c = of_char c"

text \<open>Characters from code units, bit by bit, for evaluation.\<close>

definition nat_char :: "nat \<Rightarrow> char" where
  "nat_char n = Char (n mod 2 = 1) (n div 2 mod 2 = 1) (n div 4 mod 2 = 1) (n div 8 mod 2 = 1) (n div 16 mod 2 = 1)
     (n div 32 mod 2 = 1) (n div 64 mod 2 = 1) (n div 128 mod 2 = 1)"

lemma char_of_nat_char [code_unfold]: "(char_of :: nat \<Rightarrow> char) = nat_char"
  by (rule ext) (simp add: char_of_def nat_char_def bit_iff_odd odd_iff_mod_2_eq_one)

definition js_space :: "char \<Rightarrow> bool" where
  "js_space c \<longleftrightarrow>
     c = CHR 0x20 \<or> c = CHR 0x09 \<or> c = CHR 0x0A \<or> c = CHR 0x0B \<or> c = CHR 0x0C
     \<or> c = CHR 0x0D \<or> c = CHR 0xA0"

definition is_digit :: "char \<Rightarrow> bool" where
  "is_digit c \<longleftrightarrow> 48 \<le> code_unit c \<and> code_unit c \<le> 57"

definition is_upper_ascii :: "char \<Rightarrow> bool" where
  "is_upper_ascii c \<longleftrightarrow> 65 \<le> code_unit c \<and> code_unit c \<le> 90"

definition is_lower_ascii :: "char \<Rightarrow> bool" where
  "is_lower_ascii c \<longleftrightarrow> 97 \<le> code_unit c \<and> code_unit c \<le> 122"

definition is_alpha :: "char \<Rightarrow> bool" where
  "is_alpha c \<longleftrightarrow> is_upper_ascii c \<or> is_lower_ascii c"

definition is_alnum :: "char \<Rightarrow> bool" where
  "is_alnum c \<longleftrightarrow> is_alpha c \<or> is_digit c"

definition is_hex :: "char \<Rightarrow> bool" where
  "is_hex c \<longleftrightarrow> is_digit c \<or> (65 \<le> code_unit c \<and> code_unit c \<le> 70)
     \<or> (97 \<le> code_unit c \<and> code_unit c \<le> 102)"

text \<open>\<open>toLowerCase\<close> and \<open>toUpperCase\<close> on one code unit. The three Latin-1 letters whose
  upper case leaves Latin-1 (sharp s, micro sign, y with diaeresis) are kept.\<close>

definition lower_char :: "char \<Rightarrow> char" where
  "lower_char c =
     (let n = code_unit c in
      if (65 \<le> n \<and> n \<le> 90) \<or> (192 \<le> n \<and> n \<le> 222 \<and> n \<noteq> 215) then char_of (n + 32) else c)"

definition upper_char :: "char \<Rightarrow> char" where
  "upper_char c =
     (let n = code_unit c in
      if (97 \<le> n \<and> n \<le> 122) \<or> (224 \<le> n \<and> n \<le> 254 \<and> n \<noteq> 247) then char_of (n - 32) else c)"

definition to_lower :: "string \<Rightarrow> string" where
  "to_lower s = map lower_char s"

definition to_upper :: "string \<Rightarrow> string" where
  "to_upper s = map upper_char s"

section \<open>Trimming, prefixes, searching\<close>

definition trim_start :: "string \<Rightarrow> string" where
  "trim_start s = dropWhile js_space s"

definition trim_end :: "string \<Rightarrow> string" where
  "trim_end s = rev (dropWhile js_space (rev s))"

definition trim :: "string \<Rightarrow> string" where
  "trim s = trim_end (trim_start s)"

fun starts_with :: "string \<Rightarrow> string \<Rightarrow> bool" where
  "starts_with [] s = True"
| "starts_with (p # ps) [] = False"
| "starts_with (p # ps) (c # s) = (p = c \<and> starts_with ps s)"

definition ends_with :: "string \<Rightarrow> string \<Rightarrow> bool" where
  "ends_with p s = starts_with (rev p) (rev s)"

fun str_includes :: "string \<Rightarrow> string \<Rightarrow> bool" where
  "str_includes p [] = (p = [])"
| "str_includes p (c # s) = (starts_with p (c # s) \<or> str_includes p s)"

text \<open>\<open>indexOf\<close> of one character: \<open>None\<close> stands for -1.\<close>

fun index_of :: "char \<Rightarrow> string \<Rightarrow> nat option" where
  "index_of d [] = None"
| "index_of d (c # s) = (if c = d then Some 0 else map_option Suc (index_of d s))"

text \<open>\<open>split\<close> on one character; there is always at least one part.\<close>

fun split_on :: "char \<Rightarrow> string \<Rightarrow> string list" where
  "split_on d [] = [[]]"
| "split_on d (c # s) =
     (if c = d then [] # split_on d s
      else case split_on d s of [] \<Rightarrow> [[c]] | w # ws \<Rightarrow> (c # w) # ws)"

fun join :: "string \<Rightarrow> string list \<Rightarrow> string" where
  "join sep [] = []"
| "join sep [w] = w"
| "join sep (w # v # ws) = w @ sep @ join sep (v # ws)"

text \<open>\<open>split(/\r?\n/)\<close>: lines end at a line feed, with the carriage return before it.\<close>

definition strip_cr :: "string \<Rightarrow> string" where
  "strip_cr l = (if l \<noteq> [] \<and> last l = carriage then butlast l else l)"

definition split_lines :: "string \<Rightarrow> string list" where
  "split_lines s = (let ls = split_on newline s in map strip_cr (butlast ls) @ [last ls])"

text \<open>A global literal replacement \<open>replace(/pat/g, rep)\<close> with a non-empty pattern.\<close>

function replace_all :: "string \<Rightarrow> string \<Rightarrow> string \<Rightarrow> string" where
  "replace_all pat rep [] = []"
| "replace_all pat rep (c # s) =
     (if pat \<noteq> [] \<and> starts_with pat (c # s)
      then rep @ replace_all pat rep (drop (length pat) (c # s))
      else c # replace_all pat rep s)"
  by pat_completeness auto
termination
  by (relation "measure (\<lambda>(pat, rep, s). length s)") (auto simp: neq_Nil_conv)

section \<open>Decimal numerals\<close>

definition digit_char :: "nat \<Rightarrow> char" where
  "digit_char d = char_of (48 + d)"

fun nat_to_string :: "nat \<Rightarrow> string" where
  "nat_to_string n =
     (if n < 10 then [digit_char n] else nat_to_string (n div 10) @ [digit_char (n mod 10)])"

declare nat_to_string.simps [simp del]

definition int_to_string :: "int \<Rightarrow> string" where
  "int_to_string i = (if i < 0 then ''-'' @ nat_to_string (nat (- i)) else nat_to_string (nat i))"

section \<open>Byte lengths and percent encoding\<close>

text \<open>UTF-8: one byte below 128, two for the rest of Latin-1.\<close>

definition utf8_bytes :: "char \<Rightarrow> nat list" where
  "utf8_bytes c =
     (let n = code_unit c in if n < 128 then [n] else [192 + n div 64, 128 + n mod 64])"

definition byte_length :: "string \<Rightarrow> nat" where
  "byte_length s = length (concat (map utf8_bytes s))"

definition hex_char :: "nat \<Rightarrow> char" where
  "hex_char d = (if d < 10 then char_of (48 + d) else char_of (55 + d))"

definition uri_unreserved :: "char \<Rightarrow> bool" where
  "uri_unreserved c \<longleftrightarrow> is_alnum c \<or> c \<in> set ''-_.!~*()'' \<or> c = squote"

definition percent_byte :: "nat \<Rightarrow> string" where
  "percent_byte b = [CHR 0x25, hex_char (b div 16), hex_char (b mod 16)]"

definition encode_uri_component :: "string \<Rightarrow> string" where
  "encode_uri_component s =
     concat (map (\<lambda>c. if uri_unreserved c then [c] else concat (map percent_byte (utf8_bytes c))) s)"

text \<open>
  \<open>decodeURIComponent\<close>: \<open>None\<close> is its \<open>URIError\<close>. An escaped code point above 00FF is outside the
  string model and is treated as an error.
\<close>

definition hex_digit_value :: "char \<Rightarrow> nat" where
  "hex_digit_value c =
     (if is_digit c then code_unit c - 48
      else if code_unit c \<le> 70 then code_unit c - 55 else code_unit c - 87)"

fun read_percent :: "string \<Rightarrow> (nat \<times> string) option" where
  "read_percent (p # a # b # r) =
     (if p = CHR 0x25 \<and> is_hex a \<and> is_hex b
      then Some (16 * hex_digit_value a + hex_digit_value b, r) else None)"
| "read_percent _ = None"

lemma read_percent_shorter: "read_percent s = Some (b, r) \<Longrightarrow> length r < length s"
  by (induction s rule: read_percent.induct) (auto split: if_splits)

function decode_uri_component :: "string \<Rightarrow> string option" where
  "decode_uri_component [] = Some []"
| "decode_uri_component (c # s) =
     (if c \<noteq> CHR 0x25 then map_option ((#) c) (decode_uri_component s)
      else case read_percent (c # s) of
          None \<Rightarrow> None
        | Some (b, r) \<Rightarrow>
            if b < 128 then map_option ((#) (char_of b)) (decode_uri_component r)
            else case read_percent r of
                None \<Rightarrow> None
              | Some (b2, r2) \<Rightarrow>
                  if (b = 194 \<or> b = 195) \<and> 128 \<le> b2 \<and> b2 \<le> 191
                  then map_option ((#) (char_of ((b - 192) * 64 + (b2 - 128)))) (decode_uri_component r2)
                  else None)"
  by pat_completeness auto
termination
  by (relation "measure length") (fastforce dest: read_percent_shorter)+

section \<open>Base64\<close>

text \<open>\<open>btoa\<close> on a string of bytes.\<close>

definition base64_char :: "nat \<Rightarrow> char" where
  "base64_char n =
     (if n < 26 then char_of (65 + n) else if n < 52 then char_of (71 + n)
      else if n < 62 then char_of (n - 4) else if n = 62 then CHR ''+'' else CHR ''/'')"

fun btoa :: "string \<Rightarrow> string" where
  "btoa [] = []"
| "btoa [a] = (let x = code_unit a * 16 in
     [base64_char (x div 64), base64_char (x mod 64), CHR ''='', CHR ''=''])"
| "btoa [a, b] = (let x = (code_unit a * 256 + code_unit b) * 4 in
     [base64_char (x div 4096), base64_char (x div 64 mod 64), base64_char (x mod 64), CHR ''=''])"
| "btoa (a # b # c # s) = (let x = (code_unit a * 256 + code_unit b) * 256 + code_unit c in
     [base64_char (x div 262144), base64_char (x div 4096 mod 64), base64_char (x div 64 mod 64),
      base64_char (x mod 64)] @ btoa s)"

section \<open>Lemmas\<close>


lemma code_unit_less: "code_unit c < 256"
  by (metis code_unit_def of_char_mod_256 mod_less_divisor zero_less_numeral)

lemma starts_with_take: "starts_with p s \<longleftrightarrow> take (length p) s = p"
  by (induction p s rule: starts_with.induct) auto

lemma starts_with_append [simp]: "starts_with p (p @ s)"
  by (simp add: starts_with_take)

lemma starts_with_iff: "starts_with p s \<longleftrightarrow> (\<exists>t. s = p @ t)"
  by (metis append_take_drop_id starts_with_append starts_with_take)

lemma ends_with_iff: "ends_with p s \<longleftrightarrow> (\<exists>t. s = t @ p)"
  by (metis ends_with_def rev_append rev_rev_ident starts_with_iff)

lemma str_includes_iff: "str_includes p s \<longleftrightarrow> (\<exists>u v. s = u @ p @ v)"
proof (induction s)
  case Nil
  then show ?case by auto
next
  case (Cons c s)
  show ?case
  proof
    assume "str_includes p (c # s)"
    then show "\<exists>u v. c # s = u @ p @ v"
    proof (cases "starts_with p (c # s)")
      case True
      then show ?thesis by (metis append_Nil starts_with_iff)
    next
      case False
      with \<open>str_includes p (c # s)\<close> Cons.IH show ?thesis by (metis append_Cons str_includes.simps(2))
    qed
  next
    assume "\<exists>u v. c # s = u @ p @ v"
    then obtain u v where uv: "c # s = u @ p @ v" by blast
    show "str_includes p (c # s)"
    proof (cases u)
      case Nil
      with uv have "starts_with p (c # s)" by (simp add: starts_with_iff)
      then show ?thesis by simp
    next
      case (Cons d u')
      with uv have "s = u' @ p @ v" by simp
      with Cons.IH show ?thesis by auto
    qed
  qed
qed

lemma split_on_neq_Nil [simp]: "split_on d s \<noteq> []"
  by (induction s) (auto split: list.splits)

lemma split_on_no_sep: "d \<notin> set s \<Longrightarrow> split_on d s = [s]"
  by (induction s) auto

lemma split_on_append:
  "d \<notin> set w \<Longrightarrow> split_on d (w @ d # s) = w # split_on d s"
  by (induction w) auto

lemma join_Cons: "ws \<noteq> [] \<Longrightarrow> join sep (w # ws) = w @ sep @ join sep ws"
  by (cases ws) auto

lemma join_split_on: "join [d] (split_on d s) = s"
proof (induction s)
  case Nil
  then show ?case by simp
next
  case (Cons c s)
  show ?case
  proof (cases "split_on d s")
    case Nil
    then show ?thesis by simp
  next
    case (Cons w ws)
    with Cons.IH show ?thesis
      by (cases ws) (auto simp: join_Cons)
  qed
qed

lemma split_on_join:
  assumes "ws \<noteq> []" and "\<And>w. w \<in> set ws \<Longrightarrow> d \<notin> set w"
  shows "split_on d (join [d] ws) = ws"
  using assms
proof (induction "[d]" ws rule: join.induct)
  case (2 w)
  then show ?case by (simp add: split_on_no_sep)
next
  case (3 w v ws)
  then show ?case by (simp add: split_on_append)
qed simp

lemma split_on_parts: "w \<in> set (split_on d s) \<Longrightarrow> d \<notin> set w"
proof (induction s arbitrary: w)
  case (Cons c s)
  then show ?case by (cases "split_on d s") (auto split: if_splits)
qed simp

lemma replace_all_no_match:
  assumes "\<not> str_includes pat s"
  shows "replace_all pat rep s = s"
  using assms
proof (induction s)
  case (Cons c s)
  then show ?case by auto
qed simp

lemma trim_start_Cons [simp]:
  "trim_start (c # s) = (if js_space c then trim_start s else c # s)"
  by (simp add: trim_start_def)

lemma trim_start_Nil [simp]: "trim_start [] = []"
  by (simp add: trim_start_def)

lemma trim_Nil [simp]: "trim [] = []"
  by (simp add: trim_def trim_end_def)

lemma trim_end_snoc [simp]:
  "trim_end (s @ [c]) = (if js_space c then trim_end s else s @ [c])"
  by (simp add: trim_end_def)

lemma trim_no_space:
  assumes "\<forall>c \<in> set s. \<not> js_space c"
  shows "trim s = s"
proof (cases s rule: rev_cases)
  case Nil
  then show ?thesis by simp
next
  case (snoc t c)
  from assms have "trim_start s = s" by (cases s) auto
  with snoc assms show ?thesis by (simp add: trim_def)
qed

lemma trim_hd_last:
  assumes "s \<noteq> []" and "\<not> js_space (hd s)" and "\<not> js_space (last s)"
  shows "trim s = s"
proof -
  from assms(1,2) have "trim_start s = s" by (cases s) auto
  moreover from assms(1,3) have "trim_end s = s" by (cases s rule: rev_cases) auto
  ultimately show ?thesis by (simp add: trim_def)
qed

lemma trim_start_split: "\<exists>p. s = p @ trim_start s \<and> (\<forall>c \<in> set p. js_space c)"
  by (metis set_takeWhileD takeWhile_dropWhile_id trim_start_def)

lemma trim_end_split: "\<exists>q. s = trim_end s @ q \<and> (\<forall>c \<in> set q. js_space c)"
  using trim_start_split [of "rev s"]
  by (metis rev_append rev_rev_ident set_rev trim_end_def trim_start_def)

lemma trim_ends:
  assumes "trim s = s" and "s \<noteq> []"
  shows "\<not> js_space (hd s)" and "\<not> js_space (last s)"
proof -
  show "\<not> js_space (hd s)"
  proof
    assume "js_space (hd s)"
    then have "length (trim_start s) < length s"
      using assms(2) by (cases s) (auto simp: trim_start_def length_dropWhile_le le_imp_less_Suc)
    moreover have "length (trim s) \<le> length (trim_start s)"
      by (metis length_dropWhile_le length_rev trim_def trim_end_def)
    ultimately show False using assms(1) by simp
  qed
  show "\<not> js_space (last s)"
  proof
    assume l: "js_space (last s)"
    from assms obtain t where t: "trim_start s = t" "trim_end t = s" by (simp add: trim_def)
    have "length (trim_start s) \<le> length s" by (simp add: trim_start_def length_dropWhile_le)
    moreover have "length (trim_end t) \<le> length t"
      by (metis length_dropWhile_le length_rev trim_end_def)
    ultimately have "length t = length s" using t by simp
    moreover obtain p where "s = p @ t" using trim_start_split t(1) by metis
    ultimately have "t = s" by simp
    with t(2) have "trim_end s = s" by simp
    moreover obtain w c where w: "s = w @ [c]" using assms(2) by (cases s rule: rev_cases) auto
    moreover have "length (trim_end w) \<le> length w"
      by (metis length_dropWhile_le length_rev trim_end_def)
    ultimately show False using l by (auto dest: arg_cong [where f = length])
  qed
qed

lemma set_trim_subset: "set (trim s) \<subseteq> set s"
proof -
  obtain p where "s = p @ trim_start s" using trim_start_split by blast
  moreover obtain q where "trim_start s = trim (s) @ q"
    using trim_end_split [of "trim_start s"] by (auto simp: trim_def)
  ultimately show ?thesis by (metis Un_iff set_append subsetI)
qed

lemma digits_of_nat_to_string: "c \<in> set (nat_to_string n) \<Longrightarrow> \<exists>d < 10. c = digit_char d"
proof (induction n rule: nat_to_string.induct)
  case (1 n)
  show ?case
  proof (cases "n < 10")
    case True
    with "1.prems" show ?thesis by (auto simp: nat_to_string.simps [of n])
  next
    case False
    with "1.prems" have "c \<in> set (nat_to_string (n div 10)) \<or> c = digit_char (n mod 10)"
      by (auto simp: nat_to_string.simps [of n])
    then show ?thesis
    proof
      assume "c \<in> set (nat_to_string (n div 10))"
      with False "1.IH" show ?thesis by blast
    next
      assume "c = digit_char (n mod 10)"
      then show ?thesis by (intro exI [of _ "n mod 10"]) simp
    qed
  qed
qed

lemma percent_byte_chars:
  assumes "b < 256" and "c \<in> set (percent_byte b)"
  shows "is_alnum c \<or> c = CHR 0x25"
proof -
  have hex: "is_alnum (hex_char d)" if "d < 16" for d
    using that by (auto simp: is_alnum_def is_digit_def is_alpha_def is_upper_ascii_def
        hex_char_def code_unit_def)
  from assms(1) have "b div 16 < 16" using less_mult_imp_div_less [of b 16 16] by auto
  with assms(2) hex [of "b div 16"] hex [of "b mod 16"] show ?thesis
    by (auto simp: percent_byte_def)
qed

lemma utf8_bytes_less: "b \<in> set (utf8_bytes c) \<Longrightarrow> b < 256"
  using less_mult_imp_div_less [of "code_unit c" 4 64] code_unit_less [of c] mod_less_divisor [of 64 "code_unit c"]
  by (auto simp: utf8_bytes_def Let_def split: if_splits)

lemma encoded_chars:
  assumes "c \<in> set (encode_uri_component s)"
  shows "uri_unreserved c \<or> c = CHR 0x25"
proof -
  from assms obtain x where c: "c \<in> set (if uri_unreserved x then [x] else concat (map percent_byte (utf8_bytes x)))"
    unfolding encode_uri_component_def set_concat set_map by blast
  show ?thesis
  proof (cases "uri_unreserved x")
    case True
    with c show ?thesis by simp
  next
    case False
    with c obtain b where b: "b \<in> set (utf8_bytes x)" "c \<in> set (percent_byte b)" by auto
    from percent_byte_chars [OF utf8_bytes_less [OF b(1)] b(2)] show ?thesis
      by (auto simp: uri_unreserved_def)
  qed
qed

lemma encoded_no_separator:
  assumes "c \<in> {CHR ''&'', CHR ''='', CHR ''?'', CHR ''/'', CHR ''#''}"
  shows "c \<notin> set (encode_uri_component s)"
proof -
  have "\<not> uri_unreserved c \<and> c \<noteq> CHR 0x25"
    using assms by (auto simp: uri_unreserved_def is_alnum_def is_alpha_def is_digit_def
        is_upper_ascii_def is_lower_ascii_def code_unit_def)
  then show ?thesis using encoded_chars [of c s] by blast
qed

lemma hex_char_reads:
  assumes "d < 16"
  shows "is_hex (hex_char d)" and "hex_digit_value (hex_char d) = d"
  using assms
  by (auto simp: is_hex_def hex_digit_value_def is_digit_def hex_char_def code_unit_def)

lemma read_percent_byte:
  assumes "b < 256"
  shows "read_percent (percent_byte b @ r) = Some (b, r)"
proof -
  from assms have "b div 16 < 16" using less_mult_imp_div_less [of b 16 16] by auto
  then show ?thesis by (simp add: percent_byte_def hex_char_reads)
qed

lemma percent_byte_head: "percent_byte x @ t = CHR 0x25 # tl (percent_byte x @ t)"
  by (simp add: percent_byte_def)

lemma decode_two_bytes:
  assumes "q = 2 \<or> q = 3" and "m < 64"
  shows "decode_uri_component (percent_byte (192 + q) @ percent_byte (128 + m) @ r)
    = map_option ((#) (char_of (64 * q + m))) (decode_uri_component r)"
  using assms
  by (subst percent_byte_head, subst decode_uri_component.simps)
    (auto simp: percent_byte_head [symmetric] read_percent_byte simp del: append_assoc)

lemma decode_encoded_char:
  "decode_uri_component ((if uri_unreserved c then [c] else concat (map percent_byte (utf8_bytes c))) @ r)
     = map_option ((#) c) (decode_uri_component r)"
proof -
  consider "uri_unreserved c" | "\<not> uri_unreserved c" "code_unit c < 128"
    | "\<not> uri_unreserved c" "128 \<le> code_unit c" by linarith
  then show ?thesis
  proof cases
    case 1
    then have "c \<noteq> CHR 0x25"
      by (auto simp: uri_unreserved_def is_alnum_def is_alpha_def is_digit_def is_upper_ascii_def
          is_lower_ascii_def code_unit_def)
    with 1 show ?thesis by simp
  next
    case 2
    then have "decode_uri_component (percent_byte (code_unit c) @ r)
        = map_option ((#) (char_of (code_unit c))) (decode_uri_component r)"
      by (subst percent_byte_head, subst decode_uri_component.simps)
        (simp add: percent_byte_head [symmetric] read_percent_byte)
    with 2 show ?thesis by (simp add: utf8_bytes_def code_unit_def)
  next
    case 3
    let ?n = "code_unit c"
    have q: "?n div 64 = 2 \<or> ?n div 64 = 3" "?n mod 64 < 64"
      using 3(2) code_unit_less [of c] less_mult_imp_div_less [of ?n 4 64] div_le_mono [of 128 ?n 64] by auto
    have "decode_uri_component (percent_byte (192 + ?n div 64) @ percent_byte (128 + ?n mod 64) @ r)
        = map_option ((#) (char_of (64 * (?n div 64) + ?n mod 64))) (decode_uri_component r)"
      by (rule decode_two_bytes) (use q in auto)
    moreover have "64 * (?n div 64) + ?n mod 64 = ?n" by simp
    ultimately have "decode_uri_component (percent_byte (192 + ?n div 64) @ percent_byte (128 + ?n mod 64) @ r)
        = map_option ((#) (char_of ?n)) (decode_uri_component r)" by metis
    with 3 show ?thesis by (simp add: utf8_bytes_def code_unit_def Let_def)
  qed
qed

lemma decode_encode: "decode_uri_component (encode_uri_component s) = Some s"
proof (induction s)
  case Nil
  then show ?case by (simp add: encode_uri_component_def)
next
  case (Cons c s)
  then show ?case using decode_encoded_char [of c "encode_uri_component s"]
    by (simp add: encode_uri_component_def)
qed

end
