(* ===== verification/Js_Json.thy ===== *)
theory Js_Json
  imports Js_String Complex_Main
begin

text \<open>
  JSON values, \<open>JSON.parse\<close>, \<open>JSON.stringify\<close> and the coercions \<open>String(x)\<close> and
  \<open>Number(x)\<close> as the source uses them. A JSON number is an exact rational: decimal literals are
  read without the rounding to a double, and a number is printed from its finite decimal expansion
  (at most 25 decimal places). A \<open>\u\<close> escape above 00FF is outside the string model.
\<close>

section \<open>Values\<close>

datatype json =
    JNull
  | JBool bool
  | JNum rat
  | JStr string
  | JArr "json list"
  | JObj "(string \<times> json) list"

text \<open>A value of type \<open>unknown\<close>: a JSON value or \<open>undefined\<close>.\<close>

type_synonym jsval = "json option"

text \<open>Numbers as \<open>Number(x)\<close> gives them.\<close>

datatype jsnum = NaN | PosInf | NegInf | Fin rat

fun num_less :: "jsnum \<Rightarrow> jsnum \<Rightarrow> bool" where
  "num_less NaN y = False"
| "num_less x NaN = False"
| "num_less (Fin a) (Fin b) = (a < b)"
| "num_less NegInf y = (y \<noteq> NegInf)"
| "num_less x PosInf = (x \<noteq> PosInf)"
| "num_less x y = False"

definition num_finite :: "jsnum \<Rightarrow> bool" where
  "num_finite x = (case x of Fin _ \<Rightarrow> True | _ \<Rightarrow> False)"

section \<open>Reading decimal numerals\<close>

definition digit_value :: "char \<Rightarrow> nat" where
  "digit_value c = code_unit c - 48"

definition digits_value :: "string \<Rightarrow> nat" where
  "digits_value ds = foldl (\<lambda>a c. 10 * a + digit_value c) 0 ds"

definition decimal_value :: "string \<Rightarrow> string \<Rightarrow> int \<Rightarrow> rat" where
  "decimal_value i f e =
     (let m = rat_of_nat (digits_value (i @ f)) / 10 ^ length f in
      if e < 0 then m / 10 ^ nat (- e) else m * 10 ^ nat e)"

text \<open>An optional exponent: the rest is \<open>None\<close> when the marker has no digits after it.\<close>

definition read_exponent :: "string \<Rightarrow> (int \<times> string) option" where
  "read_exponent s =
     (case s of
        c # r \<Rightarrow>
          if c = CHR ''e'' \<or> c = CHR ''E'' then
            (let (sgn, r') = (case r of
                 d # r'' \<Rightarrow> if d = CHR ''-'' then (-1, r'') else if d = CHR ''+'' then (1, r'') else (1, r)
               | [] \<Rightarrow> (1::int, r));
                 ds = takeWhile is_digit r' in
             if ds = [] then None else Some (sgn * int (digits_value ds), dropWhile is_digit r'))
          else Some (0, s)
      | [] \<Rightarrow> Some (0, s))"

text \<open>The JSON grammar for the part of a number after the sign.\<close>

definition read_json_unsigned :: "string \<Rightarrow> (rat \<times> string) option" where
  "read_json_unsigned s =
     (let ip = takeWhile is_digit s; r = dropWhile is_digit s in
      if ip = [] \<or> (hd ip = CHR ''0'' \<and> length ip > 1) then None
      else
        (let fr = (case r of
             d # r' \<Rightarrow>
               if d = CHR ''.'' then
                 (if takeWhile is_digit r' = [] then None
                  else Some (takeWhile is_digit r', dropWhile is_digit r'))
               else Some ([], r)
           | [] \<Rightarrow> Some ([], r)) in
         case fr of
           None \<Rightarrow> None
         | Some (fp, r2) \<Rightarrow>
             (case read_exponent r2 of
                None \<Rightarrow> None
              | Some (e, r3) \<Rightarrow> Some (decimal_value ip fp e, r3))))"

definition read_json_number :: "string \<Rightarrow> (rat \<times> string) option" where
  "read_json_number s =
     (case s of
        c # r \<Rightarrow>
          if c = CHR ''-'' then map_option (\<lambda>(x, t). (- x, t)) (read_json_unsigned r)
          else read_json_unsigned s
      | [] \<Rightarrow> None)"

section \<open>JSON.parse\<close>

definition json_space :: "char \<Rightarrow> bool" where
  "json_space c \<longleftrightarrow> c = CHR 0x20 \<or> c = CHR 0x09 \<or> c = CHR 0x0A \<or> c = CHR 0x0D"

definition skip_ws :: "string \<Rightarrow> string" where
  "skip_ws s = dropWhile json_space s"

definition hex_value :: "char \<Rightarrow> nat" where
  "hex_value c =
     (if is_digit c then code_unit c - 48
      else if code_unit c \<le> 70 then code_unit c - 55 else code_unit c - 87)"

text \<open>The characters of a string literal after the opening quote, up to the closing one.\<close>

fun read_chars :: "string \<Rightarrow> (string \<times> string) option" where
  "read_chars [] = None"
| "read_chars (c # s) =
     (if c = dquote then Some ([], s)
      else if c = backslash then
        (case s of
           [] \<Rightarrow> None
         | e # t \<Rightarrow>
             if e = CHR ''u'' then
               (case t of
                  h1 # h2 # h3 # h4 # t' \<Rightarrow>
                    if is_hex h1 \<and> is_hex h2 \<and> is_hex h3 \<and> is_hex h4
                    then map_option
                           (\<lambda>(w, r). (char_of (4096 * hex_value h1 + 256 * hex_value h2
                                               + 16 * hex_value h3 + hex_value h4) # w, r))
                           (read_chars t')
                    else None
                | _ \<Rightarrow> None)
             else
               (case map_of [(dquote, dquote), (backslash, backslash), (CHR ''/'', CHR ''/''),
                             (CHR ''b'', CHR 0x08), (CHR ''f'', CHR 0x0C), (CHR ''n'', CHR 0x0A),
                             (CHR ''r'', CHR 0x0D), (CHR ''t'', CHR 0x09)] e of
                  None \<Rightarrow> None
                | Some d \<Rightarrow> map_option (\<lambda>(w, r). (d # w, r)) (read_chars t)))
      else if code_unit c < 32 then None
      else map_option (\<lambda>(w, r). (c # w, r)) (read_chars s))"

text \<open>
  Recursive descent. The first argument bounds the depth of the calls; \<open>json_parse\<close> starts with
  twice the length of the text, which is enough because every second call consumes a character.
  Duplicate keys of an object keep the first position and the last value.
\<close>

fun read_value :: "nat \<Rightarrow> string \<Rightarrow> (json \<times> string) option"
  and read_elems :: "nat \<Rightarrow> string \<Rightarrow> (json list \<times> string) option"
  and read_members :: "nat \<Rightarrow> string \<Rightarrow> (string \<times> json) list \<Rightarrow> ((string \<times> json) list \<times> string) option"
where
  "read_value 0 s = None"
| "read_value (Suc n) s =
     (case skip_ws s of
        [] \<Rightarrow> None
      | c # r \<Rightarrow>
          if c = lbrace then
            (if starts_with ''}'' (skip_ws r) then Some (JObj [], tl (skip_ws r))
             else map_option (\<lambda>(ms, t). (JObj ms, t)) (read_members n r []))
          else if c = CHR ''['' then
            (if starts_with '']'' (skip_ws r) then Some (JArr [], tl (skip_ws r))
             else map_option (\<lambda>(vs, t). (JArr vs, t)) (read_elems n r))
          else if c = dquote then map_option (\<lambda>(w, t). (JStr w, t)) (read_chars r)
          else if starts_with ''true'' (c # r) then Some (JBool True, drop 4 (c # r))
          else if starts_with ''false'' (c # r) then Some (JBool False, drop 5 (c # r))
          else if starts_with ''null'' (c # r) then Some (JNull, drop 4 (c # r))
          else map_option (\<lambda>(x, t). (JNum x, t)) (read_json_number (c # r)))"
| "read_elems 0 s = None"
| "read_elems (Suc n) s =
     (case read_value n s of
        None \<Rightarrow> None
      | Some (v, t) \<Rightarrow>
          (case skip_ws t of
             d # t' \<Rightarrow>
               if d = CHR '','' then map_option (\<lambda>(vs, u). (v # vs, u)) (read_elems n t')
               else if d = CHR '']'' then Some ([v], t') else None
           | [] \<Rightarrow> None))"
| "read_members 0 s acc = None"
| "read_members (Suc n) s acc =
     (case skip_ws s of
        q # r \<Rightarrow>
          if q = dquote then
            (case read_chars r of
               None \<Rightarrow> None
             | Some (k, t) \<Rightarrow>
                 (case skip_ws t of
                    cl # t' \<Rightarrow>
                      if cl = CHR '':'' then
                        (case read_value n t' of
                           None \<Rightarrow> None
                         | Some (v, u) \<Rightarrow>
                             (case skip_ws u of
                                d # u' \<Rightarrow>
                                  if d = CHR '','' then read_members n u' (AList.update k v acc)
                                  else if d = rbrace then Some (AList.update k v acc, u')
                                  else None
                              | [] \<Rightarrow> None))
                      else None
                  | [] \<Rightarrow> None))
          else None
      | [] \<Rightarrow> None)"

definition json_parse :: "string \<Rightarrow> json option" where
  "json_parse s =
     (case read_value (2 * length s + 2) s of
        Some (v, t) \<Rightarrow> if skip_ws t = [] then Some v else None
      | None \<Rightarrow> None)"

section \<open>Number and string printing\<close>

definition is_integral :: "rat \<Rightarrow> bool" where
  "is_integral x \<longleftrightarrow> snd (quotient_of x) = 1"

fun decimals_needed :: "nat \<Rightarrow> rat \<Rightarrow> nat" where
  "decimals_needed 0 x = 0"
| "decimals_needed (Suc n) x = (if is_integral x then 0 else Suc (decimals_needed n (10 * x)))"

definition strip_trailing_zeros :: "string \<Rightarrow> string" where
  "strip_trailing_zeros ds = rev (dropWhile (\<lambda>c. c = CHR ''0'') (rev ds))"

text \<open>Significant digits with the decimal exponent of the first one, for exponent notation.\<close>

definition exponent_form :: "string \<Rightarrow> int \<Rightarrow> string" where
  "exponent_form ds e =
     (let sig = strip_trailing_zeros ds in
      [hd sig] @ (if length sig > 1 then ''.'' @ tl sig else [])
      @ ''e'' @ (if e < 0 then ''-'' else ''+'') @ nat_to_string (nat (abs e)))"

definition pos_num_to_string :: "rat \<Rightarrow> string" where
  "pos_num_to_string x =
     (let k = decimals_needed 25 x;
          m = nat \<lfloor>x * 10 ^ k\<rfloor>;
          ds = nat_to_string m;
          e = int (length ds) - 1 - int k in
      if k = 0 \<and> x < 10 ^ 21 then ds
      else if x \<ge> 10 ^ 21 \<or> x < 1 / 10 ^ 6 then exponent_form ds e
      else
        (let padded = replicate (k + 1 - length ds) (CHR ''0'') @ ds; i = length padded - k in
         take i padded @ ''.'' @ drop i padded))"

definition num_to_string :: "rat \<Rightarrow> string" where
  "num_to_string x = (if x < 0 then ''-'' @ pos_num_to_string (- x) else pos_num_to_string x)"

definition low_hex_char :: "nat \<Rightarrow> char" where
  "low_hex_char d = (if d < 10 then char_of (48 + d) else char_of (87 + d))"

definition quote_char :: "char \<Rightarrow> string" where
  "quote_char c =
     (if c = dquote then [backslash, dquote]
      else if c = backslash then [backslash, backslash]
      else if c = CHR 0x08 then [backslash, CHR ''b'']
      else if c = CHR 0x0C then [backslash, CHR ''f'']
      else if c = CHR 0x0A then [backslash, CHR ''n'']
      else if c = CHR 0x0D then [backslash, CHR ''r'']
      else if c = CHR 0x09 then [backslash, CHR ''t'']
      else if code_unit c < 32
      then [backslash, CHR ''u'', CHR ''0'', CHR ''0'', low_hex_char (code_unit c div 16),
            low_hex_char (code_unit c mod 16)]
      else [c])"

text \<open>\<open>JSON.stringify\<close> of a string.\<close>

definition json_quote :: "string \<Rightarrow> string" where
  "json_quote s = [dquote] @ concat (map quote_char s) @ [dquote]"

section \<open>JSON.stringify\<close>

fun json_stringify :: "json \<Rightarrow> string"
  and stringify_list :: "json list \<Rightarrow> string"
  and stringify_members :: "(string \<times> json) list \<Rightarrow> string"
where
  "json_stringify JNull = ''null''"
| "json_stringify (JBool b) = (if b then ''true'' else ''false'')"
| "json_stringify (JNum x) = num_to_string x"
| "json_stringify (JStr s) = json_quote s"
| "json_stringify (JArr vs) = ''['' @ stringify_list vs @ '']''"
| "json_stringify (JObj ms) = ''{'' @ stringify_members ms @ ''}''"
| "stringify_list [] = []"
| "stringify_list (v # vs) = json_stringify v @ (if vs = [] then [] else '','' @ stringify_list vs)"
| "stringify_members [] = []"
| "stringify_members ((k, v) # ms) =
     json_quote k @ '':'' @ json_stringify v @ (if ms = [] then [] else '','' @ stringify_members ms)"

text \<open>\<open>JSON.stringify(v, null, n)\<close>, with the current indentation as the second argument.\<close>

fun json_pretty :: "nat \<Rightarrow> nat \<Rightarrow> json \<Rightarrow> string"
  and pretty_list :: "nat \<Rightarrow> nat \<Rightarrow> json list \<Rightarrow> string"
  and pretty_members :: "nat \<Rightarrow> nat \<Rightarrow> (string \<times> json) list \<Rightarrow> string"
where
  "json_pretty n i JNull = ''null''"
| "json_pretty n i (JBool b) = (if b then ''true'' else ''false'')"
| "json_pretty n i (JNum x) = num_to_string x"
| "json_pretty n i (JStr s) = json_quote s"
| "json_pretty n i (JArr vs) =
     (if vs = [] then ''[]''
      else ''['' @ [newline] @ pretty_list n (i + n) vs @ [newline] @ replicate i CHR '' '' @ '']'')"
| "json_pretty n i (JObj ms) =
     (if ms = [] then ''{}''
      else ''{'' @ [newline] @ pretty_members n (i + n) ms @ [newline] @ replicate i CHR '' '' @ ''}'')"
| "pretty_list n i [] = []"
| "pretty_list n i (v # vs) =
     replicate i CHR '' '' @ json_pretty n i v
     @ (if vs = [] then [] else '','' @ [newline] @ pretty_list n i vs)"
| "pretty_members n i [] = []"
| "pretty_members n i ((k, v) # ms) =
     replicate i CHR '' '' @ json_quote k @ '': '' @ json_pretty n i v
     @ (if ms = [] then [] else '','' @ [newline] @ pretty_members n i ms)"

section \<open>String(x) and Number(x)\<close>

text \<open>An array prints its elements joined by commas, null and undefined elements as empty.\<close>

fun json_to_string :: "json \<Rightarrow> string"
  and elems_to_string :: "json list \<Rightarrow> string"
where
  "json_to_string JNull = ''null''"
| "json_to_string (JBool b) = (if b then ''true'' else ''false'')"
| "json_to_string (JNum x) = num_to_string x"
| "json_to_string (JStr s) = s"
| "json_to_string (JArr vs) = elems_to_string vs"
| "json_to_string (JObj ms) = ''[object Object]''"
| "elems_to_string [] = []"
| "elems_to_string (v # vs) =
     (if v = JNull then [] else json_to_string v)
     @ (if vs = [] then [] else '','' @ elems_to_string vs)"

definition js_to_string :: "jsval \<Rightarrow> string" where
  "js_to_string x = (case x of None \<Rightarrow> ''undefined'' | Some v \<Rightarrow> json_to_string v)"

text \<open>The decimal literals \<open>Number\<close> accepts: digits on at least one side of the point.\<close>

definition read_js_unsigned :: "string \<Rightarrow> jsnum" where
  "read_js_unsigned s =
     (if s = ''Infinity'' then PosInf
      else
        (let ip = takeWhile is_digit s; r = dropWhile is_digit s;
             fp = (if starts_with ''.'' r then takeWhile is_digit (tl r) else []);
             r2 = (if starts_with ''.'' r then dropWhile is_digit (tl r) else r) in
         if ip = [] \<and> fp = [] then NaN
         else
           (case read_exponent r2 of
              Some (e, []) \<Rightarrow> Fin (decimal_value ip fp e)
            | _ \<Rightarrow> NaN)))"

definition num_neg :: "jsnum \<Rightarrow> jsnum" where
  "num_neg x = (case x of Fin r \<Rightarrow> Fin (- r) | PosInf \<Rightarrow> NegInf | NegInf \<Rightarrow> PosInf | NaN \<Rightarrow> NaN)"

definition radix_digit :: "nat \<Rightarrow> char \<Rightarrow> bool" where
  "radix_digit b c \<longleftrightarrow> is_hex c \<and> hex_value c < b"

definition radix_value :: "nat \<Rightarrow> string \<Rightarrow> jsnum" where
  "radix_value b ds =
     (if ds = [] \<or> \<not> list_all (radix_digit b) ds then NaN
      else Fin (rat_of_nat (foldl (\<lambda>a c. b * a + hex_value c) 0 ds)))"

definition string_to_number :: "string \<Rightarrow> jsnum" where
  "string_to_number str =
     (case trim str of
        [] \<Rightarrow> Fin 0
      | c # r \<Rightarrow>
          if c = CHR ''-'' then num_neg (read_js_unsigned r)
          else if c = CHR ''+'' then read_js_unsigned r
          else if c = CHR ''0'' \<and> r \<noteq> [] \<and> hd r \<in> {CHR ''x'', CHR ''X''} then radix_value 16 (tl r)
          else if c = CHR ''0'' \<and> r \<noteq> [] \<and> hd r \<in> {CHR ''o'', CHR ''O''} then radix_value 8 (tl r)
          else if c = CHR ''0'' \<and> r \<noteq> [] \<and> hd r \<in> {CHR ''b'', CHR ''B''} then radix_value 2 (tl r)
          else read_js_unsigned (c # r))"

definition js_to_number :: "jsval \<Rightarrow> jsnum" where
  "js_to_number x =
     (case x of
        None \<Rightarrow> NaN
      | Some JNull \<Rightarrow> Fin 0
      | Some (JBool b) \<Rightarrow> Fin (if b then 1 else 0)
      | Some (JNum r) \<Rightarrow> Fin r
      | Some (JStr s) \<Rightarrow> string_to_number s
      | Some (JArr vs) \<Rightarrow> string_to_number (elems_to_string vs)
      | Some (JObj ms) \<Rightarrow> NaN)"

end
