(* ===== verification/Types.thy ===== *)
theory Types
  imports Js_Json
begin

text \<open>
  The data model of packages/core/src/types: key/value rows, authentication, requests of the four
  protocols, responses, assertions, extraction rules, history and the saved workspace. A field
  declared with \<open>?\<close> is an option; milliseconds, counters and statuses are integers, measured
  durations rationals. A closed union of string literals is a datatype; where the code that reads
  it has a \<open>default\<close> branch for other strings, the datatype has a constructor for them.
\<close>

section \<open>Common unions\<close>

datatype body_mode = BM_none | BM_json | BM_form_data | BM_urlencoded | BM_raw | BM_file
  | BM_graphql_multipart

datatype auth_kind = AT_none | AT_basic | AT_bearer | AT_api_key | AT_oauth2 | AT_digest
  | AT_aws_sigv4 | AT_ntlm

datatype protocol = P_rest | P_graphql | P_websocket | P_grpc

datatype assertion_kind = AK_status | AK_responseTime | AK_header | AK_bodyJsonPath | AK_bodySchema
  | AK_regex | AK_other string

datatype matcher = M_equals | M_notEquals | M_exists | M_gt | M_lt | M_contains | M_matches
  | M_other string

datatype extraction_source = ES_body | ES_header | ES_status

datatype flow_status = FS_passed | FS_failed | FS_cancelled

datatype flow_step_type = FT_request | FT_delay | FT_condition | FT_loop

datatype mock_source = MS_header | MS_query | MS_bodyJsonPath

datatype kv_kind = KV_text | KV_file

record key_value =
  kv_id :: "string option"
  kv_key :: string
  kv_value :: string
  kv_enabled :: "bool option"
  kv_sensitive :: "bool option"
  kv_type :: "kv_kind option"
  kv_file_name :: "string option"

text \<open>An object literal \<open>{ key, value, enabled: true }\<close>, and one with only key and value.\<close>

definition kv_on :: "string \<Rightarrow> string \<Rightarrow> key_value" where
  "kv_on k v = \<lparr>kv_id = None, kv_key = k, kv_value = v, kv_enabled = Some True,
     kv_sensitive = None, kv_type = None, kv_file_name = None\<rparr>"

definition kv_pair :: "string \<Rightarrow> string \<Rightarrow> key_value" where
  "kv_pair k v = \<lparr>kv_id = None, kv_key = k, kv_value = v, kv_enabled = None,
     kv_sensitive = None, kv_type = None, kv_file_name = None\<rparr>"

text \<open>The test \<open>item.enabled !== false && item.key.trim()\<close> of the source.\<close>

definition kv_active :: "key_value \<Rightarrow> bool" where
  "kv_active p \<longleftrightarrow> kv_enabled p \<noteq> Some False \<and> trim (kv_key p) \<noteq> []"

section \<open>Authentication\<close>

datatype api_key_in = In_header | In_query

datatype oauth_flow = Client_credentials | Authorization_code

record auth_config =
  au_type :: auth_kind
  au_username :: "string option"
  au_password :: "string option"
  au_token :: "string option"
  au_apiKeyName :: "string option"
  au_apiKeyValue :: "string option"
  au_apiKeyIn :: "api_key_in option"
  au_tokenUrl :: "string option"
  au_clientId :: "string option"
  au_clientSecret :: "string option"
  au_scope :: "string option"
  au_awsAccessKeyId :: "string option"
  au_awsSecretAccessKey :: "string option"
  au_awsSessionToken :: "string option"
  au_awsRegion :: "string option"
  au_awsService :: "string option"
  au_flow :: "oauth_flow option"
  au_authUrl :: "string option"
  au_redirectUri :: "string option"
  au_pkce :: "bool option"
  au_accessToken :: "string option"
  au_refreshToken :: "string option"
  au_tokenExpiresAt :: "int option"
  au_ntlmUsername :: "string option"
  au_ntlmPassword :: "string option"
  au_ntlmDomain :: "string option"

text \<open>The object literal \<open>{ type: "none" }\<close>.\<close>

definition auth_none :: auth_config where
  "auth_none = \<lparr>au_type = AT_none, au_username = None, au_password = None, au_token = None,
     au_apiKeyName = None, au_apiKeyValue = None, au_apiKeyIn = None, au_tokenUrl = None,
     au_clientId = None, au_clientSecret = None, au_scope = None, au_awsAccessKeyId = None,
     au_awsSecretAccessKey = None, au_awsSessionToken = None, au_awsRegion = None,
     au_awsService = None, au_flow = None, au_authUrl = None, au_redirectUri = None,
     au_pkce = None, au_accessToken = None, au_refreshToken = None, au_tokenExpiresAt = None,
     au_ntlmUsername = None, au_ntlmPassword = None, au_ntlmDomain = None\<rparr>"

section \<open>Requests\<close>

record retry_policy =
  rp_maxRetries :: int
  rp_retryOnTimeout :: bool
  rp_retryOn5xx :: bool
  rp_backoffMs :: int

datatype http_version = HV_auto | HV_http1 | HV_h2c

record tls_client_config =
  tc_clientCertPem :: "string option"
  tc_clientKeyPem :: "string option"
  tc_caCertPem :: "string option"
  tc_serverName :: "string option"

datatype proxy_kind = PK_http | PK_socks5

record proxy_config =
  px_type :: proxy_kind
  px_url :: string
  px_username :: "string option"
  px_password :: "string option"

record request_options =
  ro_followRedirects :: "bool option"
  ro_maxRedirects :: "int option"
  ro_verifySsl :: "bool option"
  ro_allowPrivateAddresses :: "bool option"
  ro_connectTimeoutMs :: "int option"
  ro_readTimeoutMs :: "int option"
  ro_httpVersion :: "http_version option"
  ro_tlsClientConfig :: "tls_client_config option"
  ro_proxy :: "proxy_config option"

definition options_empty :: request_options where
  "options_empty = \<lparr>ro_followRedirects = None, ro_maxRedirects = None, ro_verifySsl = None,
     ro_allowPrivateAddresses = None, ro_connectTimeoutMs = None, ro_readTimeoutMs = None,
     ro_httpVersion = None, ro_tlsClientConfig = None, ro_proxy = None\<rparr>"

definition tls_empty :: tls_client_config where
  "tls_empty = \<lparr>tc_clientCertPem = None, tc_clientKeyPem = None, tc_caCertPem = None,
     tc_serverName = None\<rparr>"

record request_scripts =
  sc_preRequest :: "string option"
  sc_postResponse :: "string option"

record extraction_rule =
  er_id :: "string option"
  er_variableName :: string
  er_source :: extraction_source
  er_expression :: string
  er_fallback :: "string option"
  er_enabled :: "bool option"

record assertion =
  as_id :: string
  as_type :: assertion_kind
  as_expression :: string
  as_matcher :: matcher
  as_expected :: string
  as_enabled :: "bool option"

record request_config =
  rq_method :: string
  rq_url :: string
  rq_params :: "key_value list"
  rq_headers :: "key_value list"
  rq_bodyMode :: body_mode
  rq_body :: string
  rq_bodyFileName :: "string option"
  rq_auth :: auth_config
  rq_timeoutMs :: int
  rq_variables :: "key_value list option"
  rq_pathVariables :: "key_value list option"
  rq_assertions :: "assertion list option"
  rq_extractionRules :: "extraction_rule list option"
  rq_options :: "request_options option"
  rq_scripts :: "request_scripts option"
  rq_retryPolicy :: "retry_policy option"

datatype http_get_post = HM_POST | HM_GET

record graphql_request =
  gq_protocol :: "protocol option"
  gq_url :: string
  gq_headers :: "key_value list"
  gq_auth :: auth_config
  gq_query :: string
  gq_variables :: string
  gq_operationName :: "string option"
  gq_timeoutMs :: int
  gq_assertions :: "assertion list option"
  gq_extractionRules :: "extraction_rule list option"
  gq_options :: "request_options option"
  gq_scripts :: "request_scripts option"
  gq_apq :: "bool option"
  gq_batchMode :: "bool option"
  gq_httpMethod :: "http_get_post option"
  gq_contentType :: "string option"

datatype ws_preset = WP_none | WP_graphql_transport_ws

datatype ws_mode = WM_text | WM_json

datatype ws_saved_type = WST_text | WST_binary

record ws_saved_message =
  wm_id :: string
  wm_label :: string
  wm_body :: string
  wm_type :: ws_saved_type
  wm_autoSend :: bool

record websocket_request =
  wq_url :: string
  wq_protocols :: "string option"
  wq_headers :: "key_value list"
  wq_auth :: auth_config
  wq_messageMode :: ws_mode
  wq_message :: string
  wq_timeoutMs :: "int option"
  wq_variables :: "key_value list option"
  wq_options :: "request_options option"
  wq_scripts :: "request_scripts option"
  wq_savedMessages :: "ws_saved_message list option"
  wq_autoReconnect :: "bool option"
  wq_reconnectDelay :: "int option"
  wq_reconnectMaxRetries :: "int option"
  wq_preset :: "ws_preset option"
  wq_presetQuery :: "string option"
  wq_presetVariables :: "string option"
  wq_ndjsonMode :: "bool option"
  wq_origin :: "string option"

record grpc_saved_message =
  gm_id :: string
  gm_name :: string
  gm_body :: string

datatype grpc_compression = GC_none | GC_gzip

record grpc_request =
  rg_address :: string
  rg_service :: string
  rg_method :: string
  rg_metadata :: "key_value list"
  rg_body :: string
  rg_tls :: bool
  rg_timeoutMs :: int
  rg_auth :: "auth_config option"
  rg_variables :: "key_value list option"
  rg_assertions :: "assertion list option"
  rg_extractionRules :: "extraction_rule list option"
  rg_options :: "request_options option"
  rg_scripts :: "request_scripts option"
  rg_protosetBase64 :: "string option"
  rg_compression :: "grpc_compression option"
  rg_savedMessages :: "grpc_saved_message list option"
  rg_maxRecvMsgSize :: "int option"
  rg_maxSendMsgSize :: "int option"

datatype protocol_request =
    RestRequest request_config
  | GraphQLRequest graphql_request
  | WebSocketRequest websocket_request
  | GrpcRequest grpc_request

section \<open>Responses\<close>

record timing =
  tm_dnsMs :: rat
  tm_tcpMs :: rat
  tm_tlsMs :: rat
  tm_ttfbMs :: rat
  tm_transferMs :: rat
  tm_totalMs :: rat

datatype timing_phase_name = TP_dns | TP_tcp | TP_tls | TP_ttfb | TP_transfer

record timing_phase =
  tp_name :: timing_phase_name
  tp_startMs :: rat
  tp_durationMs :: rat

record timing_attempt =
  ta_url :: string
  ta_status :: "int option"
  ta_headers :: "key_value list"
  ta_timing :: timing
  ta_phases :: "timing_phase list"
  ta_redirect :: bool

record certificate_info =
  ci_subject :: string
  ci_issuer :: string
  ci_notBefore :: string
  ci_notAfter :: string
  ci_dnsNames :: "string list"
  ci_serialNumber :: string
  ci_sha256Fingerprint :: string

record tls_info =
  ti_version :: string
  ti_cipherSuite :: string
  ti_certificates :: "certificate_info list"

record redirect_info =
  rd_url :: string
  rd_status :: int
  rd_headers :: "key_value list"
  rd_timing :: "timing option"
  rd_phases :: "timing_phase list option"

datatype body_encoding = BE_utf8 | BE_base64

record execute_response =
  rs_status :: int
  rs_statusText :: string
  rs_headers :: "key_value list"
  rs_body :: string
  rs_bodyEncoding :: "body_encoding option"
  rs_timing :: "timing option"
  rs_attempts :: "timing_attempt list option"
  rs_tls :: "tls_info option"
  rs_redirects :: "redirect_info list option"
  rs_requestSize :: int
  rs_responseSize :: int
  rs_error :: "string option"

section \<open>Values of type unknown\<close>

text \<open>
  What an assertion compares: \<open>undefined\<close>, a JSON value, or one of the numbers JSON has no
  literal for (\<open>Number(x)\<close> may give them).
\<close>

datatype unknown = Undefined | Json json | NonFinite jsnum

definition unknown_of_num :: "jsnum \<Rightarrow> unknown" where
  "unknown_of_num n = (case n of Fin r \<Rightarrow> Json (JNum r) | _ \<Rightarrow> NonFinite n)"

definition unknown_of_jsval :: "jsval \<Rightarrow> unknown" where
  "unknown_of_jsval v = (case v of None \<Rightarrow> Undefined | Some j \<Rightarrow> Json j)"

text \<open>A validator's error object, as far as the code reads it.\<close>

record schema_error =
  se_instancePath :: string
  se_message :: "string option"

record assertion_result =
  ar_assertionId :: string
  ar_passed :: bool
  ar_actual :: unknown
  ar_expected :: unknown
  ar_message :: string

section \<open>Variables, environments and saved entities\<close>

datatype scope_variables = Rows "key_value list" | Dict "string obj"

record variable_scope =
  vs_name :: "string option"
  vs_variables :: scope_variables

record environment =
  en_id :: string
  en_name :: string
  en_variables :: "key_value list"
  en_createdAt :: int
  en_updatedAt :: int

record collection =
  co_id :: string
  co_name :: string
  co_description :: "string option"
  co_variables :: "key_value list option"
  co_sortOrder :: "int option"
  co_createdAt :: int
  co_updatedAt :: int

record folder =
  fo_id :: string
  fo_collectionId :: string
  fo_parentFolderId :: "string option"
  fo_name :: string
  fo_description :: "string option"
  fo_variables :: "key_value list option"
  fo_sortOrder :: int
  fo_createdAt :: int
  fo_updatedAt :: int

datatype request_mode = RM_server | RM_browser

record saved_request =
  sr_id :: string
  sr_collectionId :: string
  sr_folderId :: "string option"
  sr_name :: string
  sr_protocol :: protocol
  sr_request :: protocol_request
  sr_requestMode :: "request_mode option"
  sr_sortOrder :: int
  sr_createdAt :: int
  sr_updatedAt :: int

record history_entry =
  he_id :: string
  he_request :: protocol_request
  he_response :: "execute_response option"
  he_assertions :: "assertion_result list option"
  he_environmentId :: "string option"
  he_requestId :: "string option"
  he_collectionId :: "string option"
  he_protocol :: "protocol option"
  he_requestMode :: "request_mode option"
  he_createdAt :: int
  he_pinned :: "bool option"
  he_label :: "string option"

record retention_settings =
  rt_maxEntries :: int
  rt_retentionDays :: int

record stored_cookie =
  ck_id :: string
  ck_domain :: string
  ck_path :: string
  ck_name :: string
  ck_value :: string
  ck_secure :: bool
  ck_httpOnly :: bool
  ck_sameSite :: "string option"
  ck_expires :: "int option"
  ck_createdAt :: int
  ck_updatedAt :: int

section \<open>Lemmas\<close>

lemma kv_active_on [simp]: "kv_active (kv_on k v) \<longleftrightarrow> trim k \<noteq> []"
  by (simp add: kv_active_def kv_on_def)

lemma kv_on_sel [simp]:
  "kv_key (kv_on k v) = k" "kv_value (kv_on k v) = v" "kv_enabled (kv_on k v) = Some True"
  by (simp_all add: kv_on_def)

lemma kv_pair_sel [simp]:
  "kv_key (kv_pair k v) = k" "kv_value (kv_pair k v) = v" "kv_enabled (kv_pair k v) = None"
  by (simp_all add: kv_pair_def)

end
