(* ===== verification/Js_Host.thy ===== *)
theory Js_Host
  imports Types
begin

text \<open>
  What the source takes from its host and from third-party packages, as the fields of one record
  passed to the definitions that use it: the URL parser, the regular expression engine, locale
  collation, web crypto, the JSONPath and JSON Schema packages. Nothing is assumed of a field
  unless a theorem names the assumption.
\<close>

section \<open>Parsed URLs\<close>

record url_parts =
  up_protocol :: string
  up_hostname :: string
  up_host :: string
  up_pathname :: string
  up_search :: string
  up_query :: "(string \<times> string) list"

section \<open>The host\<close>

text \<open>
  \<open>ho_url\<close> is \<open>new URL(s)\<close> (\<open>None\<close>: it raises a \<open>TypeError\<close>); \<open>ho_url_append\<close> the \<open>toString()\<close>
  after \<open>searchParams.append\<close> of the pairs; \<open>ho_url_clear_query\<close> the one after \<open>search = ""\<close>.
  \<open>ho_regex p f\<close> is \<open>new RegExp(p, f)\<close> used through \<open>test\<close> (\<open>None\<close>: a \<open>SyntaxError\<close>).
  \<open>ho_date_parse\<close> is the time value of \<open>new Date(s)\<close> (\<open>None\<close>: not a number), \<open>ho_syntax_message\<close>
  the engine's message for a text that \<open>JSON.parse\<close> or \<open>RegExp\<close> rejects.
  \<open>ho_jsonpath\<close> is \<open>JSONPath({path, json, wrap: false})\<close>; \<open>ho_schema\<close> is \<open>ajv.compile\<close> followed
  by the validation, whose errors are empty when the value is valid.
\<close>

record host =
  ho_url :: "string \<Rightarrow> url_parts option"
  ho_url_append :: "string \<Rightarrow> (string \<times> string) list \<Rightarrow> string"
  ho_url_clear_query :: "string \<Rightarrow> string"
  ho_regex :: "string \<Rightarrow> string \<Rightarrow> (string \<Rightarrow> bool) option"
  ho_locale_compare :: "string \<Rightarrow> string \<Rightarrow> int"
  ho_sha256 :: "string \<Rightarrow> nat list"
  ho_hmac :: "nat list \<Rightarrow> string \<Rightarrow> nat list"
  ho_jsonpath :: "string \<Rightarrow> json \<Rightarrow> js_error + jsval"
  ho_schema :: "json \<Rightarrow> js_error + (json \<Rightarrow> schema_error list)"
  ho_date_parse :: "string \<Rightarrow> int option"
  ho_syntax_message :: "string \<Rightarrow> string"

text \<open>A concrete host for evaluating the model: a literal matcher, one-level paths, no schema errors.\<close>

definition sample_url :: "string \<Rightarrow> url_parts option" where
  "sample_url s =
     (if starts_with ''https://'' s then
        (let r = drop 8 s; h = takeWhile (\<lambda>c. c \<noteq> CHR ''/'' \<and> c \<noteq> CHR ''?'') r;
             t = drop (length h) r; p = takeWhile (\<lambda>c. c \<noteq> CHR ''?'') t in
         Some \<lparr>up_protocol = ''https:'', up_hostname = h, up_host = h,
           up_pathname = (if p = [] then ''/'' else p), up_search = drop (length p) t, up_query = []\<rparr>)
      else None)"

definition sample_host :: host where
  "sample_host = \<lparr>ho_url = sample_url,
     ho_url_append = (\<lambda>s ps. s @ concat (map (\<lambda>(k, v). ''&'' @ k @ ''='' @ v) ps)),
     ho_url_clear_query = takeWhile (\<lambda>c. c \<noteq> CHR ''?''),
     ho_regex = (\<lambda>p f. if p = ''('' then None else Some (str_includes p)),
     ho_locale_compare = (\<lambda>a b. if a = b then 0 else if a < b then -1 else 1),
     ho_sha256 = (\<lambda>s. [length s mod 256]),
     ho_hmac = (\<lambda>k s. [(length s + length k) mod 256]),
     ho_jsonpath = (\<lambda>p j. Inr (case j of JObj ms \<Rightarrow> map_of ms (drop 2 p) | _ \<Rightarrow> None)),
     ho_schema = (\<lambda>j. Inr (\<lambda>v. [])),
     ho_date_parse = (\<lambda>s. None),
     ho_syntax_message = (\<lambda>s. ''Unexpected token'')\<rparr>"

definition syntax_error :: "host \<Rightarrow> string \<Rightarrow> js_error" where
  "syntax_error h s = \<lparr>err_name = ''SyntaxError'', err_message = ho_syntax_message h s\<rparr>"

definition invalid_url :: "string \<Rightarrow> js_error" where
  "invalid_url u = type_error ''Invalid URL''"

end
