(* ===== verification/Js_Runtime.thy ===== *)
theory Js_Runtime
  imports Js_Json
begin

text \<open>
  The parts of the JavaScript runtime that give a different answer at every call: the clock, the
  random numbers and the identifiers drawn from \<open>crypto.randomUUID\<close> and \<open>uuid.v7\<close>. They are
  streams read through a position that every draw advances, so that a run is a function of the
  streams and the order of draws is part of the model. Dates print as \<open>toISOString\<close> prints them.
\<close>

section \<open>Supplies\<close>

text \<open>
  \<open>rt_base36\<close> is \<open>x.toString(36)\<close> on a fraction, which the language leaves to the engine.
\<close>

record runtime =
  rt_uuid :: "nat \<Rightarrow> string"
  rt_uuid_at :: nat
  rt_random :: "nat \<Rightarrow> rat"
  rt_random_at :: nat
  rt_clock :: "nat \<Rightarrow> int"
  rt_clock_at :: nat
  rt_base36 :: "rat \<Rightarrow> string"

definition draw_uuid :: "runtime \<Rightarrow> string \<times> runtime" where
  "draw_uuid rt = (rt_uuid rt (rt_uuid_at rt), rt\<lparr>rt_uuid_at := Suc (rt_uuid_at rt)\<rparr>)"

definition draw_random :: "runtime \<Rightarrow> rat \<times> runtime" where
  "draw_random rt = (rt_random rt (rt_random_at rt), rt\<lparr>rt_random_at := Suc (rt_random_at rt)\<rparr>)"

definition read_clock :: "runtime \<Rightarrow> int \<times> runtime" where
  "read_clock rt = (rt_clock rt (rt_clock_at rt), rt\<lparr>rt_clock_at := Suc (rt_clock_at rt)\<rparr>)"

text \<open>A concrete runtime, for evaluating the model.\<close>

definition sample_runtime :: runtime where
  "sample_runtime = \<lparr>rt_uuid = (\<lambda>n. ''id-'' @ nat_to_string n), rt_uuid_at = 0,
     rt_random = (\<lambda>n. 1 / 4), rt_random_at = 0,
     rt_clock = (\<lambda>n. 1700000000000 + int n), rt_clock_at = 0,
     rt_base36 = (\<lambda>x. ''0.9'')\<rparr>"

text \<open>\<open>Math.random()\<close> lies in [0, 1) and the clock never goes back.\<close>

definition runtime_ok :: "runtime \<Rightarrow> bool" where
  "runtime_ok rt \<longleftrightarrow>
     (\<forall>n. 0 \<le> rt_random rt n \<and> rt_random rt n < 1) \<and> (\<forall>n. rt_clock rt n \<le> rt_clock rt (Suc n))"

section \<open>Dates\<close>

definition pad_num :: "nat \<Rightarrow> nat \<Rightarrow> string" where
  "pad_num w n = (let ds = nat_to_string n in replicate (w - length ds) CHR ''0'' @ ds)"

text \<open>The proleptic Gregorian date of a day number (day 0 is 1970-01-01).\<close>

definition civil_date :: "int \<Rightarrow> int \<times> nat \<times> nat" where
  "civil_date days =
     (let z = days + 719468;
          era = z div 146097;
          doe = z mod 146097;
          yoe = (doe - doe div 1460 + doe div 36524 - doe div 146096) div 365;
          doy = doe - (365 * yoe + yoe div 4 - yoe div 100);
          mp = (5 * doy + 2) div 153;
          d = doy - (153 * mp + 2) div 5 + 1;
          m = (if mp < 10 then mp + 3 else mp - 9);
          y = yoe + era * 400 + (if m \<le> 2 then 1 else 0) in
      (y, nat m, nat d))"

definition year_string :: "int \<Rightarrow> string" where
  "year_string y =
     (if 0 \<le> y \<and> y \<le> 9999 then pad_num 4 (nat y)
      else (if y < 0 then ''-'' else ''+'') @ pad_num 6 (nat \<bar>y\<bar>))"

definition iso_string :: "int \<Rightarrow> string" where
  "iso_string ms =
     (let (y, m, d) = civil_date (ms div 86400000); t = nat (ms mod 86400000) in
      year_string y @ ''-'' @ pad_num 2 m @ ''-'' @ pad_num 2 d @ ''T''
      @ pad_num 2 (t div 3600000) @ '':'' @ pad_num 2 (t div 60000 mod 60) @ '':''
      @ pad_num 2 (t div 1000 mod 60) @ ''.'' @ pad_num 3 (t mod 1000) @ ''Z'')"

text \<open>\<open>new Date(x).toISOString()\<close>: the time value is truncated, and out of range it raises.\<close>

definition truncate_rat :: "rat \<Rightarrow> int" where
  "truncate_rat x = (if x < 0 then - \<lfloor>- x\<rfloor> else \<lfloor>x\<rfloor>)"

definition date_iso :: "rat \<Rightarrow> js_error + string" where
  "date_iso x =
     (if \<bar>x\<bar> > 8640000000000000
      then Inl \<lparr>err_name = ''RangeError'', err_message = ''Invalid time value''\<rparr>
      else Inr (iso_string (truncate_rat x)))"

section \<open>Lemmas\<close>

lemma pad_num_length: "w \<le> length (pad_num w n)"
  by (simp add: pad_num_def Let_def)

lemma draw_uuid_supply:
  "draw_uuid rt = (u, rt') \<Longrightarrow> rt_uuid rt' = rt_uuid rt \<and> rt_uuid_at rt' = Suc (rt_uuid_at rt)"
  by (auto simp: draw_uuid_def)

lemma runtime_ok_draw_uuid: "runtime_ok (snd (draw_uuid rt)) = runtime_ok rt"
  by (simp add: draw_uuid_def runtime_ok_def)

lemma runtime_ok_draw_random: "runtime_ok (snd (draw_random rt)) = runtime_ok rt"
  by (simp add: draw_random_def runtime_ok_def)

lemma runtime_ok_read_clock: "runtime_ok (snd (read_clock rt)) = runtime_ok rt"
  by (simp add: read_clock_def runtime_ok_def)

lemma floor_scaled_bound:
  fixes r :: rat
  assumes "0 \<le> r" and "r < 1" and "0 < k"
  shows "0 \<le> \<lfloor>r * of_int k\<rfloor>" and "\<lfloor>r * of_int k\<rfloor> < k"
proof -
  have k: "(0::rat) < of_int k" using assms(3) by simp
  show "0 \<le> \<lfloor>r * of_int k\<rfloor>" using assms(1) k by simp
  have "r * of_int k < 1 * of_int k" using assms(2) k by (intro mult_strict_right_mono) auto
  then show "\<lfloor>r * of_int k\<rfloor> < k" by (simp add: floor_less_iff)
qed

end
