(* ===== verification/Template.thy ===== *)
theory Template
  imports Js_Host Js_Runtime
begin

text \<open>
  packages/core/src/variables/index.ts, the template language: merging variable scopes, the
  placeholders of a text, dynamic variables, \<open>resolveTemplate\<close> with its depth limit and its set
  of unresolved names, and \<open>resolveTemplateEffect\<close>.
\<close>

section \<open>Scopes\<close>

definition variables_from_key_values :: "key_value list \<Rightarrow> string obj" where
  "variables_from_key_values vars =
     obj_from_entries (map (\<lambda>item. (trim (kv_key item), kv_value item)) (filter kv_active vars))"

definition variables_from_environment :: "environment option \<Rightarrow> string obj" where
  "variables_from_environment env =
     variables_from_key_values (case env of Some e \<Rightarrow> en_variables e | None \<Rightarrow> [])"

definition variables_from_scope :: "variable_scope \<Rightarrow> string obj" where
  "variables_from_scope scope =
     (case vs_variables scope of
        Rows rows \<Rightarrow> variables_from_key_values rows
      | Dict d \<Rightarrow> obj_from_entries (map (\<lambda>(k, v). (trim k, v)) (filter (\<lambda>(k, v). trim k \<noteq> []) d)))"

definition variables_from_scopes :: "variable_scope list \<Rightarrow> string obj" where
  "variables_from_scopes scopes =
     foldl (\<lambda>merged scope. obj_spread (obj_spread [] merged) (variables_from_scope scope)) [] scopes"

section \<open>Placeholders\<close>

text \<open>
  The matches of \<open>/\{\{\s*([^}]+?)\s*\}\}/g\<close>. A match starts at the leftmost two opening braces
  whose following characters up to the next closing brace are not empty and are followed by two
  closing braces; the captured name, trimmed, is those characters trimmed. The text between
  matches is kept character by character.
\<close>

datatype seg = Lit char | Hole string

definition not_rbrace :: "char \<Rightarrow> bool" where
  "not_rbrace c \<longleftrightarrow> c \<noteq> rbrace"

definition hole_at :: "string \<Rightarrow> (string \<times> string) option" where
  "hole_at s =
     (if starts_with ''{{'' s \<and> takeWhile not_rbrace (drop 2 s) \<noteq> []
         \<and> starts_with ''}}'' (dropWhile not_rbrace (drop 2 s))
      then Some (takeWhile not_rbrace (drop 2 s), drop 2 (dropWhile not_rbrace (drop 2 s)))
      else None)"

lemma hole_at_shorter: "hole_at s = Some (u, r) \<Longrightarrow> length r < length s"
proof -
  assume "hole_at s = Some (u, r)"
  then have r: "r = drop 2 (dropWhile not_rbrace (drop 2 s))" and "s \<noteq> []"
    by (auto simp: hole_at_def split: if_splits)
  have "length (dropWhile not_rbrace (drop 2 s)) \<le> length s - 2"
    by (metis length_drop length_dropWhile_le)
  with r \<open>s \<noteq> []\<close> show ?thesis by (cases s) auto
qed

function template_segs :: "string \<Rightarrow> seg list" where
  "template_segs [] = []"
| "template_segs (c # s) =
     (case hole_at (c # s) of
        Some (u, r) \<Rightarrow> Hole u # template_segs r
      | None \<Rightarrow> Lit c # template_segs s)"
  by pat_completeness auto
termination
  by (relation "measure length") (auto dest: hole_at_shorter [where s = "_ # _", simplified])

definition placeholder :: "string \<Rightarrow> string" where
  "placeholder name = ''{{'' @ name @ ''}}''"

section \<open>Dynamic variables\<close>

text \<open>The time span of \<open>$grpcDeadline:\<close>, matched by \<open>/^(\d+(?:\.\d+)?)(ms|s|m|h)$/\<close>.\<close>

definition unit_ms :: "string \<Rightarrow> rat option" where
  "unit_ms u =
     (if u = ''ms'' then Some 1 else if u = ''s'' then Some 1000
      else if u = ''m'' then Some 60000 else if u = ''h'' then Some 3600000 else None)"

definition deadline_ms :: "string \<Rightarrow> rat option" where
  "deadline_ms spec =
     (let ip = takeWhile is_digit spec; r = dropWhile is_digit spec;
          fp = (if starts_with ''.'' r then takeWhile is_digit (tl r) else []);
          u = (if fp = [] then r else dropWhile is_digit (tl r)) in
      if ip = [] then None else map_option (\<lambda>k. decimal_value ip fp 0 * k) (unit_ms u))"

definition deadline_prefix :: string where
  "deadline_prefix = ''$grpcDeadline:''"

definition pad_end :: "nat \<Rightarrow> char \<Rightarrow> string \<Rightarrow> string" where
  "pad_end n c s = s @ replicate (n - length s) c"

text \<open>\<open>dynamicVariable\<close>: the value and the runtime after the draws it makes.\<close>

definition dynamic_variable :: "string \<Rightarrow> (runtime, string) sx" where
  "dynamic_variable name rt =
     (if name = ''$uuid'' \<or> name = ''$randomUUID'' then Inr (draw_uuid rt)
      else if name = ''$timestamp'' then
        (let (now, rt') = read_clock rt in Inr (int_to_string (now div 1000), rt'))
      else if name = ''$timestampMs'' then
        (let (now, rt') = read_clock rt in Inr (int_to_string now, rt'))
      else if name = ''$isoTimestamp'' then
        (let (now, rt') = read_clock rt in map_sum id (\<lambda>t. (t, rt')) (date_iso (of_int now)))
      else if name = ''$randomInt'' then
        (let (r, rt') = draw_random rt in Inr (int_to_string \<lfloor>r * 1000\<rfloor>, rt'))
      else if name = ''$randomFloat'' then
        (let (r, rt') = draw_random rt in Inr (num_to_string r, rt'))
      else if name = ''$randomEmail'' then
        (let (r, rt') = draw_random rt in
         Inr (''user.'' @ int_to_string \<lfloor>r * 100000\<rfloor> @ ''@example.com'', rt'))
      else if name = ''$randomString'' then
        (let (r, rt') = draw_random rt in
         Inr (pad_end 16 CHR ''x'' (take 16 (drop 2 (rt_base36 rt r))), rt'))
      else if name = ''$randomBoolean'' then
        (let (r, rt') = draw_random rt in Inr (if r \<ge> 1 / 2 then ''true'' else ''false'', rt'))
      else if starts_with deadline_prefix name then
        (case deadline_ms (trim (drop (length deadline_prefix) name)) of
           Some ms \<Rightarrow>
             (let (now, rt') = read_clock rt in
              map_sum id (\<lambda>t. (t, rt')) (date_iso (of_int now + ms)))
         | None \<Rightarrow> Inr (placeholder name, rt))
      else Inr (placeholder name, rt))"

section \<open>resolveTemplate\<close>

text \<open>
  The state of a resolution: the runtime and the insertion-ordered set of unresolved names. The
  first argument of \<open>resolve_one\<close> counts the levels left: the code's \<open>depth\<close> is 9 minus it, and
  \<open>depth > 8\<close> is level 0. A name that is only inherited from \<open>Object.prototype\<close> reads a function
  (or the prototype itself): calling \<open>replace\<close> on it raises, and at level 0 it is printed.
\<close>

record tstate =
  ts_runtime :: runtime
  ts_unresolved :: "string list"

definition max_levels :: nat where
  "max_levels = 9"

definition run_dynamic :: "string \<Rightarrow> (tstate, string) sx" where
  "run_dynamic name st =
     map_sum id (\<lambda>(v, rt'). (v, st\<lparr>ts_runtime := rt'\<rparr>)) (dynamic_variable name (ts_runtime st))"

definition add_unresolved :: "string \<Rightarrow> (tstate, string) sx" where
  "add_unresolved name st =
     Inr (placeholder name, st\<lparr>ts_unresolved := set_add name (ts_unresolved st)\<rparr>)"

definition inherited_text :: "string \<Rightarrow> string" where
  "inherited_text name =
     (if name = ''__proto__'' then ''[object Object]''
      else ''function '' @ (if name = ''constructor'' then ''Object'' else name)
           @ ''() { [native code] }'')"

definition resolve_inherited :: "nat \<Rightarrow> string \<Rightarrow> (tstate, string) sx" where
  "resolve_inherited levels name =
     (if levels = 0 then sx_ret (inherited_text name)
      else sx_throw (type_error ''value.replace is not a function''))"

primrec resolve_one :: "nat \<Rightarrow> string obj \<Rightarrow> string \<Rightarrow> (tstate, string) sx" where
  "resolve_one 0 variables input = sx_ret input"
| "resolve_one (Suc levels) variables input =
     sx_bind
       (sx_mapM
          (\<lambda>sg. case sg of
             Lit c \<Rightarrow> sx_ret [c]
           | Hole raw \<Rightarrow>
               (let name = trim raw in
                if starts_with ''$'' name then run_dynamic name
                else case obj_read variables name of
                    Absent \<Rightarrow> add_unresolved name
                  | Inherited \<Rightarrow> resolve_inherited levels name
                  | Own v \<Rightarrow> resolve_one levels variables v))
          (template_segs input))
       (\<lambda>parts. sx_ret (concat parts))"

record template_result =
  tr_value :: string
  tr_unresolved :: "string list"

definition resolve_template :: "string \<Rightarrow> string obj \<Rightarrow> (runtime, template_result) sx" where
  "resolve_template input variables rt =
     (case resolve_one max_levels variables input \<lparr>ts_runtime = rt, ts_unresolved = []\<rparr> of
        Inl e \<Rightarrow> Inl e
      | Inr (v, st) \<Rightarrow> Inr (\<lparr>tr_value = v, tr_unresolved = ts_unresolved st\<rparr>, ts_runtime st))"

text \<open>\<open>resolveTemplateEffect\<close>: a failed effect carries the first unresolved name.\<close>

datatype template_effect = Undefined_variable string string | Succeeded string

definition resolve_template_effect ::
  "string \<Rightarrow> string obj \<Rightarrow> (runtime, template_effect) sx" where
  "resolve_template_effect template variables rt =
     (case resolve_template template variables rt of
        Inl e \<Rightarrow> Inl e
      | Inr (r, rt') \<Rightarrow>
          (case tr_unresolved r of
             [] \<Rightarrow> Inr (Succeeded (tr_value r), rt')
           | name # names \<Rightarrow> Inr (Undefined_variable name template, rt')))"

section \<open>Path variables\<close>

definition ident_start :: "char \<Rightarrow> bool" where
  "ident_start c \<longleftrightarrow> is_alpha c \<or> c = CHR ''_''"

definition ident_char :: "char \<Rightarrow> bool" where
  "ident_char c \<longleftrightarrow> is_alnum c \<or> c = CHR ''_''"

definition is_ident :: "string \<Rightarrow> bool" where
  "is_ident s \<longleftrightarrow> s \<noteq> [] \<and> ident_start (hd s) \<and> list_all ident_char (tl s)"

definition extract_path_variable_names :: "string \<Rightarrow> string list" where
  "extract_path_variable_names url =
     (let path_part = hd (split_on CHR ''#'' (hd (split_on CHR ''?'' url))) in
      filter is_ident (map (drop 1) (filter (starts_with '':'') (split_on CHR ''/'' path_part))))"

text \<open>The replacement \<open>/:([a-zA-Z_][a-zA-Z0-9_]*)(?=[/?#]|$)/g\<close> of path segments.\<close>

definition path_stop :: "string \<Rightarrow> bool" where
  "path_stop s \<longleftrightarrow> s = [] \<or> hd s \<in> {CHR ''/'', CHR ''?'', CHR ''#''}"

function replace_path_variables :: "(string \<Rightarrow> string option) \<Rightarrow> string \<Rightarrow> string" where
  "replace_path_variables m [] = []"
| "replace_path_variables m (c # s) =
     (let name = takeWhile ident_char s; rest = dropWhile ident_char s in
      if c = CHR '':'' \<and> is_ident name \<and> path_stop rest
      then (case m name of Some v \<Rightarrow> v | None \<Rightarrow> c # name) @ replace_path_variables m rest
      else c # replace_path_variables m s)"
  by pat_completeness auto
termination
  by (relation "measure (\<lambda>(m, s). length s)") (auto simp: length_dropWhile_le le_imp_less_Suc)

definition resolve_path_variables :: "string \<Rightarrow> key_value list \<Rightarrow> string" where
  "resolve_path_variables url path_vars =
     (let entries = map (\<lambda>v. (kv_key v, encode_uri_component (kv_value v)))
                      (filter (\<lambda>v. kv_enabled v \<noteq> Some False \<and> kv_key v \<noteq> [] \<and> kv_value v \<noteq> [])
                         path_vars) in
      if path_vars = [] \<or> entries = [] then url
      else replace_path_variables (map_of (rev entries)) url)"

section \<open>Reference semantics\<close>

text \<open>
  A text is static for some levels when no placeholder met within them is dynamic or inherited.
  Its value and the missing names, in the order they are met, are then plain functions of the text.
\<close>

primrec static_text :: "nat \<Rightarrow> string obj \<Rightarrow> string \<Rightarrow> bool" where
  "static_text 0 variables input = True"
| "static_text (Suc k) variables input =
     list_all
       (\<lambda>sg. case sg of Lit c \<Rightarrow> True
         | Hole raw \<Rightarrow> \<not> starts_with ''$'' (trim raw) \<and>
             (case obj_read variables (trim raw) of
                Own v \<Rightarrow> static_text k variables v | Inherited \<Rightarrow> False | Absent \<Rightarrow> True))
       (template_segs input)"

primrec expand :: "nat \<Rightarrow> string obj \<Rightarrow> string \<Rightarrow> string" where
  "expand 0 variables input = input"
| "expand (Suc k) variables input =
     concat (map
       (\<lambda>sg. case sg of Lit c \<Rightarrow> [c]
         | Hole raw \<Rightarrow> (case obj_own variables (trim raw) of
             Some v \<Rightarrow> expand k variables v | None \<Rightarrow> placeholder (trim raw)))
       (template_segs input))"

primrec missing_names :: "nat \<Rightarrow> string obj \<Rightarrow> string \<Rightarrow> string list" where
  "missing_names 0 variables input = []"
| "missing_names (Suc k) variables input =
     concat (map
       (\<lambda>sg. case sg of Lit c \<Rightarrow> []
         | Hole raw \<Rightarrow> (case obj_own variables (trim raw) of
             Some v \<Rightarrow> missing_names k variables v | None \<Rightarrow> [trim raw]))
       (template_segs input))"

text \<open>All names met within the levels, whatever they are.\<close>

primrec mentioned :: "nat \<Rightarrow> string obj \<Rightarrow> string \<Rightarrow> string set" where
  "mentioned 0 variables input = {}"
| "mentioned (Suc k) variables input =
     (\<Union>sg \<in> set (template_segs input). case sg of Lit c \<Rightarrow> {}
        | Hole raw \<Rightarrow> insert (trim raw)
            (if starts_with ''$'' (trim raw) then {}
             else case obj_read variables (trim raw) of
                 Own v \<Rightarrow> mentioned k variables v | _ \<Rightarrow> {}))"

definition reported :: "string obj \<Rightarrow> string \<Rightarrow> bool" where
  "reported variables n \<longleftrightarrow> \<not> starts_with ''$'' n \<and> obj_read variables n = Absent"

section \<open>Lemmas\<close>

lemma obj_read_Own: "obj_read ob k = Own v \<longleftrightarrow> obj_own ob k = Some v"
  by (auto simp: obj_read_def split: option.splits)

lemma obj_read_Absent: "obj_read ob k = Absent \<longleftrightarrow> obj_own ob k = None \<and> k \<notin> set object_prototype_keys"
  by (auto simp: obj_read_def split: option.splits)

lemma run_dynamic_unresolved:
  "run_dynamic name st = Inr (v, st') \<Longrightarrow> ts_unresolved st' = ts_unresolved st"
  by (cases "dynamic_variable name (ts_runtime st)") (auto simp: run_dynamic_def)

lemma resolve_one_static:
  assumes "static_text k variables input"
  shows "resolve_one k variables input st =
    Inr (expand k variables input,
         st\<lparr>ts_unresolved := fold set_add (missing_names k variables input) (ts_unresolved st)\<rparr>)"
  using assms
proof (induction k arbitrary: input st)
  case 0
  then show ?case by simp
next
  case (Suc k)
  let ?g = "\<lambda>sg. case sg of Lit c \<Rightarrow> [c]
      | Hole raw \<Rightarrow> (case obj_own variables (trim raw) of
          Some v \<Rightarrow> expand k variables v | None \<Rightarrow> placeholder (trim raw))"
  let ?m = "\<lambda>sg. case sg of Lit c \<Rightarrow> []
      | Hole raw \<Rightarrow> (case obj_own variables (trim raw) of
          Some v \<Rightarrow> missing_names k variables v | None \<Rightarrow> [trim raw])"
  let ?f = "\<lambda>sg. case sg of
             Lit c \<Rightarrow> sx_ret [c]
           | Hole raw \<Rightarrow>
               (let name = trim raw in
                if starts_with ''$'' name then run_dynamic name
                else case obj_read variables name of
                    Absent \<Rightarrow> add_unresolved name
                  | Inherited \<Rightarrow> resolve_inherited k name
                  | Own v \<Rightarrow> resolve_one k variables v)"
  let ?h = "\<lambda>sg s. s\<lparr>ts_unresolved := fold set_add (?m sg) (ts_unresolved s)\<rparr>"
  have one: "?f sg s = Inr (?g sg, ?h sg s)" if "sg \<in> set (template_segs input)" for sg s
  proof (cases sg)
    case (Lit c)
    then show ?thesis by simp
  next
    case (Hole raw)
    with Suc.prems that have st: "\<not> starts_with ''$'' (trim raw)"
      "case obj_read variables (trim raw) of
         Own v \<Rightarrow> static_text k variables v | Inherited \<Rightarrow> False | Absent \<Rightarrow> True"
      by (auto simp: list_all_iff)
    show ?thesis
    proof (cases "obj_read variables (trim raw)")
      case (Own v)
      with st have "static_text k variables v" by simp
      moreover from Own have "obj_own variables (trim raw) = Some v" by (simp add: obj_read_Own)
      ultimately show ?thesis using Suc.IH Own Hole st(1) by (simp add: Let_def)
    next
      case Inherited
      with st show ?thesis by simp
    next
      case Absent
      then have "obj_own variables (trim raw) = None" by (simp add: obj_read_Absent)
      with Absent Hole st(1) show ?thesis by (simp add: Let_def add_unresolved_def)
    qed
  qed
  have fold: "fold ?h xs s = s\<lparr>ts_unresolved := fold set_add (concat (map ?m xs)) (ts_unresolved s)\<rparr>"
    for xs and s :: tstate
    by (induction xs arbitrary: s) auto
  have "sx_mapM ?f (template_segs input) st = Inr (map ?g (template_segs input), fold ?h (template_segs input) st)"
    by (rule sx_mapM_fold) (rule one)
  then show ?case by (simp add: sx_bind_run fold)
qed

lemma resolve_one_collects:
  "resolve_one k variables input st = Inr (v, st') \<Longrightarrow>
   set (ts_unresolved st') = set (ts_unresolved st) \<union> {n \<in> mentioned k variables input. reported variables n}"
proof (induction k arbitrary: input st v st')
  case 0
  then show ?case by auto
next
  case (Suc k)
  let ?f = "\<lambda>sg. case sg of
             Lit c \<Rightarrow> sx_ret [c]
           | Hole raw \<Rightarrow>
               (let name = trim raw in
                if starts_with ''$'' name then run_dynamic name
                else case obj_read variables name of
                    Absent \<Rightarrow> add_unresolved name
                  | Inherited \<Rightarrow> resolve_inherited k name
                  | Own v \<Rightarrow> resolve_one k variables v)"
  let ?n = "\<lambda>sg. case sg of Lit c \<Rightarrow> {}
        | Hole raw \<Rightarrow> insert (trim raw)
            (if starts_with ''$'' (trim raw) then {}
             else case obj_read variables (trim raw) of
                 Own v \<Rightarrow> mentioned k variables v | _ \<Rightarrow> {})"
  let ?g = "\<lambda>sg. {n \<in> ?n sg. reported variables n}"
  from Suc.prems obtain ps where m: "sx_mapM ?f (template_segs input) st = Inr (ps, st')"
    by (auto elim: sx_bind_InrE)
  have "set (ts_unresolved s') = set (ts_unresolved s) \<union> ?g sg"
    if "sg \<in> set (template_segs input)" and "?f sg s = Inr (y, s')" for sg s y s'
  proof (cases sg)
    case (Lit c)
    with that show ?thesis by simp
  next
    case (Hole raw)
    with that(2) Suc.IH show ?thesis
      by (cases "obj_read variables (trim raw)")
        (auto simp: Let_def add_unresolved_def resolve_inherited_def reported_def
           split: if_splits dest: run_dynamic_unresolved)
  qed
  with m have "set (ts_unresolved st') = set (ts_unresolved st) \<union> (\<Union>sg \<in> set (template_segs input). ?g sg)"
    by (intro sx_mapM_collect [where c = "\<lambda>s. set (ts_unresolved s)" and f = ?f and g = ?g]) auto
  then show ?case by auto
qed

lemma resolve_one_distinct:
  "resolve_one k variables input st = Inr (v, st') \<Longrightarrow>
   distinct (ts_unresolved st) \<Longrightarrow> distinct (ts_unresolved st')"
proof (induction k arbitrary: input st v st')
  case 0
  then show ?case by auto
next
  case (Suc k)
  let ?f = "\<lambda>sg. case sg of
             Lit c \<Rightarrow> sx_ret [c]
           | Hole raw \<Rightarrow>
               (let name = trim raw in
                if starts_with ''$'' name then run_dynamic name
                else case obj_read variables name of
                    Absent \<Rightarrow> add_unresolved name
                  | Inherited \<Rightarrow> resolve_inherited k name
                  | Own v \<Rightarrow> resolve_one k variables v)"
  from Suc.prems(1) obtain ps where m: "sx_mapM ?f (template_segs input) st = Inr (ps, st')"
    by (auto elim: sx_bind_InrE)
  have "distinct (ts_unresolved s')"
    if "sg \<in> set (template_segs input)" and "?f sg s = Inr (y, s')" and "distinct (ts_unresolved s)"
    for sg s y s'
  proof (cases sg)
    case (Lit c)
    with that show ?thesis by simp
  next
    case (Hole raw)
    with that Suc.IH show ?thesis
      by (cases "obj_read variables (trim raw)")
        (auto simp: Let_def add_unresolved_def resolve_inherited_def
           split: if_splits dest: run_dynamic_unresolved)
  qed
  then show ?case
    by (rule sx_mapM_invariant [where P = "\<lambda>s. distinct (ts_unresolved s)", OF _ m Suc.prems(2)])
qed

lemma template_segs_placeholder:
  assumes "n \<noteq> []" and "rbrace \<notin> set n"
  shows "template_segs (placeholder n) = [Hole n]"
proof -
  have tw: "takeWhile not_rbrace (n @ ''}}'') = n"
    using assms(2) by (subst takeWhile_append2) (auto simp: not_rbrace_def)
  have dw: "dropWhile not_rbrace (n @ ''}}'') = ''}}''"
    using assms(2) by (subst dropWhile_append2) (auto simp: not_rbrace_def)
  have "hole_at (lbrace # lbrace # n @ ''}}'') = Some (n, [])"
    using assms(1) by (simp add: hole_at_def tw dw)
  then show ?thesis by (simp add: placeholder_def)
qed

lemma resolve_one_placeholder:
  assumes "n \<noteq> []" and "rbrace \<notin> set n" and "trim n = n" and "\<not> starts_with ''$'' n"
  shows "resolve_one (Suc k) variables (placeholder n) st =
    (case obj_read variables n of
       Absent \<Rightarrow> add_unresolved n st
     | Inherited \<Rightarrow> resolve_inherited k n st
     | Own v \<Rightarrow> resolve_one k variables v st)"
proof (cases "obj_read variables n")
  case (Own v)
  then show ?thesis
    by (cases "resolve_one k variables v st")
      (simp_all add: template_segs_placeholder assms Let_def sx_bind_run split: prod.split)
next
  case Inherited
  then show ?thesis
    by (cases "resolve_inherited k n st")
      (simp_all add: template_segs_placeholder assms Let_def sx_bind_run split: prod.split)
next
  case Absent
  then show ?thesis
    by (cases "add_unresolved n st")
      (simp_all add: template_segs_placeholder assms Let_def sx_bind_run split: prod.split)
qed

text \<open>
  Ranked variables: a value only refers to variables of lower rank, so no variable reaches itself.
\<close>

definition own_holes :: "string obj \<Rightarrow> string \<Rightarrow> string set" where
  "own_holes variables input =
     {n. \<exists>raw. Hole raw \<in> set (template_segs input) \<and> n = trim raw \<and> obj_own variables n \<noteq> None}"

definition ranked :: "(string \<Rightarrow> nat) \<Rightarrow> string obj \<Rightarrow> bool" where
  "ranked rank variables \<longleftrightarrow>
     (\<forall>n v. obj_own variables n = Some v \<longrightarrow> (\<forall>m \<in> own_holes variables v. rank m < rank n))"

lemma ranked_step:
  assumes "ranked rank variables" and "\<forall>n \<in> own_holes variables input. rank n + 2 \<le> Suc k"
    and "Hole raw \<in> set (template_segs input)" and "obj_own variables (trim raw) = Some v"
  shows "1 \<le> k \<and> (\<forall>m \<in> own_holes variables v. rank m + 2 \<le> k)"
proof -
  from assms(3,4) have "trim raw \<in> own_holes variables input" by (auto simp: own_holes_def)
  with assms(2) have "rank (trim raw) + 2 \<le> Suc k" by blast
  moreover from assms(1,4) have "\<forall>m \<in> own_holes variables v. rank m < rank (trim raw)"
    by (auto simp: ranked_def)
  ultimately show ?thesis by fastforce
qed

lemma expand_stable:
  assumes "ranked rank variables" and "\<forall>n \<in> own_holes variables input. rank n + 2 \<le> k" and "1 \<le> k"
  shows "expand (k + j) variables input = expand k variables input"
    and "missing_names (k + j) variables input = missing_names k variables input"
proof -
  have "expand (k + j) variables input = expand k variables input
      \<and> missing_names (k + j) variables input = missing_names k variables input"
    using assms(2,3)
  proof (induction k arbitrary: input)
    case 0
    then show ?case by simp
  next
    case (Suc k)
    have "expand (k + j) variables v = expand k variables v
      \<and> missing_names (k + j) variables v = missing_names k variables v"
      if "Hole raw \<in> set (template_segs input)" and "obj_own variables (trim raw) = Some v" for raw v
      using Suc.IH ranked_step [OF assms(1) Suc.prems(1) that] by blast
    then show ?case
      by (auto intro!: arg_cong [where f = concat] map_cong split: seg.splits option.splits)
  qed
  then show "expand (k + j) variables input = expand k variables input"
    and "missing_names (k + j) variables input = missing_names k variables input" by auto
qed

definition url_stop :: "char \<Rightarrow> bool" where
  "url_stop c \<longleftrightarrow> c \<in> {CHR ''/'', CHR ''?'', CHR ''#''}"

lemma ident_char_no_stop: "ident_char c \<Longrightarrow> \<not> url_stop c"
  by (auto simp: ident_char_def is_alnum_def is_alpha_def is_digit_def is_upper_ascii_def
      is_lower_ascii_def code_unit_def url_stop_def)

lemma replacement_keeps_stops:
  assumes "\<And>k v. m k = Some v \<Longrightarrow> \<forall>c \<in> set v. \<not> url_stop c"
  shows "filter url_stop (replace_path_variables m url) = filter url_stop url"
proof (induction "length url" arbitrary: url rule: less_induct)
  case less
  show ?case
  proof (cases url)
    case Nil
    then show ?thesis by simp
  next
    case (Cons c s)
    let ?name = "takeWhile ident_char s" and ?rest = "dropWhile ident_char s"
    have IH: "filter url_stop (replace_path_variables m s) = filter url_stop s"
      "filter url_stop (replace_path_variables m ?rest) = filter url_stop ?rest"
      using less Cons by (simp_all add: length_dropWhile_le le_imp_less_Suc)
    have nm: "filter url_stop ?name = []"
      by (auto simp: filter_empty_conv ident_char_no_stop dest: set_takeWhileD)
    have sp: "filter url_stop s = filter url_stop ?rest"
      by (metis append_Nil filter_append nm takeWhile_dropWhile_id)
    have colon: "\<not> url_stop CHR '':''" by (simp add: url_stop_def)
    have val: "filter url_stop v = []" if "m ?name = Some v" for v
      using assms [OF that] by (auto simp: filter_empty_conv)
    show ?thesis
    proof (cases "c = CHR '':'' \<and> is_ident ?name \<and> path_stop ?rest")
      case True
      with Cons IH(2) nm sp colon val show ?thesis by (auto simp: Let_def split: option.split)
    next
      case False
      with Cons IH(1) show ?thesis by (auto simp: Let_def)
    qed
  qed
qed

section \<open>Properties\<close>

text \<open>
  C1: On a text whose placeholders, followed through the variables, are neither dynamic nor
  inherited, \<open>resolveTemplate\<close> raises nothing, draws nothing, returns the reference expansion, and
  reports every undefined name once, in the order of its first meeting.
\<close>

theorem resolve_template_reference:
  assumes "static_text max_levels variables input"
  shows "resolve_template input variables rt =
    Inr (\<lparr>tr_value = expand max_levels variables input,
          tr_unresolved = fold set_add (missing_names max_levels variables input) []\<rparr>, rt)"
  using resolve_one_static [OF assms] by (simp add: resolve_template_def)

theorem resolve_template_reference_witness:
  "resolve_template ''{{ a }}/{{b}}/{{c}}/{{b}}'' [(''a'', ''x{{c}}'')] sample_runtime =
     Inr (\<lparr>tr_value = ''x{{c}}/{{b}}/{{c}}/{{b}}'', tr_unresolved = [''c'', ''b'']\<rparr>, sample_runtime)"
proof -
  have "static_text max_levels [(''a'', ''x{{c}}'')] ''{{ a }}/{{b}}/{{c}}/{{b}}''" by code_simp
  moreover have "expand max_levels [(''a'', ''x{{c}}'')] ''{{ a }}/{{b}}/{{c}}/{{b}}''
      = ''x{{c}}/{{b}}/{{c}}/{{b}}''" by code_simp
  moreover have "fold set_add (missing_names max_levels [(''a'', ''x{{c}}'')] ''{{ a }}/{{b}}/{{c}}/{{b}}'') []
      = [''c'', ''b'']" by code_simp
  ultimately show ?thesis
    using resolve_template_reference [of "[(''a'', ''x{{c}}'')]" "''{{ a }}/{{b}}/{{c}}/{{b}}''"] by simp
qed

text \<open>
  C2: Whatever the placeholders are, a resolution that returns reports exactly the names it met
  that are not dynamic and that the variables do not have, each once.
\<close>

theorem resolve_template_unresolved_exact:
  assumes "resolve_template input variables rt = Inr (r, rt')"
  shows "distinct (tr_unresolved r)
    \<and> set (tr_unresolved r) = {n \<in> mentioned max_levels variables input.
         \<not> starts_with ''$'' n \<and> obj_own variables n = None \<and> n \<notin> set object_prototype_keys}"
proof -
  from assms obtain v st where
    run: "resolve_one max_levels variables input \<lparr>ts_runtime = rt, ts_unresolved = []\<rparr> = Inr (v, st)"
    and r: "r = \<lparr>tr_value = v, tr_unresolved = ts_unresolved st\<rparr>"
    by (auto simp: resolve_template_def split: sum.splits prod.splits)
  from resolve_one_collects [OF run] resolve_one_distinct [OF run] r show ?thesis
    by (auto simp: reported_def obj_read_Absent)
qed

theorem resolve_template_unresolved_exact_witness:
  "\<exists>r. resolve_template ''{{x}}'' [] sample_runtime = Inr (r, sample_runtime) \<and> distinct (tr_unresolved r)
     \<and> set (tr_unresolved r) = {n \<in> mentioned max_levels [] ''{{x}}''.
         \<not> starts_with ''$'' n \<and> obj_own ([] :: string obj) n = None \<and> n \<notin> set object_prototype_keys}"
proof -
  have st: "static_text max_levels [] ''{{x}}''" by code_simp
  obtain r where run: "resolve_template ''{{x}}'' [] sample_runtime = Inr (r, sample_runtime)"
    using resolve_one_static [OF st] by (simp add: resolve_template_def)
  show ?thesis by (rule exI [of _ r], rule conjI, rule run, rule resolve_template_unresolved_exact [OF run])
qed

text \<open>
  The depth limit cannot be observed when no chain of variables is longer than eight: for
  ranked variables whose ranks met in the text are at most 7, the value and the unresolved names
  are those of every larger number of levels.
\<close>

theorem resolve_template_depth_invisible:
  assumes "ranked rank variables" and "\<forall>n \<in> own_holes variables input. rank n \<le> 7"
    and "static_text max_levels variables input"
  shows "resolve_template input variables rt =
    Inr (\<lparr>tr_value = expand (max_levels + j) variables input,
          tr_unresolved = fold set_add (missing_names (max_levels + j) variables input) []\<rparr>, rt)"
proof -
  from assms(2) have "\<forall>n \<in> own_holes variables input. rank n + 2 \<le> max_levels"
    by (auto simp: max_levels_def)
  note stable = expand_stable [OF assms(1) this]
  have "1 \<le> max_levels" by (simp add: max_levels_def)
  from stable [OF this] resolve_one_static [OF assms(3)] show ?thesis
    by (simp add: resolve_template_def)
qed

text \<open>
  A variable that refers to itself is never reported: its placeholder stays in the result and
  the list of unresolved names is empty.
\<close>

theorem self_reference_not_reported:
  assumes "n \<noteq> []" and "rbrace \<notin> set n" and "trim n = n" and "\<not> starts_with ''$'' n"
  shows "resolve_template (placeholder n) [(n, placeholder n)] rt =
    Inr (\<lparr>tr_value = placeholder n, tr_unresolved = []\<rparr>, rt)"
proof -
  have "resolve_one k [(n, placeholder n)] (placeholder n) st = Inr (placeholder n, st)" for k st
  proof (induction k)
    case 0
    then show ?case by simp
  next
    case (Suc k)
    have "obj_read [(n, placeholder n)] n = Own (placeholder n)" by (simp add: obj_read_def obj_own_def)
    with Suc show ?case by (simp only: resolve_one_placeholder [OF assms] prop_read.case)
  qed
  then show ?thesis by (simp add: resolve_template_def)
qed

theorem self_reference_not_reported_witness:
  "resolve_template (placeholder ''a'') [(''a'', placeholder ''a'')] sample_runtime =
    Inr (\<lparr>tr_value = placeholder ''a'', tr_unresolved = []\<rparr>, sample_runtime)"
  by (rule self_reference_not_reported) (simp_all, code_simp)

text \<open>
  A placeholder that names a property of \<open>Object.prototype\<close> and no variable raises a
  \<open>TypeError\<close> instead of being reported as unresolved.
\<close>

theorem inherited_name_raises:
  assumes "n \<in> set object_prototype_keys" and "obj_own variables n = None"
  shows "resolve_template (placeholder n) variables rt =
    Inl (type_error ''value.replace is not a function'')"
proof -
  have plain: "list_all (\<lambda>n. n \<noteq> [] \<and> rbrace \<notin> set n \<and> trim n = n \<and> \<not> starts_with ''$'' n)
      object_prototype_keys" by code_simp
  with assms(1) have n: "n \<noteq> []" "rbrace \<notin> set n" "trim n = n" "\<not> starts_with ''$'' n"
    by (auto simp: list_all_iff)
  have "obj_read variables n = Inherited" using assms by (simp add: obj_read_def)
  then have "resolve_one (Suc 8) variables (placeholder n) st =
      Inl (type_error ''value.replace is not a function'')" for st
    by (simp only: resolve_one_placeholder [OF n] prop_read.case resolve_inherited_def) simp
  then show ?thesis by (simp add: resolve_template_def max_levels_def)
qed

theorem inherited_name_raises_witness:
  "resolve_template (placeholder ''toString'') [(''host'', ''a'')] sample_runtime =
    Inl (type_error ''value.replace is not a function'')"
  by (rule inherited_name_raises) code_simp+

text \<open>
  Substituting path variables cannot change the structure of a URL: the slashes, question
  marks and hashes of the result are those of the input, in the same order.
\<close>

theorem path_variables_keep_structure:
  "filter url_stop (resolve_path_variables url path_vars) = filter url_stop url"
proof -
  have "\<forall>c \<in> set v. \<not> url_stop c"
    if "map_of (rev (map (\<lambda>v. (kv_key v, encode_uri_component (kv_value v))) ps)) k = Some v" for ps k v
    using map_of_SomeD [OF that] by (auto simp: url_stop_def encoded_no_separator)
  then show ?thesis
    by (auto simp: resolve_path_variables_def Let_def intro!: replacement_keeps_stops)
qed

end
