(* ===== verification/Env_Text.thy ===== *)
theory Env_Text
  imports Template
begin

text \<open>
  packages/core/src/variables/index.ts, environments as text: which variable names are sensitive,
  the mask shown for a value, reading and writing the \<open>.env\<close> format.
\<close>

section \<open>Sensitive names\<close>

text \<open>
  \<open>SENSITIVE_VARIABLE_RE\<close> finds one of the words below, ignoring case, between the start or an
  underscore and the end or an underscore. The optional separators of the expression are spelled out.
\<close>

definition sensitive_words :: "string list" where
  "sensitive_words =
     [''secret'', ''token'', ''password'', ''passwd'', ''pwd'', ''credential'', ''credentials'',
      ''private'', ''auth'', ''apikey'', ''api_key'', ''api-key'', ''accesskey'', ''access_key'',
      ''access-key'', ''clientsecret'', ''client_secret'', ''client-secret'']"

definition sensitive_here :: "string \<Rightarrow> bool" where
  "sensitive_here s \<longleftrightarrow>
     list_ex (\<lambda>w. starts_with w s \<and>
        (case drop (length w) s of [] \<Rightarrow> True | c # r \<Rightarrow> c = CHR ''_'')) sensitive_words"

fun sensitive_scan :: "bool \<Rightarrow> string \<Rightarrow> bool" where
  "sensitive_scan boundary [] = False"
| "sensitive_scan boundary (c # s) =
     ((boundary \<and> sensitive_here (c # s)) \<or> sensitive_scan (c = CHR ''_'') s)"

definition is_sensitive_variable_name :: "string \<Rightarrow> bool" where
  "is_sensitive_variable_name name = sensitive_scan True (to_lower (trim name))"

definition masked_value :: "string \<Rightarrow> string" where
  "masked_value v = (if v = [] then [] else replicate (min (max (length v) 6) 12) CHR ''*'')"

section \<open>Values\<close>

definition format_env_value :: "string \<Rightarrow> string" where
  "format_env_value v =
     (if v \<noteq> [] \<and> list_all (\<lambda>c. \<not> js_space c \<and> c \<notin> {CHR ''#'', dquote, squote, backslash}) v
      then v else json_quote v)"

definition unescape_double :: "string \<Rightarrow> string" where
  "unescape_double s =
     replace_all [backslash, backslash] [backslash]
       (replace_all [backslash, dquote] [dquote]
         (replace_all [backslash, CHR ''r''] [carriage]
           (replace_all [backslash, CHR ''n''] [newline] s)))"

definition quoted_with :: "char \<Rightarrow> string \<Rightarrow> bool" where
  "quoted_with q raw \<longleftrightarrow> starts_with [q] raw \<and> ends_with [q] raw"

definition parse_env_value :: "string \<Rightarrow> string" where
  "parse_env_value raw =
     (if quoted_with dquote raw \<or> quoted_with squote raw
      then (if starts_with [dquote] raw then unescape_double (butlast (tl raw))
            else replace_all [backslash, squote] [squote] (butlast (tl raw)))
      else raw)"

section \<open>Lines\<close>

definition strip_export :: "string \<Rightarrow> string" where
  "strip_export l =
     (case drop 6 l of
        c # r \<Rightarrow> if starts_with ''export'' l \<and> js_space c then trim_start (c # r) else l
      | [] \<Rightarrow> l)"

definition parse_env_line :: "string \<Rightarrow> key_value option" where
  "parse_env_line raw_line =
     (let line = trim raw_line in
      if line = [] \<or> starts_with ''#'' line then None
      else
        (let normalized = strip_export line in
         case index_of CHR ''='' normalized of
           None \<Rightarrow> None
         | Some eq \<Rightarrow>
             (let key = trim (take eq normalized) in
              if key = [] then None
              else Some ((kv_on key (parse_env_value (trim (drop (Suc eq) normalized))))
                     \<lparr>kv_sensitive := Some (is_sensitive_variable_name key)\<rparr>))))"

definition parse_env_text :: "string \<Rightarrow> key_value list" where
  "parse_env_text env_text = List.map_filter parse_env_line (split_lines env_text)"

definition export_env_text :: "key_value list \<Rightarrow> bool \<Rightarrow> string" where
  "export_env_text variables include_sensitive =
     join [newline]
       (map (\<lambda>item. trim (kv_key item) @ ''='' @ format_env_value (kv_value item))
         (filter (\<lambda>item. include_sensitive \<or> kv_sensitive item \<noteq> Some True) (filter kv_active variables)))"

section \<open>Lemmas\<close>

text \<open>A literal two-character replacement acts on each token of a text made of tokens.\<close>

definition token_step :: "char \<Rightarrow> char \<Rightarrow> string \<Rightarrow> string \<Rightarrow> string \<Rightarrow> bool" where
  "token_step b x rep t t' \<longleftrightarrow>
     (t = [b, x] \<and> t' = rep) \<or> (\<exists>z. z \<noteq> x \<and> z \<noteq> b \<and> t = [b, z] \<and> t' = t)
     \<or> (\<exists>d. d \<noteq> b \<and> t = [d] \<and> t' = t)"

lemma replace_all_tokens:
  assumes "\<And>c. c \<in> set v \<Longrightarrow> token_step b x rep (f c) (g c)"
  shows "replace_all [b, x] rep (concat (map f v)) = concat (map g v)"
  using assms
proof (induction v)
  case Nil
  then show ?case by simp
next
  case (Cons c v)
  then have IH: "replace_all [b, x] rep (concat (map f v)) = concat (map g v)" by simp
  from Cons.prems [of c] consider "f c = [b, x]" "g c = rep"
    | z where "z \<noteq> x" "z \<noteq> b" "f c = [b, z]" "g c = [b, z]"
    | d where "d \<noteq> b" "f c = [d]" "g c = [d]"
    by (auto simp: token_step_def)
  then show ?case
  proof cases
    case 1
    with IH show ?thesis by simp
  next
    case (2 z)
    with IH show ?thesis by simp
  next
    case (3 d)
    with IH show ?thesis by simp
  qed
qed

text \<open>The values the format carries: no backslash, and no control character but line ends.\<close>

definition env_value_ok :: "string \<Rightarrow> bool" where
  "env_value_ok v \<longleftrightarrow>
     list_all (\<lambda>c. c \<noteq> backslash \<and> (32 \<le> code_unit c \<or> c = newline \<or> c = carriage)) v"

lemma unescape_quoted:
  assumes "env_value_ok v"
  shows "unescape_double (concat (map quote_char v)) = v"
proof -
  let ?q2 = "\<lambda>c. if c = newline then [newline] else quote_char c"
  let ?q3 = "\<lambda>c. if c = newline \<or> c = carriage then [c] else quote_char c"
  have tok: "c = newline \<or> c = carriage \<or> c = dquote \<or>
      (quote_char c = [c] \<and> c \<noteq> newline \<and> c \<noteq> carriage \<and> c \<noteq> backslash \<and> c \<noteq> dquote)"
    if "c \<in> set v" for c
  proof -
    have c: "c \<noteq> backslash" "32 \<le> code_unit c \<or> c = newline \<or> c = carriage"
      using assms that by (simp_all add: env_value_ok_def list_all_iff)
    have "code_unit CHR 0x08 = 8" and "code_unit CHR 0x0C = 12" and "code_unit CHR 0x09 = 9"
      by (simp_all add: code_unit_def)
    then have "32 \<le> code_unit c \<Longrightarrow> c \<noteq> CHR 0x08 \<and> c \<noteq> CHR 0x0C \<and> c \<noteq> CHR 0x09" by auto
    with c show ?thesis by (cases "32 \<le> code_unit c") (auto simp: quote_char_def)
  qed
  have special: "quote_char newline = [backslash, CHR ''n'']" "quote_char carriage = [backslash, CHR ''r'']"
    "quote_char dquote = [backslash, dquote]"
    by (simp_all add: quote_char_def)
  have step: "token_step backslash CHR ''n'' [newline] (quote_char c) (?q2 c)
      \<and> token_step backslash CHR ''r'' [carriage] (?q2 c) (?q3 c)
      \<and> token_step backslash dquote [dquote] (?q3 c) [c]" if "c \<in> set v" for c
    using tok [OF that] by (elim disjE) (simp_all add: special token_step_def)
  have 1: "replace_all [backslash, CHR ''n''] [newline] (concat (map quote_char v)) = concat (map ?q2 v)"
    by (rule replace_all_tokens) (use step in blast)
  have 2: "replace_all [backslash, CHR ''r''] [carriage] (concat (map ?q2 v)) = concat (map ?q3 v)"
    by (rule replace_all_tokens) (use step in blast)
  have 3: "replace_all [backslash, dquote] [dquote] (concat (map ?q3 v)) = concat (map (\<lambda>c. [c]) v)"
    by (rule replace_all_tokens) (use step in blast)
  have 4: "replace_all [backslash, backslash] [backslash] (concat (map (\<lambda>c. [c]) v)) = concat (map (\<lambda>c. [c]) v)"
    by (rule replace_all_tokens) (use assms in \<open>auto simp: token_step_def env_value_ok_def list_all_iff\<close>)
  show ?thesis by (simp add: unescape_double_def 1 2 3 4 [simplified])
qed

lemma index_of_append: "d \<notin> set w \<Longrightarrow> index_of d (w @ d # s) = Some (length w)"
  by (induction w) auto

lemma format_env_value_ends:
  "format_env_value v \<noteq> [] \<and> \<not> js_space (hd (format_env_value v)) \<and> \<not> js_space (last (format_env_value v))"
  by (auto simp: format_env_value_def json_quote_def list_all_iff js_space_def)

lemma quote_char_no_newline: "c \<in> set (quote_char x) \<Longrightarrow> c \<noteq> newline \<and> c \<noteq> carriage"
proof -
  have "code_unit (low_hex_char d) \<noteq> 10 \<and> code_unit (low_hex_char d) \<noteq> 13" if "d < 16" for d
    using that by (auto simp: low_hex_char_def code_unit_def)
  then have hex: "low_hex_char d \<noteq> newline \<and> low_hex_char d \<noteq> carriage" if "d < 16" for d
    using that by (force simp: code_unit_def)
  assume "c \<in> set (quote_char x)"
  then show ?thesis
    using hex [of "code_unit x div 16"] hex [of "code_unit x mod 16"] code_unit_less [of x]
      less_mult_imp_div_less [of "code_unit x" 16 16]
    by (auto simp: quote_char_def code_unit_def split: if_splits)
qed

lemma format_env_value_no_newline:
  "c \<in> set (format_env_value v) \<Longrightarrow> c \<noteq> newline \<and> c \<noteq> carriage"
  by (auto simp: format_env_value_def json_quote_def list_all_iff js_space_def
      dest: quote_char_no_newline split: if_splits)

lemma parse_format_env_value:
  assumes "env_value_ok v"
  shows "parse_env_value (format_env_value v) = v"
proof (cases "v \<noteq> [] \<and> list_all (\<lambda>c. \<not> js_space c \<and> c \<notin> {CHR ''#'', dquote, squote, backslash}) v")
  case True
  then have f: "format_env_value v = v" by (simp add: format_env_value_def)
  from True have "\<not> quoted_with dquote v \<and> \<not> quoted_with squote v"
    by (cases v) (auto simp: quoted_with_def)
  with f show ?thesis by (simp add: parse_env_value_def)
next
  case False
  then have f: "format_env_value v = dquote # concat (map quote_char v) @ [dquote]"
    by (auto simp: format_env_value_def json_quote_def)
  then have "quoted_with dquote (format_env_value v)"
    by (auto simp: quoted_with_def ends_with_def)
  with f show ?thesis by (simp add: parse_env_value_def unescape_quoted [OF assms])
qed

text \<open>A row the format carries: its key survives trimming and is no comment, export or assignment.\<close>

definition env_key_ok :: "string \<Rightarrow> bool" where
  "env_key_ok k \<longleftrightarrow>
     k \<noteq> [] \<and> trim k = k \<and> \<not> starts_with ''#'' k \<and> strip_export k = k \<and> k \<noteq> ''export''
     \<and> CHR ''='' \<notin> set k \<and> newline \<notin> set k"

definition env_row_ok :: "key_value \<Rightarrow> bool" where
  "env_row_ok r \<longleftrightarrow> env_key_ok (kv_key r) \<and> env_value_ok (kv_value r)"

lemma strip_export_append:
  assumes "env_key_ok k"
  shows "strip_export (k @ CHR ''='' # s) = k @ CHR ''='' # s"
proof (cases "length k \<le> 6")
  case False
  then have "drop 6 k \<noteq> []" "starts_with ''export'' (k @ CHR ''='' # s) = starts_with ''export'' k"
    by (simp_all add: starts_with_take)
  moreover obtain c r where "drop 6 k = c # r" using calculation(1) by (cases "drop 6 k") auto
  moreover have "strip_export k = k" using assms by (simp add: env_key_ok_def)
  moreover have "length (trim_start (c # r)) \<le> length k - 6"
    by (metis calculation(3) length_drop trim_start_def length_dropWhile_le)
  ultimately show ?thesis using False
    by (auto simp: strip_export_def split: if_splits dest: arg_cong [where f = length])
next
  case True
  have "\<not> js_space CHR ''=''" by (simp add: js_space_def)
  moreover have "starts_with ''export'' (k @ CHR ''='' # s) \<Longrightarrow> length k = 6 \<or> CHR ''='' \<in> set ''export''"
  proof -
    assume "starts_with ''export'' (k @ CHR ''='' # s)"
    then have tk: "take 6 (k @ CHR ''='' # s) = ''export''" by (simp add: starts_with_take eval_nat_numeral)
    show ?thesis
    proof (cases "length k = 6")
      case False
      with True have "CHR ''='' \<in> set (take 6 (k @ CHR ''='' # s))"
        by (auto simp: take_Cons' )
      with tk show ?thesis by simp
    qed simp
  qed
  ultimately show ?thesis by (auto simp: strip_export_def split: list.splits)
qed

lemma parse_env_line_format:
  assumes "env_key_ok k" and "env_value_ok v"
  shows "parse_env_line (k @ ''='' @ format_env_value v) =
    Some ((kv_on k v)\<lparr>kv_sensitive := Some (is_sensitive_variable_name k)\<rparr>)"
proof -
  let ?l = "k @ CHR ''='' # format_env_value v"
  note k = assms(1) [unfolded env_key_ok_def]
  have ne: "k \<noteq> []" "format_env_value v \<noteq> []" using k format_env_value_ends [of v] by auto
  have "trim ?l = ?l"
    by (rule trim_hd_last) (use ne trim_ends [of k] k format_env_value_ends [of v] in auto)
  moreover have "\<not> starts_with ''#'' ?l" using k by (cases k) auto
  moreover have "index_of CHR ''='' ?l = Some (length k)" using k by (intro index_of_append) simp
  moreover have "trim (format_env_value v) = format_env_value v"
    by (rule trim_hd_last) (use format_env_value_ends [of v] in auto)
  ultimately show ?thesis
    using k ne(1) by (simp add: parse_env_line_def Let_def strip_export_append [OF assms(1)]
        parse_format_env_value [OF assms(2)])
qed

lemma split_lines_join:
  assumes "ls \<noteq> []" and "\<And>l. l \<in> set ls \<Longrightarrow> newline \<notin> set l \<and> (l = [] \<or> last l \<noteq> carriage)"
  shows "split_lines (join [newline] ls) = ls"
proof -
  have "split_on newline (join [newline] ls) = ls"
    by (rule split_on_join) (use assms in auto)
  moreover have "map strip_cr (butlast ls) = butlast ls"
  proof (rule map_idI)
    fix l assume "l \<in> set (butlast ls)"
    then have "l \<in> set ls" by (rule in_set_butlastD)
    with assms(2) [of l] show "strip_cr l = l" by (auto simp: strip_cr_def)
  qed
  ultimately show ?thesis using assms(1) by (simp add: split_lines_def Let_def)
qed

section \<open>Properties\<close>



text \<open>
  The round trip fails for a value with a backslash before an \<open>n\<close>: a Windows path is read back
  with a line feed and a lost letter.
\<close>

theorem env_text_backslash_lost:
  "map kv_value (parse_env_text (export_env_text [kv_on ''DIR'' ([CHR ''C'', CHR '':'', backslash] @ ''new'')] True))
     = [[CHR ''C'', CHR '':'', backslash, newline] @ ''ew'']"
  by code_simp

text \<open>
  The mask shown for a sensitive value has between 6 and 12 stars, none for an empty value, and
  does not depend on the characters of the value.
\<close>

theorem masked_value_bounds:
  "set (masked_value v) \<subseteq> {CHR ''*''} \<and> (masked_value v = [] \<longleftrightarrow> v = [])
   \<and> length (masked_value v) \<in> {0} \<union> {6..12}
   \<and> masked_value (map f v) = masked_value v"
  by (auto simp: masked_value_def)

end
