(* ===== verification/Cookies.thy ===== *)
theory Cookies
  imports Js_Host Js_Runtime
begin

text \<open>
  packages/core/src/cookies/index.ts: reading \<open>Set-Cookie\<close> headers, choosing the cookies sent with a
  request, and the \<open>Cookie\<close> header.
\<close>

section \<open>Reading Set-Cookie\<close>

text \<open>\<open>parseInt(s, 10)\<close>: leading space, a sign, then the longest run of digits.\<close>

definition parse_int :: "string \<Rightarrow> int option" where
  "parse_int s =
     (let t = trim_start s;
          (sg, ds) = (case t of
             c # r \<Rightarrow> if c = CHR ''-'' then (-1, r) else if c = CHR ''+'' then (1, r) else (1, t)
           | [] \<Rightarrow> (1::int, t)) in
      if takeWhile is_digit ds = [] then None
      else Some (sg * int (digits_value (takeWhile is_digit ds))))"

text \<open>A name and a value at the first equals sign.\<close>

definition split_at_eq :: "string \<Rightarrow> string \<times> string" where
  "split_at_eq s =
     (case index_of CHR ''='' s of
        Some i \<Rightarrow> (take i s, drop (Suc i) s)
      | None \<Rightarrow> (s, []))"

record cookie_attrs =
  ca_domain :: string
  ca_path :: string
  ca_secure :: bool
  ca_httpOnly :: bool
  ca_sameSite :: "string option"
  ca_expires :: "int option"

definition same_site_name :: "string \<Rightarrow> string" where
  "same_site_name v = to_upper (take 1 v) @ to_lower (drop 1 v)"

definition apply_attr :: "host \<Rightarrow> int \<Rightarrow> string \<Rightarrow> cookie_attrs \<Rightarrow> cookie_attrs" where
  "apply_attr h now attr ca =
     (let key = to_lower (trim (fst (split_at_eq attr))); v = trim (snd (split_at_eq attr)) in
      if key = ''domain'' \<and> v \<noteq> [] then
        ca\<lparr>ca_domain := (if starts_with ''.'' v then drop 1 v else v)\<rparr>
      else if key = ''path'' \<and> v \<noteq> [] then ca\<lparr>ca_path := v\<rparr>
      else if key = ''secure'' then ca\<lparr>ca_secure := True\<rparr>
      else if key = ''httponly'' then ca\<lparr>ca_httpOnly := True\<rparr>
      else if key = ''samesite'' \<and> v \<noteq> [] then
        (if same_site_name v \<in> {''Strict'', ''Lax'', ''None''}
         then ca\<lparr>ca_sameSite := Some (same_site_name v)\<rparr> else ca)
      else if key = ''expires'' \<and> v \<noteq> [] then
        (case ho_date_parse h v of Some d \<Rightarrow> ca\<lparr>ca_expires := Some d\<rparr> | None \<Rightarrow> ca)
      else if key = ''max-age'' \<and> v \<noteq> [] then
        (case parse_int v of
           Some secs \<Rightarrow> ca\<lparr>ca_expires := Some (if secs > 0 then now + secs * 1000 else 0)\<rparr>
         | None \<Rightarrow> ca)
      else ca)"

definition parse_cookie_header ::
  "host \<Rightarrow> string \<Rightarrow> int \<Rightarrow> string \<Rightarrow> (string \<times> string \<times> cookie_attrs) option" where
  "parse_cookie_header h url_host now header =
     (let parts = map trim (split_on CHR '';'' header);
          (n, v) = split_at_eq (hd parts) in
      if trim n = [] then None
      else Some (trim n, trim v,
        fold (apply_attr h now) (tl parts)
          \<lparr>ca_domain = url_host, ca_path = ''/'', ca_secure = False, ca_httpOnly = False,
           ca_sameSite = None, ca_expires = None\<rparr>))"

definition make_cookie :: "string \<Rightarrow> int \<Rightarrow> string \<times> string \<times> cookie_attrs \<Rightarrow> stored_cookie" where
  "make_cookie cid now p =
     (case p of (n, v, ca) \<Rightarrow>
       \<lparr>ck_id = cid, ck_domain = ca_domain ca, ck_path = ca_path ca, ck_name = n, ck_value = v,
        ck_secure = ca_secure ca, ck_httpOnly = ca_httpOnly ca, ck_sameSite = ca_sameSite ca,
        ck_expires = ca_expires ca, ck_createdAt = now, ck_updatedAt = now\<rparr>)"

fun parse_cookie_list ::
  "host \<Rightarrow> string \<Rightarrow> int \<Rightarrow> string list \<Rightarrow> runtime \<Rightarrow> stored_cookie list \<times> runtime" where
  "parse_cookie_list h url_host now [] rt = ([], rt)"
| "parse_cookie_list h url_host now (header # hs) rt =
     (case parse_cookie_header h url_host now header of
        None \<Rightarrow> parse_cookie_list h url_host now hs rt
      | Some p \<Rightarrow>
          (let (cid, rt1) = draw_uuid rt; (cs, rt2) = parse_cookie_list h url_host now hs rt1 in
           (make_cookie cid now p # cs, rt2)))"

definition parse_cookie_headers ::
  "host \<Rightarrow> string list \<Rightarrow> string \<Rightarrow> runtime \<Rightarrow> stored_cookie list \<times> runtime" where
  "parse_cookie_headers h headers url rt =
     (case ho_url h url of
        None \<Rightarrow> ([], rt)
      | Some u \<Rightarrow> (let (now, rt') = read_clock rt in
                   parse_cookie_list h (up_hostname u) now headers rt'))"

section \<open>Choosing cookies\<close>

definition with_slash :: "string \<Rightarrow> string" where
  "with_slash p = (if ends_with ''/'' p then p else p @ ''/'')"

definition cookie_applies :: "url_parts \<Rightarrow> int \<Rightarrow> stored_cookie \<Rightarrow> bool" where
  "cookie_applies u now c \<longleftrightarrow>
     \<not> (case ck_expires c of Some e \<Rightarrow> e < now | None \<Rightarrow> False)
     \<and> \<not> (ck_secure c \<and> up_protocol u \<noteq> ''https:'')
     \<and> (up_hostname u = ck_domain c \<or> ends_with (''.'' @ ck_domain c) (up_hostname u))
     \<and> starts_with (with_slash (ck_path c)) (with_slash (up_pathname u))"

definition match_cookies ::
  "host \<Rightarrow> stored_cookie list \<Rightarrow> string \<Rightarrow> runtime \<Rightarrow> stored_cookie list \<times> runtime" where
  "match_cookies h cookies url rt =
     (case ho_url h url of
        None \<Rightarrow> ([], rt)
      | Some u \<Rightarrow> (let (now, rt') = read_clock rt in (filter (cookie_applies u now) cookies, rt')))"

definition build_cookie_header :: "stored_cookie list \<Rightarrow> string" where
  "build_cookie_header cookies = join ''; '' (map (\<lambda>c. ck_name c @ ''='' @ ck_value c) cookies)"

section \<open>Lemmas\<close>

lemma ends_with_char: "ends_with [x] s \<longleftrightarrow> s \<noteq> [] \<and> last s = x"
proof
  assume "ends_with [x] s"
  then obtain t where "s = t @ [x]" by (auto simp: ends_with_iff)
  then show "s \<noteq> [] \<and> last s = x" by simp
next
  assume "s \<noteq> [] \<and> last s = x"
  then have "s = butlast s @ [x]" by (metis append_butlast_last_id)
  then show "ends_with [x] s" by (auto simp: ends_with_iff)
qed

text \<open>
  Path matching as a relation on paths: the same path up to a final slash, or a prefix that ends at
  a slash.
\<close>

definition path_covers :: "string \<Rightarrow> string \<Rightarrow> bool" where
  "path_covers cp p \<longleftrightarrow>
     with_slash p = with_slash cp
     \<or> (\<exists>rest. rest \<noteq> [] \<and> p = with_slash cp @ rest)"

lemma with_slash_last: "\<exists>t. with_slash p = t @ ''/''"
  by (auto simp: with_slash_def ends_with_iff)

lemma path_prefix_covers: "starts_with (with_slash cp) (with_slash p) \<longleftrightarrow> path_covers cp p"
proof
  assume "starts_with (with_slash cp) (with_slash p)"
  then obtain rest where r: "with_slash p = with_slash cp @ rest" by (auto simp: starts_with_iff)
  show "path_covers cp p"
  proof (cases rest rule: rev_cases)
    case Nil
    with r show ?thesis by (simp add: path_covers_def)
  next
    case (snoc q x)
    show ?thesis
    proof (cases "ends_with ''/'' p")
      case True
      with r snoc show ?thesis by (auto simp: path_covers_def with_slash_def [of p])
    next
      case False
      with r snoc have p: "p = with_slash cp @ q" by (simp add: with_slash_def [of p] flip: append_assoc)
      have "q \<noteq> []"
      proof
        assume "q = []"
        with p with_slash_last [of cp] have "ends_with ''/'' p" by (auto simp: ends_with_iff)
        with False show False by simp
      qed
      with p show ?thesis by (auto simp: path_covers_def)
    qed
  qed
next
  assume "path_covers cp p"
  then show "starts_with (with_slash cp) (with_slash p)"
  proof (unfold path_covers_def, elim disjE exE conjE)
    assume "with_slash p = with_slash cp"
    then show ?thesis by (simp add: starts_with_iff)
  next
    fix rest assume "rest \<noteq> []" and "p = with_slash cp @ rest"
    then have "with_slash p = with_slash cp @ rest \<or> with_slash p = with_slash cp @ rest @ ''/''"
      by (simp add: with_slash_def [of p] with_slash_def [of "with_slash cp @ rest"])
    then show ?thesis by (auto simp: starts_with_iff)
  qed
qed

lemma parse_cookie_list_props:
  "parse_cookie_list h url_host now hs rt = (cs, rt') \<Longrightarrow> c \<in> set cs \<Longrightarrow>
     ck_name c \<noteq> [] \<and> ck_createdAt c = now
     \<and> (\<exists>header \<in> set hs. \<exists>p. parse_cookie_header h url_host now header = Some p
          \<and> c = make_cookie (ck_id c) now p)"
proof (induction hs arbitrary: rt cs rt')
  case Nil
  then show ?case by simp
next
  case (Cons header hs)
  show ?case
  proof (cases "parse_cookie_header h url_host now header")
    case None
    with Cons show ?thesis by fastforce
  next
    case (Some p)
    obtain cid rt1 where u: "draw_uuid rt = (cid, rt1)" by fastforce
    obtain ds rt2 where l: "parse_cookie_list h url_host now hs rt1 = (ds, rt2)" by fastforce
    from Cons.prems Some u l have "c = make_cookie cid now p \<or> c \<in> set ds" by auto
    then show ?thesis
    proof
      assume c: "c = make_cookie cid now p"
      moreover from Some have "fst p \<noteq> []"
        by (auto simp: parse_cookie_header_def Let_def split: prod.splits if_splits)
      ultimately show ?thesis using Some by (cases p) (auto simp: make_cookie_def)
    next
      assume "c \<in> set ds"
      from Cons.IH [OF l this] show ?thesis by auto
    qed
  qed
qed

section \<open>Properties\<close>

text \<open>
  C6: A cookie is sent with a request exactly when it is stored, has not expired, is not confined to
  HTTPS on another protocol, its domain is the host or a suffix of it after a dot, and its path is
  the request's path or a prefix of it that ends at a slash; the order is the stored one.
\<close>

theorem match_cookies_exact:
  assumes "ho_url h url = Some u" and "match_cookies h cookies url rt = (sent, rt')"
  shows "sent = filter (\<lambda>c. (\<forall>e. ck_expires c = Some e \<longrightarrow> fst (read_clock rt) \<le> e)
      \<and> (ck_secure c \<longrightarrow> up_protocol u = ''https:'')
      \<and> (up_hostname u = ck_domain c \<or> (\<exists>p. up_hostname u = p @ ''.'' @ ck_domain c))
      \<and> path_covers (ck_path c) (up_pathname u)) cookies"
proof -
  have "cookie_applies u now = (\<lambda>c. (\<forall>e. ck_expires c = Some e \<longrightarrow> now \<le> e)
      \<and> (ck_secure c \<longrightarrow> up_protocol u = ''https:'')
      \<and> (up_hostname u = ck_domain c \<or> (\<exists>p. up_hostname u = p @ ''.'' @ ck_domain c))
      \<and> path_covers (ck_path c) (up_pathname u))" for now
    by (rule ext) (auto simp: cookie_applies_def path_prefix_covers ends_with_iff split: option.splits)
  with assms show ?thesis by (simp add: match_cookies_def split: prod.splits)
qed

definition plain_cookie :: "string \<Rightarrow> string \<Rightarrow> string \<Rightarrow> stored_cookie" where
  "plain_cookie n d p = \<lparr>ck_id = n, ck_domain = d, ck_path = p, ck_name = n, ck_value = ''1'',
     ck_secure = False, ck_httpOnly = False, ck_sameSite = None, ck_expires = None,
     ck_createdAt = 0, ck_updatedAt = 0\<rparr>"

theorem match_cookies_exact_witness:
  "fst (match_cookies sample_host [(plain_cookie ''a'' ''b.io'' ''/'')\<lparr>ck_expires := Some 0\<rparr>]
      ''https://b.io/x'' sample_runtime) = []"
proof -
  let ?cs = "[(plain_cookie ''a'' ''b.io'' ''/'')\<lparr>ck_expires := Some 0\<rparr>]"
  obtain sent rt' where m: "match_cookies sample_host ?cs ''https://b.io/x'' sample_runtime = (sent, rt')"
    by fastforce
  have "sample_url ''https://b.io/x'' \<noteq> None" by code_simp
  then obtain u where u: "ho_url sample_host ''https://b.io/x'' = Some u"
    by (auto simp: sample_host_def)
  have "fst (read_clock sample_runtime) = 1700000000000"
    by (simp add: read_clock_def sample_runtime_def)
  with match_cookies_exact [OF u m] m show ?thesis by simp
qed

text \<open>
  The \<open>Domain\<close> attribute of a response's cookie is taken as it is: any site can set a cookie
  for any other domain, and the cookie is then sent to that domain.
\<close>

theorem foreign_domain_accepted:
  assumes "ho_url h url = Some u" and "d \<noteq> []" and "trim d = d" and "\<not> starts_with ''.'' d"
    and "CHR '';'' \<notin> set d"
  shows "\<exists>c. fst (parse_cookie_headers h [''a=1; Domain='' @ d] url rt) = [c] \<and> ck_domain c = d
    \<and> (\<forall>v now. up_hostname v = d \<longrightarrow> up_pathname v = ''/'' \<longrightarrow> cookie_applies v now c)"
proof -
  obtain now rt1 where clock: "read_clock rt = (now, rt1)" by fastforce
  obtain cid rt2 where uid: "draw_uuid rt1 = (cid, rt2)" by fastforce
  have parts: "split_on CHR '';'' (''a=1; Domain='' @ d) = [''a=1'', '' Domain='' @ d]"
    using split_on_append [of "CHR '';''" "''a=1''" "'' Domain='' @ d"] assms(5)
    by (simp add: split_on_no_sep)
  have tr: "trim ('' Domain='' @ d) = ''Domain='' @ d"
  proof -
    have "trim_start ('' Domain='' @ d) = ''Domain='' @ d" by (simp add: js_space_def)
    moreover obtain w x where w: "d = w @ [x]" using assms(2) by (cases d rule: rev_cases) auto
    moreover have "\<not> js_space x" using trim_ends(2) [OF assms(3,2)] w by simp
    ultimately show ?thesis using trim_end_snoc [of "''Domain='' @ w" x] by (simp add: trim_def)
  qed
  have a1: "trim ''a=1'' = ''a=1''" "split_at_eq ''a=1'' = (''a'', ''1'')"
    "trim ''a'' = ''a''" "trim ''1'' = ''1''" by code_simp+
  have dom: "split_at_eq (''Domain='' @ d) = (''Domain'', d)"
    by (simp add: split_at_eq_def)
  have key: "to_lower (trim ''Domain'') = ''domain''" by code_simp
  let ?ca = "\<lparr>ca_domain = d, ca_path = ''/'', ca_secure = False, ca_httpOnly = False,
           ca_sameSite = None, ca_expires = None\<rparr>"
  have "parse_cookie_header h (up_hostname u) now (''a=1; Domain='' @ d) = Some (''a'', ''1'', ?ca)"
    using assms(2-4)
    by (simp add: parse_cookie_header_def split_on_no_sep [OF assms(5)] tr [simplified] a1 apply_attr_def dom [simplified] key Let_def)
  then have "fst (parse_cookie_headers h [''a=1; Domain='' @ d] url rt) = [make_cookie cid now (''a'', ''1'', ?ca)]"
    using assms(1) by (simp add: parse_cookie_headers_def clock uid Let_def)
  moreover have "cookie_applies v n (make_cookie cid now (''a'', ''1'', ?ca))"
    if "up_hostname v = d" and "up_pathname v = ''/''" for v n
    using that by (simp add: cookie_applies_def make_cookie_def starts_with_take)
  ultimately show ?thesis by (auto simp: make_cookie_def)
qed

theorem foreign_domain_accepted_witness:
  "\<exists>c. fst (parse_cookie_headers sample_host [''a=1; Domain='' @ ''bank.com''] ''https://evil.io/'' sample_runtime) = [c]
     \<and> ck_domain c = ''bank.com''"
proof -
  have "sample_url ''https://evil.io/'' \<noteq> None" by code_simp
  then obtain u where u: "ho_url sample_host ''https://evil.io/'' = Some u"
    by (auto simp: sample_host_def)
  have d: "trim ''bank.com'' = ''bank.com''" by code_simp
  show ?thesis using foreign_domain_accepted [OF u _ d, of sample_runtime] by auto
qed

end
