(* ===== verification/Auth.thy ===== *)
theory Auth
  imports Template
begin

text \<open>
  packages/core/src/request/auth.ts: adding credentials to a request, building its URL from the
  parameter rows, and AWS signature version 4.
\<close>

section \<open>applyAuth\<close>

text \<open>A non-empty optional string, the test of \<open>auth.token\<close> used as a condition.\<close>

fun truthy :: "string option \<Rightarrow> bool" where
  "truthy None = False"
| "truthy (Some s) = (s \<noteq> [])"

definition opt_str :: "string option \<Rightarrow> string" where
  "opt_str v = (case v of None \<Rightarrow> [] | Some s \<Rightarrow> s)"

definition auth_headers :: "auth_config \<Rightarrow> key_value list" where
  "auth_headers auth =
     (case au_username auth of
        Some u \<Rightarrow> if au_type auth = AT_basic
          then [kv_on ''Authorization'' (''Basic '' @ btoa (u @ '':'' @ opt_str (au_password auth)))]
          else []
      | None \<Rightarrow> [])
     @ (if (au_type auth = AT_bearer \<or> au_type auth = AT_oauth2) \<and> truthy (au_token auth)
        then [kv_on ''Authorization'' (''Bearer '' @ opt_str (au_token auth))] else [])"

definition auth_api_key :: "auth_config \<Rightarrow> key_value list" where
  "auth_api_key auth =
     (if au_type auth = AT_api_key \<and> truthy (au_apiKeyName auth) \<and> truthy (au_apiKeyValue auth)
      then [kv_on (opt_str (au_apiKeyName auth)) (opt_str (au_apiKeyValue auth))] else [])"

definition apply_auth :: "request_config \<Rightarrow> request_config" where
  "apply_auth request =
     (let auth = rq_auth request; headers = rq_headers request @ auth_headers auth in
      if au_apiKeyIn auth = Some In_query
      then request\<lparr>rq_headers := headers, rq_params := rq_params request @ auth_api_key auth\<rparr>
      else request\<lparr>rq_headers := headers @ auth_api_key auth, rq_params := rq_params request\<rparr>)"

section \<open>buildUrl\<close>

definition encode_pair :: "key_value \<Rightarrow> string" where
  "encode_pair p = encode_uri_component (kv_key p) @ ''='' @ encode_uri_component (kv_value p)"

definition build_url :: "host \<Rightarrow> string \<Rightarrow> key_value list \<Rightarrow> string" where
  "build_url h raw_url params =
     (let enabled = filter kv_active params in
      if enabled = [] then raw_url
      else case ho_url h raw_url of
          Some u \<Rightarrow> ho_url_append h raw_url (map (\<lambda>p. (kv_key p, kv_value p)) enabled)
        | None \<Rightarrow> raw_url @ (if CHR ''?'' \<in> set raw_url then ''&'' else ''?'')
                   @ join ''&'' (map encode_pair enabled))"

section \<open>AWS signature version 4\<close>

fun strip_amz :: "string \<Rightarrow> string" where
  "strip_amz [] = []"
| "strip_amz (c # s) =
     (if c = CHR '':'' \<or> c = CHR ''-'' then strip_amz s
      else if c = CHR ''.'' \<and> length (takeWhile is_digit (take 3 s)) = 3 then strip_amz (drop 3 s)
      else c # strip_amz s)"

text \<open>\<open>value.trim().replace(/\s+/g, " ")\<close> on the trimmed value.\<close>

fun collapse_from :: "bool \<Rightarrow> string \<Rightarrow> string" where
  "collapse_from after_space [] = []"
| "collapse_from after_space (c # s) =
     (if js_space c then (if after_space then [] else '' '') @ collapse_from True s
      else c # collapse_from False s)"

definition collapse_spaces :: "string \<Rightarrow> string" where
  "collapse_spaces s = collapse_from False s"

definition bytes_to_hex :: "nat list \<Rightarrow> string" where
  "bytes_to_hex bs = concat (map (\<lambda>b. [low_hex_char (b div 16), low_hex_char (b mod 16)]) bs)"

definition aws_encode :: "string \<Rightarrow> string" where
  "aws_encode v =
     concat (map (\<lambda>c. if c \<in> set ''!()*'' \<or> c = squote then percent_byte (code_unit c) else [c])
               (encode_uri_component v))"

definition safe_decode :: "string \<Rightarrow> string" where
  "safe_decode v = (case decode_uri_component v of Some w \<Rightarrow> w | None \<Rightarrow> v)"

definition canonical_aws_path :: "url_parts \<Rightarrow> string" where
  "canonical_aws_path u =
     ''/'' @ join ''/'' (map (\<lambda>part. aws_encode (safe_decode part))
              (split_on CHR ''/'' (dropWhile (\<lambda>c. c = CHR ''/'') (up_pathname u))))"

definition pair_le :: "host \<Rightarrow> string \<times> string \<Rightarrow> string \<times> string \<Rightarrow> bool" where
  "pair_le h l r =
     (let c = ho_locale_compare h (fst l) (fst r) in
      (if c \<noteq> 0 then c else ho_locale_compare h (snd l) (snd r)) \<le> 0)"

definition canonical_aws_query :: "host \<Rightarrow> url_parts \<Rightarrow> string" where
  "canonical_aws_query h u =
     join ''&'' (map (\<lambda>(k, v). k @ ''='' @ v)
       (stable_sort (pair_le h) (map (\<lambda>(k, v). (aws_encode k, aws_encode v)) (up_query u))))"

definition string_bytes :: "string \<Rightarrow> nat list" where
  "string_bytes s = concat (map utf8_bytes s)"

definition aws_signing_key :: "host \<Rightarrow> string \<Rightarrow> string \<Rightarrow> string \<Rightarrow> string \<Rightarrow> nat list" where
  "aws_signing_key h secret date_stamp region service =
     (let date_key = ho_hmac h (string_bytes (''AWS4'' @ secret)) date_stamp;
          region_key = ho_hmac h date_key region;
          service_key = ho_hmac h region_key service in
      ho_hmac h service_key ''aws4_request'')"

text \<open>The headers that stay, and the map from lower-case names to values that is signed.\<close>

definition aws_kept_headers :: "request_config \<Rightarrow> key_value list" where
  "aws_kept_headers request =
     filter (\<lambda>hdr. kv_active hdr \<and> to_lower (kv_key hdr) \<noteq> ''authorization'') (rq_headers request)"

definition add_signing_header ::
  "key_value \<Rightarrow> (string \<times> string list) list \<Rightarrow> (string \<times> string list) list" where
  "add_signing_header hdr m =
     (let key = to_lower (trim (kv_key hdr)); old = (case map_of m key of Some vs \<Rightarrow> vs | None \<Rightarrow> []) in
      AList.update key (old @ [collapse_spaces (trim (kv_value hdr))]) m)"

definition signing_headers ::
  "key_value list \<Rightarrow> string \<Rightarrow> string \<Rightarrow> string option \<Rightarrow> (string \<times> string list) list" where
  "signing_headers headers url_host amz_date session_token =
     (let m = AList.update ''x-amz-date'' [amz_date]
                (AList.update ''host'' [url_host] (fold add_signing_header headers [])) in
      if truthy session_token
      then AList.update ''x-amz-security-token'' [opt_str session_token] m else m)"

definition signed_header_keys :: "(string \<times> string list) list \<Rightarrow> string list" where
  "signed_header_keys m = sort (map fst m)"

definition canonical_headers :: "(string \<times> string list) list \<Rightarrow> string" where
  "canonical_headers m =
     concat (map (\<lambda>k. k @ '':'' @ join '','' (case map_of m k of Some vs \<Rightarrow> vs | None \<Rightarrow> []) @ [newline])
               (signed_header_keys m))"

definition reserved_aws :: "string list" where
  "reserved_aws = [''host'', ''x-amz-date'', ''x-amz-security-token'']"

definition sign_with :: "host \<Rightarrow> request_config \<Rightarrow> url_parts \<Rightarrow> string \<Rightarrow> request_config" where
  "sign_with h request u amz_date =
     (let auth = rq_auth request;
          date_stamp = take 8 amz_date;
          payload = (if rq_bodyMode request = BM_none then [] else rq_body request);
          headers = aws_kept_headers request;
          m = signing_headers headers (up_host u) amz_date (au_awsSessionToken auth);
          signed = join '';'' (signed_header_keys m);
          canonical_request = join [newline]
            [rq_method request, canonical_aws_path u, canonical_aws_query h u, canonical_headers m,
             signed, bytes_to_hex (ho_sha256 h payload)];
          scope = date_stamp @ ''/'' @ opt_str (au_awsRegion auth) @ ''/''
            @ opt_str (au_awsService auth) @ ''/aws4_request'';
          string_to_sign = join [newline]
            [''AWS4-HMAC-SHA256'', amz_date, scope, bytes_to_hex (ho_sha256 h canonical_request)];
          key = aws_signing_key h (opt_str (au_awsSecretAccessKey auth)) date_stamp
            (opt_str (au_awsRegion auth)) (opt_str (au_awsService auth));
          signature = bytes_to_hex (ho_hmac h key string_to_sign);
          authorization = ''AWS4-HMAC-SHA256 Credential='' @ opt_str (au_awsAccessKeyId auth) @ ''/''
            @ scope @ '', SignedHeaders='' @ signed @ '', Signature='' @ signature in
      request\<lparr>rq_headers :=
         filter (\<lambda>hdr. to_lower (trim (kv_key hdr)) \<notin> set reserved_aws) headers
         @ [kv_on ''X-Amz-Date'' amz_date]
         @ (if truthy (au_awsSessionToken auth)
            then [kv_on ''X-Amz-Security-Token'' (opt_str (au_awsSessionToken auth))] else [])
         @ [kv_on ''Authorization'' authorization]\<rparr>)"

text \<open>The signing time is the option's when given, otherwise the clock is read.\<close>

definition sign_aws_sigv4_request ::
  "host \<Rightarrow> request_config \<Rightarrow> rat option \<Rightarrow> (runtime, request_config) sx" where
  "sign_aws_sigv4_request h request now_opt rt =
     (let auth = rq_auth request in
      if au_type auth \<noteq> AT_aws_sigv4 then Inr (request, rt)
      else if \<not> truthy (au_awsAccessKeyId auth) \<or> \<not> truthy (au_awsSecretAccessKey auth)
              \<or> \<not> truthy (au_awsRegion auth) \<or> \<not> truthy (au_awsService auth)
      then Inl (plain_error ''AWS SigV4 requires access key, secret key, region, and service'')
      else case ho_url h (rq_url request) of
          None \<Rightarrow> Inl (invalid_url (rq_url request))
        | Some u \<Rightarrow>
            (let (now, rt') = (case now_opt of Some t \<Rightarrow> (t, rt)
                               | None \<Rightarrow> (let (t, rt'') = read_clock rt in (of_int t, rt''))) in
             case date_iso now of
               Inl e \<Rightarrow> Inl e
             | Inr stamp \<Rightarrow> Inr (sign_with h request u (strip_amz stamp), rt')))"

section \<open>Lemmas\<close>

lemma apply_auth_fields [simp]:
  "rq_url (apply_auth r) = rq_url r" "rq_body (apply_auth r) = rq_body r"
  "rq_method (apply_auth r) = rq_method r" "rq_bodyMode (apply_auth r) = rq_bodyMode r"
  "rq_auth (apply_auth r) = rq_auth r" "rq_options (apply_auth r) = rq_options r"
  by (simp_all add: apply_auth_def Let_def)

lemma add_signing_header_keys:
  "fst ` set (add_signing_header hdr m) = insert (to_lower (trim (kv_key hdr))) (fst ` set m)"
  by (simp add: add_signing_header_def Let_def dom_update)

lemma fold_signing_keys:
  "fst ` set (fold add_signing_header hdrs m) = (\<lambda>hdr. to_lower (trim (kv_key hdr))) ` set hdrs \<union> fst ` set m"
  by (induction hdrs arbitrary: m) (auto simp: add_signing_header_keys)

lemma fold_signing_distinct:
  "distinct (map fst m) \<Longrightarrow> distinct (map fst (fold add_signing_header hdrs m))"
  by (induction hdrs arbitrary: m) (simp_all add: add_signing_header_def Let_def distinct_update)

lemma signed_keys_set:
  "set (signed_header_keys (signing_headers hdrs u d tok)) =
     (\<lambda>hdr. to_lower (trim (kv_key hdr))) ` set hdrs \<union> {''host'', ''x-amz-date''}
     \<union> (if truthy tok then {''x-amz-security-token''} else {})"
  by (auto simp: signed_header_keys_def signing_headers_def Let_def dom_update fold_signing_keys
      simp del: set_map simp add: set_map)

lemma signed_keys_distinct:
  "distinct (signed_header_keys (signing_headers hdrs u d tok))"
  by (simp add: signed_header_keys_def signing_headers_def Let_def distinct_update
      fold_signing_distinct)

lemma to_lower_id: "(\<And>c. c \<in> set s \<Longrightarrow> lower_char c = c) \<Longrightarrow> to_lower s = s"
  by (simp add: to_lower_def map_idI)

section \<open>Properties\<close>

text \<open>A request for evaluating the model: a GET of a URL with nothing else.\<close>

definition plain_request :: "string \<Rightarrow> request_config" where
  "plain_request u = \<lparr>rq_method = ''GET'', rq_url = u, rq_params = [], rq_headers = [],
     rq_bodyMode = BM_none, rq_body = [], rq_bodyFileName = None, rq_auth = auth_none,
     rq_timeoutMs = 30000, rq_variables = None, rq_pathVariables = None, rq_assertions = None,
     rq_extractionRules = None, rq_options = None, rq_scripts = None, rq_retryPolicy = None\<rparr>"

definition aws_request :: request_config where
  "aws_request = (plain_request ''https://a/b'')\<lparr>
     rq_headers := [kv_on ''Accept'' ''*/*'', kv_on ''Authorization'' ''old''],
     rq_auth := auth_none\<lparr>au_type := AT_aws_sigv4, au_awsAccessKeyId := Some ''AK'',
       au_awsSecretAccessKey := Some ''SK'', au_awsRegion := Some ''r'', au_awsService := Some ''s''\<rparr>\<rparr>"

text \<open>
  \<open>applyAuth\<close> keeps every header and parameter and adds at most one entry: a parameter only for
  an API key placed in the query, otherwise an \<open>Authorization\<close> header or the API key's header. A
  request without credentials, or with digest, NTLM or AWS credentials, is returned as it is.
\<close>

theorem apply_auth_adds_at_most_one:
  "\<exists>hs ps. rq_headers (apply_auth r) = rq_headers r @ hs \<and> rq_params (apply_auth r) = rq_params r @ ps
     \<and> length hs + length ps \<le> 1
     \<and> (ps \<noteq> [] \<longrightarrow> au_type (rq_auth r) = AT_api_key \<and> au_apiKeyIn (rq_auth r) = Some In_query)
     \<and> (\<forall>x \<in> set hs. kv_key x = ''Authorization'' \<and> au_type (rq_auth r) \<in> {AT_basic, AT_bearer, AT_oauth2}
          \<or> au_type (rq_auth r) = AT_api_key)"
proof -
  let ?a = "rq_auth r"
  have h: "length (auth_headers ?a) + length (auth_api_key ?a) \<le> 1"
    by (auto simp: auth_headers_def auth_api_key_def split: option.splits)
  have k: "\<forall>x \<in> set (auth_headers ?a). kv_key x = ''Authorization'' \<and> au_type ?a \<in> {AT_basic, AT_bearer, AT_oauth2}"
    by (auto simp: auth_headers_def split: option.splits)
  have q: "auth_api_key ?a \<noteq> [] \<Longrightarrow> au_type ?a = AT_api_key"
    by (simp add: auth_api_key_def split: if_splits)
  show ?thesis
  proof (cases "au_apiKeyIn ?a = Some In_query")
    case True
    with h k q show ?thesis
      by (intro exI [of _ "auth_headers ?a"] exI [of _ "auth_api_key ?a"]) (auto simp: apply_auth_def Let_def)
  next
    case False
    have "\<forall>x \<in> set (auth_api_key ?a). au_type ?a = AT_api_key" by (intro ballI q) auto
    with False h k show ?thesis
      by (intro exI [of _ "auth_headers ?a @ auth_api_key ?a"] exI [of _ "[]"])
        (auto simp: apply_auth_def Let_def)
  qed
qed

theorem apply_auth_adds_at_most_one_witness:
  "\<exists>hs ps. rq_headers (apply_auth (plain_request ''a'')) = rq_headers (plain_request ''a'') @ hs
     \<and> rq_params (apply_auth (plain_request ''a'')) = rq_params (plain_request ''a'') @ ps
     \<and> length hs + length ps \<le> 1"
  using apply_auth_adds_at_most_one [of "plain_request ''a''"] by blast

text \<open>
  C8: For a raw URL that does not parse (a template left in it, a relative path) and has no query,
  \<open>buildUrl\<close> appends a query from which splitting at ampersands and equals signs and decoding gives
  back the keys and values of the enabled parameters, in order.
\<close>

theorem build_url_query_recoverable:
  assumes "ho_url h raw = None" and "CHR ''?'' \<notin> set raw" and "filter kv_active params \<noteq> []"
  shows "\<exists>q. build_url h raw params = raw @ ''?'' @ q
    \<and> map (\<lambda>p. map decode_uri_component (split_on CHR ''='' p)) (split_on CHR ''&'' q)
      = map (\<lambda>p. [Some (kv_key p), Some (kv_value p)]) (filter kv_active params)"
proof -
  let ?q = "join ''&'' (map encode_pair (filter kv_active params))"
  have "split_on CHR ''&'' ?q = map encode_pair (filter kv_active params)"
    by (rule split_on_join) (use assms(3) in \<open>auto simp: encode_pair_def encoded_no_separator\<close>)
  moreover have "map decode_uri_component (split_on CHR ''='' (encode_pair p)) = [Some (kv_key p), Some (kv_value p)]" for p
  proof -
    have "split_on CHR ''='' (encode_pair p) = [encode_uri_component (kv_key p), encode_uri_component (kv_value p)]"
      by (simp add: encode_pair_def split_on_append split_on_no_sep encoded_no_separator)
    then show ?thesis by (simp add: decode_encode)
  qed
  ultimately show ?thesis
    using assms by (intro exI [of _ ?q]) (simp add: build_url_def Let_def)
qed

theorem build_url_query_recoverable_witness:
  "\<exists>q. build_url sample_host ''/items'' [kv_on ''q'' ''a&b'', kv_on ''n'' ''1''] = ''/items'' @ ''?'' @ q
    \<and> map (\<lambda>p. map decode_uri_component (split_on CHR ''='' p)) (split_on CHR ''&'' q)
      = [[Some ''q'', Some ''a&b''], [Some ''n'', Some ''1'']]"
proof -
  have a: "filter kv_active [kv_on ''q'' ''a&b'', kv_on ''n'' ''1''] = [kv_on ''q'' ''a&b'', kv_on ''n'' ''1'']"
    by code_simp
  have "ho_url sample_host ''/items'' = None" by code_simp
  from build_url_query_recoverable [OF this, of "[kv_on ''q'' ''a&b'', kv_on ''n'' ''1'']"] a
  show ?thesis by simp
qed

text \<open>
  A signed request carries exactly one authorization header and one date header, and the list of
  signed header names is sorted, without duplicates, and consists of the lower-case names of the
  enabled headers, host and date, and the session token when there is one.
\<close>

theorem sign_aws_headers:
  assumes "sign_aws_sigv4_request h request now rt = Inr (r, rt')"
    and "au_type (rq_auth request) = AT_aws_sigv4"
    and "\<forall>x \<in> set (rq_headers request). trim (kv_key x) = kv_key x"
  shows "length (filter (\<lambda>x. to_lower (trim (kv_key x)) = ''authorization'') (rq_headers r)) = 1
    \<and> length (filter (\<lambda>x. to_lower (trim (kv_key x)) = ''x-amz-date'') (rq_headers r)) = 1
    \<and> (\<forall>m. m = signing_headers (aws_kept_headers request) u d (au_awsSessionToken (rq_auth request)) \<longrightarrow>
        sorted (signed_header_keys m) \<and> distinct (signed_header_keys m)
        \<and> set (signed_header_keys m) =
            (\<lambda>x. to_lower (kv_key x)) ` set (aws_kept_headers request) \<union> {''host'', ''x-amz-date''}
            \<union> (if truthy (au_awsSessionToken (rq_auth request)) then {''x-amz-security-token''} else {}))"
proof -
  obtain v date where r: "r = sign_with h request v date"
    using assms(1,2) by (auto simp: sign_aws_sigv4_request_def Let_def split: if_splits option.splits prod.splits sum.splits)
  have kept: "trim (kv_key x) = kv_key x \<and> to_lower (kv_key x) \<noteq> ''authorization''"
    if "x \<in> set (aws_kept_headers request)" for x
    using that assms(3) by (auto simp: aws_kept_headers_def)
  have names: "to_lower (trim ''X-Amz-Date'') = ''x-amz-date''"
    "to_lower (trim ''X-Amz-Security-Token'') = ''x-amz-security-token''"
    "to_lower (trim ''Authorization'') = ''authorization''" by code_simp+
  have "filter (\<lambda>x. to_lower (trim (kv_key x)) = ''authorization'') (aws_kept_headers request) = []"
    using kept by (auto simp: filter_empty_conv)
  then have auth: "length (filter (\<lambda>x. to_lower (trim (kv_key x)) = ''authorization'') (rq_headers r)) = 1"
    by (auto simp: r sign_with_def Let_def names filter_empty_conv)
  have date: "length (filter (\<lambda>x. to_lower (trim (kv_key x)) = ''x-amz-date'') (rq_headers r)) = 1"
    by (auto simp: r sign_with_def Let_def names filter_empty_conv reserved_aws_def)
  have "sorted (signed_header_keys m)" for m by (simp add: signed_header_keys_def)
  moreover have "(\<lambda>x. to_lower (trim (kv_key x))) ` set (aws_kept_headers request)
      = (\<lambda>x. to_lower (kv_key x)) ` set (aws_kept_headers request)"
    using kept by (intro image_cong) auto
  ultimately show ?thesis using auth date by (simp add: signed_keys_set signed_keys_distinct)
qed

end
