(* ===== verification/Resolve.thy ===== *)
theory Resolve
  imports Auth
begin

text \<open>
  packages/core/src/variables/index.ts, resolving the requests of the four protocols: the scopes
  they are resolved in, the fields that are templates and the order they are visited in, path
  variables, credentials and the final URL.
\<close>

section \<open>The resolver\<close>

text \<open>
  The closure \<open>resolve\<close> of the code: one template resolution, whose unresolved names are added to
  the request's set.
\<close>

definition resolve_in :: "string obj \<Rightarrow> string \<Rightarrow> (tstate, string) sx" where
  "resolve_in variables v st =
     (case resolve_template v variables (ts_runtime st) of
        Inl e \<Rightarrow> Inl e
      | Inr (r, rt) \<Rightarrow>
          Inr (tr_value r,
               \<lparr>ts_runtime = rt, ts_unresolved = fold set_add (tr_unresolved r) (ts_unresolved st)\<rparr>))"

type_synonym resolver = "string \<Rightarrow> (tstate, string) sx"

definition resolve_row :: "resolver \<Rightarrow> key_value \<Rightarrow> (tstate, key_value) sx" where
  "resolve_row resolve p =
     sx_bind (resolve (kv_key p)) (\<lambda>k.
     sx_bind (resolve (kv_value p)) (\<lambda>v.
     sx_ret (p\<lparr>kv_key := k, kv_value := v\<rparr>)))"

definition resolve_rows :: "resolver \<Rightarrow> key_value list \<Rightarrow> (tstate, key_value list) sx" where
  "resolve_rows resolve = sx_mapM (resolve_row resolve)"

text \<open>The credentials that are templates, in the order of the object literal.\<close>

type_synonym auth_field =
  "(auth_config \<Rightarrow> string option) \<times> ((string option \<Rightarrow> string option) \<Rightarrow> auth_config \<Rightarrow> auth_config)"

definition auth_template_fields :: "auth_field list" where
  "auth_template_fields =
     [(au_username, au_username_update), (au_password, au_password_update),
      (au_token, au_token_update), (au_apiKeyName, au_apiKeyName_update),
      (au_apiKeyValue, au_apiKeyValue_update), (au_tokenUrl, au_tokenUrl_update),
      (au_clientId, au_clientId_update), (au_clientSecret, au_clientSecret_update),
      (au_scope, au_scope_update), (au_awsAccessKeyId, au_awsAccessKeyId_update),
      (au_awsSecretAccessKey, au_awsSecretAccessKey_update),
      (au_awsSessionToken, au_awsSessionToken_update), (au_awsRegion, au_awsRegion_update),
      (au_awsService, au_awsService_update), (au_ntlmUsername, au_ntlmUsername_update),
      (au_ntlmPassword, au_ntlmPassword_update), (au_ntlmDomain, au_ntlmDomain_update)]"

fun resolve_fields ::
  "resolver \<Rightarrow> auth_config \<Rightarrow> auth_field list \<Rightarrow> auth_config \<Rightarrow> (tstate, auth_config) sx" where
  "resolve_fields resolve original [] acc = sx_ret acc"
| "resolve_fields resolve original ((get, upd) # fs) acc =
     sx_bind (resolve (opt_str (get original)))
       (\<lambda>v. resolve_fields resolve original fs (upd (\<lambda>_. Some v) acc))"

definition resolve_auth :: "resolver \<Rightarrow> auth_config \<Rightarrow> (tstate, auth_config) sx" where
  "resolve_auth resolve auth = resolve_fields resolve auth auth_template_fields auth"

definition resolve_proxy :: "resolver \<Rightarrow> proxy_config \<Rightarrow> (tstate, proxy_config) sx" where
  "resolve_proxy resolve p =
     sx_bind (resolve (px_url p)) (\<lambda>u.
     sx_bind (resolve (opt_str (px_username p))) (\<lambda>n.
     sx_bind (resolve (opt_str (px_password p))) (\<lambda>w.
     sx_ret (p\<lparr>px_url := u, px_username := Some n, px_password := Some w\<rparr>))))"

definition resolve_tls :: "resolver \<Rightarrow> tls_client_config \<Rightarrow> (tstate, tls_client_config) sx" where
  "resolve_tls resolve t =
     sx_bind (resolve (opt_str (tc_clientCertPem t))) (\<lambda>c.
     sx_bind (resolve (opt_str (tc_clientKeyPem t))) (\<lambda>k.
     sx_bind (resolve (opt_str (tc_caCertPem t))) (\<lambda>ca.
     sx_bind (resolve (opt_str (tc_serverName t))) (\<lambda>n.
     sx_ret \<lparr>tc_clientCertPem = Some c, tc_clientKeyPem = Some k, tc_caCertPem = Some ca,
              tc_serverName = Some n\<rparr>))))"

fun sx_option :: "('a \<Rightarrow> ('s, 'b) sx) \<Rightarrow> 'a option \<Rightarrow> ('s, 'b option) sx" where
  "sx_option f None = sx_ret None"
| "sx_option f (Some x) = sx_bind (f x) (\<lambda>y. sx_ret (Some y))"

definition resolve_options :: "resolver \<Rightarrow> request_options \<Rightarrow> (tstate, request_options) sx" where
  "resolve_options resolve opts =
     sx_bind (sx_option (resolve_proxy resolve) (ro_proxy opts)) (\<lambda>p.
     sx_bind (sx_option (resolve_tls resolve) (ro_tlsClientConfig opts)) (\<lambda>t.
     sx_ret (opts\<lparr>ro_proxy := p, ro_tlsClientConfig := t\<rparr>)))"

section \<open>Scopes of a request\<close>

datatype scope_arg = Environment_arg "environment option" | Scopes_arg "variable_scope list"

definition row_scope :: "string \<Rightarrow> key_value list \<Rightarrow> variable_scope" where
  "row_scope n rows = \<lparr>vs_name = Some n, vs_variables = Rows rows\<rparr>"

definition environment_scope :: "environment option \<Rightarrow> variable_scope" where
  "environment_scope env = row_scope ''environment'' (case env of Some e \<Rightarrow> en_variables e | None \<Rightarrow> [])"

definition session_scope :: "string obj \<Rightarrow> variable_scope" where
  "session_scope d = \<lparr>vs_name = Some ''session'', vs_variables = Dict d\<rparr>"

definition opt_rows :: "'a list option \<Rightarrow> 'a list" where
  "opt_rows v = (case v of Some rows \<Rightarrow> rows | None \<Rightarrow> [])"

definition request_scopes :: "scope_arg \<Rightarrow> key_value list option \<Rightarrow> string obj \<Rightarrow> variable_scope list" where
  "request_scopes arg request_variables session =
     (case arg of
        Scopes_arg scopes \<Rightarrow> scopes
      | Environment_arg env \<Rightarrow>
          [environment_scope env, row_scope ''request'' (opt_rows request_variables), session_scope session])"

definition graphql_scopes :: "scope_arg \<Rightarrow> string obj \<Rightarrow> variable_scope list" where
  "graphql_scopes arg session =
     (case arg of
        Scopes_arg scopes \<Rightarrow> scopes
      | Environment_arg env \<Rightarrow> [environment_scope env, session_scope session])"

section \<open>resolveRequest\<close>

record 'r resolved =
  rv_request :: 'r
  rv_unresolved :: "string list"

definition strip_query_string :: "host \<Rightarrow> string \<Rightarrow> string" where
  "strip_query_string h url =
     (case ho_url h url of
        Some u \<Rightarrow> ho_url_clear_query h url
      | None \<Rightarrow> takeWhile (\<lambda>c. c \<noteq> CHR ''?'') url)"

text \<open>Run a resolution from an empty set of unresolved names.\<close>

definition run_resolution :: "(tstate, 'r) sx \<Rightarrow> (runtime, 'r resolved) sx" where
  "run_resolution m rt =
     (case m \<lparr>ts_runtime = rt, ts_unresolved = []\<rparr> of
        Inl e \<Rightarrow> Inl e
      | Inr (r, st) \<Rightarrow> Inr (\<lparr>rv_request = r, rv_unresolved = ts_unresolved st\<rparr>, ts_runtime st))"

definition resolve_request_base :: "resolver \<Rightarrow> request_config \<Rightarrow> (tstate, request_config) sx" where
  "resolve_request_base resolve request =
     sx_bind (resolve (rq_url request)) (\<lambda>url.
     sx_bind (resolve_rows resolve (rq_params request)) (\<lambda>params.
     sx_bind (resolve_rows resolve (rq_headers request)) (\<lambda>headers.
     sx_bind (resolve (rq_body request)) (\<lambda>body.
     sx_bind (resolve_auth resolve (rq_auth request)) (\<lambda>auth.
     sx_bind (sx_option (resolve_options resolve) (rq_options request)) (\<lambda>opts.
     sx_ret (request\<lparr>
       rq_url := resolve_path_variables url (opt_rows (rq_pathVariables request)),
       rq_params := params, rq_headers := headers, rq_body := body, rq_auth := auth,
       rq_options := opts\<rparr>)))))))"

definition finish_request :: "host \<Rightarrow> request_config \<Rightarrow> request_config" where
  "finish_request h base =
     (let with_auth = apply_auth base in
      with_auth\<lparr>rq_url := build_url h (strip_query_string h (rq_url with_auth)) (rq_params with_auth)\<rparr>)"

definition resolve_request ::
  "host \<Rightarrow> request_config \<Rightarrow> scope_arg \<Rightarrow> string obj \<Rightarrow> (runtime, request_config resolved) sx" where
  "resolve_request h request arg session =
     (let variables = variables_from_scopes (request_scopes arg (rq_variables request) session) in
      run_resolution
        (sx_bind (resolve_request_base (resolve_in variables) request)
           (\<lambda>base. sx_ret (finish_request h base))))"

section \<open>GraphQL, WebSocket and gRPC\<close>

definition resolve_graphql_request ::
  "graphql_request \<Rightarrow> scope_arg \<Rightarrow> string obj \<Rightarrow> (runtime, graphql_request resolved) sx" where
  "resolve_graphql_request request arg session =
     (let resolve = resolve_in (variables_from_scopes (graphql_scopes arg session)) in
      run_resolution
        (sx_bind (resolve (gq_url request)) (\<lambda>url.
         sx_bind (resolve_rows resolve (gq_headers request)) (\<lambda>headers.
         sx_bind (resolve (gq_query request)) (\<lambda>query.
         sx_bind (resolve (gq_variables request)) (\<lambda>vars.
         sx_bind (resolve (opt_str (gq_operationName request))) (\<lambda>opname.
         sx_bind (resolve_auth resolve (gq_auth request)) (\<lambda>auth.
         sx_bind (sx_option (resolve_options resolve) (gq_options request)) (\<lambda>opts.
         sx_ret (request\<lparr>gq_url := url, gq_headers := headers, gq_query := query,
           gq_variables := vars, gq_operationName := Some opname, gq_auth := auth,
           gq_options := opts\<rparr>))))))))))"

definition websocket_auth_request :: "websocket_request \<Rightarrow> request_config" where
  "websocket_auth_request r =
     \<lparr>rq_method = ''GET'', rq_url = wq_url r, rq_params = [], rq_headers = wq_headers r,
      rq_bodyMode = BM_none, rq_body = [], rq_bodyFileName = None, rq_auth = wq_auth r,
      rq_timeoutMs = (case wq_timeoutMs r of Some t \<Rightarrow> t | None \<Rightarrow> 30000), rq_variables = None,
      rq_pathVariables = None, rq_assertions = None, rq_extractionRules = None, rq_options = None,
      rq_scripts = None, rq_retryPolicy = None\<rparr>"

definition finish_websocket :: "host \<Rightarrow> websocket_request \<Rightarrow> websocket_request" where
  "finish_websocket h r =
     (let with_auth = apply_auth (websocket_auth_request r) in
      r\<lparr>wq_url := build_url h (rq_url with_auth) (rq_params with_auth),
        wq_headers := rq_headers with_auth\<rparr>)"

definition resolve_websocket_request ::
  "host \<Rightarrow> websocket_request \<Rightarrow> scope_arg \<Rightarrow> string obj \<Rightarrow> (runtime, websocket_request resolved) sx" where
  "resolve_websocket_request h request arg session =
     (let resolve = resolve_in (variables_from_scopes
                      (request_scopes arg (wq_variables request) session)) in
      run_resolution
        (sx_bind (resolve (wq_url request)) (\<lambda>url.
         sx_bind (resolve (opt_str (wq_protocols request))) (\<lambda>protocols.
         sx_bind (resolve_rows resolve (wq_headers request)) (\<lambda>headers.
         sx_bind (resolve (wq_message request)) (\<lambda>message.
         sx_bind (resolve_auth resolve (wq_auth request)) (\<lambda>auth.
         sx_bind (sx_option (resolve_options resolve) (wq_options request)) (\<lambda>opts.
         sx_ret (finish_websocket h (request\<lparr>wq_url := url, wq_protocols := Some protocols,
           wq_headers := headers, wq_message := message, wq_auth := auth,
           wq_options := opts\<rparr>))))))))))"

definition resolve_grpc_request ::
  "grpc_request \<Rightarrow> scope_arg \<Rightarrow> string obj \<Rightarrow> (runtime, grpc_request resolved) sx" where
  "resolve_grpc_request request arg session =
     (let resolve = resolve_in (variables_from_scopes
                      (request_scopes arg (rg_variables request) session)) in
      run_resolution
        (sx_bind (resolve (rg_address request)) (\<lambda>address.
         sx_bind (resolve (rg_service request)) (\<lambda>service.
         sx_bind (resolve (rg_method request)) (\<lambda>grpc_method.
         sx_bind (resolve_rows resolve (rg_metadata request)) (\<lambda>metadata.
         sx_bind (resolve (rg_body request)) (\<lambda>body.
         sx_bind (sx_option (resolve_options resolve) (rg_options request)) (\<lambda>opts.
         sx_ret (request\<lparr>rg_address := address, rg_service := service, rg_method := grpc_method,
           rg_metadata := metadata, rg_body := body, rg_options := opts\<rparr>)))))))))"

section \<open>Which names a resolution reports\<close>

text \<open>
  A step collects some texts when every run that returns adds exactly the undefined names met in
  them, and keeps the set free of duplicates. The rules follow the monad.
\<close>

definition undefined_in :: "string obj \<Rightarrow> string \<Rightarrow> string set" where
  "undefined_in variables t =
     {n \<in> mentioned max_levels variables t.
        \<not> starts_with ''$'' n \<and> obj_own variables n = None \<and> n \<notin> set object_prototype_keys}"

definition collects :: "string obj \<Rightarrow> string list \<Rightarrow> (tstate, 'a) sx \<Rightarrow> bool" where
  "collects variables ts m \<longleftrightarrow>
     (\<forall>st a st'. m st = Inr (a, st') \<longrightarrow>
        set (ts_unresolved st') = set (ts_unresolved st) \<union> (\<Union>t \<in> set ts. undefined_in variables t)
        \<and> (distinct (ts_unresolved st) \<longrightarrow> distinct (ts_unresolved st')))"

lemma collects_ret: "collects variables [] (sx_ret a)"
  by (simp add: collects_def)

lemma collects_bind:
  assumes "collects variables ts m" and "\<And>a. collects variables us (f a)"
  shows "collects variables (ts @ us) (sx_bind m f)"
  unfolding collects_def
proof (intro allI impI)
  fix st b st' assume run: "sx_bind m f st = Inr (b, st')"
  obtain a s where m: "m st = Inr (a, s)" and f: "f a s = Inr (b, st')"
    by (rule sx_bind_InrE [OF run])
  from assms(1) m have 1: "set (ts_unresolved s) = set (ts_unresolved st) \<union> (\<Union>t \<in> set ts. undefined_in variables t)"
    "distinct (ts_unresolved st) \<longrightarrow> distinct (ts_unresolved s)"
    by (auto simp: collects_def)
  from assms(2) [of a] f have 2: "set (ts_unresolved st') = set (ts_unresolved s) \<union> (\<Union>t \<in> set us. undefined_in variables t)"
    "distinct (ts_unresolved s) \<longrightarrow> distinct (ts_unresolved st')"
    by (auto simp: collects_def)
  from 1 2 show "set (ts_unresolved st') = set (ts_unresolved st) \<union> (\<Union>t \<in> set (ts @ us). undefined_in variables t)
      \<and> (distinct (ts_unresolved st) \<longrightarrow> distinct (ts_unresolved st'))"
    by auto
qed

lemma collects_resolve: "collects variables [t] (resolve_in variables t)"
  unfolding collects_def
proof (intro allI impI)
  fix st a st' assume run: "resolve_in variables t st = Inr (a, st')"
  then obtain r rt where rt: "resolve_template t variables (ts_runtime st) = Inr (r, rt)"
    and st': "st' = \<lparr>ts_runtime = rt, ts_unresolved = fold set_add (tr_unresolved r) (ts_unresolved st)\<rparr>"
    by (auto simp: resolve_in_def split: sum.splits prod.splits)
  from rt obtain v s where one: "resolve_one max_levels variables t \<lparr>ts_runtime = ts_runtime st, ts_unresolved = []\<rparr> = Inr (v, s)"
    and r: "tr_unresolved r = ts_unresolved s"
    by (auto simp: resolve_template_def split: sum.splits prod.splits)
  have "set (tr_unresolved r) = undefined_in variables t"
    using resolve_one_collects [OF one] r by (auto simp: undefined_in_def reported_def obj_read_Absent)
  with st' show "set (ts_unresolved st') = set (ts_unresolved st) \<union> (\<Union>t \<in> set [t]. undefined_in variables t)
      \<and> (distinct (ts_unresolved st) \<longrightarrow> distinct (ts_unresolved st'))"
    by auto
qed

lemma collects_mapM:
  assumes "\<And>x. collects variables (g x) (f x)"
  shows "collects variables (concat (map g xs)) (sx_mapM f xs)"
proof (induction xs)
  case Nil
  then show ?case by (simp add: collects_def)
next
  case (Cons x xs)
  have "collects variables (concat (map g xs) @ []) (sx_bind (sx_mapM f xs) (\<lambda>ys. sx_ret (y # ys)))" for y
    by (rule collects_bind [OF Cons collects_ret])
  from collects_bind [OF assms this] show ?case by simp
qed

lemma collects_option:
  assumes "\<And>x. collects variables (g x) (f x)"
  shows "collects variables (case v of None \<Rightarrow> [] | Some x \<Rightarrow> g x) (sx_option f v)"
proof (cases v)
  case None
  then show ?thesis by (simp add: collects_ret)
next
  case (Some x)
  with collects_bind [OF assms collects_ret] show ?thesis by fastforce
qed

lemma collects_fields:
  "collects variables (map (\<lambda>fd. opt_str (fst fd original)) fs)
     (resolve_fields (resolve_in variables) original fs acc)"
proof (induction fs arbitrary: acc)
  case Nil
  then show ?case by (simp add: collects_def)
next
  case (Cons fd fs)
  from collects_bind [OF collects_resolve Cons] show ?case by (cases fd) fastforce
qed

text \<open>The texts a request is made of, in the order they are resolved.\<close>

definition row_texts :: "key_value \<Rightarrow> string list" where
  "row_texts p = [kv_key p, kv_value p]"

definition auth_texts :: "auth_config \<Rightarrow> string list" where
  "auth_texts a = map (\<lambda>fd. opt_str (fst fd a)) auth_template_fields"

definition option_texts :: "request_options \<Rightarrow> string list" where
  "option_texts opts =
     (case ro_proxy opts of None \<Rightarrow> []
      | Some p \<Rightarrow> [px_url p, opt_str (px_username p), opt_str (px_password p)])
     @ (case ro_tlsClientConfig opts of None \<Rightarrow> []
      | Some t \<Rightarrow> [opt_str (tc_clientCertPem t), opt_str (tc_clientKeyPem t),
                   opt_str (tc_caCertPem t), opt_str (tc_serverName t)])"

definition request_texts :: "request_config \<Rightarrow> string list" where
  "request_texts r =
     [rq_url r] @ concat (map row_texts (rq_params r)) @ concat (map row_texts (rq_headers r))
     @ [rq_body r] @ auth_texts (rq_auth r)
     @ (case rq_options r of None \<Rightarrow> [] | Some opts \<Rightarrow> option_texts opts)"

definition graphql_texts :: "graphql_request \<Rightarrow> string list" where
  "graphql_texts r =
     [gq_url r] @ concat (map row_texts (gq_headers r))
     @ [gq_query r, gq_variables r, opt_str (gq_operationName r)] @ auth_texts (gq_auth r)
     @ (case gq_options r of None \<Rightarrow> [] | Some opts \<Rightarrow> option_texts opts)"

definition websocket_texts :: "websocket_request \<Rightarrow> string list" where
  "websocket_texts r =
     [wq_url r, opt_str (wq_protocols r)] @ concat (map row_texts (wq_headers r))
     @ [wq_message r] @ auth_texts (wq_auth r)
     @ (case wq_options r of None \<Rightarrow> [] | Some opts \<Rightarrow> option_texts opts)"

definition grpc_texts :: "grpc_request \<Rightarrow> string list" where
  "grpc_texts r =
     [rg_address r, rg_service r, rg_method r] @ concat (map row_texts (rg_metadata r))
     @ [rg_body r] @ (case rg_options r of None \<Rightarrow> [] | Some opts \<Rightarrow> option_texts opts)"

lemma collects_cong: "collects variables ts m \<Longrightarrow> ts = us \<Longrightarrow> collects variables us m"
  by simp

lemma collects_rows:
  "collects variables (concat (map row_texts ps)) (resolve_rows (resolve_in variables) ps)"
proof -
  have "collects variables (row_texts p) (resolve_row (resolve_in variables) p)" for p
    unfolding resolve_row_def
    by (rule collects_cong, (rule collects_bind collects_resolve collects_ret)+) (simp add: row_texts_def)
  then show ?thesis unfolding resolve_rows_def by (rule collects_mapM)
qed

lemma collects_auth: "collects variables (auth_texts a) (resolve_auth (resolve_in variables) a)"
  unfolding resolve_auth_def auth_texts_def by (rule collects_fields)

lemma collects_options: "collects variables (option_texts opts) (resolve_options (resolve_in variables) opts)"
proof -
  have p: "collects variables [px_url p, opt_str (px_username p), opt_str (px_password p)]
      (resolve_proxy (resolve_in variables) p)" for p
    unfolding resolve_proxy_def
    by (rule collects_cong, (rule collects_bind collects_resolve collects_ret)+) simp
  have t: "collects variables [opt_str (tc_clientCertPem t), opt_str (tc_clientKeyPem t),
      opt_str (tc_caCertPem t), opt_str (tc_serverName t)] (resolve_tls (resolve_in variables) t)" for t
    unfolding resolve_tls_def
    by (rule collects_cong, (rule collects_bind collects_resolve collects_ret)+) simp
  show ?thesis unfolding resolve_options_def
    by (rule collects_cong, (rule collects_bind collects_option [OF p] collects_option [OF t] collects_ret)+)
      (simp add: option_texts_def)
qed

lemmas collects_rules =
  collects_bind collects_resolve collects_rows collects_auth collects_option [OF collects_options] collects_ret

lemma run_resolution_collects:
  assumes "collects variables ts m" and "run_resolution m rt = Inr (r, rt')"
  shows "distinct (rv_unresolved r) \<and> set (rv_unresolved r) = (\<Union>t \<in> set ts. undefined_in variables t)"
proof -
  obtain a st where "m \<lparr>ts_runtime = rt, ts_unresolved = []\<rparr> = Inr (a, st)" "r = \<lparr>rv_request = a, rv_unresolved = ts_unresolved st\<rparr>"
    using assms(2) by (auto simp: run_resolution_def split: sum.splits prod.splits)
  with assms(1) show ?thesis unfolding collects_def by fastforce
qed

section \<open>Scopes\<close>

lemma obj_spread_own:
  assumes "distinct (map fst over)"
  shows "obj_own (obj_spread base over) k =
    (case obj_own over k of Some v \<Rightarrow> Some v | None \<Rightarrow> obj_own base k)"
proof -
  have "map_of (rev over) = map_of over"
    using assms by (intro map_of_inject_set [THEN iffD2]) (auto simp: rev_map [symmetric])
  then show ?thesis by (simp add: obj_own_spread obj_own_def [of over])
qed

lemma variables_from_scope_distinct: "distinct (map fst (variables_from_scope s))"
  by (simp add: variables_from_scope_def variables_from_key_values_def obj_from_entries_distinct
      split: scope_variables.split)

lemma variables_from_scopes_snoc:
  "variables_from_scopes (ss @ [s]) = obj_spread (obj_spread [] (variables_from_scopes ss)) (variables_from_scope s)"
  by (simp add: variables_from_scopes_def)

lemma variables_from_scopes_distinct: "distinct (map fst (variables_from_scopes ss))"
  by (induction ss rule: rev_induct)
    (simp add: variables_from_scopes_def, simp add: variables_from_scopes_snoc obj_spread_distinct)

lemma variables_from_scopes_own:
  "obj_own (variables_from_scopes (ss @ [s])) k =
     (case obj_own (variables_from_scope s) k of Some v \<Rightarrow> Some v | None \<Rightarrow> obj_own (variables_from_scopes ss) k)"
  by (simp add: variables_from_scopes_snoc obj_spread_own variables_from_scope_distinct
      variables_from_scopes_distinct obj_own_def [of "[]"] split: option.split)

lemma map_of_map_find:
  "map_of (map (\<lambda>x. (f x, g x)) (filter P xs)) k = map_option g (find (\<lambda>x. P x \<and> f x = k) xs)"
  by (induction xs) auto

lemma variables_from_key_values_own:
  "obj_own (variables_from_key_values rows) k =
     map_option kv_value (find (\<lambda>r. kv_active r \<and> trim (kv_key r) = k) (rev rows))"
  by (simp add: variables_from_key_values_def obj_own_from_entries rev_map rev_filter map_of_map_find)

section \<open>Properties\<close>



lemma resolve_graphql_reports:
  assumes "resolve_graphql_request q arg session rt = Inr (r, rt')"
  shows "distinct (rv_unresolved r) \<and> set (rv_unresolved r) =
    (\<Union>t \<in> set (graphql_texts q). undefined_in (variables_from_scopes (graphql_scopes arg session)) t)"
  by (rule run_resolution_collects [OF _ assms [unfolded resolve_graphql_request_def Let_def]])
    (rule collects_cong, (rule collects_rules)+, simp add: graphql_texts_def)

lemma resolve_websocket_reports:
  assumes "resolve_websocket_request h q arg session rt = Inr (r, rt')"
  shows "distinct (rv_unresolved r) \<and> set (rv_unresolved r) =
    (\<Union>t \<in> set (websocket_texts q). undefined_in (variables_from_scopes (request_scopes arg (wq_variables q) session)) t)"
  by (rule run_resolution_collects [OF _ assms [unfolded resolve_websocket_request_def Let_def]])
    (rule collects_cong, (rule collects_rules)+, simp add: websocket_texts_def)

lemma resolve_grpc_reports:
  assumes "resolve_grpc_request q arg session rt = Inr (r, rt')"
  shows "distinct (rv_unresolved r) \<and> set (rv_unresolved r) =
    (\<Union>t \<in> set (grpc_texts q). undefined_in (variables_from_scopes (request_scopes arg (rg_variables q) session)) t)"
  by (rule run_resolution_collects [OF _ assms [unfolded resolve_grpc_request_def Let_def]])
    (rule collects_cong, (rule collects_rules)+, simp add: grpc_texts_def)

text \<open>
  The GraphQL, WebSocket and gRPC resolvers report the undefined variables of all the texts they
  resolve, each once.
\<close>

theorem resolve_other_protocols_report_all:
  "(resolve_graphql_request gq arg session rt = Inr (r1, rt1) \<longrightarrow>
      distinct (rv_unresolved r1) \<and> set (rv_unresolved r1) =
        (\<Union>t \<in> set (graphql_texts gq). undefined_in (variables_from_scopes (graphql_scopes arg session)) t))
   \<and> (resolve_websocket_request h wq arg session rt = Inr (r2, rt2) \<longrightarrow>
      distinct (rv_unresolved r2) \<and> set (rv_unresolved r2) =
        (\<Union>t \<in> set (websocket_texts wq).
           undefined_in (variables_from_scopes (request_scopes arg (wq_variables wq) session)) t))
   \<and> (resolve_grpc_request rg arg session rt = Inr (r3, rt3) \<longrightarrow>
      distinct (rv_unresolved r3) \<and> set (rv_unresolved r3) =
        (\<Union>t \<in> set (grpc_texts rg).
           undefined_in (variables_from_scopes (request_scopes arg (rg_variables rg) session)) t))"
  by (rule conjI, rule impI, erule resolve_graphql_reports, rule conjI, rule impI,
      erule resolve_websocket_reports, rule impI, erule resolve_grpc_reports)

definition plain_grpc :: "string \<Rightarrow> grpc_request" where
  "plain_grpc a = \<lparr>rg_address = a, rg_service = [], rg_method = [], rg_metadata = [], rg_body = ''{}'',
     rg_tls = True, rg_timeoutMs = 30000, rg_auth = None, rg_variables = None, rg_assertions = None,
     rg_extractionRules = None, rg_options = None, rg_scripts = None, rg_protosetBase64 = None,
     rg_compression = None, rg_savedMessages = None, rg_maxRecvMsgSize = None,
     rg_maxSendMsgSize = None\<rparr>"

text \<open>
  The last scope that has a variable gives its value, and within rows the last enabled row whose
  trimmed key is the name does: session variables override the request's, which override the
  environment's, and a disabled row never does.
\<close>

theorem scope_precedence:
  "obj_own (variables_from_scopes (scopes @ [s])) k =
     (case obj_own (variables_from_scope s) k of
        Some v \<Rightarrow> Some v | None \<Rightarrow> obj_own (variables_from_scopes scopes) k)
   \<and> obj_own (variables_from_scope (row_scope n rows)) k =
     map_option kv_value (find (\<lambda>r. kv_active r \<and> trim (kv_key r) = k) (rev rows))"
  by (simp add: variables_from_scopes_own variables_from_scope_def row_scope_def
      variables_from_key_values_own)

text \<open>
  Resolving a gRPC request leaves its credentials as they are: a placeholder in a token is
  neither replaced nor reported.
\<close>

theorem grpc_credentials_not_resolved:
  assumes "resolve_grpc_request request arg session rt = Inr (r, rt')"
  shows "rg_auth (rv_request r) = rg_auth request"
  using assms
  by (auto simp: resolve_grpc_request_def Let_def run_resolution_def elim!: sx_bind_InrE
      split: sum.splits prod.splits)

theorem grpc_credentials_not_resolved_witness:
  "\<exists>r rt'. resolve_grpc_request
       ((plain_grpc ''a'')\<lparr>rg_auth := Some (auth_none\<lparr>au_type := AT_bearer, au_token := Some ''{{t}}''\<rparr>)\<rparr>)
       (Scopes_arg []) [] sample_runtime = Inr (r, rt')
     \<and> map_option au_token (rg_auth (rv_request r)) = Some (Some ''{{t}}'')"
proof -
  let ?q = "(plain_grpc ''a'')\<lparr>rg_auth := Some (auth_none\<lparr>au_type := AT_bearer, au_token := Some ''{{t}}''\<rparr>)\<rparr>"
  have "\<not> isl (resolve_grpc_request ?q (Scopes_arg []) [] sample_runtime)" by code_simp
  then obtain r rt' where run: "resolve_grpc_request ?q (Scopes_arg []) [] sample_runtime = Inr (r, rt')"
    by (metis isl_def old.sum.exhaust surj_pair)
  from grpc_credentials_not_resolved [OF run] run show ?thesis by auto
qed

end
