(* ===== verification/Json_Round_Trip.thy ===== *)
theory Json_Round_Trip
  imports Js_Json
begin

text \<open>
  Printing a JSON value and parsing the text gives the value back: for integral numbers below
  \<open>10 ^ 21\<close> and objects with distinct keys, which is what the source stores and clones. The fuel of
  the parser is shown to suffice.
\<close>

section \<open>Numbers\<close>

lemma is_digit_digit_char: "d < 10 \<Longrightarrow> is_digit (digit_char d)"
  by (auto simp: is_digit_def digit_char_def code_unit_def)

lemma digit_value_digit_char: "d < 10 \<Longrightarrow> digit_value (digit_char d) = d"
  by (auto simp: digit_value_def digit_char_def code_unit_def)

lemma nat_to_string_digits: "c \<in> set (nat_to_string n) \<Longrightarrow> is_digit c"
  using digits_of_nat_to_string [of c n] is_digit_digit_char by auto

lemma nat_to_string_neq_Nil [simp]: "nat_to_string n \<noteq> []"
  by (subst nat_to_string.simps) simp

lemma digits_value_snoc: "digits_value (ds @ [c]) = 10 * digits_value ds + digit_value c"
  by (simp add: digits_value_def)

lemma digits_value_nat_to_string: "digits_value (nat_to_string n) = n"
proof (induction n rule: nat_to_string.induct)
  case (1 n)
  show ?case
  proof (cases "n < 10")
    case True
    then show ?thesis
      by (simp add: nat_to_string.simps [of n] digits_value_def digit_value_digit_char)
  next
    case False
    with 1 have "digits_value (nat_to_string (n div 10)) = n div 10" by simp
    with False show ?thesis
      by (simp add: nat_to_string.simps [of n] digits_value_snoc digit_value_digit_char)
  qed
qed

lemma nat_to_string_head: "n \<ge> 10 \<Longrightarrow> hd (nat_to_string n) \<noteq> CHR ''0''"
proof (induction n rule: nat_to_string.induct)
  case (1 n)
  show ?case
  proof (cases "n div 10 < 10")
    case True
    with "1.prems" have "0 < n div 10" by simp
    with True have "digit_value (digit_char (n div 10)) \<noteq> 0" by (simp add: digit_value_digit_char)
    then have "digit_char (n div 10) \<noteq> CHR ''0''" by (auto simp: digit_value_def code_unit_def)
    with True "1.prems" show ?thesis
      by (simp add: nat_to_string.simps [of n] nat_to_string.simps [of "n div 10"])
  next
    case False
    with "1.prems" "1.IH" have "hd (nat_to_string (n div 10)) \<noteq> CHR ''0''" by simp
    with "1.prems" show ?thesis by (simp add: nat_to_string.simps [of n])
  qed
qed

text \<open>What may follow a value inside a larger text.\<close>

definition json_stop :: "string \<Rightarrow> bool" where
  "json_stop rest \<longleftrightarrow> (case rest of [] \<Rightarrow> True | c # r \<Rightarrow> c \<in> {CHR '','', CHR '']'', rbrace})"

lemma span_append:
  assumes "\<And>c. c \<in> set xs \<Longrightarrow> P c" and "ys = [] \<or> \<not> P (hd ys)"
  shows "takeWhile P (xs @ ys) = xs" and "dropWhile P (xs @ ys) = ys"
proof -
  from assms(2) have "takeWhile P ys = []" "dropWhile P ys = ys" by (cases ys; auto)+
  with assms(1) show "takeWhile P (xs @ ys) = xs" "dropWhile P (xs @ ys) = ys" by auto
qed

lemma json_stop_no_digit: "json_stop rest \<Longrightarrow> rest = [] \<or> \<not> is_digit (hd rest)"
  by (cases rest) (auto simp: json_stop_def is_digit_def code_unit_def)

lemma read_json_unsigned_nat:
  assumes "json_stop rest"
  shows "read_json_unsigned (nat_to_string n @ rest) = Some (rat_of_nat n, rest)"
proof -
  have span: "takeWhile is_digit (nat_to_string n @ rest) = nat_to_string n"
    "dropWhile is_digit (nat_to_string n @ rest) = rest"
    by (rule span_append; use nat_to_string_digits json_stop_no_digit [OF assms] in auto)+
  have head: "\<not> (hd (nat_to_string n) = CHR ''0'' \<and> length (nat_to_string n) > 1)"
  proof (cases "n < 10")
    case True
    then show ?thesis by (simp add: nat_to_string.simps [of n])
  next
    case False
    then show ?thesis using nat_to_string_head [of n] by simp
  qed
  have "(case rest of d # r' \<Rightarrow> d = CHR ''.'' | [] \<Rightarrow> False) = False"
    and e: "read_exponent rest = Some (0, rest)"
    using assms by (auto simp: json_stop_def read_exponent_def split: list.splits)
  then show ?thesis using head
    by (auto simp: read_json_unsigned_def span Let_def decimal_value_def digits_value_nat_to_string
        split: list.splits)
qed

lemma is_integral_of_int: "is_integral (rat_of_int i)"
  by (simp add: is_integral_def quotient_of_int [unfolded Rat.of_int_def])

lemma pos_num_to_string_nat:
  assumes "n < 10 ^ 21"
  shows "pos_num_to_string (rat_of_nat n) = nat_to_string n"
proof -
  have "is_integral (rat_of_nat n)" using is_integral_of_int [of "int n"] by simp
  then have "decimals_needed 25 (rat_of_nat n) = 0" by (simp add: numeral_eq_Suc)
  moreover have "rat_of_nat n < rat_of_nat (10 ^ 21)" using assms by (simp only: of_nat_less_iff)
  then have "rat_of_nat n < 10 ^ 21" by simp
  ultimately show ?thesis by (simp add: pos_num_to_string_def Let_def)
qed

lemma pos_num_to_string_int:
  assumes "0 \<le> j" and "j < 10 ^ 21"
  shows "pos_num_to_string (rat_of_int j) = nat_to_string (nat j)"
  using pos_num_to_string_nat [of "nat j"] assms by (simp add: nat_less_iff)

lemma num_to_string_int:
  assumes "\<bar>i\<bar> < 10 ^ 21"
  shows "num_to_string (rat_of_int i) =
    (if i < 0 then CHR ''-'' # nat_to_string (nat (- i)) else nat_to_string (nat i))"
  using assms pos_num_to_string_int [of i] pos_num_to_string_int [of "- i"]
  by (auto simp: num_to_string_def)

lemma nat_to_string_head_digit:
  "\<exists>c r. nat_to_string n = c # r \<and> is_digit c \<and> c \<noteq> CHR ''-''"
proof -
  obtain c r where c: "nat_to_string n = c # r" by (cases "nat_to_string n") auto
  then have "is_digit c" using nat_to_string_digits [of c n] by simp
  moreover from this have "c \<noteq> CHR ''-''" by (auto simp: is_digit_def code_unit_def)
  ultimately show ?thesis using c by simp
qed

lemma read_json_number_int:
  assumes "\<bar>i\<bar> < 10 ^ 21" and "json_stop rest"
  shows "read_json_number (num_to_string (rat_of_int i) @ rest) = Some (rat_of_int i, rest)"
proof (cases "i < 0")
  case True
  then show ?thesis
    by (simp add: num_to_string_int [OF assms(1)] read_json_number_def read_json_unsigned_nat [OF assms(2)])
next
  case False
  obtain c r where c: "nat_to_string (nat i) = c # r" "c \<noteq> CHR ''-''"
    using nat_to_string_head_digit by blast
  then have "read_json_number (nat_to_string (nat i) @ rest) = read_json_unsigned (nat_to_string (nat i) @ rest)"
    by (simp add: read_json_number_def)
  with False show ?thesis
    by (simp add: num_to_string_int [OF assms(1)] read_json_unsigned_nat [OF assms(2)])
qed

lemma num_to_string_head:
  assumes "\<bar>i\<bar> < 10 ^ 21"
  shows "\<exists>c r. num_to_string (rat_of_int i) = c # r \<and> (is_digit c \<or> c = CHR ''-'')"
  using nat_to_string_head_digit [of "nat i"] by (auto simp: num_to_string_int [OF assms])

section \<open>Strings\<close>

lemma low_hex_reads:
  assumes "d < 16"
  shows "is_hex (low_hex_char d)" and "hex_value (low_hex_char d) = d"
  using assms by (auto simp: is_hex_def hex_value_def is_digit_def low_hex_char_def code_unit_def)

lemma read_quote_char:
  assumes "read_chars t = Some (w, rest)"
  shows "read_chars (quote_char c @ t) = Some (c # w, rest)"
proof -
  consider "c = dquote" | "c = backslash" | "c = CHR 0x08" | "c = CHR 0x0C" | "c = CHR 0x0A"
    | "c = CHR 0x0D" | "c = CHR 0x09"
    | (control) "c \<noteq> dquote" "c \<noteq> backslash" "c \<noteq> CHR 0x08" "c \<noteq> CHR 0x0C" "c \<noteq> CHR 0x0A"
        "c \<noteq> CHR 0x0D" "c \<noteq> CHR 0x09" "code_unit c < 32"
    | (plain) "c \<noteq> dquote" "c \<noteq> backslash" "c \<noteq> CHR 0x08" "c \<noteq> CHR 0x0C" "c \<noteq> CHR 0x0A"
        "c \<noteq> CHR 0x0D" "c \<noteq> CHR 0x09" "\<not> code_unit c < 32" by blast
  then show ?thesis
  proof cases
    case control
    have d: "code_unit c div 16 < 16" "code_unit c mod 16 < 16"
      using less_mult_imp_div_less [of "code_unit c" 16 16] code_unit_less [of c] by auto
    have "is_hex CHR ''0''" "hex_value CHR ''0'' = 0"
      by (simp_all add: is_hex_def hex_value_def is_digit_def code_unit_def)
    moreover have "char_of (16 * (code_unit c div 16) + code_unit c mod 16) = c"
      by (simp add: code_unit_def)
    ultimately show ?thesis
      using control assms low_hex_reads [OF d(1)] low_hex_reads [OF d(2)]
      by (simp add: quote_char_def)
  next
    case plain
    with assms show ?thesis by (simp add: quote_char_def)
  qed (use assms in \<open>simp_all add: quote_char_def\<close>)
qed

lemma read_quoted: "read_chars (concat (map quote_char s) @ dquote # rest) = Some (s, rest)"
  by (induction s) (simp_all add: read_quote_char)

section \<open>Values\<close>

fun json_ok :: "json \<Rightarrow> bool"
  and json_ok_list :: "json list \<Rightarrow> bool"
  and json_ok_members :: "(string \<times> json) list \<Rightarrow> bool"
where
  "json_ok JNull = True"
| "json_ok (JBool b) = True"
| "json_ok (JNum x) = (is_integral x \<and> \<bar>x\<bar> < 10 ^ 21)"
| "json_ok (JStr s) = True"
| "json_ok (JArr vs) = json_ok_list vs"
| "json_ok (JObj ms) = (distinct (map fst ms) \<and> json_ok_members ms)"
| "json_ok_list [] = True"
| "json_ok_list (v # vs) = (json_ok v \<and> json_ok_list vs)"
| "json_ok_members [] = True"
| "json_ok_members ((k, v) # ms) = (json_ok v \<and> json_ok_members ms)"

lemma integral_cases:
  assumes "is_integral x"
  obtains i where "x = rat_of_int i"
proof -
  have "x = of_int (fst (quotient_of x)) / of_int (snd (quotient_of x))"
    by (metis prod.collapse quotient_of_div)
  with assms that show ?thesis by (simp add: is_integral_def)
qed

lemma json_ok_num:
  assumes "json_ok (JNum x)"
  obtains i where "x = rat_of_int i" and "\<bar>i\<bar> < 10 ^ 21"
proof -
  from assms obtain i where i: "x = rat_of_int i" by (auto elim: integral_cases)
  with assms have "\<bar>rat_of_int i\<bar> < rat_of_int (10 ^ 21)" by simp
  then have "\<bar>i\<bar> < 10 ^ 21" by (metis of_int_abs of_int_less_iff)
  with i that show ?thesis by blast
qed

lemma stringify_head:
  assumes "json_ok v"
  shows "\<exists>c r. json_stringify v = c # r \<and> \<not> json_space c \<and> c \<noteq> CHR '']'' \<and> c \<noteq> rbrace"
proof (cases v)
  case (JNum x)
  with assms obtain i where "x = rat_of_int i" "\<bar>i\<bar> < 10 ^ 21" by (auto elim: json_ok_num simp del: json_ok.simps)
  with JNum num_to_string_head [of i] show ?thesis
    by (auto simp: json_space_def is_digit_def code_unit_def)
qed (auto simp: json_space_def json_quote_def)

lemma skip_ws_id: "\<not> json_space c \<Longrightarrow> skip_ws (c # r) = c # r"
  by (simp add: skip_ws_def)

lemma skip_ws_stop: "json_stop rest \<Longrightarrow> skip_ws rest = rest"
  by (cases rest) (auto simp: json_stop_def skip_ws_def json_space_def)

lemma update_new: "k \<notin> set (map fst acc) \<Longrightarrow> AList.update k v acc = acc @ [(k, v)]"
  by (induction acc) auto

lemma read_back:
  "json_ok v \<Longrightarrow> json_stop rest \<Longrightarrow> length (json_stringify v) \<le> n \<Longrightarrow>
     read_value n (json_stringify v @ rest) = Some (v, rest)"
  "json_ok_list vs \<Longrightarrow> vs \<noteq> [] \<Longrightarrow> length (stringify_list vs) < n \<Longrightarrow>
     read_elems n (stringify_list vs @ CHR '']'' # rest) = Some (vs, rest)"
  "json_ok_members ms \<Longrightarrow> ms \<noteq> [] \<Longrightarrow> length (stringify_members ms) < n \<Longrightarrow>
     distinct (map fst (acc @ ms)) \<Longrightarrow>
     read_members n (stringify_members ms @ rbrace # rest) acc = Some (acc @ ms, rest)"
proof (induction v and vs and ms arbitrary: rest n and rest n and rest n acc
    rule: json_stringify_stringify_list_stringify_members.induct)
  case (1 rest n)
  then show ?case by (cases n) (simp_all add: skip_ws_id json_space_def)
next
  case (2 b rest n)
  then show ?case by (cases n) (auto simp: skip_ws_id json_space_def split: if_splits)
next
  case (3 x rest n)
  from 3(1) obtain i where i: "x = rat_of_int i" "\<bar>i\<bar> < 10 ^ 21" by (rule json_ok_num)
  from num_to_string_head [OF i(2)] obtain c r where c: "num_to_string x = c # r" "is_digit c \<or> c = CHR ''-''"
    using i(1) by auto
  then have ne: "\<not> json_space c" "c \<noteq> lbrace" "c \<noteq> CHR ''[''" "c \<noteq> dquote" "c \<noteq> CHR ''t''" "c \<noteq> CHR ''f''" "c \<noteq> CHR ''n''"
    by (auto simp: json_space_def is_digit_def code_unit_def)
  from 3(3) c obtain m where n: "n = Suc m" by (cases n) auto
  have "read_json_number (c # r @ rest) = Some (x, rest)"
    using read_json_number_int [OF i(2) 3(2)] c(1) i(1) by simp
  with c(1) n ne show ?case by (simp add: skip_ws_id)
next
  case (4 s rest n)
  then show ?case by (cases n) (simp_all add: skip_ws_id json_space_def json_quote_def read_quoted)
next
  case (5 vs rest n)
  from "5.prems"(3) obtain m where n: "n = Suc m" by (cases n) auto
  show ?case
  proof (cases vs)
    case Nil
    with n show ?thesis by (simp add: skip_ws_def json_space_def)
  next
    case (Cons v ws)
    with "5.prems"(1) stringify_head [of v] obtain c r where c: "json_stringify v = c # r"
      "\<not> json_space c" "c \<noteq> CHR '']''" by auto
    then have hd: "\<not> starts_with '']'' (skip_ws (stringify_list vs @ CHR '']'' # rest))"
      using Cons by (simp add: skip_ws_id)
    have "read_elems m (stringify_list vs @ CHR '']'' # rest) = Some (vs, rest)"
      by (rule "5.IH") (use "5.prems" n Cons in auto)
    with n hd show ?thesis by (simp add: skip_ws_id json_space_def)
  qed
next
  case (6 ms rest n)
  from "6.prems"(3) obtain m where n: "n = Suc m" by (cases n) auto
  show ?case
  proof (cases ms)
    case Nil
    with n show ?thesis by (simp add: skip_ws_def json_space_def)
  next
    case (Cons p ps)
    then have hd: "\<not> starts_with ''}'' (skip_ws (stringify_members ms @ rbrace # rest))"
      by (cases p) (simp add: skip_ws_id json_quote_def json_space_def)
    have "read_members m (stringify_members ms @ rbrace # rest) [] = Some ([] @ ms, rest)"
      by (rule "6.IH") (use "6.prems" n Cons in auto)
    with n hd show ?thesis by (simp add: skip_ws_id json_space_def)
  qed
next
  case (7 rest n)
  then show ?case by simp
next
  case (8 v vs rest n)
  from "8.prems"(3) obtain m where n: "n = Suc m" by (cases n) auto
  show ?case
  proof (cases vs)
    case Nil
    have "read_value m (json_stringify v @ CHR '']'' # rest) = Some (v, CHR '']'' # rest)"
      by (rule "8.IH"(1)) (use "8.prems" n Nil in \<open>auto simp: json_stop_def\<close>)
    with n Nil show ?thesis by (simp add: skip_ws_id json_space_def)
  next
    case (Cons w ws)
    let ?more = "CHR '','' # stringify_list vs @ CHR '']'' # rest"
    have 1: "read_value m (json_stringify v @ ?more) = Some (v, ?more)"
      by (rule "8.IH"(1)) (use "8.prems" n Cons in \<open>auto simp: json_stop_def\<close>)
    have 2: "read_elems m (stringify_list vs @ CHR '']'' # rest) = Some (vs, rest)"
      by (rule "8.IH"(2)) (use "8.prems" n Cons in auto)
    from n Cons 1 2 show ?thesis by (simp add: skip_ws_id json_space_def)
  qed
next
  case (9 rest n acc)
  then show ?case by simp
next
  case (10 k v ms rest n acc)
  from "10.prems"(3) obtain m where n: "n = Suc m" by (cases n) auto
  have new: "k \<notin> set (map fst acc)" using "10.prems"(4) by auto
  show ?case
  proof (cases ms)
    case Nil
    have "read_value m (json_stringify v @ rbrace # rest) = Some (v, rbrace # rest)"
      by (rule "10.IH"(1)) (use "10.prems" n Nil in \<open>auto simp: json_stop_def json_quote_def\<close>)
    with n Nil show ?thesis
      by (simp add: skip_ws_id json_space_def json_quote_def read_quoted update_new [OF new])
  next
    case (Cons p ps)
    let ?more = "CHR '','' # stringify_members ms @ rbrace # rest"
    have 1: "read_value m (json_stringify v @ ?more) = Some (v, ?more)"
      by (rule "10.IH"(1)) (use "10.prems" n Cons in \<open>auto simp: json_stop_def json_quote_def\<close>)
    have 2: "read_members m (stringify_members ms @ rbrace # rest) (acc @ [(k, v)]) = Some ((acc @ [(k, v)]) @ ms, rest)"
      by (rule "10.IH"(2)) (use "10.prems" n Cons in \<open>auto simp: json_quote_def\<close>)
    from n Cons 1 2 show ?thesis
      by (simp add: skip_ws_id json_space_def json_quote_def read_quoted update_new [OF new])
  qed
qed

lemma json_parse_stringify:
  assumes "json_ok v"
  shows "json_parse (json_stringify v) = Some v"
proof -
  have "read_value (2 * length (json_stringify v) + 2) (json_stringify v @ []) = Some (v, [])"
    by (rule read_back(1) [OF assms]) (simp_all add: json_stop_def)
  then show ?thesis by (simp add: json_parse_def skip_ws_def)
qed

end
