(* ===== verification/Request_Model.thy ===== *)
theory Request_Model
  imports Resolve Json_Round_Trip
begin

text \<open>
  packages/core/src/request/index.ts: defaults for the network options, the empty requests, the
  conversion of drafts and of GraphQL requests to plain HTTP requests, the inference of a stored
  request's protocol, and \<open>clonePlain\<close>; with \<open>normalizeExtractionRules\<close> of variables/index.ts.
\<close>

section \<open>Network options\<close>

text \<open>
  A property that is absent or \<open>undefined\<close> is \<open>None\<close>; a spread of an object lets the properties it
  has override.
\<close>

definition over :: "'a option \<Rightarrow> 'a option \<Rightarrow> 'a option" where
  "over base v = (case v of Some x \<Rightarrow> Some x | None \<Rightarrow> base)"

definition merge_tls :: "tls_client_config \<Rightarrow> tls_client_config \<Rightarrow> tls_client_config" where
  "merge_tls base t =
     \<lparr>tc_clientCertPem = over (tc_clientCertPem base) (tc_clientCertPem t),
      tc_clientKeyPem = over (tc_clientKeyPem base) (tc_clientKeyPem t),
      tc_caCertPem = over (tc_caCertPem base) (tc_caCertPem t),
      tc_serverName = over (tc_serverName base) (tc_serverName t)\<rparr>"

definition opt_tls :: "tls_client_config option \<Rightarrow> tls_client_config" where
  "opt_tls t = (case t of Some c \<Rightarrow> c | None \<Rightarrow> tls_empty)"

definition merge_with_defaults :: "request_options option \<Rightarrow> request_options \<Rightarrow> request_options" where
  "merge_with_defaults req_options defaults =
     (let req = (case req_options of Some ro \<Rightarrow> ro | None \<Rightarrow> options_empty) in
      \<lparr>ro_followRedirects = over (ro_followRedirects defaults) (ro_followRedirects req),
       ro_maxRedirects = over (ro_maxRedirects defaults) (ro_maxRedirects req),
       ro_verifySsl = over (ro_verifySsl defaults) (ro_verifySsl req),
       ro_allowPrivateAddresses = over (ro_allowPrivateAddresses defaults) (ro_allowPrivateAddresses req),
       ro_connectTimeoutMs = over (ro_connectTimeoutMs defaults) (ro_connectTimeoutMs req),
       ro_readTimeoutMs = over (ro_readTimeoutMs defaults) (ro_readTimeoutMs req),
       ro_httpVersion = over (ro_httpVersion defaults) (ro_httpVersion req),
       ro_tlsClientConfig = Some (merge_tls (opt_tls (ro_tlsClientConfig defaults)) (opt_tls (ro_tlsClientConfig req))),
       ro_proxy = over (ro_proxy defaults) (ro_proxy req)\<rparr>)"

definition strip_network_options :: "request_options option \<Rightarrow> request_options" where
  "strip_network_options opts =
     (case opts of None \<Rightarrow> options_empty
      | Some ro \<Rightarrow> ro\<lparr>ro_followRedirects := None, ro_maxRedirects := None, ro_verifySsl := None,
          ro_allowPrivateAddresses := None, ro_connectTimeoutMs := None, ro_readTimeoutMs := None,
          ro_proxy := None, ro_tlsClientConfig := None\<rparr>)"

text \<open>The defaults of a protocol before the user changes them.\<close>

definition initial_protocol_defaults :: "protocol \<Rightarrow> request_options" where
  "initial_protocol_defaults p =
     (let common = options_empty\<lparr>ro_verifySsl := Some True, ro_allowPrivateAddresses := Some True,
                     ro_tlsClientConfig := Some tls_empty\<rparr> in
      case p of
        P_rest \<Rightarrow> common\<lparr>ro_followRedirects := Some True, ro_maxRedirects := Some 10\<rparr>
      | P_graphql \<Rightarrow> common\<lparr>ro_followRedirects := Some True, ro_maxRedirects := Some 10\<rparr>
      | P_websocket \<Rightarrow> common
      | P_grpc \<Rightarrow> common)"

section \<open>Empty requests\<close>

definition empty_scripts :: request_scripts where
  "empty_scripts = \<lparr>sc_preRequest = Some [], sc_postResponse = Some []\<rparr>"

definition empty_request :: request_config where
  "empty_request = \<lparr>rq_method = ''GET'', rq_url = [], rq_params = [], rq_headers = [],
     rq_bodyMode = BM_none, rq_body = [], rq_bodyFileName = None, rq_auth = auth_none,
     rq_timeoutMs = 30000, rq_variables = Some [], rq_pathVariables = Some [],
     rq_assertions = Some [], rq_extractionRules = Some [], rq_options = Some options_empty,
     rq_scripts = Some empty_scripts, rq_retryPolicy = None\<rparr>"

definition empty_graphql_request :: graphql_request where
  "empty_graphql_request = \<lparr>gq_protocol = Some P_graphql, gq_url = [], gq_headers = [],
     gq_auth = auth_none, gq_query = ''query {'' @ [newline] @ ''  __typename'' @ [newline] @ ''}'',
     gq_variables = ''{}'', gq_operationName = Some [], gq_timeoutMs = 30000,
     gq_assertions = Some [], gq_extractionRules = Some [], gq_options = Some options_empty,
     gq_scripts = Some empty_scripts, gq_apq = None, gq_batchMode = None, gq_httpMethod = None,
     gq_contentType = None\<rparr>"

definition empty_websocket_request :: websocket_request where
  "empty_websocket_request = \<lparr>wq_url = [], wq_protocols = Some [], wq_headers = [],
     wq_auth = auth_none, wq_messageMode = WM_text, wq_message = [], wq_timeoutMs = Some 30000,
     wq_variables = Some [], wq_options = Some options_empty, wq_scripts = Some empty_scripts,
     wq_savedMessages = Some [], wq_autoReconnect = Some False, wq_reconnectDelay = Some 2000,
     wq_reconnectMaxRetries = None, wq_preset = Some WP_none, wq_presetQuery = Some [],
     wq_presetVariables = Some ''{}'', wq_ndjsonMode = Some False, wq_origin = Some []\<rparr>"

definition empty_grpc_request :: grpc_request where
  "empty_grpc_request = \<lparr>rg_address = [], rg_service = [], rg_method = [], rg_metadata = [],
     rg_body = ''{}'', rg_tls = True, rg_timeoutMs = 30000, rg_auth = Some auth_none,
     rg_variables = Some [], rg_assertions = Some [], rg_extractionRules = Some [],
     rg_options = Some options_empty, rg_scripts = Some empty_scripts, rg_protosetBase64 = None,
     rg_compression = None, rg_savedMessages = None, rg_maxRecvMsgSize = None,
     rg_maxSendMsgSize = None\<rparr>"

section \<open>Extraction rules\<close>

text \<open>A rule as stored: older data has \<open>name\<close> and \<open>jsonPath\<close> in place of the present fields.\<close>

record raw_rule =
  rr_id :: "string option"
  rr_variableName :: "string option"
  rr_name :: "string option"
  rr_source :: "extraction_source option"
  rr_expression :: "string option"
  rr_jsonPath :: "string option"
  rr_fallback :: "string option"
  rr_enabled :: "bool option"

definition normalize_rule :: "raw_rule \<Rightarrow> extraction_rule" where
  "normalize_rule r =
     \<lparr>er_id = rr_id r,
      er_variableName = opt_str (over (rr_name r) (rr_variableName r)),
      er_source = (case rr_source r of Some s \<Rightarrow> s | None \<Rightarrow> ES_body),
      er_expression = opt_str (over (rr_jsonPath r) (rr_expression r)),
      er_fallback = rr_fallback r,
      er_enabled = over (Some True) (rr_enabled r)\<rparr>"

definition normalize_extraction_rules :: "raw_rule list option \<Rightarrow> extraction_rule list" where
  "normalize_extraction_rules rules = map normalize_rule (opt_rows rules)"

definition raw_of_rule :: "extraction_rule \<Rightarrow> raw_rule" where
  "raw_of_rule r = \<lparr>rr_id = er_id r, rr_variableName = Some (er_variableName r), rr_name = None,
     rr_source = Some (er_source r), rr_expression = Some (er_expression r), rr_jsonPath = None,
     rr_fallback = er_fallback r, rr_enabled = er_enabled r\<rparr>"

section \<open>Plain requests\<close>

definition to_request_config :: "request_config \<Rightarrow> request_config" where
  "to_request_config draft =
     \<lparr>rq_method = rq_method draft, rq_url = rq_url draft, rq_params = rq_params draft,
      rq_headers = rq_headers draft, rq_bodyMode = rq_bodyMode draft, rq_body = rq_body draft,
      rq_bodyFileName = None, rq_auth = rq_auth draft, rq_timeoutMs = rq_timeoutMs draft,
      rq_variables = Some (opt_rows (rq_variables draft)),
      rq_pathVariables = Some (opt_rows (rq_pathVariables draft)),
      rq_assertions = Some (opt_rows (rq_assertions draft)),
      rq_extractionRules =
        Some (normalize_extraction_rules (map_option (map raw_of_rule) (rq_extractionRules draft))),
      rq_options = rq_options draft,
      rq_scripts = over (Some empty_scripts) (rq_scripts draft),
      rq_retryPolicy = None\<rparr>"

definition parse_graphql_variables :: "string \<Rightarrow> json" where
  "parse_graphql_variables v =
     (let trimmed = trim v in
      if trimmed = [] then JObj []
      else case json_parse trimmed of
          Some (JObj ms) \<Rightarrow> JObj ms
        | Some (JArr vs) \<Rightarrow> JArr vs
        | _ \<Rightarrow> JObj [])"

definition json_keys_count :: "json \<Rightarrow> nat" where
  "json_keys_count v = (case v of JObj ms \<Rightarrow> length ms | JArr vs \<Rightarrow> length vs | _ \<Rightarrow> 0)"

definition operation_name :: "graphql_request \<Rightarrow> string" where
  "operation_name r = trim (opt_str (gq_operationName r))"

definition graphql_get_params :: "graphql_request \<Rightarrow> key_value list" where
  "graphql_get_params r =
     (let vars = parse_graphql_variables (gq_variables r) in
      [kv_on ''query'' (gq_query r)]
      @ (if json_keys_count vars > 0 then [kv_on ''variables'' (json_stringify vars)] else [])
      @ (if operation_name r \<noteq> [] then [kv_on ''operationName'' (operation_name r)] else []))"

definition graphql_body :: "graphql_request \<Rightarrow> json" where
  "graphql_body r =
     JObj ([(''query'', JStr (gq_query r)), (''variables'', parse_graphql_variables (gq_variables r))]
       @ (if operation_name r \<noteq> [] then [(''operationName'', JStr (operation_name r))] else []))"

definition has_content_type :: "key_value list \<Rightarrow> bool" where
  "has_content_type hs \<longleftrightarrow>
     list_ex (\<lambda>hdr. kv_enabled hdr \<noteq> Some False \<and> to_lower (kv_key hdr) = ''content-type'') hs"

definition graphql_to_request_config :: "graphql_request \<Rightarrow> request_config" where
  "graphql_to_request_config r =
     (let content_type = (case gq_contentType r of Some t \<Rightarrow> t | None \<Rightarrow> ''application/json'');
          base = empty_request\<lparr>rq_url := gq_url r, rq_auth := gq_auth r, rq_timeoutMs := gq_timeoutMs r,
                   rq_options := gq_options r, rq_scripts := gq_scripts r\<rparr> in
      if gq_httpMethod r = Some HM_GET
      then to_request_config (base\<lparr>rq_method := ''GET'', rq_params := graphql_get_params r,
             rq_headers := gq_headers r, rq_bodyMode := BM_none, rq_body := []\<rparr>)
      else to_request_config (base\<lparr>rq_method := ''POST'',
             rq_headers := gq_headers r
               @ (if has_content_type (gq_headers r) then [] else [kv_on ''Content-Type'' content_type]),
             rq_bodyMode := BM_json, rq_body := json_stringify (graphql_body r)\<rparr>))"

section \<open>Inferring a protocol\<close>

text \<open>
  A stored request is a JSON object whose shape decides: \<open>protocol\<close> when it is a non-empty string,
  otherwise the fields it has.
\<close>

definition json_field :: "json \<Rightarrow> string \<Rightarrow> jsval" where
  "json_field v k = (case v of JObj ms \<Rightarrow> map_of ms k | _ \<Rightarrow> None)"

definition is_string :: "jsval \<Rightarrow> bool" where
  "is_string v \<longleftrightarrow> (case v of Some (JStr s) \<Rightarrow> True | _ \<Rightarrow> False)"

definition json_truthy :: "jsval \<Rightarrow> bool" where
  "json_truthy v \<longleftrightarrow>
     (case v of None \<Rightarrow> False | Some JNull \<Rightarrow> False | Some (JBool b) \<Rightarrow> b
      | Some (JNum x) \<Rightarrow> x \<noteq> 0 | Some (JStr s) \<Rightarrow> s \<noteq> [] | _ \<Rightarrow> True)"

definition is_graphql_shape :: "json \<Rightarrow> bool" where
  "is_graphql_shape r \<longleftrightarrow>
     json_field r ''protocol'' = Some (JStr ''graphql'')
     \<or> (is_string (json_field r ''query'') \<and> is_string (json_field r ''variables'')
        \<and> \<not> json_truthy (json_field r ''method''))"

definition is_websocket_shape :: "json \<Rightarrow> bool" where
  "is_websocket_shape r \<longleftrightarrow>
     is_string (json_field r ''messageMode'') \<and> is_string (json_field r ''message'')
     \<and> \<not> json_truthy (json_field r ''method'')"

definition is_grpc_shape :: "json \<Rightarrow> bool" where
  "is_grpc_shape r \<longleftrightarrow>
     is_string (json_field r ''address'') \<and> is_string (json_field r ''service'')
     \<and> is_string (json_field r ''method'')"

definition infer_protocol :: "json \<Rightarrow> string \<Rightarrow> jsval" where
  "infer_protocol r fallback =
     (if json_truthy (json_field r ''protocol'') then json_field r ''protocol''
      else if is_graphql_shape r then Some (JStr ''graphql'')
      else if is_websocket_shape r then Some (JStr ''websocket'')
      else if is_grpc_shape r then Some (JStr ''grpc'')
      else Some (JStr fallback))"

text \<open>\<open>clonePlain\<close>; \<open>None\<close> is the \<open>SyntaxError\<close> of an unreadable text.\<close>

definition clone_plain :: "json \<Rightarrow> json option" where
  "clone_plain v = json_parse (json_stringify v)"

section \<open>Lemmas\<close>

lemma over_over [simp]: "over base (over base v) = over base v"
  by (simp add: over_def split: option.splits)

lemma over_None [simp]: "over base None = base" "over base (Some x) = Some x"
  by (simp_all add: over_def)

lemma merge_tls_idem [simp]: "merge_tls base (merge_tls base t) = merge_tls base t"
  by (simp add: merge_tls_def)

lemma merge_with_defaults_idem:
  "merge_with_defaults (Some (merge_with_defaults req defaults)) defaults = merge_with_defaults req defaults"
  by (simp add: merge_with_defaults_def Let_def opt_tls_def)

lemma strip_network_options_idem:
  "strip_network_options (Some (strip_network_options opts)) = strip_network_options opts"
  by (simp add: strip_network_options_def options_empty_def split: option.splits)

lemma merge_after_strip:
  "ro_httpVersion defaults = None \<Longrightarrow>
   merge_with_defaults (Some (strip_network_options opts)) defaults =
     (merge_with_defaults None defaults)\<lparr>ro_httpVersion := ro_httpVersion (strip_network_options opts)\<rparr>"
  by (auto simp: merge_with_defaults_def strip_network_options_def Let_def options_empty_def
      opt_tls_def tls_empty_def over_def [of None] split: option.splits)

lemma normalize_raw: "normalize_rule (raw_of_rule r) = r\<lparr>er_enabled := over (Some True) (er_enabled r)\<rparr>"
  by (simp add: normalize_rule_def raw_of_rule_def opt_str_def)

lemma to_request_config_idem: "to_request_config (to_request_config r) = to_request_config r"
  by (auto simp: to_request_config_def normalize_extraction_rules_def opt_rows_def normalize_raw
      split: option.splits)

section \<open>Properties\<close>

text \<open>
  \<open>clonePlain\<close> gives the value back: for every JSON value with integral numbers below
  \<open>10 ^ 21\<close> and objects with distinct keys, the printed text parses to an equal value.
\<close>

theorem clone_plain_identity:
  assumes "json_ok v"
  shows "clone_plain v = Some v"
  using json_parse_stringify [OF assms] by (simp add: clone_plain_def)

theorem clone_plain_identity_witness:
  "clone_plain (JObj [(''a'', JArr [JNum 7, JNull, JStr [dquote, newline]]), (''b'', JObj [])]) =
     Some (JObj [(''a'', JArr [JNum 7, JNull, JStr [dquote, newline]]), (''b'', JObj [])])"
  by (rule clone_plain_identity) code_simp

text \<open>
  The body of a GraphQL request sent with POST is JSON that parses to exactly the query, the
  variables (an empty object when they are blank or no object) and the trimmed operation name when
  there is one; the request has a content type.
\<close>

theorem graphql_post_body:
  assumes "gq_httpMethod r \<noteq> Some HM_GET" and "json_ok (parse_graphql_variables (gq_variables r))"
  shows "json_parse (rq_body (graphql_to_request_config r)) = Some (graphql_body r)
    \<and> rq_method (graphql_to_request_config r) = ''POST''
    \<and> has_content_type (rq_headers (graphql_to_request_config r))"
proof -
  have "json_ok (graphql_body r)" using assms(2) by (simp add: graphql_body_def)
  moreover have "to_lower ''Content-Type'' = ''content-type''" by code_simp
  ultimately show ?thesis using assms(1)
    by (auto simp: graphql_to_request_config_def Let_def to_request_config_def
        json_parse_stringify has_content_type_def)
qed

end
