(* ===== verification/Assertions.thy ===== *)
theory Assertions
  imports Request_Model
begin

text \<open>
  packages/core/src/assertions/index.ts: the evaluation of an assertion against a response, the
  matchers, the messages, and the runner that turns every exception into a failed result.
\<close>

section \<open>Values of unknown type\<close>

definition unknown_to_number :: "unknown \<Rightarrow> jsnum" where
  "unknown_to_number v =
     (case v of Undefined \<Rightarrow> NaN | Json j \<Rightarrow> js_to_number (Some j) | NonFinite n \<Rightarrow> n)"

definition num_name :: "jsnum \<Rightarrow> string" where
  "num_name n = (case n of NaN \<Rightarrow> ''NaN'' | PosInf \<Rightarrow> ''Infinity'' | NegInf \<Rightarrow> ''-Infinity''
     | Fin r \<Rightarrow> num_to_string r)"

definition unknown_to_string :: "unknown \<Rightarrow> string" where
  "unknown_to_string v =
     (case v of Undefined \<Rightarrow> ''undefined'' | Json j \<Rightarrow> json_to_string j | NonFinite n \<Rightarrow> num_name n)"

text \<open>\<open>String(v ?? "")\<close>.\<close>

definition text_or_empty :: "unknown \<Rightarrow> string" where
  "text_or_empty v = (if v = Undefined \<or> v = Json JNull then [] else unknown_to_string v)"

text \<open>\<open>normalize\<close> and \<open>stringify\<close>: a string as it is, anything else as JSON; \<open>None\<close> is \<open>undefined\<close>.\<close>

definition normalize_value :: "unknown \<Rightarrow> string option" where
  "normalize_value v =
     (case v of
        Undefined \<Rightarrow> None
      | Json (JStr s) \<Rightarrow> Some s
      | Json j \<Rightarrow> Some (json_stringify j)
      | NonFinite n \<Rightarrow> Some ''null'')"

definition stringify_value :: "unknown \<Rightarrow> string" where
  "stringify_value v = (case normalize_value v of Some s \<Rightarrow> s | None \<Rightarrow> ''undefined'')"

definition numeric_or_string :: "string \<Rightarrow> unknown" where
  "numeric_or_string v =
     (case string_to_number v of
        Fin x \<Rightarrow> if trim v \<noteq> [] then Json (JNum x) else Json (JStr v)
      | _ \<Rightarrow> Json (JStr v))"

definition parse_expected :: "string \<Rightarrow> unknown" where
  "parse_expected v =
     (let trimmed = trim v in
      if trimmed = [] then Json (JStr [])
      else case json_parse trimmed of Some j \<Rightarrow> Json j | None \<Rightarrow> numeric_or_string trimmed)"

section \<open>Regular expressions with flags\<close>

text \<open>\<open>/pattern/flags\<close>, matched by \<open>/^\/(.*)\/([dgimsuvy]*)$/\<close>: the last slash ends the pattern.\<close>

definition split_regex :: "string \<Rightarrow> string \<times> string" where
  "split_regex p =
     (let flags = rev (takeWhile (\<lambda>c. c \<noteq> CHR ''/'') (rev p));
          body = butlast (tl (take (length p - length flags) p)) in
      if starts_with ''/'' p \<and> 2 \<le> length p - length flags
         \<and> list_all (\<lambda>c. c \<in> set ''dgimsuvy'') flags
         \<and> newline \<notin> set body \<and> carriage \<notin> set body
      then (body, flags) else (p, []))"

definition regex_test :: "host \<Rightarrow> string \<Rightarrow> string \<Rightarrow> js_error + bool" where
  "regex_test h pattern subject =
     (case ho_regex h (fst (split_regex pattern)) (snd (split_regex pattern)) of
        None \<Rightarrow> Inl (syntax_error h pattern)
      | Some f \<Rightarrow> Inr (f subject))"

section \<open>Matchers\<close>

definition match_value :: "host \<Rightarrow> unknown \<Rightarrow> matcher \<Rightarrow> unknown \<Rightarrow> js_error + bool" where
  "match_value h actual m expected =
     (case m of
        M_equals \<Rightarrow> Inr (normalize_value actual = normalize_value expected)
      | M_notEquals \<Rightarrow> Inr (normalize_value actual \<noteq> normalize_value expected)
      | M_exists \<Rightarrow> Inr (actual \<noteq> Undefined \<and> actual \<noteq> Json JNull \<and> actual \<noteq> Json (JStr []))
      | M_gt \<Rightarrow> Inr (num_less (unknown_to_number expected) (unknown_to_number actual))
      | M_lt \<Rightarrow> Inr (num_less (unknown_to_number actual) (unknown_to_number expected))
      | M_contains \<Rightarrow>
          (case actual of
             Json (JArr items) \<Rightarrow>
               Inr (list_ex (\<lambda>item. normalize_value (Json item) = normalize_value expected) items)
           | _ \<Rightarrow> Inr (str_includes (text_or_empty expected) (text_or_empty actual)))
      | M_matches \<Rightarrow> regex_test h (text_or_empty expected) (text_or_empty actual)
      | M_other s \<Rightarrow> Inr False)"

section \<open>Evaluation\<close>

record evaluation =
  ev_actual :: unknown
  ev_expected :: unknown
  ev_schema_passed :: bool
  ev_details :: "schema_error list option"

definition plain_evaluation :: "unknown \<Rightarrow> unknown \<Rightarrow> evaluation" where
  "plain_evaluation a e =
     \<lparr>ev_actual = a, ev_expected = e, ev_schema_passed = False, ev_details = None\<rparr>"

definition header_value :: "key_value list \<Rightarrow> string \<Rightarrow> string option" where
  "header_value headers name =
     (let normalized = to_lower (trim name) in
      map_option kv_value (find (\<lambda>hdr. to_lower (trim (kv_key hdr)) = normalized) headers))"

definition unknown_of_string :: "string option \<Rightarrow> unknown" where
  "unknown_of_string v = (case v of Some s \<Rightarrow> Json (JStr s) | None \<Rightarrow> Undefined)"

definition parse_json_body :: "string \<Rightarrow> js_error + json" where
  "parse_json_body body =
     (case json_parse body of
        Some j \<Rightarrow> Inr j | None \<Rightarrow> Inl (plain_error ''response body is not valid JSON''))"

definition json_path :: "host \<Rightarrow> string \<Rightarrow> string \<Rightarrow> js_error + unknown" where
  "json_path h body path =
     (case parse_json_body body of
        Inl e \<Rightarrow> Inl e
      | Inr j \<Rightarrow> map_sum id unknown_of_jsval (ho_jsonpath h path j))"

definition format_schema_errors :: "schema_error list \<Rightarrow> string" where
  "format_schema_errors es =
     join ''; '' (map (\<lambda>e. (if se_instancePath e = [] then ''/'' else se_instancePath e) @ '' ''
                     @ (case se_message e of Some m \<Rightarrow> m | None \<Rightarrow> ''is invalid'')) es)"

definition evaluate_schema :: "host \<Rightarrow> execute_response \<Rightarrow> assertion \<Rightarrow> js_error + evaluation" where
  "evaluate_schema h response a =
     (let schema_text = (if trim (as_expected a) \<noteq> [] then trim (as_expected a)
                         else trim (as_expression a)) in
      if schema_text = [] then Inl (plain_error ''bodySchema assertion needs a JSON Schema'')
      else case json_parse schema_text of
          None \<Rightarrow> Inl (syntax_error h schema_text)
        | Some schema \<Rightarrow>
            (case parse_json_body (rs_body response) of
               Inl e \<Rightarrow> Inl e
             | Inr body \<Rightarrow>
                 (case ho_schema h schema of
                    Inl e \<Rightarrow> Inl e
                  | Inr validate \<Rightarrow>
                      (let errors = validate body; ok = (errors = []) in
                       Inr \<lparr>ev_actual = Json (JStr (if ok then ''valid'' else format_schema_errors errors)),
                            ev_expected = Json schema, ev_schema_passed = ok,
                            ev_details = Some errors\<rparr>))))"

definition evaluate_assertion :: "host \<Rightarrow> execute_response \<Rightarrow> assertion \<Rightarrow> js_error + evaluation" where
  "evaluate_assertion h response a =
     (case as_type a of
        AK_status \<Rightarrow> Inr (plain_evaluation (Json (JNum (of_int (rs_status response))))
                          (numeric_or_string (as_expected a)))
      | AK_responseTime \<Rightarrow>
          Inr (plain_evaluation
                (Json (JNum (case rs_timing response of Some t \<Rightarrow> tm_totalMs t | None \<Rightarrow> 0)))
                (unknown_of_num (string_to_number (as_expected a))))
      | AK_header \<Rightarrow> Inr (plain_evaluation
                (unknown_of_string (header_value (rs_headers response) (as_expression a)))
                (Json (JStr (as_expected a))))
      | AK_bodyJsonPath \<Rightarrow>
          (case json_path h (rs_body response) (as_expression a) of
             Inl e \<Rightarrow> Inl e
           | Inr v \<Rightarrow> Inr (plain_evaluation v (parse_expected (as_expected a))))
      | AK_regex \<Rightarrow>
          (let pattern = (if trim (as_expression a) \<noteq> [] then trim (as_expression a)
                          else trim (as_expected a)) in
           Inr (plain_evaluation (Json (JStr (rs_body response))) (Json (JStr pattern))))
      | AK_bodySchema \<Rightarrow> evaluate_schema h response a
      | AK_other s \<Rightarrow> Inr (plain_evaluation Undefined (Json (JStr (as_expected a)))))"

section \<open>Messages and results\<close>

definition assertion_kind_name :: "assertion_kind \<Rightarrow> string" where
  "assertion_kind_name k =
     (case k of AK_status \<Rightarrow> ''status'' | AK_responseTime \<Rightarrow> ''responseTime'' | AK_header \<Rightarrow> ''header''
      | AK_bodyJsonPath \<Rightarrow> ''bodyJsonPath'' | AK_bodySchema \<Rightarrow> ''bodySchema'' | AK_regex \<Rightarrow> ''regex''
      | AK_other s \<Rightarrow> s)"

definition matcher_name :: "matcher \<Rightarrow> string" where
  "matcher_name m =
     (case m of M_equals \<Rightarrow> ''equals'' | M_notEquals \<Rightarrow> ''notEquals'' | M_exists \<Rightarrow> ''exists''
      | M_gt \<Rightarrow> ''gt'' | M_lt \<Rightarrow> ''lt'' | M_contains \<Rightarrow> ''contains'' | M_matches \<Rightarrow> ''matches''
      | M_other s \<Rightarrow> s)"

definition assertion_label :: "assertion \<Rightarrow> string" where
  "assertion_label a =
     (if as_type a = AK_status then ''status''
      else if as_type a = AK_responseTime then ''response time''
      else if as_expression a \<noteq> [] then as_expression a
      else assertion_kind_name (as_type a))"

definition failure_message :: "assertion \<Rightarrow> evaluation \<Rightarrow> string" where
  "failure_message a ev =
     (case (as_type a, ev_details ev) of
        (AK_bodySchema, Some ds) \<Rightarrow> ''schema mismatch: '' @ format_schema_errors ds
      | _ \<Rightarrow>
          if as_matcher a = M_exists then ''expected '' @ assertion_label a @ '' to exist''
          else ''expected '' @ assertion_label a @ '' '' @ matcher_name (as_matcher a) @ '' ''
               @ stringify_value (ev_expected ev) @ '', got '' @ stringify_value (ev_actual ev))"

definition try_assertion :: "host \<Rightarrow> execute_response \<Rightarrow> assertion \<Rightarrow> js_error + assertion_result" where
  "try_assertion h response a =
     (case evaluate_assertion h response a of
        Inl e \<Rightarrow> Inl e
      | Inr ev \<Rightarrow>
          (case (if as_type a = AK_bodySchema then Inr (ev_schema_passed ev)
                 else match_value h (ev_actual ev) (as_matcher a) (ev_expected ev)) of
             Inl e \<Rightarrow> Inl e
           | Inr passed \<Rightarrow>
               Inr \<lparr>ar_assertionId = as_id a, ar_passed = passed, ar_actual = ev_actual ev,
                    ar_expected = ev_expected ev,
                    ar_message = (if passed then ''passed'' else failure_message a ev)\<rparr>))"

definition run_assertion :: "host \<Rightarrow> execute_response \<Rightarrow> assertion \<Rightarrow> assertion_result" where
  "run_assertion h response a =
     (case try_assertion h response a of
        Inr r \<Rightarrow> r
      | Inl e \<Rightarrow> \<lparr>ar_assertionId = as_id a, ar_passed = False, ar_actual = Undefined,
                  ar_expected = Json (JStr (as_expected a)), ar_message = err_message e\<rparr>)"

definition run_assertions :: "host \<Rightarrow> execute_response \<Rightarrow> assertion list \<Rightarrow> assertion_result list" where
  "run_assertions h response assertions =
     map (run_assertion h response) (filter (\<lambda>a. as_enabled a \<noteq> Some False) assertions)"

text \<open>\<open>evaluateJsonPath\<close>, for the interface: a value or the text of the error.\<close>

definition evaluate_json_path :: "host \<Rightarrow> string \<Rightarrow> string \<Rightarrow> string + unknown" where
  "evaluate_json_path h body path =
     (if trim path = [] then Inl ''empty path''
      else case json_parse body of
          None \<Rightarrow> Inl (error_to_string (syntax_error h body))
        | Some j \<Rightarrow> map_sum error_to_string unknown_of_jsval (ho_jsonpath h path j))"

section \<open>Lemmas\<close>

lemma run_assertion_id [simp]: "ar_assertionId (run_assertion h r a) = as_id a"
  by (auto simp: run_assertion_def try_assertion_def split: sum.splits)

lemma run_assertion_passed:
  "ar_passed (run_assertion h r a) \<longleftrightarrow>
     (\<exists>ev. evaluate_assertion h r a = Inr ev \<and>
        (if as_type a = AK_bodySchema then ev_schema_passed ev
         else match_value h (ev_actual ev) (as_matcher a) (ev_expected ev) = Inr True))"
  by (auto simp: run_assertion_def try_assertion_def split: sum.splits if_splits)

lemma evaluate_assertion_matcher [simp]:
  "evaluate_assertion h r (a\<lparr>as_matcher := m\<rparr>) = evaluate_assertion h r a"
  by (cases "as_type a") (simp_all add: evaluate_assertion_def evaluate_schema_def split: sum.split)

lemma nat_to_string_inj: "nat_to_string m = nat_to_string n \<Longrightarrow> m = n"
  by (metis digits_value_nat_to_string)

lemma num_to_string_inj:
  assumes "\<bar>i\<bar> < 10 ^ 21" and "\<bar>j\<bar> < 10 ^ 21"
    and "num_to_string (rat_of_int i) = num_to_string (rat_of_int j)"
  shows "i = j"
proof -
  have "\<not> (nat_to_string m = CHR ''-'' # nat_to_string n)" for m n
    using nat_to_string_head_digit [of m] by auto
  moreover have "\<not> (CHR ''-'' # nat_to_string n = nat_to_string m)" for m n
    using nat_to_string_head_digit [of m] by auto
  ultimately show ?thesis
    using assms(3) nat_to_string_inj [of "nat i" "nat j"] nat_to_string_inj [of "nat (- i)" "nat (- j)"]
    by (auto simp: num_to_string_int [OF assms(1)] num_to_string_int [OF assms(2)] split: if_splits)
qed

text \<open>A response and an assertion for evaluating the model.\<close>

definition sample_response :: "int \<Rightarrow> string \<Rightarrow> execute_response" where
  "sample_response status body = \<lparr>rs_status = status, rs_statusText = [],
     rs_headers = [kv_pair ''Content-Type'' ''application/json''], rs_body = body,
     rs_bodyEncoding = None, rs_timing = None, rs_attempts = None, rs_tls = None,
     rs_redirects = None, rs_requestSize = 0, rs_responseSize = 0, rs_error = None\<rparr>"

definition status_assertion :: "matcher \<Rightarrow> string \<Rightarrow> assertion" where
  "status_assertion m e = \<lparr>as_id = ''s'', as_type = AK_status, as_expression = [], as_matcher = m,
     as_expected = e, as_enabled = None\<rparr>"

section \<open>Properties\<close>



text \<open>
  Where an assertion can be evaluated, \<open>notEquals\<close> passes exactly when \<open>equals\<close> fails; where it
  cannot (a body that is no JSON, a failing path), both fail.
\<close>

theorem not_equals_complements_equals:
  assumes "as_type a \<noteq> AK_bodySchema"
  shows "ar_passed (run_assertion h r (a\<lparr>as_matcher := M_notEquals\<rparr>)) \<longleftrightarrow>
     \<not> ar_passed (run_assertion h r (a\<lparr>as_matcher := M_equals\<rparr>)) \<and> \<not> isl (evaluate_assertion h r a)"
  using assms by (cases "evaluate_assertion h r a") (auto simp: run_assertion_passed match_value_def)

definition header_assertion :: "string \<Rightarrow> string \<Rightarrow> assertion" where
  "header_assertion n e = \<lparr>as_id = ''h'', as_type = AK_header, as_expression = n,
     as_matcher = M_equals, as_expected = e, as_enabled = None\<rparr>"

text \<open>
  For a status assertion whose expected text is an integer, exactly one of \<open>equals\<close>, \<open>gt\<close> and
  \<open>lt\<close> passes, as the order of the status and the integer says.
\<close>

theorem status_trichotomy:
  assumes "as_type a = AK_status" and "string_to_number (as_expected a) = Fin (rat_of_int e)"
    and "trim (as_expected a) \<noteq> []" and "\<bar>e\<bar> < 10 ^ 21" and "\<bar>rs_status r\<bar> < 10 ^ 21"
  shows "(ar_passed (run_assertion h r (a\<lparr>as_matcher := M_equals\<rparr>)) \<longleftrightarrow> rs_status r = e)
    \<and> (ar_passed (run_assertion h r (a\<lparr>as_matcher := M_gt\<rparr>)) \<longleftrightarrow> e < rs_status r)
    \<and> (ar_passed (run_assertion h r (a\<lparr>as_matcher := M_lt\<rparr>)) \<longleftrightarrow> rs_status r < e)"
proof -
  have ev: "evaluate_assertion h r a =
      Inr (plain_evaluation (Json (JNum (of_int (rs_status r)))) (Json (JNum (of_int e))))"
    using assms(1-3) by (simp add: evaluate_assertion_def numeric_or_string_def)
  have "num_to_string (rat_of_int (rs_status r)) = num_to_string (rat_of_int e) \<longleftrightarrow> rs_status r = e"
    using num_to_string_inj [OF assms(5) assms(4)] by auto
  with assms(1) ev show ?thesis
    by (auto simp: run_assertion_passed plain_evaluation_def match_value_def normalize_value_def
        unknown_to_number_def js_to_number_def)
qed

end
