(* ===== verification/Extract_Vars.thy ===== *)
theory Extract_Vars
  imports Assertions
begin

text \<open>
  packages/core/src/variables/index.ts, values taken out of a response: \<open>extractVariables\<close> over the
  extraction rules and \<open>extractByJsonPath\<close>.
\<close>

section \<open>One rule\<close>

text \<open>
  \<open>extractValue\<close>: \<open>json\<close> is the parsed body, \<open>undefined\<close> when it is no JSON. The JSONPath package may
  raise, and then so does the extraction.
\<close>

definition extract_value ::
  "host \<Rightarrow> execute_response \<Rightarrow> extraction_source \<Rightarrow> string \<Rightarrow> jsval \<Rightarrow> js_error + jsval" where
  "extract_value h response source expression json_body =
     (case source of
        ES_status \<Rightarrow> Inr (Some (JNum (of_int (rs_status response))))
      | ES_header \<Rightarrow> Inr (map_option JStr (header_value (rs_headers response) expression))
      | ES_body \<Rightarrow>
          (case json_body of
             None \<Rightarrow> Inr None
           | Some JNull \<Rightarrow> Inr None
           | Some j \<Rightarrow> if trim expression = [] then Inr None else ho_jsonpath h expression j))"

text \<open>\<open>result ?? rule.fallback\<close>, then the text stored for it.\<close>

definition nullish :: "jsval \<Rightarrow> bool" where
  "nullish v \<longleftrightarrow> v = None \<or> v = Some JNull"

definition with_fallback :: "jsval \<Rightarrow> string option \<Rightarrow> jsval" where
  "with_fallback v fallback = (if nullish v then map_option JStr fallback else v)"

definition value_text :: "jsval \<Rightarrow> string option" where
  "value_text v =
     (case v of None \<Rightarrow> None | Some JNull \<Rightarrow> None | Some (JStr s) \<Rightarrow> Some s
      | Some j \<Rightarrow> Some (json_stringify j))"

definition rule_applies :: "extraction_rule \<Rightarrow> bool" where
  "rule_applies r \<longleftrightarrow> er_enabled r \<noteq> Some False \<and> trim (er_variableName r) \<noteq> []"

definition rule_text ::
  "host \<Rightarrow> execute_response \<Rightarrow> jsval \<Rightarrow> extraction_rule \<Rightarrow> js_error + string option" where
  "rule_text h response json_body r =
     (case extract_value h response (er_source r) (er_expression r) json_body of
        Inl e \<Rightarrow> Inl e
      | Inr v \<Rightarrow> Inr (value_text (with_fallback v (er_fallback r))))"

section \<open>All rules\<close>

fun extract_rules ::
  "host \<Rightarrow> execute_response \<Rightarrow> jsval \<Rightarrow> extraction_rule list \<Rightarrow> string obj \<Rightarrow> js_error + string obj"
where
  "extract_rules h response json_body [] acc = Inr acc"
| "extract_rules h response json_body (r # rs) acc =
     (if \<not> rule_applies r then extract_rules h response json_body rs acc
      else case rule_text h response json_body r of
          Inl e \<Rightarrow> Inl e
        | Inr None \<Rightarrow> extract_rules h response json_body rs acc
        | Inr (Some v) \<Rightarrow>
            extract_rules h response json_body rs (obj_assign (trim (er_variableName r)) v acc))"

definition extract_variables ::
  "host \<Rightarrow> execute_response \<Rightarrow> extraction_rule list \<Rightarrow> js_error + string obj" where
  "extract_variables h response rules =
     extract_rules h response (json_parse (rs_body response))
       (normalize_extraction_rules (Some (map raw_of_rule rules))) []"

definition extract_by_json_path :: "host \<Rightarrow> jsval \<Rightarrow> string \<Rightarrow> js_error + string option" where
  "extract_by_json_path h body path =
     (case body of
        None \<Rightarrow> Inr None
      | Some JNull \<Rightarrow> Inr None
      | Some j \<Rightarrow> if trim path = [] then Inr None else map_sum id value_text (ho_jsonpath h path j))"

section \<open>Lemmas\<close>

lemma obj_own_assign_proto:
  "k' \<noteq> ''__proto__'' \<Longrightarrow> obj_own (obj_assign k v ob) k' = (if k' = k then Some v else obj_own ob k')"
  by (auto simp: obj_assign_def)

lemma rule_applies_normalized [simp]:
  "rule_applies (r\<lparr>er_enabled := over (Some True) (er_enabled r)\<rparr>) = rule_applies r"
  by (auto simp: rule_applies_def over_def split: option.splits)

lemma rule_text_normalized [simp]:
  "rule_text h response j (r\<lparr>er_enabled := e\<rparr>) = rule_text h response j r"
  by (simp add: rule_text_def split: sum.split)

text \<open>The rules that give a value for a name.\<close>

definition gives ::
  "host \<Rightarrow> execute_response \<Rightarrow> string \<Rightarrow> extraction_rule \<Rightarrow> string option" where
  "gives h response k r =
     (if rule_applies r \<and> trim (er_variableName r) = k
      then (case rule_text h response (json_parse (rs_body response)) r of Inr v \<Rightarrow> v | Inl e \<Rightarrow> None)
      else None)"

definition last_given :: "host \<Rightarrow> execute_response \<Rightarrow> string \<Rightarrow> extraction_rule list \<Rightarrow> string option" where
  "last_given h response k rules =
     (case List.map_filter (gives h response k) rules of [] \<Rightarrow> None | vs \<Rightarrow> Some (last vs))"

lemma extract_rules_own:
  assumes "extract_rules h response (json_parse (rs_body response)) rules acc = Inr out"
    and "k \<noteq> ''__proto__''"
  shows "obj_own out k =
    (case last_given h response k rules of Some v \<Rightarrow> Some v | None \<Rightarrow> obj_own acc k)"
  using assms(1)
proof (induction rules arbitrary: acc)
  case Nil
  then show ?case by (simp add: last_given_def map_filter_simps)
next
  case (Cons r rs)
  let ?j = "json_parse (rs_body response)"
  have cons: "last_given h response k (r # rs) =
      (case last_given h response k rs of Some v \<Rightarrow> Some v | None \<Rightarrow> gives h response k r)"
    by (auto simp: last_given_def map_filter_simps split: option.splits list.splits)
  show ?case
  proof (cases "rule_applies r")
    case False
    with Cons cons show ?thesis by (auto simp: gives_def split: option.splits)
  next
    case True
    with Cons.prems obtain v where v: "rule_text h response ?j r = Inr v"
      by (auto split: sum.splits)
    show ?thesis
    proof (cases v)
      case None
      with v True Cons cons show ?thesis by (auto simp: gives_def split: option.splits)
    next
      case (Some w)
      with v True Cons.prems have
        "extract_rules h response ?j rs (obj_assign (trim (er_variableName r)) w acc) = Inr out" by simp
      from Cons.IH [OF this] v True Some cons assms(2) show ?thesis
        by (auto simp: gives_def obj_own_assign_proto split: option.splits)
    qed
  qed
qed

lemma extract_rules_normalized:
  "extract_rules h response j (normalize_extraction_rules (Some (map raw_of_rule rules))) acc =
     extract_rules h response j rules acc"
  by (induction rules arbitrary: acc)
    (simp_all add: normalize_extraction_rules_def opt_rows_def normalize_raw split: sum.split option.split)

section \<open>Properties\<close>

text \<open>
  An extracted variable has the value of the last enabled rule with its trimmed name that gives
  one, where a rule gives its fallback when nothing is found; a name no rule gives a value for is
  not set.
\<close>

theorem extraction_last_rule_wins:
  assumes "extract_variables h response rules = Inr vars" and "k \<noteq> ''__proto__''"
  shows "obj_own vars k = last_given h response k rules"
  using extract_rules_own [OF _ assms(2)] assms(1)
  by (auto simp: extract_variables_def extract_rules_normalized obj_own_def [of "[]"] split: option.splits)

definition id_rule :: "string \<Rightarrow> extraction_rule" where
  "id_rule path = \<lparr>er_id = None, er_variableName = '' id '', er_source = ES_body,
     er_expression = path, er_fallback = Some ''none'', er_enabled = None\<rparr>"

end
