(* ===== verification/Runner.thy ===== *)
theory Runner
  imports Extract_Vars
begin

text \<open>
  packages/core/src/runner/index.ts: running the requests of a collection one after the other, the
  CSV export of such a run, and running one request many times in concurrent batches. Executing a
  request is a parameter. The collection run reads the cancelled flag before every request and
  once at its end; nothing resets it, so the parameter is the number of the first read
  that sees it set. For a batch the parameters are the flag each round reads and its runs in the order in which they
  settle. Callbacks are recorded as a trace and do not throw.
\<close>

section \<open>Collection runs\<close>

datatype run_status = RS_passed | RS_failed | RS_error | RS_skipped

record request_run_result =
  rr_requestId :: string
  rr_name :: string
  rr_method :: string
  rr_url :: string
  rr_status :: run_status
  rr_response :: "execute_response option"
  rr_assertions :: "assertion_result list option"
  rr_durationMs :: int
  rr_error :: "string option"

datatype collection_status = CR_passed | CR_failed | CR_cancelled

record run_meta =
  me_id :: string
  me_name :: string
  me_collectionId :: "string option"
  me_folderId :: "string option"

record collection_run_result = run_meta +
  cn_startedAt :: int
  cn_completedAt :: int
  cn_status :: collection_status
  cn_results :: "request_run_result list"
  cn_passedCount :: nat
  cn_failedCount :: nat

record 'w runner_options =
  ru_host :: host
  ru_execute :: "request_config \<Rightarrow> 'w \<Rightarrow> (string + execute_response) \<times> 'w"
  ru_scopes :: "variable_scope list option"
  ru_stopOnFailure :: "bool option"

datatype runner_event = Request_start string nat | Request_complete request_run_result nat

record 'w runner_state =
  rn_results :: "request_run_result list"
  rn_variables :: "string obj"
  rn_events :: "runner_event list"
  rn_runtime :: runtime
  rn_world :: 'w

text \<open>
  \<open>saved.request as RequestConfig\<close> is a cast: a request of another protocol is passed on as it is,
  and \<open>resolveRequest\<close> raises at the first field it lacks.
\<close>

definition cast_method :: "protocol_request \<Rightarrow> string" where
  "cast_method r = (case r of RestRequest q \<Rightarrow> rq_method q | GrpcRequest q \<Rightarrow> rg_method q | _ \<Rightarrow> ''GET'')"

definition cast_url :: "protocol_request \<Rightarrow> string" where
  "cast_url r =
     (case r of RestRequest q \<Rightarrow> rq_url q | GraphQLRequest q \<Rightarrow> gq_url q | WebSocketRequest q \<Rightarrow> wq_url q
      | GrpcRequest q \<Rightarrow> [])"

definition undefined_property :: "string \<Rightarrow> js_error" where
  "undefined_property p =
     type_error (''Cannot read properties of undefined (reading '' @ [squote] @ p @ [squote] @ '')'')"

definition runner_scopes :: "'w runner_options \<Rightarrow> string obj \<Rightarrow> variable_scope list" where
  "runner_scopes opts variables =
     opt_rows (ru_scopes opts)
     @ [\<lparr>vs_name = Some ''runner'', vs_variables = Rows (map (\<lambda>(k, v). kv_on k v) variables)\<rparr>]"

definition resolve_saved ::
  "host \<Rightarrow> protocol_request \<Rightarrow> variable_scope list \<Rightarrow> (runtime, request_config) sx" where
  "resolve_saved h r scopes =
     (case r of
        RestRequest q \<Rightarrow> sx_bind (resolve_request h q (Scopes_arg scopes) []) (\<lambda>v. sx_ret (rv_request v))
      | GraphQLRequest q \<Rightarrow>
          sx_bind (resolve_template (gq_url q) (variables_from_scopes scopes))
            (\<lambda>u. sx_throw (undefined_property ''map''))
      | WebSocketRequest q \<Rightarrow>
          sx_bind (resolve_template (wq_url q) (variables_from_scopes scopes))
            (\<lambda>u. sx_throw (undefined_property ''map''))
      | GrpcRequest q \<Rightarrow> sx_throw (undefined_property ''replace''))"

definition request_assertions :: "protocol_request \<Rightarrow> assertion list" where
  "request_assertions r = (case r of RestRequest q \<Rightarrow> opt_rows (rq_assertions q) | _ \<Rightarrow> [])"

definition request_rules :: "protocol_request \<Rightarrow> extraction_rule list" where
  "request_rules r = (case r of RestRequest q \<Rightarrow> opt_rows (rq_extractionRules q) | _ \<Rightarrow> [])"

definition skipped_result :: "saved_request \<Rightarrow> request_run_result" where
  "skipped_result saved =
     \<lparr>rr_requestId = sr_id saved,
      rr_name = (if sr_name saved = [] then cast_url (sr_request saved) else sr_name saved),
      rr_method = cast_method (sr_request saved), rr_url = cast_url (sr_request saved),
      rr_status = RS_skipped, rr_response = None, rr_assertions = None, rr_durationMs = 0, rr_error = None\<rparr>"

definition errored :: "string \<Rightarrow> request_run_result \<Rightarrow> request_run_result" where
  "errored m r = r\<lparr>rr_status := RS_error, rr_error := Some m\<rparr>"

text \<open>The body of the loop for one request: its result and the next variables.\<close>

definition run_saved ::
  "'w runner_options \<Rightarrow> saved_request \<Rightarrow> 'w runner_state \<Rightarrow> request_run_result \<times> 'w runner_state" where
  "run_saved opts saved st =
     (let r0 = skipped_result saved in
      case resolve_saved (ru_host opts) (sr_request saved) (runner_scopes opts (rn_variables st)) (rn_runtime st) of
        Inl e \<Rightarrow> (errored (error_to_string e) r0, st)
      | Inr (q, rt) \<Rightarrow>
          (let (t0, rt0) = read_clock rt; (settled, w) = ru_execute opts q (rn_world st) in
           case settled of
             Inl m \<Rightarrow> (errored m r0, st\<lparr>rn_runtime := rt0, rn_world := w\<rparr>)
           | Inr response \<Rightarrow>
               (let (t1, rt1) = read_clock rt0;
                    asserts = run_assertions (ru_host opts) response
                      (filter (\<lambda>a. as_enabled a \<noteq> Some False) (request_assertions (sr_request saved)));
                    r1 = r0\<lparr>rr_durationMs := t1 - t0, rr_response := Some response, rr_assertions := Some asserts\<rparr>;
                    st1 = st\<lparr>rn_runtime := rt1, rn_world := w\<rparr> in
                case extract_variables (ru_host opts) response (request_rules (sr_request saved)) of
                  Inl e \<Rightarrow> (errored (error_to_string e) r1, st1)
                | Inr extracted \<Rightarrow>
                    (r1\<lparr>rr_status := (if truthy (rs_error response) \<or> list_ex (\<lambda>a. \<not> ar_passed a) asserts
                                     then RS_failed else RS_passed)\<rparr>,
                     st1\<lparr>rn_variables := obj_spread (rn_variables st) extracted\<rparr>))))"

definition run_bad :: "request_run_result \<Rightarrow> bool" where
  "run_bad r \<longleftrightarrow> rr_status r = RS_failed \<or> rr_status r = RS_error"

text \<open>\<open>cancelled_at c i\<close>: the read number \<open>i\<close> of the flag sees it set.\<close>

definition cancelled_at :: "nat option \<Rightarrow> nat \<Rightarrow> bool" where
  "cancelled_at c i \<longleftrightarrow> (case c of None \<Rightarrow> False | Some n \<Rightarrow> n \<le> i)"

fun run_requests ::
  "'w runner_options \<Rightarrow> nat option \<Rightarrow> nat \<Rightarrow> saved_request list \<Rightarrow> 'w runner_state \<Rightarrow> 'w runner_state" where
  "run_requests opts c i [] st = st"
| "run_requests opts c i (saved # rest) st =
     (if cancelled_at c i then st
      else
        (let (r, st1) = run_saved opts saved (st\<lparr>rn_events := rn_events st @ [Request_start (sr_id saved) i]\<rparr>);
             st2 = st1\<lparr>rn_results := rn_results st1 @ [r], rn_events := rn_events st1 @ [Request_complete r i]\<rparr> in
         if ru_stopOnFailure opts = Some True \<and> run_bad r then st2
         else run_requests opts c (Suc i) rest st2))"

definition run_collection ::
  "'w runner_options \<Rightarrow> nat option \<Rightarrow> saved_request list \<Rightarrow> run_meta \<Rightarrow> runtime \<Rightarrow> 'w
     \<Rightarrow> collection_run_result \<times> 'w runner_state" where
  "run_collection opts c requests m rt w =
     (let (started, rt0) = read_clock rt;
          st = run_requests opts c 0 requests
            \<lparr>rn_results = [], rn_variables = [], rn_events = [], rn_runtime = rt0, rn_world = w\<rparr>;
          (completed, rt1) = read_clock (rn_runtime st);
          results = rn_results st;
          failed = length (filter run_bad results) in
      (\<lparr>me_id = me_id m, me_name = me_name m, me_collectionId = me_collectionId m, me_folderId = me_folderId m,
        cn_startedAt = started, cn_completedAt = completed,
        cn_status = (if cancelled_at c (length results) then CR_cancelled
                     else if 0 < failed then CR_failed else CR_passed),
        cn_results = results,
        cn_passedCount = length (filter (\<lambda>r. rr_status r = RS_passed) results),
        cn_failedCount = failed\<rparr>,
       st\<lparr>rn_runtime := rt1\<rparr>))"

section \<open>CSV export\<close>

definition csv_special :: "string \<Rightarrow> bool" where
  "csv_special v \<longleftrightarrow> CHR '','' \<in> set v \<or> dquote \<in> set v \<or> newline \<in> set v"

definition csv_escape :: "string \<Rightarrow> string" where
  "csv_escape v =
     (if csv_special v
      then dquote # concat (map (\<lambda>c. if c = dquote then [dquote, dquote] else [c]) v) @ [dquote]
      else v)"

definition run_status_name :: "run_status \<Rightarrow> string" where
  "run_status_name s =
     (case s of RS_passed \<Rightarrow> ''passed'' | RS_failed \<Rightarrow> ''failed'' | RS_error \<Rightarrow> ''error'' | RS_skipped \<Rightarrow> ''skipped'')"

definition csv_cells :: "request_run_result \<Rightarrow> string list" where
  "csv_cells r =
     [csv_escape (rr_name r), rr_method r, csv_escape (rr_url r), run_status_name (rr_status r),
      int_to_string (rr_durationMs r),
      nat_to_string (length (filter ar_passed (opt_rows (rr_assertions r)))),
      nat_to_string (length (filter (\<lambda>a. \<not> ar_passed a) (opt_rows (rr_assertions r)))),
      csv_escape (opt_str (rr_error r))]"

definition csv_header :: string where
  "csv_header = ''Name,Method,URL,Status,Duration(ms),Assertions Passed,Assertions Failed,Error''"

definition export_run_result_csv :: "request_run_result list \<Rightarrow> string" where
  "export_run_result_csv results =
     join [newline] (csv_header # map (\<lambda>r. join '','' (csv_cells r)) results)"

section \<open>Batch statistics\<close>

record batch_stats =
  bs_total :: nat
  bs_passed :: nat
  bs_failed :: nat
  bs_statusCounts :: "(int \<times> nat) list"
  bs_minMs :: int
  bs_maxMs :: int
  bs_meanMs :: int
  bs_p50Ms :: int
  bs_p95Ms :: int
  bs_p99Ms :: int
  bs_errors :: "string list"

text \<open>
  \<open>percentile(sorted, p)\<close> for \<open>p = num / den\<close>. The doubles nearest to 0.95 and 0.99 are so
  close to them that the rounded product has the floor of the exact one for every array length.
\<close>

definition percentile :: "int list \<Rightarrow> nat \<Rightarrow> nat \<Rightarrow> int" where
  "percentile xs num den = xs ! min (length xs * num div den) (length xs - 1)"

text \<open>\<open>Math.round(sum / total)\<close> rounds halves up.\<close>

definition round_div :: "int \<Rightarrow> int \<Rightarrow> int" where
  "round_div s n = (2 * s + n) div (2 * n)"

definition compute_batch_stats ::
  "int list \<Rightarrow> nat \<Rightarrow> nat \<Rightarrow> (int \<times> nat) list \<Rightarrow> string list \<Rightarrow> batch_stats" where
  "compute_batch_stats durations passed failed counts errors =
     (let total = length durations in
      if total = 0
      then \<lparr>bs_total = 0, bs_passed = passed, bs_failed = failed, bs_statusCounts = counts, bs_minMs = 0,
            bs_maxMs = 0, bs_meanMs = 0, bs_p50Ms = 0, bs_p95Ms = 0, bs_p99Ms = 0, bs_errors = errors\<rparr>
      else
        (let s = sort durations in
         \<lparr>bs_total = total, bs_passed = passed, bs_failed = failed, bs_statusCounts = counts,
          bs_minMs = s ! 0, bs_maxMs = s ! (length s - 1), bs_meanMs = round_div (sum_list s) (int total),
          bs_p50Ms = percentile s 1 2, bs_p95Ms = percentile s 19 20, bs_p99Ms = percentile s 99 100,
          bs_errors = take 20 errors\<rparr>))"

section \<open>Batch runs\<close>

record batch_config =
  bc_iterations :: int
  bc_concurrency :: int
  bc_delayMs :: int
  bc_stopOnFailure :: bool

text \<open>
  A run that has settled: its duration and what \<open>execute\<close> gave. All runs of a round are started
  before any of them settles; \<open>bw_settled k n\<close> lists the runs of round \<open>k\<close>, of which \<open>n\<close> are started, as
  they settle, and \<open>bw_cancelled k\<close> is the flag at the start of that round.
\<close>

record settled_run =
  sd_durationMs :: int
  sd_outcome :: "string + execute_response"

record batch_world =
  bw_cancelled :: "nat \<Rightarrow> bool"
  bw_settled :: "nat \<Rightarrow> nat \<Rightarrow> settled_run list"

record batch_state =
  bt_durations :: "int list"
  bt_statusCounts :: "(int \<times> nat) list"
  bt_errors :: "string list"
  bt_passed :: nat
  bt_failed :: nat
  bt_done :: int
  bt_progress :: "(int \<times> int) list"
  bt_sleeps :: nat

definition batch_start :: batch_state where
  "batch_start = \<lparr>bt_durations = [], bt_statusCounts = [], bt_errors = [], bt_passed = 0, bt_failed = 0,
     bt_done = 0, bt_progress = [], bt_sleeps = 0\<rparr>"

definition record_run :: "settled_run \<Rightarrow> batch_state \<Rightarrow> batch_state" where
  "record_run s st =
     (let st1 = st\<lparr>bt_durations := bt_durations st @ [sd_durationMs s]\<rparr> in
      case sd_outcome s of
        Inl m \<Rightarrow> st1\<lparr>bt_failed := bt_failed st + 1, bt_errors := bt_errors st @ [m]\<rparr>
      | Inr res \<Rightarrow>
          (let seen = (case map_of (bt_statusCounts st) (rs_status res) of Some n \<Rightarrow> n | None \<Rightarrow> 0);
               st2 = st1\<lparr>bt_statusCounts := AList.update (rs_status res) (seen + 1) (bt_statusCounts st)\<rparr> in
           if truthy (rs_error res) \<or> 500 \<le> rs_status res
           then st2\<lparr>bt_failed := bt_failed st + 1,
                    bt_errors := bt_errors st @ (if truthy (rs_error res) then [opt_str (rs_error res)] else [])\<rparr>
           else st2\<lparr>bt_passed := bt_passed st + 1\<rparr>))"

text \<open>The loop need not end, so its result is an option: a loop that never ends has none.\<close>

partial_function (option) batch_loop ::
  "batch_config \<Rightarrow> batch_world \<Rightarrow> nat \<Rightarrow> int \<Rightarrow> batch_state \<Rightarrow> batch_state option" where
  "batch_loop cfg bw k i st =
     (if \<not> i < bc_iterations cfg then Some st
      else if bw_cancelled bw k then Some st
      else
        (let batch = min (bc_concurrency cfg) (bc_iterations cfg - i);
             st1 = fold record_run (bw_settled bw k (nat batch)) st;
             st2 = st1\<lparr>bt_done := bt_done st1 + batch,
                       bt_progress := bt_progress st1 @ [(bt_done st1 + batch, bc_iterations cfg)]\<rparr> in
         if bc_stopOnFailure cfg \<and> 0 < bt_failed st2 then Some st2
         else batch_loop cfg bw (Suc k) (i + bc_concurrency cfg)
           (if 0 < bc_delayMs cfg \<and> i + batch < bc_iterations cfg
            then st2\<lparr>bt_sleeps := Suc (bt_sleeps st2)\<rparr> else st2)))"

definition run_batch :: "batch_config \<Rightarrow> batch_world \<Rightarrow> batch_stats option" where
  "run_batch cfg bw =
     map_option (\<lambda>st. compute_batch_stats (bt_durations st) (bt_passed st) (bt_failed st)
                        (bt_statusCounts st) (bt_errors st))
       (batch_loop cfg bw 0 0 batch_start)"

end
