(* ===== verification/Runner_Facts.thy ===== *)
theory Runner_Facts
  imports Runner Json_Round_Trip
begin

text \<open>
  Correctness of the runners: collection runs follow the list of requests, a CSV export reads back
  cell by cell, batch runs end exactly when their rounds are not empty, and the statistics are ordered.
\<close>

section \<open>Collection runs\<close>

lemma run_saved_fields:
  assumes "run_saved opts saved st = (r, st')"
  shows "rr_requestId r = sr_id saved" and "rr_status r \<noteq> RS_skipped"
    and "rn_results st' = rn_results st" and "rn_events st' = rn_events st"
  using assms
  by (auto simp: run_saved_def skipped_result_def errored_def Let_def split: sum.splits prod.splits if_split_asm)

definition stops_run :: "'w runner_options \<Rightarrow> request_run_result \<Rightarrow> bool" where
  "stops_run opts r \<longleftrightarrow> ru_stopOnFailure opts = Some True \<and> run_bad r"

text \<open>What a run adds to the results it starts with.\<close>

lemma run_requests_results:
  assumes "run_requests opts c i requests st = st'"
  shows "\<exists>rs. rn_results st' = rn_results st @ rs
    \<and> map rr_requestId rs = take (length rs) (map sr_id requests)
    \<and> (\<forall>r \<in> set rs. rr_status r \<noteq> RS_skipped)
    \<and> (\<forall>r \<in> set (butlast rs). \<not> stops_run opts r)
    \<and> (length rs < length requests \<longrightarrow> cancelled_at c (i + length rs) \<or> (rs \<noteq> [] \<and> stops_run opts (last rs)))"
  using assms
proof (induction opts c i requests st arbitrary: st' rule: run_requests.induct)
  case (1 opts c i st)
  then show ?case by simp
next
  case (2 opts c i saved rest st)
  show ?case
  proof (cases "cancelled_at c i")
    case True
    with 2(2) show ?thesis by (intro exI [of _ "[]"]) auto
  next
    case False
    obtain r st1 where r: "run_saved opts saved (st\<lparr>rn_events := rn_events st @ [Request_start (sr_id saved) i]\<rparr>) = (r, st1)"
      by fastforce
    let ?st2 = "st1\<lparr>rn_results := rn_results st1 @ [r], rn_events := rn_events st1 @ [Request_complete r i]\<rparr>"
    have f: "rr_requestId r = sr_id saved" "rr_status r \<noteq> RS_skipped" "rn_results ?st2 = rn_results st @ [r]"
      using run_saved_fields [OF r] by simp_all
    show ?thesis
    proof (cases "stops_run opts r")
      case True
      with False r 2(2) f show ?thesis
        by (intro exI [of _ "[r]"]) (auto simp: stops_run_def)
    next
      case go: False
      with False r 2(2) have "run_requests opts c (Suc i) rest ?st2 = st'"
        by (auto simp: stops_run_def)
      from 2(1) [OF False refl r [symmetric] refl _ this] go f obtain rs where
        rs: "rn_results st' = rn_results st @ r # rs" "map rr_requestId rs = take (length rs) (map sr_id rest)"
          "\<forall>x \<in> set rs. rr_status x \<noteq> RS_skipped" "\<forall>x \<in> set (butlast rs). \<not> stops_run opts x"
          "length rs < length rest \<longrightarrow> cancelled_at c (Suc i + length rs) \<or> (rs \<noteq> [] \<and> stops_run opts (last rs))"
        by (auto simp: stops_run_def)
      with f go show ?thesis by (intro exI [of _ "r # rs"]) (auto split: if_splits)
    qed
  qed
qed


definition sample_opts :: "nat runner_options" where
  "sample_opts = \<lparr>ru_host = sample_host, ru_execute = (\<lambda>q n. (Inl ''Error: refused'', Suc n)),
     ru_scopes = None, ru_stopOnFailure = Some True\<rparr>"

definition saved_grpc :: "string \<Rightarrow> saved_request" where
  "saved_grpc i = \<lparr>sr_id = i, sr_collectionId = ''c'', sr_folderId = None, sr_name = i, sr_protocol = P_grpc,
     sr_request = GrpcRequest (plain_grpc ''h:1''), sr_requestMode = None, sr_sortOrder = 0,
     sr_createdAt = 0, sr_updatedAt = 0\<rparr>"

definition sample_meta :: run_meta where
  "sample_meta = \<lparr>me_id = ''r'', me_name = ''run'', me_collectionId = None, me_folderId = None\<rparr>"


section \<open>CSV\<close>

text \<open>A reader of comma-separated values with quoted cells.\<close>

fun csv_read :: "bool \<Rightarrow> string \<Rightarrow> string list \<Rightarrow> string \<Rightarrow> string list list" where
  "csv_read quoted f r [] = [r @ [f]]"
| "csv_read False f r (c # cs) =
     (if c = CHR '','' then csv_read False [] (r @ [f]) cs
      else if c = newline then (r @ [f]) # csv_read False [] [] cs
      else if c = dquote \<and> f = [] then csv_read True [] r cs
      else csv_read False (f @ [c]) r cs)"
| "csv_read True f r [c] =
     (if c = dquote then [r @ [f]] else [r @ [f @ [c]]])"
| "csv_read True f r (c # d # cs) =
     (if c = dquote
      then (if d = dquote then csv_read True (f @ [dquote]) r cs else csv_read False f r (d # cs))
      else csv_read True (f @ [c]) r (d # cs))"

definition csv_stop :: "string \<Rightarrow> bool" where
  "csv_stop rest \<longleftrightarrow> rest = [] \<or> hd rest = CHR '','' \<or> hd rest = newline"

lemma csv_stop_quote: "csv_stop rest \<Longrightarrow> csv_read True f r (dquote # rest) = csv_read False f r rest"
  by (cases rest) (auto simp: csv_stop_def)

lemma csv_read_plain:
  assumes "\<not> csv_special v"
  shows "csv_read False f r (v @ rest) = csv_read False (f @ v) r rest"
  using assms
proof (induction v arbitrary: f)
  case Nil
  then show ?case by simp
next
  case (Cons c v)
  then show ?case by (auto simp: csv_special_def)
qed

lemma csv_read_quoted:
  assumes "csv_stop rest"
  shows "csv_read True f r (concat (map (\<lambda>c. if c = dquote then [dquote, dquote] else [c]) v) @ dquote # rest)
       = csv_read False (f @ v) r rest"
proof (induction v arbitrary: f)
  case Nil
  with assms show ?case by (simp add: csv_stop_quote)
next
  case (Cons c v)
  let ?t = "concat (map (\<lambda>c. if c = dquote then [dquote, dquote] else [c]) v) @ dquote # rest"
  show ?case
  proof (cases "c = dquote")
    case True
    with Cons show ?thesis by simp
  next
    case False
    obtain d cs where "?t = d # cs" by (cases ?t) auto
    with False Cons [of "f @ [c]"] show ?thesis by simp
  qed
qed

lemma csv_read_cell:
  assumes "csv_stop rest"
  shows "csv_read False [] r (csv_escape v @ rest) = csv_read False v r rest"
  using assms csv_read_plain [of v "[]" r rest] csv_read_quoted [of rest "[]" r v]
  by (simp add: csv_escape_def)

lemma csv_read_row:
  assumes "vs \<noteq> []" and "rest = [] \<or> hd rest = newline"
  shows "csv_read False [] r (join '','' (map csv_escape vs) @ rest) =
     (case rest of [] \<Rightarrow> [r @ vs] | c # cs \<Rightarrow> (r @ vs) # csv_read False [] [] cs)"
  using assms
proof (induction vs arbitrary: r)
  case Nil
  then show ?case by simp
next
  case (Cons v vs)
  show ?case
  proof (cases vs)
    case Nil
    with Cons.prems csv_read_cell [of rest r v] show ?thesis
      by (cases rest) (auto simp: csv_stop_def)
  next
    case (Cons v' vs')
    have "csv_read False [] r (csv_escape v @ CHR '','' # join '','' (map csv_escape vs) @ rest)
        = csv_read False v r (CHR '','' # join '','' (map csv_escape vs) @ rest)"
      by (rule csv_read_cell) (simp add: csv_stop_def)
    also have "\<dots> = csv_read False [] (r @ [v]) (join '','' (map csv_escape vs) @ rest)" by simp
    finally show ?thesis
      using Cons.IH [of "r @ [v]"] Cons.prems Cons by (simp add: join_Cons split: list.splits)
  qed
qed

lemma csv_read_rows:
  assumes "\<forall>row \<in> set rows. row \<noteq> []" and "rows \<noteq> []"
  shows "csv_read False [] [] (join [newline] (map (\<lambda>row. join '','' (map csv_escape row)) rows)) = rows"
  using assms
proof (induction rows)
  case Nil
  then show ?case by simp
next
  case (Cons row rows)
  show ?case
  proof (cases rows)
    case Nil
    with Cons.prems csv_read_row [of row "[]" "[]"] show ?thesis by simp
  next
    case (Cons row' rows')
    let ?rest = "join [newline] (map (\<lambda>row. join '','' (map csv_escape row)) rows)"
    have "csv_read False [] [] (join '','' (map csv_escape row) @ newline # ?rest) = row # csv_read False [] [] ?rest"
      using Cons.prems csv_read_row [of row "newline # ?rest" "[]"] by simp
    with Cons.IH Cons.prems Cons show ?thesis by (simp add: join_Cons)
  qed
qed

text \<open>The cells of a result before escaping.\<close>

definition csv_values :: "request_run_result \<Rightarrow> string list" where
  "csv_values r =
     [rr_name r, rr_method r, rr_url r, run_status_name (rr_status r), int_to_string (rr_durationMs r),
      nat_to_string (length (filter ar_passed (opt_rows (rr_assertions r)))),
      nat_to_string (length (filter (\<lambda>a. \<not> ar_passed a) (opt_rows (rr_assertions r)))),
      opt_str (rr_error r)]"

lemma csv_escape_plain: "\<not> csv_special v \<Longrightarrow> csv_escape v = v"
  by (simp add: csv_escape_def)

lemma digit_not_special: "is_digit c \<Longrightarrow> c \<noteq> CHR '','' \<and> c \<noteq> dquote \<and> c \<noteq> newline"
  by (auto simp: is_digit_def code_unit_def)

lemma nat_not_special: "\<not> csv_special (nat_to_string n)"
  using nat_to_string_digits [of _ n] digit_not_special by (fastforce simp: csv_special_def)

lemma int_not_special: "\<not> csv_special (int_to_string i)"
  using nat_not_special [of "nat \<bar>i\<bar>"] nat_not_special [of "nat (- i)"] nat_not_special [of "nat i"]
  by (auto simp: csv_special_def int_to_string_def)

lemma status_not_special: "\<not> csv_special (run_status_name s)"
  by (cases s) (simp_all add: csv_special_def run_status_name_def)

lemma csv_cells_values:
  assumes "\<not> csv_special (rr_method r)"
  shows "csv_cells r = map csv_escape (csv_values r)"
  using assms
  by (simp add: csv_cells_def csv_values_def csv_escape_plain nat_not_special int_not_special
      status_not_special)

lemma csv_header_cells:
  "csv_header = join '','' (map csv_escape
     [''Name'', ''Method'', ''URL'', ''Status'', ''Duration(ms)'', ''Assertions Passed'', ''Assertions Failed'', ''Error''])"
  by (simp add: csv_header_def csv_escape_def csv_special_def)

text \<open>
  C32: The CSV export of a run is read back cell by cell by a reader of quoted comma-separated
  values: names, URLs and error texts survive whatever commas, quotes and line breaks they hold.
  Only the method is written unescaped, so it must hold none.
\<close>

theorem csv_export_reads_back:
  assumes "\<forall>r \<in> set results. \<not> csv_special (rr_method r)"
  shows "csv_read False [] [] (export_run_result_csv results) =
    [''Name'', ''Method'', ''URL'', ''Status'', ''Duration(ms)'', ''Assertions Passed'', ''Assertions Failed'', ''Error'']
    # map csv_values results"
proof -
  let ?h = "[''Name'', ''Method'', ''URL'', ''Status'', ''Duration(ms)'', ''Assertions Passed'', ''Assertions Failed'', ''Error'']"
  have m: "map (\<lambda>r. join '','' (csv_cells r)) results =
      map (\<lambda>row. join '','' (map csv_escape row)) (map csv_values results)"
    using assms by (simp add: csv_cells_values)
  have e: "export_run_result_csv results =
      join [newline] (map (\<lambda>row. join '','' (map csv_escape row)) (?h # map csv_values results))"
    unfolding export_run_result_csv_def m csv_header_cells by simp
  show ?thesis unfolding e by (rule csv_read_rows) (auto simp: csv_values_def)
qed

definition sample_run_result :: request_run_result where
  "sample_run_result = \<lparr>rr_requestId = ''1'', rr_name = ''a,b'', rr_method = ''GET'', rr_url = ''https://h/x'',
     rr_status = RS_error, rr_response = None, rr_assertions = None, rr_durationMs = 3,
     rr_error = Some (dquote # ''no'' @ [dquote])\<rparr>"

theorem csv_export_reads_back_witness:
  "csv_read False [] [] (export_run_result_csv [sample_run_result]) ! 1 ! 0 = ''a,b''"
  using csv_export_reads_back [of "[sample_run_result]"]
  by (simp add: sample_run_result_def csv_special_def csv_values_def)


section \<open>Batch runs\<close>

definition batch_consistent :: "batch_state \<Rightarrow> bool" where
  "batch_consistent st \<longleftrightarrow>
     bt_passed st + bt_failed st = length (bt_durations st) \<and> length (bt_errors st) \<le> bt_failed st"

lemma record_run_consistent: "batch_consistent st \<Longrightarrow> batch_consistent (record_run r st)"
  by (auto simp: record_run_def batch_consistent_def Let_def split: sum.split)

lemma record_run_durations: "length (bt_durations (record_run r st)) = Suc (length (bt_durations st))"
  by (auto simp: record_run_def Let_def split: sum.split)

lemma fold_record_consistent: "batch_consistent st \<Longrightarrow> batch_consistent (fold record_run rs st)"
  by (induction rs arbitrary: st) (auto simp: record_run_consistent)

lemma fold_record_durations:
  "length (bt_durations (fold record_run rs st)) = length (bt_durations st) + length rs"
  by (induction rs arbitrary: st) (auto simp: record_run_durations)

definition runs_settle :: "batch_world \<Rightarrow> bool" where
  "runs_settle bw \<longleftrightarrow> (\<forall>k n. length (bw_settled bw k n) = n)"

text \<open>One round of a run that goes on.\<close>

definition batch_round :: "batch_config \<Rightarrow> batch_world \<Rightarrow> nat \<Rightarrow> int \<Rightarrow> batch_state \<Rightarrow> batch_state" where
  "batch_round cfg bw k i st =
     (let batch = min (bc_concurrency cfg) (bc_iterations cfg - i);
          st1 = fold record_run (bw_settled bw k (nat batch)) st;
          st2 = st1\<lparr>bt_done := bt_done st1 + batch,
                    bt_progress := bt_progress st1 @ [(bt_done st1 + batch, bc_iterations cfg)]\<rparr> in
      if \<not> (bc_stopOnFailure cfg \<and> 0 < bt_failed st2) \<and> 0 < bc_delayMs cfg \<and> i + batch < bc_iterations cfg
      then st2\<lparr>bt_sleeps := Suc (bt_sleeps st2)\<rparr> else st2)"

lemma batch_loop_step:
  "batch_loop cfg bw k i st =
     (if \<not> i < bc_iterations cfg \<or> bw_cancelled bw k then Some st
      else if bc_stopOnFailure cfg \<and> 0 < bt_failed (batch_round cfg bw k i st) then Some (batch_round cfg bw k i st)
      else batch_loop cfg bw (Suc k) (i + bc_concurrency cfg) (batch_round cfg bw k i st))"
  by (subst batch_loop.simps) (auto simp: batch_round_def Let_def)

lemma batch_round_consistent: "batch_consistent st \<Longrightarrow> batch_consistent (batch_round cfg bw k i st)"
  using fold_record_consistent [of st]
  by (auto simp: batch_round_def Let_def batch_consistent_def)

lemma batch_round_durations:
  assumes "runs_settle bw"
  shows "length (bt_durations (batch_round cfg bw k i st)) =
    length (bt_durations st) + nat (min (bc_concurrency cfg) (bc_iterations cfg - i))"
  using assms by (simp add: batch_round_def Let_def fold_record_durations runs_settle_def)

lemma batch_loop_ends:
  assumes "1 \<le> bc_concurrency cfg" and "batch_consistent st"
  shows "\<exists>st'. batch_loop cfg bw k i st = Some st' \<and> batch_consistent st'
    \<and> (runs_settle bw \<longrightarrow> (\<forall>j. \<not> bw_cancelled bw j) \<longrightarrow> \<not> bc_stopOnFailure cfg \<longrightarrow>
        length (bt_durations st') = length (bt_durations st) + nat (bc_iterations cfg - i))"
  using assms(2)
proof (induction "nat (bc_iterations cfg - i)" arbitrary: k i st rule: less_induct)
  case less
  show ?case
  proof (cases "i < bc_iterations cfg")
    case False
    with less.prems show ?thesis by (simp add: batch_loop_step)
  next
    case True
    let ?r = "batch_round cfg bw k i st"
    have cons: "batch_consistent ?r" using less.prems by (rule batch_round_consistent)
    have "nat (bc_iterations cfg - (i + bc_concurrency cfg)) < nat (bc_iterations cfg - i)"
      using True assms(1) by simp
    from less.hyps [OF this cons, of "Suc k"] obtain st' where
      st': "batch_loop cfg bw (Suc k) (i + bc_concurrency cfg) ?r = Some st'" "batch_consistent st'"
        "runs_settle bw \<longrightarrow> (\<forall>j. \<not> bw_cancelled bw j) \<longrightarrow> \<not> bc_stopOnFailure cfg \<longrightarrow>
           length (bt_durations st') = length (bt_durations ?r) + nat (bc_iterations cfg - (i + bc_concurrency cfg))"
      by blast
    show ?thesis
    proof (cases "bw_cancelled bw k \<or> bc_stopOnFailure cfg \<and> 0 < bt_failed ?r")
      case True
      with \<open>i < _\<close> less.prems cons show ?thesis
        by (cases "bw_cancelled bw k") (auto simp: batch_loop_step [of cfg bw k i st])
    next
      case False
      with True have "batch_loop cfg bw k i st = Some st'" using st'(1) by (auto simp: batch_loop_step [of cfg bw k i st])
      moreover have "length (bt_durations st') = length (bt_durations st) + nat (bc_iterations cfg - i)"
        if "runs_settle bw" "\<forall>j. \<not> bw_cancelled bw j" "\<not> bc_stopOnFailure cfg"
        using that st'(3) batch_round_durations [OF that(1), of cfg k i st] True assms(1) by (auto simp: min_def)
      ultimately show ?thesis using st'(2) by blast
    qed
  qed
qed

text \<open>Rounds that start no run go on for ever.\<close>

definition empty_rounds :: "batch_config \<Rightarrow> batch_world \<Rightarrow> bool" where
  "empty_rounds cfg bw \<longleftrightarrow>
     bc_concurrency cfg \<le> 0 \<and> (\<forall>k. bw_settled bw k 0 = []) \<and> (\<forall>k. \<not> bw_cancelled bw k)"

lemma batch_loop_diverges:
  assumes "batch_loop cfg bw k i st = Some st'"
  shows "empty_rounds cfg bw \<and> bt_failed st = 0 \<longrightarrow> bc_iterations cfg \<le> i"
proof (rule batch_loop.raw_induct [of "\<lambda>cfg bw k i st st'.
    empty_rounds cfg bw \<and> bt_failed st = 0 \<longrightarrow> bc_iterations cfg \<le> i", OF _ assms], intro impI)
  fix loop :: "batch_config \<Rightarrow> batch_world \<Rightarrow> nat \<Rightarrow> int \<Rightarrow> batch_state \<Rightarrow> batch_state option"
  fix cfg bw k i st y
  assume ih: "\<And>cfg bw k i st y. loop cfg bw k i st = Some y \<Longrightarrow>
      empty_rounds cfg bw \<and> bt_failed st = 0 \<longrightarrow> bc_iterations cfg \<le> i"
    and c: "empty_rounds cfg bw \<and> bt_failed st = 0"
    and body: "(if \<not> i < bc_iterations cfg then Some st
      else if bw_cancelled bw k then Some st
      else
        (let batch = min (bc_concurrency cfg) (bc_iterations cfg - i);
             st1 = fold record_run (bw_settled bw k (nat batch)) st;
             st2 = st1\<lparr>bt_done := bt_done st1 + batch,
                       bt_progress := bt_progress st1 @ [(bt_done st1 + batch, bc_iterations cfg)]\<rparr> in
         if bc_stopOnFailure cfg \<and> 0 < bt_failed st2 then Some st2
         else loop cfg bw (Suc k) (i + bc_concurrency cfg)
           (if 0 < bc_delayMs cfg \<and> i + batch < bc_iterations cfg
            then st2\<lparr>bt_sleeps := Suc (bt_sleeps st2)\<rparr> else st2))) = Some y"
  show "bc_iterations cfg \<le> i"
  proof (rule ccontr)
    assume i: "\<not> bc_iterations cfg \<le> i"
    then have m: "nat (min (bc_concurrency cfg) (bc_iterations cfg - i)) = 0"
      using c by (simp add: empty_rounds_def min_def)
    with body c i obtain st2 where
      "loop cfg bw (Suc k) (i + bc_concurrency cfg) st2 = Some y" "bt_failed st2 = 0"
      by (force simp: Let_def m empty_rounds_def split: if_splits)
    with ih [OF this(1)] c have "bc_iterations cfg \<le> i + bc_concurrency cfg" by blast
    with c i show False unfolding empty_rounds_def by linarith
  qed
qed

text \<open>
  C33: A batch run whose rounds settle and that nobody cancels ends exactly when it has nothing to do
  or its concurrency is at least one: with a concurrency of zero or less its rounds start no run and
  follow each other for ever.
\<close>

theorem batch_ends_iff:
  assumes "runs_settle bw" and "\<forall>k. \<not> bw_cancelled bw k"
  shows "(\<exists>s. run_batch cfg bw = Some s) \<longleftrightarrow> 1 \<le> bc_concurrency cfg \<or> bc_iterations cfg \<le> 0"
proof
  assume "\<exists>s. run_batch cfg bw = Some s"
  then obtain st where "batch_loop cfg bw 0 0 batch_start = Some st" by (auto simp: run_batch_def)
  moreover have "bw_settled bw k 0 = []" for k
    using assms(1) unfolding runs_settle_def by (metis length_0_conv)
  ultimately show "1 \<le> bc_concurrency cfg \<or> bc_iterations cfg \<le> 0"
    using batch_loop_diverges [of cfg bw 0 0 batch_start st] assms(2)
    by (auto simp: batch_start_def empty_rounds_def)
next
  assume "1 \<le> bc_concurrency cfg \<or> bc_iterations cfg \<le> 0"
  then show "\<exists>s. run_batch cfg bw = Some s"
  proof
    assume "1 \<le> bc_concurrency cfg"
    from batch_loop_ends [OF this, of batch_start bw 0 0] show ?thesis
      by (auto simp: run_batch_def batch_consistent_def batch_start_def)
  next
    assume "bc_iterations cfg \<le> 0"
    then show ?thesis by (simp add: run_batch_def batch_loop_step)
  qed
qed

definition sample_batch_world :: batch_world where
  "sample_batch_world = \<lparr>bw_cancelled = (\<lambda>k. False),
     bw_settled = (\<lambda>k n. replicate n \<lparr>sd_durationMs = 5, sd_outcome = Inl ''Error: refused''\<rparr>)\<rparr>"

theorem batch_ends_iff_witness:
  "run_batch \<lparr>bc_iterations = 3, bc_concurrency = 0, bc_delayMs = 0, bc_stopOnFailure = False\<rparr> sample_batch_world = None"
  using batch_ends_iff [of sample_batch_world "\<lparr>bc_iterations = 3, bc_concurrency = 0, bc_delayMs = 0, bc_stopOnFailure = False\<rparr>"]
  by (simp add: sample_batch_world_def runs_settle_def)

section \<open>Statistics\<close>

lemma nth_sort_mono: "i \<le> j \<Longrightarrow> j < length xs \<Longrightarrow> sort xs ! i \<le> (sort xs :: int list) ! j"
  by (rule sorted_nth_mono) auto

lemma sum_list_bounds:
  fixes xs :: "int list"
  assumes "\<And>x. x \<in> set xs \<Longrightarrow> lo \<le> x \<and> x \<le> hi"
  shows "int (length xs) * lo \<le> sum_list xs \<and> sum_list xs \<le> int (length xs) * hi"
  using assms by (induction xs) (auto simp: algebra_simps, force+)

lemma round_div_bounds:
  assumes "0 < n" and "n * lo \<le> s" and "s \<le> n * hi"
  shows "lo \<le> round_div s n \<and> round_div s n \<le> hi"
proof -
  have "lo * (2 * n) \<le> 2 * s + n" using assms by (simp add: algebra_simps)
  from zdiv_mono1 [OF this, of "2 * n"] have "lo \<le> round_div s n"
    using assms(1) by (simp add: round_div_def)
  moreover have "2 * s + n \<le> n + hi * (2 * n)" using assms by (simp add: algebra_simps)
  from zdiv_mono1 [OF this, of "2 * n"] have "round_div s n \<le> (n + hi * (2 * n)) div (2 * n)"
    using assms(1) by (simp add: round_div_def)
  moreover have "(n + hi * (2 * n)) div (2 * n) = hi" using assms(1) by simp
  ultimately show ?thesis by simp
qed

text \<open>
  The statistics of a batch are ordered and complete: nothing is measured below the minimum
  or above the maximum, the three percentiles lie between them in order and the mean between them too; a run nobody stops counts
  every iteration, each either as passed or as failed, and reports at most twenty errors.
\<close>

theorem batch_statistics:
  assumes "1 \<le> bc_concurrency cfg" and "1 \<le> bc_iterations cfg" and "\<not> bc_stopOnFailure cfg"
    and "runs_settle bw" and "\<forall>k. \<not> bw_cancelled bw k"
  shows "\<exists>s. run_batch cfg bw = Some s \<and> int (bs_total s) = bc_iterations cfg
    \<and> bs_passed s + bs_failed s = bs_total s \<and> length (bs_errors s) \<le> min 20 (bs_failed s)
    \<and> bs_minMs s \<le> bs_p50Ms s \<and> bs_p50Ms s \<le> bs_p95Ms s \<and> bs_p95Ms s \<le> bs_p99Ms s
    \<and> bs_p99Ms s \<le> bs_maxMs s \<and> bs_minMs s \<le> bs_meanMs s \<and> bs_meanMs s \<le> bs_maxMs s"
proof -
  have start: "batch_consistent batch_start" "length (bt_durations batch_start) = 0"
    by (simp_all add: batch_consistent_def batch_start_def)
  from batch_loop_ends [OF assms(1) start(1), of bw 0 0] assms start(2) obtain st where
    st: "batch_loop cfg bw 0 0 batch_start = Some st" "batch_consistent st"
      "length (bt_durations st) = nat (bc_iterations cfg)" by auto
  let ?d = "bt_durations st" and ?n = "length (bt_durations st)"
  have n: "0 < ?n" using st(3) assms(2) by simp
  let ?s = "sort ?d"
  have p: "percentile ?s a b \<le> percentile ?s c d" if "?n * a div b \<le> ?n * c div d" for a b c d
    unfolding percentile_def using that n by (intro sorted_nth_mono) (auto simp: min_less_iff_disj min_le_iff_disj)
  have hi: "percentile ?s a b \<le> ?s ! (?n - 1)" for a b
    unfolding percentile_def using n by (intro sorted_nth_mono) (auto simp: min_less_iff_disj min_le_iff_disj)
  have lo: "?s ! 0 \<le> percentile ?s a b" for a b
    unfolding percentile_def using n by (intro sorted_nth_mono) (auto simp: min_less_iff_disj min_le_iff_disj)
  have range: "?s ! 0 \<le> x \<and> x \<le> ?s ! (?n - 1)" if "x \<in> set ?s" for x
  proof -
    from that obtain j where "j < length ?s" "x = ?s ! j" unfolding in_set_conv_nth by blast
    then show ?thesis by (auto intro!: sorted_nth_mono)
  qed
  have mean: "?s ! 0 \<le> round_div (sum_list ?s) (int ?n) \<and> round_div (sum_list ?s) (int ?n) \<le> ?s ! (?n - 1)"
  proof -
    have "int (length ?s) * (?s ! 0) \<le> sum_list ?s \<and> sum_list ?s \<le> int (length ?s) * (?s ! (?n - 1))"
      by (rule sum_list_bounds) (rule range)
    then show ?thesis using n by (intro round_div_bounds) simp_all
  qed
  have mid: "m * 1 div 2 \<le> m * 19 div 20" "m * 19 div 20 \<le> m * 99 div 100" for m :: nat
    using div_mult_mult1 [of "10 :: nat" m 2] div_mult_mult1 [of "5 :: nat" "m * 19" 20]
      div_le_mono [of "10 * m" "m * 19" 20] div_le_mono [of "5 * (m * 19)" "m * 99" 100] by simp_all
  have "run_batch cfg bw = Some (compute_batch_stats ?d (bt_passed st) (bt_failed st) (bt_statusCounts st) (bt_errors st))"
    by (simp add: run_batch_def st(1))
  moreover have "compute_batch_stats ?d (bt_passed st) (bt_failed st) (bt_statusCounts st) (bt_errors st) =
      \<lparr>bs_total = ?n, bs_passed = bt_passed st, bs_failed = bt_failed st, bs_statusCounts = bt_statusCounts st,
       bs_minMs = ?s ! 0, bs_maxMs = ?s ! (?n - 1), bs_meanMs = round_div (sum_list ?s) (int ?n),
       bs_p50Ms = percentile ?s 1 2, bs_p95Ms = percentile ?s 19 20, bs_p99Ms = percentile ?s 99 100,
       bs_errors = take 20 (bt_errors st)\<rparr>"
    using n by (simp add: compute_batch_stats_def Let_def)
  ultimately show ?thesis
    using st(2,3) assms(2) p [OF mid(1) [of ?n]] p [OF mid(2) [of ?n]] hi [of 99 100] lo [of 1 2] mean
    by (auto simp: batch_consistent_def)
qed

theorem batch_statistics_witness:
  "\<exists>s. run_batch \<lparr>bc_iterations = 3, bc_concurrency = 2, bc_delayMs = 0, bc_stopOnFailure = False\<rparr> sample_batch_world
      = Some s \<and> bs_total s = 3"
  using batch_statistics [of "\<lparr>bc_iterations = 3, bc_concurrency = 2, bc_delayMs = 0, bc_stopOnFailure = False\<rparr>" sample_batch_world]
  by (auto simp: sample_batch_world_def runs_settle_def)

end
