(* ===== verification/Mock_Match.thy ===== *)
theory Mock_Match
  imports Assertions
begin

text \<open>
  packages/server/src/services/mock-match.ts and packages/core/src/types/mock.ts: routes of the
  mock server, matching a request against them and rendering the body of the answer. A query
  string is the list of its decoded pairs.
\<close>

section \<open>Routes\<close>

record mock_condition =
  mc_source :: mock_source
  mc_expression :: string
  mc_matcher :: matcher
  mc_expected :: string

record mock_sequence_item =
  mi_status :: int
  mi_headers :: "key_value list"
  mi_body :: string
  mi_latencyMs :: "int option"

record mock_route =
  mr_id :: string
  mr_enabled :: "bool option"
  mr_method :: string
  mr_pathPattern :: string
  mr_status :: int
  mr_headers :: "key_value list"
  mr_body :: string
  mr_latencyMs :: "int option"
  mr_conditions :: "mock_condition list option"
  mr_sequences :: "mock_sequence_item list option"

record mock_log_entry =
  ml_id :: string
  ml_routeId :: "string option"
  ml_matched :: bool
  ml_method :: string
  ml_path :: string
  ml_status :: int
  ml_headers :: "key_value list"
  ml_body :: string
  ml_createdAt :: int

type_synonym query_pairs = "(string \<times> string) list"

section \<open>Paths\<close>

definition strip_slashes :: "string \<Rightarrow> string" where
  "strip_slashes p =
     rev (dropWhile (\<lambda>c. c = CHR ''/'') (rev (dropWhile (\<lambda>c. c = CHR ''/'') p)))"

record path_match =
  pm_matched :: bool
  pm_params :: "string obj"

fun match_parts :: "string list \<Rightarrow> string list \<Rightarrow> string obj \<Rightarrow> path_match" where
  "match_parts (expected # es) (actual # xs) params =
     (if starts_with '':'' expected
      then match_parts es xs (obj_assign (drop 1 expected) (safe_decode actual) params)
      else if to_lower expected \<noteq> to_lower actual then \<lparr>pm_matched = False, pm_params = []\<rparr>
      else match_parts es xs params)"
| "match_parts _ _ params = \<lparr>pm_matched = True, pm_params = params\<rparr>"

definition match_path :: "string \<Rightarrow> string \<Rightarrow> path_match" where
  "match_path pattern path =
     (let ps = split_on CHR ''/'' (strip_slashes pattern); xs = split_on CHR ''/'' (strip_slashes path) in
      if length ps \<noteq> length xs then \<lparr>pm_matched = False, pm_params = []\<rparr> else match_parts ps xs [])"

section \<open>Simple JSON paths\<close>

text \<open>\<open>replace(/\[(\d+)\]/g, ".$1")\<close> and \<open>replace(/\[['"]([^'"]+)['"]\]/g, ".$1")\<close>.\<close>

definition index_bracket :: "string \<Rightarrow> (string \<times> string) option" where
  "index_bracket s =
     (let ds = takeWhile is_digit s; r = dropWhile is_digit s in
      if ds \<noteq> [] \<and> starts_with '']'' r then Some (ds, tl r) else None)"

definition is_quote :: "char \<Rightarrow> bool" where
  "is_quote c \<longleftrightarrow> c = squote \<or> c = dquote"

definition quoted_bracket :: "string \<Rightarrow> (string \<times> string) option" where
  "quoted_bracket s =
     (case s of
        [] \<Rightarrow> None
      | q # t \<Rightarrow>
          (let name = takeWhile (\<lambda>c. \<not> is_quote c) t; r = dropWhile (\<lambda>c. \<not> is_quote c) t in
           if is_quote q \<and> name \<noteq> [] \<and> 2 \<le> length r \<and> r ! 1 = CHR '']'' then Some (name, drop 2 r) else None))"

lemma index_bracket_shorter: "index_bracket s = Some (n, r) \<Longrightarrow> length r < Suc (length s)"
  by (auto simp: index_bracket_def Let_def split: if_splits)
    (metis diff_le_self le_imp_less_Suc length_dropWhile_le order_trans)

lemma quoted_bracket_shorter: "quoted_bracket s = Some (n, r) \<Longrightarrow> length r < Suc (length s)"
proof -
  assume q: "quoted_bracket s = Some (n, r)"
  then obtain c t where s: "s = c # t" by (cases s) (auto simp: quoted_bracket_def)
  with q have "r = drop 2 (dropWhile (\<lambda>c. \<not> is_quote c) t)"
    by (auto simp: quoted_bracket_def Let_def split: if_splits)
  then have "length r \<le> length t" by (metis diff_le_self length_drop length_dropWhile_le order_trans)
  with s show ?thesis by simp
qed

function index_brackets :: "string \<Rightarrow> string" where
  "index_brackets [] = []"
| "index_brackets (c # s) =
     (case (if c = CHR ''['' then index_bracket s else None) of
        Some (n, r) \<Rightarrow> CHR ''.'' # n @ index_brackets r
      | None \<Rightarrow> c # index_brackets s)"
  by pat_completeness auto
termination
  by (relation "measure length") (auto dest: index_bracket_shorter split: if_splits)

function quoted_brackets :: "string \<Rightarrow> string" where
  "quoted_brackets [] = []"
| "quoted_brackets (c # s) =
     (case (if c = CHR ''['' then quoted_bracket s else None) of
        Some (n, r) \<Rightarrow> CHR ''.'' # n @ quoted_brackets r
      | None \<Rightarrow> c # quoted_brackets s)"
  by pat_completeness auto
termination
  by (relation "measure length") (auto dest: quoted_bracket_shorter split: if_splits)

definition strip_root :: "string \<Rightarrow> string" where
  "strip_root s =
     (if starts_with ''$.'' s then drop 2 s else if starts_with ''$'' s then drop 1 s else s)"

definition path_tokens :: "string \<Rightarrow> string list" where
  "path_tokens trimmed =
     filter (\<lambda>t. t \<noteq> []) (split_on CHR ''.'' (quoted_brackets (index_brackets (strip_root trimmed))))"

text \<open>
  A property an array or an object only inherits is a function; it is kept as the text it converts
  to, since nothing else of it is read.
\<close>

definition array_prototype_keys :: "string list" where
  "array_prototype_keys =
     [''at'', ''concat'', ''copyWithin'', ''fill'', ''find'', ''findIndex'', ''findLast'', ''findLastIndex'',
      ''lastIndexOf'', ''pop'', ''push'', ''reverse'', ''shift'', ''unshift'', ''slice'', ''sort'', ''splice'',
      ''includes'', ''indexOf'', ''join'', ''keys'', ''entries'', ''values'', ''forEach'', ''filter'', ''flat'',
      ''flatMap'', ''map'', ''every'', ''some'', ''reduce'', ''reduceRight'', ''toReversed'', ''toSorted'',
      ''toSpliced'', ''with'']"

definition read_token :: "unknown \<Rightarrow> string \<Rightarrow> unknown" where
  "read_token v token =
     (case v of
        Json (JArr xs) \<Rightarrow>
          (if list_all is_digit token
           then (if digits_value token < length xs then Json (xs ! digits_value token) else Undefined)
           else if token = ''length'' then Json (JNum (of_nat (length xs)))
           else if token = ''constructor'' then Json (JStr ''function Array() { [native code] }'')
           else if token \<in> set array_prototype_keys \<or> token \<in> set object_prototype_keys
           then Json (JStr (inherited_text token))
           else Undefined)
      | Json (JObj ms) \<Rightarrow>
          (case obj_read ms token of
             Own j \<Rightarrow> Json j | Inherited \<Rightarrow> Json (JStr (inherited_text token)) | Absent \<Rightarrow> Undefined)
      | _ \<Rightarrow> Undefined)"

definition read_simple_json_path :: "json option \<Rightarrow> string \<Rightarrow> unknown" where
  "read_simple_json_path whole expression =
     (case whole of
        None \<Rightarrow> Undefined
      | Some j \<Rightarrow>
          (if j = JNull then Undefined
           else let t = trim expression in
             if t = [] \<or> t = ''$'' then Json j else foldl read_token (Json j) (path_tokens t)))"

section \<open>Conditions\<close>

definition compare_mock_values :: "host \<Rightarrow> unknown \<Rightarrow> string \<Rightarrow> matcher \<Rightarrow> bool" where
  "compare_mock_values h actual expected m =
     (let absent = (actual = Undefined \<or> actual = Json JNull) in
      if m = M_exists then \<not> absent
      else if absent then False
      else case m of
          M_notEquals \<Rightarrow> unknown_to_string actual \<noteq> expected
        | M_contains \<Rightarrow> str_includes expected (unknown_to_string actual)
        | M_matches \<Rightarrow> (case ho_regex h (''^(?:'' @ expected @ '')$'') [] of
              Some f \<Rightarrow> f (unknown_to_string actual) | None \<Rightarrow> False)
        | M_gt \<Rightarrow> num_less (string_to_number expected) (unknown_to_number actual)
        | M_lt \<Rightarrow> num_less (unknown_to_number actual) (string_to_number expected)
        | _ \<Rightarrow> unknown_to_string actual = expected)"

definition mock_condition_actual ::
  "mock_condition \<Rightarrow> key_value list \<Rightarrow> query_pairs \<Rightarrow> string \<Rightarrow> unknown" where
  "mock_condition_actual c headers query body =
     (case mc_source c of
        MS_header \<Rightarrow>
          unknown_of_string (map_option kv_value
            (find (\<lambda>hdr. to_lower (trim (kv_key hdr)) = to_lower (trim (mc_expression c))) headers))
      | MS_query \<Rightarrow> unknown_of_string (map_of query (trim (mc_expression c)))
      | MS_bodyJsonPath \<Rightarrow> read_simple_json_path (json_parse body) (mc_expression c))"

definition mock_conditions_match ::
  "host \<Rightarrow> mock_condition list \<Rightarrow> key_value list \<Rightarrow> query_pairs \<Rightarrow> string \<Rightarrow> bool" where
  "mock_conditions_match h cs headers query body =
     list_all (\<lambda>c. compare_mock_values h (mock_condition_actual c headers query body) (mc_expected c) (mc_matcher c)) cs"

section \<open>Matching\<close>

fun find_mock_route_match ::
  "host \<Rightarrow> mock_route list \<Rightarrow> string \<Rightarrow> string \<Rightarrow> key_value list \<Rightarrow> query_pairs \<Rightarrow> string
     \<Rightarrow> (mock_route \<times> string obj) option" where
  "find_mock_route_match h [] m path headers query body = None"
| "find_mock_route_match h (r # rs) m path headers query body =
     (if mr_enabled r = Some False \<or> mr_method r \<noteq> m
      then find_mock_route_match h rs m path headers query body
      else
        (let pm = match_path (mr_pathPattern r) path in
         if pm_matched pm \<and> mock_conditions_match h (opt_rows (mr_conditions r)) headers query body
         then Some (r, pm_params pm)
         else find_mock_route_match h rs m path headers query body))"

section \<open>Rendering\<close>

text \<open>
  \<open>params[name] ?? ""\<close>: a name only inherited from \<open>Object.prototype\<close> gives a function, which
  \<open>replace\<close> converts to text.
\<close>

definition render_placeholder ::
  "string obj \<Rightarrow> query_pairs \<Rightarrow> string \<Rightarrow> (runtime, string) sx" where
  "render_placeholder params query name rt =
     (if starts_with ''param.'' name
      then Inr (case obj_read params (drop 6 name) of
                  Own v \<Rightarrow> v | Inherited \<Rightarrow> inherited_text (drop 6 name) | Absent \<Rightarrow> [], rt)
      else if starts_with ''query.'' name
      then Inr (case map_of query (drop 6 name) of Some v \<Rightarrow> v | None \<Rightarrow> [], rt)
      else if name = ''$uuid'' \<or> name = ''$randomUUID'' then Inr (draw_uuid rt)
      else if name = ''$timestamp'' then
        (let (now, rt') = read_clock rt in Inr (int_to_string (now div 1000), rt'))
      else if name = ''$timestampMs'' then
        (let (now, rt') = read_clock rt in Inr (int_to_string now, rt'))
      else if name = ''$randomInt'' then
        (let (r, rt') = draw_random rt in Inr (int_to_string \<lfloor>r * 1000\<rfloor>, rt'))
      else Inr (placeholder name, rt))"

definition render_mock_template ::
  "string \<Rightarrow> string obj \<Rightarrow> query_pairs \<Rightarrow> (runtime, string) sx" where
  "render_mock_template body params query =
     sx_bind
       (sx_mapM (\<lambda>sg. case sg of
            Lit c \<Rightarrow> sx_ret [c]
          | Hole raw \<Rightarrow> render_placeholder params query (trim raw)) (template_segs body))
       (\<lambda>parts. sx_ret (concat parts))"

section \<open>Lemmas\<close>

definition part_matches :: "string \<Rightarrow> string \<Rightarrow> bool" where
  "part_matches expected actual \<longleftrightarrow> starts_with '':'' expected \<or> to_lower expected = to_lower actual"

lemma match_parts_matched:
  "length ps = length xs \<Longrightarrow> pm_matched (match_parts ps xs params) \<longleftrightarrow> list_all2 part_matches ps xs"
  by (induction ps xs params rule: match_parts.induct) (auto simp: part_matches_def)

lemma match_path_matched:
  "pm_matched (match_path pattern path) \<longleftrightarrow>
     list_all2 part_matches (split_on CHR ''/'' (strip_slashes pattern)) (split_on CHR ''/'' (strip_slashes path))"
proof -
  let ?ps = "split_on CHR ''/'' (strip_slashes pattern)" and ?xs = "split_on CHR ''/'' (strip_slashes path)"
  show ?thesis
  proof (cases "length ?ps = length ?xs")
    case True
    then show ?thesis by (simp add: match_path_def match_parts_matched)
  next
    case False
    then have "\<not> list_all2 part_matches ?ps ?xs" by (auto dest: list_all2_lengthD)
    with False show ?thesis by (simp add: match_path_def)
  qed
qed

definition route_applies ::
  "host \<Rightarrow> string \<Rightarrow> string \<Rightarrow> key_value list \<Rightarrow> query_pairs \<Rightarrow> string \<Rightarrow> mock_route \<Rightarrow> bool" where
  "route_applies h m path headers query body r \<longleftrightarrow>
     mr_enabled r \<noteq> Some False \<and> mr_method r = m
     \<and> list_all2 part_matches (split_on CHR ''/'' (strip_slashes (mr_pathPattern r))) (split_on CHR ''/'' (strip_slashes path))
     \<and> (\<forall>c \<in> set (opt_rows (mr_conditions r)).
          compare_mock_values h (mock_condition_actual c headers query body) (mc_expected c) (mc_matcher c))"

lemma find_mock_route_applies:
  "find_mock_route_match h routes m path headers query body =
     map_option (\<lambda>r. (r, pm_params (match_path (mr_pathPattern r) path)))
       (find (route_applies h m path headers query body) routes)"
  by (induction routes)
    (auto simp: route_applies_def match_path_matched mock_conditions_match_def list_all_iff Let_def)

text \<open>
  The mock server answers with the first route of its list that applies: enabled, for the
  request's method, with as many path segments as the request and each of them a parameter or equal up to
  case, and with every condition met; it finds no route only if none applies.
\<close>

theorem mock_first_match:
  "(\<forall>r params. find_mock_route_match h routes m path headers query body = Some (r, params) \<longrightarrow>
      (\<exists>before after. routes = before @ r # after \<and> route_applies h m path headers query body r
         \<and> (\<forall>b \<in> set before. \<not> route_applies h m path headers query body b)))
   \<and> (find_mock_route_match h routes m path headers query body = None \<longleftrightarrow>
        (\<forall>r \<in> set routes. \<not> route_applies h m path headers query body r))"
proof (intro conjI allI impI)
  fix r params
  assume "find_mock_route_match h routes m path headers query body = Some (r, params)"
  then have "find (route_applies h m path headers query body) routes = Some r"
    by (auto simp: find_mock_route_applies)
  then show "\<exists>before after. routes = before @ r # after \<and> route_applies h m path headers query body r
         \<and> (\<forall>b \<in> set before. \<not> route_applies h m path headers query body b)"
  proof (induction routes)
    case (Cons x xs)
    then show ?case
      by (cases "route_applies h m path headers query body x")
        (auto intro: exI [of _ "[]"], metis append_Cons set_ConsD)
  qed simp
next
  show "find_mock_route_match h routes m path headers query body = None \<longleftrightarrow>
        (\<forall>r \<in> set routes. \<not> route_applies h m path headers query body r)"
    by (auto simp: find_mock_route_applies find_None_iff)
qed

definition plain_route :: "string \<Rightarrow> string \<Rightarrow> mock_route" where
  "plain_route i p = \<lparr>mr_id = i, mr_enabled = None, mr_method = ''GET'', mr_pathPattern = p, mr_status = 200,
     mr_headers = [], mr_body = [], mr_latencyMs = None, mr_conditions = None, mr_sequences = None\<rparr>"

theorem mock_first_match_witness:
  "(\<exists>before after. [plain_route ''a'' ''/x'', plain_route ''b'' ''/u/:id'', plain_route ''c'' ''/u/1''] =
      before @ plain_route ''b'' ''/u/:id'' # after
      \<and> (\<forall>b \<in> set before. \<not> route_applies sample_host ''GET'' ''/u/1'' [] [] [] b))"
proof -
  have "find_mock_route_match sample_host [plain_route ''a'' ''/x'', plain_route ''b'' ''/u/:id'', plain_route ''c'' ''/u/1'']
      ''GET'' ''/u/1'' [] [] [] = Some (plain_route ''b'' ''/u/:id'', [(''id'', ''1'')])"
    by (simp add: plain_route_def match_path_def strip_slashes_def mock_conditions_match_def opt_rows_def
        obj_assign_def obj_own_def safe_decode_def to_lower_def lower_char_def is_upper_ascii_def code_unit_def)
  with mock_first_match show ?thesis by blast
qed

end
