(* ===== verification/Interfaces.thy ===== *)
theory Interfaces
  imports Main "HOL-Library.Multiset"
begin

text \<open>
  The contracts several stores of the program share, as locales: a log that keeps its newest entries, a
  family of counters that choose the next item of a rotation, and a table of values under keys. Each is
  interpreted on the model's stores in the theories of those stores, which take from here what
  follows from the contract alone.
\<close>

section \<open>Bounded logs\<close>

lemma rev_keep_last: "rev (if n < length xs then drop (length xs - n) xs else xs) = take n (rev xs)"
  by (simp add: take_rev)

text \<open>\<open>entries\<close> lists a log with its newest entry first; \<open>limit\<close> is what it holds at most.\<close>

locale bounded_log =
  fixes push :: "'e \<Rightarrow> 'l \<Rightarrow> 'l"
    and entries :: "'l \<Rightarrow> 'e list"
    and limit :: nat
  assumes entries_push: "entries (push e l) = take limit (e # entries l)"
begin

lemma push_bounded: "length (entries (push e l)) \<le> limit"
  by (simp add: entries_push)

lemma push_newest: "0 < limit \<Longrightarrow> entries (push e l) \<noteq> [] \<and> entries (push e l) ! 0 = e"
  by (cases limit) (simp_all add: entries_push)

lemma pushes_entries:
  assumes "length (entries l) \<le> limit"
  shows "entries (fold push es l) = take limit (rev es @ entries l)"
  using assms
proof (induction es arbitrary: l)
  case Nil
  then show ?case by simp
next
  case (Cons e es)
  have "entries (fold push es (push e l)) = take limit (rev es @ take limit (e # entries l))"
    using Cons.IH [of "push e l"] push_bounded by (simp add: entries_push)
  also have "\<dots> = take limit (rev es @ e # entries l)"
    by (simp add: min_def take_Cons')
  finally show ?case by simp
qed

lemma pushes_bounded: "length (entries l) \<le> limit \<Longrightarrow> length (entries (fold push es l)) \<le> limit"
  by (simp add: pushes_entries)

end

text \<open>A log that can be emptied: what it holds afterwards are the latest entries pushed since.\<close>

locale clearable_log = bounded_log +
  fixes clear :: "'l \<Rightarrow> 'l"
  assumes entries_clear: "entries (clear l) = []"
begin

lemma entries_since_clear: "entries (fold push es (clear l)) = take limit (rev es)"
  using pushes_entries [of "clear l" es] by (simp add: entries_clear)

end

section \<open>Rotations\<close>

text \<open>A counter for each key: advancing one leaves the others alone.\<close>

locale cursor =
  fixes index :: "'s \<Rightarrow> 'k \<Rightarrow> nat"
    and advance :: "'k \<Rightarrow> 's \<Rightarrow> 's"
  assumes index_advance: "index (advance k s) j = (if j = k then Suc (index s k) else index s j)"
begin

lemma index_advances: "index (fold advance ks s) k = index s k + length (filter (\<lambda>j. j = k) ks)"
  by (induction ks arbitrary: s) (auto simp: index_advance)

end

lemma rotation_rotates:
  "map (\<lambda>i. xs ! ((c + i) mod length xs)) [0..<length xs] = rotate c xs"
  by (rule nth_equalityI) (simp_all add: nth_rotate)

text \<open>As many consecutive picks as there are items use every item once.\<close>

lemma rotation_fair:
  "mset (map (\<lambda>i. xs ! ((c + i) mod length xs)) [0..<length xs]) = mset xs"
  unfolding rotation_rotates rotate_drop_take
  by (metis add.commute append_take_drop_id mset_append)

section \<open>Tables\<close>

locale key_table =
  fixes lookup :: "'t \<Rightarrow> 'k \<Rightarrow> 'v option"
    and store :: "'k \<Rightarrow> 'v \<Rightarrow> 't \<Rightarrow> 't"
    and delete :: "'k \<Rightarrow> 't \<Rightarrow> 't"
  assumes lookup_store: "lookup (store k v t) j = (if j = k then Some v else lookup t j)"
    and lookup_delete: "lookup (delete k t) j = (if j = k then None else lookup t j)"
begin

lemma lookup_store_same [simp]: "lookup (store k v t) k = Some v"
  by (simp add: lookup_store)

lemma lookup_delete_same [simp]: "lookup (delete k t) k = None"
  by (simp add: lookup_delete)

lemma store_overwrites: "lookup (store k v (store k u t)) j = lookup (store k v t) j"
  by (simp add: lookup_store)

lemma delete_after_store: "lookup (delete k (store k v t)) j = lookup (delete k t) j"
  by (simp add: lookup_store lookup_delete)

lemma lookup_stores:
  "k \<notin> fst ` set kvs \<Longrightarrow> lookup (fold (\<lambda>(j, v). store j v) kvs t) k = lookup t k"
  by (induction kvs arbitrary: t) (auto simp: lookup_store)

end

end
