(* ===== verification/Mock_Store.thy ===== *)
theory Mock_Store
  imports Mock_Match Interfaces
begin

text \<open>
  packages/server/src/services/mock-store.ts, the state of the mock server with its operations,
  and packages/server/src/api/raw/mock-catchall.ts, the handler that answers a mocked request. Every
  operation of the store is one atomic update. The clock and the identifiers come from the runtime.
\<close>

section \<open>State and operations\<close>

record mock_state =
  ms_routes :: "mock_route list"
  ms_logs :: "mock_log_entry list"
  ms_sequenceIndex :: "string \<Rightarrow> nat option"

definition mock_empty :: mock_state where
  "mock_empty = \<lparr>ms_routes = [], ms_logs = [], ms_sequenceIndex = (\<lambda>i. None)\<rparr>"

text \<open>\<open>logs.slice(-200).reverse()\<close>, and the number of all logs.\<close>

definition list_routes :: "mock_state \<Rightarrow> mock_route list \<times> mock_log_entry list \<times> nat" where
  "list_routes s =
     (ms_routes s, rev (drop (length (ms_logs s) - 200) (ms_logs s)), length (ms_logs s))"

definition replace_routes :: "mock_route list \<Rightarrow> mock_state \<Rightarrow> (mock_route list \<times> nat) \<times> mock_state" where
  "replace_routes routes s =
     (let nxt = map (\<lambda>r. r\<lparr>mr_enabled := Some (case mr_enabled r of Some b \<Rightarrow> b | None \<Rightarrow> True)\<rparr>) routes in
      ((nxt, length nxt), s\<lparr>ms_routes := nxt, ms_sequenceIndex := (\<lambda>i. None)\<rparr>))"

text \<open>Appending and \<open>if (logs.length > 1000) logs.splice(0, logs.length - 1000)\<close>.\<close>

definition push_log :: "mock_log_entry \<Rightarrow> mock_state \<Rightarrow> mock_state" where
  "push_log entry s =
     (let logs = ms_logs s @ [entry] in
      s\<lparr>ms_logs := (if 1000 < length logs then drop (length logs - 1000) logs else logs)\<rparr>)"

definition append_log :: "mock_log_entry \<Rightarrow> mock_state \<Rightarrow> runtime \<Rightarrow> mock_state \<times> runtime" where
  "append_log entry s rt =
     (let (u, rt1) = draw_uuid rt; (now, rt2) = read_clock rt1 in
      (push_log (entry\<lparr>ml_id := u, ml_createdAt := now\<rparr>) s, rt2))"

definition clear_logs :: "mock_state \<Rightarrow> mock_state" where
  "clear_logs s = s\<lparr>ms_logs := []\<rparr>"

definition find_match ::
  "host \<Rightarrow> string \<Rightarrow> string \<Rightarrow> key_value list \<Rightarrow> query_pairs \<Rightarrow> string \<Rightarrow> mock_state
     \<Rightarrow> (mock_route \<times> string obj) option" where
  "find_match h m path headers query body s = find_mock_route_match h (ms_routes s) m path headers query body"

datatype mock_item = From_route mock_route | From_sequence mock_sequence_item

definition item_index :: "mock_state \<Rightarrow> string \<Rightarrow> nat" where
  "item_index s i = (case ms_sequenceIndex s i of Some n \<Rightarrow> n | None \<Rightarrow> 0)"

definition advance_item :: "string \<Rightarrow> mock_state \<Rightarrow> mock_state" where
  "advance_item i s = s\<lparr>ms_sequenceIndex := (ms_sequenceIndex s)(i := Some (item_index s i + 1))\<rparr>"

definition next_sequence_item :: "mock_route \<Rightarrow> mock_state \<Rightarrow> mock_item \<times> mock_state" where
  "next_sequence_item route s =
     (let items = opt_rows (mr_sequences route) in
      if items \<noteq> []
      then (From_sequence (items ! (item_index s (mr_id route) mod length items)), advance_item (mr_id route) s)
      else (From_route route, s))"

section \<open>Importing recorded traffic\<close>

record proxy_record =
  pr_id :: string
  pr_method :: string
  pr_path :: string
  pr_requestHeaders :: "key_value list"
  pr_requestBody :: string
  pr_status :: int
  pr_responseHeaders :: "key_value list"
  pr_responseBody :: string
  pr_createdAt :: int

definition valid_methods :: "string list" where
  "valid_methods = [''GET'', ''POST'', ''PUT'', ''PATCH'', ''DELETE'', ''HEAD'', ''OPTIONS'']"

definition route_of_record :: "proxy_record \<Rightarrow> string \<Rightarrow> mock_route" where
  "route_of_record r u =
     (let pattern = split_on CHR ''?'' (pr_path r) ! 0 in
      \<lparr>mr_id = u, mr_enabled = Some True,
       mr_method = (if to_upper (pr_method r) \<in> set valid_methods then to_upper (pr_method r) else ''GET''),
       mr_pathPattern = (if pattern = [] then ''/'' else pattern), mr_status = pr_status r,
       mr_headers = pr_responseHeaders r, mr_body = pr_responseBody r, mr_latencyMs = Some 0,
       mr_conditions = None, mr_sequences = None\<rparr>)"

definition proxy_import ::
  "proxy_record list \<Rightarrow> mock_state \<Rightarrow> runtime \<Rightarrow> ((nat \<times> mock_route list) \<times> mock_state) \<times> runtime" where
  "proxy_import records s rt =
     (let (fresh, rt') = fold (\<lambda>r (acc, t). let (u, t') = draw_uuid t in (acc @ [route_of_record r u], t'))
                           records ([], rt);
          existing = filter (\<lambda>route. \<not> list_ex (\<lambda>n. mr_method n = mr_method route
                        \<and> mr_pathPattern n = mr_pathPattern route \<and> opt_rows (mr_conditions route) = []) fresh)
                      (ms_routes s);
          merged = existing @ fresh in
      (((length fresh, merged), s\<lparr>ms_routes := merged, ms_sequenceIndex := (\<lambda>i. None)\<rparr>), rt'))"

section \<open>The handler\<close>

text \<open>
  \<open>hq_pathname\<close> and \<open>hq_query\<close> are what \<open>new URL(request.url, base)\<close> gives; the text of the body is
  read whole. \<open>Number(headers["content-length"] ?? 0) > limit\<close> is false for a value that is no number.
\<close>

record http_request =
  hq_method :: string
  hq_pathname :: string
  hq_query :: query_pairs
  hq_headers :: "string obj"
  hq_text :: string

record http_response =
  hp_status :: int
  hp_headers :: "string obj"
  hp_body :: string

definition text_response :: "int \<Rightarrow> string \<Rightarrow> http_response" where
  "text_response status t = \<lparr>hp_status = status, hp_headers = [], hp_body = t\<rparr>"

definition request_headers :: "string obj \<Rightarrow> key_value list" where
  "request_headers hs = map (\<lambda>(k, v). kv_on k v) hs"

definition max_mock_body :: int where "max_mock_body = 1024 * 1024"

definition content_length_over :: "string obj \<Rightarrow> int \<Rightarrow> bool" where
  "content_length_over hs limit =
     num_less (Fin (of_int limit))
       (case obj_own hs ''content-length'' of Some v \<Rightarrow> string_to_number v | None \<Rightarrow> Fin 0)"

definition mock_path :: "string \<Rightarrow> string" where
  "mock_path pathname =
     (let p = (if starts_with ''/mock'' pathname then drop 5 pathname else pathname) in if p = [] then ''/'' else p)"

definition item_status :: "mock_item \<Rightarrow> int" where
  "item_status it = (case it of From_route r \<Rightarrow> mr_status r | From_sequence q \<Rightarrow> mi_status q)"

definition item_headers :: "mock_item \<Rightarrow> key_value list" where
  "item_headers it = (case it of From_route r \<Rightarrow> mr_headers r | From_sequence q \<Rightarrow> mi_headers q)"

definition item_body :: "mock_item \<Rightarrow> string" where
  "item_body it = (case it of From_route r \<Rightarrow> mr_body r | From_sequence q \<Rightarrow> mi_body q)"

definition mock_response_headers :: "mock_item \<Rightarrow> string obj" where
  "mock_response_headers it =
     obj_from_entries (map (\<lambda>p. (kv_key p, kv_value p)) (filter kv_active (item_headers it)))"

definition log_entry ::
  "string option \<Rightarrow> string \<Rightarrow> string \<Rightarrow> int \<Rightarrow> key_value list \<Rightarrow> string \<Rightarrow> mock_log_entry" where
  "log_entry route m path status headers body =
     \<lparr>ml_id = [], ml_routeId = route, ml_matched = (route \<noteq> None), ml_method = m, ml_path = path,
      ml_status = status, ml_headers = headers, ml_body = body, ml_createdAt = 0\<rparr>"

text \<open>
  The handler. Rendering cannot raise: the result type of the template is kept and an exception would
  be the handler's. The sleep for the latency changes no state of this handler.
\<close>

definition mock_catch_all ::
  "host \<Rightarrow> http_request \<Rightarrow> mock_state \<Rightarrow> runtime \<Rightarrow> js_error + (http_response \<times> mock_state \<times> runtime)" where
  "mock_catch_all h q s rt =
     (let path = mock_path (hq_pathname q); m = to_upper (hq_method q);
          headers = request_headers (hq_headers q); body = hq_text q in
      if content_length_over (hq_headers q) max_mock_body \<or> max_mock_body < int (byte_length body)
      then Inr (text_response 413 ''Mock request body too large'', s, rt)
      else case find_match h m path headers (hq_query q) body s of
          None \<Rightarrow>
            (let (s', rt') = append_log (log_entry None m path 404 headers body) s rt in
             Inr (text_response 404 ''No mock route matched'', s', rt'))
        | Some (route, params) \<Rightarrow>
            (let (item, s1) = next_sequence_item route s in
             case render_mock_template (item_body item) params (hq_query q) rt of
               Inl e \<Rightarrow> Inl e
             | Inr (rendered, rt1) \<Rightarrow>
                 (let (s2, rt2) = append_log (log_entry (Some (mr_id route)) m path (item_status item) headers body) s1 rt1 in
                  Inr (\<lparr>hp_status = item_status item, hp_headers = mock_response_headers item, hp_body = rendered\<rparr>,
                       s2, rt2))))"

section \<open>The store's contracts\<close>

lemma push_log_logs: "rev (ms_logs (push_log e s)) = take 1000 (e # rev (ms_logs s))"
  using rev_keep_last [of 1000 "ms_logs s @ [e]"] by (simp add: push_log_def Let_def)

interpretation mock_log: clearable_log push_log "\<lambda>s. rev (ms_logs s)" 1000 clear_logs
  by unfold_locales (simp_all add: push_log_logs clear_logs_def)

interpretation mock_cursor: cursor item_index advance_item
  by unfold_locales (simp add: item_index_def advance_item_def)

text \<open>What the store holds after any operations: at most a thousand logs.\<close>

inductive mock_reachable :: "mock_state \<Rightarrow> bool" where
  start: "mock_reachable mock_empty"
| replaced: "mock_reachable s \<Longrightarrow> mock_reachable (snd (replace_routes routes s))"
| logged: "mock_reachable s \<Longrightarrow> mock_reachable (fst (append_log entry s rt))"
| cleared: "mock_reachable s \<Longrightarrow> mock_reachable (clear_logs s)"
| drawn: "mock_reachable s \<Longrightarrow> mock_reachable (snd (next_sequence_item route s))"
| imported: "mock_reachable s \<Longrightarrow> mock_reachable (snd (fst (proxy_import records s rt)))"

lemma append_log_push: "\<exists>e. fst (append_log entry s rt) = push_log e s"
  by (auto simp: append_log_def case_prod_beta Let_def)

lemma replace_routes_simps [simp]:
  "ms_logs (snd (replace_routes routes s)) = ms_logs s"
  "item_index (snd (replace_routes routes s)) i = 0"
  by (simp_all add: replace_routes_def item_index_def Let_def)

lemma proxy_import_simps [simp]: "ms_logs (snd (fst (proxy_import records s rt))) = ms_logs s"
  by (simp add: proxy_import_def Let_def case_prod_beta)

lemma next_item_logs [simp]: "ms_logs (snd (next_sequence_item route s)) = ms_logs s"
  by (simp add: next_sequence_item_def advance_item_def Let_def)

lemma mock_logs_bounded: "mock_reachable s \<Longrightarrow> length (ms_logs s) \<le> 1000"
proof (induction rule: mock_reachable.induct)
  case (logged s entry rt)
  obtain e where "fst (append_log entry s rt) = push_log e s" using append_log_push by blast
  with mock_log.push_bounded [of e s] show ?case by simp
qed (simp_all add: mock_empty_def clear_logs_def)

text \<open>
  Whatever operations the mock store runs, it holds at most a thousand log entries, \<open>listRoutes\<close> returns
  the latest of them (at most 200) with the newest first, and a list of appended entries replaces the
  oldest ones.
\<close>

theorem mock_log_invariant:
  assumes "mock_reachable s"
  shows "length (ms_logs s) \<le> 1000
    \<and> fst (snd (list_routes s)) = take 200 (rev (ms_logs s))
    \<and> rev (ms_logs (fold push_log es s)) = take 1000 (rev es @ rev (ms_logs s))"
proof -
  have "fst (snd (list_routes s)) = take 200 (rev (ms_logs s))"
    by (simp add: list_routes_def take_rev)
  moreover have "rev (ms_logs (fold push_log es s)) = take 1000 (rev es @ rev (ms_logs s))"
    using mock_logs_bounded [OF assms] by (intro mock_log.pushes_entries) simp
  ultimately show ?thesis using mock_logs_bounded [OF assms] by simp
qed

definition empty_entry :: mock_log_entry where
  "empty_entry = log_entry None ''GET'' ''/'' 404 [] []"

theorem mock_log_invariant_witness:
  "length (ms_logs (fst (append_log empty_entry mock_empty sample_runtime))) = 1
   \<and> fst (snd (list_routes (fst (append_log empty_entry mock_empty sample_runtime))))
       = take 200 (rev (ms_logs (fst (append_log empty_entry mock_empty sample_runtime))))"
proof -
  have r: "mock_reachable (fst (append_log empty_entry mock_empty sample_runtime))"
    by (intro mock_reachable.intros)
  have "length (ms_logs (fst (append_log empty_entry mock_empty sample_runtime))) = 1"
    by (simp add: append_log_def push_log_def mock_empty_def case_prod_beta Let_def)
  with mock_log_invariant [OF r] show ?thesis by blast
qed

section \<open>Sequences\<close>

definition has_sequence :: "mock_route \<Rightarrow> bool" where
  "has_sequence r \<longleftrightarrow> opt_rows (mr_sequences r) \<noteq> []"

definition draw_item :: "mock_route \<Rightarrow> mock_state \<Rightarrow> mock_state" where
  "draw_item r s = snd (next_sequence_item r s)"

lemma draw_item_advance: "draw_item r s = (if has_sequence r then advance_item (mr_id r) s else s)"
  by (simp add: draw_item_def has_sequence_def next_sequence_item_def Let_def)

lemma draws_advance: "fold draw_item rs s = fold advance_item (map mr_id (filter has_sequence rs)) s"
  by (induction rs arbitrary: s) (auto simp: draw_item_advance)

lemma draws_index:
  "item_index (fold draw_item rs s) i =
     item_index s i + length (filter (\<lambda>r. has_sequence r \<and> mr_id r = i) rs)"
proof -
  have "length (filter (\<lambda>j. j = i) (map mr_id (filter has_sequence rs))) =
      length (filter (\<lambda>r. has_sequence r \<and> mr_id r = i) rs)"
    by (simp add: filter_map comp_def conj_commute)
  then show ?thesis by (simp add: draws_advance mock_cursor.index_advances)
qed

text \<open>
  After the routes are replaced, a route with a sequence answers with its items in rotation, however its
  requests are interleaved with those of other routes: the next answer is the item whose
  position is the number of answers already drawn for that id, modulo the length of the sequence; a full round of
  answers uses every item once.
\<close>

theorem mock_sequence_rotates:
  assumes "opt_rows (mr_sequences route) = items" and "items \<noteq> []"
  shows "fst (next_sequence_item route (fold draw_item earlier (snd (replace_routes routes s)))) =
      From_sequence (items ! (length (filter (\<lambda>r. has_sequence r \<and> mr_id r = mr_id route) earlier) mod length items))
    \<and> mset (map (\<lambda>i. fst (next_sequence_item route ((draw_item route ^^ i) s))) [0..<length items])
        = mset (map From_sequence items)"
proof
  show "fst (next_sequence_item route (fold draw_item earlier (snd (replace_routes routes s)))) =
      From_sequence (items ! (length (filter (\<lambda>r. has_sequence r \<and> mr_id r = mr_id route) earlier) mod length items))"
    using assms by (simp add: next_sequence_item_def Let_def draws_index)
next
  have r: "(draw_item route ^^ i) s = fold draw_item (replicate i route) s" for i
    by (induction i arbitrary: s) (simp_all add: funpow_swap1)
  have seq: "has_sequence route" using assms by (simp add: has_sequence_def)
  have at: "item_index (fold draw_item (replicate i route) s) (mr_id route) = item_index s (mr_id route) + i" for i
    unfolding draws_index by (simp add: seq)
  have "fst (next_sequence_item route ((draw_item route ^^ i) s)) =
      From_sequence (items ! ((item_index s (mr_id route) + i) mod length items))" for i
    unfolding r next_sequence_item_def Let_def at assms(1) using assms(2) by simp
  then have "map (\<lambda>i. fst (next_sequence_item route ((draw_item route ^^ i) s))) [0..<length items] =
      map From_sequence (map (\<lambda>i. items ! ((item_index s (mr_id route) + i) mod length items)) [0..<length items])"
    by simp
  then show "mset (map (\<lambda>i. fst (next_sequence_item route ((draw_item route ^^ i) s))) [0..<length items])
        = mset (map From_sequence items)"
    using rotation_fair [of items "item_index s (mr_id route)"] by (simp only: mset_map)
qed

definition seq_item :: "string \<Rightarrow> mock_sequence_item" where
  "seq_item b = \<lparr>mi_status = 200, mi_headers = [], mi_body = b, mi_latencyMs = None\<rparr>"

definition seq_route :: mock_route where
  "seq_route = (plain_route ''a'' ''/x'')\<lparr>mr_sequences := Some [seq_item ''1'', seq_item ''2'']\<rparr>"

theorem mock_sequence_rotates_witness:
  "fst (next_sequence_item seq_route (fold draw_item [seq_route, plain_route ''b'' ''/y''] (snd (replace_routes [] mock_empty))))
     = From_sequence (seq_item ''2'')"
  using mock_sequence_rotates [of seq_route "[seq_item ''1'', seq_item ''2'']" "[seq_route, plain_route ''b'' ''/y'']" "[]" mock_empty]
  by (simp add: seq_route_def plain_route_def opt_rows_def has_sequence_def)

section \<open>The handler's trace\<close>

definition too_large :: "http_request \<Rightarrow> bool" where
  "too_large q \<longleftrightarrow>
     content_length_over (hq_headers q) max_mock_body \<or> max_mock_body < int (byte_length (hq_text q))"

definition request_match :: "host \<Rightarrow> http_request \<Rightarrow> mock_state \<Rightarrow> (mock_route \<times> string obj) option" where
  "request_match h q s =
     find_match h (to_upper (hq_method q)) (mock_path (hq_pathname q)) (request_headers (hq_headers q))
       (hq_query q) (hq_text q) s"

definition request_entry :: "http_request \<Rightarrow> string option \<Rightarrow> int \<Rightarrow> mock_log_entry" where
  "request_entry q route status =
     log_entry route (to_upper (hq_method q)) (mock_path (hq_pathname q)) status
       (request_headers (hq_headers q)) (hq_text q)"

lemma mock_catch_all_cases:
  "mock_catch_all h q s rt =
     (if too_large q then Inr (text_response 413 ''Mock request body too large'', s, rt)
      else case request_match h q s of
          None \<Rightarrow>
            Inr (text_response 404 ''No mock route matched'', append_log (request_entry q None 404) s rt)
        | Some (route, params) \<Rightarrow>
            (case render_mock_template (item_body (fst (next_sequence_item route s))) params (hq_query q) rt of
               Inl e \<Rightarrow> Inl e
             | Inr (rendered, rt1) \<Rightarrow>
                 Inr (\<lparr>hp_status = item_status (fst (next_sequence_item route s)),
                       hp_headers = mock_response_headers (fst (next_sequence_item route s)), hp_body = rendered\<rparr>,
                      append_log (request_entry q (Some (mr_id route)) (item_status (fst (next_sequence_item route s))))
                        (snd (next_sequence_item route s)) rt1)))"
  unfolding mock_catch_all_def too_large_def request_match_def request_entry_def Let_def case_prod_beta
  by (simp only: prod.collapse)

lemma append_log_entry:
  "\<exists>e. rev (ms_logs (fst (append_log x t r))) = take 1000 (e # rev (ms_logs t)) \<and> ml_status e = ml_status x
     \<and> ml_path e = ml_path x \<and> ml_body e = ml_body x \<and> ml_matched e = ml_matched x \<and> ml_routeId e = ml_routeId x
     \<and> ms_sequenceIndex (fst (append_log x t r)) = ms_sequenceIndex t"
proof -
  let ?e = "x\<lparr>ml_id := fst (draw_uuid r), ml_createdAt := fst (read_clock (snd (draw_uuid r)))\<rparr>"
  have f: "fst (append_log x t r) = push_log ?e t" by (simp add: append_log_def case_prod_beta Let_def)
  have "ms_sequenceIndex (push_log ?e t) = ms_sequenceIndex t" by (simp add: push_log_def Let_def)
  then show ?thesis by (intro exI [of _ ?e]) (simp add: f push_log_logs)
qed

text \<open>
  A mocked request leaves exactly one log entry, newest in the list, with the status it was
  answered with and the route that answered it; only a request refused for its size leaves the store as it
  was. The answer to a request without a route is 404.
\<close>

theorem mock_catch_all_logs:
  assumes "mock_catch_all h q s rt = Inr (resp, s', rt')"
  shows "(hp_status resp = 413 \<and> s' = s)
    \<or> (\<exists>e. rev (ms_logs s') = take 1000 (e # rev (ms_logs s)) \<and> ml_status e = hp_status resp
        \<and> ml_path e = mock_path (hq_pathname q) \<and> ml_body e = hq_text q
        \<and> (if ml_matched e then ml_routeId e \<in> (Some \<circ> mr_id) ` set (ms_routes s)
           else ml_routeId e = None \<and> hp_status resp = 404 \<and> ms_sequenceIndex s' = ms_sequenceIndex s))"
proof (cases "too_large q")
  case True
  with assms have "hp_status resp = 413 \<and> s' = s" by (auto simp: mock_catch_all_cases text_response_def)
  then show ?thesis by (rule disjI1)
next
  case small: False
  show ?thesis
  proof (cases "request_match h q s")
    case None
    with small assms have "hp_status resp = 404" "s' = fst (append_log (request_entry q None 404) s rt)"
      by (auto simp: mock_catch_all_cases text_response_def)
    with append_log_entry [of "request_entry q None 404" s rt] show ?thesis
      by (intro disjI2) (auto simp: request_entry_def log_entry_def)
  next
    case (Some rp)
    obtain route params where rp: "rp = (route, params)" by fastforce
    with Some have mem: "route \<in> set (ms_routes s)"
      by (auto simp: request_match_def find_match_def find_mock_route_applies dest: find_Some_in)
    let ?it = "fst (next_sequence_item route s)" and ?s1 = "snd (next_sequence_item route s)"
    from small assms Some rp obtain out rt1 where
      r: "hp_status resp = item_status ?it" "s' = fst (append_log (request_entry q (Some (mr_id route)) (item_status ?it)) ?s1 rt1)"
      by (auto simp: mock_catch_all_cases split: sum.splits) (metis fst_conv)
    with append_log_entry [of "request_entry q (Some (mr_id route)) (item_status ?it)" ?s1 rt1] mem show ?thesis
      by (intro disjI2) (auto simp: request_entry_def log_entry_def)
  qed
qed

definition sample_http :: "string \<Rightarrow> http_request" where
  "sample_http p = \<lparr>hq_method = ''get'', hq_pathname = p, hq_query = [], hq_headers = [], hq_text = []\<rparr>"

theorem mock_catch_all_logs_witness:
  "\<exists>resp s' rt'. mock_catch_all sample_host (sample_http ''/mock/x'') mock_empty sample_runtime = Inr (resp, s', rt')
     \<and> hp_status resp = 404 \<and> length (ms_logs s') = 1"
proof -
  have "\<exists>resp s' rt'. mock_catch_all sample_host (sample_http ''/mock/x'') mock_empty sample_runtime = Inr (resp, s', rt')
     \<and> hp_status resp = 404"
    by (simp add: mock_catch_all_cases too_large_def request_match_def sample_http_def content_length_over_def
        obj_own_def max_mock_body_def byte_length_def find_match_def mock_empty_def text_response_def)
  then obtain resp s' rt' where r: "mock_catch_all sample_host (sample_http ''/mock/x'') mock_empty sample_runtime = Inr (resp, s', rt')"
    "hp_status resp = 404" by blast
  have "length (rev (ms_logs s')) = 1"
    using mock_catch_all_logs [OF r(1)] r(2) by (auto simp: mock_empty_def)
  with r show ?thesis by auto
qed

end
