(* ===== verification/Webhook.thy ===== *)
theory Webhook
  imports Mock_Store
begin

text \<open>
  packages/server/src/services/webhook-store.ts, webhook-validator.ts and api/raw/webhook-receiver.ts:
  the log and the configuration of every webhook, the validation of a received request and the
  handler that puts the two together. The HMAC of \<open>node:crypto\<close>, as the hexadecimal digest, is a parameter.
\<close>

section \<open>The store\<close>

datatype hmac_algorithm = HA_sha256 | HA_sha1 | HA_sha512

datatype validation_type = VT_none | VT_hmac | VT_header

record webhook_config =
  wc_type :: validation_type
  wc_secret :: "string option"
  wc_algorithm :: "hmac_algorithm option"
  wc_signatureHeader :: "string option"
  wc_signaturePrefix :: "string option"
  wc_headerName :: "string option"
  wc_headerValue :: "string option"

record webhook_entry =
  we_id :: string
  we_method :: string
  we_headers :: "key_value list"
  we_body :: string
  we_createdAt :: int
  we_validationPassed :: bool
  we_validationError :: "string option"

record webhook_state =
  wh_logs :: "string \<Rightarrow> webhook_entry list option"
  wh_configs :: "string \<Rightarrow> webhook_config option"

definition webhook_empty :: webhook_state where
  "webhook_empty = \<lparr>wh_logs = (\<lambda>i. None), wh_configs = (\<lambda>i. None)\<rparr>"

definition max_webhook_entries :: nat where "max_webhook_entries = 200"

definition get_webhook_logs :: "string \<Rightarrow> webhook_state \<Rightarrow> webhook_entry list" where
  "get_webhook_logs i s = opt_rows (wh_logs s i)"

definition clear_webhook_logs :: "string \<Rightarrow> webhook_state \<Rightarrow> webhook_state" where
  "clear_webhook_logs i s = s\<lparr>wh_logs := (wh_logs s)(i := None)\<rparr>"

definition set_webhook_config :: "string \<Rightarrow> webhook_config \<Rightarrow> webhook_state \<Rightarrow> webhook_state" where
  "set_webhook_config i c s = s\<lparr>wh_configs := (wh_configs s)(i := Some c)\<rparr>"

definition get_webhook_config :: "webhook_state \<Rightarrow> string \<Rightarrow> webhook_config option" where
  "get_webhook_config s i = wh_configs s i"

definition delete_webhook :: "string \<Rightarrow> webhook_state \<Rightarrow> webhook_state" where
  "delete_webhook i s = \<lparr>wh_logs = (wh_logs s)(i := None), wh_configs = (wh_configs s)(i := None)\<rparr>"

definition append_webhook_entry :: "string \<Rightarrow> webhook_entry \<Rightarrow> webhook_state \<Rightarrow> webhook_state" where
  "append_webhook_entry i entry s =
     s\<lparr>wh_logs := (wh_logs s)(i := Some (take max_webhook_entries (entry # opt_rows (wh_logs s i))))\<rparr>"

section \<open>Validation\<close>

record validation_result =
  vr_passed :: bool
  vr_error :: "string option"

definition accepted :: validation_result where
  "accepted = \<lparr>vr_passed = True, vr_error = None\<rparr>"

definition refused :: "string \<Rightarrow> validation_result" where
  "refused m = \<lparr>vr_passed = False, vr_error = Some m\<rparr>"

text \<open>\<open>Buffer.from(s, "hex")\<close> stops at the first pair that is not two hexadecimal digits.\<close>

fun hex_bytes :: "string \<Rightarrow> nat list" where
  "hex_bytes (a # b # s) =
     (if is_hex a \<and> is_hex b then (16 * hex_value a + hex_value b) # hex_bytes s else [])"
| "hex_bytes _ = []"

definition find_header :: "key_value list \<Rightarrow> string \<Rightarrow> key_value option" where
  "find_header headers name = find (\<lambda>hdr. to_lower (kv_key hdr) = to_lower name) headers"

definition received_signature :: "webhook_config \<Rightarrow> string \<Rightarrow> string" where
  "received_signature c raw =
     (let pre = opt_str (wc_signaturePrefix c) in
      if pre \<noteq> [] \<and> starts_with pre raw then drop (length pre) raw else raw)"

text \<open>\<open>timingSafeEqual\<close> raises when the lengths differ.\<close>

definition compare_signature :: "string \<Rightarrow> string \<Rightarrow> validation_result" where
  "compare_signature received expected =
     (let l = hex_bytes (pad_end (length expected) CHR ''0'' received); r = hex_bytes expected in
      if length l \<noteq> length r then refused ''Invalid signature format''
      else if l = r then accepted else refused ''Signature mismatch'')"

definition validate_webhook_request ::
  "(hmac_algorithm \<Rightarrow> string \<Rightarrow> string \<Rightarrow> string) \<Rightarrow> webhook_config \<Rightarrow> key_value list \<Rightarrow> string
     \<Rightarrow> validation_result" where
  "validate_webhook_request hmac_hex c headers body =
     (case wc_type c of
        VT_none \<Rightarrow> accepted
      | VT_header \<Rightarrow>
          (if \<not> truthy (wc_headerName c) \<or> \<not> truthy (wc_headerValue c) then accepted
           else case find_header headers (opt_str (wc_headerName c)) of
               None \<Rightarrow> refused (''Missing header: '' @ opt_str (wc_headerName c))
             | Some hdr \<Rightarrow>
                 (if Some (kv_value hdr) \<noteq> wc_headerValue c then refused ''Header token mismatch'' else accepted))
      | VT_hmac \<Rightarrow>
          (if \<not> truthy (wc_secret c) \<or> \<not> truthy (wc_signatureHeader c)
           then refused ''HMAC secret or signature header not configured''
           else case find_header headers (opt_str (wc_signatureHeader c)) of
               None \<Rightarrow> refused (''Missing signature header: '' @ opt_str (wc_signatureHeader c))
             | Some hdr \<Rightarrow>
                 compare_signature (received_signature c (kv_value hdr))
                   (hmac_hex (case wc_algorithm c of Some a \<Rightarrow> a | None \<Rightarrow> HA_sha256) (opt_str (wc_secret c)) body)))"

section \<open>The receiver\<close>

definition no_validation :: webhook_config where
  "no_validation = \<lparr>wc_type = VT_none, wc_secret = None, wc_algorithm = None, wc_signatureHeader = None,
     wc_signaturePrefix = None, wc_headerName = None, wc_headerValue = None\<rparr>"

text \<open>\<open>None\<close>: the path has no id and the answer is a 400; otherwise whether the request passed.\<close>

definition webhook_receiver ::
  "(hmac_algorithm \<Rightarrow> string \<Rightarrow> string \<Rightarrow> string) \<Rightarrow> string option \<Rightarrow> http_request \<Rightarrow> webhook_state
     \<Rightarrow> runtime \<Rightarrow> bool option \<times> webhook_state \<times> runtime" where
  "webhook_receiver hmac_hex param q s rt =
     (if \<not> truthy param then (None, s, rt)
      else
        (let i = opt_str param; headers = request_headers (hq_headers q);
             c = (case get_webhook_config s i of Some c \<Rightarrow> c | None \<Rightarrow> no_validation);
             v = validate_webhook_request hmac_hex c headers (hq_text q);
             (u, rt1) = draw_uuid rt; (now, rt2) = read_clock rt1 in
         (Some (vr_passed v),
          append_webhook_entry i
            \<lparr>we_id = u, we_method = to_upper (hq_method q), we_headers = headers, we_body = hq_text q,
             we_createdAt = now, we_validationPassed = vr_passed v, we_validationError = vr_error v\<rparr> s,
          rt2)))"

section \<open>Contracts of the store\<close>

interpretation webhook_log: clearable_log "append_webhook_entry i" "get_webhook_logs i" max_webhook_entries
    "clear_webhook_logs i" for i
  by unfold_locales (simp_all add: append_webhook_entry_def get_webhook_logs_def clear_webhook_logs_def opt_rows_def)

interpretation webhook_configs: key_table get_webhook_config set_webhook_config delete_webhook
  by unfold_locales (simp_all add: get_webhook_config_def set_webhook_config_def delete_webhook_def)

lemma append_other: "i \<noteq> j \<Longrightarrow> get_webhook_logs j (append_webhook_entry i e s) = get_webhook_logs j s"
  by (simp add: append_webhook_entry_def get_webhook_logs_def)

lemma appends_other: "i \<noteq> j \<Longrightarrow> get_webhook_logs j (fold (append_webhook_entry i) es s) = get_webhook_logs j s"
  by (induction es arbitrary: s) (simp_all add: append_other)

text \<open>
  C34: Every webhook keeps its own log: after it is cleared, the entries received since are listed
  newest first and at most 200 of them, the logs of other webhooks are as they were, and so is
  every configuration.
\<close>

theorem webhook_logs_newest_first:
  "get_webhook_logs i (fold (append_webhook_entry i) es (clear_webhook_logs i s)) = take 200 (rev es)
   \<and> (\<forall>j. get_webhook_logs j (fold (append_webhook_entry i) es (clear_webhook_logs i s)) =
        (if j = i then take 200 (rev es) else get_webhook_logs j s)
        \<and> get_webhook_config (fold (append_webhook_entry i) es (clear_webhook_logs i s)) j = get_webhook_config s j)"
proof -
  have c: "get_webhook_config (fold (append_webhook_entry i) es t) j = get_webhook_config t j" for j t
    by (induction es arbitrary: t) (simp_all add: append_webhook_entry_def get_webhook_config_def)
  have o: "j \<noteq> i \<Longrightarrow> get_webhook_logs j (clear_webhook_logs i s) = get_webhook_logs j s" for j
    by (simp add: clear_webhook_logs_def get_webhook_logs_def)
  have e: "get_webhook_logs i (fold (append_webhook_entry i) es (clear_webhook_logs i s)) = take 200 (rev es)"
    using webhook_log.entries_since_clear [of i es s] by (simp add: max_webhook_entries_def)
  moreover have "get_webhook_config (clear_webhook_logs i s) j = get_webhook_config s j" for j
    by (simp add: clear_webhook_logs_def get_webhook_config_def)
  ultimately show ?thesis using c o appends_other by metis
qed

section \<open>Signatures\<close>

lemma code_unit_lower:
  "code_unit (lower_char c) =
     (let n = code_unit c in
      if (65 \<le> n \<and> n \<le> 90) \<or> (192 \<le> n \<and> n \<le> 222 \<and> n \<noteq> 215) then n + 32 else n)"
proof -
  have "n \<le> 222 \<Longrightarrow> code_unit (char_of (n + 32)) = n + 32" for n
    by (simp add: code_unit_def)
  then show ?thesis by (auto simp: lower_char_def Let_def)
qed

lemma code_unit_inj: "code_unit a = code_unit b \<longleftrightarrow> a = b"
  by (simp add: code_unit_def)

lemma hex_cases:
  assumes "is_hex c"
  obtains "48 \<le> code_unit c" "code_unit c \<le> 57" "hex_value c = code_unit c - 48"
  | "65 \<le> code_unit c" "code_unit c \<le> 70" "hex_value c = code_unit c - 55"
  | "97 \<le> code_unit c" "code_unit c \<le> 102" "hex_value c = code_unit c - 87"
  using assms by (auto simp: is_hex_def hex_value_def is_digit_def)

lemma lower_hex_code:
  "is_hex c \<Longrightarrow> code_unit (lower_char c) = (if hex_value c < 10 then 48 + hex_value c else 87 + hex_value c)"
  by (erule hex_cases) (simp_all add: code_unit_lower Let_def)

lemma hex_value_lower:
  assumes "is_hex a" and "is_hex b" and "hex_value a = hex_value b"
  shows "lower_char a = lower_char b"
  using lower_hex_code [OF assms(1)] lower_hex_code [OF assms(2)] assms(3) by (simp flip: code_unit_inj)

lemma lower_hex:
  assumes "is_hex (lower_char c)"
  shows "is_hex c \<and> hex_value (lower_char c) = hex_value c"
proof -
  define n where "n = code_unit c"
  have l: "code_unit (lower_char c) = (if (65 \<le> n \<and> n \<le> 90) \<or> (192 \<le> n \<and> n \<le> 222 \<and> n \<noteq> 215) then n + 32 else n)"
    by (simp add: code_unit_lower n_def Let_def)
  from assms show ?thesis
    by (rule hex_cases) (use l in \<open>auto simp: is_hex_def hex_value_def is_digit_def simp flip: n_def split: if_splits\<close>)
qed

text \<open>A digest: an even number of lower-case hexadecimal digits.\<close>

fun is_digest :: "string \<Rightarrow> bool" where
  "is_digest (a # b # s) \<longleftrightarrow> is_hex a \<and> is_hex b \<and> lower_char a = a \<and> lower_char b = b \<and> is_digest s"
| "is_digest s \<longleftrightarrow> s = []"

lemma hex_bytes_digest: "is_digest e \<Longrightarrow> 2 * length (hex_bytes e) = length e"
  by (induction e rule: is_digest.induct) auto

lemma hex_value_small: "is_hex c \<Longrightarrow> hex_value c < 16"
  by (auto simp: is_hex_def hex_value_def is_digit_def)

lemma hex_bytes_same:
  assumes "is_digest e"
  shows "hex_bytes s = hex_bytes e \<longleftrightarrow> to_lower (take (length e) s) = e \<and> hex_bytes (drop (length e) s) = []"
  using assms
proof (induction e arbitrary: s rule: is_digest.induct)
  case (1 a b e)
  then have h: "is_hex a" "is_hex b" "lower_char a = a" "lower_char b = b" "is_digest e" by auto
  show ?case
  proof (cases s rule: hex_bytes.cases)
    case (1 x y t)
    have "hex_bytes (x # y # t) = hex_bytes (a # b # e) \<longleftrightarrow>
        is_hex x \<and> is_hex y \<and> 16 * hex_value x + hex_value y = 16 * hex_value a + hex_value b \<and> hex_bytes t = hex_bytes e"
      using h by auto
    also have "\<dots> \<longleftrightarrow> lower_char x = a \<and> lower_char y = b \<and> hex_bytes t = hex_bytes e"
    proof -
      have "is_hex x \<and> is_hex y \<and> 16 * hex_value x + hex_value y = 16 * hex_value a + hex_value b \<longleftrightarrow>
          lower_char x = a \<and> lower_char y = b"
      proof
        assume l: "is_hex x \<and> is_hex y \<and> 16 * hex_value x + hex_value y = 16 * hex_value a + hex_value b"
        with h hex_value_small [of y] hex_value_small [of b]
        have "16 * hex_value x + hex_value y = 16 * hex_value a + hex_value b" "hex_value y < 16" "hex_value b < 16"
          by blast+
        then have "hex_value x = hex_value a" by linarith
        with \<open>16 * hex_value x + hex_value y = _\<close> have "hex_value y = hex_value b" by simp
        with \<open>hex_value x = hex_value a\<close> l h hex_value_lower [of x a] hex_value_lower [of y b] show "lower_char x = a \<and> lower_char y = b" by simp
      next
        assume "lower_char x = a \<and> lower_char y = b"
        with h lower_hex [of x] lower_hex [of y]
        show "is_hex x \<and> is_hex y \<and> 16 * hex_value x + hex_value y = 16 * hex_value a + hex_value b" by auto
      qed
      then show ?thesis by blast
    qed
    finally show ?thesis using 1 "1.IH" [OF h(5), of t] by (auto simp: to_lower_def)
  qed (use h in \<open>auto simp: to_lower_def\<close>)
qed (auto simp: to_lower_def)

text \<open>
  Which signatures a webhook with HMAC validation accepts. With the digest of the body under the
  configured secret, a request passes exactly when the configured header is there and its value, without the
  configured prefix and padded with zeros to the length of the digest, starts with the digest up to case and goes on
  with no further pair of hexadecimal digits: no request without the digest passes, but the zeros a
  digest ends in may be missing and text after it is ignored.
\<close>

theorem webhook_signature_accepted:
  assumes "wc_type c = VT_hmac" and "truthy (wc_secret c)" and "truthy (wc_signatureHeader c)"
    and "expected = hmac_hex (case wc_algorithm c of Some a \<Rightarrow> a | None \<Rightarrow> HA_sha256) (opt_str (wc_secret c)) body"
    and "is_digest expected"
  shows "vr_passed (validate_webhook_request hmac_hex c headers body) \<longleftrightarrow>
    (\<exists>hdr. find_header headers (opt_str (wc_signatureHeader c)) = Some hdr
       \<and> (let padded = pad_end (length expected) CHR ''0'' (received_signature c (kv_value hdr)) in
          to_lower (take (length expected) padded) = expected \<and> hex_bytes (drop (length expected) padded) = []))"
proof -
  have "vr_passed (compare_signature r expected) \<longleftrightarrow> hex_bytes (pad_end (length expected) CHR ''0'' r) = hex_bytes expected"
    for r by (auto simp: compare_signature_def accepted_def refused_def Let_def)
  with assms show ?thesis
    by (auto simp: validate_webhook_request_def refused_def Let_def hex_bytes_same split: option.split)
qed

definition hmac_config :: webhook_config where
  "hmac_config = no_validation\<lparr>wc_type := VT_hmac, wc_secret := Some ''s'', wc_signatureHeader := Some ''X-Sig''\<rparr>"

theorem webhook_signature_accepted_witness:
  "vr_passed (validate_webhook_request (\<lambda>a s b. ''ab00'') hmac_config [kv_pair ''x-sig'' ''AB''] ''{}'')
   \<and> \<not> vr_passed (validate_webhook_request (\<lambda>a s b. ''ab00'') hmac_config [kv_pair ''x-sig'' ''ac''] ''{}'')"
proof -
  let ?h = "\<lambda>a s b. ''ab00'' :: string" and ?n = "Suc (Suc (Suc (Suc 0)))"
  have d: "is_digest ''ab00''" by code_simp
  have pad: "to_lower (take ?n (pad_end ?n CHR ''0'' ''AB'')) = ''ab00''" "hex_bytes (drop ?n (pad_end ?n CHR ''0'' ''AB'')) = []"
    "to_lower (take ?n (pad_end ?n CHR ''0'' ''ac'')) = ''ac00''" by code_simp+
  have find: "find_header [kv_pair ''x-sig'' ''AB''] ''X-Sig'' = Some (kv_pair ''x-sig'' ''AB'')"
    "find_header [kv_pair ''x-sig'' ''ac''] ''X-Sig'' = Some (kv_pair ''x-sig'' ''ac'')" by code_simp+
  show ?thesis
    using webhook_signature_accepted [of hmac_config "''ab00''" ?h "''{}''" "[kv_pair ''x-sig'' ''AB'']"]
      webhook_signature_accepted [of hmac_config "''ab00''" ?h "''{}''" "[kv_pair ''x-sig'' ''ac'']"] d pad find
    by (simp add: hmac_config_def no_validation_def received_signature_def opt_str_def Let_def)
qed

end
