(* ===== verification/OAuth2.thy ===== *)
theory OAuth2
  imports Mock_Store
begin

text \<open>
  packages/server/src/services/oauth2-store.ts, api/handlers/oauth2.ts and api/raw/oauth2-callback.ts: the
  authorization-code flow (start, callback, polling for the result) over a store of pending
  states, and the two flows that only call the token endpoint. What an endpoint answers, the
  random state and setting query parameters of a URL are parameters. A field of an
  answer is an arbitrary JSON value.
\<close>

section \<open>The store\<close>

datatype oauth_status = OS_pending | OS_done | OS_error

record oauth_start_input =
  oi_authUrl :: string
  oi_tokenUrl :: string
  oi_clientId :: string
  oi_clientSecret :: string
  oi_scope :: string
  oi_redirectUri :: string
  oi_pkce :: bool
  oi_codeChallenge :: string
  oi_codeChallengeMethod :: string
  oi_codeVerifier :: string

text \<open>A pending entry carries the input that started it; a terminal one replaces it and has none.\<close>

record oauth_entry =
  oe_status :: oauth_status
  oe_accessToken :: jsval
  oe_refreshToken :: jsval
  oe_tokenType :: jsval
  oe_expiresIn :: jsval
  oe_error :: jsval
  oe_timestamp :: int
  oe_codeVerifier :: "string option"
  oe_input :: "oauth_start_input option"

type_synonym oauth_store = "string \<Rightarrow> oauth_entry option"

definition oauth_set :: "string \<Rightarrow> oauth_entry \<Rightarrow> oauth_store \<Rightarrow> oauth_store" where
  "oauth_set k e s = s(k := Some e)"

definition oauth_get :: "oauth_store \<Rightarrow> string \<Rightarrow> oauth_entry option" where
  "oauth_get s k = s k"

definition oauth_delete :: "string \<Rightarrow> oauth_store \<Rightarrow> oauth_store" where
  "oauth_delete k s = s(k := None)"

definition is_terminal :: "oauth_entry \<Rightarrow> bool" where
  "is_terminal e \<longleftrightarrow> oe_status e = OS_done \<or> oe_status e = OS_error"

definition get_and_delete_if_terminal :: "string \<Rightarrow> oauth_store \<Rightarrow> oauth_entry option \<times> oauth_store" where
  "get_and_delete_if_terminal k s =
     (case oauth_get s k of
        None \<Rightarrow> (None, s)
      | Some e \<Rightarrow> if \<not> is_terminal e then (Some e, s) else (Some e, oauth_delete k s))"

definition error_entry :: "jsval \<Rightarrow> int \<Rightarrow> oauth_entry" where
  "error_entry m now = \<lparr>oe_status = OS_error, oe_accessToken = None, oe_refreshToken = None, oe_tokenType = None,
     oe_expiresIn = None, oe_error = m, oe_timestamp = now, oe_codeVerifier = None, oe_input = None\<rparr>"

section \<open>Starting\<close>

definition auth_query :: "oauth_start_input \<Rightarrow> string \<Rightarrow> (string \<times> string) list" where
  "auth_query i state =
     [(''response_type'', ''code''), (''client_id'', oi_clientId i), (''redirect_uri'', oi_redirectUri i),
      (''state'', state)]
     @ (if oi_scope i \<noteq> [] then [(''scope'', oi_scope i)] else [])
     @ (if oi_pkce i \<and> oi_codeChallenge i \<noteq> []
        then [(''code_challenge'', oi_codeChallenge i),
              (''code_challenge_method'', if oi_codeChallengeMethod i \<noteq> [] then oi_codeChallengeMethod i else ''S256'')]
        else [])"

text \<open>
  \<open>set_params u ps\<close> is the text of \<open>new URL(u)\<close> after \<open>searchParams.set\<close> of the pairs (\<open>None\<close>: it
  raises); \<open>state\<close> is the drawn random value.
\<close>

definition auth_code_start ::
  "(string \<Rightarrow> (string \<times> string) list \<Rightarrow> string option) \<Rightarrow> string \<Rightarrow> oauth_start_input \<Rightarrow> oauth_store
     \<Rightarrow> runtime \<Rightarrow> js_error + ((string \<times> string) \<times> oauth_store \<times> runtime)" where
  "auth_code_start set_params state i s rt =
     (case set_params (oi_authUrl i) (auth_query i state) of
        None \<Rightarrow> Inl (invalid_url (oi_authUrl i))
      | Some u \<Rightarrow>
          (let (now, rt') = read_clock rt in
           Inr ((u, state),
             oauth_set state
               \<lparr>oe_status = OS_pending, oe_accessToken = None, oe_refreshToken = None, oe_tokenType = None,
                oe_expiresIn = None, oe_error = None, oe_timestamp = now,
                oe_codeVerifier = (if oi_pkce i then Some (oi_codeVerifier i) else None), oe_input = Some i\<rparr> s,
             rt')))"

definition auth_code_result :: "string \<Rightarrow> oauth_store \<Rightarrow> oauth_entry option \<times> oauth_store" where
  "auth_code_result k s = get_and_delete_if_terminal k s"

section \<open>The callback\<close>

definition escape_html :: "string \<Rightarrow> string" where
  "escape_html v =
     replace_all [squote] ''&#39;''
       (replace_all [dquote] ''&quot;'' (replace_all ''>'' ''&gt;'' (replace_all ''<'' ''&lt;''
         (replace_all ''&'' ''&amp;'' v))))"

record token_request =
  tq_url :: "string option"
  tq_body :: "(string \<times> string) list"
  tq_authorization :: "string option"

definition undefined_text :: "string option \<Rightarrow> string" where
  "undefined_text v = (case v of Some t \<Rightarrow> t | None \<Rightarrow> ''undefined'')"

definition basic_credentials :: "string \<Rightarrow> string \<Rightarrow> string" where
  "basic_credentials u p = ''Basic '' @ btoa (u @ '':'' @ p)"

definition exchange_request :: "oauth_entry \<Rightarrow> string \<Rightarrow> token_request" where
  "exchange_request e code =
     (let i = oe_input e in
      \<lparr>tq_url = map_option oi_tokenUrl i,
       tq_body =
         [(''grant_type'', ''authorization_code''), (''code'', code),
          (''redirect_uri'', opt_str (map_option oi_redirectUri i)), (''client_id'', opt_str (map_option oi_clientId i))]
         @ (if truthy (map_option oi_clientSecret i) then [(''client_secret'', opt_str (map_option oi_clientSecret i))] else [])
         @ (if map_option oi_pkce i = Some True \<and> truthy (oe_codeVerifier e)
            then [(''code_verifier'', opt_str (oe_codeVerifier e))] else []),
       tq_authorization = Some (basic_credentials (undefined_text (map_option oi_clientId i))
                                  (undefined_text (map_option oi_clientSecret i)))\<rparr>)"

definition nullish_or :: "jsval \<Rightarrow> json \<Rightarrow> json" where
  "nullish_or v d = (case v of None \<Rightarrow> d | Some JNull \<Rightarrow> d | Some j \<Rightarrow> j)"

definition page :: "int \<Rightarrow> string \<Rightarrow> http_response" where
  "page status body = \<lparr>hp_status = status, hp_headers = [], hp_body = body\<rparr>"

definition close_note :: string where
  "close_note = ''<p>You can close this window.</p>''"

definition success_page :: string where
  "success_page = ''<!DOCTYPE html><html><head><title>Authorization Successful</title></head><body style='' @ [dquote]
     @ ''font-family:sans-serif;padding:2rem;text-align:center'' @ [dquote]
     @ ''><h2>Authorization Successful</h2><p>You can close this window and return to invoke.</p><script>window.close();</script></body></html>''"

text \<open>
  What the token endpoint gave: the text of the failure, or whether the status was a success and the
  body. \<open>finish_exchange\<close> is the handler after the call. An exception leaves the store as
  it is at that point.
\<close>

definition finish_exchange ::
  "host \<Rightarrow> string \<Rightarrow> string + (bool \<times> string) \<Rightarrow> oauth_store \<Rightarrow> runtime
     \<Rightarrow> (js_error + http_response) \<times> oauth_store \<times> runtime" where
  "finish_exchange h state exchanged s rt =
     (let (now, rt') = read_clock rt in
      case exchanged of
        Inl cause \<Rightarrow>
          (Inr (page 200 (''<h3>Error: '' @ escape_html cause @ ''</h3>'' @ close_note)),
           oauth_set state (error_entry (Some (JStr cause)) now) s, rt')
      | Inr (success, body) \<Rightarrow>
          (case json_parse body of
             None \<Rightarrow> (Inl (syntax_error h body), s, rt)
           | Some JNull \<Rightarrow> (Inl (type_error ''Cannot read properties of null''), s, rt)
           | Some payload \<Rightarrow>
               (let err = json_field payload ''error'' in
                if \<not> success \<or> json_truthy err
                then
                  (case nullish_or err (JStr body) of
                     JStr t \<Rightarrow> Inr (page 200 (''<h3>Token exchange failed</h3><pre>'' @ escape_html t @ ''</pre>'' @ close_note))
                   | _ \<Rightarrow> Inl (type_error ''value.replace is not a function''),
                   oauth_set state (error_entry (if json_truthy err then err else Some (JStr body)) now) s, rt')
                else
                  (Inr (page 200 success_page),
                   oauth_set state
                     \<lparr>oe_status = OS_done, oe_accessToken = json_field payload ''access_token'',
                      oe_refreshToken = json_field payload ''refresh_token'',
                      oe_tokenType = Some (nullish_or (json_field payload ''token_type'') (JStr ''Bearer'')),
                      oe_expiresIn = json_field payload ''expires_in'', oe_error = None, oe_timestamp = now,
                      oe_codeVerifier = None, oe_input = None\<rparr> s, rt'))))"

definition oauth2_callback ::
  "host \<Rightarrow> (token_request \<Rightarrow> string + (bool \<times> string)) \<Rightarrow> query_pairs \<Rightarrow> oauth_store \<Rightarrow> runtime
     \<Rightarrow> (js_error + http_response) \<times> oauth_store \<times> runtime" where
  "oauth2_callback h exchange query s rt =
     (let code = map_of query ''code''; state = map_of query ''state''; err = map_of query ''error'' in
      if \<not> truthy state then (Inr (page 400 ''<h3>Error: missing state parameter</h3>''), s, rt)
      else case oauth_get s (opt_str state) of
          None \<Rightarrow> (Inr (page 400 ''<h3>Error: unknown state</h3>''), s, rt)
        | Some pending \<Rightarrow>
            (if truthy err
             then (let (now, rt') = read_clock rt in
                   (Inr (page 200 (''<h3>Authorization failed: '' @ escape_html (opt_str err) @ ''</h3>'' @ close_note)),
                    oauth_set (opt_str state) (error_entry (Some (JStr (opt_str err))) now) s, rt'))
             else if \<not> truthy code
             then (let (now, rt') = read_clock rt in
                   (Inr (page 200 ''<h3>Error: missing authorization code</h3>''),
                    oauth_set (opt_str state) (error_entry (Some (JStr ''missing code'')) now) s, rt'))
             else finish_exchange h (opt_str state) (exchange (exchange_request pending (opt_str code))) s rt))"

section \<open>Flows without a state\<close>

record token_response =
  to_ok :: bool
  to_status :: int
  to_statusText :: string
  to_text :: string

record token_result =
  tk_accessToken :: jsval
  tk_refreshToken :: jsval
  tk_tokenType :: jsval
  tk_expiresIn :: jsval
  tk_error :: jsval

datatype token_answer = Token token_result | Token_failed string int

definition client_authorization :: "string \<Rightarrow> string \<Rightarrow> string option" where
  "client_authorization cid secret =
     (if cid \<noteq> [] \<or> secret \<noteq> [] then Some (basic_credentials cid secret) else None)"

text \<open>Both handlers read the answer alike, but only a refresh passes the refresh token on.\<close>

definition read_token :: "host \<Rightarrow> bool \<Rightarrow> token_response \<Rightarrow> js_error + token_answer" where
  "read_token h with_refresh r =
     (if \<not> to_ok r
      then Inr (Token_failed (if to_text r \<noteq> [] then to_text r else to_statusText r) (to_status r))
      else case json_parse (to_text r) of
          None \<Rightarrow> Inl (syntax_error h (to_text r))
        | Some JNull \<Rightarrow> Inl (type_error ''Cannot read properties of null'')
        | Some j \<Rightarrow>
            Inr (Token \<lparr>tk_accessToken = json_field j ''access_token'',
              tk_refreshToken = (if with_refresh then json_field j ''refresh_token'' else None),
              tk_tokenType = Some (nullish_or (json_field j ''token_type'') (JStr ''Bearer'')),
              tk_expiresIn = json_field j ''expires_in'', tk_error = json_field j ''error''\<rparr>))"

definition client_credentials ::
  "host \<Rightarrow> (token_request \<Rightarrow> token_response) \<Rightarrow> string \<Rightarrow> string \<Rightarrow> string \<Rightarrow> string \<Rightarrow> js_error + token_answer" where
  "client_credentials h fetch token_url cid secret scope =
     read_token h False
       (fetch \<lparr>tq_url = Some token_url,
               tq_body = (''grant_type'', ''client_credentials'')
                 # (if trim scope \<noteq> [] then [(''scope'', trim scope)] else []),
               tq_authorization = client_authorization cid secret\<rparr>)"

definition refresh_token ::
  "host \<Rightarrow> (token_request \<Rightarrow> token_response) \<Rightarrow> string \<Rightarrow> string \<Rightarrow> string \<Rightarrow> string \<Rightarrow> js_error + token_answer" where
  "refresh_token h fetch token_url cid secret token =
     read_token h True
       (fetch \<lparr>tq_url = Some token_url,
               tq_body = [(''grant_type'', ''refresh_token''), (''refresh_token'', token)],
               tq_authorization = client_authorization cid secret\<rparr>)"

section \<open>Delivering a result once\<close>

interpretation oauth_table: key_table oauth_get oauth_set oauth_delete
  by unfold_locales (simp_all add: oauth_get_def oauth_set_def oauth_delete_def)

text \<open>The atomic operations other requests may run in between.\<close>

datatype oauth_op = Op_set string oauth_entry | Op_delete string | Op_take string

fun run_op :: "oauth_op \<Rightarrow> oauth_store \<Rightarrow> oauth_store" where
  "run_op (Op_set k e) s = oauth_set k e s"
| "run_op (Op_delete k) s = oauth_delete k s"
| "run_op (Op_take k) s = snd (get_and_delete_if_terminal k s)"

fun sets_key :: "string \<Rightarrow> oauth_op \<Rightarrow> bool" where
  "sets_key k (Op_set j e) = (j = k)"
| "sets_key k _ = False"

lemma take_lookup:
  "oauth_get (snd (get_and_delete_if_terminal k s)) j =
     (case oauth_get s j of Some e \<Rightarrow> if j = k \<and> is_terminal e then None else Some e | None \<Rightarrow> None)"
  by (auto simp: get_and_delete_if_terminal_def oauth_table.lookup_delete split: option.split)

lemma ops_keep_absent:
  assumes "oauth_get s k = None" and "\<not> list_ex (sets_key k) ops"
  shows "oauth_get (fold run_op ops s) k = None"
  using assms
proof (induction ops arbitrary: s)
  case Nil
  then show ?case by simp
next
  case (Cons p ops)
  then have "oauth_get (run_op p s) k = None"
    by (cases p) (auto simp: oauth_table.lookup_store oauth_table.lookup_delete take_lookup)
  with Cons show ?case by simp
qed

text \<open>
  C13: The result of an authorization is handed out once: when polling returns a terminal entry,
  every later poll for that state finds nothing, whatever other operations run in between, until
  the state is set again; polling a pending entry returns it and changes nothing.
\<close>

theorem oauth_result_once:
  assumes "auth_code_result k s = (Some e, s')"
  shows "if is_terminal e
    then (\<forall>ops. \<not> list_ex (sets_key k) ops \<longrightarrow> fst (auth_code_result k (fold run_op ops s')) = None)
    else s' = s"
proof (cases "is_terminal e")
  case True
  from assms True have "oauth_get s' k = None"
    using take_lookup [of k s k] by (auto simp: auth_code_result_def get_and_delete_if_terminal_def split: option.splits)
  with True ops_keep_absent show ?thesis
    by (auto simp: auth_code_result_def get_and_delete_if_terminal_def)
next
  case False
  with assms show ?thesis
    by (auto simp: auth_code_result_def get_and_delete_if_terminal_def split: option.splits if_splits)
qed

theorem oauth_result_once_witness:
  "fst (auth_code_result ''s'' (fold run_op [Op_take ''t'', Op_set ''u'' (error_entry None 1)]
     (snd (auth_code_result ''s'' (oauth_set ''s'' (error_entry None 0) (\<lambda>k. None)))))) = None"
proof -
  let ?e = "error_entry None 0" and ?s = "oauth_set ''s'' (error_entry None 0) (\<lambda>k. None)"
  have t: "is_terminal ?e" by (simp add: is_terminal_def error_entry_def)
  then have r: "auth_code_result ''s'' ?s = (Some ?e, oauth_delete ''s'' ?s)"
    by (simp add: auth_code_result_def get_and_delete_if_terminal_def)
  have "\<not> list_ex (sets_key ''s'') [Op_take ''t'', Op_set ''u'' (error_entry None 1)]" by simp
  with oauth_result_once [OF r] t r show ?thesis by (metis snd_conv)
qed

text \<open>
  What the callback does to the store: an unknown or missing state is answered with 400 and
  changes nothing; for a known state it touches no other state, and the state is terminal afterwards
  unless the token endpoint answered something that is no JSON or null: then the handler raises and the
  state stays as it was, so that polling goes on for ever.
\<close>

theorem oauth_callback_outcome:
  assumes "oauth2_callback h exchange query s rt = (out, s', rt')"
    and "map_of query ''state'' = Some k" and "k \<noteq> []"
  shows "(oauth_get s k = None \<longrightarrow> s' = s \<and> (\<exists>p. out = Inr p \<and> hp_status p = 400))
    \<and> (\<forall>j. j \<noteq> k \<longrightarrow> oauth_get s' j = oauth_get s j)
    \<and> (oauth_get s k \<noteq> None \<longrightarrow>
         (\<exists>e. oauth_get s' k = Some e \<and> is_terminal e)
         \<or> (s' = s \<and> (\<exists>x. out = Inl x)
            \<and> (\<exists>e code ok body. oauth_get s k = Some e \<and> exchange (exchange_request e code) = Inr (ok, body)
                 \<and> json_parse body \<in> {None, Some JNull})))"
proof -
  have term_simps: "is_terminal (error_entry m now)" for m now
    by (simp add: is_terminal_def error_entry_def)
  have fin: "(\<forall>j. j \<noteq> k \<longrightarrow> oauth_get (fst (snd (finish_exchange h k x s rt))) j = oauth_get s j)
      \<and> ((\<exists>e. oauth_get (fst (snd (finish_exchange h k x s rt))) k = Some e \<and> is_terminal e)
         \<or> (fst (snd (finish_exchange h k x s rt)) = s \<and> (\<exists>er. fst (finish_exchange h k x s rt) = Inl er)
            \<and> (\<exists>ok body. x = Inr (ok, body) \<and> json_parse body \<in> {None, Some JNull})))" for x
  proof (cases x)
    case (Inl cause)
    then show ?thesis
      by (simp add: finish_exchange_def case_prod_beta Let_def oauth_table.lookup_store term_simps)
  next
    case (Inr p)
    obtain ok body where p: "p = (ok, body)" by fastforce
    show ?thesis
    proof (cases "json_parse body")
      case None
      with Inr p show ?thesis by (simp add: finish_exchange_def case_prod_beta Let_def)
    next
      case (Some j)
      with Inr p show ?thesis
        by (cases j; cases "\<not> ok \<or> json_truthy (json_field j ''error'')")
          (auto simp: finish_exchange_def case_prod_beta Let_def oauth_table.lookup_store is_terminal_def error_entry_def)
    qed
  qed
  show ?thesis
  proof (cases "oauth_get s k")
    case None
    with assms show ?thesis by (auto simp: oauth2_callback_def page_def opt_str_def Let_def)
  next
    case (Some e)
    let ?err = "map_of query ''error''" and ?code = "map_of query ''code''"
    consider "truthy ?err" | "\<not> truthy ?err" "\<not> truthy ?code" | "\<not> truthy ?err" "truthy ?code" by blast
    then show ?thesis
    proof cases
      case 3
      then have f: "(out, s', rt') = finish_exchange h k (exchange (exchange_request e (opt_str ?code))) s rt"
        using assms Some by (simp add: oauth2_callback_def opt_str_def Let_def)
      then have "out = fst (finish_exchange h k (exchange (exchange_request e (opt_str ?code))) s rt)"
        "s' = fst (snd (finish_exchange h k (exchange (exchange_request e (opt_str ?code))) s rt))"
        by (metis fst_conv, metis fst_conv snd_conv)
      with fin [of "exchange (exchange_request e (opt_str ?code))"] Some show ?thesis by auto
    qed (use assms Some in \<open>auto simp: oauth2_callback_def opt_str_def case_prod_beta Let_def
          oauth_table.lookup_store term_simps\<close>)
  qed
qed

theorem oauth_callback_outcome_witness:
  "\<exists>out s' rt'. oauth2_callback sample_host (\<lambda>q. Inr (True, ''<html>'')) [(''state'', ''s''), (''code'', ''c'')]
       (oauth_set ''s'' (error_entry None 0) (\<lambda>k. None)) sample_runtime = (out, s', rt')
     \<and> oauth_get s' ''t'' = None"
proof -
  obtain out s' rt' where r: "oauth2_callback sample_host (\<lambda>q. Inr (True, ''<html>'')) [(''state'', ''s''), (''code'', ''c'')]
       (oauth_set ''s'' (error_entry None 0) (\<lambda>k. None)) sample_runtime = (out, s', rt')"
    by (metis prod.exhaust)
  from oauth_callback_outcome [OF r, of "''s''"] have "oauth_get s' ''t'' = None"
    by (simp add: oauth_table.lookup_store) (simp add: oauth_get_def)
  with r show ?thesis by blast
qed

end
