(* ===== verification/Proxy_Records.thy ===== *)
theory Proxy_Records
  imports Mock_Store
begin

text \<open>
  packages/server/src/services/proxy-record-store.ts and api/handlers/proxy.ts: forwarding a
  request, recording what was answered, and turning records into mock routes. Fetching is a parameter;
  the headers of an answer are listed as iterating over them gives them.
\<close>

section \<open>The store\<close>

definition max_proxy_records :: nat where "max_proxy_records = 500"

type_synonym proxy_store = "proxy_record list"

definition append_record :: "proxy_record \<Rightarrow> proxy_store \<Rightarrow> proxy_store" where
  "append_record e s = take max_proxy_records (e # s)"

definition list_records :: "proxy_store \<Rightarrow> proxy_record list" where
  "list_records s = s"

definition clear_records :: "proxy_store \<Rightarrow> proxy_store" where
  "clear_records s = []"

definition select_by_ids :: "string list option \<Rightarrow> proxy_store \<Rightarrow> proxy_record list" where
  "select_by_ids ids s = (case ids of Some is \<Rightarrow> filter (\<lambda>r. pr_id r \<in> set is) s | None \<Rightarrow> s)"

interpretation proxy_log: clearable_log append_record list_records max_proxy_records clear_records
  by unfold_locales (simp_all add: append_record_def list_records_def clear_records_def)

section \<open>The handler\<close>

record proxy_input =
  pi_targetUrl :: string
  pi_method :: string
  pi_headers :: "key_value list"
  pi_body :: string

record fetch_options =
  fe_method :: string
  fe_headers :: "string obj"
  fe_body :: "string option"

record fetch_response =
  fp_status :: int
  fp_statusText :: string
  fp_headers :: "(string \<times> string) list"
  fp_text :: string

datatype proxy_answer =
    Proxied int string "key_value list" string string
  | Proxy_failed string

definition max_proxy_body :: int where "max_proxy_body = 10 * 1024 * 1024"

definition proxy_fetch_options :: "proxy_input \<Rightarrow> fetch_options" where
  "proxy_fetch_options i =
     \<lparr>fe_method = pi_method i,
      fe_headers = fold (\<lambda>hdr ob. if kv_enabled hdr \<noteq> Some False \<and> kv_key hdr \<noteq> []
                               then obj_assign (kv_key hdr) (kv_value hdr) ob else ob) (pi_headers i) [],
      fe_body = (if pi_body i \<noteq> [] \<and> pi_method i \<noteq> ''GET'' \<and> pi_method i \<noteq> ''HEAD''
                 then Some (pi_body i) else None)\<rparr>"

definition hop_headers :: "string list" where
  "hop_headers = [''content-encoding'', ''transfer-encoding'', ''connection'']"

definition forwarded_headers :: "(string \<times> string) list \<Rightarrow> key_value list" where
  "forwarded_headers hs = map (\<lambda>(k, v). kv_pair k v) (filter (\<lambda>(k, v). to_lower k \<notin> set hop_headers) hs)"

definition header_length_over :: "(string \<times> string) list \<Rightarrow> int \<Rightarrow> bool" where
  "header_length_over hs limit =
     num_less (Fin (of_int limit))
       (case map_of hs ''content-length'' of Some v \<Rightarrow> string_to_number v | None \<Rightarrow> Fin 0)"

definition proxy_request ::
  "host \<Rightarrow> (string \<Rightarrow> fetch_options \<Rightarrow> string + fetch_response) \<Rightarrow> proxy_input \<Rightarrow> proxy_store \<Rightarrow> runtime
     \<Rightarrow> js_error + (proxy_answer \<times> proxy_store \<times> runtime)" where
  "proxy_request h fetch i s rt =
     (case fetch (pi_targetUrl i) (proxy_fetch_options i) of
        Inl e \<Rightarrow> Inr (Proxy_failed (''Proxy fetch failed: '' @ e), s, rt)
      | Inr res \<Rightarrow>
          (if header_length_over (fp_headers res) max_proxy_body \<or> max_proxy_body < int (length (fp_text res))
           then Inr (Proxy_failed ''Response body exceeds 10 MB limit'', s, rt)
           else case ho_url h (pi_targetUrl i) of
               None \<Rightarrow> Inl (invalid_url (pi_targetUrl i))
             | Some u \<Rightarrow>
                 (let (uid, rt1) = draw_uuid rt; (now, rt2) = read_clock rt1;
                      headers = forwarded_headers (fp_headers res);
                      entry = \<lparr>pr_id = uid, pr_method = pi_method i, pr_path = up_pathname u @ up_search u,
                               pr_requestHeaders = filter (\<lambda>hdr. kv_enabled hdr \<noteq> Some False \<and> kv_key hdr \<noteq> []) (pi_headers i),
                               pr_requestBody = pi_body i, pr_status = fp_status res,
                               pr_responseHeaders = headers, pr_responseBody = fp_text res, pr_createdAt = now\<rparr> in
                  Inr (Proxied (fp_status res) (fp_statusText res) headers (fp_text res) uid,
                       append_record entry s, rt2))))"

definition records_to_mocks ::
  "string list option \<Rightarrow> proxy_store \<Rightarrow> mock_state \<Rightarrow> runtime
     \<Rightarrow> ((nat \<times> mock_route list) \<times> mock_state) \<times> runtime" where
  "records_to_mocks ids s ms rt = proxy_import (select_by_ids ids s) ms rt"

section \<open>Recorded traffic as mocks\<close>

lemma import_fresh:
  "\<exists>us rt'. length us = length records
     \<and> fold (\<lambda>r (acc, t). let (u, t') = draw_uuid t in (acc @ [route_of_record r u], t')) records (acc, rt)
         = (acc @ map2 route_of_record records us, rt')"
proof (induction records arbitrary: acc rt)
  case Nil
  then show ?case by simp
next
  case (Cons r records)
  obtain u t where d: "draw_uuid rt = (u, t)" by fastforce
  from Cons [of "acc @ [route_of_record r u]" t] obtain us rt' where
    "length us = length records"
    "fold (\<lambda>r (acc, t). let (u, t') = draw_uuid t in (acc @ [route_of_record r u], t')) records (acc @ [route_of_record r u], t)
       = (acc @ route_of_record r u # map2 route_of_record records us, rt')" by auto
  with d show ?case by (intro exI [of _ "u # us"] exI [of _ rt']) simp
qed

lemma proxy_import_routes:
  assumes "proxy_import records s rt = (((n, merged), s'), rt')"
  shows "\<exists>us. length us = length records \<and> n = length records \<and> ms_routes s' = merged
    \<and> merged = filter (\<lambda>route. \<not> list_ex (\<lambda>f. mr_method f = mr_method route \<and> mr_pathPattern f = mr_pathPattern route
          \<and> opt_rows (mr_conditions route) = []) (map2 route_of_record records us)) (ms_routes s)
        @ map2 route_of_record records us"
proof -
  obtain us t where us: "length us = length records"
    "fold (\<lambda>r (acc, t). let (u, t') = draw_uuid t in (acc @ [route_of_record r u], t')) records ([], rt)
       = (map2 route_of_record records us, t)"
    using import_fresh [of records "[]" rt] by auto
  with assms show ?thesis by (intro exI [of _ us]) (auto simp: proxy_import_def Let_def)
qed

text \<open>
  Turning recorded traffic into mocks: every selected record becomes one unconditional, enabled route with the
  status, headers and body it was answered with; a route that was there before stays in front of them exactly when it has conditions or no
  record has its method and path; and every sequence starts again.
\<close>

theorem records_become_routes:
  assumes "records_to_mocks ids store s rt = (((n, merged), s'), rt')"
  shows "ms_routes s' = merged \<and> n = length (select_by_ids ids store) \<and> (\<forall>i. item_index s' i = 0)
    \<and> (\<exists>kept fresh. merged = kept @ fresh \<and> length fresh = n
        \<and> map (\<lambda>f. (mr_status f, mr_headers f, mr_body f)) fresh
            = map (\<lambda>r. (pr_status r, pr_responseHeaders r, pr_responseBody r)) (select_by_ids ids store)
        \<and> (\<forall>f \<in> set fresh. mr_enabled f = Some True \<and> mr_conditions f = None \<and> mr_method f \<in> set valid_methods)
        \<and> set kept = {route \<in> set (ms_routes s). opt_rows (mr_conditions route) \<noteq> []
              \<or> (\<forall>f \<in> set fresh. (mr_method f, mr_pathPattern f) \<noteq> (mr_method route, mr_pathPattern route))})"
proof -
  let ?rs = "select_by_ids ids store"
  obtain us where us: "length us = length ?rs" "n = length ?rs" "ms_routes s' = merged"
    "merged = filter (\<lambda>route. \<not> list_ex (\<lambda>f. mr_method f = mr_method route \<and> mr_pathPattern f = mr_pathPattern route
          \<and> opt_rows (mr_conditions route) = []) (map2 route_of_record ?rs us)) (ms_routes s)
        @ map2 route_of_record ?rs us"
    using proxy_import_routes [OF assms [unfolded records_to_mocks_def]] by blast
  have idx: "item_index s' i = 0" for i
    using assms by (auto simp: records_to_mocks_def proxy_import_def Let_def case_prod_beta item_index_def)
  have f: "mr_status (route_of_record r u) = pr_status r" "mr_headers (route_of_record r u) = pr_responseHeaders r"
    "mr_body (route_of_record r u) = pr_responseBody r" "mr_enabled (route_of_record r u) = Some True"
    "mr_conditions (route_of_record r u) = None" "mr_method (route_of_record r u) \<in> set valid_methods" for r u
    by (auto simp: route_of_record_def Let_def valid_methods_def)
  have m: "map (\<lambda>f. (mr_status f, mr_headers f, mr_body f)) (map2 route_of_record rs vs) =
      map (\<lambda>r. (pr_status r, pr_responseHeaders r, pr_responseBody r)) rs" if "length vs = length rs" for rs vs
    using that by (induction rs vs rule: list_induct2') (simp_all add: f)
  have all: "mr_enabled x = Some True \<and> mr_conditions x = None \<and> mr_method x \<in> set valid_methods"
    if "x \<in> set (map2 route_of_record ?rs us)" for x
    using that f by (auto dest!: set_zip_leftD)
  show ?thesis
    using us idx m [OF us(1)] all
    by (intro conjI exI [of _ "filter (\<lambda>route. \<not> list_ex (\<lambda>f. mr_method f = mr_method route \<and> mr_pathPattern f = mr_pathPattern route
          \<and> opt_rows (mr_conditions route) = []) (map2 route_of_record ?rs us)) (ms_routes s)"]
        exI [of _ "map2 route_of_record ?rs us"]) (auto simp: list_ex_iff)
qed

definition sample_record :: proxy_record where
  "sample_record = \<lparr>pr_id = ''r'', pr_method = ''get'', pr_path = ''/x?y=1'', pr_requestHeaders = [],
     pr_requestBody = [], pr_status = 201, pr_responseHeaders = [], pr_responseBody = ''ok'', pr_createdAt = 0\<rparr>"

theorem records_become_routes_witness:
  "\<exists>n merged s' rt'. records_to_mocks None [sample_record] mock_empty sample_runtime = (((n, merged), s'), rt')
     \<and> n = 1 \<and> length merged \<ge> 1"
proof -
  obtain n merged s' rt' where r: "records_to_mocks None [sample_record] mock_empty sample_runtime = (((n, merged), s'), rt')"
    by (metis prod.exhaust)
  from records_become_routes [OF r] have "n = 1 \<and> length merged \<ge> 1" by (auto simp: select_by_ids_def)
  with r show ?thesis by blast
qed

end
