(* ===== verification/Rate_Limit.thy ===== *)
theory Rate_Limit
  imports Js_Host Interfaces
begin

text \<open>
  packages/server/src/services/rate-limiter.ts and middleware/rate-limit.ts: token buckets, one for each
  client. Time is in seconds as a rational (the clock's milliseconds divided by 1000); tokens are
  rationals where the code has doubles.
\<close>

section \<open>Checking a client\<close>

record rate_limit_config =
  rl_maxTokens :: rat
  rl_refillRate :: rat

record bucket =
  bk_tokens :: rat
  bk_last :: rat

type_synonym buckets = "string \<Rightarrow> bucket option"

datatype check_result = Allowed | Limited int

definition refilled :: "rate_limit_config \<Rightarrow> rat \<Rightarrow> bucket option \<Rightarrow> bucket" where
  "refilled cfg now existing =
     (case existing of
        Some b \<Rightarrow>
          \<lparr>bk_tokens = min (rl_maxTokens cfg) (bk_tokens b + (now - bk_last b) * rl_refillRate cfg), bk_last = now\<rparr>
      | None \<Rightarrow> \<lparr>bk_tokens = rl_maxTokens cfg, bk_last = now\<rparr>)"

definition rate_check :: "string \<Rightarrow> rate_limit_config \<Rightarrow> int \<Rightarrow> buckets \<Rightarrow> check_result \<times> buckets" where
  "rate_check key cfg now_ms s =
     (let now = of_int now_ms / 1000; b = refilled cfg now (s key) in
      if bk_tokens b < 1
      then (Limited \<lceil>(1 - bk_tokens b) / rl_refillRate cfg * 1000\<rceil>, s(key := Some b))
      else (Allowed, s(key := Some (b\<lparr>bk_tokens := bk_tokens b - 1\<rparr>))))"

text \<open>The client of a request: the first forwarded address, the real one, or a shared name.\<close>

definition client_key :: "string obj \<Rightarrow> string" where
  "client_key headers =
     (case obj_own headers ''x-forwarded-for'' of
        Some v \<Rightarrow> trim (split_on CHR '','' v ! 0)
      | None \<Rightarrow> (case obj_own headers ''x-real-ip'' of Some v \<Rightarrow> v | None \<Rightarrow> ''unknown''))"

definition execute_limit :: rate_limit_config where
  "execute_limit = \<lparr>rl_maxTokens = 60, rl_refillRate = 1\<rparr>"

definition ws_connect_limit :: rate_limit_config where
  "ws_connect_limit = \<lparr>rl_maxTokens = 20, rl_refillRate = 2\<rparr>"

definition grpc_limit :: rate_limit_config where
  "grpc_limit = \<lparr>rl_maxTokens = 40, rl_refillRate = 2\<rparr>"

definition rate_limit_request :: "rate_limit_config \<Rightarrow> string obj \<Rightarrow> int \<Rightarrow> buckets \<Rightarrow> check_result \<times> buckets" where
  "rate_limit_request cfg headers now_ms s = rate_check (client_key headers) cfg now_ms s"

section \<open>Runs of one limiter\<close>

text \<open>The checks of a limiter, in the order the clock gave them: client and time in milliseconds.\<close>

fun run_checks :: "rate_limit_config \<Rightarrow> (string \<times> int) list \<Rightarrow> buckets \<Rightarrow> check_result list \<times> buckets" where
  "run_checks cfg [] s = ([], s)"
| "run_checks cfg ((key, now) # rest) s =
     (let (r, s1) = rate_check key cfg now s; (rs, s2) = run_checks cfg rest s1 in (r # rs, s2))"

definition allowed_for :: "string \<Rightarrow> (string \<times> int) list \<Rightarrow> check_result list \<Rightarrow> nat" where
  "allowed_for key cs rs = length (filter (\<lambda>((k, t), r). k = key \<and> r = Allowed) (zip cs rs))"

definition limit_ok :: "rate_limit_config \<Rightarrow> bool" where
  "limit_ok cfg \<longleftrightarrow> 1 \<le> rl_maxTokens cfg \<and> 0 < rl_refillRate cfg"

definition bucket_ok :: "rate_limit_config \<Rightarrow> rat \<Rightarrow> bucket option \<Rightarrow> bool" where
  "bucket_ok cfg now b \<longleftrightarrow>
     (case b of None \<Rightarrow> True | Some c \<Rightarrow> 0 \<le> bk_tokens c \<and> bk_tokens c \<le> rl_maxTokens cfg \<and> bk_last c \<le> now)"

text \<open>The tokens a client has at a time, as a check at that time would see them.\<close>

definition tokens_at :: "rate_limit_config \<Rightarrow> rat \<Rightarrow> bucket option \<Rightarrow> rat" where
  "tokens_at cfg now b = bk_tokens (refilled cfg now b)"

lemma refilled_ok:
  assumes "limit_ok cfg" and "bucket_ok cfg now b"
  shows "bucket_ok cfg now (Some (refilled cfg now b))"
  using assms by (auto simp: refilled_def bucket_ok_def limit_ok_def split: option.splits)

lemma rate_check_other: "j \<noteq> key \<Longrightarrow> snd (rate_check key cfg now s) j = s j"
  by (simp add: rate_check_def Let_def)

lemma rate_check_ok:
  assumes "limit_ok cfg" and "\<forall>k. bucket_ok cfg (of_int now / 1000) (s k)"
  shows "bucket_ok cfg (of_int now / 1000) (snd (rate_check key cfg now s) k)"
proof (cases "k = key")
  case True
  have "bucket_ok cfg (of_int now / 1000) (Some (refilled cfg (of_int now / 1000) (s key)))"
    using assms by (intro refilled_ok) auto
  with True show ?thesis by (auto simp: rate_check_def Let_def bucket_ok_def)
next
  case False
  with assms show ?thesis by (simp add: rate_check_other)
qed

lemma bucket_ok_later: "bucket_ok cfg t b \<Longrightarrow> t \<le> t' \<Longrightarrow> bucket_ok cfg t' b"
  by (auto simp: bucket_ok_def split: option.splits)

text \<open>Waiting gives at most the refill; a check takes a token exactly when it allows.\<close>

lemma tokens_at_later:
  assumes "limit_ok cfg" and "bucket_ok cfg t b" and "t \<le> t'"
  shows "tokens_at cfg t' b \<le> tokens_at cfg t b + (t' - t) * rl_refillRate cfg"
proof (cases b)
  case None
  with assms show ?thesis by (simp add: tokens_at_def refilled_def limit_ok_def)
next
  case (Some c)
  have "0 \<le> (t' - t) * rl_refillRate cfg" using assms by (simp add: limit_ok_def)
  moreover have "(t' - bk_last c) * rl_refillRate cfg
      = (t - bk_last c) * rl_refillRate cfg + (t' - t) * rl_refillRate cfg"
    by (simp add: algebra_simps)
  ultimately show ?thesis using Some by (simp add: tokens_at_def refilled_def min_def)
qed

lemma tokens_after_check:
  assumes "limit_ok cfg"
  shows "tokens_at cfg (of_int now / 1000) (snd (rate_check key cfg now s) key) =
    tokens_at cfg (of_int now / 1000) (s key) - (if fst (rate_check key cfg now s) = Allowed then 1 else 0)"
proof -
  have "bk_tokens (refilled cfg (of_int now / 1000) (s key)) \<le> rl_maxTokens cfg"
    by (auto simp: refilled_def split: option.split)
  moreover have "bk_last (refilled cfg t b) = t" for t b by (auto simp: refilled_def split: option.split)
  ultimately show ?thesis
    by (auto simp: tokens_at_def rate_check_def Let_def refilled_def [of cfg _ "Some _"] min_def)
qed

lemma tokens_bounds:
  assumes "limit_ok cfg" and "bucket_ok cfg t b"
  shows "0 \<le> tokens_at cfg t b \<and> tokens_at cfg t b \<le> rl_maxTokens cfg"
  using refilled_ok [OF assms] by (simp add: tokens_at_def bucket_ok_def)

lemma run_checks_budget:
  assumes "limit_ok cfg" and "\<forall>k. bucket_ok cfg (of_int t0 / 1000) (s k)"
    and "sorted (t0 # map snd cs)" and "run_checks cfg cs s = (rs, s')"
  shows "(\<forall>k. bucket_ok cfg (of_int (last (t0 # map snd cs)) / 1000) (s' k))
    \<and> rat_of_nat (allowed_for key cs rs) + tokens_at cfg (of_int (last (t0 # map snd cs)) / 1000) (s' key)
        \<le> tokens_at cfg (of_int t0 / 1000) (s key)
          + of_int (last (t0 # map snd cs) - t0) / 1000 * rl_refillRate cfg"
  using assms(2,3,4)
proof (induction cs arbitrary: t0 s rs)
  case Nil
  then show ?case by (simp add: allowed_for_def)
next
  case (Cons c cs)
  obtain k now where c: "c = (k, now)" by fastforce
  obtain r s1 where r: "rate_check k cfg now s = (r, s1)" by fastforce
  obtain rs1 where rs: "run_checks cfg cs s1 = (rs1, s')" "rs = r # rs1"
    using Cons.prems(3) c r by (auto simp: Let_def split: prod.splits)
  let ?T = "rat_of_int now / 1000" and ?S = "rat_of_int t0 / 1000"
  let ?l = "last (now # map snd cs)"
  have le: "t0 \<le> now" "sorted (now # map snd cs)" using Cons.prems(2) c by auto
  then have T: "?S \<le> ?T" by (simp add: divide_right_mono)
  have ok: "\<forall>j. bucket_ok cfg ?T (s j)" using Cons.prems(1) bucket_ok_later [OF _ T] by blast
  have ok1: "\<forall>j. bucket_ok cfg ?T (s1 j)" using rate_check_ok [OF assms(1) ok] r by (metis snd_conv)
  from Cons.IH [OF ok1 le(2) rs(1)] have ih:
    "\<forall>j. bucket_ok cfg (of_int ?l / 1000) (s' j)"
    "rat_of_nat (allowed_for key cs rs1) + tokens_at cfg (of_int ?l / 1000) (s' key)
       \<le> tokens_at cfg ?T (s1 key) + of_int (?l - now) / 1000 * rl_refillRate cfg" by auto
  have a: "allowed_for key (c # cs) rs = (if k = key \<and> r = Allowed then 1 else 0) + allowed_for key cs rs1"
    by (simp add: allowed_for_def c rs(2))
  have s1: "tokens_at cfg ?T (s1 key) = tokens_at cfg ?T (s key) - (if k = key \<and> r = Allowed then 1 else 0)"
    using tokens_after_check [OF assms(1), of now k s] rate_check_other [of key k cfg now s] r
    by (cases "k = key") auto
  have w: "tokens_at cfg ?T (s key) \<le> tokens_at cfg ?S (s key) + (?T - ?S) * rl_refillRate cfg"
    using Cons.prems(1) by (intro tokens_at_later assms(1) T) auto
  have d: "of_int (?l - now) / 1000 * rl_refillRate cfg + (?T - ?S) * rl_refillRate cfg
      = of_int (?l - t0) / 1000 * rl_refillRate cfg"
    by (simp add: algebra_simps diff_divide_distrib)
  have l: "last (t0 # map snd (c # cs)) = ?l" using c by simp
  have n: "rat_of_nat ((if k = key \<and> r = Allowed then 1 else 0) + allowed_for key cs rs1)
      = (if k = key \<and> r = Allowed then 1 else 0) + rat_of_nat (allowed_for key cs rs1)" by simp
  have "rat_of_nat (allowed_for key (c # cs) rs) + tokens_at cfg (of_int ?l / 1000) (s' key)
      \<le> tokens_at cfg ?S (s key) + of_int (?l - t0) / 1000 * rl_refillRate cfg"
    unfolding a n using ih(2) s1 w d by linarith
  with ih(1) show ?case unfolding l by blast
qed



text \<open>
  A client that is turned away and comes back after the announced time, without another of its
  requests in between, is let through.
\<close>

theorem retry_after_suffices:
  assumes "limit_ok cfg" and "bucket_ok cfg (of_int now / 1000) (s key)"
    and "rate_check key cfg now s = (Limited ms, s')" and "now + ms \<le> later" and "s'' key = s' key"
  shows "fst (rate_check key cfg later s'') = Allowed \<and> 0 < ms"
proof -
  let ?b = "refilled cfg (of_int now / 1000) (s key)"
  have low: "bk_tokens ?b < 1" and ms: "ms = \<lceil>(1 - bk_tokens ?b) / rl_refillRate cfg * 1000\<rceil>"
    and s': "s' key = Some ?b"
    using assms(3) by (auto simp: rate_check_def Let_def split: if_splits)
  have last: "bk_last ?b = of_int now / 1000" by (auto simp: refilled_def split: option.split)
  have rate: "0 < rl_refillRate cfg" and size: "1 \<le> rl_maxTokens cfg" using assms(1) by (simp_all add: limit_ok_def)
  let ?x = "(1 - bk_tokens ?b) / rl_refillRate cfg * 1000"
  have pos: "0 < ?x" using low rate by simp
  have "?x \<le> of_int ms" unfolding ms by (rule le_of_int_ceiling)
  also have "\<dots> \<le> of_int (later - now)" using assms(4) by simp
  finally have "(1 - bk_tokens ?b) / rl_refillRate cfg \<le> of_int (later - now) / 1000" by simp
  then have "1 - bk_tokens ?b \<le> of_int (later - now) / 1000 * rl_refillRate cfg"
    using rate by (simp add: pos_divide_le_eq)
  then have "1 \<le> bk_tokens ?b + (of_int later / 1000 - bk_last ?b) * rl_refillRate cfg"
    unfolding last by (simp add: diff_divide_distrib)
  then have "1 \<le> bk_tokens (refilled cfg (of_int later / 1000) (Some ?b))"
    using size by (simp add: refilled_def [of cfg _ "Some _"])
  then have "fst (rate_check key cfg later s'') = Allowed"
    using assms(5) s' by (simp add: rate_check_def Let_def)
  moreover have "0 < ms" unfolding ms using pos by (simp add: less_ceiling_iff)
  ultimately show ?thesis by simp
qed

theorem retry_after_suffices_witness:
  "fst (rate_check ''a'' \<lparr>rl_maxTokens = 1, rl_refillRate = 1\<rparr> 500 (\<lambda>k. Some \<lparr>bk_tokens = 0, bk_last = 0\<rparr>)) = Limited 500
   \<and> fst (rate_check ''a'' \<lparr>rl_maxTokens = 1, rl_refillRate = 1\<rparr> 1000
       (snd (rate_check ''a'' \<lparr>rl_maxTokens = 1, rl_refillRate = 1\<rparr> 500 (\<lambda>k. Some \<lparr>bk_tokens = 0, bk_last = 0\<rparr>)))) = Allowed"
proof -
  let ?cfg = "\<lparr>rl_maxTokens = 1, rl_refillRate = 1\<rparr>" and ?s = "\<lambda>k. Some \<lparr>bk_tokens = 0, bk_last = 0\<rparr>"
  have f: "fst (rate_check ''a'' ?cfg 500 ?s) = Limited 500"
    by (simp add: rate_check_def refilled_def Let_def)
  then have "rate_check ''a'' ?cfg 500 ?s = (Limited 500, snd (rate_check ''a'' ?cfg 500 ?s))"
    by (metis prod.collapse)
  from retry_after_suffices [OF _ _ this, of 1000 "snd (rate_check ''a'' ?cfg 500 ?s)"] f show ?thesis
    by (simp add: limit_ok_def bucket_ok_def)
qed

end
