(* ===== verification/Grpc_Mock.thy ===== *)
theory Grpc_Mock
  imports Js_Runtime Interfaces
begin

text \<open>
  packages/server/src/services/mock-grpc-store.ts: the mock gRPC server. A call runs in two atomic
  updates with a sleep between them: it picks its answer and advances the rotation of its
  method, and later appends its log entry. Calls in flight are part of the state of a step
  relation, so that every interleaving of calls and administration is a run.
\<close>

section \<open>State\<close>

record grpc_mock_response =
  gs_bodyJson :: string
  gs_statusCode :: "int option"
  gs_statusMessage :: "string option"
  gs_trailers :: "(string \<times> string) list option"

record grpc_mock_route =
  gr_fullMethod :: string
  gr_responses :: "grpc_mock_response list"
  gr_latencyMs :: "int option"
  gr_enabled :: "bool option"

record grpc_mock_log =
  gl_id :: string
  gl_fullMethod :: string
  gl_requestBody :: string
  gl_responseBody :: string
  gl_statusCode :: int
  gl_matched :: bool
  gl_createdAt :: int

record grpc_invoke_result =
  gv_bodyJson :: string
  gv_statusCode :: int
  gv_statusMessage :: string
  gv_trailers :: "(string \<times> string) list"
  gv_durationMs :: int
  gv_error :: "string option"

record grpc_decision =
  gd_result :: grpc_invoke_result
  gd_log :: grpc_mock_log
  gd_latencyMs :: int

record grpc_mock_state =
  gt_routes :: "grpc_mock_route list"
  gt_logs :: "grpc_mock_log list"
  gt_sequenceIndex :: "string \<Rightarrow> nat option"

definition grpc_mock_reset :: grpc_mock_state where
  "grpc_mock_reset = \<lparr>gt_routes = [], gt_logs = [], gt_sequenceIndex = (\<lambda>m. None)\<rparr>"

section \<open>Operations\<close>

definition grpc_list_routes :: "grpc_mock_state \<Rightarrow> grpc_mock_route list \<times> grpc_mock_log list" where
  "grpc_list_routes s = (gt_routes s, rev (drop (length (gt_logs s) - 200) (gt_logs s)))"

definition grpc_replace_routes ::
  "grpc_mock_route list \<Rightarrow> grpc_mock_state \<Rightarrow> (grpc_mock_route list \<times> nat) \<times> grpc_mock_state" where
  "grpc_replace_routes routes s =
     (let nxt = map (\<lambda>r. r\<lparr>gr_enabled := Some (case gr_enabled r of Some b \<Rightarrow> b | None \<Rightarrow> True)\<rparr>) routes in
      ((nxt, length nxt), s\<lparr>gt_routes := nxt, gt_sequenceIndex := (\<lambda>m. None)\<rparr>))"

definition grpc_clear_logs :: "grpc_mock_state \<Rightarrow> grpc_mock_state" where
  "grpc_clear_logs s = s\<lparr>gt_logs := []\<rparr>"

definition trim_logs :: "grpc_mock_log list \<Rightarrow> grpc_mock_log list" where
  "trim_logs logs = (if 1000 < length logs then drop (length logs - 1000) logs else logs)"

definition grpc_push_log :: "grpc_mock_log \<Rightarrow> grpc_mock_state \<Rightarrow> grpc_mock_state" where
  "grpc_push_log e s = s\<lparr>gt_logs := trim_logs (gt_logs s @ [e])\<rparr>"

definition grpc_index :: "grpc_mock_state \<Rightarrow> string \<Rightarrow> nat" where
  "grpc_index s m = (case gt_sequenceIndex s m of Some n \<Rightarrow> n | None \<Rightarrow> 0)"

definition grpc_advance :: "string \<Rightarrow> grpc_mock_state \<Rightarrow> grpc_mock_state" where
  "grpc_advance m s = s\<lparr>gt_sequenceIndex := (gt_sequenceIndex s)(m := Some (grpc_index s m + 1))\<rparr>"

definition grpc_route_for :: "grpc_mock_route list \<Rightarrow> string \<Rightarrow> grpc_mock_route option" where
  "grpc_route_for routes m = find (\<lambda>r. gr_enabled r \<noteq> Some False \<and> gr_fullMethod r = m) routes"

definition no_route_message :: "string \<Rightarrow> string" where
  "no_route_message m = ''No mock route for '' @ m"

definition answer_of :: "grpc_mock_route \<Rightarrow> grpc_mock_response \<Rightarrow> grpc_invoke_result" where
  "answer_of r p =
     \<lparr>gv_bodyJson = gs_bodyJson p, gv_statusCode = (case gs_statusCode p of Some c \<Rightarrow> c | None \<Rightarrow> 0),
      gv_statusMessage = (case gs_statusMessage p of Some m \<Rightarrow> m | None \<Rightarrow> ''OK''),
      gv_trailers = (case gs_trailers p of Some t \<Rightarrow> t | None \<Rightarrow> []),
      gv_durationMs = (case gr_latencyMs r of Some l \<Rightarrow> l | None \<Rightarrow> 0), gv_error = None\<rparr>"

text \<open>
  The first update of \<open>invoke\<close>. A route without responses picks \<open>responses[NaN]\<close>, which is
  undefined: reading its body raises inside the update, and the state stays as it was.
\<close>

definition grpc_decide ::
  "string \<Rightarrow> string \<Rightarrow> grpc_mock_state \<Rightarrow> runtime \<Rightarrow> js_error + (grpc_decision \<times> grpc_mock_state \<times> runtime)" where
  "grpc_decide m body s rt =
     (let (u, rt1) = draw_uuid rt; (now, rt2) = read_clock rt1 in
      case grpc_route_for (gt_routes s) m of
        None \<Rightarrow>
          Inr (\<lparr>gd_result = \<lparr>gv_bodyJson = [], gv_statusCode = 12, gv_statusMessage = no_route_message m,
                             gv_trailers = [], gv_durationMs = 0, gv_error = Some (no_route_message m)\<rparr>,
                gd_log = \<lparr>gl_id = u, gl_fullMethod = m, gl_requestBody = body, gl_responseBody = [],
                          gl_statusCode = 12, gl_matched = False, gl_createdAt = now\<rparr>,
                gd_latencyMs = 0\<rparr>, s, rt2)
      | Some r \<Rightarrow>
          (if gr_responses r = []
           then Inl (type_error (''Cannot read properties of undefined (reading '' @ [squote] @ ''bodyJson'' @ [squote] @ '')''))
           else
             (let p = gr_responses r ! (grpc_index s (gr_fullMethod r) mod length (gr_responses r)) in
              Inr (\<lparr>gd_result = answer_of r p,
                    gd_log = \<lparr>gl_id = u, gl_fullMethod = m, gl_requestBody = body, gl_responseBody = gs_bodyJson p,
                              gl_statusCode = (case gs_statusCode p of Some c \<Rightarrow> c | None \<Rightarrow> 0), gl_matched = True,
                              gl_createdAt = now\<rparr>,
                    gd_latencyMs = (case gr_latencyMs r of Some l \<Rightarrow> l | None \<Rightarrow> 0)\<rparr>,
                   grpc_advance (gr_fullMethod r) s, rt2))))"

text \<open>A whole call when nothing else happens meanwhile.\<close>

definition grpc_invoke ::
  "string \<Rightarrow> string \<Rightarrow> grpc_mock_state \<Rightarrow> runtime
     \<Rightarrow> js_error + (grpc_invoke_result \<times> grpc_mock_state \<times> runtime)" where
  "grpc_invoke m body s rt =
     (case grpc_decide m body s rt of
        Inl e \<Rightarrow> Inl e
      | Inr (d, s', rt') \<Rightarrow> Inr (gd_result d, grpc_push_log (gd_log d) s', rt'))"

section \<open>Interleaved calls\<close>

record grpc_system =
  gy_store :: grpc_mock_state
  gy_inflight :: "grpc_decision list"
  gy_runtime :: runtime

datatype grpc_event =
    Call_begins string string grpc_decision
  | Call_fails string string
  | Call_ends grpc_decision
  | Routes_replaced "grpc_mock_route list"
  | Logs_cleared
  | Store_reset

inductive grpc_step :: "grpc_system \<Rightarrow> grpc_event \<Rightarrow> grpc_system \<Rightarrow> bool" where
  begins: "grpc_decide m body (gy_store s) (gy_runtime s) = Inr (d, st, rt) \<Longrightarrow>
    grpc_step s (Call_begins m body d) (s\<lparr>gy_store := st, gy_inflight := gy_inflight s @ [d], gy_runtime := rt\<rparr>)"
| fails: "grpc_decide m body (gy_store s) (gy_runtime s) = Inl e \<Longrightarrow> grpc_step s (Call_fails m body) s"
| ends: "d \<in> set (gy_inflight s) \<Longrightarrow>
    grpc_step s (Call_ends d)
      (s\<lparr>gy_store := grpc_push_log (gd_log d) (gy_store s), gy_inflight := remove1 d (gy_inflight s)\<rparr>)"
| replaced: "grpc_step s (Routes_replaced rs) (s\<lparr>gy_store := snd (grpc_replace_routes rs (gy_store s))\<rparr>)"
| cleared: "grpc_step s Logs_cleared (s\<lparr>gy_store := grpc_clear_logs (gy_store s)\<rparr>)"
| reset: "grpc_step s Store_reset (s\<lparr>gy_store := grpc_mock_reset\<rparr>)"

inductive_cases step_begins: "grpc_step s (Call_begins m body d) t"
inductive_cases step_fails: "grpc_step s (Call_fails m body) t"
inductive_cases step_ends: "grpc_step s (Call_ends d) t"
inductive_cases step_replaced: "grpc_step s (Routes_replaced rs) t"
inductive_cases step_cleared: "grpc_step s Logs_cleared t"
inductive_cases step_reset: "grpc_step s Store_reset t"

lemmas step_cases = step_begins step_fails step_ends step_replaced step_cleared step_reset

inductive grpc_run :: "grpc_system \<Rightarrow> grpc_event list \<Rightarrow> grpc_system \<Rightarrow> bool" where
  none: "grpc_run s [] s"
| more: "grpc_step s e t \<Longrightarrow> grpc_run t es u \<Longrightarrow> grpc_run s (e # es) u"

section \<open>Contracts\<close>

lemma grpc_push_logs: "rev (gt_logs (grpc_push_log e s)) = take 1000 (e # rev (gt_logs s))"
  using rev_keep_last [of 1000 "gt_logs s @ [e]"] by (simp add: grpc_push_log_def trim_logs_def)

interpretation grpc_log: clearable_log grpc_push_log "\<lambda>s. rev (gt_logs s)" 1000 grpc_clear_logs
  by unfold_locales (simp_all add: grpc_push_logs grpc_clear_logs_def)

interpretation grpc_cursor: cursor grpc_index grpc_advance
  by unfold_locales (simp add: grpc_index_def grpc_advance_def)

lemma grpc_push_simps [simp]:
  "gt_routes (grpc_push_log e s) = gt_routes s" "grpc_index (grpc_push_log e s) m = grpc_index s m"
  by (simp_all add: grpc_push_log_def grpc_index_def)

lemma grpc_advance_simps [simp]:
  "gt_routes (grpc_advance m s) = gt_routes s" "gt_logs (grpc_advance m s) = gt_logs s"
  by (simp_all add: grpc_advance_def)

lemma grpc_route_for_method: "grpc_route_for routes m = Some r \<Longrightarrow> gr_fullMethod r = m"
  by (auto simp: grpc_route_for_def find_Some_iff)

section \<open>Properties\<close>

fun begun :: "grpc_event list \<Rightarrow> grpc_decision list" where
  "begun [] = []"
| "begun (Call_begins m body d # es) = d # begun es"
| "begun (e # es) = begun es"

fun begun_for :: "string \<Rightarrow> grpc_event list \<Rightarrow> grpc_decision list" where
  "begun_for k [] = []"
| "begun_for k (Call_begins m body d # es) = (if m = k then d # begun_for k es else begun_for k es)"
| "begun_for k (e # es) = begun_for k es"

fun ended :: "grpc_event list \<Rightarrow> grpc_decision list" where
  "ended [] = []"
| "ended (Call_ends d # es) = d # ended es"
| "ended (e # es) = ended es"

fun is_admin :: "grpc_event \<Rightarrow> bool" where
  "is_admin (Routes_replaced rs) = True"
| "is_admin Logs_cleared = True"
| "is_admin Store_reset = True"
| "is_admin e = False"

lemma run_calls:
  assumes "grpc_run s es u" and "\<not> list_ex is_admin es"
  shows "gt_routes (gy_store u) = gt_routes (gy_store s)
    \<and> rev (gt_logs (gy_store u)) = rev (gt_logs (fold grpc_push_log (map gd_log (ended es)) (gy_store s)))
    \<and> mset (gy_inflight u) + mset (ended es) = mset (gy_inflight s) + mset (begun es)"
  using assms
proof (induction rule: grpc_run.induct)
  case (none s)
  then show ?case by simp
next
  case (more s e t es u)
  have logs: "gt_logs a = gt_logs b \<Longrightarrow>
      gt_logs (fold grpc_push_log ls a) = gt_logs (fold grpc_push_log ls b)" for a b ls
  proof (induction ls arbitrary: a b)
    case (Cons l ls)
    then have "gt_logs (grpc_push_log l a) = gt_logs (grpc_push_log l b)" by (simp add: grpc_push_log_def)
    from Cons.IH [OF this] show ?case by simp
  qed simp
  have ih: "gt_routes (gy_store u) = gt_routes (gy_store t)"
    "rev (gt_logs (gy_store u)) = rev (gt_logs (fold grpc_push_log (map gd_log (ended es)) (gy_store t)))"
    "mset (gy_inflight u) + mset (ended es) = mset (gy_inflight t) + mset (begun es)"
    using more.IH more.prems by auto
  show ?case
  proof (cases e)
    case (Call_begins m body d)
    with more.hyps(1) obtain st rt where
      d: "grpc_decide m body (gy_store s) (gy_runtime s) = Inr (d, st, rt)"
      and t: "t = s\<lparr>gy_store := st, gy_inflight := gy_inflight s @ [d], gy_runtime := rt\<rparr>"
      by (auto elim: step_begins)
    have "gt_routes st = gt_routes (gy_store s)" "gt_logs st = gt_logs (gy_store s)"
      using d by (auto simp: grpc_decide_def Let_def split: prod.splits option.splits if_splits)
    with ih t Call_begins logs [of st "gy_store s" "map gd_log (ended es)"] show ?thesis by simp
  next
    case (Call_fails m body)
    with more.hyps(1) ih show ?thesis by (auto elim: step_fails)
  next
    case (Call_ends d)
    with more.hyps(1) have "d \<in> set (gy_inflight s)"
      and t: "t = s\<lparr>gy_store := grpc_push_log (gd_log d) (gy_store s), gy_inflight := remove1 d (gy_inflight s)\<rparr>"
      by (auto elim: step_ends)
    then have "add_mset d (mset (gy_inflight t)) = mset (gy_inflight s)" by simp
    with ih t Call_ends show ?thesis by simp
  qed (use more.prems in simp_all)
qed

lemma run_rotation:
  assumes "grpc_run s es u" and "\<not> list_ex is_admin es"
    and "grpc_route_for (gt_routes (gy_store s)) k = Some r" and "gr_responses r = ps" and "ps \<noteq> []"
  shows "map gd_result (begun_for k es) =
      map (\<lambda>i. answer_of r (ps ! ((grpc_index (gy_store s) k + i) mod length ps))) [0..<length (begun_for k es)]
    \<and> grpc_index (gy_store u) k = grpc_index (gy_store s) k + length (begun_for k es)"
  using assms(1,2,3)
proof (induction rule: grpc_run.induct)
  case (none s)
  then show ?case by simp
next
  case (more s e t es u)
  show ?case
  proof (cases e)
    case (Call_begins m body d)
    with more.hyps(1) obtain st rt where
      d: "grpc_decide m body (gy_store s) (gy_runtime s) = Inr (d, st, rt)"
      and t: "t = s\<lparr>gy_store := st, gy_inflight := gy_inflight s @ [d], gy_runtime := rt\<rparr>"
      by (auto elim: step_begins)
    have routes: "gt_routes st = gt_routes (gy_store s)"
      using d by (auto simp: grpc_decide_def Let_def split: prod.splits option.splits if_splits)
    with t more have ih: "map gd_result (begun_for k es) =
        map (\<lambda>i. answer_of r (ps ! ((grpc_index st k + i) mod length ps))) [0..<length (begun_for k es)]"
      "grpc_index (gy_store u) k = grpc_index st k + length (begun_for k es)" by auto
    show ?thesis
    proof (cases "m = k")
      case True
      with d more.prems(2) assms(4,5) grpc_route_for_method [OF more.prems(2)]
      have "gd_result d = answer_of r (ps ! (grpc_index (gy_store s) k mod length ps))"
        and st: "st = grpc_advance k (gy_store s)"
        by (auto simp: grpc_decide_def Let_def split: prod.splits)
      moreover have "grpc_index st k = Suc (grpc_index (gy_store s) k)"
        by (simp add: st grpc_cursor.index_advance)
      moreover have "[0..<Suc n] = 0 # map Suc [0..<n]" for n by (simp add: map_Suc_upt upt_conv_Cons)
      ultimately show ?thesis using ih True Call_begins by simp
    next
      case False
      with d have "grpc_index st k = grpc_index (gy_store s) k"
        using grpc_route_for_method [of "gt_routes (gy_store s)" m]
        by (auto simp: grpc_decide_def Let_def grpc_cursor.index_advance split: prod.splits option.splits if_splits)
      with ih False Call_begins show ?thesis by simp
    qed
  next
    case (Call_fails m body)
    with more.hyps(1) have "t = s" by (auto elim: step_fails)
    with Call_fails more show ?thesis by auto
  next
    case (Call_ends d)
    with more.hyps(1) have "t = s\<lparr>gy_store := grpc_push_log (gd_log d) (gy_store s), gy_inflight := remove1 d (gy_inflight s)\<rparr>"
      by (auto elim: step_ends)
    with Call_ends more show ?thesis by auto
  qed (use more.prems in simp_all)
qed

text \<open>
  C11: Calls of the gRPC mock may overlap in any order. While nobody replaces the routes or clears
  the logs: every call that began either is still in flight or has appended its entry, once; the
  log holds the latest thousand entries in the order in which the calls ended; and the calls of one
  method are answered by its responses in rotation, in the order in which they began.
\<close>

theorem grpc_calls_interleave:
  assumes "grpc_run s es u" and "\<not> list_ex is_admin es" and "length (gt_logs (gy_store s)) \<le> 1000"
  shows "mset (begun es) + mset (gy_inflight s) = mset (ended es) + mset (gy_inflight u)
    \<and> rev (gt_logs (gy_store u)) = take 1000 (rev (map gd_log (ended es)) @ rev (gt_logs (gy_store s)))
    \<and> (\<forall>r. grpc_route_for (gt_routes (gy_store s)) k = Some r \<longrightarrow> gr_responses r \<noteq> [] \<longrightarrow>
         map gd_result (begun_for k es) =
           map (\<lambda>i. answer_of r (gr_responses r ! ((grpc_index (gy_store s) k + i) mod length (gr_responses r))))
             [0..<length (begun_for k es)])"
proof -
  have "mset (begun es) + mset (gy_inflight s) = mset (ended es) + mset (gy_inflight u)"
    using run_calls [OF assms(1,2)] by (simp add: add.commute)
  moreover have "rev (gt_logs (gy_store u)) = take 1000 (rev (map gd_log (ended es)) @ rev (gt_logs (gy_store s)))"
    using run_calls [OF assms(1,2)] grpc_log.pushes_entries [of "gy_store s" "map gd_log (ended es)"] assms(3) by simp
  ultimately show ?thesis using run_rotation [OF assms(1,2)] by blast
qed

definition echo_response :: "string \<Rightarrow> grpc_mock_response" where
  "echo_response b = \<lparr>gs_bodyJson = b, gs_statusCode = None, gs_statusMessage = None, gs_trailers = None\<rparr>"

definition echo_system :: grpc_system where
  "echo_system = \<lparr>gy_store = grpc_mock_reset\<lparr>gt_routes := [\<lparr>gr_fullMethod = ''M'', gr_responses = [echo_response ''1'', echo_response ''2''],
       gr_latencyMs = None, gr_enabled = None\<rparr>]\<rparr>, gy_inflight = [], gy_runtime = sample_runtime\<rparr>"

theorem grpc_calls_interleave_witness:
  "\<exists>d u. grpc_run echo_system [Call_begins ''M'' [] d, Call_ends d] u \<and> map gv_bodyJson (map gd_result [d]) = [''1'']
     \<and> length (gt_logs (gy_store u)) = 1"
proof -
  obtain d st rt where d: "grpc_decide ''M'' [] (gy_store echo_system) (gy_runtime echo_system) = Inr (d, st, rt)"
    by (simp add: grpc_decide_def echo_system_def grpc_route_for_def case_prod_beta Let_def)
  let ?t = "echo_system\<lparr>gy_store := st, gy_inflight := gy_inflight echo_system @ [d], gy_runtime := rt\<rparr>"
  let ?u = "?t\<lparr>gy_store := grpc_push_log (gd_log d) (gy_store ?t), gy_inflight := remove1 d (gy_inflight ?t)\<rparr>"
  have "grpc_run echo_system [Call_begins ''M'' [] d, Call_ends d] ?u"
    by (rule grpc_run.more [OF grpc_step.begins [OF d]], rule grpc_run.more [OF grpc_step.ends], simp, rule grpc_run.none)
  then obtain u where r: "grpc_run echo_system [Call_begins ''M'' [] d, Call_ends d] u" by blast
  have e: "gt_logs (gy_store echo_system) = []" by (simp add: echo_system_def grpc_mock_reset_def)
  have "rev (gt_logs (gy_store u)) = [gd_log d]
    \<and> map gd_result [d] = map (\<lambda>i. answer_of (gt_routes (gy_store echo_system) ! 0)
         ([echo_response ''1'', echo_response ''2''] ! ((0 + i) mod 2))) [0..<1]"
    using grpc_calls_interleave [OF r, of "''M''"] e
    by (simp add: echo_system_def grpc_mock_reset_def grpc_route_for_def grpc_index_def)
  then have l: "rev (gt_logs (gy_store u)) = [gd_log d]"
    and "gd_result d = answer_of (gt_routes (gy_store echo_system) ! 0) (echo_response ''1'')" by simp_all
  then have "map gv_bodyJson (map gd_result [d]) = [''1'']" by (simp add: answer_of_def echo_response_def)
  moreover from l have "length (rev (gt_logs (gy_store u))) = 1" by simp
  then have "length (gt_logs (gy_store u)) = 1" by simp
  ultimately show ?thesis using r by (intro exI [of _ d] exI [of _ u] conjI)
qed

end
