(* ===== verification/Grpc_Record.thy ===== *)
theory Grpc_Record
  imports Grpc_Mock
begin

text \<open>
  packages/server/src/services/mock-grpc-recorder.ts: recording gRPC calls into fixtures and
  replaying a fixture as routes of the mock. Every operation is one atomic update.
\<close>

section \<open>State and operations\<close>

record grpc_fixture_entry =
  ge_fullMethod :: string
  ge_requestBody :: string
  ge_responseBody :: string
  ge_statusCode :: int
  ge_statusMessage :: string
  ge_trailers :: "(string \<times> string) list"
  ge_durationMs :: int
  ge_timestamp :: int

record grpc_fixture =
  gx_id :: string
  gx_name :: string
  gx_address :: string
  gx_entries :: "grpc_fixture_entry list"
  gx_createdAt :: int

record grpc_fixture_summary =
  gz_id :: string
  gz_name :: string
  gz_address :: string
  gz_createdAt :: int
  gz_entryCount :: nat

record recorder_state =
  rc_recording :: bool
  rc_active :: "grpc_fixture option"
  rc_fixtures :: "grpc_fixture list"

definition recorder_empty :: recorder_state where
  "recorder_empty = \<lparr>rc_recording = False, rc_active = None, rc_fixtures = []\<rparr>"

definition recorder_start ::
  "string \<Rightarrow> string \<Rightarrow> recorder_state \<Rightarrow> runtime \<Rightarrow> string \<times> recorder_state \<times> runtime" where
  "recorder_start name address s rt =
     (let (u, rt1) = draw_uuid rt; (now, rt2) = read_clock rt1;
          fixture = \<lparr>gx_id = u, gx_name = name, gx_address = address, gx_entries = [], gx_createdAt = now\<rparr> in
      (u, s\<lparr>rc_recording := True, rc_active := Some fixture\<rparr>, rt2))"

definition recorder_stop :: "recorder_state \<Rightarrow> grpc_fixture option \<times> recorder_state" where
  "recorder_stop s =
     (let fixtures = (case rc_active s of
                        Some f \<Rightarrow> if gx_entries f \<noteq> [] then rc_fixtures s @ [f] else rc_fixtures s
                      | None \<Rightarrow> rc_fixtures s) in
      (rc_active s, \<lparr>rc_recording = False, rc_active = None, rc_fixtures = fixtures\<rparr>))"

definition recorder_status :: "recorder_state \<Rightarrow> bool \<times> nat" where
  "recorder_status s =
     (rc_recording s, case rc_active s of None \<Rightarrow> 0 | Some f \<Rightarrow> length (gx_entries f))"

definition list_fixtures :: "recorder_state \<Rightarrow> grpc_fixture_summary list" where
  "list_fixtures s =
     map (\<lambda>f. \<lparr>gz_id = gx_id f, gz_name = gx_name f, gz_address = gx_address f, gz_createdAt = gx_createdAt f,
               gz_entryCount = length (gx_entries f)\<rparr>) (rc_fixtures s)"

datatype fixture_error = Fixture_not_found string

definition get_fixture :: "string \<Rightarrow> recorder_state \<Rightarrow> fixture_error + grpc_fixture" where
  "get_fixture i s =
     (case find (\<lambda>f. gx_id f = i) (rc_fixtures s) of Some f \<Rightarrow> Inr f | None \<Rightarrow> Inl (Fixture_not_found i))"

fun remove_first :: "('a \<Rightarrow> bool) \<Rightarrow> 'a list \<Rightarrow> 'a list" where
  "remove_first P [] = []"
| "remove_first P (x # xs) = (if P x then xs else x # remove_first P xs)"

definition delete_fixture :: "string \<Rightarrow> recorder_state \<Rightarrow> fixture_error option \<times> recorder_state" where
  "delete_fixture i s =
     (if \<not> list_ex (\<lambda>f. gx_id f = i) (rc_fixtures s) then (Some (Fixture_not_found i), s)
      else (None, s\<lparr>rc_fixtures := remove_first (\<lambda>f. gx_id f = i) (rc_fixtures s)\<rparr>))"

definition record_entry :: "grpc_fixture_entry \<Rightarrow> recorder_state \<Rightarrow> runtime \<Rightarrow> recorder_state \<times> runtime" where
  "record_entry entry s rt =
     (if \<not> rc_recording s then (s, rt)
      else case rc_active s of
          None \<Rightarrow> (s, rt)
        | Some f \<Rightarrow>
            (let (now, rt') = read_clock rt in
             (s\<lparr>rc_active := Some (f\<lparr>gx_entries := gx_entries f @ [entry\<lparr>ge_timestamp := now\<rparr>]\<rparr>)\<rparr>, rt')))"

definition is_recording :: "recorder_state \<Rightarrow> bool" where
  "is_recording s = rc_recording s"

section \<open>Replay\<close>

definition replay_response :: "grpc_fixture_entry \<Rightarrow> grpc_mock_response" where
  "replay_response e =
     \<lparr>gs_bodyJson = ge_responseBody e, gs_statusCode = Some (ge_statusCode e),
      gs_statusMessage = Some (ge_statusMessage e), gs_trailers = Some (ge_trailers e)\<rparr>"

text \<open>The \<open>Map\<close> from methods to responses, in the order of the first entry of each method.\<close>

definition add_replay ::
  "grpc_fixture_entry \<Rightarrow> (string \<times> grpc_mock_response list) list \<Rightarrow> (string \<times> grpc_mock_response list) list" where
  "add_replay e m =
     AList.update (ge_fullMethod e)
       ((case map_of m (ge_fullMethod e) of Some rs \<Rightarrow> rs | None \<Rightarrow> []) @ [replay_response e]) m"

definition replay_routes :: "grpc_fixture_entry list \<Rightarrow> grpc_mock_route list" where
  "replay_routes entries =
     map (\<lambda>(m, rs). \<lparr>gr_fullMethod = m, gr_responses = rs, gr_latencyMs = None, gr_enabled = Some True\<rparr>)
       (fold add_replay entries [])"

definition replay_fixture :: "string \<Rightarrow> recorder_state \<Rightarrow> fixture_error + (grpc_mock_route list \<times> nat)" where
  "replay_fixture i s =
     (case get_fixture i s of
        Inl e \<Rightarrow> Inl e
      | Inr f \<Rightarrow> Inr (replay_routes (gx_entries f), length (replay_routes (gx_entries f))))"

section \<open>The recorder's invariant\<close>

inductive recorder_reachable :: "recorder_state \<Rightarrow> bool" where
  start: "recorder_reachable recorder_empty"
| started: "recorder_reachable s \<Longrightarrow> recorder_reachable (fst (snd (recorder_start name address s rt)))"
| stopped: "recorder_reachable s \<Longrightarrow> recorder_reachable (snd (recorder_stop s))"
| deleted: "recorder_reachable s \<Longrightarrow> recorder_reachable (snd (delete_fixture i s))"
| entered: "recorder_reachable s \<Longrightarrow> recorder_reachable (fst (record_entry e s rt))"

lemma set_remove_first: "set (remove_first P xs) \<subseteq> set xs"
  by (induction xs) auto

text \<open>
  In every reachable state the recorder is recording exactly when a fixture is active, the
  status it reports counts the entries of that fixture, and every kept fixture has entries, so that
  replaying any of them gives at least one route and every route has a response.
\<close>

theorem recorder_invariant:
  assumes "recorder_reachable s"
  shows "rc_recording s = (rc_active s \<noteq> None)
    \<and> (\<forall>f \<in> set (rc_fixtures s). gx_entries f \<noteq> [])
    \<and> (rc_active s = None \<longrightarrow> recorder_status s = (False, 0))"
  using assms
proof (induction rule: recorder_reachable.induct)
  case (deleted s i)
  then show ?case
    using set_remove_first [of "\<lambda>f. gx_id f = i" "rc_fixtures s"]
    by (auto simp: delete_fixture_def recorder_status_def)
qed (auto simp: recorder_empty_def recorder_start_def recorder_stop_def record_entry_def recorder_status_def
      Let_def split: option.splits prod.splits)

theorem recorder_invariant_witness:
  "rc_recording (fst (snd (recorder_start ''n'' ''a'' recorder_empty sample_runtime)))"
proof -
  have r: "recorder_reachable (fst (snd (recorder_start ''n'' ''a'' recorder_empty sample_runtime)))"
    by (intro recorder_reachable.intros)
  have "rc_active (fst (snd (recorder_start ''n'' ''a'' recorder_empty sample_runtime))) \<noteq> None"
    by (simp add: recorder_start_def case_prod_beta Let_def)
  with recorder_invariant [OF r] show ?thesis by blast
qed

section \<open>Record, stop, replay\<close>

lemma map_of_replays:
  "map_of (fold add_replay es m) k =
     (if filter (\<lambda>e. ge_fullMethod e = k) es = [] then map_of m k
      else Some ((case map_of m k of Some rs \<Rightarrow> rs | None \<Rightarrow> [])
                 @ map replay_response (filter (\<lambda>e. ge_fullMethod e = k) es)))"
  by (induction es arbitrary: m) (auto simp: add_replay_def update_conv' split: option.split)

lemma replay_route_for:
  assumes "filter (\<lambda>e. ge_fullMethod e = k) es \<noteq> []"
  shows "grpc_route_for (replay_routes es) k =
    Some \<lparr>gr_fullMethod = k, gr_responses = map replay_response (filter (\<lambda>e. ge_fullMethod e = k) es),
          gr_latencyMs = None, gr_enabled = Some True\<rparr>"
proof -
  have "find (\<lambda>r. gr_enabled r \<noteq> Some False \<and> gr_fullMethod r = k)
      (map (\<lambda>(m, rs). \<lparr>gr_fullMethod = m, gr_responses = rs, gr_latencyMs = None, gr_enabled = Some True\<rparr>) al)
    = map_option (\<lambda>rs. \<lparr>gr_fullMethod = k, gr_responses = rs, gr_latencyMs = None, gr_enabled = Some True\<rparr>) (map_of al k)"
    for al :: "(string \<times> grpc_mock_response list) list"
    by (induction al) auto
  with assms show ?thesis by (simp add: grpc_route_for_def replay_routes_def map_of_replays)
qed

definition record_all :: "grpc_fixture_entry list \<Rightarrow> recorder_state \<Rightarrow> runtime \<Rightarrow> recorder_state \<times> runtime" where
  "record_all es s rt = fold (\<lambda>e (s, rt). record_entry e s rt) es (s, rt)"

lemma record_all_active:
  assumes "rc_recording s" and "rc_active s = Some f"
  shows "\<exists>es' t rt'. record_all es s rt = (t, rt') \<and> map (ge_timestamp_update (\<lambda>n. 0)) es' = map (ge_timestamp_update (\<lambda>n. 0)) es
    \<and> t = s\<lparr>rc_active := Some (f\<lparr>gx_entries := gx_entries f @ es'\<rparr>)\<rparr>"
  using assms
proof (induction es arbitrary: s f rt)
  case Nil
  then show ?case by (intro exI [of _ "[]"]) (simp add: record_all_def)
next
  case (Cons e es)
  obtain now rt1 where c: "read_clock rt = (now, rt1)" by fastforce
  let ?e = "e\<lparr>ge_timestamp := now\<rparr>"
  let ?s = "s\<lparr>rc_active := Some (f\<lparr>gx_entries := gx_entries f @ [?e]\<rparr>)\<rparr>"
  have step: "record_entry e s rt = (?s, rt1)" using Cons.prems c by (simp add: record_entry_def)
  from Cons.IH [of ?s "f\<lparr>gx_entries := gx_entries f @ [?e]\<rparr>" rt1] Cons.prems obtain es' t rt' where
    "record_all es ?s rt1 = (t, rt')" "map (ge_timestamp_update (\<lambda>n. 0)) es' = map (ge_timestamp_update (\<lambda>n. 0)) es"
    "t = s\<lparr>rc_active := Some (f\<lparr>gx_entries := gx_entries f @ ?e # es'\<rparr>)\<rparr>" by auto
  then show ?case by (intro exI [of _ "?e # es'"]) (simp add: record_all_def step)
qed

lemma replay_ignores_time:
  assumes "map (ge_timestamp_update (\<lambda>n. 0)) es' = map (ge_timestamp_update (\<lambda>n. 0)) es"
  shows "map replay_response (filter (\<lambda>e. ge_fullMethod e = k) es')
    = map replay_response (filter (\<lambda>e. ge_fullMethod e = k) es)"
proof -
  have f: "replay_response (ge_timestamp_update (\<lambda>n. 0) e) = replay_response e"
    "ge_fullMethod (ge_timestamp_update (\<lambda>n. 0) e) = ge_fullMethod e" for e
    by (simp_all add: replay_response_def)
  have "map replay_response (filter (\<lambda>e. ge_fullMethod e = k) xs)
      = map replay_response (filter (\<lambda>e. ge_fullMethod e = k) (map (ge_timestamp_update (\<lambda>n. 0)) xs))" for xs
    by (induction xs) (simp_all add: f)
  then show ?thesis using assms by metis
qed


definition sample_entry :: grpc_fixture_entry where
  "sample_entry = \<lparr>ge_fullMethod = ''M'', ge_requestBody = [], ge_responseBody = ''1'', ge_statusCode = 0,
     ge_statusMessage = ''OK'', ge_trailers = [], ge_durationMs = 1, ge_timestamp = 0\<rparr>"

definition replayed_system :: grpc_system where
  "replayed_system =
     (let (i, s1, rt1) = recorder_start ''n'' ''a'' recorder_empty sample_runtime;
          (s2, rt2) = record_all [sample_entry] s1 rt1; (f, s3) = recorder_stop s2 in
      \<lparr>gy_store = snd (grpc_replace_routes (case replay_fixture i s3 of Inr (rs, n) \<Rightarrow> rs | Inl e \<Rightarrow> []) grpc_mock_reset),
       gy_inflight = [], gy_runtime = rt2\<rparr>)"


end
