(* ===== verification/Ssrf.thy ===== *)
theory Ssrf
  imports Assertions
begin

text \<open>
  packages/server/src/services/ssrf-guard.ts: refusing requests to private addresses. The URL parser is
  the host's, resolving a name is a parameter (the first address, or nothing when it fails).
\<close>

section \<open>Private addresses\<close>

definition blocked_hostnames :: "string list" where
  "blocked_hostnames = [''metadata.google.internal'', ''metadata.aws.internal'']"

definition allowed_schemes :: "string list" where
  "allowed_schemes = [''ws:'', ''wss:'', ''http:'', ''https:'']"

definition all_digits :: "string \<Rightarrow> bool" where
  "all_digits s \<longleftrightarrow> s \<noteq> [] \<and> list_all is_digit s"

text \<open>\<open>(1[6-9]|2\d|3[01])\<close> and \<open>(6[4-9]|[7-9]\d|1[01]\d|12[0-7])\<close>: the numerals they match.\<close>

definition numerals :: "nat \<Rightarrow> nat \<Rightarrow> string list" where
  "numerals lo hi = map nat_to_string [lo..<Suc hi]"

definition private_quad :: "string \<Rightarrow> string \<Rightarrow> string \<Rightarrow> string \<Rightarrow> bool" where
  "private_quad a b c d \<longleftrightarrow>
     (a = ''127'' \<and> all_digits b \<and> all_digits c \<and> all_digits d)
     \<or> (a = ''10'' \<and> all_digits b \<and> all_digits c \<and> all_digits d)
     \<or> (a = ''172'' \<and> b \<in> set (numerals 16 31) \<and> all_digits c \<and> all_digits d)
     \<or> (a = ''192'' \<and> b = ''168'' \<and> all_digits c \<and> all_digits d)
     \<or> (a = ''169'' \<and> b = ''254'' \<and> all_digits c \<and> all_digits d)
     \<or> (a = ''100'' \<and> b \<in> set (numerals 64 127) \<and> all_digits c \<and> all_digits d)
     \<or> (a = ''0'' \<and> all_digits b \<and> all_digits c \<and> all_digits d)
     \<or> (a = ''0'' \<and> b = ''0'' \<and> c = ''0'' \<and> d = ''0'')"

definition is_low_hex :: "char \<Rightarrow> bool" where
  "is_low_hex c \<longleftrightarrow> is_digit c \<or> (97 \<le> code_unit c \<and> code_unit c \<le> 102)"

text \<open>The patterns for IPv6 are matched without regard to case.\<close>

definition unique_local :: "string \<Rightarrow> bool" where
  "unique_local s \<longleftrightarrow>
     (case s of
        f # k # x # y # z # r \<Rightarrow>
          f = CHR ''f'' \<and> (k = CHR ''c'' \<or> k = CHR ''d'') \<and> is_low_hex x \<and> is_low_hex y \<and> z = CHR '':''
      | _ \<Rightarrow> False)"

definition is_private_ip :: "string \<Rightarrow> bool" where
  "is_private_ip ip \<longleftrightarrow>
     to_lower ip = ''localhost''
     \<or> (case split_on CHR ''.'' ip of [a, b, c, d] \<Rightarrow> private_quad a b c d | _ \<Rightarrow> False)
     \<or> ip = ''::1'' \<or> unique_local (to_lower ip) \<or> starts_with ''fe80:'' (to_lower ip)"

section \<open>The guard\<close>

text \<open>\<open>hostname.replace(/^\[|\]$/g, "")\<close>.\<close>

definition strip_brackets :: "string \<Rightarrow> string" where
  "strip_brackets s =
     (let t = (if starts_with ''['' s then drop 1 s else s) in
      if ends_with '']'' t then butlast t else t)"

definition private_reason :: string where
  "private_reason = ''Requests to private/internal addresses are not allowed''"

text \<open>\<open>None\<close>: the request may go on; otherwise the reason of the \<open>SsrfBlockedError\<close>.\<close>

definition ssrf_check :: "host \<Rightarrow> bool \<Rightarrow> (string \<Rightarrow> string option) \<Rightarrow> string \<Rightarrow> string option" where
  "ssrf_check h enabled lookup raw =
     (if \<not> enabled then None
      else case ho_url h raw of
          None \<Rightarrow> Some ''Invalid URL''
        | Some u \<Rightarrow>
            (if up_protocol u \<notin> set allowed_schemes then Some (''Unsupported scheme: '' @ up_protocol u)
             else
               let hostname = strip_brackets (up_hostname u) in
               if to_lower hostname \<in> set blocked_hostnames
               then Some ''Requests to internal metadata endpoints are not allowed''
               else if is_private_ip hostname then Some private_reason
               else case lookup hostname of
                   Some address \<Rightarrow> if is_private_ip address then Some private_reason else None
                 | None \<Rightarrow> None))"

section \<open>Address ranges\<close>

text \<open>
  The ranges the patterns stand for, as prefixes of 32-bit addresses: an address is in a range
  when its leading bits are those of the network.
\<close>

definition addr4 :: "nat \<Rightarrow> nat \<Rightarrow> nat \<Rightarrow> nat \<Rightarrow> nat" where
  "addr4 a b c d = ((a * 256 + b) * 256 + c) * 256 + d"

definition in_range4 :: "nat \<Rightarrow> nat \<Rightarrow> nat \<Rightarrow> bool" where
  "in_range4 net len x \<longleftrightarrow> x div 2 ^ (32 - len) = net div 2 ^ (32 - len)"

definition private_ranges :: "(nat \<times> nat) list" where
  "private_ranges =
     [(addr4 127 0 0 0, 8), (addr4 10 0 0 0, 8), (addr4 172 16 0 0, 12), (addr4 192 168 0 0, 16),
      (addr4 169 254 0 0, 16), (addr4 100 64 0 0, 10), (addr4 0 0 0 0, 8)]"

definition private4 :: "nat \<Rightarrow> bool" where
  "private4 x \<longleftrightarrow> list_ex (\<lambda>(net, len). in_range4 net len x) private_ranges"

definition dotted :: "nat \<Rightarrow> nat \<Rightarrow> nat \<Rightarrow> nat \<Rightarrow> string" where
  "dotted a b c d = join ''.'' (map nat_to_string [a, b, c, d])"

lemma nat_digits: "all_digits (nat_to_string n)"
  by (auto simp: all_digits_def list_all_iff nat_to_string_digits)

lemma no_dot: "CHR ''.'' \<notin> set (nat_to_string n)"
proof
  assume "CHR ''.'' \<in> set (nat_to_string n)"
  then have "is_digit CHR ''.''" by (rule nat_to_string_digits)
  then show False by (simp add: is_digit_def code_unit_def)
qed

lemma split_dotted: "split_on CHR ''.'' (dotted a b c d) = map nat_to_string [a, b, c, d]"
  unfolding dotted_def by (rule split_on_join) (auto simp: no_dot)

lemma div_power_shift: "r < 2 ^ k \<Longrightarrow> (x * 2 ^ k + r) div 2 ^ k = (x :: nat)"
  by (simp add: div_mult_self3)

lemma addr4_div:
  assumes "b < 256" and "c < 256" and "d < 256"
  shows "addr4 a b c d div 2 ^ 16 = a * 256 + b" and "addr4 a b c d div 2 ^ 24 = a"
    and "addr4 a b c d div 2 ^ 20 = a * 16 + b div 16" and "addr4 a b c d div 2 ^ 22 = a * 4 + b div 64"
proof -
  have e: "addr4 a b c d = (a * 256 + b) * 2 ^ 16 + (c * 256 + d)" by (simp add: addr4_def)
  have lt: "c * 256 + d < 2 ^ 16" using assms by simp
  show 16: "addr4 a b c d div 2 ^ 16 = a * 256 + b" unfolding e using lt by (rule div_power_shift)
  have "addr4 a b c d div 2 ^ 24 = addr4 a b c d div 2 ^ 16 div 2 ^ 8"
    by (simp add: div_mult2_eq [symmetric])
  then show "addr4 a b c d div 2 ^ 24 = a" using 16 assms by simp
  have "addr4 a b c d div 2 ^ 20 = addr4 a b c d div 2 ^ 16 div 2 ^ 4"
    by (simp add: div_mult2_eq [symmetric])
  then show "addr4 a b c d div 2 ^ 20 = a * 16 + b div 16" using 16 by simp
  have "addr4 a b c d div 2 ^ 22 = addr4 a b c d div 2 ^ 16 div 2 ^ 6"
    by (simp add: div_mult2_eq [symmetric])
  then show "addr4 a b c d div 2 ^ 22 = a * 4 + b div 64" using 16 by simp
qed

lemma mixed_radix_eq:
  assumes "b < k" and "b' < k"
  shows "a * k + b = a' * k + b' \<longleftrightarrow> a = a' \<and> b = (b' :: nat)"
proof
  assume e: "a * k + b = a' * k + b'"
  have "(a * k + b) div k = a" "(a * k + b) mod k = b" "(a' * k + b') div k = a'" "(a' * k + b') mod k = b'"
    using assms by simp_all
  with e show "a = a' \<and> b = b'" by metis
qed simp

lemma private4_cases:
  assumes "a < 256" and "b < 256" and "c < 256" and "d < 256"
  shows "private4 (addr4 a b c d) \<longleftrightarrow>
    a = 127 \<or> a = 10 \<or> (a = 172 \<and> 16 \<le> b \<and> b \<le> 31) \<or> (a = 192 \<and> b = 168) \<or> (a = 169 \<and> b = 254)
    \<or> (a = 100 \<and> 64 \<le> b \<and> b \<le> 127) \<or> a = 0"
proof -
  have z: "(0::nat) < 256" by simp
  have "a * 16 + b div 16 = 172 * 16 + 1 \<longleftrightarrow> a = 172 \<and> b div 16 = 1"
    using assms(2) by (intro mixed_radix_eq) auto
  moreover have "b div 16 = 1 \<longleftrightarrow> 16 \<le> b \<and> b \<le> 31" by arith
  moreover have "a * 4 + b div 64 = 100 * 4 + 1 \<longleftrightarrow> a = 100 \<and> b div 64 = 1"
    using assms(2) by (intro mixed_radix_eq) auto
  moreover have "b div 64 = 1 \<longleftrightarrow> 64 \<le> b \<and> b \<le> 127" by arith
  moreover have "a * 256 + b = 192 * 256 + 168 \<longleftrightarrow> a = 192 \<and> b = 168"
    using assms(2) by (intro mixed_radix_eq) auto
  moreover have "a * 256 + b = 169 * 256 + 254 \<longleftrightarrow> a = 169 \<and> b = 254"
    using assms(2) by (intro mixed_radix_eq) auto
  ultimately show ?thesis
    using addr4_div [OF assms(2,3,4)] addr4_div [OF z z z] addr4_div [of 16 0 0] addr4_div [of 64 0 0]
      addr4_div [of 168 0 0] addr4_div [of 254 0 0]
    by (simp add: private4_def private_ranges_def in_range4_def)
qed

lemma nat_to_string_eq: "nat_to_string n = nat_to_string m \<longleftrightarrow> n = m"
  using nat_to_string_inj by blast

lemma numerals_iff: "nat_to_string n \<in> set (numerals lo hi) \<longleftrightarrow> lo \<le> n \<and> n \<le> hi"
  by (auto simp: numerals_def image_iff nat_to_string_eq)

text \<open>The literals of the patterns are the numerals they look like.\<close>

lemma is_literal:
  assumes "nat_to_string m = s"
  shows "nat_to_string n = s \<longleftrightarrow> n = m"
  unfolding assms [symmetric] by (rule nat_to_string_eq)

lemma numeral_127: "nat_to_string n = ''127'' \<longleftrightarrow> n = 127" by (rule is_literal) code_simp
lemma numeral_10: "nat_to_string n = ''10'' \<longleftrightarrow> n = 10" by (rule is_literal) code_simp
lemma numeral_172: "nat_to_string n = ''172'' \<longleftrightarrow> n = 172" by (rule is_literal) code_simp
lemma numeral_192: "nat_to_string n = ''192'' \<longleftrightarrow> n = 192" by (rule is_literal) code_simp
lemma numeral_168: "nat_to_string n = ''168'' \<longleftrightarrow> n = 168" by (rule is_literal) code_simp
lemma numeral_169: "nat_to_string n = ''169'' \<longleftrightarrow> n = 169" by (rule is_literal) code_simp
lemma numeral_254: "nat_to_string n = ''254'' \<longleftrightarrow> n = 254" by (rule is_literal) code_simp
lemma numeral_100: "nat_to_string n = ''100'' \<longleftrightarrow> n = 100" by (rule is_literal) code_simp
lemma numeral_0: "nat_to_string n = ''0'' \<longleftrightarrow> n = 0" by (rule is_literal) code_simp

lemmas pattern_numerals = numeral_127 numeral_10 numeral_172 numeral_192 numeral_168 numeral_169
  numeral_254 numeral_100 numeral_0

lemma private_quad_iff:
  "private_quad (nat_to_string a) (nat_to_string b) (nat_to_string c) (nat_to_string d) \<longleftrightarrow>
    a = 127 \<or> a = 10 \<or> (a = 172 \<and> 16 \<le> b \<and> b \<le> 31) \<or> (a = 192 \<and> b = 168) \<or> (a = 169 \<and> b = 254)
    \<or> (a = 100 \<and> 64 \<le> b \<and> b \<le> 127) \<or> a = 0"
  unfolding private_quad_def pattern_numerals numerals_iff by (auto simp: nat_digits)

lemma private_dotted:
  assumes "a < 256" and "b < 256" and "c < 256" and "d < 256" and "private4 (addr4 a b c d)"
  shows "is_private_ip (dotted a b c d)"
  using assms by (simp add: is_private_ip_def split_dotted private_quad_iff private4_cases)

text \<open>What the guard lets pass.\<close>

lemma guard_passes:
  assumes "ssrf_check h True lookup raw = None"
  shows "\<exists>u. ho_url h raw = Some u \<and> up_protocol u \<in> {''ws:'', ''wss:'', ''http:'', ''https:''}
    \<and> (\<forall>a b c d. a < 256 \<longrightarrow> b < 256 \<longrightarrow> c < 256 \<longrightarrow> d < 256 \<longrightarrow> private4 (addr4 a b c d) \<longrightarrow>
         strip_brackets (up_hostname u) \<noteq> dotted a b c d
         \<and> lookup (strip_brackets (up_hostname u)) \<noteq> Some (dotted a b c d))"
proof -
  from assms obtain u where u: "ho_url h raw = Some u" by (auto simp: ssrf_check_def split: option.splits)
  with assms have p: "up_protocol u \<in> set allowed_schemes" "\<not> is_private_ip (strip_brackets (up_hostname u))"
    "\<And>x. lookup (strip_brackets (up_hostname u)) = Some x \<Longrightarrow> \<not> is_private_ip x"
    by (auto simp: ssrf_check_def Let_def split: if_splits option.splits)
  with u private_dotted show ?thesis by (intro exI [of _ u]) (auto simp: allowed_schemes_def)
qed

text \<open>The loopback address written as an IPv4-mapped or unspecified IPv6 address is not recognized.\<close>

lemma mapped_loopback_passes:
  "\<not> is_private_ip ''::ffff:7f00:1'' \<and> \<not> is_private_ip ''::ffff:127.0.0.1'' \<and> \<not> is_private_ip ''::''"
  by code_simp

end
