(* ===== verification/Flow.thy ===== *)
theory Flow
  imports Extract_Vars
begin

text \<open>
  packages/core/src/flow/index.ts: running a flow of request, delay, condition and loop steps. The
  runner's mutable objects (variables, results), the calls of the hooks, the runtime and the
  outside world are the fields of a state. A run is done, cancelled at an interruptible point, or
  ended by an exception no step catches.
\<close>

section \<open>Flows and results\<close>

datatype condition_source = CS_variable | CS_status | CS_bodyJsonPath | CS_header

record flow_condition =
  fc_source :: condition_source
  fc_expression :: string
  fc_matcher :: matcher
  fc_expected :: string

datatype loop_mode = LM_while | LM_until

datatype flow_step =
    RequestStep string string request_config "bool option" "int option"
  | DelayStep string string int
  | ConditionStep string string flow_condition "flow_step list" "flow_step list option"
  | LoopStep string string "int option" "flow_condition option" "loop_mode option"
      "flow_step list" "int option"

record flow =
  fw_id :: string
  fw_name :: string
  fw_steps :: "flow_step list"
  fw_createdAt :: int
  fw_updatedAt :: int

primrec step_id :: "flow_step \<Rightarrow> string" where
  "step_id (RequestStep sid n r c k) = sid"
| "step_id (DelayStep sid n d) = sid"
| "step_id (ConditionStep sid n c t e) = sid"
| "step_id (LoopStep sid n k c m ss x) = sid"

primrec step_name :: "flow_step \<Rightarrow> string" where
  "step_name (RequestStep sid n r c k) = n"
| "step_name (DelayStep sid n d) = n"
| "step_name (ConditionStep sid n c t e) = n"
| "step_name (LoopStep sid n k c m ss x) = n"

primrec step_type :: "flow_step \<Rightarrow> flow_step_type" where
  "step_type (RequestStep sid n r c k) = FT_request"
| "step_type (DelayStep sid n d) = FT_delay"
| "step_type (ConditionStep sid n c t e) = FT_condition"
| "step_type (LoopStep sid n k c m ss x) = FT_loop"

record flow_step_result =
  fr_stepId :: string
  fr_name :: string
  fr_type :: flow_step_type
  fr_status :: flow_status
  fr_startedAt :: int
  fr_completedAt :: int
  fr_response :: "execute_response option"
  fr_assertions :: "assertion_result list option"
  fr_error :: "string option"

record flow_result =
  fz_flowId :: string
  fz_status :: flow_status
  fz_startedAt :: int
  fz_completedAt :: int
  fz_variables :: "string obj"
  fz_steps :: "flow_step_result list"

text \<open>The calls of the hooks, in order. The hooks are taken not to reject.\<close>

datatype flow_event =
    OnStepStart string
  | OnStepComplete flow_step_result
  | OnVariableExtracted string string string
  | OnError string string
  | OnFlowComplete flow_result

section \<open>Conditions\<close>

text \<open>
  \<open>compare\<close>. A variable inherited from \<open>Object.prototype\<close> is a function; every matcher reads it as
  the string it converts to.
\<close>

definition flow_compare :: "host \<Rightarrow> unknown \<Rightarrow> string \<Rightarrow> matcher \<Rightarrow> bool" where
  "flow_compare h actual expected m =
     (case m of
        M_exists \<Rightarrow> actual \<noteq> Undefined \<and> actual \<noteq> Json JNull
      | M_notEquals \<Rightarrow> unknown_to_string actual \<noteq> expected
      | M_contains \<Rightarrow> str_includes expected (text_or_empty actual)
      | M_matches \<Rightarrow> (case ho_regex h expected [] of
            None \<Rightarrow> False | Some f \<Rightarrow> f (text_or_empty actual))
      | M_gt \<Rightarrow> num_less (string_to_number expected) (unknown_to_number actual)
      | M_lt \<Rightarrow> num_less (unknown_to_number actual) (string_to_number expected)
      | _ \<Rightarrow> unknown_to_string actual = expected)"

definition condition_actual ::
  "host \<Rightarrow> flow_condition \<Rightarrow> string obj \<Rightarrow> execute_response option \<Rightarrow> unknown" where
  "condition_actual h c variables response =
     (if fc_source c = CS_variable
      then (case obj_read variables (fc_expression c) of
              Own v \<Rightarrow> Json (JStr v)
            | Inherited \<Rightarrow> Json (JStr (inherited_text (fc_expression c)))
            | Absent \<Rightarrow> Undefined)
      else case response of
          None \<Rightarrow> Undefined
        | Some r \<Rightarrow>
            (if fc_source c = CS_status then Json (JNum (of_int (rs_status r)))
             else if fc_source c = CS_header
             then unknown_of_string (map_option kv_value
                    (find (\<lambda>hdr. to_lower (kv_key hdr) = to_lower (fc_expression c)) (rs_headers r)))
             else case json_parse (rs_body r) of
                 None \<Rightarrow> Undefined
               | Some j \<Rightarrow> (case ho_jsonpath h (fc_expression c) j of
                     Inl e \<Rightarrow> Undefined | Inr v \<Rightarrow> unknown_of_jsval v)))"

definition evaluate_condition ::
  "host \<Rightarrow> flow_condition \<Rightarrow> string obj \<Rightarrow> execute_response option \<Rightarrow> bool" where
  "evaluate_condition h c variables response =
     flow_compare h (condition_actual h c variables response) (fc_expected c) (fc_matcher c)"

definition loop_max_iterations :: "int option \<Rightarrow> int option \<Rightarrow> int" where
  "loop_max_iterations rounds max_iterations =
     (let safe_max = max 0 (case max_iterations of Some m \<Rightarrow> m | None \<Rightarrow> 1000) in
      case rounds of None \<Rightarrow> safe_max | Some c \<Rightarrow> min (max 0 c) safe_max)"

definition should_run_loop_iteration ::
  "host \<Rightarrow> flow_condition option \<Rightarrow> loop_mode option \<Rightarrow> string obj \<Rightarrow> execute_response option \<Rightarrow> bool"
where
  "should_run_loop_iteration h condition mode variables response =
     (case condition of
        None \<Rightarrow> True
      | Some c \<Rightarrow>
          (let matched = evaluate_condition h c variables response in
           if mode = Some LM_until then \<not> matched else matched))"

section \<open>State and outcomes\<close>

text \<open>
  \<open>fl_cancel\<close> is the number of interruptible points (a sleep, an awaited execution) the run still
  passes before \<open>cancel()\<close> interrupts it; \<open>None\<close> is a run that is not cancelled.
\<close>

record 'w flow_state =
  fl_variables :: "string obj"
  fl_results :: "flow_step_result list"
  fl_events :: "flow_event list"
  fl_runtime :: runtime
  fl_world :: 'w
  fl_cancel :: "nat option"

datatype 's fx = Done 's | Cancelled 's | Died js_error

fun fx_bind :: "'s fx \<Rightarrow> ('s \<Rightarrow> 's fx) \<Rightarrow> 's fx" where
  "fx_bind (Done s) f = f s"
| "fx_bind (Cancelled s) f = Cancelled s"
| "fx_bind (Died e) f = Died e"

text \<open>
  What \<open>options.execute\<close> does with a request: it resolves with a response, rejects (the text is
  \<open>String(cause)\<close>), or has not settled when the step's timeout fires.
\<close>

datatype outcome = Responded execute_response | Rejected string | Late

record 'w flow_ctx =
  cx_host :: host
  cx_execute :: "request_config \<Rightarrow> 'w \<Rightarrow> outcome \<times> 'w"
  cx_scopes :: "variable_scope list"

definition emit :: "flow_event \<Rightarrow> 'w flow_state \<Rightarrow> 'w flow_state" where
  "emit ev st = st\<lparr>fl_events := fl_events st @ [ev]\<rparr>"

definition tick_clock :: "'w flow_state \<Rightarrow> int \<times> 'w flow_state" where
  "tick_clock st = (let (t, rt) = read_clock (fl_runtime st) in (t, st\<lparr>fl_runtime := rt\<rparr>))"

text \<open>Pass an interruptible point, or be interrupted at it.\<close>

definition interruptible :: "'w flow_state \<Rightarrow> 'w flow_state fx" where
  "interruptible st =
     (case fl_cancel st of
        None \<Rightarrow> Done st
      | Some 0 \<Rightarrow> Cancelled st
      | Some (Suc n) \<Rightarrow> Done (st\<lparr>fl_cancel := Some n\<rparr>))"

definition last_response :: "'w flow_state \<Rightarrow> execute_response option" where
  "last_response st = (if fl_results st = [] then None else fr_response (last (fl_results st)))"

definition push_result :: "flow_step_result \<Rightarrow> 'w flow_state \<Rightarrow> 'w flow_state" where
  "push_result r st = emit (OnStepComplete r) (st\<lparr>fl_results := fl_results st @ [r]\<rparr>)"

text \<open>\<open>makeStepResult\<close> reads the clock for the completion time.\<close>

definition make_step_result ::
  "flow_step \<Rightarrow> flow_status \<Rightarrow> int \<Rightarrow> execute_response option \<Rightarrow> assertion_result list option
     \<Rightarrow> string option \<Rightarrow> 'w flow_state \<Rightarrow> flow_step_result \<times> 'w flow_state" where
  "make_step_result step status started response asserts err st =
     (let (now, st') = tick_clock st in
      (\<lparr>fr_stepId = step_id step, fr_name = step_name step, fr_type = step_type step,
        fr_status = status, fr_startedAt = started, fr_completedAt = now, fr_response = response,
        fr_assertions = asserts, fr_error = err\<rparr>, st'))"

section \<open>Request steps\<close>

text \<open>One attempt: the request is resolved again, executed, and may time out.\<close>

datatype attempt_result = Got execute_response | Failed_with string

definition flow_scopes :: "'w flow_ctx \<Rightarrow> 'w flow_state \<Rightarrow> variable_scope list" where
  "flow_scopes ctx st =
     cx_scopes ctx @ [\<lparr>vs_name = Some ''flow'', vs_variables = Dict (fl_variables st)\<rparr>]"

definition timeout_message :: "request_config \<Rightarrow> string" where
  "timeout_message request = ''Step timed out after '' @ int_to_string (rq_timeoutMs request) @ ''ms''"

definition attempt_request ::
  "'w flow_ctx \<Rightarrow> request_config \<Rightarrow> 'w flow_state \<Rightarrow> attempt_result \<times> 'w flow_state" where
  "attempt_request ctx request st =
     (case resolve_request (cx_host ctx) request (Scopes_arg (flow_scopes ctx st)) [] (fl_runtime st) of
        Inl e \<Rightarrow> (Failed_with (error_to_string e), st)
      | Inr (rv, rt) \<Rightarrow>
          (case cx_execute ctx (rv_request rv) (fl_world st) of
             (out, w) \<Rightarrow>
               ((case out of
                   Responded r \<Rightarrow> Got r
                 | Rejected m \<Rightarrow> Failed_with m
                 | Late \<Rightarrow> Failed_with (timeout_message request)),
                st\<lparr>fl_runtime := rt, fl_world := w\<rparr>)))"

text \<open>
  \<open>Effect.retry\<close> with at most the given number of further attempts; the backoff sleep before each of
  them is interruptible, as the attempt is.
\<close>

primrec execute_with_retry ::
  "'w flow_ctx \<Rightarrow> request_config \<Rightarrow> nat \<Rightarrow> 'w flow_state
     \<Rightarrow> (attempt_result \<Rightarrow> 'w flow_state \<Rightarrow> 'w flow_state fx) \<Rightarrow> 'w flow_state fx" where
  "execute_with_retry ctx request 0 st k =
     fx_bind (interruptible st)
       (\<lambda>st1. case attempt_request ctx request st1 of (a, st2) \<Rightarrow> k a st2)"
| "execute_with_retry ctx request (Suc n) st k =
     fx_bind (interruptible st)
       (\<lambda>st1. case attempt_request ctx request st1 of
          (Got r, st2) \<Rightarrow> k (Got r) st2
        | (Failed_with m, st2) \<Rightarrow>
            fx_bind (interruptible st2) (\<lambda>st3. execute_with_retry ctx request n st3 k))"

definition store_extracted :: "flow_step \<Rightarrow> string obj \<Rightarrow> 'w flow_state \<Rightarrow> 'w flow_state" where
  "store_extracted step extracted st =
     fold (\<lambda>(n, v) s. emit (OnVariableExtracted n v (step_id step))
                        (s\<lparr>fl_variables := obj_assign n v (fl_variables s)\<rparr>)) extracted st"

definition response_failed :: "execute_response \<Rightarrow> assertion_result list \<Rightarrow> bool" where
  "response_failed r asserts \<longleftrightarrow> truthy (rs_error r) \<or> list_ex (\<lambda>a. \<not> ar_passed a) asserts"

definition finish_request_step ::
  "'w flow_ctx \<Rightarrow> flow_step \<Rightarrow> request_config \<Rightarrow> int \<Rightarrow> attempt_result \<Rightarrow> 'w flow_state \<Rightarrow> 'w flow_state fx"
where
  "finish_request_step ctx step request started a st =
     (case a of
        Got response \<Rightarrow>
          (let asserts = run_assertions (cx_host ctx) response (opt_rows (rq_assertions request)) in
           case extract_variables (cx_host ctx) response (opt_rows (rq_extractionRules request)) of
             Inl e \<Rightarrow> Died e
           | Inr extracted \<Rightarrow>
               (let st1 = store_extracted step extracted st;
                    status = (if response_failed response asserts then FS_failed else FS_passed);
                    (r, st2) = make_step_result step status started (Some response) (Some asserts)
                                 (rs_error response) st1 in
                Done (push_result r st2)))
      | Failed_with m \<Rightarrow>
          (let (r, st2) = make_step_result step FS_failed started None None (Some m)
                            (emit (OnError m (step_id step)) st) in
           Done (push_result r st2)))"

definition request_effect ::
  "'w flow_ctx \<Rightarrow> flow_step \<Rightarrow> request_config \<Rightarrow> int option \<Rightarrow> 'w flow_state \<Rightarrow> 'w flow_state fx" where
  "request_effect ctx step request retry_count st =
     (let (started, st1) = tick_clock st;
          retries = (case retry_count of Some n \<Rightarrow> nat n | None \<Rightarrow> 0) in
      execute_with_retry ctx request retries (emit (OnStepStart (step_id step)) st1)
        (finish_request_step ctx step request started))"

section \<open>All steps\<close>

definition delay_effect :: "flow_step \<Rightarrow> 'w flow_state \<Rightarrow> 'w flow_state fx" where
  "delay_effect step st =
     (let (started, st1) = tick_clock (emit (OnStepStart (step_id step)) st) in
      fx_bind (interruptible st1)
        (\<lambda>st2. let (r, st3) = make_step_result step FS_passed started None None None st2 in
                Done (push_result r st3)))"

text \<open>The loop \<open>for (index = 0; index < max; index += 1)\<close> with the condition checked first.\<close>

primrec loop_iter ::
  "nat \<Rightarrow> nat \<Rightarrow> ('s \<Rightarrow> bool) \<Rightarrow> (nat \<Rightarrow> 's \<Rightarrow> 's fx) \<Rightarrow> 's \<Rightarrow> 's fx" where
  "loop_iter 0 i go body st = Done st"
| "loop_iter (Suc n) i go body st =
     (if \<not> go st then Done st else fx_bind (body i st) (loop_iter n (Suc i) go body))"

definition set_loop_variable :: "nat \<Rightarrow> 'w flow_state \<Rightarrow> 'w flow_state" where
  "set_loop_variable i st =
     st\<lparr>fl_variables := obj_assign ''$loop.iteration'' (nat_to_string i) (fl_variables st)\<rparr>"

definition finish_simple :: "flow_step \<Rightarrow> int \<Rightarrow> 'w flow_state \<Rightarrow> 'w flow_state" where
  "finish_simple step started st =
     (let (r, st') = make_step_result step FS_passed started None None None st in push_result r st')"

text \<open>A failed request step without \<open>continueOnFailure\<close> ends its list of steps.\<close>

definition stops_list :: "flow_step \<Rightarrow> 'w flow_state \<Rightarrow> bool" where
  "stops_list step st \<longleftrightarrow>
     fl_results st \<noteq> [] \<and> fr_status (last (fl_results st)) = FS_failed
     \<and> (case step of RequestStep sid n r cont k \<Rightarrow> cont \<noteq> Some True | _ \<Rightarrow> False)"

fun run_step :: "'w flow_ctx \<Rightarrow> flow_step \<Rightarrow> 'w flow_state \<Rightarrow> 'w flow_state fx"
  and run_steps :: "'w flow_ctx \<Rightarrow> flow_step list \<Rightarrow> 'w flow_state \<Rightarrow> 'w flow_state fx"
where
  "run_step ctx (RequestStep sid n request cont retries) st =
     request_effect ctx (RequestStep sid n request cont retries) request retries st"
| "run_step ctx (DelayStep sid n d) st = delay_effect (DelayStep sid n d) st"
| "run_step ctx (ConditionStep sid n c then_steps else_steps) st =
     (let st0 = emit (OnStepStart sid) st;
          taken = evaluate_condition (cx_host ctx) c (fl_variables st0) (last_response st0);
          (started, st1) = tick_clock st0;
          st2 = finish_simple (ConditionStep sid n c then_steps else_steps) started st1 in
      if taken then run_steps ctx then_steps st2
      else case else_steps of None \<Rightarrow> Done st2 | Some es \<Rightarrow> run_steps ctx es st2)"
| "run_step ctx (LoopStep sid n rounds condition mode steps max_iterations) st =
     (let (started, st1) = tick_clock (emit (OnStepStart sid) st) in
      fx_bind
        (loop_iter (nat (loop_max_iterations rounds max_iterations)) 0
           (\<lambda>s. should_run_loop_iteration (cx_host ctx) condition mode (fl_variables s) (last_response s))
           (\<lambda>i s. run_steps ctx steps (set_loop_variable i s)) st1)
        (\<lambda>s. Done (finish_simple (LoopStep sid n rounds condition mode steps max_iterations) started s)))"
| "run_steps ctx [] st = Done st"
| "run_steps ctx (step # steps) st =
     fx_bind (run_step ctx step st)
       (\<lambda>st'. if stops_list step st' then Done st' else run_steps ctx steps st')"

section \<open>FlowRunner.run\<close>

datatype 'w flow_run = Ran flow_result "'w flow_state" | Run_rejected js_error

definition flow_status_of :: "flow_step_result list \<Rightarrow> flow_status" where
  "flow_status_of rs = (if list_ex (\<lambda>r. fr_status r = FS_failed) rs then FS_failed else FS_passed)"

definition make_flow_result :: "flow \<Rightarrow> flow_status \<Rightarrow> int \<Rightarrow> 'w flow_state \<Rightarrow> flow_result \<times> 'w flow_state" where
  "make_flow_result fw status started st =
     (let (now, st') = tick_clock st in
      (\<lparr>fz_flowId = fw_id fw, fz_status = status, fz_startedAt = started, fz_completedAt = now,
        fz_variables = fl_variables st, fz_steps = fl_results st\<rparr>, st'))"

definition run_flow ::
  "'w flow_ctx \<Rightarrow> flow \<Rightarrow> runtime \<Rightarrow> 'w \<Rightarrow> nat option \<Rightarrow> 'w flow_run" where
  "run_flow ctx fw rt w cancel =
     (let (started, rt1) = read_clock rt;
          st = \<lparr>fl_variables = [], fl_results = [], fl_events = [], fl_runtime = rt1, fl_world = w,
                fl_cancel = cancel\<rparr> in
      case run_steps ctx (fw_steps fw) st of
        Done s \<Rightarrow>
          (let (z, s') = make_flow_result fw (flow_status_of (fl_results s)) started s in
           Ran z (emit (OnFlowComplete z) s'))
      | Cancelled s \<Rightarrow>
          (let (z, s') = make_flow_result fw FS_cancelled started s in Ran z s')
      | Died e \<Rightarrow> Run_rejected e)"

end
