(* ===== verification/Flow_Facts.thy ===== *)
theory Flow_Facts
  imports Flow "HOL-Library.Sublist"
begin

text \<open>
  What a flow run guarantees: results and hook calls are only appended, their number is bounded by
  the flow, a cancelled run is a prefix of the run that is not cancelled, and only request steps end
  a list of steps.
\<close>

section \<open>Outcomes\<close>

definition fx_all :: "('s \<Rightarrow> bool) \<Rightarrow> 's fx \<Rightarrow> bool" where
  "fx_all P m = (case m of Done s \<Rightarrow> P s | Cancelled s \<Rightarrow> P s | Died e \<Rightarrow> True)"

lemma fx_all_simps [simp]:
  "fx_all P (Done s) = P s" "fx_all P (Cancelled s) = P s" "fx_all P (Died e)"
  by (simp_all add: fx_all_def)

lemma fx_all_bind:
  assumes "fx_all P m" and "\<And>s. P s \<Longrightarrow> fx_all Q (f s)" and "\<And>s. P s \<Longrightarrow> Q s"
  shows "fx_all Q (fx_bind m f)"
  using assms by (cases m) auto

section \<open>Runs only append\<close>

definition extends :: "'w flow_state \<Rightarrow> 'w flow_state \<Rightarrow> bool" where
  "extends st s \<longleftrightarrow> prefix (fl_results st) (fl_results s) \<and> prefix (fl_events st) (fl_events s)"

lemma extends_refl [simp]: "extends st st"
  by (simp add: extends_def)

lemma extends_trans: "extends a b \<Longrightarrow> extends b c \<Longrightarrow> extends a c"
  by (auto simp: extends_def)

text \<open>
  A step is regular when, from every state, it only appends, and when cancelling it can only cut it
  short: a run that passes its cancellation point behaves as the run without one, and an
  interrupted run leaves a state the uncancelled run extends.
\<close>

definition uncancel :: "'w flow_state \<Rightarrow> 'w flow_state" where
  "uncancel st = st\<lparr>fl_cancel := None\<rparr>"

definition cut_short :: "'w flow_state fx \<Rightarrow> 'w flow_state fx \<Rightarrow> bool" where
  "cut_short m full \<longleftrightarrow>
     (case m of
        Done s \<Rightarrow> full = Done (uncancel s)
      | Died e \<Rightarrow> full = Died e
      | Cancelled s \<Rightarrow> (case full of Done s' \<Rightarrow> extends s s' | Cancelled s' \<Rightarrow> False | Died e \<Rightarrow> True))"

definition stays_free :: "'w flow_state fx \<Rightarrow> bool" where
  "stays_free m \<longleftrightarrow> (case m of Done s \<Rightarrow> fl_cancel s = None | Cancelled s \<Rightarrow> False | Died e \<Rightarrow> True)"

definition regular :: "('w flow_state \<Rightarrow> 'w flow_state fx) \<Rightarrow> bool" where
  "regular f \<longleftrightarrow> (\<forall>st. fx_all (extends st) (f st) \<and> cut_short (f st) (f (uncancel st))
     \<and> stays_free (f (uncancel st)))"

text \<open>A pure change of the state ignores the cancellation point; so does a value read from it.\<close>

definition pure_step :: "('w flow_state \<Rightarrow> 'w flow_state) \<Rightarrow> bool" where
  "pure_step g \<longleftrightarrow> (\<forall>st. extends st (g st) \<and> g (uncancel st) = uncancel (g st))"

definition blind :: "('w flow_state \<Rightarrow> 'a) \<Rightarrow> bool" where
  "blind v \<longleftrightarrow> (\<forall>st. v (uncancel st) = v st)"

lemma uncancel_fields [simp]:
  "fl_results (uncancel st) = fl_results st" "fl_events (uncancel st) = fl_events st"
  "fl_variables (uncancel st) = fl_variables st" "fl_runtime (uncancel st) = fl_runtime st"
  "fl_world (uncancel st) = fl_world st" "uncancel (uncancel st) = uncancel st"
  "fl_cancel (uncancel st) = None"
  by (simp_all add: uncancel_def)

lemma extends_uncancel [simp]:
  "extends st (uncancel s) = extends st s" "extends (uncancel st) s = extends st s"
  by (simp_all add: extends_def)

lemma uncancel_free: "fl_cancel st = None \<Longrightarrow> uncancel st = st"
  by (simp add: uncancel_def)

lemma regularD:
  assumes "regular f"
  shows "fx_all (extends st) (f st)" "cut_short (f st) (f (uncancel st))" "stays_free (f (uncancel st))"
    "fl_cancel st = None \<Longrightarrow> stays_free (f st)"
  using assms by (auto simp: regular_def) (metis uncancel_free)

lemma regular_done: "pure_step g \<Longrightarrow> regular (\<lambda>st. Done (g st))"
  by (simp add: regular_def pure_step_def cut_short_def stays_free_def)

lemma extends_after:
  assumes "regular g" and "stays_free (Done s)"
  shows "(\<exists>t. g s = Done t \<and> extends s t \<and> fl_cancel t = None) \<or> (\<exists>e. g s = Died e)"
  using regularD(1,4) [OF assms(1), of s] assms(2) by (cases "g s") (auto simp: stays_free_def)

lemma regular_bind:
  assumes "regular f" and "regular g"
  shows "regular (\<lambda>st. fx_bind (f st) g)"
  unfolding regular_def
proof (intro allI conjI)
  fix st
  note f = regularD [OF assms(1), of st] and g = regularD [OF assms(2)]
  show "fx_all (extends st) (fx_bind (f st) g)"
  proof (rule fx_all_bind [OF f(1)])
    fix s assume "extends st s"
    with g(1) [of s] show "fx_all (extends st) (g s)"
      by (cases "g s") (auto intro: extends_trans)
  qed
  show "stays_free (fx_bind (f (uncancel st)) g)"
    using f(3) g(4) by (cases "f (uncancel st)") (auto simp: stays_free_def)
  show "cut_short (fx_bind (f st) g) (fx_bind (f (uncancel st)) g)"
  proof (cases "f st")
    case (Done s)
    with f(2) g(2) [of s] show ?thesis by (simp add: cut_short_def)
  next
    case (Cancelled s)
    show ?thesis
    proof (cases "f (uncancel st)")
      case (Done s')
      with f(3) have "stays_free (Done s')" by simp
      from extends_after [OF assms(2) this] Cancelled Done f(2) show ?thesis
        by (auto simp: cut_short_def intro: extends_trans)
    qed (use Cancelled f(2) in \<open>simp_all add: cut_short_def\<close>)
  next
    case (Died e)
    with f(2) show ?thesis by (simp add: cut_short_def)
  qed
qed

lemma regular_read: "blind v \<Longrightarrow> (\<And>x. regular (F x)) \<Longrightarrow> regular (\<lambda>st. F (v st) st)"
  by (simp add: regular_def blind_def)

lemma regular_if: "blind c \<Longrightarrow> regular f \<Longrightarrow> regular g \<Longrightarrow> regular (\<lambda>st. if c st then f st else g st)"
  by (simp add: regular_def blind_def)

lemma regular_after: "pure_step g \<Longrightarrow> regular f \<Longrightarrow> regular (\<lambda>st. f (g st))"
  using regular_bind [of "\<lambda>st. Done (g st)" f] by (simp add: regular_done)

lemma regular_interruptible: "regular interruptible"
  by (auto simp: regular_def interruptible_def cut_short_def stays_free_def uncancel_def
      split: option.splits nat.splits) (simp_all add: extends_def)

lemma regular_loop:
  assumes "blind go" and "\<And>i. regular (body i)"
  shows "regular (loop_iter n i go body)"
proof (induction n arbitrary: i)
  case 0
  then show ?case using regular_done [of "\<lambda>st. st"] by (simp add: pure_step_def)
next
  case (Suc n)
  have "regular (\<lambda>st. if \<not> go st then Done st else fx_bind (body i st) (loop_iter n (Suc i) go body))"
  proof (rule regular_if)
    show "blind (\<lambda>st. \<not> go st)" using assms(1) by (simp add: blind_def)
    show "regular Done" using regular_done [of "\<lambda>st. st"] by (simp add: pure_step_def)
    show "regular (\<lambda>st. fx_bind (body i st) (loop_iter n (Suc i) go body))"
      by (rule regular_bind [OF assms(2) Suc])
  qed
  then show ?case by simp
qed

section \<open>The pieces of a step\<close>

lemma pure_emit: "pure_step (emit ev)"
  by (simp add: pure_step_def emit_def extends_def uncancel_def)

lemma pure_comp: "pure_step f \<Longrightarrow> pure_step g \<Longrightarrow> pure_step (\<lambda>st. g (f st))"
  by (auto simp: pure_step_def intro: extends_trans)

lemma pure_tick: "pure_step (\<lambda>st. snd (tick_clock st))" and blind_tick: "blind (\<lambda>st. fst (tick_clock st))"
  by (simp_all add: pure_step_def blind_def tick_clock_def extends_def uncancel_def split: prod.split)

lemma pure_loop_variable: "pure_step (set_loop_variable i)"
  by (simp add: pure_step_def set_loop_variable_def extends_def uncancel_def)

lemma pure_push: "pure_step (push_result r)"
  by (simp add: pure_step_def push_result_def emit_def extends_def uncancel_def)

lemma pure_read: "blind v \<Longrightarrow> (\<And>x. pure_step (G x)) \<Longrightarrow> pure_step (\<lambda>st. G (v st) st)"
  by (simp add: pure_step_def blind_def)

lemma blind_after: "blind v \<Longrightarrow> pure_step g \<Longrightarrow> blind (\<lambda>st. v (g st))"
  by (simp add: blind_def pure_step_def)

lemma pure_result:
  "pure_step (\<lambda>st. snd (make_step_result step status started r a e st))" and
  blind_result: "blind (\<lambda>st. fst (make_step_result step status started r a e st))"
  by (simp_all add: make_step_result_def pure_step_def blind_def tick_clock_def extends_def
      uncancel_def Let_def split: prod.split)

lemma pure_result_push:
  "pure_step (\<lambda>st. let (x, st') = make_step_result step status started r a e st in push_result x st')"
proof -
  have "pure_step (\<lambda>st. push_result (fst (make_step_result step status started r a e st))
      (snd (make_step_result step status started r a e st)))"
    by (rule pure_read [OF blind_result, of "\<lambda>x st. push_result x (snd (make_step_result step status started r a e st))"])
      (rule pure_comp [OF pure_result pure_push])
  then show ?thesis by (simp add: case_prod_beta Let_def)
qed

lemma pure_finish_simple: "pure_step (finish_simple step started)"
  unfolding finish_simple_def by (rule pure_result_push)

lemma pure_store: "pure_step (store_extracted step extracted)"
  unfolding store_extracted_def
proof (induction extracted)
  case Nil
  then show ?case by (simp add: pure_step_def)
next
  case (Cons p ps)
  have "pure_step (\<lambda>s. emit (OnVariableExtracted (fst p) (snd p) (step_id step))
      (s\<lparr>fl_variables := obj_assign (fst p) (snd p) (fl_variables s)\<rparr>))"
    by (simp add: pure_step_def emit_def extends_def uncancel_def)
  from pure_comp [OF this Cons] show ?case by (simp add: case_prod_beta)
qed

lemma blind_attempt: "blind (\<lambda>st. fst (attempt_request ctx request st))" and
  pure_attempt: "pure_step (\<lambda>st. snd (attempt_request ctx request st))"
  by (simp_all add: blind_def pure_step_def attempt_request_def flow_scopes_def extends_def uncancel_def
      split: sum.split prod.split)

lemma regular_finish_request: "regular (finish_request_step ctx step request started a)"
proof (cases a)
  case (Got response)
  show ?thesis
  proof (cases "extract_variables (cx_host ctx) response (opt_rows (rq_extractionRules request))")
    case (Inl e)
    then show ?thesis using Got
      by (simp add: regular_def finish_request_step_def cut_short_def stays_free_def Let_def)
  next
    case (Inr extracted)
    let ?asserts = "run_assertions (cx_host ctx) response (opt_rows (rq_assertions request))"
    let ?status = "if response_failed response ?asserts then FS_failed else FS_passed"
    have "regular (\<lambda>st. Done ((\<lambda>st. let (x, st') = make_step_result step ?status started
        (Some response) (Some ?asserts) (rs_error response) st in push_result x st') (store_extracted step extracted st)))"
      by (rule regular_done) (rule pure_comp [OF pure_store pure_result_push])
    with Got Inr show ?thesis
      by (simp add: finish_request_step_def [abs_def] Let_def case_prod_beta)
  qed
next
  case (Failed_with m)
  have "regular (\<lambda>st. Done ((\<lambda>st. let (x, st') = make_step_result step FS_failed started
      None None (Some m) st in push_result x st') (emit (OnError m (step_id step)) st)))"
    by (rule regular_done) (rule pure_comp [OF pure_emit pure_result_push])
  with Failed_with show ?thesis by (simp add: finish_request_step_def [abs_def] Let_def case_prod_beta)
qed

lemma regular_retry:
  assumes "\<And>a. regular (k a)"
  shows "regular (\<lambda>st. execute_with_retry ctx request n st k)"
proof (induction n)
  case 0
  have "regular (\<lambda>st. k (fst (attempt_request ctx request st)) (snd (attempt_request ctx request st)))"
    by (rule regular_read [OF blind_attempt, of "\<lambda>a st. k a (snd (attempt_request ctx request st))"])
      (rule regular_after [OF pure_attempt assms])
  from regular_bind [OF regular_interruptible this] show ?case by (simp add: case_prod_beta)
next
  case (Suc n)
  let ?next = "\<lambda>a. case a of Got r \<Rightarrow> k (Got r)
      | Failed_with m \<Rightarrow> (\<lambda>st. fx_bind (interruptible st) (\<lambda>st3. execute_with_retry ctx request n st3 k))"
  have "regular (?next a)" for a
    using assms regular_bind [OF regular_interruptible Suc] by (cases a) auto
  then have "regular (\<lambda>st. ?next (fst (attempt_request ctx request st)) (snd (attempt_request ctx request st)))"
    by (intro regular_read [OF blind_attempt, of "\<lambda>a st. ?next a (snd (attempt_request ctx request st))"]
        regular_after [OF pure_attempt])
  moreover have "(\<lambda>st1. case attempt_request ctx request st1 of
          (Got r, st2) \<Rightarrow> k (Got r) st2
        | (Failed_with m, st2) \<Rightarrow>
            fx_bind (interruptible st2) (\<lambda>st3. execute_with_retry ctx request n st3 k))
      = (\<lambda>st. ?next (fst (attempt_request ctx request st)) (snd (attempt_request ctx request st)))"
    by (auto simp: case_prod_beta split: attempt_result.split)
  ultimately show ?case using regular_bind [OF regular_interruptible] by simp
qed

lemma regular_request: "regular (request_effect ctx step request retries)"
proof -
  let ?F = "\<lambda>started st. execute_with_retry ctx request (case retries of Some n \<Rightarrow> nat n | None \<Rightarrow> 0)
      (emit (OnStepStart (step_id step)) (snd (tick_clock st))) (finish_request_step ctx step request started)"
  have "regular (?F started)" for started
    by (rule regular_after [of "\<lambda>st. emit (OnStepStart (step_id step)) (snd (tick_clock st))"
          "\<lambda>st. execute_with_retry ctx request _ st _"])
      (rule pure_comp [OF pure_tick pure_emit], rule regular_retry, rule regular_finish_request)
  from regular_read [OF blind_tick this] show ?thesis
    by (simp add: request_effect_def [abs_def] Let_def case_prod_beta)
qed

lemma regular_delay: "regular (delay_effect step)"
proof -
  have fin: "regular (\<lambda>st2. Done (let (r, st3) = make_step_result step FS_passed started None None None st2
      in push_result r st3))" for started
    by (rule regular_done [OF pure_result_push])
  let ?F = "\<lambda>started st. fx_bind (interruptible (snd (tick_clock (emit (OnStepStart (step_id step)) st))))
      (\<lambda>st2. Done (let (r, st3) = make_step_result step FS_passed started None None None st2
      in push_result r st3))"
  have "regular (?F started)" for started
    by (rule regular_bind [OF regular_after [OF pure_comp [OF pure_emit pure_tick] regular_interruptible] fin])
  from regular_read [OF blind_after [OF blind_tick pure_emit] this] show ?thesis
    by (simp add: delay_effect_def [abs_def] Let_def case_prod_beta)
qed

lemma blind_stops: "blind (stops_list step)"
  by (simp add: blind_def stops_list_def)

lemma regular_steps:
  assumes "\<And>s. s \<in> set steps \<Longrightarrow> regular (run_step ctx s)"
  shows "regular (run_steps ctx steps)"
  using assms
proof (induction steps)
  case Nil
  have "run_steps ctx [] = Done" by (rule ext) simp
  then show ?case using regular_done [of "\<lambda>st. st"] by (simp add: pure_step_def)
next
  case (Cons s ss)
  have "regular (\<lambda>st'. if stops_list s st' then Done st' else run_steps ctx ss st')"
  proof (rule regular_if [OF blind_stops])
    show "regular Done" using regular_done [of "\<lambda>st. st"] by (simp add: pure_step_def)
    show "regular (run_steps ctx ss)" by (rule Cons.IH) (rule Cons.prems, simp)
  qed
  moreover have "run_steps ctx (s # ss) =
      (\<lambda>st. fx_bind (run_step ctx s st) (\<lambda>st'. if stops_list s st' then Done st' else run_steps ctx ss st'))"
    by (rule ext) simp
  ultimately show ?case using regular_bind [OF Cons.prems [of s]] by simp
qed

lemma regular_step: "regular (run_step ctx step)"
proof (induction step)
  case (RequestStep sid n request cont retries)
  have "run_step ctx (RequestStep sid n request cont retries) =
      request_effect ctx (RequestStep sid n request cont retries) request retries" by (rule ext) simp
  then show ?case by (simp add: regular_request)
next
  case (DelayStep sid n d)
  have "run_step ctx (DelayStep sid n d) = delay_effect (DelayStep sid n d)" by (rule ext) simp
  then show ?case by (simp add: regular_delay)
next
  case (ConditionStep sid n c ts es)
  let ?step = "ConditionStep sid n c ts es"
  let ?branch = "\<lambda>taken. if taken then run_steps ctx ts else (case es of None \<Rightarrow> Done | Some ss \<Rightarrow> run_steps ctx ss)"
  let ?taken = "\<lambda>st. evaluate_condition (cx_host ctx) c (fl_variables (emit (OnStepStart sid) st))
      (last_response (emit (OnStepStart sid) st))"
  let ?started = "\<lambda>st. fst (tick_clock (emit (OnStepStart sid) st))"
  let ?rest = "\<lambda>taken started st. ?branch taken (finish_simple ?step started (snd (tick_clock (emit (OnStepStart sid) st))))"
  have t: "regular (run_steps ctx ts)" by (rule regular_steps) (rule ConditionStep.IH(1))
  have e: "regular (case es of None \<Rightarrow> Done | Some ss \<Rightarrow> run_steps ctx ss)"
  proof (cases es)
    case None
    then show ?thesis using regular_done [of "\<lambda>st. st"] by (simp add: pure_step_def)
  next
    case (Some ss)
    then show ?thesis using regular_steps ConditionStep.IH(2) by fastforce
  qed
  have "regular (?branch taken)" for taken using t e by simp
  then have "regular (?rest taken started)" for taken started
    by (rule regular_after [OF pure_comp [OF pure_comp [OF pure_emit pure_tick] pure_finish_simple]])
  then have "regular (\<lambda>st. ?rest taken (?started st) st)" for taken
    by (rule regular_read [OF blind_after [OF blind_tick pure_emit], of "?rest taken"])
  moreover have "blind ?taken" by (simp add: blind_def emit_def last_response_def uncancel_def)
  ultimately have "regular (\<lambda>st. ?rest (?taken st) (?started st) st)"
    by (intro regular_read [of ?taken "\<lambda>taken st. ?rest taken (?started st) st"])
  moreover have "run_step ctx ?step = (\<lambda>st. ?rest (?taken st) (?started st) st)"
    by (rule ext) (auto simp: Let_def case_prod_beta split: option.split)
  ultimately show ?case by simp
next
  case (LoopStep sid n rounds condition mode steps max_iterations)
  let ?step = "LoopStep sid n rounds condition mode steps max_iterations"
  let ?go = "\<lambda>s. should_run_loop_iteration (cx_host ctx) condition mode (fl_variables s) (last_response s)"
  let ?loop = "loop_iter (nat (loop_max_iterations rounds max_iterations)) 0 ?go
      (\<lambda>i s. run_steps ctx steps (set_loop_variable i s))"
  have body: "regular (\<lambda>s. run_steps ctx steps (set_loop_variable i s))" for i
    by (rule regular_after [OF pure_loop_variable regular_steps]) (rule LoopStep.IH)
  have "blind ?go" by (simp add: blind_def last_response_def)
  from regular_loop [OF this body] have loop: "regular ?loop" .
  let ?F = "\<lambda>started st. fx_bind (?loop (snd (tick_clock (emit (OnStepStart sid) st))))
      (\<lambda>s. Done (finish_simple ?step started s))"
  have "regular (?F started)" for started
    by (rule regular_bind [OF regular_after [OF pure_comp [OF pure_emit pure_tick] loop]
          regular_done [OF pure_finish_simple]])
  from regular_read [OF blind_after [OF blind_tick pure_emit] this]
  have "regular (\<lambda>st. ?F (fst (tick_clock (emit (OnStepStart sid) st))) st)" .
  moreover have "run_step ctx ?step = (\<lambda>st. ?F (fst (tick_clock (emit (OnStepStart sid) st))) st)"
    by (rule ext) (simp add: Let_def case_prod_beta)
  ultimately show ?case by simp
qed

section \<open>How many results\<close>

definition adds :: "nat \<Rightarrow> ('w flow_state \<Rightarrow> 'w flow_state fx) \<Rightarrow> bool" where
  "adds n f \<longleftrightarrow>
     (\<forall>st. fx_all (\<lambda>s. length (fl_results s) \<le> length (fl_results st) + n) (f st))"

fun step_bound :: "flow_step \<Rightarrow> nat" and steps_bound :: "flow_step list \<Rightarrow> nat" where
  "step_bound (RequestStep sid n r c k) = 1"
| "step_bound (DelayStep sid n d) = 1"
| "step_bound (ConditionStep sid n c ts es) =
     1 + max (steps_bound ts) (case es of None \<Rightarrow> 0 | Some ss \<Rightarrow> steps_bound ss)"
| "step_bound (LoopStep sid n rounds c m ss mx) =
     1 + nat (loop_max_iterations rounds mx) * steps_bound ss"
| "steps_bound [] = 0"
| "steps_bound (s # ss) = step_bound s + steps_bound ss"

lemma results_simps [simp]:
  "fl_results (emit ev st) = fl_results st"
  "fl_results (snd (tick_clock st)) = fl_results st"
  "fl_results (snd (make_step_result step status started r a e st)) = fl_results st"
  "fl_results (snd (attempt_request ctx request st)) = fl_results st"
  "fl_results (set_loop_variable i st) = fl_results st"
  "fl_results (push_result x st) = fl_results st @ [x]"
  by (simp_all add: emit_def tick_clock_def make_step_result_def attempt_request_def set_loop_variable_def
      push_result_def Let_def split: prod.split sum.split)

lemma results_store [simp]: "fl_results (store_extracted step extracted st) = fl_results st"
  unfolding store_extracted_def by (induction extracted arbitrary: st) (simp_all add: case_prod_beta)

lemma results_finish_simple [simp]:
  "length (fl_results (finish_simple step started st)) = Suc (length (fl_results st))"
  by (simp add: finish_simple_def case_prod_beta Let_def)

lemma adds_done:
  "(\<And>st. length (fl_results (g st)) \<le> length (fl_results st) + n) \<Longrightarrow> adds n (\<lambda>st. Done (g st))"
  by (simp add: adds_def)

lemma adds_bind:
  fixes f g :: "'w flow_state \<Rightarrow> 'w flow_state fx"
  assumes "adds m f" and "adds n g"
  shows "adds (m + n) (\<lambda>st. fx_bind (f st) g)"
  unfolding adds_def
proof
  fix st :: "'w flow_state"
  have f: "fx_all (\<lambda>s. length (fl_results s) \<le> length (fl_results st) + m) (f st)"
    using assms(1) by (simp add: adds_def)
  show "fx_all (\<lambda>s. length (fl_results s) \<le> length (fl_results st) + (m + n)) (fx_bind (f st) g)"
  proof (rule fx_all_bind [OF f])
    fix s :: "'w flow_state"
    assume "length (fl_results s) \<le> length (fl_results st) + m"
    moreover have "fx_all (\<lambda>t. length (fl_results t) \<le> length (fl_results s) + n) (g s)"
      using assms(2) by (simp add: adds_def)
    ultimately show "fx_all (\<lambda>s. length (fl_results s) \<le> length (fl_results st) + (m + n)) (g s)"
      by (cases "g s") auto
  qed simp
qed

lemma fx_all_mono: "fx_all P m \<Longrightarrow> (\<And>s. P s \<Longrightarrow> Q s) \<Longrightarrow> fx_all Q m"
  by (cases m) auto

lemma adds_mono: "adds m f \<Longrightarrow> m \<le> n \<Longrightarrow> adds n f"
  unfolding adds_def by (blast intro: fx_all_mono le_trans add_left_mono)

lemma adds_after:
  "(\<And>st. length (fl_results (g st)) = length (fl_results st)) \<Longrightarrow> adds n f \<Longrightarrow> adds n (\<lambda>st. f (g st))"
  unfolding adds_def by metis

lemma adds_read: "(\<And>x. adds n (F x)) \<Longrightarrow> adds n (\<lambda>st. F (v st) st)"
  by (simp add: adds_def)

lemma adds_interruptible: "adds 0 interruptible"
  by (auto simp: adds_def interruptible_def split: option.split nat.split)

lemma adds_finish_request: "adds 1 (finish_request_step ctx step request started a)"
  by (auto simp: adds_def finish_request_step_def Let_def case_prod_beta split: attempt_result.split sum.split)

lemma adds_retry:
  assumes "\<And>a. adds n (k a)"
  shows "adds n (\<lambda>st. execute_with_retry ctx request m st k)"
proof (induction m)
  case 0
  have "adds n (\<lambda>st. k (fst (attempt_request ctx request st)) (snd (attempt_request ctx request st)))"
    by (rule adds_read [of n "\<lambda>a st. k a (snd (attempt_request ctx request st))"])
      (rule adds_after [OF _ assms], simp)
  from adds_bind [OF adds_interruptible this] show ?case by (simp add: case_prod_beta)
next
  case (Suc m)
  let ?next = "\<lambda>a. case a of Got r \<Rightarrow> k (Got r)
      | Failed_with e \<Rightarrow> (\<lambda>st. fx_bind (interruptible st) (\<lambda>st3. execute_with_retry ctx request m st3 k))"
  have "adds n (\<lambda>st. fx_bind (interruptible st) (\<lambda>st3. execute_with_retry ctx request m st3 k))"
    using adds_bind [OF adds_interruptible Suc] by (simp only: add_0)
  then have nx: "adds n (?next a)" for a using assms by (cases a) simp_all
  have "adds n (\<lambda>st. ?next a (snd (attempt_request ctx request st)))" for a
    by (rule adds_after [of "\<lambda>st. snd (attempt_request ctx request st)" n "?next a"])
      (simp only: results_simps, rule nx)
  then have "adds n (\<lambda>st. ?next (fst (attempt_request ctx request st)) (snd (attempt_request ctx request st)))"
    by (rule adds_read [of n "\<lambda>a st. ?next a (snd (attempt_request ctx request st))"])
  moreover have "(\<lambda>st1. case attempt_request ctx request st1 of
          (Got r, st2) \<Rightarrow> k (Got r) st2
        | (Failed_with e, st2) \<Rightarrow>
            fx_bind (interruptible st2) (\<lambda>st3. execute_with_retry ctx request m st3 k))
      = (\<lambda>st. ?next (fst (attempt_request ctx request st)) (snd (attempt_request ctx request st)))"
    by (auto simp: case_prod_beta split: attempt_result.split)
  ultimately have "adds (0 + n) (\<lambda>st. fx_bind (interruptible st) (\<lambda>st1. case attempt_request ctx request st1 of
          (Got r, st2) \<Rightarrow> k (Got r) st2
        | (Failed_with e, st2) \<Rightarrow>
            fx_bind (interruptible st2) (\<lambda>st3. execute_with_retry ctx request m st3 k)))"
    by (intro adds_bind [OF adds_interruptible]) simp
  then show ?case by (simp only: execute_with_retry.simps add_0)
qed

lemma adds_request: "adds 1 (request_effect ctx step request retries)"
proof -
  let ?F = "\<lambda>started st. execute_with_retry ctx request (case retries of Some n \<Rightarrow> nat n | None \<Rightarrow> 0)
      (emit (OnStepStart (step_id step)) (snd (tick_clock st))) (finish_request_step ctx step request started)"
  have "adds 1 (?F started)" for started
    by (rule adds_after [of "\<lambda>st. emit (OnStepStart (step_id step)) (snd (tick_clock st))" 1
          "\<lambda>st. execute_with_retry ctx request _ st _"])
      (simp, rule adds_retry, rule adds_finish_request)
  from adds_read [of 1 ?F, OF this] show ?thesis
    by (simp add: request_effect_def [abs_def] Let_def case_prod_beta)
qed

lemma adds_delay: "adds 1 (delay_effect step)"
proof -
  have "adds 1 (\<lambda>st2. Done (let (r, st3) = make_step_result step FS_passed started None None None st2
      in push_result r st3))" for started
    by (rule adds_done) (simp add: Let_def case_prod_beta)
  from adds_bind [OF adds_after [OF _ adds_interruptible] this, of "\<lambda>st. snd (tick_clock (emit (OnStepStart (step_id step)) st))"]
  have "adds 1 (\<lambda>st. fx_bind (interruptible (snd (tick_clock (emit (OnStepStart (step_id step)) st))))
      (\<lambda>st2. Done (let (r, st3) = make_step_result step FS_passed started None None None st2
      in push_result r st3)))" for started by simp
  from adds_read [OF this] show ?thesis
    by (simp add: delay_effect_def [abs_def] Let_def case_prod_beta)
qed

lemma adds_loop:
  assumes "\<And>i. adds m (body i)"
  shows "adds (n * m) (loop_iter n i go body)"
proof (induction n arbitrary: i)
  case 0
  show ?case by (simp add: adds_def)
next
  case (Suc n)
  have "adds (m + n * m) (\<lambda>st. fx_bind (body i st) (loop_iter n (Suc i) go body))"
    by (rule adds_bind [OF assms Suc])
  then show ?case by (simp add: adds_def)
qed

lemma adds_steps:
  assumes "\<And>s. s \<in> set steps \<Longrightarrow> adds (step_bound s) (run_step ctx s)"
  shows "adds (steps_bound steps) (run_steps ctx steps)"
  using assms
proof (induction steps)
  case Nil
  show ?case by (simp add: adds_def)
next
  case (Cons s ss)
  have "adds (steps_bound ss) (run_steps ctx ss)" by (rule Cons.IH) (rule Cons.prems, simp)
  then have "adds (steps_bound ss) (\<lambda>st'. if stops_list s st' then Done st' else run_steps ctx ss st')"
    by (simp add: adds_def)
  from adds_bind [OF Cons.prems [of s] this] show ?case by (simp add: adds_def)
qed

lemma run_condition:
  "run_step ctx (ConditionStep sid n c ts es) =
    (\<lambda>st. fx_bind (Done (finish_simple (ConditionStep sid n c ts es)
            (fst (tick_clock (emit (OnStepStart sid) st))) (snd (tick_clock (emit (OnStepStart sid) st)))))
       (if evaluate_condition (cx_host ctx) c (fl_variables (emit (OnStepStart sid) st))
             (last_response (emit (OnStepStart sid) st))
        then run_steps ctx ts else (case es of None \<Rightarrow> Done | Some ss \<Rightarrow> run_steps ctx ss)))"
  by (rule ext) (auto simp: Let_def case_prod_beta split: option.split)

lemma adds_step: "adds (step_bound step) (run_step ctx step)"
proof (induction step)
  case (RequestStep sid n request cont retries)
  show ?case using adds_request by (simp add: adds_def)
next
  case (DelayStep sid n d)
  show ?case using adds_delay by (simp add: adds_def)
next
  case (ConditionStep sid n c ts es)
  have t: "adds (steps_bound ts) (run_steps ctx ts)" by (rule adds_steps) (rule ConditionStep.IH(1))
  have e: "adds (steps_bound ss) (run_steps ctx ss)" if "es = Some ss" for ss
    by (rule adds_steps) (use ConditionStep.IH(2) that in auto)
  let ?step = "ConditionStep sid n c ts es"
  let ?rest = "case es of None \<Rightarrow> 0 | Some ss \<Rightarrow> steps_bound ss"
  let ?branch = "\<lambda>taken. if taken then run_steps ctx ts else (case es of None \<Rightarrow> Done | Some ss \<Rightarrow> run_steps ctx ss)"
  let ?F = "\<lambda>taken started st. fx_bind (Done (finish_simple ?step started (snd (tick_clock (emit (OnStepStart sid) st)))))
      (?branch taken)"
  have "adds (max (steps_bound ts) ?rest) (?branch taken)" for taken
  proof (cases taken)
    case True
    with adds_mono [OF t, of "max (steps_bound ts) ?rest"] show ?thesis by simp
  next
    case False
    show ?thesis
    proof (cases es)
      case None
      with False show ?thesis by (simp add: adds_def)
    next
      case (Some ss)
      with False adds_mono [OF e [OF Some], of "max (steps_bound ts) ?rest"] show ?thesis by simp
    qed
  qed
  moreover have "adds 1 (\<lambda>st. Done (finish_simple ?step started (snd (tick_clock (emit (OnStepStart sid) st)))))" for started
    by (rule adds_done) simp
  ultimately have "adds (1 + max (steps_bound ts) ?rest) (?F taken started)" for taken started
    by (intro adds_bind)
  then have "adds (1 + max (steps_bound ts) ?rest) (\<lambda>st. ?F taken (fst (tick_clock (emit (OnStepStart sid) st))) st)" for taken
    by (rule adds_read [of _ "?F taken"])
  then have "adds (1 + max (steps_bound ts) ?rest) (\<lambda>st. ?F
      (evaluate_condition (cx_host ctx) c (fl_variables (emit (OnStepStart sid) st))
         (last_response (emit (OnStepStart sid) st)))
      (fst (tick_clock (emit (OnStepStart sid) st))) st)"
    by (rule adds_read [of _ "\<lambda>taken st. ?F taken (fst (tick_clock (emit (OnStepStart sid) st))) st"])
  then show ?case by (simp only: run_condition step_bound.simps)
next
  case (LoopStep sid n rounds condition mode steps max_iterations)
  have body: "adds (steps_bound steps) (\<lambda>s. run_steps ctx steps (set_loop_variable i s))" for i
    by (rule adds_after [OF _ adds_steps]) (simp, rule LoopStep.IH)
  let ?step = "LoopStep sid n rounds condition mode steps max_iterations"
  let ?loop = "loop_iter (nat (loop_max_iterations rounds max_iterations)) 0
      (\<lambda>s. should_run_loop_iteration (cx_host ctx) condition mode (fl_variables s) (last_response s))
      (\<lambda>i s. run_steps ctx steps (set_loop_variable i s))"
  let ?F = "\<lambda>started st. fx_bind (?loop (snd (tick_clock (emit (OnStepStart sid) st))))
      (\<lambda>s. Done (finish_simple ?step started s))"
  have "adds (nat (loop_max_iterations rounds max_iterations) * steps_bound steps)
      (\<lambda>st. ?loop (snd (tick_clock (emit (OnStepStart sid) st))))"
    by (rule adds_after [OF _ adds_loop [OF body]]) simp
  moreover have "adds 1 (\<lambda>s. Done (finish_simple ?step started s))" for started
    by (rule adds_done) simp
  ultimately have "adds (nat (loop_max_iterations rounds max_iterations) * steps_bound steps + 1) (?F started)" for started
    by (intro adds_bind)
  then show ?case by (simp add: adds_def Let_def case_prod_beta)
qed

section \<open>Runs of the runner\<close>

lemma flow_status_not_cancelled: "flow_status_of rs \<noteq> FS_cancelled"
  by (simp add: flow_status_of_def)

definition start_state :: "runtime \<Rightarrow> 'w \<Rightarrow> nat option \<Rightarrow> 'w flow_state" where
  "start_state rt w c = \<lparr>fl_variables = [], fl_results = [], fl_events = [],
     fl_runtime = snd (read_clock rt), fl_world = w, fl_cancel = c\<rparr>"

lemma run_flow_cases:
  "run_flow ctx fw rt w c =
     (case run_steps ctx (fw_steps fw) (start_state rt w c) of
        Done s \<Rightarrow> (case make_flow_result fw (flow_status_of (fl_results s)) (fst (read_clock rt)) s of
                     (z, s') \<Rightarrow> Ran z (emit (OnFlowComplete z) s'))
      | Cancelled s \<Rightarrow> (case make_flow_result fw FS_cancelled (fst (read_clock rt)) s of (z, s') \<Rightarrow> Ran z s')
      | Died e \<Rightarrow> Run_rejected e)"
  by (simp add: run_flow_def start_state_def Let_def case_prod_beta split: fx.split)

lemma make_flow_result_fields:
  "make_flow_result fw status started s = (z, s') \<Longrightarrow>
     fz_steps z = fl_results s \<and> fz_status z = status \<and> fz_variables z = fl_variables s
     \<and> fl_events s' = fl_events s \<and> fl_results s' = fl_results s"
  by (auto simp: make_flow_result_def Let_def tick_clock_def split: prod.splits)

lemma uncancel_start: "uncancel (start_state rt w c) = start_state rt w None"
  by (simp add: uncancel_def start_state_def)

lemma make_flow_result_uncancel:
  "make_flow_result fw status started (uncancel s) =
     (fst (make_flow_result fw status started s), uncancel (snd (make_flow_result fw status started s)))"
  by (simp add: make_flow_result_def Let_def tick_clock_def uncancel_def split: prod.split)

section \<open>Properties\<close>

text \<open>A context and flows for evaluating the model: the first execution fails, later ones succeed.\<close>

definition sample_ctx :: "nat flow_ctx" where
  "sample_ctx = \<lparr>cx_host = sample_host,
     cx_execute = (\<lambda>r w. (Responded (sample_response (if w = 0 then 500 else 200) ''{}''), Suc w)),
     cx_scopes = []\<rparr>"

definition sample_flow :: "flow_step list \<Rightarrow> flow" where
  "sample_flow steps = \<lparr>fw_id = ''f'', fw_name = ''f'', fw_steps = steps, fw_createdAt = 0,
     fw_updatedAt = 0\<rparr>"

text \<open>
  C4: Cancelling a flow only cuts it short: if the run is reported cancelled, its results are a
  prefix of the results of the same run without the cancellation, and if it is not, the two runs
  have the same result.
\<close>

theorem cancelled_run_is_prefix:
  assumes "run_flow ctx fw rt w (Some k) = Ran z s"
  shows "if fz_status z = FS_cancelled
    then (\<forall>z' s'. run_flow ctx fw rt w None = Ran z' s' \<longrightarrow> prefix (fz_steps z) (fz_steps z'))
    else (\<exists>s'. run_flow ctx fw rt w None = Ran z s')"
proof -
  let ?m = "run_steps ctx (fw_steps fw) (start_state rt w (Some k))"
  let ?full = "run_steps ctx (fw_steps fw) (start_state rt w None)"
  have cut: "cut_short ?m ?full"
    using regularD(2) [OF regular_steps [OF regular_step], of ctx "fw_steps fw" "start_state rt w (Some k)"]
    by (simp add: uncancel_start)
  have free: "stays_free ?full"
    by (rule regularD(4) [OF regular_steps [OF regular_step]]) (simp add: start_state_def)
  show ?thesis
  proof (cases ?m)
    case (Done t)
    with assms have z: "fz_status z \<noteq> FS_cancelled" "z = fst (make_flow_result fw (flow_status_of (fl_results t)) (fst (read_clock rt)) t)"
      using make_flow_result_fields [of fw _ _ t] flow_status_not_cancelled [of "fl_results t"]
      by (auto simp: run_flow_cases split: prod.splits)
    from Done cut have "?full = Done (uncancel t)" by (simp add: cut_short_def)
    with z show ?thesis by (simp add: run_flow_cases make_flow_result_uncancel)
  next
    case (Cancelled t)
    with assms have z: "fz_status z = FS_cancelled" "fz_steps z = fl_results t"
      using make_flow_result_fields [of fw _ _ t] by (auto simp: run_flow_cases split: prod.splits)
    have "prefix (fz_steps z) (fz_steps z')" if r: "run_flow ctx fw rt w None = Ran z' s'" for z' s'
    proof (cases ?full)
      case (Done u)
      with Cancelled cut have "extends t u" by (simp add: cut_short_def)
      moreover from Done r have "fz_steps z' = fl_results u"
        using make_flow_result_fields [of fw _ _ u] by (auto simp: run_flow_cases split: prod.splits)
      ultimately show ?thesis using z by (simp add: extends_def)
    qed (use free r in \<open>simp_all add: stays_free_def run_flow_cases\<close>)
    with z show ?thesis by simp
  next
    case (Died e)
    with assms show ?thesis by (simp add: run_flow_cases)
  qed
qed

theorem cancelled_run_is_prefix_witness:
  "\<exists>z s. run_flow sample_ctx (sample_flow [DelayStep ''a'' ''a'' 1, DelayStep ''b'' ''b'' 1]) sample_runtime 0 (Some 1)
        = Ran z s \<and> fz_status z = FS_cancelled \<and> length (fz_steps z) = 1
     \<and> (\<forall>z' s'. run_flow sample_ctx (sample_flow [DelayStep ''a'' ''a'' 1, DelayStep ''b'' ''b'' 1])
                 sample_runtime 0 None = Ran z' s' \<longrightarrow> prefix (fz_steps z) (fz_steps z'))"
proof -
  let ?run = "run_flow sample_ctx (sample_flow [DelayStep ''a'' ''a'' 1, DelayStep ''b'' ''b'' 1]) sample_runtime 0 (Some 1)"
  have "(case ?run of Ran z s \<Rightarrow> fz_status z = FS_cancelled \<and> length (fz_steps z) = 1 | Run_rejected e \<Rightarrow> False)"
    by code_simp
  then obtain z s where z: "?run = Ran z s" "fz_status z = FS_cancelled" "length (fz_steps z) = 1"
    by (cases ?run) auto
  from cancelled_run_is_prefix [OF z(1)] z show ?thesis by auto
qed

lemma run_flow_length:
  assumes "run_flow ctx fw rt w c = Ran z s"
  shows "length (fz_steps z) \<le> steps_bound (fw_steps fw)"
proof -
  let ?m = "run_steps ctx (fw_steps fw) (start_state rt w c)"
  have "adds (steps_bound (fw_steps fw)) (run_steps ctx (fw_steps fw))"
    by (rule adds_steps) (rule adds_step)
  then have "fx_all (\<lambda>s. length (fl_results s) \<le> length (fl_results (start_state rt w c)) + steps_bound (fw_steps fw)) ?m"
    by (simp add: adds_def)
  then have b: "fx_all (\<lambda>s. length (fl_results s) \<le> steps_bound (fw_steps fw)) ?m"
    by (simp add: start_state_def)
  show ?thesis
  proof (cases ?m)
    case (Done t)
    with assms b make_flow_result_fields [of fw _ _ t] show ?thesis
      by (fastforce simp: run_flow_cases split: prod.splits)
  next
    case (Cancelled t)
    with assms b make_flow_result_fields [of fw _ _ t] show ?thesis
      by (fastforce simp: run_flow_cases split: prod.splits)
  next
    case (Died e)
    with assms show ?thesis by (simp add: run_flow_cases)
  qed
qed

lemma run_flow_status:
  assumes "run_flow ctx fw rt w c = Ran z s" and "fz_status z \<noteq> FS_cancelled"
  shows "fz_status z = FS_failed \<longleftrightarrow> (\<exists>r \<in> set (fz_steps z). fr_status r = FS_failed)"
proof (cases "run_steps ctx (fw_steps fw) (start_state rt w c)")
  case (Done t)
  with assms make_flow_result_fields [of fw _ _ t] show ?thesis
    by (fastforce simp: run_flow_cases flow_status_of_def list_ex_iff split: prod.splits if_splits)
next
  case (Cancelled t)
  with assms make_flow_result_fields [of fw _ _ t] show ?thesis
    by (fastforce simp: run_flow_cases split: prod.splits)
next
  case (Died e)
  with assms show ?thesis by (simp add: run_flow_cases)
qed

text \<open>
  The number of results of a flow, cancelled or not, is at most the bound computed from its
  steps (loops capped by their maximum, 1000 when none is given), and a flow that is not cancelled
  is reported failed exactly when one of its results failed.
\<close>

theorem flow_run_bounded:
  assumes "run_flow ctx fw rt w c = Ran z s"
  shows "length (fz_steps z) \<le> steps_bound (fw_steps fw)
    \<and> (fz_status z \<noteq> FS_cancelled \<longrightarrow>
        (fz_status z = FS_failed \<longleftrightarrow> (\<exists>r \<in> set (fz_steps z). fr_status r = FS_failed)))"
  using run_flow_length [OF assms] run_flow_status [OF assms] by blast

theorem flow_run_bounded_witness:
  "\<exists>z s. run_flow sample_ctx (sample_flow []) sample_runtime 0 None = Ran z s
     \<and> fz_status z = FS_passed \<and> length (fz_steps z) \<le> 0"
proof -
  let ?run = "run_flow sample_ctx (sample_flow []) sample_runtime 0 None"
  have "\<exists>z s. ?run = Ran z s \<and> fz_status z = FS_passed"
    by (simp add: run_flow_def sample_flow_def make_flow_result_def flow_status_of_def Let_def case_prod_beta)
  then obtain z s where z: "?run = Ran z s" "fz_status z = FS_passed" by blast
  have "steps_bound (fw_steps (sample_flow [])) = 0" by (simp add: sample_flow_def)
  with flow_run_bounded [OF z(1)] z show ?thesis by auto
qed

text \<open>
  Only a failed request step ends its list: after a request step that failed and does not
  continue on failure nothing of the list runs, and after a condition or a loop the list goes on
  even if a request inside it failed.
\<close>

theorem only_request_steps_stop:
  "(\<forall>sid n r cont k s. step = RequestStep sid n r cont k \<longrightarrow> cont \<noteq> Some True \<longrightarrow>
      run_step ctx step st = Done s \<longrightarrow> fl_results s \<noteq> [] \<longrightarrow> fr_status (last (fl_results s)) = FS_failed \<longrightarrow>
      run_steps ctx (step # steps) st = Done s)
   \<and> (step_type step \<noteq> FT_request \<longrightarrow>
      run_steps ctx (step # steps) st = fx_bind (run_step ctx step st) (run_steps ctx steps))"
proof (rule conjI)
  show "\<forall>sid n r cont k s. step = RequestStep sid n r cont k \<longrightarrow> cont \<noteq> Some True \<longrightarrow>
      run_step ctx step st = Done s \<longrightarrow> fl_results s \<noteq> [] \<longrightarrow> fr_status (last (fl_results s)) = FS_failed \<longrightarrow>
      run_steps ctx (step # steps) st = Done s"
    by (simp add: stops_list_def del: run_step.simps)
  show "step_type step \<noteq> FT_request \<longrightarrow>
      run_steps ctx (step # steps) st = fx_bind (run_step ctx step st) (run_steps ctx steps)"
    by (cases step) (simp_all add: stops_list_def del: run_step.simps)
qed

theorem only_request_steps_stop_witness:
  "\<exists>s. run_steps sample_ctx [DelayStep ''a'' ''a'' 1, DelayStep ''b'' ''b'' 1] s
      = fx_bind (run_step sample_ctx (DelayStep ''a'' ''a'' 1) s) (run_steps sample_ctx [DelayStep ''b'' ''b'' 1])"
  by (rule exI, rule only_request_steps_stop [THEN conjunct2, rule_format]) simp

end
