(* ===== verification/Flow_Check.thy ===== *)
theory Flow_Check
  imports Flow_Facts
begin

text \<open>
  packages/core/src/flow/validation.ts: the checks on a flow before it is saved or run. A helper of
  the source that only calls \<open>add\<close> is a list of issues here; the walk over the nested steps carries
  the issues, the set of step ids and the two statistics as a state. Values whose type has no
  wrong inhabitant (a step's kind, \<open>thenSteps\<close> being an array, a condition's source) make the
  corresponding check of the source void.
\<close>

section \<open>Limits and tables\<close>

definition max_flow_name :: nat where "max_flow_name = 120"
definition max_step_name :: nat where "max_step_name = 120"
definition max_total_steps :: nat where "max_total_steps = 500"
definition max_nesting_depth :: nat where "max_nesting_depth = 8"
definition max_timeout_ms :: int where "max_timeout_ms = 300000"
definition max_delay_ms :: int where "max_delay_ms = 300000"
definition long_delay_ms :: int where "long_delay_ms = 30000"
definition max_loop_iterations :: int where "max_loop_iterations = 1000"

definition http_methods :: "string list" where
  "http_methods = [''GET'', ''POST'', ''PUT'', ''PATCH'', ''DELETE'', ''HEAD'', ''OPTIONS'']"

definition assertion_types :: "string list" where
  "assertion_types = [''status'', ''responseTime'', ''header'', ''bodyJsonPath'', ''bodySchema'', ''regex'']"

definition matchers :: "string list" where
  "matchers = [''equals'', ''notEquals'', ''exists'', ''gt'', ''lt'', ''contains'', ''matches'']"

definition flow_body_modes :: "body_mode list" where
  "flow_body_modes = [BM_none, BM_json, BM_form_data, BM_urlencoded, BM_raw]"

text \<open>\<open>HTTP_TOKEN_RE\<close> and \<open>VARIABLE_NAME_RE\<close>.\<close>

definition is_http_token :: "string \<Rightarrow> bool" where
  "is_http_token s \<longleftrightarrow> s \<noteq> []
     \<and> list_all (\<lambda>c. is_alnum c \<or> c \<in> set ''!#$%&*+-.^_|~'' \<or> c = squote \<or> c = CHR 0x60) s"

definition is_name_start :: "char \<Rightarrow> bool" where
  "is_name_start c \<longleftrightarrow> is_alpha c \<or> c = CHR ''_'' \<or> c = CHR ''$''"

definition is_variable_part :: "string \<Rightarrow> bool" where
  "is_variable_part s \<longleftrightarrow>
     (case s of [] \<Rightarrow> False | c # cs \<Rightarrow> is_name_start c \<and> list_all (\<lambda>d. is_name_start d \<or> is_digit d) cs)"

definition is_variable_name :: "string \<Rightarrow> bool" where
  "is_variable_name s = list_all is_variable_part (split_on CHR ''.'' s)"

text \<open>\<open>hasTemplate\<close>: two opening braces, something without a closing brace, two closing braces.\<close>

fun has_template :: "string \<Rightarrow> bool" where
  "has_template (a # b # cs) =
     ((a = lbrace \<and> b = lbrace \<and> takeWhile (\<lambda>c. c \<noteq> rbrace) cs \<noteq> []
       \<and> starts_with [rbrace, rbrace] (dropWhile (\<lambda>c. c \<noteq> rbrace) cs))
      \<or> has_template (b # cs))"
| "has_template _ = False"

definition is_http_url :: "host \<Rightarrow> string \<Rightarrow> bool" where
  "is_http_url h s =
     (case ho_url h s of
        None \<Rightarrow> False
      | Some u \<Rightarrow> up_protocol u = ''http:'' \<or> up_protocol u = ''https:'')"

fun brackets_from :: "int \<Rightarrow> string \<Rightarrow> int option" where
  "brackets_from d [] = Some d"
| "brackets_from d (c # cs) =
     (let d' = (if c = CHR ''['' then d + 1 else if c = CHR '']'' then d - 1 else d) in
      if d' < 0 then None else brackets_from d' cs)"

definition is_json_path :: "host \<Rightarrow> string \<Rightarrow> bool" where
  "is_json_path h e =
     (let t = trim e in
      t \<noteq> [] \<and> starts_with ''$'' t \<and> brackets_from 0 t = Some 0
      \<and> (case ho_jsonpath h t (JObj []) of Inr v \<Rightarrow> True | Inl x \<Rightarrow> False))"

definition condition_needs_response :: "flow_condition \<Rightarrow> bool" where
  "condition_needs_response c \<longleftrightarrow>
     fc_source c = CS_status \<or> fc_source c = CS_header \<or> fc_source c = CS_bodyJsonPath"

section \<open>Issues\<close>

record flow_issue =
  fi_is_error :: bool
  fi_message :: string
  fi_stepId :: "string option"
  fi_path :: "string option"

definition flow_error :: "string \<Rightarrow> flow_issue" where
  "flow_error m = \<lparr>fi_is_error = True, fi_message = m, fi_stepId = None, fi_path = None\<rparr>"

definition flow_warning :: "string \<Rightarrow> flow_issue" where
  "flow_warning m = \<lparr>fi_is_error = False, fi_message = m, fi_stepId = None, fi_path = None\<rparr>"

definition step_error :: "string \<Rightarrow> string \<Rightarrow> string \<Rightarrow> flow_issue" where
  "step_error sid path m = \<lparr>fi_is_error = True, fi_message = m, fi_stepId = Some sid, fi_path = Some path\<rparr>"

definition step_warning :: "string \<Rightarrow> string \<Rightarrow> string \<Rightarrow> flow_issue" where
  "step_warning sid path m = \<lparr>fi_is_error = False, fi_message = m, fi_stepId = Some sid, fi_path = Some path\<rparr>"

text \<open>\<open>if (c) add(issue)\<close>.\<close>

definition issue_if :: "bool \<Rightarrow> flow_issue \<Rightarrow> flow_issue list" where
  "issue_if c i = (if c then [i] else [])"

section \<open>Leaf checks\<close>

definition validate_integer_range ::
  "rat \<Rightarrow> int \<Rightarrow> int \<Rightarrow> string \<Rightarrow> string \<Rightarrow> string \<Rightarrow> flow_issue list" where
  "validate_integer_range v lo hi label sid path =
     (if \<not> is_integral v then [step_error sid path (label @ '' must be an integer'')]
      else if v < of_int lo \<or> of_int hi < v
      then [step_error sid path (label @ '' must be between '' @ int_to_string lo @ '' and '' @ int_to_string hi)]
      else [])"

definition validate_regex :: "host \<Rightarrow> string \<Rightarrow> string \<Rightarrow> string \<Rightarrow> string \<Rightarrow> flow_issue list" where
  "validate_regex h pattern label sid path =
     (if trim pattern = [] then []
      else case ho_regex h (fst (split_regex pattern)) (snd (split_regex pattern)) of
        Some f \<Rightarrow> []
      | None \<Rightarrow> [step_error sid path (label @ '' must be a valid regular expression'')])"

definition validate_json_schema :: "string \<Rightarrow> string \<Rightarrow> string \<Rightarrow> string \<Rightarrow> flow_issue list" where
  "validate_json_schema v label sid path =
     (if trim v = [] then [step_error sid path (label @ '' is required'')]
      else case json_parse v of
        None \<Rightarrow> [step_error sid path (label @ '' must be valid JSON'')]
      | Some (JObj ms) \<Rightarrow> []
      | Some j \<Rightarrow> [step_error sid path (label @ '' must be a JSON object'')])"

definition validate_matcher ::
  "host \<Rightarrow> matcher \<Rightarrow> string \<Rightarrow> string \<Rightarrow> string \<Rightarrow> string \<Rightarrow> flow_issue list" where
  "validate_matcher h mt expected label sid path =
     issue_if (mt \<noteq> M_exists \<and> expected = [])
       (step_error sid path (label @ '': expected value is required for '' @ matcher_name mt))
     @ issue_if ((mt = M_gt \<or> mt = M_lt) \<and> expected \<noteq> [] \<and> \<not> num_finite (string_to_number expected))
       (step_error sid path (label @ '': expected value must be numeric for '' @ matcher_name mt))
     @ (if mt = M_matches then validate_regex h expected (label @ '': expected value'') sid path else [])"

text \<open>\<open>validateHeaders\<close> remembers the lower-case names of the enabled headers it has passed.\<close>

fun validate_headers_from ::
  "string list \<Rightarrow> nat \<Rightarrow> key_value list \<Rightarrow> string \<Rightarrow> string \<Rightarrow> string \<Rightarrow> flow_issue list" where
  "validate_headers_from seen i [] label sid path = []"
| "validate_headers_from seen i (hdr # hs) label sid path =
     (let key = trim (kv_key hdr); pre = label @ '' '' @ nat_to_string (Suc i); low = to_lower key;
          skipped = (kv_enabled hdr = Some False \<or> key = []) in
      issue_if (key = [] \<and> trim (kv_value hdr) \<noteq> [])
        (step_error sid path (pre @ '': name is required when value is set''))
      @ issue_if (key \<noteq> [] \<and> \<not> is_http_token key) (step_error sid path (pre @ '': invalid header name''))
      @ issue_if (newline \<in> set (kv_value hdr) \<or> carriage \<in> set (kv_value hdr))
        (step_error sid path (pre @ '': value must not contain line breaks''))
      @ issue_if (\<not> skipped \<and> low \<in> set seen)
        (step_warning sid path (pre @ '': duplicate enabled header '' @ key))
      @ validate_headers_from (if skipped then seen else set_add low seen) (Suc i) hs label sid path)"

definition validate_headers ::
  "key_value list \<Rightarrow> string \<Rightarrow> string \<Rightarrow> string \<Rightarrow> flow_issue list" where
  "validate_headers hs label sid path = validate_headers_from [] 0 hs label sid path"

text \<open>\<open>forEach\<close> with the index.\<close>

fun each_from :: "nat \<Rightarrow> (nat \<Rightarrow> 'a \<Rightarrow> 'b list) \<Rightarrow> 'a list \<Rightarrow> 'b list" where
  "each_from i f [] = []"
| "each_from i f (x # xs) = f i x @ each_from (Suc i) f xs"

definition validate_params :: "key_value list \<Rightarrow> string \<Rightarrow> string \<Rightarrow> string \<Rightarrow> flow_issue list" where
  "validate_params ps label sid path =
     each_from 0 (\<lambda>i p. issue_if (trim (kv_key p) = [] \<and> trim (kv_value p) \<noteq> [])
       (step_error sid path (label @ '' '' @ nat_to_string (Suc i) @ '': key is required when value is set''))) ps"

definition validate_request_body :: "request_config \<Rightarrow> string \<Rightarrow> string \<Rightarrow> flow_issue list" where
  "validate_request_body r sid path =
     issue_if (rq_bodyMode r = BM_none \<and> trim (rq_body r) \<noteq> [])
       (step_warning sid path (path @ '': body is ignored when body mode is none''))
     @ (if rq_bodyMode r \<noteq> BM_json \<or> trim (rq_body r) = [] \<or> has_template (rq_body r) then []
        else case json_parse (rq_body r) of
          Some j \<Rightarrow> []
        | None \<Rightarrow> [step_error sid path (path @ '': JSON body must be valid JSON'')])"

text \<open>\<open>a.trim() || b.trim()\<close>.\<close>

definition first_text :: "string \<Rightarrow> string \<Rightarrow> string" where
  "first_text a b = (if trim a \<noteq> [] then trim a else trim b)"

definition validate_assertion ::
  "host \<Rightarrow> string \<Rightarrow> string \<Rightarrow> nat \<Rightarrow> assertion \<Rightarrow> flow_issue list" where
  "validate_assertion h sid path i a =
     (if as_enabled a = Some False then []
      else
        let pre = path @ '', assertion '' @ nat_to_string (Suc i); e = trim (as_expression a);
            x = trim (as_expected a) in
        issue_if (trim (as_id a) = []) (step_error sid path (pre @ '': id is required''))
        @ issue_if (assertion_kind_name (as_type a) \<notin> set assertion_types)
            (step_error sid path (pre @ '': invalid assertion type''))
        @ issue_if (matcher_name (as_matcher a) \<notin> set matchers)
            (step_error sid path (pre @ '': invalid matcher''))
        @ issue_if (as_type a \<in> {AK_header, AK_bodyJsonPath, AK_regex} \<and> e = [] \<and> x = [])
            (step_error sid path (pre @ '': expression is required''))
        @ issue_if (as_type a = AK_header \<and> e \<noteq> [] \<and> \<not> is_http_token e)
            (step_error sid path (pre @ '': invalid header name''))
        @ issue_if (as_type a = AK_bodyJsonPath \<and> e \<noteq> [] \<and> \<not> is_json_path h (as_expression a))
            (step_error sid path (pre @ '': invalid JSONPath expression''))
        @ (if as_type a = AK_bodySchema
           then validate_json_schema (first_text (as_expression a) (as_expected a)) (pre @ '': JSON Schema'') sid path
           else [])
        @ (if as_type a = AK_regex
           then validate_regex h (first_text (as_expression a) (as_expected a)) (pre @ '': regex'') sid path
           else [])
        @ validate_matcher h (as_matcher a) x pre sid path)"

definition validate_assertions :: "host \<Rightarrow> assertion list \<Rightarrow> string \<Rightarrow> string \<Rightarrow> flow_issue list" where
  "validate_assertions h asserts sid path = each_from 0 (validate_assertion h sid path) asserts"

definition validate_extraction_rule ::
  "host \<Rightarrow> string \<Rightarrow> string \<Rightarrow> nat \<Rightarrow> extraction_rule \<Rightarrow> flow_issue list" where
  "validate_extraction_rule h sid path i r =
     (if er_enabled r = Some False then []
      else
        let pre = path @ '', extraction '' @ nat_to_string (Suc i); e = trim (er_expression r) in
        issue_if (trim (er_variableName r) = [] \<or> \<not> is_variable_name (trim (er_variableName r)))
            (step_error sid path (pre @ '': variable name is required and must be valid''))
        @ issue_if (er_source r \<noteq> ES_status \<and> e = []) (step_error sid path (pre @ '': expression is required''))
        @ issue_if (er_source r = ES_header \<and> e \<noteq> [] \<and> \<not> is_http_token e)
            (step_error sid path (pre @ '': invalid header name''))
        @ issue_if (er_source r = ES_body \<and> e \<noteq> [] \<and> \<not> is_json_path h (er_expression r))
            (step_error sid path (pre @ '': invalid JSONPath expression'')))"

definition validate_extraction_rules ::
  "host \<Rightarrow> extraction_rule list \<Rightarrow> string \<Rightarrow> string \<Rightarrow> flow_issue list" where
  "validate_extraction_rules h rules sid path = each_from 0 (validate_extraction_rule h sid path) rules"

section \<open>Steps\<close>

definition validate_request_step :: "host \<Rightarrow> request_config \<Rightarrow> string \<Rightarrow> string \<Rightarrow> flow_issue list" where
  "validate_request_step h r sid path =
     (if trim (rq_url r) = [] then [step_error sid path (path @ '': request URL is required'')]
      else issue_if (\<not> has_template (rq_url r) \<and> \<not> is_http_url h (rq_url r))
        (step_error sid path (path @ '': request URL must be an absolute http(s) URL'')))
     @ issue_if (rq_method r \<notin> set http_methods) (step_error sid path (path @ '': invalid request method''))
     @ validate_integer_range (of_int (rq_timeoutMs r)) 1 max_timeout_ms (path @ '': timeout'') sid path
     @ issue_if (rq_bodyMode r \<notin> set flow_body_modes) (step_error sid path (path @ '': invalid body mode''))
     @ validate_headers (rq_headers r) (path @ '', header'') sid path
     @ validate_params (rq_params r) (path @ '', param'') sid path
     @ validate_request_body r sid path
     @ validate_assertions h (opt_rows (rq_assertions r)) sid path
     @ validate_extraction_rules h (opt_rows (rq_extractionRules r)) sid path"

definition validate_delay_step :: "int \<Rightarrow> string \<Rightarrow> string \<Rightarrow> flow_issue list" where
  "validate_delay_step d sid path =
     validate_integer_range (of_int d) 0 max_delay_ms (path @ '': delay'') sid path
     @ issue_if (long_delay_ms < d)
         (step_warning sid path (path @ '': long delay may make the flow feel stalled''))"

definition validate_condition ::
  "host \<Rightarrow> flow_condition \<Rightarrow> bool \<Rightarrow> string \<Rightarrow> string \<Rightarrow> flow_issue list" where
  "validate_condition h c prev sid path =
     (let e = trim (fc_expression c); x = trim (fc_expected c) in
      issue_if (matcher_name (fc_matcher c) \<notin> set matchers)
        (step_error sid path (path @ '': invalid condition matcher''))
      @ issue_if (fc_source c = CS_status \<and> e \<noteq> [])
        (step_warning sid path (path @ '': status condition expression is ignored''))
      @ issue_if (fc_source c = CS_variable \<and> (e = [] \<or> \<not> is_variable_name e))
        (step_error sid path (path @ '': variable condition needs a valid variable name''))
      @ issue_if (fc_source c = CS_header \<and> (e = [] \<or> \<not> is_http_token e))
        (step_error sid path (path @ '': header condition needs a valid header name''))
      @ issue_if (fc_source c = CS_bodyJsonPath \<and> (e = [] \<or> \<not> is_json_path h e))
        (step_error sid path (path @ '': body condition needs a valid JSONPath expression''))
      @ issue_if (condition_needs_response c \<and> \<not> prev)
        (step_warning sid path (path @ '': condition depends on a previous response before any request has run''))
      @ validate_matcher h (fc_matcher c) x (path @ '': condition'') sid path)"

text \<open>The part of \<open>validateConditionStep\<close> and of \<open>validateLoopStep\<close> before the nested steps.\<close>

definition validate_condition_step ::
  "host \<Rightarrow> flow_condition \<Rightarrow> flow_step list \<Rightarrow> flow_step list option \<Rightarrow> bool \<Rightarrow> string \<Rightarrow> string \<Rightarrow> flow_issue list"
where
  "validate_condition_step h c ts es prev sid path =
     validate_condition h c prev sid path
     @ issue_if (ts = [] \<and> opt_rows es = [])
         (step_warning sid path (path @ '': condition has no branch steps''))"

definition validate_loop_step ::
  "host \<Rightarrow> int option \<Rightarrow> flow_condition option \<Rightarrow> loop_mode option \<Rightarrow> flow_step list \<Rightarrow> int option
     \<Rightarrow> bool \<Rightarrow> string \<Rightarrow> string \<Rightarrow> flow_issue list"
where
  "validate_loop_step h rounds condition mode ss most prev sid path =
     issue_if (ss = []) (step_warning sid path (path @ '': loop has no steps''))
     @ (case rounds of None \<Rightarrow> []
        | Some n \<Rightarrow> validate_integer_range (of_int n) 1 max_loop_iterations (path @ '': loop count'') sid path)
     @ (case most of None \<Rightarrow> []
        | Some n \<Rightarrow> validate_integer_range (of_int n) 1 max_loop_iterations (path @ '': max iterations'') sid path)
     @ (case (rounds, most) of
          (Some n, Some k) \<Rightarrow> issue_if (k < n)
            (step_warning sid path (path @ '': maxIterations is lower than count and will stop the loop first''))
        | _ \<Rightarrow> [])
     @ (case condition of
          Some c \<Rightarrow>
            issue_if (mode \<noteq> Some LM_while \<and> mode \<noteq> Some LM_until)
              (step_error sid path (path @ '': conditionMode must be while or until''))
            @ validate_condition h c prev sid path
            @ issue_if (condition_needs_response c \<and> \<not> prev)
              (step_warning sid path
                (path @ '': loop condition depends on a previous response before any request has run''))
        | None \<Rightarrow>
            issue_if (rounds = None \<and> most = None)
              (step_error sid path (path @ '': loop needs count, condition, or maxIterations'')))"

section \<open>The walk\<close>

record check_state =
  cs_issues :: "flow_issue list"
  cs_stepIds :: "string list"
  cs_totalSteps :: nat
  cs_maxDepth :: nat

definition add_issues :: "flow_issue list \<Rightarrow> check_state \<Rightarrow> check_state" where
  "add_issues xs st = st\<lparr>cs_issues := cs_issues st @ xs\<rparr>"

definition check_id :: "string \<Rightarrow> string \<Rightarrow> check_state \<Rightarrow> check_state" where
  "check_id sid path st =
     (if trim sid = []
      then add_issues [(flow_error (path @ '': id is required''))\<lparr>fi_path := Some path\<rparr>] st
      else if sid \<in> set (cs_stepIds st)
      then add_issues [step_error sid path (path @ '': id must be unique'')] st
      else st\<lparr>cs_stepIds := set_add sid (cs_stepIds st)\<rparr>)"

definition check_name :: "string \<Rightarrow> string \<Rightarrow> string \<Rightarrow> flow_issue list" where
  "check_name name sid path =
     issue_if (trim name = []) (step_error sid path (path @ '': name is required''))
     @ issue_if (max_step_name < length name)
         (step_error sid path (path @ '': name must be '' @ nat_to_string max_step_name @ '' characters or less''))"

definition enter_step :: "flow_step \<Rightarrow> nat \<Rightarrow> string \<Rightarrow> check_state \<Rightarrow> check_state" where
  "enter_step step depth path st =
     add_issues (check_name (step_name step) (step_id step) path)
       (check_id (step_id step) path
         (st\<lparr>cs_totalSteps := cs_totalSteps st + 1, cs_maxDepth := max (cs_maxDepth st) depth\<rparr>))"

fun validate_step :: "host \<Rightarrow> nat \<Rightarrow> string \<Rightarrow> bool \<Rightarrow> flow_step \<Rightarrow> check_state \<Rightarrow> check_state"
  and validate_steps :: "host \<Rightarrow> nat \<Rightarrow> string \<Rightarrow> bool \<Rightarrow> nat \<Rightarrow> flow_step list \<Rightarrow> check_state \<Rightarrow> check_state"
where
  "validate_step h depth path prev (RequestStep sid n r cont k) st =
     add_issues (validate_request_step h r sid path) (enter_step (RequestStep sid n r cont k) depth path st)"
| "validate_step h depth path prev (DelayStep sid n d) st =
     add_issues (validate_delay_step d sid path) (enter_step (DelayStep sid n d) depth path st)"
| "validate_step h depth path prev (ConditionStep sid n c ts es) st =
     (let st1 = add_issues (validate_condition_step h c ts es prev sid path)
                  (enter_step (ConditionStep sid n c ts es) depth path st);
          st2 = validate_steps h (depth + 1) (path @ '' then'') prev 0 ts st1 in
      case es of
        None \<Rightarrow> st2
      | Some ss \<Rightarrow> validate_steps h (depth + 1) (path @ '' else'') prev 0 ss st2)"
| "validate_step h depth path prev (LoopStep sid n rounds condition mode ss most) st =
     validate_steps h (depth + 1) (path @ '' loop'') prev 0 ss
       (add_issues (validate_loop_step h rounds condition mode ss most prev sid path)
          (enter_step (LoopStep sid n rounds condition mode ss most) depth path st))"
| "validate_steps h depth path prev i [] st = st"
| "validate_steps h depth path prev i (step # steps) st =
     validate_steps h depth path (prev \<or> step_type step = FT_request) (Suc i) steps
       (validate_step h depth (path @ '' '' @ nat_to_string (Suc i)) prev step st)"

record flow_validation =
  fv_valid :: bool
  fv_errors :: "flow_issue list"
  fv_warnings :: "flow_issue list"

definition flow_issues :: "host \<Rightarrow> flow \<Rightarrow> bool \<Rightarrow> flow_issue list" where
  "flow_issues h fw require_steps =
     (let pre =
        issue_if (trim (fw_name fw) = []) (flow_error ''Flow name is required'')
        @ issue_if (max_flow_name < length (fw_name fw))
            (flow_error (''Flow name must be '' @ nat_to_string max_flow_name @ '' characters or less''))
        @ issue_if (fw_steps fw = [])
            (if require_steps then flow_error ''Flow has no steps'' else flow_warning ''Flow has no steps yet'');
          st = validate_steps h 1 ''Step'' False 0 (fw_steps fw)
            \<lparr>cs_issues = pre, cs_stepIds = [], cs_totalSteps = 0, cs_maxDepth = 0\<rparr> in
      cs_issues st
      @ issue_if (max_total_steps < cs_totalSteps st)
          (flow_error (''Flow has too many steps ('' @ nat_to_string (cs_totalSteps st) @ ''; max ''
            @ nat_to_string max_total_steps @ '')''))
      @ issue_if (max_nesting_depth < cs_maxDepth st)
          (flow_error (''Flow nesting is too deep ('' @ nat_to_string (cs_maxDepth st) @ ''; max ''
            @ nat_to_string max_nesting_depth @ '')'')))"

definition validate_flow :: "host \<Rightarrow> flow \<Rightarrow> bool \<Rightarrow> flow_validation" where
  "validate_flow h fw require_steps =
     (let issues = flow_issues h fw require_steps; errors = filter fi_is_error issues in
      \<lparr>fv_valid = (errors = []), fv_errors = errors,
       fv_warnings = filter (\<lambda>i. \<not> fi_is_error i) issues\<rparr>)"

end
