(* ===== verification/Mock_Check.thy ===== *)
theory Mock_Check
  imports Mock_Store Flow_Check
begin

text \<open>
  packages/core/src/mock/validation.ts: the checks on the routes of the mock server, shared by the
  interface and the server. A helper of the source that only calls \<open>add\<close> is a list of issues
  here; the walk over the routes carries the issues, the identifiers and the route keys seen so far.
\<close>

section \<open>Limits and tables\<close>

definition max_routes :: int where "max_routes = 500"
definition max_conditions_per_route :: int where "max_conditions_per_route = 20"
definition max_route_body_bytes :: int where "max_route_body_bytes = 1024 * 1024"
definition max_total_config_bytes :: int where "max_total_config_bytes = 2 * 1024 * 1024"

definition is_param_name :: "string \<Rightarrow> bool" where
  "is_param_name s \<longleftrightarrow>
     (case s of [] \<Rightarrow> False
      | c # cs \<Rightarrow> (is_alpha c \<or> c = CHR ''_'') \<and> list_all (\<lambda>d. is_alnum d \<or> d = CHR ''_'') cs)"

definition template_names :: "string list" where
  "template_names = [''$uuid'', ''$randomUUID'', ''$timestamp'', ''$timestampMs'', ''$randomInt'']"

definition bodyless_statuses :: "int list" where
  "bodyless_statuses = [204, 205, 304]"

definition restricted_response_headers :: "string list" where
  "restricted_response_headers =
     [''connection'', ''content-length'', ''keep-alive'', ''proxy-authenticate'', ''proxy-authorization'',
      ''te'', ''trailer'', ''transfer-encoding'', ''upgrade'']"

section \<open>Issues\<close>

record mock_issue =
  mk_is_error :: bool
  mk_message :: string
  mk_routeIndex :: "nat option"
  mk_routeId :: "string option"

record mock_validation =
  mv_valid :: bool
  mv_errors :: "mock_issue list"
  mv_warnings :: "mock_issue list"

definition route_error :: "nat \<Rightarrow> string option \<Rightarrow> string \<Rightarrow> mock_issue" where
  "route_error i rid m = \<lparr>mk_is_error = True, mk_message = m, mk_routeIndex = Some i, mk_routeId = rid\<rparr>"

definition route_warning :: "nat \<Rightarrow> string option \<Rightarrow> string \<Rightarrow> mock_issue" where
  "route_warning i rid m = \<lparr>mk_is_error = False, mk_message = m, mk_routeIndex = Some i, mk_routeId = rid\<rparr>"

definition config_error :: "string \<Rightarrow> mock_issue" where
  "config_error m = \<lparr>mk_is_error = True, mk_message = m, mk_routeIndex = None, mk_routeId = None\<rparr>"

definition add_if :: "bool \<Rightarrow> mock_issue \<Rightarrow> mock_issue list" where
  "add_if c i = (if c then [i] else [])"

definition route_owner :: "nat \<Rightarrow> string" where
  "route_owner i = ''Route '' @ nat_to_string (i + 1)"

text \<open>\<open>formatBytes\<close>, with \<open>Math.ceil\<close> on the quotient.\<close>

definition format_bytes :: "int \<Rightarrow> string" where
  "format_bytes n =
     (if n < 1024 then int_to_string n @ '' B''
      else if n < 1024 * 1024 then int_to_string ((n + 1023) div 1024) @ '' KB''
      else int_to_string ((n + (1024 * 1024 - 1)) div (1024 * 1024)) @ '' MB'')"

section \<open>The configuration as JSON\<close>

text \<open>\<open>JSON.stringify({ routes })\<close>: an absent field is left out. Only the length of the text is read.\<close>

definition opt_field :: "string \<Rightarrow> json option \<Rightarrow> (string \<times> json) list" where
  "opt_field k v = (case v of None \<Rightarrow> [] | Some j \<Rightarrow> [(k, j)])"

definition json_of_key_value :: "key_value \<Rightarrow> json" where
  "json_of_key_value p =
     JObj (opt_field ''id'' (map_option JStr (kv_id p)) @ [(''key'', JStr (kv_key p)), (''value'', JStr (kv_value p))]
       @ opt_field ''enabled'' (map_option JBool (kv_enabled p))
       @ opt_field ''sensitive'' (map_option JBool (kv_sensitive p))
       @ opt_field ''type'' (map_option (\<lambda>t. JStr (case t of KV_text \<Rightarrow> ''text'' | KV_file \<Rightarrow> ''file'')) (kv_type p))
       @ opt_field ''fileName'' (map_option JStr (kv_file_name p)))"

definition mock_source_name :: "mock_source \<Rightarrow> string" where
  "mock_source_name s =
     (case s of MS_header \<Rightarrow> ''header'' | MS_query \<Rightarrow> ''query'' | MS_bodyJsonPath \<Rightarrow> ''bodyJsonPath'')"

definition json_of_condition :: "mock_condition \<Rightarrow> json" where
  "json_of_condition c =
     JObj [(''source'', JStr (mock_source_name (mc_source c))), (''expression'', JStr (mc_expression c)),
           (''matcher'', JStr (matcher_name (mc_matcher c))), (''expected'', JStr (mc_expected c))]"

definition json_of_sequence_item :: "mock_sequence_item \<Rightarrow> json" where
  "json_of_sequence_item q =
     JObj ([(''status'', JNum (of_int (mi_status q))), (''headers'', JArr (map json_of_key_value (mi_headers q))),
            (''body'', JStr (mi_body q))]
       @ opt_field ''latencyMs'' (map_option (\<lambda>n. JNum (of_int n)) (mi_latencyMs q)))"

definition json_of_route :: "mock_route \<Rightarrow> json" where
  "json_of_route r =
     JObj ([(''id'', JStr (mr_id r))] @ opt_field ''enabled'' (map_option JBool (mr_enabled r))
       @ [(''method'', JStr (mr_method r)), (''pathPattern'', JStr (mr_pathPattern r)),
          (''status'', JNum (of_int (mr_status r))), (''headers'', JArr (map json_of_key_value (mr_headers r))),
          (''body'', JStr (mr_body r))]
       @ opt_field ''latencyMs'' (map_option (\<lambda>n. JNum (of_int n)) (mr_latencyMs r))
       @ opt_field ''conditions'' (map_option (\<lambda>cs. JArr (map json_of_condition cs)) (mr_conditions r))
       @ opt_field ''sequences'' (map_option (\<lambda>qs. JArr (map json_of_sequence_item qs)) (mr_sequences r)))"

definition config_bytes :: "mock_route list \<Rightarrow> int" where
  "config_bytes routes = int (byte_length (json_stringify (JObj [(''routes'', JArr (map json_of_route routes))])))"

section \<open>Path patterns\<close>

text \<open>\<open>/^[a-z][a-z\d+\-.]*:\/\//i\<close>.\<close>

definition has_scheme :: "string \<Rightarrow> bool" where
  "has_scheme p \<longleftrightarrow>
     (case p of [] \<Rightarrow> False
      | c # cs \<Rightarrow> is_alpha c
          \<and> starts_with ''://'' (dropWhile (\<lambda>d. is_alnum d \<or> d = CHR ''+'' \<or> d = CHR ''-'' \<or> d = CHR ''.'') cs))"

text \<open>The segments are visited in order with the set of the names met.\<close>

fun param_issues :: "nat \<Rightarrow> string option \<Rightarrow> string list \<Rightarrow> string list \<Rightarrow> mock_issue list" where
  "param_issues i rid seen [] = []"
| "param_issues i rid seen (seg # segs) =
     (if \<not> starts_with '':'' seg then param_issues i rid seen segs
      else let name = drop 1 seg in
        (if \<not> is_param_name name
         then [route_error i rid (route_owner i @ '': invalid path parameter :'' @ (if name = [] then ''(empty)'' else name))]
         else if name \<in> set seen
         then [route_error i rid (route_owner i @ '': duplicate path parameter :'' @ name)]
         else [])
        @ param_issues i rid (set_add name seen) segs)"

definition validate_path_pattern :: "mock_route \<Rightarrow> nat \<Rightarrow> mock_issue list" where
  "validate_path_pattern r i =
     (let path = trim (mr_pathPattern r); err = (\<lambda>m. route_error i (Some (mr_id r)) (route_owner i @ m)) in
      if path = [] then [err '': path is required'']
      else add_if (\<not> starts_with ''/'' path) (err '': path must start with /'')
        @ add_if (has_scheme path) (err '': path must not include protocol or host'')
        @ add_if (CHR ''?'' \<in> set path) (err '': path must not include a query string; use conditions instead'')
        @ add_if (CHR ''#'' \<in> set path) (err '': path must not include a fragment'')
        @ add_if (CHR ''*'' \<in> set path) (err '': wildcards are not supported'')
        @ param_issues i (Some (mr_id r)) [] (filter (\<lambda>seg. seg \<noteq> []) (split_on CHR ''/'' path)))"

section \<open>Headers\<close>

fun header_issues :: "nat \<Rightarrow> string \<Rightarrow> string list \<Rightarrow> nat \<Rightarrow> key_value list \<Rightarrow> mock_issue list" where
  "header_issues i own seen n [] = []"
| "header_issues i own seen n (hdr # hs) =
     (let key = trim (kv_key hdr); value = kv_value hdr; pre = own @ '', header '' @ nat_to_string (n + 1);
          low = to_lower key in
      add_if (key = [] \<and> trim value \<noteq> []) (route_error i None (pre @ '': name is required when value is set''))
      @ add_if (key \<noteq> [] \<and> \<not> is_http_token key) (route_error i None (pre @ '': invalid header name''))
      @ add_if (carriage \<in> set value \<or> newline \<in> set value)
          (route_error i None (pre @ '': value must not contain line breaks''))
      @ (if kv_enabled hdr = Some False \<or> key = [] then header_issues i own seen (n + 1) hs
         else add_if (low \<in> set restricted_response_headers)
             (route_error i None (pre @ '': '' @ key @ '' is managed by the server and cannot be set manually''))
           @ add_if (low \<in> set seen) (route_warning i None (pre @ '': duplicate enabled header '' @ key))
           @ header_issues i own (set_add low seen) (n + 1) hs))"

definition mock_header_issues :: "key_value list \<Rightarrow> nat \<Rightarrow> string \<Rightarrow> mock_issue list" where
  "mock_header_issues hs i own = header_issues i own [] 0 hs"

section \<open>Bodies and templates\<close>

definition template_placeholders :: "string \<Rightarrow> string list" where
  "template_placeholders body =
     concat (map (\<lambda>sg. case sg of Hole raw \<Rightarrow> [trim raw] | Lit c \<Rightarrow> []) (template_segs body))"

text \<open>\<open>body.match(/\{\{/g)?.length ?? 0\<close>: occurrences of a doubled character that do not overlap.\<close>

fun count_pairs :: "char \<Rightarrow> string \<Rightarrow> nat" where
  "count_pairs b (c # d # s) = (if c = b \<and> d = b then Suc (count_pairs b s) else count_pairs b (d # s))"
| "count_pairs b _ = 0"

definition pattern_params :: "string \<Rightarrow> string list" where
  "pattern_params pattern = map (drop 1) (filter (starts_with '':'') (split_on CHR ''/'' pattern))"

definition placeholder_issue :: "mock_route \<Rightarrow> nat \<Rightarrow> string \<Rightarrow> mock_issue list" where
  "placeholder_issue r i name =
     (if starts_with ''param.'' name
      then add_if (drop 6 name \<notin> set (pattern_params (mr_pathPattern r)))
             (route_error i (Some (mr_id r)) (route_owner i @ '': template references unknown path parameter '' @ drop 6 name))
      else if starts_with ''query.'' name
      then add_if (trim (drop 6 name) = [])
             (route_error i (Some (mr_id r)) (route_owner i @ '': query template name is required''))
      else add_if (name \<notin> set template_names)
             (route_warning i (Some (mr_id r))
               (route_owner i @ '': unknown template placeholder '' @ placeholder name @ '' will be returned unchanged'')))"

definition validate_templates :: "mock_route \<Rightarrow> nat \<Rightarrow> string \<Rightarrow> mock_issue list" where
  "validate_templates r i body =
     add_if (count_pairs lbrace body \<noteq> count_pairs rbrace body)
       (route_error i (Some (mr_id r)) (route_owner i @ '': malformed template placeholder''))
     @ concat (map (placeholder_issue r i) (template_placeholders body))"

definition body_too_large :: "string \<Rightarrow> string \<Rightarrow> string" where
  "body_too_large own body =
     own @ '': response body is too large ('' @ format_bytes (int (byte_length body)) @ ''; max ''
     @ format_bytes max_route_body_bytes @ '')''"

definition enabled_header :: "key_value list \<Rightarrow> string \<Rightarrow> string option" where
  "enabled_header hs name =
     map_option kv_value (find (\<lambda>hdr. kv_enabled hdr \<noteq> Some False \<and> to_lower (trim (kv_key hdr)) = name) hs)"

definition validate_body :: "mock_route \<Rightarrow> nat \<Rightarrow> mock_issue list" where
  "validate_body r i =
     (let body = mr_body r; rid = Some (mr_id r) in
      add_if (max_route_body_bytes < int (byte_length body)) (route_error i rid (body_too_large (route_owner i) body))
      @ validate_templates r i body
      @ (case enabled_header (mr_headers r) ''content-type'' of
           None \<Rightarrow> []
         | Some ct \<Rightarrow>
             (if \<not> str_includes ''json'' (to_lower ct) \<or> trim body = [] then []
              else if template_placeholders body \<noteq> []
              then [route_warning i rid (route_owner i @ '': templated JSON cannot be fully validated before runtime'')]
              else case json_parse body of
                  Some j \<Rightarrow> []
                | None \<Rightarrow> [route_error i rid (route_owner i @ '': response body must be valid JSON for '' @ ct)])))"

section \<open>Conditions\<close>

text \<open>One match of the expression \<open>tokenRe\<close> at the beginning of the text: what follows it.\<close>

definition is_ident_start :: "char \<Rightarrow> bool" where
  "is_ident_start c \<longleftrightarrow> is_alpha c \<or> c = CHR ''_'' \<or> c = CHR ''$''"

definition json_path_token :: "string \<Rightarrow> string option" where
  "json_path_token s =
     (case s of
        [] \<Rightarrow> None
      | c # t \<Rightarrow>
          (if c = CHR ''.''
           then (case t of
                   [] \<Rightarrow> None
                 | d # u \<Rightarrow> if is_ident_start d
                     then Some (dropWhile (\<lambda>e. is_ident_start e \<or> is_digit e) u) else None)
           else if c = CHR ''[''
           then map_option snd
                  (case index_bracket t of
                     Some x \<Rightarrow> Some x
                   | None \<Rightarrow>
                       (case t of
                          [] \<Rightarrow> None
                        | q # u \<Rightarrow>
                            (let inner = (\<lambda>e. \<not> is_quote e \<and> e \<noteq> CHR '']'');
                                 name = takeWhile inner u; r = dropWhile inner u in
                             if is_quote q \<and> name \<noteq> [] \<and> 2 \<le> length r \<and> r ! 0 = q \<and> r ! 1 = CHR '']''
                             then Some (name, drop 2 r) else None)))
           else None))"

lemma json_path_token_shorter: "json_path_token s = Some r \<Longrightarrow> length r < length s"
proof -
  assume t: "json_path_token s = Some r"
  then obtain c u where s: "s = c # u" by (cases s) (auto simp: json_path_token_def)
  have "length r \<le> length u"
  proof (cases "c = CHR ''.''")
    case True
    with t s obtain d v where "u = d # v" "r = dropWhile (\<lambda>e. is_ident_start e \<or> is_digit e) v"
      by (auto simp: json_path_token_def split: list.splits if_splits)
    then show ?thesis using length_dropWhile_le [of "\<lambda>e. is_ident_start e \<or> is_digit e" v] by simp
  next
    case False
    show ?thesis
    proof (cases "index_bracket u")
      case (Some x)
      with t s False have "index_bracket u = Some (fst x, r)" by (auto simp: json_path_token_def split: if_splits)
      then show ?thesis by (auto dest: index_bracket_shorter)
    next
      case None
      with t s False obtain q v where v: "u = q # v"
        "r = drop 2 (dropWhile (\<lambda>e. \<not> is_quote e \<and> e \<noteq> CHR '']'') v)"
        by (auto simp: json_path_token_def Let_def split: if_splits list.splits)
      then show ?thesis using length_dropWhile_le [of "\<lambda>e. \<not> is_quote e \<and> e \<noteq> CHR '']''" v] by simp
    qed
  qed
  with s show ?thesis by simp
qed

text \<open>The loop over the matches: they have to follow each other without a gap up to the end.\<close>

function json_path_tokens :: "string \<Rightarrow> bool" where
  "json_path_tokens s =
     (s = [] \<or> (case json_path_token s of Some r \<Rightarrow> json_path_tokens r | None \<Rightarrow> False))"
  by pat_completeness auto
termination
  by (relation "measure length") (auto dest: json_path_token_shorter)

declare json_path_tokens.simps [simp del]

definition is_simple_json_path :: "string \<Rightarrow> bool" where
  "is_simple_json_path expression =
     (let t = trim expression in
      if t = [] \<or> t = ''$'' then True
      else json_path_tokens (if starts_with ''$'' t then drop 1 t else CHR ''.'' # t))"

definition regex_compiles :: "host \<Rightarrow> string \<Rightarrow> bool" where
  "regex_compiles h pattern \<longleftrightarrow> ho_regex h pattern [] \<noteq> None"

definition condition_issues :: "host \<Rightarrow> mock_route \<Rightarrow> nat \<Rightarrow> nat \<Rightarrow> mock_condition \<Rightarrow> mock_issue list" where
  "condition_issues h r i n c =
     (let pre = route_owner i @ '', condition '' @ nat_to_string (n + 1);
          e = trim (mc_expression c); x = trim (mc_expected c);
          err = (\<lambda>m. route_error i (Some (mr_id r)) (pre @ m)) in
      add_if (e = []) (err '': expression is required'')
      @ add_if (mc_source c = MS_header \<and> e \<noteq> [] \<and> \<not> is_http_token e) (err '': invalid header name'')
      @ add_if (mc_source c = MS_query \<and> e \<noteq> [] \<and> (\<exists>d \<in> set e. d \<in> set ''=&?#''))
          (err '': query expression must be a parameter name'')
      @ add_if (mc_source c = MS_bodyJsonPath \<and> e \<noteq> [] \<and> \<not> is_simple_json_path e) (err '': invalid JSON path'')
      @ add_if (mc_source c = MS_bodyJsonPath \<and> mr_method r \<in> {''GET'', ''HEAD''})
          (route_warning i (Some (mr_id r)) (pre @ '': '' @ mr_method r @ '' requests usually do not have a body''))
      @ add_if (mc_matcher c \<noteq> M_exists \<and> x = [])
          (err ('': expected value is required for '' @ matcher_name (mc_matcher c)))
      @ add_if ((mc_matcher c = M_gt \<or> mc_matcher c = M_lt) \<and> x \<noteq> [] \<and> \<not> num_finite (string_to_number x))
          (err ('': expected value must be numeric for '' @ matcher_name (mc_matcher c)))
      @ add_if (mc_matcher c = M_matches \<and> \<not> regex_compiles h (mc_expected c))
          (err '': expected value must be a valid regular expression''))"

definition validate_conditions :: "host \<Rightarrow> mock_route \<Rightarrow> nat \<Rightarrow> mock_issue list" where
  "validate_conditions h r i =
     (let cs = opt_rows (mr_conditions r) in
      add_if (max_conditions_per_route < int (length cs))
        (route_error i (Some (mr_id r)) (route_owner i @ '': too many conditions ('' @ nat_to_string (length cs)
          @ ''; max '' @ int_to_string max_conditions_per_route @ '')''))
      @ each_from 0 (condition_issues h r i) cs)"

section \<open>Sequences\<close>

definition item_warnings ::
  "nat \<Rightarrow> string \<Rightarrow> string \<Rightarrow> string \<Rightarrow> int \<Rightarrow> string \<Rightarrow> int option \<Rightarrow> mock_issue list" where
  "item_warnings i rid own m status body latency =
     add_if (m = ''HEAD'' \<and> trim body \<noteq> []) (route_warning i (Some rid) (own @ '': HEAD responses should not include a body''))
     @ add_if (status \<in> set bodyless_statuses \<and> trim body \<noteq> [])
         (route_warning i (Some rid) (own @ '': status '' @ int_to_string status @ '' should not include a response body''))
     @ add_if (5000 < (case latency of Some l \<Rightarrow> l | None \<Rightarrow> 0))
         (route_warning i (Some rid) (own @ '': latency above 5000ms may make requests feel stalled''))"

definition sequence_issues :: "mock_route \<Rightarrow> nat \<Rightarrow> nat \<Rightarrow> mock_sequence_item \<Rightarrow> mock_issue list" where
  "sequence_issues r i n q =
     (let own = route_owner i @ '', sequence '' @ nat_to_string (n + 1) in
      mock_header_issues (mi_headers q) i own
      @ add_if (max_route_body_bytes < int (byte_length (mi_body q)))
          (route_error i (Some (mr_id r)) (body_too_large own (mi_body q)))
      @ validate_templates r i (mi_body q)
      @ item_warnings i (mr_id r) own (mr_method r) (mi_status q) (mi_body q) (mi_latencyMs q))"

definition validate_sequences :: "mock_route \<Rightarrow> nat \<Rightarrow> mock_issue list" where
  "validate_sequences r i = each_from 0 (sequence_issues r i) (opt_rows (mr_sequences r))"

section \<open>Overlaps\<close>

definition route_shape :: "string \<Rightarrow> string" where
  "route_shape path =
     join ''/'' (map (\<lambda>seg. if starts_with '':'' seg then '':'' else seg) (split_on CHR ''/'' (strip_slashes path)))"

definition condition_text :: "mock_condition \<Rightarrow> string" where
  "condition_text c =
     mock_source_name (mc_source c) @ '':'' @ mc_expression c @ '':'' @ matcher_name (mc_matcher c) @ '':'' @ mc_expected c"

definition condition_signature :: "mock_condition list \<Rightarrow> string" where
  "condition_signature cs = join ''|'' (sort (map condition_text cs))"

definition route_key :: "mock_route \<Rightarrow> string" where
  "route_key r =
     mr_method r @ '' '' @ route_shape (mr_pathPattern r) @ '' '' @ condition_signature (opt_rows (mr_conditions r))"

section \<open>validateMockRoutes\<close>

record mock_check_state =
  mz_issues :: "mock_issue list"
  mz_seenIds :: "string list"
  mz_seenKeys :: "(string \<times> nat) list"

definition id_issues :: "mock_route \<Rightarrow> nat \<Rightarrow> string list \<Rightarrow> mock_issue list" where
  "id_issues r i seen =
     (if trim (mr_id r) = [] then [route_error i (Some (mr_id r)) (route_owner i @ '': id is required'')]
      else add_if (mr_id r \<in> set seen) (route_error i (Some (mr_id r)) (route_owner i @ '': id must be unique'')))"

definition route_issues :: "host \<Rightarrow> mock_route \<Rightarrow> nat \<Rightarrow> mock_issue list" where
  "route_issues h r i =
     validate_path_pattern r i
     @ mock_header_issues (mr_headers r) i (route_owner i)
     @ validate_body r i
     @ validate_conditions h r i
     @ validate_sequences r i
     @ item_warnings i (mr_id r) (route_owner i) (mr_method r) (mr_status r) (mr_body r) (mr_latencyMs r)"

definition overlap_warning :: "mock_route \<Rightarrow> nat \<Rightarrow> nat \<Rightarrow> mock_issue" where
  "overlap_warning r i previous =
     route_warning i (Some (mr_id r))
       (route_owner i @ '': overlaps route '' @ nat_to_string (previous + 1) @ '' and may never be reached'')"

definition check_route :: "host \<Rightarrow> nat \<Rightarrow> mock_route \<Rightarrow> mock_check_state \<Rightarrow> mock_check_state" where
  "check_route h i r st =
     (let st1 = st\<lparr>mz_issues := mz_issues st @ id_issues r i (mz_seenIds st) @ route_issues h r i,
                   mz_seenIds := (if trim (mr_id r) = [] then mz_seenIds st else set_add (mr_id r) (mz_seenIds st))\<rparr> in
      if mr_enabled r = Some False then st1
      else case map_of (mz_seenKeys st) (route_key r) of
          Some previous \<Rightarrow> st1\<lparr>mz_issues := mz_issues st1 @ [overlap_warning r i previous]\<rparr>
        | None \<Rightarrow> st1\<lparr>mz_seenKeys := mz_seenKeys st @ [(route_key r, i)]\<rparr>)"

fun check_routes :: "host \<Rightarrow> nat \<Rightarrow> mock_route list \<Rightarrow> mock_check_state \<Rightarrow> mock_check_state" where
  "check_routes h i [] st = st"
| "check_routes h i (r # rs) st = check_routes h (i + 1) rs (check_route h i r st)"

definition config_issues :: "mock_route list \<Rightarrow> mock_issue list" where
  "config_issues routes =
     add_if (max_total_config_bytes < config_bytes routes)
       (config_error (''Mock configuration is too large ('' @ format_bytes (config_bytes routes) @ ''; max ''
         @ format_bytes max_total_config_bytes @ '')''))
     @ add_if (max_routes < int (length routes))
         (config_error (''Too many mock routes ('' @ nat_to_string (length routes) @ ''; max ''
           @ int_to_string max_routes @ '')''))"

definition validate_mock_routes :: "host \<Rightarrow> mock_route list \<Rightarrow> mock_validation" where
  "validate_mock_routes h routes =
     (let issues = mz_issues (check_routes h 0 routes
                      \<lparr>mz_issues = config_issues routes, mz_seenIds = [], mz_seenKeys = []\<rparr>) in
      \<lparr>mv_valid = (filter mk_is_error issues = []), mv_errors = filter mk_is_error issues,
       mv_warnings = filter (\<lambda>x. \<not> mk_is_error x) issues\<rparr>)"

end
