(* ===== verification/Mock_Check_Facts.thy ===== *)
theory Mock_Check_Facts
  imports Mock_Check
begin

text \<open>
  What the checks on mock routes guarantee about the mock server that runs the routes: safe response
  headers, templates whose path parameters are there, and which routes are never reached.
\<close>

section \<open>Issues of a route\<close>

lemma set_add_if [simp]: "set (add_if c i) = (if c then {i} else {})"
  by (simp add: add_if_def)

lemma check_route_issues:
  "set (mz_issues st) \<union> set (route_issues h r i) \<subseteq> set (mz_issues (check_route h i r st))"
  by (auto simp: check_route_def Let_def split: option.splits)

lemma check_routes_keep: "set (mz_issues st) \<subseteq> set (mz_issues (check_routes h i rs st))"
proof (induction h i rs st rule: check_routes.induct)
  case (2 h i r rs st)
  with check_route_issues [of st h r i] show ?case by auto
qed simp

lemma check_routes_append:
  "check_routes h i (xs @ ys) st = check_routes h (i + length xs) ys (check_routes h i xs st)"
  by (induction h i xs st rule: check_routes.induct) simp_all

definition start_check :: "mock_route list \<Rightarrow> mock_check_state" where
  "start_check routes = \<lparr>mz_issues = config_issues routes, mz_seenIds = [], mz_seenKeys = []\<rparr>"

lemma validate_issues:
  "mv_valid (validate_mock_routes h routes) \<longleftrightarrow>
     (\<forall>x \<in> set (mz_issues (check_routes h 0 routes (start_check routes))). \<not> mk_is_error x)"
  "set (mv_warnings (validate_mock_routes h routes)) =
     {x \<in> set (mz_issues (check_routes h 0 routes (start_check routes))). \<not> mk_is_error x}"
  by (auto simp: validate_mock_routes_def Let_def start_check_def filter_empty_conv)

lemma issues_at:
  assumes "routes = before @ r # after"
  shows "set (mz_issues (check_route h (length before) r (check_routes h 0 before (start_check routes))))
    \<subseteq> set (mz_issues (check_routes h 0 routes (start_check routes)))"
  unfolding assms check_routes_append by (simp add: check_routes_keep)

lemma issue_kinds [simp]:
  "mk_is_error (route_error i rid m)" "\<not> mk_is_error (route_warning i rid m)"
  by (simp_all add: route_error_def route_warning_def)

definition error_free :: "mock_issue list \<Rightarrow> bool" where
  "error_free xs \<longleftrightarrow> (\<forall>x \<in> set xs. \<not> mk_is_error x)"

lemma error_free_simps [simp]:
  "error_free []" "error_free (xs @ ys) \<longleftrightarrow> error_free xs \<and> error_free ys"
  "error_free (x # xs) \<longleftrightarrow> \<not> mk_is_error x \<and> error_free xs"
  "error_free (add_if c x) \<longleftrightarrow> (c \<longrightarrow> \<not> mk_is_error x)"
  "error_free (concat xss) \<longleftrightarrow> (\<forall>xs \<in> set xss. error_free xs)"
  by (auto simp: error_free_def)

lemma valid_route_issues:
  assumes "mv_valid (validate_mock_routes h routes)" and "r \<in> set routes"
  obtains i where "error_free (route_issues h r i)"
proof -
  from assms(2) obtain before after where b: "routes = before @ r # after" by (meson split_list)
  then have "\<not> mk_is_error x" if "x \<in> set (route_issues h r (length before))" for x
    using that assms(1) issues_at [OF b, of h] check_route_issues [of _ h r "length before"]
    unfolding validate_issues by blast
  then have "error_free (route_issues h r (length before))" by (simp add: error_free_def)
  then show ?thesis by (rule that)
qed

section \<open>Response headers\<close>

definition safe_header :: "key_value \<Rightarrow> bool" where
  "safe_header hdr \<longleftrightarrow>
     carriage \<notin> set (kv_value hdr) \<and> newline \<notin> set (kv_value hdr)
     \<and> (kv_active hdr \<longrightarrow> is_http_token (trim (kv_key hdr))
          \<and> to_lower (trim (kv_key hdr)) \<notin> set restricted_response_headers)"

lemma header_issues_safe:
  "error_free (header_issues i own seen n hs) \<Longrightarrow> hdr \<in> set hs \<Longrightarrow> safe_header hdr"
proof (induction i own seen n hs rule: header_issues.induct)
  case (2 i own seen n p hs)
  from 2(3) have "safe_header p"
    by (auto simp: Let_def kv_active_def safe_header_def split: if_splits)
  with 2 show ?case by (auto simp: Let_def split: if_splits)
qed simp

lemma from_entries_subset: "set (obj_from_entries kvs) \<subseteq> set kvs"
proof -
  have "set (fold (\<lambda>(k, v). AList.update k v) kvs al) \<subseteq> set kvs \<union> set al" for al :: "'a obj"
  proof (induction kvs arbitrary: al)
    case (Cons p kvs)
    obtain k v where p: "p = (k, v)" by force
    from Cons [of "AList.update k v al"] show ?case by (auto simp: p dest!: set_update_subset)
  qed simp
  from this [of "[]"] show ?thesis by (simp add: obj_from_entries_def)
qed

lemma each_from_error_free:
  "error_free (each_from i f xs) \<Longrightarrow> x \<in> set xs \<Longrightarrow> \<exists>n. error_free (f n x)"
  by (induction xs arbitrary: i) auto

definition items_of :: "mock_route \<Rightarrow> mock_item set" where
  "items_of r = insert (From_route r) (From_sequence ` set (opt_rows (mr_sequences r)))"

lemma next_item_of: "fst (next_sequence_item r s) \<in> items_of r"
  by (auto simp: next_sequence_item_def items_of_def Let_def)

lemma valid_items_safe:
  assumes "mv_valid (validate_mock_routes h routes)" and "r \<in> set routes" and "it \<in> items_of r"
    and "hdr \<in> set (item_headers it)"
  shows "safe_header hdr"
proof -
  from valid_route_issues [OF assms(1,2)] obtain i where i: "error_free (route_issues h r i)" by blast
  show ?thesis
  proof (cases it)
    case (From_route r')
    with assms(3,4) have "hdr \<in> set (mr_headers r)" by (auto simp: items_of_def item_headers_def)
    with i show ?thesis by (auto simp: route_issues_def mock_header_issues_def intro: header_issues_safe)
  next
    case (From_sequence q)
    with assms(3,4) have q: "q \<in> set (opt_rows (mr_sequences r))" "hdr \<in> set (mi_headers q)"
      by (auto simp: items_of_def item_headers_def)
    from i have "error_free (each_from 0 (sequence_issues r i) (opt_rows (mr_sequences r)))"
      by (simp add: route_issues_def validate_sequences_def)
    from each_from_error_free [OF this q(1)] obtain n where "error_free (sequence_issues r i n q)" by blast
    with q(2) show ?thesis by (auto simp: sequence_issues_def mock_header_issues_def Let_def intro: header_issues_safe)
  qed
qed

lemma find_match_in: "find_mock_route_match h rs m path headers query body = Some (r, params) \<Longrightarrow> r \<in> set rs"
  by (auto simp: find_mock_route_applies dest: find_Some_in)

lemma replaced_routes:
  assumes "r \<in> set (ms_routes (snd (replace_routes routes s)))"
  obtains r0 b where "r0 \<in> set routes" and "r = r0\<lparr>mr_enabled := Some b\<rparr>"
  using assms by (auto simp: replace_routes_def Let_def)

lemma items_of_enabled: "it \<in> items_of (r\<lparr>mr_enabled := b\<rparr>) \<Longrightarrow> \<exists>it' \<in> items_of r. item_headers it' = item_headers it
    \<and> item_body it' = item_body it"
  by (auto simp: items_of_def item_headers_def item_body_def)


definition checked_route :: mock_route where
  "checked_route = (plain_route ''a'' ''/u/:id'')\<lparr>mr_headers := [kv_on ''X-A'' ''1''], mr_body := ''{{param.id}}''\<rparr>"

lemma checked_route_valid: "mv_valid (validate_mock_routes sample_host [checked_route])"
  by code_simp

definition checked_request :: http_request where
  "checked_request = sample_http ''/mock/u/7''"


text \<open>The checks look at the trimmed name, the answer carries the name as it is.\<close>

lemma untrimmed_name_passes:
  "header_issues 0 own [] 0 [kv_on (''X-A'' @ [newline]) ''1''] = []
   \<and> mock_response_headers (From_route ((plain_route ''a'' ''/'')\<lparr>mr_headers := [kv_on (''X-A'' @ [newline]) ''1'']\<rparr>))
       = [(''X-A'' @ [newline], ''1'')]"
proof -
  have "trim (''X-A'' @ [newline]) = ''X-A''" "is_http_token ''X-A''"
    "to_lower ''X-A'' \<notin> set restricted_response_headers" by code_simp+
  then show ?thesis
    by (simp add: Let_def kv_on_def add_if_def mock_response_headers_def item_headers_def kv_active_def
        obj_from_entries_def del: append.simps)
qed

section \<open>Path parameters of templates\<close>

lemma nonempty_parts_dropWhile:
  "filter (\<lambda>w. w \<noteq> []) (split_on d (dropWhile (\<lambda>c. c = d) s)) = filter (\<lambda>w. w \<noteq> []) (split_on d s)"
  by (induction s) auto

lemma split_on_snoc: "split_on d (s @ [d]) = split_on d s @ [[]]"
  by (induction s) (auto split: list.splits)

lemma nonempty_parts_dropWhile_end:
  "filter (\<lambda>w. w \<noteq> []) (split_on d (rev (dropWhile (\<lambda>c. c = d) (rev s)))) = filter (\<lambda>w. w \<noteq> []) (split_on d s)"
  by (induction s rule: rev_induct) (auto simp: split_on_snoc)

lemma nonempty_parts_strip:
  "filter (\<lambda>w. w \<noteq> []) (split_on CHR ''/'' (strip_slashes p)) = filter (\<lambda>w. w \<noteq> []) (split_on CHR ''/'' p)"
  by (simp add: strip_slashes_def nonempty_parts_dropWhile_end nonempty_parts_dropWhile)

lemma param_part_stripped:
  assumes "name \<in> set (pattern_params pattern)"
  shows "\<exists>seg \<in> set (split_on CHR ''/'' (strip_slashes pattern)). starts_with '':'' seg \<and> drop 1 seg = name"
proof -
  from assms obtain seg where seg: "seg \<in> set (split_on CHR ''/'' pattern)" "starts_with '':'' seg" "drop 1 seg = name"
    by (auto simp: pattern_params_def)
  then have "seg \<in> set (filter (\<lambda>w. w \<noteq> []) (split_on CHR ''/'' pattern))" by (cases seg) auto
  then have "seg \<in> set (filter (\<lambda>w. w \<noteq> []) (split_on CHR ''/'' (strip_slashes pattern)))"
    by (simp only: nonempty_parts_strip)
  with seg show ?thesis by auto
qed

lemma obj_own_assign:
  "obj_own (obj_assign k v ob) k' = (if k' = k \<and> \<not> (k = ''__proto__'' \<and> obj_own ob k = None) then Some v else obj_own ob k')"
  by (auto simp: obj_assign_def)

lemma match_parts_own:
  assumes "pm_matched (match_parts ps xs params)" and "length ps = length xs"
  shows "(obj_own params k \<noteq> None \<or> (k \<noteq> ''__proto__'' \<and> (\<exists>seg \<in> set ps. starts_with '':'' seg \<and> drop 1 seg = k)))
    \<longrightarrow> obj_own (pm_params (match_parts ps xs params)) k \<noteq> None"
  using assms
proof (induction ps xs params rule: match_parts.induct)
  case (1 e es a xs params)
  then show ?case by (cases "starts_with '':'' e") (auto simp: obj_own_assign split: if_splits)
qed auto

lemma matched_param_own:
  assumes "find_mock_route_match h rs m path headers query body = Some (r, params)"
    and "name \<in> set (pattern_params (mr_pathPattern r))" and "name \<noteq> ''__proto__''"
  shows "\<exists>v. obj_read params name = Own v"
proof -
  let ?ps = "split_on CHR ''/'' (strip_slashes (mr_pathPattern r))" and ?xs = "split_on CHR ''/'' (strip_slashes path)"
  from assms(1) have a: "route_applies h m path headers query body r"
    and p: "params = pm_params (match_path (mr_pathPattern r) path)"
    by (auto simp: find_mock_route_applies dest: find_Some_in)
  from a have l1: "length ?ps = length ?xs" by (auto simp: route_applies_def dest: list_all2_lengthD)
  with a have l: "length ?ps = length ?xs" "pm_matched (match_parts ?ps ?xs [])"
    by (simp_all add: route_applies_def match_parts_matched)
  from match_parts_own [OF l(2,1), of name] param_part_stripped [OF assms(2)] assms(3) p l(1)
  have "obj_own params name \<noteq> None" by (simp add: match_path_def Let_def)
  then show ?thesis by (auto simp: obj_read_def)
qed

lemma valid_items_params:
  assumes "mv_valid (validate_mock_routes h routes)" and "r \<in> set routes" and "it \<in> items_of r"
    and "name \<in> set (template_placeholders (item_body it))" and "starts_with ''param.'' name"
  shows "drop 6 name \<in> set (pattern_params (mr_pathPattern r))"
proof -
  from valid_route_issues [OF assms(1,2)] obtain i where i: "error_free (route_issues h r i)" by blast
  have "error_free (validate_templates r i (item_body it))"
  proof (cases it)
    case (From_route r')
    with assms(3) i show ?thesis by (auto simp: items_of_def item_body_def route_issues_def validate_body_def Let_def)
  next
    case (From_sequence q)
    with assms(3) have q: "q \<in> set (opt_rows (mr_sequences r))" by (auto simp: items_of_def)
    from i have "error_free (each_from 0 (sequence_issues r i) (opt_rows (mr_sequences r)))"
      by (simp add: route_issues_def validate_sequences_def)
    from each_from_error_free [OF this q] From_sequence show ?thesis
      by (auto simp: sequence_issues_def item_body_def Let_def)
  qed
  with assms(4) have "error_free (placeholder_issue r i name)" by (simp add: validate_templates_def)
  with assms(5) show ?thesis by (simp add: placeholder_issue_def)
qed

text \<open>
  In the answer of a route that passed the checks, every placeholder for a path parameter stands
  for a parameter of the matched path: it is never replaced by the empty text for want of a value
  (a parameter called __proto__, which JavaScript does not store, excepted).
\<close>

theorem accepted_templates_have_parameters:
  assumes "mv_valid (validate_mock_routes h routes)"
    and "find_match h m path headers query body (snd (replace_routes routes s)) = Some (r, params)"
    and "''param.'' @ name \<in> set (template_placeholders (item_body (fst (next_sequence_item r s'))))"
    and "name \<noteq> ''__proto__''"
  shows "\<exists>v. obj_read params name = Own v \<and> render_placeholder params query (''param.'' @ name) rt = Inr (v, rt)"
proof -
  let ?it = "fst (next_sequence_item r s')"
  from assms(2) have f: "find_mock_route_match h (ms_routes (snd (replace_routes routes s))) m path headers query body
    = Some (r, params)" by (simp add: find_match_def)
  from replaced_routes [OF find_match_in [OF f]]
  obtain r0 b where r0: "r0 \<in> set routes" "r = r0\<lparr>mr_enabled := Some b\<rparr>" by blast
  from items_of_enabled [of ?it "Some b" r0] next_item_of [of r s'] r0(2)
  obtain it where it: "it \<in> items_of r0" "item_body it = item_body ?it" by auto
  from valid_items_params [OF assms(1) r0(1) it(1), of "''param.'' @ name"] assms(3) it(2)
  have "name \<in> set (pattern_params (mr_pathPattern r))" by (simp add: r0(2))
  from matched_param_own [OF f this assms(4)] obtain v where "obj_read params name = Own v" by blast
  then show ?thesis by (auto simp: render_placeholder_def)
qed

theorem accepted_templates_have_parameters_witness:
  "\<exists>params v. find_match sample_host ''GET'' ''/u/7'' [] [] [] (snd (replace_routes [checked_route] mock_empty))
       = Some (checked_route\<lparr>mr_enabled := Some True\<rparr>, params) \<and> obj_read params ''id'' = Own v"
proof -
  have f: "find_match sample_host ''GET'' ''/u/7'' [] [] [] (snd (replace_routes [checked_route] mock_empty))
      = Some (checked_route\<lparr>mr_enabled := Some True\<rparr>, [(''id'', ''7'')])"
    by code_simp
  have t: "''param.'' @ ''id'' \<in> set (template_placeholders (item_body (fst (next_sequence_item
      (checked_route\<lparr>mr_enabled := Some True\<rparr>) mock_empty))))"
    by code_simp
  from accepted_templates_have_parameters [OF checked_route_valid f t] f show ?thesis by auto
qed

section \<open>Overlapping routes\<close>

lemma route_shape_parts:
  assumes "route_shape p = route_shape p'"
  shows "map (\<lambda>seg. if starts_with '':'' seg then '':'' else seg) (split_on CHR ''/'' (strip_slashes p))
    = map (\<lambda>seg. if starts_with '':'' seg then '':'' else seg) (split_on CHR ''/'' (strip_slashes p'))"
    (is "map ?f ?ps = map ?f ?ps'")
proof -
  have parts: "split_on CHR ''/'' (route_shape q) = map ?f (split_on CHR ''/'' (strip_slashes q))" for q
    unfolding route_shape_def by (rule split_on_join) (auto simp: split_on_parts split: if_splits)
  have "split_on CHR ''/'' (route_shape p) = split_on CHR ''/'' (route_shape p')" by (simp only: assms)
  then show ?thesis by (simp only: parts)
qed

lemma shape_part_matches:
  assumes "(if starts_with '':'' e then '':'' else e) = (if starts_with '':'' e' then '':'' else e')"
  shows "part_matches e x \<longleftrightarrow> part_matches e' x"
  using assms by (auto simp: part_matches_def split: if_splits)

lemma shape_matches:
  assumes "map (\<lambda>seg. if starts_with '':'' seg then '':'' else seg) ps
    = map (\<lambda>seg. if starts_with '':'' seg then '':'' else seg) ps'"
  shows "list_all2 part_matches ps xs \<longleftrightarrow> list_all2 part_matches ps' xs"
  using assms
proof (induction ps arbitrary: ps' xs)
  case (Cons e ps)
  then obtain e' qs where q: "ps' = e' # qs"
    "(if starts_with '':'' e then '':'' else e) = (if starts_with '':'' e' then '':'' else e')"
    "map (\<lambda>seg. if starts_with '':'' seg then '':'' else seg) ps = map (\<lambda>seg. if starts_with '':'' seg then '':'' else seg) qs"
    by (cases ps') auto
  show ?case
  proof (cases xs)
    case (Cons x ys)
    with q Cons.IH [OF q(3), of ys] shape_part_matches [OF q(2), of x] show ?thesis by simp
  qed (simp add: q(1))
qed simp

lemma key_without_conditions:
  assumes "route_key r = route_key r'" and "opt_rows (mr_conditions r) = []" and "opt_rows (mr_conditions r') = []"
    and "CHR '' '' \<notin> set (mr_method r)" and "CHR '' '' \<notin> set (mr_method r')"
  shows "mr_method r = mr_method r'" and "route_shape (mr_pathPattern r) = route_shape (mr_pathPattern r')"
proof -
  let ?t = "\<lambda>r. route_shape (mr_pathPattern r) @ '' ''"
  have k: "mr_method r @ CHR '' '' # ?t r = mr_method r' @ CHR '' '' # ?t r'"
    using assms(1-3) by (simp add: route_key_def condition_signature_def)
  from arg_cong [OF k, of "split_on CHR '' ''"] assms(4,5) show m: "mr_method r = mr_method r'" by (simp add: split_on_append)
  with k show "route_shape (mr_pathPattern r) = route_shape (mr_pathPattern r')" by simp
qed

lemma find_append: "find P (xs @ ys) = (case find P xs of None \<Rightarrow> find P ys | Some x \<Rightarrow> Some x)"
  by (induction xs) auto

lemma check_route_keys:
  "map_of (mz_seenKeys st) k \<noteq> None \<Longrightarrow> map_of (mz_seenKeys (check_route h i r st)) k \<noteq> None"
  "mr_enabled r \<noteq> Some False \<Longrightarrow> map_of (mz_seenKeys (check_route h i r st)) (route_key r) \<noteq> None"
  by (auto simp: check_route_def Let_def map_add_def split: option.splits)

lemma check_routes_keys:
  "map_of (mz_seenKeys st) k \<noteq> None \<Longrightarrow> map_of (mz_seenKeys (check_routes h i rs st)) k \<noteq> None"
  by (induction h i rs st rule: check_routes.induct) (simp_all add: check_route_keys del: not_None_eq)

lemma check_routes_seen:
  "r \<in> set rs \<Longrightarrow> mr_enabled r \<noteq> Some False \<Longrightarrow> map_of (mz_seenKeys (check_routes h i rs st)) (route_key r) \<noteq> None"
proof (induction h i rs st rule: check_routes.induct)
  case (2 h i x rs st)
  then show ?case
    using check_route_keys(2) [of x h i st] check_routes_keys [of "check_route h i x st" "route_key x" h "i + 1" rs]
    by (cases "r = x") auto
qed simp

lemma check_routes_ids:
  assumes "\<forall>x \<in> set (mz_issues (check_routes h i rs st)). \<not> mk_is_error x"
  shows "(\<forall>r \<in> set rs. mr_id r \<notin> set (mz_seenIds st)) \<and> distinct (map mr_id rs)"
  using assms
proof (induction h i rs st rule: check_routes.induct)
  case (2 h i r rs st)
  let ?st = "check_route h i r st"
  from 2(2) have "\<forall>x \<in> set (mz_issues ?st). \<not> mk_is_error x"
    using check_routes_keep [of ?st h "i + 1" rs] by auto
  moreover have "set (id_issues r i (mz_seenIds st)) \<subseteq> set (mz_issues ?st)"
    by (auto simp: check_route_def Let_def split: option.splits)
  ultimately have "error_free (id_issues r i (mz_seenIds st))" by (auto simp: error_free_def)
  then have new: "trim (mr_id r) \<noteq> []" "mr_id r \<notin> set (mz_seenIds st)"
    by (auto simp: id_issues_def split: if_splits)
  then have "mz_seenIds ?st = set_add (mr_id r) (mz_seenIds st)"
    by (simp add: check_route_def Let_def split: option.splits)
  with 2 new show ?case by auto
qed simp

text \<open>
  The warning about overlapping routes is right: in a list of routes that passes the checks, an
  enabled route without conditions that has the method and the path shape of an earlier enabled route without
  conditions is reported as overlapping, and no request is ever answered by it.
\<close>

theorem overlapped_route_unreachable:
  assumes "mv_valid (validate_mock_routes h routes)"
    and "routes = before @ r # after" and "r1 \<in> set before" and "route_key r1 = route_key r"
    and "mr_enabled r1 \<noteq> Some False" and "mr_enabled r \<noteq> Some False"
    and "opt_rows (mr_conditions r1) = []" and "opt_rows (mr_conditions r) = []"
    and "CHR '' '' \<notin> set (mr_method r1)" and "CHR '' '' \<notin> set (mr_method r)"
  shows "(\<exists>previous. overlap_warning r (length before) previous \<in> set (mv_warnings (validate_mock_routes h routes)))
    \<and> find_mock_route_match h routes m path headers query body \<noteq> Some (r, params)"
proof
  let ?st = "check_routes h 0 before (start_check routes)"
  obtain previous where p: "map_of (mz_seenKeys ?st) (route_key r) = Some previous"
    using check_routes_seen [OF assms(3,5), of h 0 "start_check routes"] by (auto simp: assms(4))
  have "overlap_warning r (length before) previous \<in> set (mz_issues (check_route h (length before) r ?st))"
    using assms(6) p by (simp add: check_route_def Let_def)
  then have "overlap_warning r (length before) previous \<in> set (mv_warnings (validate_mock_routes h routes))"
    using issues_at [OF assms(2), of h] unfolding validate_issues by (auto simp: overlap_warning_def)
  then show "\<exists>previous. overlap_warning r (length before) previous \<in> set (mv_warnings (validate_mock_routes h routes))" ..
next
  have d: "distinct (map mr_id routes)"
    using assms(1) check_routes_ids [of h 0 routes "start_check routes"] unfolding validate_issues by simp
  show "find_mock_route_match h routes m path headers query body \<noteq> Some (r, params)"
  proof
    assume "find_mock_route_match h routes m path headers query body = Some (r, params)"
    then have f: "find (route_applies h m path headers query body) routes = Some r"
      by (auto simp: find_mock_route_applies)
    then have a: "route_applies h m path headers query body r" by (auto dest: find_Some_in)
    note key = key_without_conditions [OF assms(4,7,8,9,10)]
    have "list_all2 part_matches (split_on CHR ''/'' (strip_slashes (mr_pathPattern r1)))
        (split_on CHR ''/'' (strip_slashes path))"
      using a shape_matches [OF route_shape_parts [OF key(2)]] by (simp add: route_applies_def)
    with a key(1) assms(5,7) have "route_applies h m path headers query body r1" by (simp add: route_applies_def)
    with assms(3) have "find (route_applies h m path headers query body) before \<noteq> None" by (auto simp: find_None_iff)
    with f assms(2) have "find (route_applies h m path headers query body) before = Some r"
      by (auto simp: find_append split: option.splits)
    then have "r \<in> set before" by (auto dest: find_Some_in)
    with d assms(2) show False by auto
  qed
qed

theorem overlapped_route_unreachable_witness:
  "find_mock_route_match sample_host [plain_route ''a'' ''/u/:id'', plain_route ''b'' ''/u/:name''] ''GET'' ''/u/1'' [] [] []
     \<noteq> Some (plain_route ''b'' ''/u/:name'', [])"
proof -
  let ?a = "plain_route ''a'' ''/u/:id''" and ?b = "plain_route ''b'' ''/u/:name''"
  have v: "mv_valid (validate_mock_routes sample_host [?a, ?b])" by code_simp
  have k: "route_key ?a = route_key ?b" by code_simp
  have "mr_enabled ?a \<noteq> Some False" "mr_enabled ?b \<noteq> Some False" "opt_rows (mr_conditions ?a) = []"
    "opt_rows (mr_conditions ?b) = []" "CHR '' '' \<notin> set (mr_method ?a)" "CHR '' '' \<notin> set (mr_method ?b)"
    by (simp_all add: plain_route_def opt_rows_def)
  from overlapped_route_unreachable [OF v _ _ k this, of "[?a]" "[]" "''GET''" "''/u/1''" "[]" "[]" "[]" "[]"]
  show ?thesis by simp
qed

end
