(* ===== verification/Flow_Check_Facts.thy ===== *)
theory Flow_Check_Facts
  imports Flow_Check
begin

text \<open>
  What the checks on flows decide: a predicate on the nested steps that mentions neither messages
  nor paths nor the order of the walk, the proof that a flow is valid exactly when it holds, and
  the bound it puts on running the flow.
\<close>

section \<open>Well-formed parts\<close>

definition regex_ok :: "host \<Rightarrow> string \<Rightarrow> bool" where
  "regex_ok h p \<longleftrightarrow> trim p = [] \<or> ho_regex h (fst (split_regex p)) (snd (split_regex p)) \<noteq> None"

definition schema_text_ok :: "string \<Rightarrow> bool" where
  "schema_text_ok v \<longleftrightarrow> trim v \<noteq> [] \<and> (case json_parse v of Some (JObj ms) \<Rightarrow> True | _ \<Rightarrow> False)"

definition matcher_ok :: "host \<Rightarrow> matcher \<Rightarrow> string \<Rightarrow> bool" where
  "matcher_ok h m x \<longleftrightarrow>
     (m = M_exists \<or> x \<noteq> [])
     \<and> ((m = M_gt \<or> m = M_lt) \<longrightarrow> x = [] \<or> num_finite (string_to_number x))
     \<and> (m = M_matches \<longrightarrow> regex_ok h x)"

definition header_ok :: "key_value \<Rightarrow> bool" where
  "header_ok p \<longleftrightarrow>
     (if trim (kv_key p) = [] then trim (kv_value p) = [] else is_http_token (trim (kv_key p)))
     \<and> newline \<notin> set (kv_value p) \<and> carriage \<notin> set (kv_value p)"

definition param_ok :: "key_value \<Rightarrow> bool" where
  "param_ok p \<longleftrightarrow> trim (kv_key p) \<noteq> [] \<or> trim (kv_value p) = []"

definition body_ok :: "request_config \<Rightarrow> bool" where
  "body_ok r \<longleftrightarrow>
     rq_bodyMode r \<noteq> BM_json \<or> trim (rq_body r) = [] \<or> has_template (rq_body r)
     \<or> json_parse (rq_body r) \<noteq> None"

definition assertion_ok :: "host \<Rightarrow> assertion \<Rightarrow> bool" where
  "assertion_ok h a \<longleftrightarrow>
     as_enabled a = Some False
     \<or> (trim (as_id a) \<noteq> [] \<and> assertion_kind_name (as_type a) \<in> set assertion_types
        \<and> matcher_name (as_matcher a) \<in> set matchers
        \<and> (as_type a \<in> {AK_header, AK_bodyJsonPath, AK_regex} \<longrightarrow>
             trim (as_expression a) \<noteq> [] \<or> trim (as_expected a) \<noteq> [])
        \<and> (as_type a = AK_header \<longrightarrow> trim (as_expression a) = [] \<or> is_http_token (trim (as_expression a)))
        \<and> (as_type a = AK_bodyJsonPath \<longrightarrow> trim (as_expression a) = [] \<or> is_json_path h (as_expression a))
        \<and> (as_type a = AK_bodySchema \<longrightarrow> schema_text_ok (first_text (as_expression a) (as_expected a)))
        \<and> (as_type a = AK_regex \<longrightarrow> regex_ok h (first_text (as_expression a) (as_expected a)))
        \<and> matcher_ok h (as_matcher a) (trim (as_expected a)))"

definition extraction_ok :: "host \<Rightarrow> extraction_rule \<Rightarrow> bool" where
  "extraction_ok h r \<longleftrightarrow>
     er_enabled r = Some False
     \<or> (trim (er_variableName r) \<noteq> [] \<and> is_variable_name (trim (er_variableName r))
        \<and> (er_source r = ES_status \<or> trim (er_expression r) \<noteq> [])
        \<and> (er_source r = ES_header \<longrightarrow> trim (er_expression r) = [] \<or> is_http_token (trim (er_expression r)))
        \<and> (er_source r = ES_body \<longrightarrow> trim (er_expression r) = [] \<or> is_json_path h (er_expression r)))"

definition request_ok :: "host \<Rightarrow> request_config \<Rightarrow> bool" where
  "request_ok h r \<longleftrightarrow>
     trim (rq_url r) \<noteq> [] \<and> (has_template (rq_url r) \<or> is_http_url h (rq_url r))
     \<and> rq_method r \<in> set http_methods \<and> 1 \<le> rq_timeoutMs r \<and> rq_timeoutMs r \<le> max_timeout_ms
     \<and> rq_bodyMode r \<in> set flow_body_modes
     \<and> list_all header_ok (rq_headers r) \<and> list_all param_ok (rq_params r) \<and> body_ok r
     \<and> list_all (assertion_ok h) (opt_rows (rq_assertions r))
     \<and> list_all (extraction_ok h) (opt_rows (rq_extractionRules r))"

definition condition_ok :: "host \<Rightarrow> flow_condition \<Rightarrow> bool" where
  "condition_ok h c \<longleftrightarrow>
     matcher_name (fc_matcher c) \<in> set matchers
     \<and> (case fc_source c of
          CS_status \<Rightarrow> True
        | CS_variable \<Rightarrow> trim (fc_expression c) \<noteq> [] \<and> is_variable_name (trim (fc_expression c))
        | CS_header \<Rightarrow> trim (fc_expression c) \<noteq> [] \<and> is_http_token (trim (fc_expression c))
        | CS_bodyJsonPath \<Rightarrow> trim (fc_expression c) \<noteq> [] \<and> is_json_path h (trim (fc_expression c)))
     \<and> matcher_ok h (fc_matcher c) (trim (fc_expected c))"

definition bound_ok :: "int option \<Rightarrow> bool" where
  "bound_ok b \<longleftrightarrow> (case b of None \<Rightarrow> True | Some n \<Rightarrow> 1 \<le> n \<and> n \<le> max_loop_iterations)"

primrec step_ok :: "host \<Rightarrow> flow_step \<Rightarrow> bool" where
  "step_ok h (RequestStep sid n r cont k) \<longleftrightarrow> request_ok h r"
| "step_ok h (DelayStep sid n d) \<longleftrightarrow> 0 \<le> d \<and> d \<le> max_delay_ms"
| "step_ok h (ConditionStep sid n c ts es) \<longleftrightarrow> condition_ok h c"
| "step_ok h (LoopStep sid n rounds condition mode ss most) \<longleftrightarrow>
     bound_ok rounds \<and> bound_ok most
     \<and> (case condition of
          None \<Rightarrow> rounds \<noteq> None \<or> most \<noteq> None
        | Some c \<Rightarrow> mode \<noteq> None \<and> condition_ok h c)"

definition name_ok :: "flow_step \<Rightarrow> bool" where
  "name_ok s \<longleftrightarrow> trim (step_name s) \<noteq> [] \<and> length (step_name s) \<le> max_step_name"

text \<open>All steps of a flow, and how deep they are nested.\<close>

fun step_all :: "flow_step \<Rightarrow> flow_step list" and steps_all :: "flow_step list \<Rightarrow> flow_step list" where
  "step_all (RequestStep sid n r cont k) = [RequestStep sid n r cont k]"
| "step_all (DelayStep sid n d) = [DelayStep sid n d]"
| "step_all (ConditionStep sid n c ts es) =
     ConditionStep sid n c ts es # steps_all ts @ (case es of None \<Rightarrow> [] | Some ss \<Rightarrow> steps_all ss)"
| "step_all (LoopStep sid n rounds c m ss most) = LoopStep sid n rounds c m ss most # steps_all ss"
| "steps_all [] = []"
| "steps_all (s # ss) = step_all s @ steps_all ss"

fun step_depth :: "flow_step \<Rightarrow> nat" and steps_depth :: "flow_step list \<Rightarrow> nat" where
  "step_depth (RequestStep sid n r cont k) = 1"
| "step_depth (DelayStep sid n d) = 1"
| "step_depth (ConditionStep sid n c ts es) =
     1 + max (steps_depth ts) (case es of None \<Rightarrow> 0 | Some ss \<Rightarrow> steps_depth ss)"
| "step_depth (LoopStep sid n rounds c m ss most) = 1 + steps_depth ss"
| "steps_depth [] = 0"
| "steps_depth (s # ss) = max (step_depth s) (steps_depth ss)"

definition flow_well_formed :: "host \<Rightarrow> bool \<Rightarrow> flow \<Rightarrow> bool" where
  "flow_well_formed h require_steps fw \<longleftrightarrow>
     trim (fw_name fw) \<noteq> [] \<and> length (fw_name fw) \<le> max_flow_name
     \<and> (require_steps \<longrightarrow> fw_steps fw \<noteq> [])
     \<and> list_all (\<lambda>s. trim (step_id s) \<noteq> [] \<and> name_ok s \<and> step_ok h s) (steps_all (fw_steps fw))
     \<and> distinct (map step_id (steps_all (fw_steps fw)))
     \<and> length (steps_all (fw_steps fw)) \<le> max_total_steps
     \<and> steps_depth (fw_steps fw) \<le> max_nesting_depth"

section \<open>Errors of the leaf checks\<close>

definition no_errors :: "flow_issue list \<Rightarrow> bool" where
  "no_errors xs = list_all (\<lambda>i. \<not> fi_is_error i) xs"

named_theorems check_simps \<open>which checks report an error\<close>

lemma no_errors_simps [check_simps]:
  "no_errors []" "no_errors (xs @ ys) \<longleftrightarrow> no_errors xs \<and> no_errors ys"
  "no_errors (x # xs) \<longleftrightarrow> \<not> fi_is_error x \<and> no_errors xs"
  "no_errors (issue_if c i) \<longleftrightarrow> \<not> c \<or> \<not> fi_is_error i"
  by (auto simp: no_errors_def issue_if_def)

lemma issue_levels [check_simps]:
  "fi_is_error (flow_error m)" "\<not> fi_is_error (flow_warning m)" "fi_is_error (step_error sid path m)"
  "\<not> fi_is_error (step_warning sid path m)"
  by (simp_all add: flow_error_def flow_warning_def step_error_def step_warning_def)

lemma no_errors_range [check_simps]:
  "no_errors (validate_integer_range (of_int v) lo hi label sid path) \<longleftrightarrow> lo \<le> v \<and> v \<le> hi"
  by (auto simp: validate_integer_range_def is_integral_of_int check_simps)

lemma no_errors_regex [check_simps]:
  "no_errors (validate_regex h p label sid path) \<longleftrightarrow> regex_ok h p"
  by (auto simp: validate_regex_def regex_ok_def check_simps split: option.split)

lemma no_errors_schema [check_simps]:
  "no_errors (validate_json_schema v label sid path) \<longleftrightarrow> schema_text_ok v"
  by (auto simp: validate_json_schema_def schema_text_ok_def check_simps split: option.split json.split)

lemma no_errors_matcher [check_simps]:
  "no_errors (validate_matcher h m x label sid path) \<longleftrightarrow> matcher_ok h m x"
  by (auto simp: validate_matcher_def matcher_ok_def check_simps)

lemma no_errors_headers_from:
  "no_errors (validate_headers_from seen i hs label sid path) \<longleftrightarrow> list_all header_ok hs"
  by (induction hs arbitrary: seen i) (auto simp: Let_def header_ok_def check_simps)

lemma no_errors_headers [check_simps]:
  "no_errors (validate_headers hs label sid path) \<longleftrightarrow> list_all header_ok hs"
  by (simp add: validate_headers_def no_errors_headers_from)

lemma no_errors_each:
  "(\<And>i x. no_errors (f i x) \<longleftrightarrow> P x) \<Longrightarrow> no_errors (each_from i f xs) \<longleftrightarrow> list_all P xs"
  by (induction xs arbitrary: i) (auto simp: check_simps)

lemma no_errors_params [check_simps]:
  "no_errors (validate_params ps label sid path) \<longleftrightarrow> list_all param_ok ps"
  unfolding validate_params_def by (rule no_errors_each) (auto simp: param_ok_def check_simps)

lemma no_errors_body [check_simps]:
  "no_errors (validate_request_body r sid path) \<longleftrightarrow> body_ok r"
  by (auto simp: validate_request_body_def body_ok_def check_simps split: option.split)

lemma no_errors_assertion [check_simps]:
  "no_errors (validate_assertion h sid path i a) \<longleftrightarrow> assertion_ok h a"
  unfolding validate_assertion_def assertion_ok_def Let_def by (auto simp: check_simps)

lemma no_errors_assertions [check_simps]:
  "no_errors (validate_assertions h asserts sid path) \<longleftrightarrow> list_all (assertion_ok h) asserts"
  unfolding validate_assertions_def by (rule no_errors_each) (simp add: check_simps)

lemma no_errors_extraction [check_simps]:
  "no_errors (validate_extraction_rule h sid path i r) \<longleftrightarrow> extraction_ok h r"
  unfolding validate_extraction_rule_def extraction_ok_def Let_def by (auto simp: check_simps)

lemma no_errors_extractions [check_simps]:
  "no_errors (validate_extraction_rules h rules sid path) \<longleftrightarrow> list_all (extraction_ok h) rules"
  unfolding validate_extraction_rules_def by (rule no_errors_each) (simp add: check_simps)

lemma no_errors_request [check_simps]:
  "no_errors (validate_request_step h r sid path) \<longleftrightarrow> request_ok h r"
  unfolding validate_request_step_def request_ok_def by (auto simp: check_simps)

lemma no_errors_condition [check_simps]:
  "no_errors (validate_condition h c prev sid path) \<longleftrightarrow> condition_ok h c"
  unfolding validate_condition_def condition_ok_def Let_def
  by (cases "fc_source c") (auto simp: check_simps)

lemma no_errors_condition_step [check_simps]:
  "no_errors (validate_condition_step h c ts es prev sid path) \<longleftrightarrow> condition_ok h c"
  by (auto simp: validate_condition_step_def check_simps)

lemma no_errors_loop_step [check_simps]:
  "no_errors (validate_loop_step h rounds condition mode ss most prev sid path) \<longleftrightarrow>
     step_ok h (LoopStep sid n rounds condition mode ss' most)"
  by (cases rounds; cases most; cases condition; cases mode)
    (auto simp: validate_loop_step_def bound_ok_def check_simps, (metis loop_mode.exhaust)+)

lemma no_errors_delay [check_simps]:
  "no_errors (validate_delay_step d sid path) \<longleftrightarrow> 0 \<le> d \<and> d \<le> max_delay_ms"
  by (auto simp: validate_delay_step_def check_simps)

lemma no_errors_name [check_simps]:
  "no_errors (check_name n sid path) \<longleftrightarrow> trim n \<noteq> [] \<and> length n \<le> max_step_name"
  by (auto simp: check_name_def check_simps)

section \<open>What the walk computes\<close>

lemma add_issues_sel [simp]:
  "cs_issues (add_issues xs st) = cs_issues st @ xs" "cs_stepIds (add_issues xs st) = cs_stepIds st"
  "cs_totalSteps (add_issues xs st) = cs_totalSteps st" "cs_maxDepth (add_issues xs st) = cs_maxDepth st"
  by (simp_all add: add_issues_def)

lemma enter_step_sel [simp]:
  "cs_totalSteps (enter_step s depth path st) = Suc (cs_totalSteps st)"
  "cs_maxDepth (enter_step s depth path st) = max (cs_maxDepth st) depth"
  "set (cs_stepIds (enter_step s depth path st)) =
     set (cs_stepIds st) \<union> {x. x = step_id s \<and> trim x \<noteq> []}"
  by (auto simp: enter_step_def check_id_def)

lemma enter_step_errors [check_simps]:
  "no_errors (cs_issues (enter_step s depth path st)) \<longleftrightarrow>
     no_errors (cs_issues st) \<and> trim (step_id s) \<noteq> [] \<and> step_id s \<notin> set (cs_stepIds st) \<and> name_ok s"
  by (auto simp: enter_step_def check_id_def name_ok_def check_simps flow_error_def)

lemma walk_total:
  "cs_totalSteps (validate_step h d path prev s st) = cs_totalSteps st + length (step_all s)"
  "cs_totalSteps (validate_steps h d path prev i ss st) = cs_totalSteps st + length (steps_all ss)"
  by (induction h d path prev s st and h d path prev i ss st rule: validate_step_validate_steps.induct)
    (auto simp: Let_def split: option.split)

lemma walk_depth:
  "d \<le> cs_maxDepth st \<Longrightarrow>
     cs_maxDepth (validate_step h (Suc d) path prev s st) = max (cs_maxDepth st) (d + step_depth s)"
  "d \<le> cs_maxDepth st \<Longrightarrow>
     cs_maxDepth (validate_steps h (Suc d) path prev i ss st) = max (cs_maxDepth st) (d + steps_depth ss)"
proof (induction s and ss arbitrary: d path prev st and d path prev i st
    rule: step_depth_steps_depth.induct)
  case (3 sid n c ts es)
  show ?case
  proof (cases es)
    case None
    with 3 show ?thesis by (simp add: Let_def)
  next
    case (Some ss)
    with 3 show ?thesis by (simp add: Let_def max.assoc)
  qed
qed (simp_all add: max.assoc)

lemma walk_ids:
  "set (cs_stepIds (validate_step h d path prev s st)) =
     set (cs_stepIds st) \<union> {x \<in> step_id ` set (step_all s). trim x \<noteq> []}"
  "set (cs_stepIds (validate_steps h d path prev i ss st)) =
     set (cs_stepIds st) \<union> {x \<in> step_id ` set (steps_all ss). trim x \<noteq> []}"
  by (induction h d path prev s st and h d path prev i ss st rule: validate_step_validate_steps.induct)
    (auto simp: Let_def split: option.splits)

definition steps_fine :: "host \<Rightarrow> string set \<Rightarrow> flow_step list \<Rightarrow> bool" where
  "steps_fine h seen ss \<longleftrightarrow>
     list_all (\<lambda>s. trim (step_id s) \<noteq> [] \<and> name_ok s \<and> step_ok h s) ss
     \<and> distinct (map step_id ss) \<and> seen \<inter> step_id ` set ss = {}"

lemma steps_fine_simps [simp]:
  "steps_fine h seen []"
  "steps_fine h seen (s # ss) \<longleftrightarrow>
     trim (step_id s) \<noteq> [] \<and> name_ok s \<and> step_ok h s \<and> step_id s \<notin> seen
     \<and> steps_fine h (insert (step_id s) seen) ss"
  by (auto simp: steps_fine_def)

lemma steps_fine_append [simp]:
  "steps_fine h seen (ss @ ts) \<longleftrightarrow> steps_fine h seen ss \<and> steps_fine h (seen \<union> step_id ` set ss) ts"
  by (induction ss arbitrary: seen) (auto simp: insert_commute)

lemma steps_fine_ids: "steps_fine h seen ss \<Longrightarrow> {x \<in> step_id ` set ss. trim x \<noteq> []} = step_id ` set ss"
  by (auto simp: steps_fine_def list_all_iff)

lemma walk_errors:
  "no_errors (cs_issues (validate_step h d path prev s st)) \<longleftrightarrow>
     no_errors (cs_issues st) \<and> steps_fine h (set (cs_stepIds st)) (step_all s)"
  "no_errors (cs_issues (validate_steps h d path prev i ss st)) \<longleftrightarrow>
     no_errors (cs_issues st) \<and> steps_fine h (set (cs_stepIds st)) (steps_all ss)"
proof (induction h d path prev s st and h d path prev i ss st rule: validate_step_validate_steps.induct)
  case (1 h depth path prev sid n r cont k st)
  show ?case by (auto simp: check_simps)
next
  case (2 h depth path prev sid n d st)
  show ?case by (auto simp: check_simps)
next
  case (3 h depth path prev sid n c ts es st)
  have i: "trim sid \<noteq> [] \<Longrightarrow>
      set (cs_stepIds st) \<union> {x. x = sid \<and> trim x \<noteq> []} = insert sid (set (cs_stepIds st))"
    by auto
  show ?case
  proof (cases es)
    case None
    with 3 show ?thesis by (auto simp: Let_def check_simps i)
  next
    case (Some ss)
    with 3 show ?thesis
      by (auto simp: Let_def check_simps walk_ids i steps_fine_ids)
  qed
next
  case (4 h depth path prev sid n rounds condition mode ss most st)
  have i: "trim sid \<noteq> [] \<Longrightarrow>
      set (cs_stepIds st) \<union> {x. x = sid \<and> trim x \<noteq> []} = insert sid (set (cs_stepIds st))"
    by auto
  from 4 show ?case
    by (auto simp: check_simps i no_errors_loop_step [where n = n and ss' = ss])
next
  case (5 h depth path prev i st)
  show ?case by simp
next
  case (6 h depth path prev i step steps st)
  then show ?case by (auto simp: walk_ids steps_fine_ids)
qed


section \<open>Properties\<close>

lemma flow_issues_errors: "no_errors (flow_issues h fw req) \<longleftrightarrow> flow_well_formed h req fw"
proof -
  define st where "st pre = \<lparr>cs_issues = pre, cs_stepIds = [], cs_totalSteps = 0, cs_maxDepth = 0\<rparr>"
    for pre :: "flow_issue list"
  have d: "cs_maxDepth (validate_steps h (Suc 0) ''Step'' False 0 ss (st pre)) = steps_depth ss" for ss pre
    using walk_depth(2) [of 0 "st pre" h _ _ _ ss] by (simp add: st_def)
  have t: "cs_totalSteps (validate_steps h (Suc 0) ''Step'' False 0 ss (st pre)) = length (steps_all ss)" for ss pre
    by (simp add: walk_total st_def)
  have e: "no_errors (cs_issues (validate_steps h (Suc 0) ''Step'' False 0 ss (st pre))) \<longleftrightarrow>
      no_errors pre \<and> steps_fine h {} (steps_all ss)" for ss pre
    by (simp add: walk_errors st_def)
  show ?thesis
    unfolding flow_issues_def Let_def One_nat_def st_def [symmetric] d t
    by (auto simp: check_simps e flow_well_formed_def steps_fine_def)
qed

text \<open>
  C5: A flow is valid exactly when it is well-formed: its name is present and short enough, there
  are steps when they are required, every step of the whole nested flow has a non-blank id, a
  good name and well-formed contents, the ids are pairwise different, there are at most 500 steps and
  they are nested at most 8 deep. Neither the order of the walk nor what an earlier step reported
  changes the verdict.
\<close>

theorem valid_flow_iff: "fv_valid (validate_flow h fw req) \<longleftrightarrow> flow_well_formed h req fw"
  unfolding flow_issues_errors [symmetric]
  by (simp add: validate_flow_def Let_def no_errors_def filter_empty_conv list_all_iff)

lemma bound_ok_loop:
  assumes "bound_ok rounds" and "bound_ok most"
  shows "nat (loop_max_iterations rounds most) \<le> 1000"
  using assms by (auto simp: bound_ok_def loop_max_iterations_def max_loop_iterations_def split: option.splits)

lemma steps_depth_zero: "steps_depth ss = 0 \<Longrightarrow> ss = []"
proof (cases ss)
  case (Cons s rest)
  have "0 < step_depth s" by (cases s) auto
  moreover assume "steps_depth ss = 0"
  ultimately show ?thesis using Cons by simp
qed simp

lemma power_1000_mono: "m \<le> n \<Longrightarrow> x * 1000 ^ m \<le> (x * 1000 ^ n :: nat)"
  by (intro mult_le_mono2 power_increasing) auto

lemma steps_bound_well_formed:
  "step_depth s \<le> Suc d \<Longrightarrow> list_all (step_ok h) (step_all s) \<Longrightarrow> step_bound s \<le> length (step_all s) * 1000 ^ d"
  "steps_depth ss \<le> Suc d \<Longrightarrow> list_all (step_ok h) (steps_all ss) \<Longrightarrow>
     steps_bound ss \<le> length (steps_all ss) * 1000 ^ d"
proof (induction s and ss arbitrary: d and d rule: step_depth_steps_depth.induct)
  case (1 sid n r cont k)
  show ?case by simp
next
  case (2 sid n dl)
  show ?case by simp
next
  case (3 sid n c ts es)
  show ?case
  proof (cases d)
    case 0
    with 3 have "steps_depth ts = 0" "\<And>ss. es = Some ss \<Longrightarrow> steps_depth ss = 0" by auto
    with 0 have "steps_bound ts = 0" "\<And>ss. es = Some ss \<Longrightarrow> steps_bound ss = 0"
      by (auto dest: steps_depth_zero)
    with 0 show ?thesis by (auto split: option.split)
  next
    case (Suc e)
    have lift: "x \<le> n * 1000 ^ e \<Longrightarrow> x \<le> n * 1000 ^ d" for x n :: nat
      using Suc power_1000_mono [of e d n] by simp
    have "steps_bound ts \<le> length (steps_all ts) * 1000 ^ e" using 3 Suc by simp
    then have t: "steps_bound ts \<le> length (steps_all ts) * 1000 ^ d" by (rule lift)
    have one: "(1::nat) \<le> 1000 ^ d" by simp
    show ?thesis
    proof (cases es)
      case None
      with add_mono [OF one t] show ?thesis by simp
    next
      case (Some ss)
      have "steps_bound ss \<le> length (steps_all ss) * 1000 ^ e" using 3 Some Suc by simp
      then have "steps_bound ss \<le> length (steps_all ss) * 1000 ^ d" by (rule lift)
      from add_mono [OF one add_mono [OF t this]] Some show ?thesis
        by (simp add: add_mult_distrib max_def split: if_split_asm)
    qed
  qed
next
  case (4 sid n rounds c m ss most)
  let ?n = "nat (loop_max_iterations rounds most)"
  have n: "?n \<le> 1000" using 4 by (intro bound_ok_loop) auto
  show ?case
  proof (cases d)
    case 0
    with 4 have "steps_depth ss = 0" by auto
    then have "ss = []" by (rule steps_depth_zero)
    with 0 show ?thesis by simp
  next
    case (Suc e)
    have "steps_bound ss \<le> length (steps_all ss) * 1000 ^ e" using 4 Suc by auto
    with n have "?n * steps_bound ss \<le> 1000 * (length (steps_all ss) * 1000 ^ e)"
      by (rule mult_le_mono)
    from add_mono [OF _ this, of 1 "1000 ^ d"] Suc show ?thesis by (simp add: algebra_simps)
  qed
next
  case 5
  show ?case by simp
next
  case (6 s ss)
  then have "step_bound s \<le> length (step_all s) * 1000 ^ d"
    and "steps_bound ss \<le> length (steps_all ss) * 1000 ^ d" by auto
  then show ?case by (simp add: algebra_simps)
qed

text \<open>
  C3: Running a valid flow ends within bounds fixed by the limits of the checks: whatever the
  server answers, however often steps are retried and whether or not it is cancelled, the
  run has at most 500 times 1000 to the power 7 step results (500 steps, loops of at most 1000 rounds
  nested at most seven deep around another step).
\<close>

theorem valid_flow_run_bounded:
  assumes "fv_valid (validate_flow h fw req)" and "run_flow ctx fw rt w cancel = Ran z s"
  shows "length (fz_steps z) \<le> 500 * 1000 ^ 7"
proof -
  have wf: "flow_well_formed h req fw" using assms(1)
    unfolding flow_issues_errors [symmetric]
    by (simp add: validate_flow_def Let_def no_errors_def filter_empty_conv list_all_iff)
  then have "steps_bound (fw_steps fw) \<le> length (steps_all (fw_steps fw)) * 1000 ^ 7"
    by (intro steps_bound_well_formed(2) [where h = h])
      (auto simp: flow_well_formed_def max_nesting_depth_def list_all_iff)
  also have "\<dots> \<le> 500 * 1000 ^ 7" using wf by (simp add: flow_well_formed_def max_total_steps_def)
  finally show ?thesis using run_flow_length [OF assms(2)] by simp
qed

definition small_flow :: flow where
  "small_flow = (sample_flow [])\<lparr>fw_name := ''f'', fw_steps := [DelayStep ''a'' ''wait'' 0]\<rparr>"

theorem valid_flow_run_bounded_witness:
  "fv_valid (validate_flow sample_host small_flow True)
   \<and> (\<exists>z s. run_flow sample_ctx small_flow sample_runtime 0 None = Ran z s \<and> length (fz_steps z) \<le> 500 * 1000 ^ 7)"
proof -
  have v: "fv_valid (validate_flow sample_host small_flow True)" by code_simp
  have "\<exists>z s. run_flow sample_ctx small_flow sample_runtime 0 None = Ran z s"
    by (simp add: run_flow_def small_flow_def sample_flow_def delay_effect_def interruptible_def tick_clock_def
        emit_def push_result_def stops_list_def make_step_result_def make_flow_result_def Let_def case_prod_beta)
  then obtain z s where "run_flow sample_ctx small_flow sample_runtime 0 None = Ran z s" by blast
  with valid_flow_run_bounded [OF v this] v show ?thesis by blast
qed

text \<open>
  A flow one of whose requests, however deeply nested, sends a file or a GraphQL multipart body is never valid:
  the table of body modes of the checks lacks the two modes the request type has.
\<close>

theorem file_body_flows_invalid:
  "\<forall>r sid n cont k. RequestStep sid n r cont k \<in> set (steps_all (fw_steps fw)) \<longrightarrow>
     rq_bodyMode r \<in> {BM_file, BM_graphql_multipart} \<longrightarrow> \<not> fv_valid (validate_flow h fw req)"
proof (intro allI impI notI)
  fix r sid n cont k
  assume r: "RequestStep sid n r cont k \<in> set (steps_all (fw_steps fw))"
    and b: "rq_bodyMode r \<in> {BM_file, BM_graphql_multipart}" and "fv_valid (validate_flow h fw req)"
  then have "flow_well_formed h req fw"
    unfolding flow_issues_errors [symmetric]
    by (simp add: validate_flow_def Let_def no_errors_def filter_empty_conv list_all_iff)
  with r have "step_ok h (RequestStep sid n r cont k)" unfolding flow_well_formed_def list_all_iff by blast
  with b show False by (auto simp: request_ok_def flow_body_modes_def)
qed

theorem file_body_flows_invalid_witness:
  "\<not> fv_valid (validate_flow sample_host
       (small_flow\<lparr>fw_steps := [RequestStep ''a'' ''n'' ((plain_request ''https://h'')\<lparr>rq_bodyMode := BM_file\<rparr>) None None]\<rparr>) True)"
  (is "\<not> fv_valid (validate_flow _ ?f _)")
  using file_body_flows_invalid [of ?f sample_host True] by simp

end
