(* ===== verification/History.thy ===== *)
theory History
  imports Request_Model Assertions
begin

text \<open>
  packages/core/src/lib/redact.ts, which blanks secrets before an entry is kept, and
  packages/core/src/history/index.ts, the search over the entries. The request of an entry may be a draft,
  whose additional fields (and the creation time a saved request has) are kept beside it.
\<close>

section \<open>Entries\<close>

record draft_fields =
  df_id :: "string option"
  df_collectionId :: "string option"
  df_folderId :: "string option"
  df_name :: "string option"
  df_protocol :: "protocol option"
  df_sortOrder :: "int option"
  df_createdAt :: "int option"

record stored_entry = history_entry +
  se_draft :: draft_fields

definition no_draft :: draft_fields where
  "no_draft = \<lparr>df_id = None, df_collectionId = None, df_folderId = None, df_name = None,
     df_protocol = None, df_sortOrder = None, df_createdAt = None\<rparr>"

section \<open>Redaction\<close>

definition sensitive_headers :: "string list" where
  "sensitive_headers =
     [''authorization'', ''cookie'', ''set-cookie'', ''x-api-key'', ''proxy-authorization'', ''x-auth-token'']"

definition redacted :: string where
  "redacted = ''[redacted]''"

text \<open>
  The expression's dot stops at line ends, so a name with a line break matches only as a whole word.
\<close>

definition is_sensitive_key :: "string \<Rightarrow> bool" where
  "is_sensitive_key k \<longleftrightarrow>
     to_lower k \<in> set sensitive_headers
     \<or> to_lower k \<in> {''authorization'', ''cookie'', ''set-cookie'', ''x-api-key'', ''proxy-authorization''}
     \<or> (str_includes ''token'' (to_lower k) \<and> newline \<notin> set k \<and> carriage \<notin> set k)"

definition redact_headers :: "key_value list \<Rightarrow> key_value list" where
  "redact_headers hs = map (\<lambda>hdr. if is_sensitive_key (kv_key hdr) then hdr\<lparr>kv_value := redacted\<rparr> else hdr) hs"

definition blank :: "string option \<Rightarrow> string option" where
  "blank v = (if truthy v then Some redacted else v)"

definition redact_auth :: "auth_config \<Rightarrow> auth_config" where
  "redact_auth a =
     a\<lparr>au_password := blank (au_password a), au_token := blank (au_token a),
       au_clientSecret := blank (au_clientSecret a), au_awsSecretAccessKey := blank (au_awsSecretAccessKey a),
       au_accessToken := blank (au_accessToken a), au_refreshToken := blank (au_refreshToken a),
       au_apiKeyValue := blank (au_apiKeyValue a)\<rparr>"

definition redact_request :: "protocol_request \<Rightarrow> protocol_request" where
  "redact_request q =
     (case q of
        RestRequest r \<Rightarrow> RestRequest (r\<lparr>rq_headers := redact_headers (rq_headers r), rq_auth := redact_auth (rq_auth r)\<rparr>)
      | GraphQLRequest r \<Rightarrow> GraphQLRequest (r\<lparr>gq_headers := redact_headers (gq_headers r), gq_auth := redact_auth (gq_auth r)\<rparr>)
      | WebSocketRequest r \<Rightarrow> WebSocketRequest (r\<lparr>wq_headers := redact_headers (wq_headers r), wq_auth := redact_auth (wq_auth r)\<rparr>)
      | GrpcRequest r \<Rightarrow> GrpcRequest (r\<lparr>rg_metadata := redact_headers (rg_metadata r),
                                      rg_auth := map_option redact_auth (rg_auth r)\<rparr>))"

definition redact_history_entry :: "'a history_entry_scheme \<Rightarrow> 'a history_entry_scheme" where
  "redact_history_entry e =
     e\<lparr>he_request := redact_request (he_request e),
       he_response := map_option (\<lambda>p. p\<lparr>rs_headers := redact_headers (rs_headers p)\<rparr>) (he_response e)\<rparr>"

text \<open>The messages of a gRPC stream: only their metadata and trailers change.\<close>

record 'a stream_message =
  sm_metadata :: "key_value list option"
  sm_trailers :: "key_value list option"
  sm_rest :: 'a

definition redact_stream_transcript :: "'a stream_message list \<Rightarrow> 'a stream_message list" where
  "redact_stream_transcript ms =
     map (\<lambda>m. m\<lparr>sm_metadata := map_option redact_headers (sm_metadata m),
                sm_trailers := map_option redact_headers (sm_trailers m)\<rparr>) ms"

section \<open>Search\<close>

definition request_name :: "stored_entry \<Rightarrow> string" where
  "request_name e = opt_str (df_name (se_draft e))"

definition request_method :: "stored_entry \<Rightarrow> string" where
  "request_method e =
     (case he_request e of
        WebSocketRequest r \<Rightarrow> ''websocket'' | GrpcRequest r \<Rightarrow> ''grpc'' | GraphQLRequest r \<Rightarrow> ''graphql''
      | RestRequest r \<Rightarrow> rq_method r)"

definition request_body_text :: "stored_entry \<Rightarrow> string" where
  "request_body_text e =
     (case he_request e of
        GraphQLRequest r \<Rightarrow> join [newline] [gq_query r, gq_variables r, opt_str (gq_operationName r)]
      | WebSocketRequest r \<Rightarrow> wq_message r
      | GrpcRequest r \<Rightarrow> rg_body r
      | RestRequest r \<Rightarrow> rq_body r)"

definition request_url :: "protocol_request \<Rightarrow> string" where
  "request_url q =
     (case q of
        RestRequest r \<Rightarrow> rq_url r | GraphQLRequest r \<Rightarrow> gq_url r | WebSocketRequest r \<Rightarrow> wq_url r
      | GrpcRequest r \<Rightarrow> rg_address r @ ''/'' @ rg_service r @ ''/'' @ rg_method r)"

definition request_headers_for :: "protocol_request \<Rightarrow> key_value list" where
  "request_headers_for q =
     (case q of
        RestRequest r \<Rightarrow> rq_headers r | GraphQLRequest r \<Rightarrow> gq_headers r | WebSocketRequest r \<Rightarrow> wq_headers r
      | GrpcRequest r \<Rightarrow> rg_metadata r)"

definition header_lines :: "key_value list \<Rightarrow> string" where
  "header_lines hs = join [newline] (map (\<lambda>hdr. kv_key hdr @ '': '' @ kv_value hdr) hs)"

definition history_haystack :: "stored_entry \<Rightarrow> string" where
  "history_haystack e =
     to_lower (join [newline] (filter (\<lambda>t. t \<noteq> [])
       [he_id e, opt_str (he_requestId e), opt_str (he_collectionId e), opt_str (he_environmentId e),
        request_name e, request_method e, request_url (he_request e), request_body_text e,
        header_lines (request_headers_for (he_request e)),
        header_lines (case he_response e of Some p \<Rightarrow> rs_headers p | None \<Rightarrow> []),
        (case he_response e of Some p \<Rightarrow> rs_body p | None \<Rightarrow> []),
        (case he_response e of Some p \<Rightarrow> rs_statusText p | None \<Rightarrow> []),
        (case he_response e of Some p \<Rightarrow> int_to_string (rs_status p) | None \<Rightarrow> [])]))"

text \<open>\<open>slice(0, limit)\<close>: a negative limit counts from the end.\<close>

definition slice_to :: "int \<Rightarrow> 'a list \<Rightarrow> 'a list" where
  "slice_to limit xs = take (nat (if limit < 0 then int (length xs) + limit else limit)) xs"

definition newer :: "('a history_entry_scheme) \<Rightarrow> 'a history_entry_scheme \<Rightarrow> bool" where
  "newer x y \<longleftrightarrow> he_createdAt y \<le> he_createdAt x"

definition search_history :: "stored_entry list \<Rightarrow> string \<Rightarrow> int \<Rightarrow> stored_entry list" where
  "search_history entries query limit =
     (let normalized = to_lower (trim query); newest = stable_sort newer entries in
      if normalized = [] then slice_to limit newest
      else slice_to limit (filter (\<lambda>e. str_includes normalized (history_haystack e)) newest))"

section \<open>Lemmas\<close>

text \<open>Two lists of headers, two credentials, two entries that differ at most in what redaction hides.\<close>

definition headers_alike :: "key_value list \<Rightarrow> key_value list \<Rightarrow> bool" where
  "headers_alike xs ys \<longleftrightarrow>
     list_all2 (\<lambda>x y. x = y \<or> (is_sensitive_key (kv_key x) \<and> x\<lparr>kv_value := []\<rparr> = y\<lparr>kv_value := []\<rparr>)) xs ys"

definition text_alike :: "string option \<Rightarrow> string option \<Rightarrow> bool" where
  "text_alike v w \<longleftrightarrow> v = w \<or> (truthy v \<and> truthy w)"

definition auth_alike :: "auth_config \<Rightarrow> auth_config \<Rightarrow> bool" where
  "auth_alike a b \<longleftrightarrow>
     text_alike (au_password a) (au_password b) \<and> text_alike (au_token a) (au_token b)
     \<and> text_alike (au_clientSecret a) (au_clientSecret b)
     \<and> text_alike (au_awsSecretAccessKey a) (au_awsSecretAccessKey b)
     \<and> text_alike (au_accessToken a) (au_accessToken b) \<and> text_alike (au_refreshToken a) (au_refreshToken b)
     \<and> text_alike (au_apiKeyValue a) (au_apiKeyValue b)
     \<and> b = a\<lparr>au_password := au_password b, au_token := au_token b, au_clientSecret := au_clientSecret b,
              au_awsSecretAccessKey := au_awsSecretAccessKey b, au_accessToken := au_accessToken b,
              au_refreshToken := au_refreshToken b, au_apiKeyValue := au_apiKeyValue b\<rparr>"

definition rest_alike :: "request_config \<Rightarrow> request_config \<Rightarrow> bool" where
  "rest_alike r s \<longleftrightarrow>
     headers_alike (rq_headers r) (rq_headers s) \<and> auth_alike (rq_auth r) (rq_auth s)
     \<and> s = r\<lparr>rq_headers := rq_headers s, rq_auth := rq_auth s\<rparr>"

lemma redact_headers_alike: "headers_alike xs ys \<Longrightarrow> redact_headers xs = redact_headers ys"
  unfolding headers_alike_def
proof (induction rule: list_all2_induct)
  case (Cons x xs y ys)
  then show ?case by (cases x; cases y) (auto simp: redact_headers_def)
qed simp

lemma blank_alike: "text_alike v w \<Longrightarrow> blank v = blank w"
  by (auto simp: text_alike_def blank_def)

lemma redact_auth_alike: "auth_alike a b \<Longrightarrow> redact_auth a = redact_auth b"
  by (cases a; cases b) (auto simp: auth_alike_def redact_auth_def dest!: blank_alike)

lemma blank_blank [simp]: "blank (blank v) = blank v"
  by (auto simp: blank_def redacted_def)

lemma redact_headers_twice [simp]: "redact_headers (redact_headers hs) = redact_headers hs"
  by (simp add: redact_headers_def)

lemma redact_auth_twice [simp]: "redact_auth (redact_auth a) = redact_auth a"
  by (simp add: redact_auth_def)

lemma redact_request_twice [simp]: "redact_request (redact_request q) = redact_request q"
  by (auto simp: redact_request_def option.map_comp comp_def split: protocol_request.splits)

lemma redact_twice [simp]: "redact_history_entry (redact_history_entry e) = redact_history_entry e"
  by (simp add: redact_history_entry_def option.map_comp comp_def)


text \<open>Two secrets of the credentials are not among the blanked fields.\<close>

lemma redaction_keeps_ntlm_password:
  "au_ntlmPassword (redact_auth a) = au_ntlmPassword a \<and> au_awsSessionToken (redact_auth a) = au_awsSessionToken a"
  by (simp add: redact_auth_def)

lemma sorted_newer: "sorted_wrt newer (stable_sort newer es)"
  by (rule sorted_stable_sort) (auto simp: newer_def)

lemma slice_to_nonneg: "0 \<le> limit \<Longrightarrow> slice_to limit xs = take (nat limit) xs"
  by (simp add: slice_to_def)

text \<open>
  Searching the history returns entries that contain the query (up to case), the newest first and
  at most as many as the limit; when fewer than the limit are returned, no entry that contains the query
  is missing, and otherwise every missing one is not newer than the returned ones.
\<close>

theorem search_history_newest:
  assumes "0 \<le> limit"
  shows "sorted_wrt newer (search_history entries query limit)
    \<and> int (length (search_history entries query limit)) \<le> limit
    \<and> set (search_history entries query limit)
        \<subseteq> {e \<in> set entries. str_includes (to_lower (trim query)) (history_haystack e)}
    \<and> (\<forall>e. e \<in> set entries \<and> str_includes (to_lower (trim query)) (history_haystack e)
         \<and> e \<notin> set (search_history entries query limit)
         \<longrightarrow> int (length (search_history entries query limit)) = limit
            \<and> (\<forall>x \<in> set (search_history entries query limit). newer x e))"
proof -
  let ?hits = "filter (\<lambda>e. str_includes (to_lower (trim query)) (history_haystack e)) (stable_sort newer entries)"
  have includes_empty: "str_includes [] s" for s by (cases s) auto
  have s: "search_history entries query limit = take (nat limit) ?hits"
    by (simp add: search_history_def Let_def slice_to_nonneg [OF assms] includes_empty)
  have o: "sorted_wrt newer ?hits" using sorted_newer by (rule sorted_wrt_filter)
  have split: "?hits = take (nat limit) ?hits @ drop (nat limit) ?hits" by simp
  have "sorted_wrt newer (take (nat limit) ?hits @ drop (nat limit) ?hits)" using o by simp
  then have sorted: "sorted_wrt newer (take (nat limit) ?hits)"
    "\<And>x e. x \<in> set (take (nat limit) ?hits) \<Longrightarrow> e \<in> set (drop (nat limit) ?hits) \<Longrightarrow> newer x e"
    unfolding sorted_wrt_append by blast+
  have sub: "set (take (nat limit) ?hits) \<subseteq> {e \<in> set entries. str_includes (to_lower (trim query)) (history_haystack e)}"
    using set_take_subset [of "nat limit" ?hits] by auto
  have rest: "int (length (take (nat limit) ?hits)) = limit
      \<and> (\<forall>x \<in> set (take (nat limit) ?hits). newer x e)"
    if e: "e \<in> set entries" "str_includes (to_lower (trim query)) (history_haystack e)" "e \<notin> set (take (nat limit) ?hits)" for e
  proof -
    from e(1,2) have "e \<in> set ?hits" by simp
    with e(3) split have d: "e \<in> set (drop (nat limit) ?hits)" by (metis Un_iff set_append)
    then have "nat limit < length ?hits" by (cases "nat limit < length ?hits") auto
    with assms d sorted(2) show ?thesis by auto
  qed
  show ?thesis unfolding s using sorted(1) sub rest assms by (intro conjI allI impI) auto
qed

section \<open>Concrete entries\<close>

definition sample_entry_of :: "string \<Rightarrow> string \<Rightarrow> int \<Rightarrow> stored_entry" where
  "sample_entry_of i secret t = \<lparr>he_id = i,
     he_request = RestRequest (empty_request\<lparr>rq_headers := [kv_on ''Authorization'' secret]\<rparr>),
     he_response = Some (sample_response 200 ''ok''), he_assertions = None, he_environmentId = None,
     he_requestId = None, he_collectionId = None, he_protocol = Some P_rest, he_requestMode = None,
     he_createdAt = t, he_pinned = None, he_label = None, se_draft = no_draft\<rparr>"


end
