(* ===== verification/Db_Table.thy ===== *)
theory Db_Table
  imports Js_String
begin

text \<open>
  The tables of the browser's database as packages/core/src/storage uses them through Dexie, which
  is not part of the repository. A table's state is the list of its rows in the order of their primary
  keys, which is what \<open>toArray\<close> returns. Writing and deleting one row are parameters (a \<open>table_api\<close>);
  what the code relies on is \<open>table_laws\<close>. The other methods are built from these two the
  way Dexie documents them: an index is read in the order of its keys and then of the primary keys.
\<close>

section \<open>Keys\<close>

text \<open>Index keys: a number comes before a text.\<close>

datatype db_key = Num_key int | Text_key string

fun db_key_less :: "db_key \<Rightarrow> db_key \<Rightarrow> bool" where
  "db_key_less (Num_key a) (Num_key b) = (a < b)"
| "db_key_less (Num_key a) (Text_key s) = True"
| "db_key_less (Text_key s) (Num_key a) = False"
| "db_key_less (Text_key s) (Text_key t) = (s < t)"

instantiation db_key :: linorder
begin

definition less_db_key :: "db_key \<Rightarrow> db_key \<Rightarrow> bool" where
  "less_db_key a b = db_key_less a b"

definition less_eq_db_key :: "db_key \<Rightarrow> db_key \<Rightarrow> bool" where
  "less_eq_db_key a b = (db_key_less a b \<or> a = b)"

instance
proof
  fix a b c :: db_key
  have asym: "db_key_less a b \<Longrightarrow> \<not> db_key_less b a" for a b
    by (cases a; cases b) auto
  have total: "db_key_less a b \<or> a = b \<or> db_key_less b a" for a b
    by (cases a; cases b) auto
  have trans: "db_key_less a b \<Longrightarrow> db_key_less b c \<Longrightarrow> db_key_less a c" for a b c
    by (cases a; cases b; cases c) auto
  show "a < b \<longleftrightarrow> a \<le> b \<and> \<not> b \<le> a" using asym by (auto simp: less_db_key_def less_eq_db_key_def)
  show "a \<le> a" by (simp add: less_eq_db_key_def)
  show "a \<le> b \<Longrightarrow> b \<le> c \<Longrightarrow> a \<le> c" using trans by (auto simp: less_eq_db_key_def)
  show "a \<le> b \<Longrightarrow> b \<le> a \<Longrightarrow> a = b" using asym by (auto simp: less_eq_db_key_def)
  show "a \<le> b \<or> b \<le> a" using total by (auto simp: less_eq_db_key_def)
qed

end

lemma db_key_le [simp]:
  "Num_key a \<le> Num_key b \<longleftrightarrow> a \<le> b" "Num_key a < Num_key b \<longleftrightarrow> a < b"
  "Text_key s \<le> Text_key t \<longleftrightarrow> s \<le> t" "Text_key s < Text_key t \<longleftrightarrow> s < t"
  by (auto simp: less_eq_db_key_def less_db_key_def)

section \<open>Tables\<close>

record 'v table_api =
  ta_put :: "'v \<Rightarrow> 'v list \<Rightarrow> 'v list"
  ta_delete :: "string \<Rightarrow> 'v list \<Rightarrow> 'v list"

definition table_ok :: "('v \<Rightarrow> string) \<Rightarrow> 'v list \<Rightarrow> bool" where
  "table_ok key t \<longleftrightarrow> sorted (map key t) \<and> distinct (map key t)"

text \<open>
  \<open>put\<close> adds a row or replaces the row with its primary key, \<open>delete\<close> removes the row with a key if
  there is one; both leave every other row.
\<close>

definition table_laws :: "('v \<Rightarrow> string) \<Rightarrow> 'v table_api \<Rightarrow> bool" where
  "table_laws key a \<longleftrightarrow>
     (\<forall>t v. table_ok key t \<longrightarrow>
        table_ok key (ta_put a v t) \<and> set (ta_put a v t) = insert v {x \<in> set t. key x \<noteq> key v})
     \<and> (\<forall>t k. table_ok key t \<longrightarrow> ta_delete a k t = filter (\<lambda>x. key x \<noteq> k) t)"

section \<open>The methods\<close>

definition get_row :: "('v \<Rightarrow> string) \<Rightarrow> string \<Rightarrow> 'v list \<Rightarrow> 'v option" where
  "get_row key k t = find (\<lambda>x. key x = k) t"

text \<open>\<open>add\<close> fails with a \<open>ConstraintError\<close> when the key is taken.\<close>

definition add_row :: "('v \<Rightarrow> string) \<Rightarrow> 'v table_api \<Rightarrow> 'v \<Rightarrow> 'v list \<Rightarrow> 'v list option" where
  "add_row key a v t = (if get_row key (key v) t = None then Some (ta_put a v t) else None)"

definition bulk_put :: "'v table_api \<Rightarrow> 'v list \<Rightarrow> 'v list \<Rightarrow> 'v list" where
  "bulk_put a vs t = fold (ta_put a) vs t"

definition bulk_delete :: "'v table_api \<Rightarrow> string list \<Rightarrow> 'v list \<Rightarrow> 'v list" where
  "bulk_delete a ks t = fold (ta_delete a) ks t"

text \<open>\<open>where(...).delete()\<close>, \<open>filter(...).delete()\<close> and \<open>where(...).modify(...)\<close>.\<close>

definition delete_where :: "('v \<Rightarrow> string) \<Rightarrow> 'v table_api \<Rightarrow> ('v \<Rightarrow> bool) \<Rightarrow> 'v list \<Rightarrow> 'v list" where
  "delete_where key a P t = bulk_delete a (map key (filter P t)) t"

definition modify_where :: "'v table_api \<Rightarrow> ('v \<Rightarrow> bool) \<Rightarrow> ('v \<Rightarrow> 'v) \<Rightarrow> 'v list \<Rightarrow> 'v list" where
  "modify_where a P f t = bulk_put a (map f (filter P t)) t"

definition order_by :: "('v \<Rightarrow> db_key) \<Rightarrow> 'v list \<Rightarrow> 'v list" where
  "order_by f t = sort_key f t"

section \<open>Consequences of the laws\<close>

lemma put_laws:
  assumes "table_laws key a" and "table_ok key t"
  shows "table_ok key (ta_put a v t)" and "set (ta_put a v t) = insert v {x \<in> set t. key x \<noteq> key v}"
  using assms unfolding table_laws_def by blast+

lemma delete_law:
  assumes "table_laws key a" and "table_ok key t"
  shows "ta_delete a k t = filter (\<lambda>x. key x \<noteq> k) t"
  using assms unfolding table_laws_def by blast

lemma table_ok_filter [intro]: "table_ok key t \<Longrightarrow> table_ok key (filter P t)"
proof -
  assume "table_ok key t"
  then have "sorted (map key t)" "distinct (map key t)" by (auto simp: table_ok_def)
  then show ?thesis by (simp add: table_ok_def sorted_filter distinct_map_filter)
qed

lemma table_key_unique:
  "table_ok key t \<Longrightarrow> x \<in> set t \<Longrightarrow> y \<in> set t \<Longrightarrow> key x = key y \<Longrightarrow> x = y"
  by (auto simp: table_ok_def distinct_map dest: inj_onD)

lemma bulk_delete_filter:
  assumes "table_laws key a" and "table_ok key t"
  shows "bulk_delete a ks t = filter (\<lambda>x. key x \<notin> set ks) t"
  using assms(2)
proof (induction ks arbitrary: t)
  case Nil
  then show ?case by (simp add: bulk_delete_def)
next
  case (Cons k ks)
  have "bulk_delete a (k # ks) t = bulk_delete a ks (filter (\<lambda>x. key x \<noteq> k) t)"
    by (simp add: bulk_delete_def delete_law [OF assms(1) Cons.prems])
  also have "\<dots> = filter (\<lambda>x. key x \<notin> set ks) (filter (\<lambda>x. key x \<noteq> k) t)"
    by (rule Cons.IH) (rule table_ok_filter [OF Cons.prems])
  also have "\<dots> = filter (\<lambda>x. key x \<notin> set (k # ks)) t" by (auto intro: filter_cong)
  finally show ?case .
qed

lemma delete_where_filter:
  assumes "table_laws key a" and "table_ok key t"
  shows "delete_where key a P t = filter (\<lambda>x. \<not> P x) t"
proof -
  have "key x \<notin> set (map key (filter P t)) \<longleftrightarrow> \<not> P x" if "x \<in> set t" for x
    using table_key_unique [OF assms(2) that] that by auto
  then show ?thesis
    unfolding delete_where_def bulk_delete_filter [OF assms] by (intro filter_cong) auto
qed

lemma bulk_put_ok:
  assumes "table_laws key a" and "table_ok key t"
  shows "table_ok key (bulk_put a vs t)"
  using assms(2)
proof (induction vs arbitrary: t)
  case Nil
  then show ?case by (simp add: bulk_put_def)
next
  case (Cons v vs)
  from Cons.IH [OF put_laws(1) [OF assms(1) Cons.prems, of v]] show ?case by (simp add: bulk_put_def)
qed

lemma bulk_put_rows:
  assumes "table_laws key a" and "table_ok key t" and "distinct (map key vs)"
  shows "set (bulk_put a vs t) = set vs \<union> {x \<in> set t. key x \<notin> key ` set vs}"
  using assms(2,3)
proof (induction vs arbitrary: t)
  case Nil
  then show ?case by (simp add: bulk_put_def)
next
  case (Cons v vs)
  have "set (bulk_put a (v # vs) t) = set (bulk_put a vs (ta_put a v t))" by (simp add: bulk_put_def)
  also have "\<dots> = set vs \<union> {x \<in> set (ta_put a v t). key x \<notin> key ` set vs}"
    using Cons put_laws(1) [OF assms(1) Cons.prems(1)] by simp
  also have "\<dots> = set (v # vs) \<union> {x \<in> set t. key x \<notin> key ` set (v # vs)}"
    using Cons.prems(2) by (auto simp: put_laws(2) [OF assms(1) Cons.prems(1)])
  finally show ?case .
qed

text \<open>Rows in the order of their keys are determined by their set.\<close>

lemma table_ok_set_eq: "table_ok key t \<Longrightarrow> table_ok key u \<Longrightarrow> set t = set u \<Longrightarrow> t = u"
proof -
  assume ok: "table_ok key t" "table_ok key u" and s: "set t = set u"
  have "map key t = map key u"
    by (rule sorted_distinct_set_unique) (use ok s in \<open>auto simp: table_ok_def\<close>)
  moreover have "inj_on key (set t \<union> set u)" using ok(1) s by (simp add: table_ok_def distinct_map)
  ultimately show ?thesis by (rule map_inj_on)
qed

lemma modify_where_map:
  assumes "table_laws key a" and "table_ok key t" and "\<And>x. key (f x) = key x"
  shows "modify_where a P f t = map (\<lambda>x. if P x then f x else x) t"
proof (rule table_ok_set_eq)
  show "table_ok key (modify_where a P f t)"
    unfolding modify_where_def by (rule bulk_put_ok [OF assms(1,2)])
  have k: "map key (map (\<lambda>x. if P x then f x else x) t) = map key t" using assms(3) by simp
  show "table_ok key (map (\<lambda>x. if P x then f x else x) t)"
    using assms(2) unfolding table_ok_def k .
  have d: "distinct (map key (map f (filter P t)))"
    using assms(2,3) by (simp add: table_ok_def comp_def distinct_map_filter)
  have "x \<in> set t \<Longrightarrow> key x \<notin> key ` set (map f (filter P t)) \<longleftrightarrow> \<not> P x" for x
    using table_key_unique [OF assms(2)] assms(3) by (auto simp: image_iff)
  then show "set (modify_where a P f t) = set (map (\<lambda>x. if P x then f x else x) t)"
    unfolding modify_where_def bulk_put_rows [OF assms(1,2) d] by auto
qed

lemma get_row_Some:
  assumes "table_ok key t"
  shows "get_row key k t = Some x \<longleftrightarrow> x \<in> set t \<and> key x = k"
proof
  assume "get_row key k t = Some x"
  then show "x \<in> set t \<and> key x = k" by (auto simp: get_row_def dest: find_Some_in)
next
  assume x: "x \<in> set t \<and> key x = k"
  then have "get_row key k t \<noteq> None" by (auto simp: get_row_def find_None_iff)
  then obtain y where y: "get_row key k t = Some y" by auto
  then have "y \<in> set t \<and> key y = k" by (auto simp: get_row_def dest: find_Some_in)
  with x y table_key_unique [OF assms] show "get_row key k t = Some x" by metis
qed

lemma get_row_put:
  assumes "table_laws key a" and "table_ok key t"
  shows "get_row key k (ta_put a v t) = (if k = key v then Some v else get_row key k t)"
proof -
  note p = put_laws [OF assms, of v]
  have "get_row key k (ta_put a v t) = Some x \<longleftrightarrow> (if k = key v then Some v else get_row key k t) = Some x" for x
    by (auto simp: get_row_Some [OF p(1)] get_row_Some [OF assms(2)] p(2))
  then show ?thesis by (metis not_Some_eq)
qed

section \<open>A table that satisfies the laws\<close>

definition list_table :: "('v \<Rightarrow> string) \<Rightarrow> 'v table_api" where
  "list_table key =
     \<lparr>ta_put = (\<lambda>v t. insort_key key v (filter (\<lambda>x. key x \<noteq> key v) t)),
      ta_delete = (\<lambda>k t. filter (\<lambda>x. key x \<noteq> k) t)\<rparr>"

lemma list_table_laws: "table_laws key (list_table key)"
  unfolding table_laws_def
proof (intro conjI allI impI)
  fix t and v :: 'a
  assume ok: "table_ok key t"
  then have f: "table_ok key (filter (\<lambda>x. key x \<noteq> key v) t)" by (rule table_ok_filter)
  then show "table_ok key (ta_put (list_table key) v t)"
    by (auto simp: list_table_def table_ok_def sorted_insort_key distinct_map distinct_insort set_insort_key inj_on_def)
  show "set (ta_put (list_table key) v t) = insert v {x \<in> set t. key x \<noteq> key v}"
    by (simp add: list_table_def set_insort_key)
next
  fix t :: "'a list" and k
  show "ta_delete (list_table key) k t = filter (\<lambda>x. key x \<noteq> k) t" by (simp add: list_table_def)
qed

end
