(* ===== verification/Migrations.thy ===== *)
theory Migrations
  imports Flow_Check_Facts History Db_Table
begin

text \<open>
  packages/core/src/storage/migrations.ts: network options move from the stored requests to the defaults
  of the protocols; and the removal of duplicate cookies of storage/db.ts (version 7). An option that
  a request has is \<open>Some\<close>.
\<close>

section \<open>Requests\<close>

definition has_moved_network_options :: "request_options option \<Rightarrow> bool" where
  "has_moved_network_options opts \<longleftrightarrow>
     (case opts of None \<Rightarrow> False
      | Some ro \<Rightarrow> ro_followRedirects ro \<noteq> None \<or> ro_maxRedirects ro \<noteq> None \<or> ro_verifySsl ro \<noteq> None
          \<or> ro_allowPrivateAddresses ro \<noteq> None \<or> ro_connectTimeoutMs ro \<noteq> None \<or> ro_readTimeoutMs ro \<noteq> None
          \<or> ro_proxy ro \<noteq> None \<or> ro_tlsClientConfig ro \<noteq> None)"

definition request_options_of :: "protocol_request \<Rightarrow> request_options option" where
  "request_options_of q =
     (case q of RestRequest r \<Rightarrow> rq_options r | GraphQLRequest r \<Rightarrow> gq_options r
      | WebSocketRequest r \<Rightarrow> wq_options r | GrpcRequest r \<Rightarrow> rg_options r)"

definition set_request_options :: "request_options option \<Rightarrow> protocol_request \<Rightarrow> protocol_request" where
  "set_request_options v q =
     (case q of RestRequest r \<Rightarrow> RestRequest (r\<lparr>rq_options := v\<rparr>) | GraphQLRequest r \<Rightarrow> GraphQLRequest (r\<lparr>gq_options := v\<rparr>)
      | WebSocketRequest r \<Rightarrow> WebSocketRequest (r\<lparr>wq_options := v\<rparr>) | GrpcRequest r \<Rightarrow> GrpcRequest (r\<lparr>rg_options := v\<rparr>))"

text \<open>The cleaned request, and whether it changed.\<close>

definition strip_request_network_options :: "protocol_request \<Rightarrow> protocol_request \<times> bool" where
  "strip_request_network_options q =
     (if \<not> has_moved_network_options (request_options_of q) then (q, False)
      else (set_request_options (Some (strip_network_options (request_options_of q))) q, True))"

definition strip_protocol_request :: "protocol_request \<Rightarrow> protocol_request" where
  "strip_protocol_request q = fst (strip_request_network_options q)"

definition strip_saved_request :: "saved_request \<Rightarrow> saved_request" where
  "strip_saved_request s =
     (let cleaned = strip_request_network_options (sr_request s) in
      if \<not> snd cleaned then s else s\<lparr>sr_request := fst cleaned\<rparr>)"

definition strip_history_entry :: "'a history_entry_scheme \<Rightarrow> 'a history_entry_scheme" where
  "strip_history_entry e =
     (let cleaned = strip_request_network_options (he_request e) in
      if snd cleaned then e\<lparr>he_request := fst cleaned\<rparr> else e)"

section \<open>Flows\<close>

definition strip_step_request :: "request_config \<Rightarrow> request_config \<times> bool" where
  "strip_step_request r =
     (if \<not> has_moved_network_options (rq_options r) then (r, False)
      else (r\<lparr>rq_options := Some (strip_network_options (rq_options r))\<rparr>, True))"

fun strip_flow_step :: "flow_step \<Rightarrow> flow_step \<times> bool" and strip_flow_steps :: "flow_step list \<Rightarrow> flow_step list \<times> bool"
where
  "strip_flow_step (RequestStep sid n r cont k) =
     (let cleaned = strip_step_request r in
      if snd cleaned then (RequestStep sid n (fst cleaned) cont k, True) else (RequestStep sid n r cont k, False))"
| "strip_flow_step (DelayStep sid n d) = (DelayStep sid n d, False)"
| "strip_flow_step (ConditionStep sid n c ts es) =
     (let then_steps = strip_flow_steps ts;
          else_steps = (case es of None \<Rightarrow> (None, False)
                        | Some ss \<Rightarrow> let z = strip_flow_steps ss in (Some (fst z), snd z)) in
      if \<not> snd then_steps \<and> \<not> snd else_steps then (ConditionStep sid n c ts es, False)
      else (ConditionStep sid n c (fst then_steps) (fst else_steps), True))"
| "strip_flow_step (LoopStep sid n rounds c m ss most) =
     (let cleaned = strip_flow_steps ss in
      if snd cleaned then (LoopStep sid n rounds c m (fst cleaned) most, True)
      else (LoopStep sid n rounds c m ss most, False))"
| "strip_flow_steps [] = ([], False)"
| "strip_flow_steps (s # ss) =
     (let z = strip_flow_step s; zs = strip_flow_steps ss in (fst z # fst zs, snd z \<or> snd zs))"

definition strip_flow :: "flow \<Rightarrow> flow" where
  "strip_flow fw =
     (let cleaned = strip_flow_steps (fw_steps fw) in
      if snd cleaned then fw\<lparr>fw_steps := fst cleaned\<rparr> else fw)"

section \<open>The migration\<close>

text \<open>Rows are read once and the changed ones written back.\<close>

definition rewrite_changed :: "'v table_api \<Rightarrow> ('v \<Rightarrow> 'v) \<Rightarrow> 'v list \<Rightarrow> 'v list" where
  "rewrite_changed a f t = fold (\<lambda>v u. if f v \<noteq> v then ta_put a (f v) u else u) t t"

text \<open>Version 7: of the cookies with the same domain, path and name only the first row stays.\<close>

definition cookie_text :: "stored_cookie \<Rightarrow> string" where
  "cookie_text c = ck_domain c @ [CHR 0x00] @ ck_path c @ [CHR 0x00] @ ck_name c"

fun duplicate_cookies :: "string list \<Rightarrow> stored_cookie list \<Rightarrow> string list" where
  "duplicate_cookies seen [] = []"
| "duplicate_cookies seen (c # cs) =
     (if cookie_text c \<in> set seen then ck_id c # duplicate_cookies seen cs
      else duplicate_cookies (set_add (cookie_text c) seen) cs)"

definition dedupe_cookies :: "stored_cookie table_api \<Rightarrow> stored_cookie list \<Rightarrow> stored_cookie list" where
  "dedupe_cookies a t = bulk_delete a (duplicate_cookies [] t) t"

section \<open>Lemmas\<close>

lemma stripped_has_none [simp]: "\<not> has_moved_network_options (Some (strip_network_options v))"
  by (auto simp: has_moved_network_options_def strip_network_options_def options_empty_def split: option.splits)

lemma request_options_set [simp]: "request_options_of (set_request_options v q) = v"
  by (simp add: request_options_of_def set_request_options_def split: protocol_request.splits)

lemma strip_protocol_request_clean [simp]:
  "\<not> has_moved_network_options (request_options_of (strip_protocol_request q))"
  by (simp add: strip_protocol_request_def strip_request_network_options_def)

lemma strip_request_changed:
  "snd (strip_request_network_options q) \<longleftrightarrow> has_moved_network_options (request_options_of q)"
  by (simp add: strip_request_network_options_def)

lemma strip_protocol_request_id:
  "\<not> has_moved_network_options (request_options_of q) \<Longrightarrow> strip_protocol_request q = q"
  by (simp add: strip_protocol_request_def strip_request_network_options_def)

lemma strip_saved_request_simps [simp]:
  "sr_id (strip_saved_request s) = sr_id s" "sr_request (strip_saved_request s) = strip_protocol_request (sr_request s)"
  by (auto simp: strip_saved_request_def Let_def strip_protocol_request_def strip_request_network_options_def)

lemma strip_saved_request_id:
  "\<not> has_moved_network_options (request_options_of (sr_request s)) \<Longrightarrow> strip_saved_request s = s"
  by (simp add: strip_saved_request_def strip_request_network_options_def)

lemma strip_history_entry_simps [simp]:
  "he_id (strip_history_entry e) = he_id e"
  "he_request (strip_history_entry e) = strip_protocol_request (he_request e)"
  by (auto simp: strip_history_entry_def Let_def strip_protocol_request_def strip_request_network_options_def)

lemma strip_history_entry_id:
  "\<not> has_moved_network_options (request_options_of (he_request e)) \<Longrightarrow> strip_history_entry e = e"
  by (simp add: strip_history_entry_def strip_request_network_options_def)

text \<open>The requests of a flow's steps.\<close>

fun step_requests :: "flow_step \<Rightarrow> request_config list" and steps_requests :: "flow_step list \<Rightarrow> request_config list"
where
  "step_requests (RequestStep sid n r cont k) = [r]"
| "step_requests (DelayStep sid n d) = []"
| "step_requests (ConditionStep sid n c ts es) =
     steps_requests ts @ (case es of None \<Rightarrow> [] | Some ss \<Rightarrow> steps_requests ss)"
| "step_requests (LoopStep sid n rounds c m ss most) = steps_requests ss"
| "steps_requests [] = []"
| "steps_requests (s # ss) = step_requests s @ steps_requests ss"

definition strip_config :: "request_config \<Rightarrow> request_config" where
  "strip_config r = fst (strip_step_request r)"

lemma strip_steps_same:
  "\<not> snd (strip_flow_step s) \<Longrightarrow> fst (strip_flow_step s) = s"
  "\<not> snd (strip_flow_steps ss) \<Longrightarrow> fst (strip_flow_steps ss) = ss"
  by (induction s and ss rule: strip_flow_step_strip_flow_steps.induct)
    (auto simp: Let_def split: option.splits if_splits)

lemma strip_steps_requests:
  "step_requests (fst (strip_flow_step s)) = map strip_config (step_requests s)"
  "steps_requests (fst (strip_flow_steps ss)) = map strip_config (steps_requests ss)"
proof (induction s and ss rule: strip_flow_step_strip_flow_steps.induct)
  case (3 sid n c ts es)
  show ?case
  proof (cases es)
    case None
    with 3 strip_steps_same(2) [of ts] show ?thesis by (auto simp: Let_def)
  next
    case (Some us)
    with 3(2) have "steps_requests (fst (strip_flow_steps us)) = map strip_config (steps_requests us)"
      by (cases "strip_flow_steps ts") auto
    with 3(1) Some strip_steps_same(2) [of ts] strip_steps_same(2) [of us] show ?thesis by (auto simp: Let_def)
  qed
next
  case (4 sid n rounds c m ss most)
  with strip_steps_same(2) [of ss] show ?case by (auto simp: Let_def)
qed (auto simp: Let_def strip_config_def strip_step_request_def)

lemma strip_steps_changed:
  "snd (strip_flow_step s) \<longleftrightarrow> (\<exists>r \<in> set (step_requests s). has_moved_network_options (rq_options r))"
  "snd (strip_flow_steps ss) \<longleftrightarrow> (\<exists>r \<in> set (steps_requests ss). has_moved_network_options (rq_options r))"
  by (induction s and ss rule: strip_flow_step_strip_flow_steps.induct)
    (auto simp: Let_def strip_step_request_def split: option.splits)

lemma strip_config_clean [simp]: "\<not> has_moved_network_options (rq_options (strip_config r))"
  by (simp add: strip_config_def strip_step_request_def)

lemma strip_flow_simps [simp]:
  "fw_id (strip_flow fw) = fw_id fw" "fw_steps (strip_flow fw) = fst (strip_flow_steps (fw_steps fw))"
  using strip_steps_same(2) [of "fw_steps fw"] by (auto simp: strip_flow_def Let_def)

definition flow_clean :: "flow \<Rightarrow> bool" where
  "flow_clean fw \<longleftrightarrow> (\<forall>r \<in> set (steps_requests (fw_steps fw)). \<not> has_moved_network_options (rq_options r))"

lemma strip_flow_clean [simp]: "flow_clean (strip_flow fw)"
  by (simp add: flow_clean_def strip_steps_requests)

lemma strip_flow_id: "flow_clean fw \<Longrightarrow> strip_flow fw = fw"
  using strip_steps_changed(2) [of "fw_steps fw"] by (auto simp: flow_clean_def strip_flow_def Let_def)

text \<open>Writing the changed rows back is mapping the table.\<close>

lemma rewrite_changed_map:
  assumes laws: "table_laws key a" and ok: "table_ok key t" and key: "\<And>v. key (f v) = key v"
  shows "rewrite_changed a f t = map f t"
proof -
  have "table_ok key u \<Longrightarrow> table_ok key vs \<Longrightarrow> set vs \<subseteq> set u \<Longrightarrow>
      table_ok key (fold (\<lambda>v u. if f v \<noteq> v then ta_put a (f v) u else u) vs u)
      \<and> set (fold (\<lambda>v u. if f v \<noteq> v then ta_put a (f v) u else u) vs u)
          = f ` set vs \<union> (set u - set vs)" for vs u
  proof (induction vs arbitrary: u)
    case (Cons v vs)
    let ?u = "if f v \<noteq> v then ta_put a (f v) u else u"
    have v: "v \<in> set u" "v \<notin> set vs" using Cons.prems by (auto simp: table_ok_def)
    have u: "set ?u = insert (f v) (set u - {v})"
      using v table_key_unique [OF Cons.prems(1)] by (auto simp: put_laws(2) [OF laws Cons.prems(1)] key)
    have uok: "table_ok key ?u" using Cons.prems(1) put_laws(1) [OF laws] by auto
    have vsok: "table_ok key vs" using Cons.prems(2) by (simp add: table_ok_def)
    have "set vs \<subseteq> set ?u" using Cons.prems(3) v(2) unfolding u by auto
    note ih = Cons.IH [OF uok vsok this]
    have fv: "f v \<notin> set vs"
      using Cons.prems(2) key [of v] by (auto simp: table_ok_def) (metis image_eqI)
    have "f ` set vs \<union> (set ?u - set vs) = f ` set (v # vs) \<union> (set u - set (v # vs))"
      unfolding u using fv by auto
    with ih show ?case by simp
  qed simp
  from this [OF ok ok] have "table_ok key (rewrite_changed a f t)" "set (rewrite_changed a f t) = set (map f t)"
    by (simp_all add: rewrite_changed_def)
  moreover have "map key (map f t) = map key t" using key by simp
  with ok have "table_ok key (map f t)" unfolding table_ok_def by metis
  ultimately show ?thesis by (intro table_ok_set_eq) auto
qed

section \<open>Duplicate cookies\<close>

lemma duplicate_ids: "set (duplicate_cookies seen cs) \<subseteq> ck_id ` set cs"
  by (induction seen cs rule: duplicate_cookies.induct) auto

lemma kept_cookies:
  assumes "distinct (map ck_id cs)"
  shows "distinct (map cookie_text (filter (\<lambda>c. ck_id c \<notin> set (duplicate_cookies seen cs)) cs))
    \<and> cookie_text ` set (filter (\<lambda>c. ck_id c \<notin> set (duplicate_cookies seen cs)) cs) = cookie_text ` set cs - set seen"
  using assms
proof (induction seen cs rule: duplicate_cookies.induct)
  case (2 seen c cs)
  have new: "ck_id c \<notin> set (duplicate_cookies s cs)" for s
    using duplicate_ids [of s cs] 2(3) by auto
  have c: "ck_id d \<noteq> ck_id c" if "d \<in> set cs" for d using 2(3) that by (auto simp: image_iff)
  show ?case
  proof (cases "cookie_text c \<in> set seen")
    case True
    have "filter (\<lambda>d. ck_id d \<notin> set (duplicate_cookies seen (c # cs))) (c # cs)
        = filter (\<lambda>d. ck_id d \<notin> set (duplicate_cookies seen cs)) cs"
      using True c by (auto intro: filter_cong)
    with 2(1) [OF True] 2(3) True show ?thesis by auto
  next
    case False
    have "filter (\<lambda>d. ck_id d \<notin> set (duplicate_cookies seen (c # cs))) (c # cs)
        = c # filter (\<lambda>d. ck_id d \<notin> set (duplicate_cookies (set_add (cookie_text c) seen) cs)) cs"
      using False new by simp
    with 2(2) [OF False] 2(3) False show ?thesis by auto
  qed
qed simp

definition cookie_identity :: "stored_cookie \<Rightarrow> string \<times> string \<times> string" where
  "cookie_identity c = (ck_domain c, ck_path c, ck_name c)"

text \<open>
  Opening an older database removes the duplicate cookies: afterwards no two rows have the same
  domain, path and name, which is what the unique index of the next version needs, no row has
  changed, and every text of domain, path and name that was there still is.
\<close>

theorem dedupe_makes_unique:
  assumes "table_laws ck_id a" and "table_ok ck_id t"
  shows "distinct (map cookie_identity (dedupe_cookies a t))
    \<and> set (dedupe_cookies a t) \<subseteq> set t
    \<and> cookie_text ` set (dedupe_cookies a t) = cookie_text ` set t"
proof -
  have d: "dedupe_cookies a t = filter (\<lambda>c. ck_id c \<notin> set (duplicate_cookies [] t)) t"
    unfolding dedupe_cookies_def by (rule bulk_delete_filter [OF assms])
  have ids: "distinct (map ck_id t)" using assms(2) by (simp add: table_ok_def)
  have "distinct (map cookie_text (dedupe_cookies a t))" and t: "cookie_text ` set (dedupe_cookies a t) = cookie_text ` set t"
    using kept_cookies [OF ids, of "[]"] unfolding d by simp_all
  moreover have "cookie_text x = cookie_text y" if "cookie_identity x = cookie_identity y" for x y
    using that by (simp add: cookie_text_def cookie_identity_def)
  ultimately have "distinct (map cookie_identity (dedupe_cookies a t))"
    unfolding distinct_map inj_on_def by blast
  then show ?thesis using t by (auto simp: d)
qed

definition doubled_cookie :: "string \<Rightarrow> string \<Rightarrow> stored_cookie" where
  "doubled_cookie i v = \<lparr>ck_id = i, ck_domain = ''a.b'', ck_path = ''/'', ck_name = ''n'', ck_value = v, ck_secure = False,
     ck_httpOnly = False, ck_sameSite = None, ck_expires = None, ck_createdAt = 0, ck_updatedAt = 0\<rparr>"

end
