(* ===== verification/Storage.thy ===== *)
theory Storage
  imports Migrations
begin

text \<open>
  packages/core/src/storage: collections, folders, requests, environments, flows, history, cookies, the
  table of settings and the workspace, as operations on the tables of the database. Reading and
  writing a table are those of \<open>Db_Table\<close>; identifiers and the clock come from the runtime. An
  operation that may reject returns the error beside the state it leaves.
\<close>

section \<open>The database\<close>

record response_example =
  rx_id :: string
  rx_name :: string
  rx_requestId :: "string option"
  rx_status :: int
  rx_headers :: "key_value list"
  rx_body :: string
  rx_createdAt :: int

record ignore_rule =
  ig_id :: string
  ig_path :: string

record protocol_defaults =
  pd_rest :: request_options
  pd_graphql :: request_options
  pd_websocket :: request_options
  pd_grpc :: request_options

text \<open>The values of the table \<open>meta\<close>: each key always has values of one kind.\<close>

datatype meta_value =
    Meta_text string
  | Meta_number int
  | Meta_retention retention_settings
  | Meta_defaults protocol_defaults
  | Meta_examples "response_example list"
  | Meta_rules "ignore_rule list"
  | Meta_schema json

record meta_row =
  me_key :: string
  me_value :: meta_value

record store =
  st_collections :: "collection list"
  st_folders :: "folder list"
  st_requests :: "saved_request list"
  st_environments :: "environment list"
  st_history :: "stored_entry list"
  st_flows :: "flow list"
  st_meta :: "meta_row list"
  st_cookies :: "stored_cookie list"

record storage_api =
  pa_collections :: "collection table_api"
  pa_folders :: "folder table_api"
  pa_requests :: "saved_request table_api"
  pa_environments :: "environment table_api"
  pa_history :: "stored_entry table_api"
  pa_flows :: "flow table_api"
  pa_meta :: "meta_row table_api"
  pa_cookies :: "stored_cookie table_api"

definition store_empty :: store where
  "store_empty = \<lparr>st_collections = [], st_folders = [], st_requests = [], st_environments = [],
     st_history = [], st_flows = [], st_meta = [], st_cookies = []\<rparr>"

definition store_ok :: "store \<Rightarrow> bool" where
  "store_ok s \<longleftrightarrow> table_ok co_id (st_collections s) \<and> table_ok fo_id (st_folders s) \<and> table_ok sr_id (st_requests s)
     \<and> table_ok en_id (st_environments s) \<and> table_ok he_id (st_history s) \<and> table_ok fw_id (st_flows s)
     \<and> table_ok me_key (st_meta s) \<and> table_ok ck_id (st_cookies s)"

definition storage_laws :: "storage_api \<Rightarrow> bool" where
  "storage_laws d \<longleftrightarrow> table_laws co_id (pa_collections d) \<and> table_laws fo_id (pa_folders d)
     \<and> table_laws sr_id (pa_requests d) \<and> table_laws en_id (pa_environments d)
     \<and> table_laws he_id (pa_history d) \<and> table_laws fw_id (pa_flows d) \<and> table_laws me_key (pa_meta d)
     \<and> table_laws ck_id (pa_cookies d)"

definition constraint_error :: js_error where
  "constraint_error = \<lparr>err_name = ''ConstraintError'', err_message = ''Key already exists in the object store.''\<rparr>"

text \<open>\<open>a ?? b ?? id()\<close>: an identifier is drawn only when none is given.\<close>

definition given_id :: "string option \<Rightarrow> runtime \<Rightarrow> string \<times> runtime" where
  "given_id v rt = (case v of Some i \<Rightarrow> (i, rt) | None \<Rightarrow> draw_uuid rt)"

section \<open>Settings\<close>

definition get_meta :: "string \<Rightarrow> store \<Rightarrow> meta_value option" where
  "get_meta k s = map_option me_value (get_row me_key k (st_meta s))"

text \<open>\<open>clonePlain(undefined)\<close> is \<open>JSON.parse(undefined)\<close>, which raises.\<close>

definition set_meta :: "host \<Rightarrow> storage_api \<Rightarrow> string \<Rightarrow> meta_value option \<Rightarrow> store \<Rightarrow> (js_error + unit) \<times> store" where
  "set_meta h d k v s =
     (case v of
        None \<Rightarrow> (Inl (syntax_error h ''undefined''), s)
      | Some x \<Rightarrow> (Inr (), s\<lparr>st_meta := ta_put (pa_meta d) \<lparr>me_key = k, me_value = x\<rparr> (st_meta s)\<rparr>))"

definition schema_cache_key :: "string \<Rightarrow> string" where
  "schema_cache_key endpoint = ''graphql-schema:'' @ trim endpoint"

definition get_graphql_schema :: "string \<Rightarrow> store \<Rightarrow> json option" where
  "get_graphql_schema endpoint s =
     (case get_meta (schema_cache_key endpoint) s of Some (Meta_schema j) \<Rightarrow> Some j | _ \<Rightarrow> None)"

definition save_graphql_schema ::
  "host \<Rightarrow> storage_api \<Rightarrow> string \<Rightarrow> json \<Rightarrow> store \<Rightarrow> (js_error + unit) \<times> store" where
  "save_graphql_schema h d endpoint schema s = set_meta h d (schema_cache_key endpoint) (Some (Meta_schema schema)) s"

definition get_retention_settings :: "store \<Rightarrow> retention_settings option" where
  "get_retention_settings s = (case get_meta ''retentionSettings'' s of Some (Meta_retention r) \<Rightarrow> Some r | _ \<Rightarrow> None)"

definition set_retention_settings ::
  "host \<Rightarrow> storage_api \<Rightarrow> retention_settings \<Rightarrow> store \<Rightarrow> (js_error + unit) \<times> store" where
  "set_retention_settings h d r s = set_meta h d ''retentionSettings'' (Some (Meta_retention r)) s"

definition merge_protocol_defaults :: "request_options \<Rightarrow> request_options option \<Rightarrow> request_options" where
  "merge_protocol_defaults initial stored = merge_with_defaults stored initial"

record stored_defaults =
  sd_rest :: "request_options option"
  sd_graphql :: "request_options option"
  sd_websocket :: "request_options option"
  sd_grpc :: "request_options option"

definition defaults_given :: "protocol_defaults \<Rightarrow> stored_defaults" where
  "defaults_given p = \<lparr>sd_rest = Some (pd_rest p), sd_graphql = Some (pd_graphql p),
     sd_websocket = Some (pd_websocket p), sd_grpc = Some (pd_grpc p)\<rparr>"

definition merge_defaults :: "protocol_defaults \<Rightarrow> stored_defaults option \<Rightarrow> protocol_defaults" where
  "merge_defaults initial stored =
     \<lparr>pd_rest = merge_protocol_defaults (pd_rest initial) (Option.bind stored sd_rest),
      pd_graphql = merge_protocol_defaults (pd_graphql initial) (Option.bind stored sd_graphql),
      pd_websocket = merge_protocol_defaults (pd_websocket initial) (Option.bind stored sd_websocket),
      pd_grpc = merge_protocol_defaults (pd_grpc initial) (Option.bind stored sd_grpc)\<rparr>"

definition initial_defaults :: protocol_defaults where
  "initial_defaults = \<lparr>pd_rest = initial_protocol_defaults P_rest, pd_graphql = initial_protocol_defaults P_graphql,
     pd_websocket = initial_protocol_defaults P_websocket, pd_grpc = initial_protocol_defaults P_grpc\<rparr>"

definition get_default_protocol_options :: "store \<Rightarrow> protocol_defaults" where
  "get_default_protocol_options s =
     merge_defaults initial_defaults
       (case get_meta ''defaultProtocolOptions'' s of Some (Meta_defaults p) \<Rightarrow> Some (defaults_given p) | _ \<Rightarrow> None)"

definition set_default_protocol_options ::
  "host \<Rightarrow> storage_api \<Rightarrow> protocol_defaults \<Rightarrow> store \<Rightarrow> (js_error + unit) \<times> store" where
  "set_default_protocol_options h d defaults s =
     set_meta h d ''defaultProtocolOptions'' (Some (Meta_defaults (merge_defaults initial_defaults (Some (defaults_given defaults))))) s"

definition list_response_examples :: "store \<Rightarrow> response_example list" where
  "list_response_examples s = (case get_meta ''responseExamples'' s of Some (Meta_examples xs) \<Rightarrow> xs | _ \<Rightarrow> [])"

text \<open>\<open>findIndex\<close>, then replacing at the index or pushing.\<close>

fun replace_or_push :: "('a \<Rightarrow> string) \<Rightarrow> 'a \<Rightarrow> 'a list \<Rightarrow> 'a list" where
  "replace_or_push key x [] = [x]"
| "replace_or_push key x (y # ys) = (if key y = key x then x # ys else y # replace_or_push key x ys)"

definition save_response_example ::
  "host \<Rightarrow> storage_api \<Rightarrow> response_example \<Rightarrow> store \<Rightarrow> (js_error + unit) \<times> store" where
  "save_response_example h d x s =
     set_meta h d ''responseExamples'' (Some (Meta_examples (replace_or_push rx_id x (list_response_examples s)))) s"

definition delete_response_example :: "host \<Rightarrow> storage_api \<Rightarrow> string \<Rightarrow> store \<Rightarrow> (js_error + unit) \<times> store" where
  "delete_response_example h d i s =
     set_meta h d ''responseExamples'' (Some (Meta_examples (filter (\<lambda>x. rx_id x \<noteq> i) (list_response_examples s)))) s"

definition list_diff_ignore_rules :: "store \<Rightarrow> ignore_rule list" where
  "list_diff_ignore_rules s = (case get_meta ''diffIgnoreRules'' s of Some (Meta_rules xs) \<Rightarrow> xs | _ \<Rightarrow> [])"

definition save_diff_ignore_rules ::
  "host \<Rightarrow> storage_api \<Rightarrow> ignore_rule list \<Rightarrow> store \<Rightarrow> (js_error + unit) \<times> store" where
  "save_diff_ignore_rules h d rules s = set_meta h d ''diffIgnoreRules'' (Some (Meta_rules rules)) s"

section \<open>Collections, folders and requests\<close>

text \<open>What a caller may give for a new collection or folder.\<close>

record collection_data =
  cd_description :: "string option"
  cd_variables :: "key_value list option"
  cd_sortOrder :: "int option"

record folder_data =
  fd_id :: "string option"
  fd_description :: "string option"
  fd_variables :: "key_value list option"
  fd_sortOrder :: "int option"
  fd_createdAt :: "int option"

definition or_now :: "int option \<Rightarrow> int \<Rightarrow> int" where
  "or_now v now = (case v of Some n \<Rightarrow> n | None \<Rightarrow> now)"

definition list_collections :: "store \<Rightarrow> collection list" where
  "list_collections s = rev (order_by (Num_key \<circ> co_updatedAt) (st_collections s))"

definition create_collection ::
  "storage_api \<Rightarrow> string \<Rightarrow> collection_data \<Rightarrow> store \<Rightarrow> runtime \<Rightarrow> (js_error + collection) \<times> store \<times> runtime" where
  "create_collection d name data s rt =
     (let (now, rt1) = read_clock rt; (i, rt2) = draw_uuid rt1;
          c = \<lparr>co_id = i, co_name = name, co_description = cd_description data,
               co_variables = Some (opt_rows (cd_variables data)), co_sortOrder = Some (or_now (cd_sortOrder data) now),
               co_createdAt = now, co_updatedAt = now\<rparr> in
      case add_row co_id (pa_collections d) c (st_collections s) of
        None \<Rightarrow> (Inl constraint_error, s, rt2)
      | Some t \<Rightarrow> (Inr c, s\<lparr>st_collections := t\<rparr>, rt2))"

definition update_collection ::
  "storage_api \<Rightarrow> collection \<Rightarrow> store \<Rightarrow> runtime \<Rightarrow> collection \<times> store \<times> runtime" where
  "update_collection d c s rt =
     (let (now, rt1) = read_clock rt; u = c\<lparr>co_variables := Some (opt_rows (co_variables c)), co_updatedAt := now\<rparr> in
      (u, s\<lparr>st_collections := ta_put (pa_collections d) u (st_collections s)\<rparr>, rt1))"

definition delete_collection :: "storage_api \<Rightarrow> string \<Rightarrow> store \<Rightarrow> store" where
  "delete_collection d i s =
     s\<lparr>st_folders := delete_where fo_id (pa_folders d) (\<lambda>f. fo_collectionId f = i) (st_folders s),
       st_requests := delete_where sr_id (pa_requests d) (\<lambda>r. sr_collectionId r = i) (st_requests s),
       st_collections := ta_delete (pa_collections d) i (st_collections s)\<rparr>"

definition list_requests :: "string option \<Rightarrow> store \<Rightarrow> saved_request list" where
  "list_requests i s =
     (if truthy i
      then sort_key sr_sortOrder (filter (\<lambda>r. Some (sr_collectionId r) = i) (st_requests s))
      else rev (order_by (Num_key \<circ> sr_updatedAt) (st_requests s)))"

fun reorder_from :: "storage_api \<Rightarrow> int \<Rightarrow> int \<Rightarrow> string list \<Rightarrow> saved_request list \<Rightarrow> saved_request list" where
  "reorder_from d now i [] t = t"
| "reorder_from d now i (x # xs) t =
     reorder_from d now (i + 1) xs
       (modify_where (pa_requests d) (\<lambda>r. sr_id r = x) (\<lambda>r. r\<lparr>sr_sortOrder := i, sr_updatedAt := now\<rparr>) t)"

definition reorder_requests :: "storage_api \<Rightarrow> string list \<Rightarrow> store \<Rightarrow> runtime \<Rightarrow> store \<times> runtime" where
  "reorder_requests d ids s rt =
     (let (now, rt1) = read_clock rt in (s\<lparr>st_requests := reorder_from d now 0 ids (st_requests s)\<rparr>, rt1))"

definition list_folders :: "string option \<Rightarrow> store \<Rightarrow> folder list" where
  "list_folders i s =
     (if truthy i then filter (\<lambda>f. Some (fo_collectionId f) = i) (st_folders s)
      else order_by (Num_key \<circ> fo_sortOrder) (st_folders s))"

definition create_folder ::
  "storage_api \<Rightarrow> string \<Rightarrow> string \<Rightarrow> string option \<Rightarrow> folder_data \<Rightarrow> store \<Rightarrow> runtime
     \<Rightarrow> (js_error + folder) \<times> store \<times> runtime" where
  "create_folder d cid name parent data s rt =
     (let (now, rt1) = read_clock rt; (i, rt2) = given_id (fd_id data) rt1;
          f = \<lparr>fo_id = i, fo_collectionId = cid, fo_parentFolderId = parent, fo_name = name,
               fo_description = fd_description data, fo_variables = Some (opt_rows (fd_variables data)),
               fo_sortOrder = or_now (fd_sortOrder data) now, fo_createdAt = or_now (fd_createdAt data) now,
               fo_updatedAt = now\<rparr> in
      case add_row fo_id (pa_folders d) f (st_folders s) of
        None \<Rightarrow> (Inl constraint_error, s, rt2)
      | Some t \<Rightarrow> (Inr f, s\<lparr>st_folders := t\<rparr>, rt2))"

definition update_folder :: "storage_api \<Rightarrow> folder \<Rightarrow> store \<Rightarrow> runtime \<Rightarrow> folder \<times> store \<times> runtime" where
  "update_folder d f s rt =
     (let (now, rt1) = read_clock rt; u = f\<lparr>fo_variables := Some (opt_rows (fo_variables f)), fo_updatedAt := now\<rparr> in
      (u, s\<lparr>st_folders := ta_put (pa_folders d) u (st_folders s)\<rparr>, rt1))"

text \<open>
  \<open>collectFolderIds\<close>: one pass of the inner loop over the folders, and the outer loop, which goes on
  while a pass has added something.
\<close>

definition is_one_of :: "string option \<Rightarrow> string list \<Rightarrow> bool" where
  "is_one_of v ids \<longleftrightarrow> (case v of Some x \<Rightarrow> x \<in> set ids | None \<Rightarrow> False)"

definition collect_pass :: "folder list \<Rightarrow> string list \<Rightarrow> string list" where
  "collect_pass folders ids =
     fold (\<lambda>f is. if truthy (fo_parentFolderId f) \<and> is_one_of (fo_parentFolderId f) is \<and> fo_id f \<notin> set is
                  then is @ [fo_id f] else is) folders ids"

lemma collect_pass_grows: "\<exists>new. collect_pass folders ids = ids @ new \<and> set new \<subseteq> fo_id ` set folders - set ids"
proof (induction folders arbitrary: ids)
  case Nil
  then show ?case by (simp add: collect_pass_def)
next
  case (Cons f fs)
  let ?add = "truthy (fo_parentFolderId f) \<and> is_one_of (fo_parentFolderId f) ids \<and> fo_id f \<notin> set ids"
  let ?ids = "if ?add then ids @ [fo_id f] else ids"
  have step: "collect_pass (f # fs) ids = collect_pass fs ?ids" by (simp add: collect_pass_def)
  from Cons [of ?ids] obtain new where "collect_pass fs ?ids = ?ids @ new" "set new \<subseteq> fo_id ` set fs - set ?ids" by blast
  with step show ?case by (intro exI [of _ "(if ?add then [fo_id f] else []) @ new"]) (auto split: if_splits)
qed

function collect_loop :: "folder list \<Rightarrow> string list \<Rightarrow> string list" where
  "collect_loop folders ids =
     (let next_ids = collect_pass folders ids in
      if next_ids = ids then ids else collect_loop folders next_ids)"
  by pat_completeness auto
termination
proof (relation "measure (\<lambda>(folders, ids). card (fo_id ` set folders - set ids))", simp)
  fix folders ids next_ids
  assume n: "next_ids = collect_pass folders ids" "next_ids \<noteq> ids"
  obtain new where new: "next_ids = ids @ new" "set new \<subseteq> fo_id ` set folders - set ids"
    using collect_pass_grows n(1) by blast
  with n(2) have "new \<noteq> []" by simp
  then obtain x where "x \<in> set new" by (cases new) auto
  with new have "fo_id ` set folders - set next_ids \<subset> fo_id ` set folders - set ids" by auto
  then show "((folders, next_ids), folders, ids) \<in> measure (\<lambda>(folders, ids). card (fo_id ` set folders - set ids))"
    by (simp add: psubset_card_mono)
qed

declare collect_loop.simps [simp del]

definition collect_folder_ids :: "folder list \<Rightarrow> string \<Rightarrow> string list" where
  "collect_folder_ids folders root_id = collect_loop folders [root_id]"

definition delete_folder :: "storage_api \<Rightarrow> string \<Rightarrow> store \<Rightarrow> store" where
  "delete_folder d i s =
     (let ids = collect_folder_ids (st_folders s) i in
      s\<lparr>st_requests := delete_where sr_id (pa_requests d) (\<lambda>r. is_one_of (sr_folderId r) ids) (st_requests s),
        st_folders := bulk_delete (pa_folders d) ids (st_folders s)\<rparr>)"

definition move_request ::
  "storage_api \<Rightarrow> string \<Rightarrow> string option \<Rightarrow> store \<Rightarrow> runtime \<Rightarrow> saved_request option \<times> store \<times> runtime" where
  "move_request d i fid s rt =
     (case get_row sr_id i (st_requests s) of
        None \<Rightarrow> (None, s, rt)
      | Some r \<Rightarrow>
          (let (now, rt1) = read_clock rt; u = r\<lparr>sr_folderId := fid, sr_updatedAt := now\<rparr> in
           (Some u, s\<lparr>st_requests := ta_put (pa_requests d) u (st_requests s)\<rparr>, rt1)))"

text \<open>
  The property \<open>protocol\<close> of a request: a GraphQL request has its own, otherwise it is the draft's. The
  shapes of the four kinds of request are told apart by their constructors.
\<close>

definition protocol_field :: "protocol_request \<Rightarrow> draft_fields \<Rightarrow> protocol option" where
  "protocol_field q df = (case q of GraphQLRequest r \<Rightarrow> gq_protocol r | _ \<Rightarrow> df_protocol df)"

definition infer_stored_protocol :: "protocol_request \<Rightarrow> draft_fields \<Rightarrow> protocol \<Rightarrow> protocol" where
  "infer_stored_protocol q df fallback =
     (case protocol_field q df of
        Some p \<Rightarrow> p
      | None \<Rightarrow> (case q of GraphQLRequest r \<Rightarrow> P_graphql | WebSocketRequest r \<Rightarrow> P_websocket
                | GrpcRequest r \<Rightarrow> P_grpc | RestRequest r \<Rightarrow> fallback))"

definition normalize_saved_request :: "protocol_request \<Rightarrow> draft_fields \<Rightarrow> protocol_request" where
  "normalize_saved_request q df =
     (case q of
        RestRequest r \<Rightarrow>
          (if protocol_field q df = Some P_graphql then strip_protocol_request q
           else strip_protocol_request (RestRequest (to_request_config r)))
      | _ \<Rightarrow> strip_protocol_request q)"

record save_options =
  so_id :: "string option"
  so_folderId :: "string option"
  so_protocol :: "protocol option"
  so_sortOrder :: "int option"
  so_createdAt :: "int option"

definition save_request ::
  "storage_api \<Rightarrow> protocol_request \<Rightarrow> draft_fields \<Rightarrow> string \<Rightarrow> string \<Rightarrow> save_options \<Rightarrow> store \<Rightarrow> runtime
     \<Rightarrow> saved_request \<times> store \<times> runtime" where
  "save_request d q df name cid opts s rt =
     (let (now, rt1) = read_clock rt;
          p = (case so_protocol opts of Some p \<Rightarrow> p
               | None \<Rightarrow> infer_stored_protocol q df (case protocol_field q df of Some p \<Rightarrow> p | None \<Rightarrow> P_rest));
          (i, rt2) = given_id (over (df_id df) (so_id opts)) rt1;
          saved = \<lparr>sr_id = i, sr_collectionId = cid, sr_folderId = over (df_folderId df) (so_folderId opts),
                   sr_name = name, sr_protocol = p, sr_request = normalize_saved_request q df, sr_requestMode = None,
                   sr_sortOrder = or_now (over (df_sortOrder df) (so_sortOrder opts)) now,
                   sr_createdAt = or_now (over (df_createdAt df) (so_createdAt opts)) now, sr_updatedAt = now\<rparr> in
      (saved, s\<lparr>st_requests := ta_put (pa_requests d) saved (st_requests s)\<rparr>, rt2))"

definition delete_request :: "storage_api \<Rightarrow> string \<Rightarrow> store \<Rightarrow> store" where
  "delete_request d i s = s\<lparr>st_requests := ta_delete (pa_requests d) i (st_requests s)\<rparr>"

section \<open>Environments and flows\<close>

definition list_environments :: "store \<Rightarrow> environment list" where
  "list_environments s = rev (order_by (Num_key \<circ> en_updatedAt) (st_environments s))"

text \<open>\<open>environment.id || id()\<close>: an empty identifier counts as none.\<close>

definition non_empty :: "string option \<Rightarrow> string option" where
  "non_empty v = (if truthy v then v else None)"

definition save_environment ::
  "storage_api \<Rightarrow> string option \<Rightarrow> string \<Rightarrow> key_value list \<Rightarrow> int option \<Rightarrow> store \<Rightarrow> runtime
     \<Rightarrow> environment \<times> store \<times> runtime" where
  "save_environment d i name vars created s rt =
     (let (now, rt1) = read_clock rt; (j, rt2) = given_id (non_empty i) rt1;
          e = \<lparr>en_id = j, en_name = name, en_variables = vars, en_createdAt = or_now created now, en_updatedAt = now\<rparr> in
      (e, s\<lparr>st_environments := ta_put (pa_environments d) e (st_environments s)\<rparr>, rt2))"

definition get_active_environment_id :: "store \<Rightarrow> string option" where
  "get_active_environment_id s = (case get_meta ''activeEnvironment'' s of Some (Meta_text i) \<Rightarrow> Some i | _ \<Rightarrow> None)"

definition set_active_environment_id ::
  "host \<Rightarrow> storage_api \<Rightarrow> string option \<Rightarrow> store \<Rightarrow> (js_error + unit) \<times> store" where
  "set_active_environment_id h d i s = set_meta h d ''activeEnvironment'' (map_option Meta_text i) s"

definition delete_environment :: "host \<Rightarrow> storage_api \<Rightarrow> string \<Rightarrow> store \<Rightarrow> (js_error + unit) \<times> store" where
  "delete_environment h d i s =
     (let s1 = s\<lparr>st_environments := ta_delete (pa_environments d) i (st_environments s)\<rparr> in
      if get_active_environment_id s1 = Some i then set_active_environment_id h d None s1 else (Inr (), s1))"

definition list_flows :: "store \<Rightarrow> flow list" where
  "list_flows s = rev (order_by (Num_key \<circ> fw_updatedAt) (st_flows s))"

definition save_flow ::
  "storage_api \<Rightarrow> string option \<Rightarrow> string \<Rightarrow> flow_step list \<Rightarrow> int option \<Rightarrow> store \<Rightarrow> runtime \<Rightarrow> flow \<times> store \<times> runtime" where
  "save_flow d i name steps created s rt =
     (let (now, rt1) = read_clock rt; (j, rt2) = given_id (non_empty i) rt1;
          f = \<lparr>fw_id = j, fw_name = name, fw_steps = steps, fw_createdAt = or_now created now, fw_updatedAt = now\<rparr> in
      (f, s\<lparr>st_flows := ta_put (pa_flows d) f (st_flows s)\<rparr>, rt2))"

definition delete_flow :: "storage_api \<Rightarrow> string \<Rightarrow> store \<Rightarrow> store" where
  "delete_flow d i s = s\<lparr>st_flows := ta_delete (pa_flows d) i (st_flows s)\<rparr>"

section \<open>History\<close>

definition history_limit :: int where "history_limit = 10000"

definition pinned :: "stored_entry \<Rightarrow> bool" where
  "pinned e \<longleftrightarrow> he_pinned e = Some True"

definition drop_stale :: "storage_api \<Rightarrow> int \<Rightarrow> stored_entry list \<Rightarrow> stored_entry list" where
  "drop_stale d cutoff t =
     bulk_delete (pa_history d) (map he_id (filter (\<lambda>e. he_createdAt e < cutoff \<and> \<not> pinned e) t)) t"

definition drop_excess :: "storage_api \<Rightarrow> int \<Rightarrow> stored_entry list \<Rightarrow> stored_entry list" where
  "drop_excess d limit t =
     (if limit < int (length t)
      then bulk_delete (pa_history d)
             (map he_id (take (nat (int (length t) - limit))
                (filter (\<lambda>e. \<not> pinned e) (order_by (Num_key \<circ> he_createdAt) t)))) t
      else t)"

definition apply_retention :: "storage_api \<Rightarrow> store \<Rightarrow> runtime \<Rightarrow> store \<times> runtime" where
  "apply_retention d s rt =
     (let settings = get_retention_settings s;
          most = (case settings of Some r \<Rightarrow> rt_maxEntries r | None \<Rightarrow> history_limit);
          days = (case settings of Some r \<Rightarrow> rt_retentionDays r | None \<Rightarrow> 0);
          (t1, rt1) = (if 0 < days
                       then let (now, rt') = read_clock rt in (drop_stale d (now - days * 86400000) (st_history s), rt')
                       else (st_history s, rt)) in
      (s\<lparr>st_history := drop_excess d (if 0 < most then most else history_limit) t1\<rparr>, rt1))"

text \<open>The entry is given without its identifier and its time; those fields are not read.\<close>

definition add_history ::
  "storage_api \<Rightarrow> stored_entry \<Rightarrow> store \<Rightarrow> runtime \<Rightarrow> (js_error + stored_entry) \<times> store \<times> runtime" where
  "add_history d e s rt =
     (let (i, rt1) = draw_uuid rt; (now, rt2) = read_clock rt1; df = se_draft e;
          raw = e\<lparr>he_id := i, he_requestId := over (df_id df) (he_requestId e),
                  he_collectionId := over (df_collectionId df) (he_collectionId e),
                  he_protocol := Some (case over (protocol_field (he_request e) df) (he_protocol e) of
                                         Some p \<Rightarrow> p | None \<Rightarrow> P_rest),
                  he_createdAt := now\<rparr>;
          saved = redact_history_entry raw in
      case add_row he_id (pa_history d) saved (st_history s) of
        None \<Rightarrow> (Inl constraint_error, s, rt2)
      | Some t \<Rightarrow> (let (s1, rt3) = apply_retention d (s\<lparr>st_history := t\<rparr>) rt2 in (Inr saved, s1, rt3)))"

definition pin_history_entry :: "storage_api \<Rightarrow> string \<Rightarrow> bool \<Rightarrow> store \<Rightarrow> store" where
  "pin_history_entry d i b s =
     s\<lparr>st_history := modify_where (pa_history d) (\<lambda>e. he_id e = i) (\<lambda>e. e\<lparr>he_pinned := Some b\<rparr>) (st_history s)\<rparr>"

definition set_history_entry_label :: "storage_api \<Rightarrow> string \<Rightarrow> string \<Rightarrow> store \<Rightarrow> store" where
  "set_history_entry_label d i label s =
     s\<lparr>st_history := modify_where (pa_history d) (\<lambda>e. he_id e = i)
         (\<lambda>e. e\<lparr>he_label := (if label = [] then None else Some label)\<rparr>) (st_history s)\<rparr>"

definition clear_history :: "storage_api \<Rightarrow> store \<Rightarrow> store" where
  "clear_history d s = s\<lparr>st_history := delete_where he_id (pa_history d) (\<lambda>e. \<not> pinned e) (st_history s)\<rparr>"

definition delete_history_entry :: "storage_api \<Rightarrow> string \<Rightarrow> store \<Rightarrow> store" where
  "delete_history_entry d i s = s\<lparr>st_history := ta_delete (pa_history d) i (st_history s)\<rparr>"

definition delete_history_entries :: "storage_api \<Rightarrow> string list \<Rightarrow> store \<Rightarrow> store" where
  "delete_history_entries d ids s = s\<lparr>st_history := bulk_delete (pa_history d) ids (st_history s)\<rparr>"

definition list_history :: "nat \<Rightarrow> store \<Rightarrow> stored_entry list" where
  "list_history limit s = take limit (rev (order_by (Num_key \<circ> he_createdAt) (st_history s)))"

definition search_stored_history :: "string \<Rightarrow> int \<Rightarrow> store \<Rightarrow> stored_entry list" where
  "search_stored_history query limit s = search_history (list_history (nat history_limit) s) query limit"

section \<open>Cookies\<close>

definition list_cookies :: "store \<Rightarrow> stored_cookie list" where
  "list_cookies s = order_by (Text_key \<circ> ck_domain) (st_cookies s)"

definition upsert_cookie :: "storage_api \<Rightarrow> stored_cookie \<Rightarrow> store \<Rightarrow> store" where
  "upsert_cookie d c s =
     (let same = filter (\<lambda>x. cookie_identity x = cookie_identity c) (st_cookies s) in
      case same of
        [] \<Rightarrow> s\<lparr>st_cookies := ta_put (pa_cookies d) c (st_cookies s)\<rparr>
      | kept # dupes \<Rightarrow>
          s\<lparr>st_cookies := ta_put (pa_cookies d) (c\<lparr>ck_id := ck_id kept, ck_createdAt := ck_createdAt kept\<rparr>)
              (bulk_delete (pa_cookies d) (map ck_id dupes) (st_cookies s))\<rparr>)"

definition upsert_cookies :: "storage_api \<Rightarrow> stored_cookie list \<Rightarrow> store \<Rightarrow> store" where
  "upsert_cookies d cs s = fold (upsert_cookie d) cs s"

text \<open>The index over domain, path and name is unique: writing a second row of the same identity is refused.\<close>

definition update_cookie ::
  "storage_api \<Rightarrow> stored_cookie \<Rightarrow> store \<Rightarrow> runtime \<Rightarrow> (js_error + unit) \<times> store \<times> runtime" where
  "update_cookie d c s rt =
     (let (now, rt1) = read_clock rt in
      if list_ex (\<lambda>x. cookie_identity x = cookie_identity c \<and> ck_id x \<noteq> ck_id c) (st_cookies s)
      then (Inl constraint_error, s, rt1)
      else (Inr (), s\<lparr>st_cookies := ta_put (pa_cookies d) (c\<lparr>ck_updatedAt := now\<rparr>) (st_cookies s)\<rparr>, rt1))"

definition delete_cookie :: "storage_api \<Rightarrow> string \<Rightarrow> store \<Rightarrow> store" where
  "delete_cookie d i s = s\<lparr>st_cookies := ta_delete (pa_cookies d) i (st_cookies s)\<rparr>"

definition clear_cookies :: "storage_api \<Rightarrow> string option \<Rightarrow> store \<Rightarrow> store" where
  "clear_cookies d domain s =
     (if truthy domain
      then s\<lparr>st_cookies := delete_where ck_id (pa_cookies d) (\<lambda>c. Some (ck_domain c) = domain) (st_cookies s)\<rparr>
      else s\<lparr>st_cookies := []\<rparr>)"

section \<open>The workspace\<close>

record storage_stats =
  ss_collections :: nat
  ss_folders :: nat
  ss_requests :: nat
  ss_environments :: nat
  ss_history :: nat
  ss_flows :: nat

definition get_storage_stats :: "store \<Rightarrow> storage_stats" where
  "get_storage_stats s = \<lparr>ss_collections = length (st_collections s), ss_folders = length (st_folders s),
     ss_requests = length (st_requests s), ss_environments = length (st_environments s),
     ss_history = length (st_history s), ss_flows = length (st_flows s)\<rparr>"

record workspace_data =
  wk_collections :: "collection list"
  wk_folders :: "folder list"
  wk_requests :: "saved_request list"
  wk_environments :: "environment list"
  wk_flows :: "flow list"
  wk_defaults :: "protocol_defaults option"

definition export_workspace :: "store \<Rightarrow> workspace_data" where
  "export_workspace s = \<lparr>wk_collections = st_collections s, wk_folders = st_folders s, wk_requests = st_requests s,
     wk_environments = st_environments s, wk_flows = st_flows s, wk_defaults = Some (get_default_protocol_options s)\<rparr>"

definition import_workspace :: "host \<Rightarrow> storage_api \<Rightarrow> workspace_data \<Rightarrow> store \<Rightarrow> store" where
  "import_workspace h d w s =
     (let s1 = s\<lparr>st_collections := bulk_put (pa_collections d) (wk_collections w) (st_collections s),
                 st_folders := bulk_put (pa_folders d) (wk_folders w) (st_folders s),
                 st_requests := bulk_put (pa_requests d) (map strip_saved_request (wk_requests w)) (st_requests s),
                 st_environments := bulk_put (pa_environments d) (wk_environments w) (st_environments s),
                 st_flows := bulk_put (pa_flows d) (map strip_flow (wk_flows w)) (st_flows s)\<rparr> in
      case wk_defaults w of None \<Rightarrow> s1 | Some p \<Rightarrow> snd (set_default_protocol_options h d p s1))"

text \<open>The migration to version 6 of the database.\<close>

definition migrate_network_options :: "storage_api \<Rightarrow> store \<Rightarrow> store" where
  "migrate_network_options d s =
     s\<lparr>st_requests := rewrite_changed (pa_requests d) strip_saved_request (st_requests s),
       st_history := rewrite_changed (pa_history d) strip_history_entry (st_history s),
       st_flows := rewrite_changed (pa_flows d) strip_flow (st_flows s),
       st_meta := ta_put (pa_meta d) \<lparr>me_key = ''schemaVersion'', me_value = Meta_number 6\<rparr> (st_meta s)\<rparr>"

end
