(* ===== verification/Storage_Facts.thy ===== *)
theory Storage_Facts
  imports Storage
begin

text \<open>
  What the operations on the database guarantee: deleting a folder removes exactly what is below it,
  the history stays within its limits, cookies stay unique, the migration is complete and does nothing the
  second time, a workspace is restored from its export, and reordering is what listing shows.
\<close>

section \<open>Folders\<close>

definition child_of :: "folder list \<Rightarrow> (string \<times> string) set" where
  "child_of folders = {(p, fo_id f) | p f. f \<in> set folders \<and> fo_parentFolderId f = Some p \<and> p \<noteq> []}"

lemma parent_truthy:
  "truthy (fo_parentFolderId f) \<and> is_one_of (fo_parentFolderId f) ids
     \<longleftrightarrow> (\<exists>p. fo_parentFolderId f = Some p \<and> p \<noteq> [] \<and> p \<in> set ids)"
  by (cases "fo_parentFolderId f") (auto simp: is_one_of_def)

lemma reach_reach: "R\<^sup>* `` (R\<^sup>* `` X) = R\<^sup>* `` X"
  by (auto intro: rtrancl_trans)

lemma collect_pass_reach:
  assumes "set folders \<subseteq> set all"
  shows "set (collect_pass folders ids) \<subseteq> (child_of all)\<^sup>* `` set ids"
  using assms
proof (induction folders arbitrary: ids)
  case Nil
  then show ?case by (auto simp: collect_pass_def)
next
  case (Cons f fs)
  let ?add = "truthy (fo_parentFolderId f) \<and> is_one_of (fo_parentFolderId f) ids \<and> fo_id f \<notin> set ids"
  let ?ids = "if ?add then ids @ [fo_id f] else ids"
  have "fo_id f \<in> (child_of all)\<^sup>* `` set ids" if "?add"
  proof -
    from that obtain p where p: "fo_parentFolderId f = Some p" "p \<noteq> []" "p \<in> set ids"
      unfolding conj_assoc [symmetric] parent_truthy by blast
    with Cons.prems have "(p, fo_id f) \<in> child_of all" by (auto simp: child_of_def)
    with p(3) show ?thesis by blast
  qed
  then have ids: "set ?ids \<subseteq> (child_of all)\<^sup>* `` set ids" by auto
  have "set (collect_pass (f # fs) ids) = set (collect_pass fs ?ids)" by (simp add: collect_pass_def)
  also have "\<dots> \<subseteq> (child_of all)\<^sup>* `` set ?ids" using Cons by simp
  also have "\<dots> \<subseteq> (child_of all)\<^sup>* `` ((child_of all)\<^sup>* `` set ids)" using ids by (rule Image_mono [OF subset_refl])
  also have "\<dots> = (child_of all)\<^sup>* `` set ids" by (rule reach_reach)
  finally show ?case .
qed

lemma collect_pass_mono: "set ids \<subseteq> set (collect_pass folders ids)"
  using collect_pass_grows [of folders ids] by auto

lemma collect_pass_closed:
  assumes "collect_pass folders ids = ids" and "(p, c) \<in> child_of folders" and "p \<in> set ids"
  shows "c \<in> set ids"
  using assms
proof (induction folders arbitrary: ids)
  case Nil
  then show ?case by (simp add: child_of_def)
next
  case (Cons f fs)
  let ?add = "truthy (fo_parentFolderId f) \<and> is_one_of (fo_parentFolderId f) ids \<and> fo_id f \<notin> set ids"
  let ?ids = "if ?add then ids @ [fo_id f] else ids"
  have step: "collect_pass (f # fs) ids = collect_pass fs ?ids" by (simp add: collect_pass_def)
  obtain new where "collect_pass fs ?ids = ?ids @ new" using collect_pass_grows by blast
  with step Cons.prems(1) have no: "\<not> ?add" "collect_pass fs ids = ids" by (auto split: if_splits)
  from Cons.prems(2) consider "(p, c) \<in> child_of fs" | "fo_parentFolderId f = Some p" "p \<noteq> []" "c = fo_id f"
    by (auto simp: child_of_def)
  then show ?case
  proof cases
    case 1
    with Cons.IH [OF no(2)] Cons.prems(3) show ?thesis by blast
  next
    case 2
    with no(1) Cons.prems(3) parent_truthy [of f ids] show ?thesis by auto
  qed
qed

lemma collect_loop_reach: "set (collect_loop folders ids) = (child_of folders)\<^sup>* `` set ids"
proof (induction folders ids rule: collect_loop.induct)
  case (1 folders ids)
  let ?next = "collect_pass folders ids"
  show ?case
  proof (cases "?next = ids")
    case True
    have "c \<in> set ids" if "(p, c) \<in> (child_of folders)\<^sup>*" "p \<in> set ids" for p c
      using that by (induction rule: rtrancl_induct) (auto dest: collect_pass_closed [OF True])
    with True show ?thesis by (subst collect_loop.simps) (auto simp: Let_def)
  next
    case False
    have "set (collect_loop folders ids) = (child_of folders)\<^sup>* `` set ?next"
      using 1 [OF refl False] False by (subst collect_loop.simps) (simp add: Let_def)
    moreover have "(child_of folders)\<^sup>* `` set ?next \<subseteq> (child_of folders)\<^sup>* `` ((child_of folders)\<^sup>* `` set ids)"
      using collect_pass_reach [of folders folders ids] by (intro Image_mono) auto
    moreover have "(child_of folders)\<^sup>* `` ((child_of folders)\<^sup>* `` set ids) = (child_of folders)\<^sup>* `` set ids"
      by (rule reach_reach)
    moreover have "(child_of folders)\<^sup>* `` set ids \<subseteq> (child_of folders)\<^sup>* `` set ?next"
      using collect_pass_mono by (intro Image_mono) auto
    ultimately show ?thesis by blast
  qed
qed

definition below :: "store \<Rightarrow> string \<Rightarrow> string \<Rightarrow> bool" where
  "below s i j \<longleftrightarrow> (i, j) \<in> (child_of (st_folders s))\<^sup>*"

text \<open>
  C36: Deleting a folder ends, whatever the parents of the folders are (a cycle included), and removes exactly
  the folder, the folders reached from it through the parent links, and the requests in any of them;
  everything else stays as it is.
\<close>

theorem delete_folder_exact:
  assumes "storage_laws d" and "store_ok s"
  shows "delete_folder d i s =
    s\<lparr>st_requests := filter (\<lambda>r. case sr_folderId r of Some f \<Rightarrow> \<not> below s i f | None \<Rightarrow> True) (st_requests s),
      st_folders := filter (\<lambda>f. \<not> below s i (fo_id f)) (st_folders s)\<rparr>"
proof -
  have ids: "set (collect_folder_ids (st_folders s) i) = {j. below s i j}"
    by (auto simp: collect_folder_ids_def collect_loop_reach below_def)
  have f: "bulk_delete (pa_folders d) (collect_folder_ids (st_folders s) i) (st_folders s)
      = filter (\<lambda>f. \<not> below s i (fo_id f)) (st_folders s)"
    using assms bulk_delete_filter [of fo_id "pa_folders d" "st_folders s"]
    by (simp add: storage_laws_def store_ok_def ids)
  have r: "delete_where sr_id (pa_requests d) P (st_requests s) = filter (\<lambda>r. \<not> P r) (st_requests s)" for P
    using assms by (intro delete_where_filter) (auto simp: storage_laws_def store_ok_def)
  have p: "\<not> is_one_of (sr_folderId r) (collect_folder_ids (st_folders s) i)
      \<longleftrightarrow> (case sr_folderId r of Some f \<Rightarrow> \<not> below s i f | None \<Rightarrow> True)" for r
    by (simp add: is_one_of_def ids split: option.splits)
  show ?thesis unfolding delete_folder_def Let_def f r p ..
qed

section \<open>A database for concrete runs\<close>

definition list_storage :: storage_api where
  "list_storage = \<lparr>pa_collections = list_table co_id, pa_folders = list_table fo_id, pa_requests = list_table sr_id,
     pa_environments = list_table en_id, pa_history = list_table he_id, pa_flows = list_table fw_id,
     pa_meta = list_table me_key, pa_cookies = list_table ck_id\<rparr>"

lemma list_storage_laws: "storage_laws list_storage"
  by (simp add: storage_laws_def list_storage_def list_table_laws)

lemma store_empty_ok [simp]: "store_ok store_empty"
  by (simp add: store_ok_def store_empty_def table_ok_def)

definition sample_folder :: "string \<Rightarrow> string option \<Rightarrow> folder" where
  "sample_folder i parent = \<lparr>fo_id = i, fo_collectionId = ''c'', fo_parentFolderId = parent, fo_name = i,
     fo_description = None, fo_variables = None, fo_sortOrder = 0, fo_createdAt = 0, fo_updatedAt = 0\<rparr>"

definition folder_store :: store where
  "folder_store = store_empty\<lparr>st_folders :=
     [sample_folder ''a'' (Some ''c''), sample_folder ''b'' (Some ''a''), sample_folder ''c'' (Some ''b''), sample_folder ''d'' None]\<rparr>"

theorem delete_folder_exact_witness:
  "\<not> below folder_store ''a'' ''d''
   \<and> map fo_id (filter (\<lambda>f. \<not> below folder_store ''a'' (fo_id f)) (st_folders folder_store)) = [''d'']"
proof -
  have ok: "store_ok folder_store"
    by (simp add: store_ok_def folder_store_def store_empty_def table_ok_def sample_folder_def)
  have "map fo_id (st_folders (delete_folder list_storage ''a'' folder_store)) = [''d'']" by code_simp
  with delete_folder_exact [OF list_storage_laws ok, of "''a''"]
  have m: "map fo_id (filter (\<lambda>f. \<not> below folder_store ''a'' (fo_id f)) (st_folders folder_store)) = [''d'']" by simp
  then have "''d'' \<in> fo_id ` set (filter (\<lambda>f. \<not> below folder_store ''a'' (fo_id f)) (st_folders folder_store))"
    unfolding set_map [symmetric] by simp
  with m show ?thesis by auto
qed

section \<open>History\<close>

definition history_bound :: "store \<Rightarrow> int" where
  "history_bound s =
     (case get_retention_settings s of
        Some r \<Rightarrow> if 0 < rt_maxEntries r then rt_maxEntries r else history_limit | None \<Rightarrow> history_limit)"

definition trimmed :: "stored_entry list \<Rightarrow> stored_entry list \<Rightarrow> bool" where
  "trimmed t u \<longleftrightarrow> set u \<subseteq> set t \<and> table_ok he_id u \<and> (\<forall>e \<in> set t. pinned e \<longrightarrow> e \<in> set u)
     \<and> (\<forall>e \<in> set t - set u. \<forall>x \<in> set u. \<not> pinned x \<longrightarrow> he_createdAt e \<le> he_createdAt x)"

lemma drop_stale_trimmed:
  assumes "table_laws he_id (pa_history d)" and "table_ok he_id t"
  shows "trimmed t (drop_stale d cutoff t)"
proof -
  let ?P = "\<lambda>e. he_createdAt e < cutoff \<and> \<not> pinned e"
  have "he_id e \<notin> set (map he_id (filter ?P t)) \<longleftrightarrow> \<not> ?P e" if "e \<in> set t" for e
    using table_key_unique [OF assms(2) that] that by auto
  then have "drop_stale d cutoff t = filter (\<lambda>e. \<not> ?P e) t"
    unfolding drop_stale_def bulk_delete_filter [OF assms] by (intro filter_cong) auto
  with assms(2) show ?thesis by (auto simp: trimmed_def)
qed

lemma drop_excess_trimmed:
  assumes "table_laws he_id (pa_history d)" and "table_ok he_id t"
  shows "trimmed t (drop_excess d limit t)"
    and "0 \<le> limit \<Longrightarrow> int (length (drop_excess d limit t)) \<le> limit \<or> (\<forall>e \<in> set (drop_excess d limit t). pinned e)"
proof -
  let ?free = "filter (\<lambda>e. \<not> pinned e) (order_by (Num_key \<circ> he_createdAt) t)"
  let ?n = "nat (int (length t) - limit)"
  let ?gone = "take ?n ?free"
  have set_free: "set ?free = {e \<in> set t. \<not> pinned e}" by (auto simp: order_by_def)
  have gone_sub: "set ?gone \<subseteq> set ?free" by (rule set_take_subset)
  have del: "bulk_delete (pa_history d) (map he_id ?gone) t = filter (\<lambda>e. e \<notin> set ?gone) t"
    unfolding bulk_delete_filter [OF assms]
  proof (rule filter_cong [OF refl])
    fix e assume e: "e \<in> set t"
    show "he_id e \<notin> set (map he_id ?gone) \<longleftrightarrow> e \<notin> set ?gone"
      using table_key_unique [OF assms(2) e] gone_sub set_free by auto
  qed
  have sorted: "sorted_wrt (\<lambda>x y. he_createdAt x \<le> he_createdAt y) ?free"
  proof -
    have "sorted (map (Num_key \<circ> he_createdAt) (order_by (Num_key \<circ> he_createdAt) t))" by (simp add: order_by_def)
    then show ?thesis by (intro sorted_wrt_filter) (simp add: sorted_map comp_def)
  qed
  have split: "sorted_wrt (\<lambda>x y. he_createdAt x \<le> he_createdAt y) (?gone @ drop ?n ?free)" using sorted by simp
  have older: "he_createdAt e \<le> he_createdAt x"
    if "e \<in> set ?gone" "x \<in> set t" "\<not> pinned x" "x \<notin> set ?gone" for e x
  proof -
    have "x \<in> set ?free" using that(2,3) set_free by blast
    then have "x \<in> set ?gone \<union> set (drop ?n ?free)" by (metis append_take_drop_id set_append)
    with that(4) have "x \<in> set (drop ?n ?free)" by simp
    with that(1) split show ?thesis unfolding sorted_wrt_append by blast
  qed
  show "trimmed t (drop_excess d limit t)"
  proof (cases "limit < int (length t)")
    case True
    then have "drop_excess d limit t = filter (\<lambda>e. e \<notin> set ?gone) t" by (simp only: drop_excess_def if_True del)
    note e = this
    have free: "\<not> pinned x" if "x \<in> set ?gone" for x using gone_sub set_free that by blast
    show ?thesis unfolding trimmed_def e
    proof (intro conjI ballI impI)
      show "table_ok he_id (filter (\<lambda>e. e \<notin> set ?gone) t)" using assms(2) by (rule table_ok_filter)
    next
      fix x assume "x \<in> set t" "pinned x"
      with free [of x] show "x \<in> set (filter (\<lambda>e. e \<notin> set ?gone) t)" by (simp only: set_filter mem_Collect_eq) blast
    next
      fix y x assume y: "y \<in> set t - set (filter (\<lambda>e. e \<notin> set ?gone) t)"
        and x: "x \<in> set (filter (\<lambda>e. e \<notin> set ?gone) t)" and np: "\<not> pinned x"
      from y have "y \<in> set ?gone" by (simp only: set_filter Diff_iff mem_Collect_eq) blast
      moreover from x have "x \<in> set t" "x \<notin> set ?gone" unfolding set_filter by blast+
      ultimately show "he_createdAt y \<le> he_createdAt x" using older np by blast
    qed (simp only: set_filter, blast)
  next
    case False
    with assms(2) show ?thesis by (simp add: drop_excess_def trimmed_def)
  qed
  assume lim: "0 \<le> limit"
  show "int (length (drop_excess d limit t)) \<le> limit \<or> (\<forall>e \<in> set (drop_excess d limit t). pinned e)"
  proof (cases "limit < int (length t)")
    case True
    then have e: "drop_excess d limit t = filter (\<lambda>e. e \<notin> set ?gone) t" by (simp only: drop_excess_def if_True del)
    show ?thesis
    proof (cases "length ?free \<le> ?n")
      case True
      then have "set ?gone = {e \<in> set t. \<not> pinned e}" using set_free by simp
      then show ?thesis unfolding e by auto
    next
      case False
      have "distinct t" using assms(2) by (auto simp: table_ok_def distinct_map)
      then have "distinct ?gone" by (simp add: order_by_def)
      then have "card (set ?gone) = ?n" using False by (simp add: distinct_card)
      moreover have "length (filter (\<lambda>e. e \<notin> set ?gone) t) + card (set ?gone) = length t"
      proof -
        have "length (filter (\<lambda>e. e \<in> set ?gone) t) = card (set ?gone)"
          using \<open>distinct t\<close> gone_sub set_free
          by (subst distinct_card [symmetric]) (auto intro: arg_cong [where f = card])
        then show ?thesis using sum_length_filter_compl [of "\<lambda>e. e \<in> set ?gone" t] by simp
      qed
      ultimately show ?thesis unfolding e using \<open>limit < int (length t)\<close> lim by auto
    qed
  next
    case False
    then show ?thesis by (simp add: drop_excess_def)
  qed
qed

lemma trimmed_trans: "trimmed t u \<Longrightarrow> trimmed u v \<Longrightarrow> trimmed t v"
  unfolding trimmed_def by blast

lemma apply_retention_trims:
  assumes "storage_laws d" and "table_ok he_id (st_history s)"
  shows "trimmed (st_history s) (st_history (fst (apply_retention d s rt)))
    \<and> (int (length (st_history (fst (apply_retention d s rt)))) \<le> history_bound s
       \<or> (\<forall>e \<in> set (st_history (fst (apply_retention d s rt))). pinned e))"
proof -
  have l: "table_laws he_id (pa_history d)" using assms(1) by (simp add: storage_laws_def)
  obtain t1 rt1 where t1: "trimmed (st_history s) t1"
    and a: "apply_retention d s rt = (s\<lparr>st_history := drop_excess d (history_bound s) t1\<rparr>, rt1)"
  proof (cases "get_retention_settings s")
    case None
    then show thesis using assms(2)
      by (intro that [of "st_history s" rt]) (auto simp: trimmed_def apply_retention_def history_bound_def history_limit_def)
  next
    case (Some r)
    show thesis
    proof (cases "0 < rt_retentionDays r")
      case True
      show thesis
        by (rule that [OF drop_stale_trimmed [OF l assms(2), of "fst (read_clock rt) - rt_retentionDays r * 86400000"]])
          (simp add: apply_retention_def Some True history_bound_def case_prod_beta Let_def)
    next
      case False
      show thesis using assms(2)
        by (intro that [of "st_history s" rt]) (auto simp: trimmed_def apply_retention_def Some False history_bound_def)
    qed
  qed
  have ok: "table_ok he_id t1" using t1 by (simp add: trimmed_def)
  have "0 \<le> history_bound s" by (auto simp: history_bound_def history_limit_def split: option.splits)
  with drop_excess_trimmed [OF l ok, of "history_bound s"] trimmed_trans [OF t1] a show ?thesis by auto
qed

lemma add_history_form:
  "\<exists>raw rt2. add_history d e s rt =
     (case add_row he_id (pa_history d) (redact_history_entry raw) (st_history s) of
        None \<Rightarrow> (Inl constraint_error, s, rt2)
      | Some t \<Rightarrow> (let (s1, rt3) = apply_retention d (s\<lparr>st_history := t\<rparr>) rt2 in (Inr (redact_history_entry raw), s1, rt3)))"
  unfolding add_history_def Let_def case_prod_beta by (intro exI) (rule refl)

text \<open>
  C37: Adding to the history keeps it within its bounds: the new entry is stored redacted; afterwards there are at
  most as many entries as the retention settings allow (10000 without settings) or only pinned ones are
  left; no pinned entry is lost, nothing appears but the new entry, and an entry is dropped only when it is
  not newer than every unpinned entry that stays.
\<close>

theorem history_stays_bounded:
  assumes "storage_laws d" and "store_ok s" and "add_history d e s rt = (Inr saved, s', rt')"
  shows "redact_history_entry saved = saved
    \<and> (int (length (st_history s')) \<le> history_bound s \<or> (\<forall>x \<in> set (st_history s'). pinned x))
    \<and> set (st_history s') \<subseteq> insert saved (set (st_history s))
    \<and> (\<forall>x \<in> set (st_history s). pinned x \<longrightarrow> x \<in> set (st_history s'))
    \<and> (\<forall>x \<in> insert saved (set (st_history s)) - set (st_history s'). \<forall>y \<in> set (st_history s').
         \<not> pinned y \<longrightarrow> he_createdAt x \<le> he_createdAt y)"
proof -
  have l: "table_laws he_id (pa_history d)" and ok: "table_ok he_id (st_history s)"
    using assms(1,2) by (simp_all add: storage_laws_def store_ok_def)
  from add_history_form [of d e s rt] assms(3) obtain raw rt2 where saved: "saved = redact_history_entry raw"
    and new: "get_row he_id (he_id saved) (st_history s) = None"
    and s': "s' = fst (apply_retention d (s\<lparr>st_history := ta_put (pa_history d) saved (st_history s)\<rparr>) rt2)"
    by (auto simp: add_row_def case_prod_beta Let_def split: option.splits if_splits) (metis fst_conv)
  let ?s = "s\<lparr>st_history := ta_put (pa_history d) saved (st_history s)\<rparr>"
  have rows: "set (st_history ?s) = insert saved (set (st_history s))"
    using new by (auto simp: put_laws(2) [OF l ok] get_row_def find_None_iff)
  have "history_bound ?s = history_bound s"
    by (simp add: history_bound_def get_retention_settings_def get_meta_def)
  with apply_retention_trims [OF assms(1), of ?s rt2] put_laws(1) [OF l ok, of saved] rows
  show ?thesis unfolding s' by (auto simp: saved trimmed_def)
qed

theorem history_stays_bounded_witness:
  "\<exists>saved s' rt'. add_history list_storage (sample_entry_of ''a'' ''secret'' 0) store_empty sample_runtime = (Inr saved, s', rt')
     \<and> redact_history_entry saved = saved \<and> set (st_history s') \<subseteq> {saved}"
proof -
  have "case fst (add_history list_storage (sample_entry_of ''a'' ''secret'' 0) store_empty sample_runtime) of Inr x \<Rightarrow> True | Inl e \<Rightarrow> False"
    by code_simp
  then obtain saved s' rt' where
    a: "add_history list_storage (sample_entry_of ''a'' ''secret'' 0) store_empty sample_runtime = (Inr saved, s', rt')"
    by (cases "add_history list_storage (sample_entry_of ''a'' ''secret'' 0) store_empty sample_runtime")
      (auto split: sum.splits)
  from history_stays_bounded [OF list_storage_laws store_empty_ok a] a show ?thesis
    by (auto simp: store_empty_def)
qed

section \<open>Cookies\<close>

lemma upsert_cookie_rows:
  assumes "storage_laws d" and "store_ok s"
    and "\<forall>x \<in> set (st_cookies s). ck_id x = ck_id c \<longrightarrow> cookie_identity x = cookie_identity c"
  obtains c' where "cookie_identity c' = cookie_identity c" and "ck_value c' = ck_value c" and "ck_expires c' = ck_expires c"
    and "table_ok ck_id (st_cookies (upsert_cookie d c s))"
    and "set (st_cookies (upsert_cookie d c s)) = insert c' {x \<in> set (st_cookies s). cookie_identity x \<noteq> cookie_identity c}"
proof -
  let ?t = "st_cookies s" and ?same = "filter (\<lambda>x. cookie_identity x = cookie_identity c) (st_cookies s)"
  have l: "table_laws ck_id (pa_cookies d)" and ok: "table_ok ck_id ?t"
    using assms(1,2) by (simp_all add: storage_laws_def store_ok_def)
  show thesis
  proof (cases ?same)
    case Nil
    then have u: "st_cookies (upsert_cookie d c s) = ta_put (pa_cookies d) c ?t" by (simp add: upsert_cookie_def)
    have "set ?same = {}" using Nil by simp
    then have none: "cookie_identity x \<noteq> cookie_identity c" if "x \<in> set ?t" for x using that by auto
    have "{x \<in> set ?t. ck_id x \<noteq> ck_id c} = {x \<in> set ?t. cookie_identity x \<noteq> cookie_identity c}"
      using assms(3) none by blast
    with u show thesis using put_laws [OF l ok, of c] by (intro that [of c]) simp_all
  next
    case (Cons kept dupes)
    let ?c = "c\<lparr>ck_id := ck_id kept, ck_createdAt := ck_createdAt kept\<rparr>"
    let ?u = "bulk_delete (pa_cookies d) (map ck_id dupes) ?t"
    have u: "st_cookies (upsert_cookie d c s) = ta_put (pa_cookies d) ?c ?u" using Cons by (simp add: upsert_cookie_def)
    have uf: "?u = filter (\<lambda>x. ck_id x \<notin> set (map ck_id dupes)) ?t" by (rule bulk_delete_filter [OF l ok])
    have uok: "table_ok ck_id ?u" unfolding uf using ok by (rule table_ok_filter)
    have same: "set (kept # dupes) = {x \<in> set ?t. cookie_identity x = cookie_identity c}"
      unfolding Cons [symmetric] by simp
    then have kd: "kept \<in> set ?t" "cookie_identity kept = cookie_identity c" "set dupes \<subseteq> set ?t"
      "\<forall>x \<in> set dupes. cookie_identity x = cookie_identity c" by auto
    have ids: "x \<in> set ?t \<Longrightarrow> ck_id x \<in> ck_id ` set (kept # dupes) \<longleftrightarrow> x \<in> set (kept # dupes)" for x
      using table_key_unique [OF ok, of x] kd by auto
    have "{x \<in> set ?u. ck_id x \<noteq> ck_id ?c} = {x \<in> set ?t. ck_id x \<notin> ck_id ` set (kept # dupes)}"
      unfolding uf by auto
    also have "\<dots> = {x \<in> set ?t. x \<notin> set (kept # dupes)}" using ids by blast
    also have "\<dots> = {x \<in> set ?t. cookie_identity x \<noteq> cookie_identity c}" unfolding same by blast
    finally show thesis using u put_laws [OF l uok, of ?c]
      by (intro that [of ?c]) (simp_all add: cookie_identity_def)
  qed
qed

lemma inj_on_replace: "inj_on f A \<Longrightarrow> f c' = f c \<Longrightarrow> inj_on f (insert c' {x \<in> A. f x \<noteq> f c})"
  by (rule inj_on_insert [THEN iffD2]) (auto intro: inj_on_subset)

lemma replaced_class:
  assumes "f c' = f c"
  shows "{x \<in> insert c' {x \<in> A. f x \<noteq> f c}. f x = f c} = {c'}"
    and "{x \<in> insert c' {x \<in> A. f x \<noteq> f c}. f x \<noteq> f c} = {x \<in> A. f x \<noteq> f c}"
  using assms by auto

text \<open>
  Storing a cookie leaves exactly one row with its domain, path and name, with the new value and
  expiry, and every row of another cookie as it was: rows with one identity that were doubled are
  merged, and a jar without doubles stays so.
\<close>

theorem upsert_cookie_unique:
  assumes "storage_laws d" and "store_ok s"
    and "\<forall>x \<in> set (st_cookies s). ck_id x = ck_id c \<longrightarrow> cookie_identity x = cookie_identity c"
  shows "(\<exists>c'. {x \<in> set (st_cookies (upsert_cookie d c s)). cookie_identity x = cookie_identity c} = {c'}
        \<and> ck_value c' = ck_value c \<and> ck_expires c' = ck_expires c)
    \<and> {x \<in> set (st_cookies (upsert_cookie d c s)). cookie_identity x \<noteq> cookie_identity c}
        = {x \<in> set (st_cookies s). cookie_identity x \<noteq> cookie_identity c}
    \<and> (inj_on cookie_identity (set (st_cookies s)) \<longrightarrow> inj_on cookie_identity (set (st_cookies (upsert_cookie d c s))))"
proof -
  obtain c' where c': "cookie_identity c' = cookie_identity c" "ck_value c' = ck_value c" "ck_expires c' = ck_expires c"
    and r: "set (st_cookies (upsert_cookie d c s)) = insert c' {x \<in> set (st_cookies s). cookie_identity x \<noteq> cookie_identity c}"
    by (rule upsert_cookie_rows [OF assms])
  have "inj_on cookie_identity (set (st_cookies s)) \<longrightarrow> inj_on cookie_identity (set (st_cookies (upsert_cookie d c s)))"
    unfolding r by (intro impI inj_on_replace c'(1))
  then show ?thesis unfolding r replaced_class [of cookie_identity, OF c'(1)] using c'(2, 3) by blast
qed

definition jar_cookie :: "string \<Rightarrow> string \<Rightarrow> stored_cookie" where
  "jar_cookie i v = \<lparr>ck_id = i, ck_domain = ''a.b'', ck_path = ''/'', ck_name = ''n'', ck_value = v, ck_secure = False,
     ck_httpOnly = False, ck_sameSite = None, ck_expires = None, ck_createdAt = 0, ck_updatedAt = 0\<rparr>"

theorem upsert_cookie_unique_witness:
  "\<exists>c'. {x \<in> set (st_cookies (upsert_cookie list_storage (jar_cookie ''3'' ''new'')
        (store_empty\<lparr>st_cookies := [jar_cookie ''1'' ''old'', jar_cookie ''2'' ''older'']\<rparr>))).
      cookie_identity x = cookie_identity (jar_cookie ''3'' ''new'')} = {c'} \<and> ck_value c' = ''new''"
proof -
  have ok: "store_ok (store_empty\<lparr>st_cookies := [jar_cookie ''1'' ''old'', jar_cookie ''2'' ''older'']\<rparr>)"
    by (simp add: store_ok_def store_empty_def table_ok_def jar_cookie_def)
  have same: "\<forall>x \<in> set (st_cookies (store_empty\<lparr>st_cookies := [jar_cookie ''1'' ''old'', jar_cookie ''2'' ''older'']\<rparr>)).
      ck_id x = ck_id (jar_cookie ''3'' ''new'') \<longrightarrow> cookie_identity x = cookie_identity (jar_cookie ''3'' ''new'')"
    by (simp add: jar_cookie_def)
  have v: "ck_value (jar_cookie ''3'' ''new'') = ''new''" by (simp add: jar_cookie_def)
  show ?thesis using upsert_cookie_unique [OF list_storage_laws ok same] unfolding v by blast
qed

section \<open>Migration and workspace\<close>

definition store_clean :: "store \<Rightarrow> bool" where
  "store_clean s \<longleftrightarrow>
     (\<forall>r \<in> set (st_requests s). \<not> has_moved_network_options (request_options_of (sr_request r)))
     \<and> (\<forall>e \<in> set (st_history s). \<not> has_moved_network_options (request_options_of (he_request e)))
     \<and> (\<forall>f \<in> set (st_flows s). flow_clean f)"

lemma migrate_maps:
  assumes "storage_laws d" and "store_ok s"
  shows "migrate_network_options d s =
    s\<lparr>st_requests := map strip_saved_request (st_requests s), st_history := map strip_history_entry (st_history s),
      st_flows := map strip_flow (st_flows s),
      st_meta := ta_put (pa_meta d) \<lparr>me_key = ''schemaVersion'', me_value = Meta_number 6\<rparr> (st_meta s)\<rparr>"
  using assms
  by (simp add: migrate_network_options_def storage_laws_def store_ok_def
      rewrite_changed_map [where key = sr_id] rewrite_changed_map [where key = he_id] rewrite_changed_map [where key = fw_id])

text \<open>
  After the migration no stored request, history entry or flow step, however deeply nested, has a
  network option of its own; rows that had none and the other tables are untouched, the version is
  recorded, and migrating once more changes nothing.
\<close>

theorem migration_complete:
  assumes "storage_laws d" and "store_ok s"
  shows "store_clean (migrate_network_options d s)
    \<and> get_meta ''schemaVersion'' (migrate_network_options d s) = Some (Meta_number 6)
    \<and> (store_clean s \<longrightarrow> migrate_network_options d s = s\<lparr>st_meta := st_meta (migrate_network_options d s)\<rparr>)
    \<and> st_requests (migrate_network_options d (migrate_network_options d s)) = st_requests (migrate_network_options d s)
    \<and> st_history (migrate_network_options d (migrate_network_options d s)) = st_history (migrate_network_options d s)
    \<and> st_flows (migrate_network_options d (migrate_network_options d s)) = st_flows (migrate_network_options d s)"
proof -
  let ?m = "migrate_network_options d s"
  have l: "table_laws me_key (pa_meta d)" and okm: "table_ok me_key (st_meta s)"
    using assms by (simp_all add: storage_laws_def store_ok_def)
  have keys: "map sr_id (st_requests ?m) = map sr_id (st_requests s)" "map he_id (st_history ?m) = map he_id (st_history s)"
    "map fw_id (st_flows ?m) = map fw_id (st_flows s)" by (simp_all add: migrate_maps [OF assms])
  have ok: "store_ok ?m"
    using assms(2) put_laws(1) [OF l okm] unfolding store_ok_def table_ok_def keys
    by (simp add: migrate_maps [OF assms] table_ok_def)
  have clean: "store_clean ?m" by (auto simp: store_clean_def migrate_maps [OF assms])
  have same: "st_requests (migrate_network_options d u) = st_requests u \<and> st_history (migrate_network_options d u) = st_history u
      \<and> st_flows (migrate_network_options d u) = st_flows u" if "store_ok u" "store_clean u" for u
    using that by (auto simp: migrate_maps [OF assms(1) that(1)] store_clean_def
        intro!: map_idI strip_saved_request_id strip_history_entry_id strip_flow_id)
  have "store_clean s \<Longrightarrow> ?m = s\<lparr>st_meta := st_meta ?m\<rparr>"
    using same [OF assms(2)] by (simp add: migrate_maps [OF assms])
  moreover have "get_meta ''schemaVersion'' ?m = Some (Meta_number 6)"
    by (simp add: get_meta_def migrate_maps [OF assms] get_row_put [OF l okm])
  ultimately show ?thesis using clean same [OF ok clean] by blast
qed

theorem migration_complete_witness:
  "get_meta ''schemaVersion'' (migrate_network_options list_storage store_empty) = Some (Meta_number 6)
   \<and> store_clean (migrate_network_options list_storage store_empty)"
  using migration_complete [OF list_storage_laws store_empty_ok] by blast

lemma over_idem [simp]: "over (over a b) (over a b) = over a b" "over a (over a b) = over a b"
  by (auto simp: over_def split: option.splits)

lemma merge_idem: "merge_with_defaults (Some (merge_with_defaults v initial)) initial = merge_with_defaults v initial"
  by (simp add: merge_with_defaults_def Let_def merge_tls_def opt_tls_def)

lemma merge_defaults_idem:
  "merge_defaults initial (Some (defaults_given (merge_defaults initial v))) = merge_defaults initial v"
  by (simp add: merge_defaults_def defaults_given_def merge_protocol_defaults_def merge_idem)

lemma put_all_empty:
  assumes "table_laws key a" and "table_ok key t"
  shows "bulk_put a t [] = t"
proof (rule table_ok_set_eq)
  have e: "table_ok key []" by (simp add: table_ok_def)
  show "table_ok key (bulk_put a t [])" by (rule bulk_put_ok [OF assms(1) e])
  show "set (bulk_put a t []) = set t"
    using bulk_put_rows [OF assms(1) e, of t] assms(2) by (simp add: table_ok_def)
qed (rule assms(2))

text \<open>
  C38: A workspace comes back from its export: importing what a migrated database exports into an empty
  one restores every collection, folder, request, environment and flow row for row, and the effective
  network defaults of all four protocols.
\<close>

theorem workspace_round_trip:
  assumes "storage_laws d" and "store_ok s" and "store_clean s"
  shows "st_collections (import_workspace h d (export_workspace s) store_empty) = st_collections s
    \<and> st_folders (import_workspace h d (export_workspace s) store_empty) = st_folders s
    \<and> st_requests (import_workspace h d (export_workspace s) store_empty) = st_requests s
    \<and> st_environments (import_workspace h d (export_workspace s) store_empty) = st_environments s
    \<and> st_flows (import_workspace h d (export_workspace s) store_empty) = st_flows s
    \<and> get_default_protocol_options (import_workspace h d (export_workspace s) store_empty) = get_default_protocol_options s"
proof -
  have r: "map strip_saved_request (st_requests s) = st_requests s" and f: "map strip_flow (st_flows s) = st_flows s"
    using assms(3) by (auto simp: store_clean_def intro!: map_idI strip_saved_request_id strip_flow_id)
  have l: "table_laws me_key (pa_meta d)" and e: "table_ok me_key []"
    using assms(1) by (simp_all add: storage_laws_def table_ok_def)
  have put: "bulk_put (pa_collections d) (st_collections s) [] = st_collections s"
    "bulk_put (pa_folders d) (st_folders s) [] = st_folders s" "bulk_put (pa_requests d) (st_requests s) [] = st_requests s"
    "bulk_put (pa_environments d) (st_environments s) [] = st_environments s" "bulk_put (pa_flows d) (st_flows s) [] = st_flows s"
    using assms(1,2) by (auto simp: storage_laws_def store_ok_def intro: put_all_empty)
  have idem: "merge_defaults initial_defaults (Some (defaults_given (get_default_protocol_options s)))
      = get_default_protocol_options s"
    by (simp add: get_default_protocol_options_def merge_defaults_idem)
  have "get_meta ''defaultProtocolOptions'' (import_workspace h d (export_workspace s) store_empty)
      = Some (Meta_defaults (merge_defaults initial_defaults (Some (defaults_given (get_default_protocol_options s)))))"
    by (simp add: import_workspace_def export_workspace_def set_default_protocol_options_def set_meta_def Let_def
        get_meta_def store_empty_def get_row_put [OF l e])
  then have "get_default_protocol_options (import_workspace h d (export_workspace s) store_empty)
      = merge_defaults initial_defaults (Some (defaults_given
          (merge_defaults initial_defaults (Some (defaults_given (get_default_protocol_options s))))))"
    by (subst get_default_protocol_options_def) (simp add: Let_def)
  then have defaults: "get_default_protocol_options (import_workspace h d (export_workspace s) store_empty)
      = get_default_protocol_options s" by (simp only: idem)
  show ?thesis
    using put defaults
    by (simp add: import_workspace_def export_workspace_def set_default_protocol_options_def set_meta_def Let_def
        store_empty_def r f)
qed

theorem workspace_round_trip_witness:
  "st_folders (import_workspace sample_host list_storage (export_workspace folder_store) store_empty) = st_folders folder_store"
proof -
  have "store_ok folder_store"
    by (simp add: store_ok_def folder_store_def store_empty_def table_ok_def sample_folder_def)
  moreover have "store_clean folder_store" by (simp add: store_clean_def folder_store_def store_empty_def)
  ultimately show ?thesis using workspace_round_trip [OF list_storage_laws] by blast
qed

section \<open>The active environment\<close>

text \<open>
  Clearing the active environment always raises, and so does deleting the active environment, after the
  row is gone; the setting keeps the identifier of the deleted environment.
\<close>

lemma active_environment_sticks:
  "fst (set_active_environment_id h d None s) = Inl (syntax_error h ''undefined'')
   \<and> (get_active_environment_id s = Some i \<longrightarrow>
        fst (delete_environment h d i s) = Inl (syntax_error h ''undefined'')
        \<and> get_active_environment_id (snd (delete_environment h d i s)) = Some i)"
  by (simp add: set_active_environment_id_def set_meta_def delete_environment_def get_active_environment_id_def
      get_meta_def Let_def)

end
