(* ===== verification/Storage_Run.thy ===== *)
theory Storage_Run
  imports Storage_Facts
begin

text \<open>
  The database as a state machine: one step is one completed call of an operation that writes, with any
  arguments and at any time; whatever sequence of calls the interface makes, the tables stay well formed
  and the cookies unique. The last part shows that reordering requests is what listing them shows.
\<close>

section \<open>Steps\<close>

inductive store_step :: "host \<Rightarrow> storage_api \<Rightarrow> store \<Rightarrow> store \<Rightarrow> bool" for h d where
  save_graphql_schema: "store_step h d s (snd (save_graphql_schema h d e j s))"
| set_retention_settings: "store_step h d s (snd (set_retention_settings h d r s))"
| set_default_protocol_options: "store_step h d s (snd (set_default_protocol_options h d p s))"
| save_response_example: "store_step h d s (snd (save_response_example h d x s))"
| delete_response_example: "store_step h d s (snd (delete_response_example h d i s))"
| save_diff_ignore_rules: "store_step h d s (snd (save_diff_ignore_rules h d rules s))"
| set_active_environment_id: "store_step h d s (snd (set_active_environment_id h d v s))"
| delete_environment: "store_step h d s (snd (delete_environment h d i s))"
| save_environment: "save_environment d v name vars t s rt = (e, s', rt') \<Longrightarrow> store_step h d s s'"
| create_collection: "create_collection d name data s rt = (r, s', rt') \<Longrightarrow> store_step h d s s'"
| update_collection: "update_collection d c s rt = (c', s', rt') \<Longrightarrow> store_step h d s s'"
| delete_collection: "store_step h d s (delete_collection d i s)"
| create_folder: "create_folder d i name v fdata s rt = (r, s', rt') \<Longrightarrow> store_step h d s s'"
| update_folder: "update_folder d f s rt = (f', s', rt') \<Longrightarrow> store_step h d s s'"
| delete_folder: "store_step h d s (delete_folder d i s)"
| reorder_requests: "reorder_requests d ids s rt = (s', rt') \<Longrightarrow> store_step h d s s'"
| move_request: "move_request d i v s rt = (m, s', rt') \<Longrightarrow> store_step h d s s'"
| save_request: "save_request d q df name i opts s rt = (sr, s', rt') \<Longrightarrow> store_step h d s s'"
| delete_request: "store_step h d s (delete_request d i s)"
| save_flow: "save_flow d v name steps t s rt = (fl, s', rt') \<Longrightarrow> store_step h d s s'"
| delete_flow: "store_step h d s (delete_flow d i s)"
| add_history: "add_history d en s rt = (r, s', rt') \<Longrightarrow> store_step h d s s'"
| pin_history_entry: "store_step h d s (pin_history_entry d i b s)"
| set_history_entry_label: "store_step h d s (set_history_entry_label d i l s)"
| clear_history: "store_step h d s (clear_history d s)"
| delete_history_entry: "store_step h d s (delete_history_entry d i s)"
| delete_history_entries: "store_step h d s (delete_history_entries d ids s)"
| upsert_cookies: "store_step h d s (upsert_cookies d cs s)"
| update_cookie: "update_cookie d ck s rt = (r, s', rt') \<Longrightarrow> store_step h d s s'"
| delete_cookie: "store_step h d s (delete_cookie d i s)"
| clear_cookies: "store_step h d s (clear_cookies d v s)"
| import_workspace: "store_step h d s (import_workspace h d w s)"

definition store_well_formed :: "store \<Rightarrow> bool" where
  "store_well_formed s \<longleftrightarrow> store_ok s \<and> inj_on cookie_identity (set (st_cookies s))"

named_theorems table_intros \<open>what keeps a table in the order of distinct keys\<close>

lemma table_delete_ok [table_intros]:
  "table_laws key a \<Longrightarrow> table_ok key t \<Longrightarrow> table_ok key (ta_delete a k t)"
  by (simp add: delete_law table_ok_filter)

lemma table_bulk_delete_ok [table_intros]:
  "table_laws key a \<Longrightarrow> table_ok key t \<Longrightarrow> table_ok key (bulk_delete a ks t)"
  by (simp add: bulk_delete_filter table_ok_filter)

lemma table_delete_where_ok [table_intros]:
  "table_laws key a \<Longrightarrow> table_ok key t \<Longrightarrow> table_ok key (delete_where key a P t)"
  by (simp add: delete_where_def table_bulk_delete_ok)

lemma table_modify_ok [table_intros]:
  "table_laws key a \<Longrightarrow> table_ok key t \<Longrightarrow> table_ok key (modify_where a P f t)"
  by (simp add: modify_where_def bulk_put_ok)

lemma table_add_ok:
  "add_row key a v t = Some u \<Longrightarrow> table_laws key a \<Longrightarrow> table_ok key t \<Longrightarrow> table_ok key u"
  by (auto simp: add_row_def put_laws split: if_splits)

lemmas table_puts [table_intros] = put_laws(1) bulk_put_ok

lemma table_nil_ok [table_intros]: "table_ok key []"
  by (simp add: table_ok_def)

lemma table_reorder_ok [table_intros]:
  assumes "table_laws sr_id (pa_requests d)"
  shows "table_ok sr_id t \<Longrightarrow> table_ok sr_id (reorder_from d now i ids t)"
  by (induction ids arbitrary: i t) (simp_all add: table_modify_ok assms)

lemma set_meta_ok: "storage_laws d \<Longrightarrow> store_well_formed s \<Longrightarrow> store_well_formed (snd (set_meta h d k v s))"
  by (auto simp: store_well_formed_def store_ok_def storage_laws_def set_meta_def table_intros split: option.splits)

text \<open>Replacing one table by another in order.\<close>

lemma put_table_ok [table_intros]:
  assumes "store_well_formed s"
  shows "table_ok co_id t1 \<Longrightarrow> store_well_formed (s\<lparr>st_collections := t1\<rparr>)"
    and "table_ok fo_id t2 \<Longrightarrow> store_well_formed (s\<lparr>st_folders := t2\<rparr>)"
    and "table_ok sr_id t3 \<Longrightarrow> store_well_formed (s\<lparr>st_requests := t3\<rparr>)"
    and "table_ok en_id t4 \<Longrightarrow> store_well_formed (s\<lparr>st_environments := t4\<rparr>)"
    and "table_ok he_id t5 \<Longrightarrow> store_well_formed (s\<lparr>st_history := t5\<rparr>)"
    and "table_ok fw_id t6 \<Longrightarrow> store_well_formed (s\<lparr>st_flows := t6\<rparr>)"
  using assms by (simp_all add: store_well_formed_def store_ok_def)

lemma well_formed_tables [table_intros]:
  assumes "store_well_formed s"
  shows "table_ok co_id (st_collections s)" and "table_ok fo_id (st_folders s)" and "table_ok sr_id (st_requests s)"
    and "table_ok en_id (st_environments s)" and "table_ok he_id (st_history s)" and "table_ok fw_id (st_flows s)"
  using assms by (simp_all add: store_well_formed_def store_ok_def)

lemma table_api_laws [table_intros]:
  assumes "storage_laws d"
  shows "table_laws co_id (pa_collections d)" and "table_laws fo_id (pa_folders d)" and "table_laws sr_id (pa_requests d)"
    and "table_laws en_id (pa_environments d)" and "table_laws he_id (pa_history d)" and "table_laws fw_id (pa_flows d)"
  using assms by (simp_all add: storage_laws_def)

lemma apply_retention_ok:
  "storage_laws d \<Longrightarrow> store_well_formed s \<Longrightarrow> apply_retention d s rt = (s', rt') \<Longrightarrow> store_well_formed s'"
  by (auto simp: apply_retention_def drop_stale_def drop_excess_def Let_def split: prod.splits if_splits intro!: table_intros)

lemma upsert_cookie_ok:
  assumes "storage_laws d" and "store_well_formed s"
  shows "store_well_formed (upsert_cookie d c s)"
proof -
  let ?t = "st_cookies s"
  have l: "table_laws ck_id (pa_cookies d)" and ok: "table_ok ck_id ?t" and u: "inj_on cookie_identity (set ?t)"
    using assms by (simp_all add: storage_laws_def store_well_formed_def store_ok_def)
  have put: "table_ok ck_id (ta_put (pa_cookies d) c' v) \<and> inj_on cookie_identity (set (ta_put (pa_cookies d) c' v))"
    if v: "table_ok ck_id v" "set v \<subseteq> set ?t"
      and one: "\<And>x. x \<in> set v \<Longrightarrow> cookie_identity x = cookie_identity c' \<Longrightarrow> ck_id x = ck_id c'" for c' v
  proof -
    have "inj_on cookie_identity (set v)" using u v(2) by (rule inj_on_subset)
    then show ?thesis using put_laws [OF l v(1), of c'] one by (auto simp: inj_on_def)
  qed
  show ?thesis
  proof (cases "filter (\<lambda>x. cookie_identity x = cookie_identity c) ?t")
    case Nil
    then have "\<And>x. x \<in> set ?t \<Longrightarrow> cookie_identity x \<noteq> cookie_identity c"
      by (simp add: filter_empty_conv)
    with Nil put [OF ok subset_refl, of c] assms(2) show ?thesis
      by (auto simp: upsert_cookie_def store_well_formed_def store_ok_def)
  next
    case (Cons kept dupes)
    let ?c = "c\<lparr>ck_id := ck_id kept, ck_createdAt := ck_createdAt kept\<rparr>"
    let ?v = "bulk_delete (pa_cookies d) (map ck_id dupes) ?t"
    have "kept \<in> set (filter (\<lambda>x. cookie_identity x = cookie_identity c) ?t)" using Cons by simp
    then have k: "kept \<in> set ?t" "cookie_identity kept = cookie_identity ?c" by (auto simp: cookie_identity_def)
    have v: "table_ok ck_id ?v" "set ?v \<subseteq> set ?t" by (auto simp: bulk_delete_filter [OF l ok] table_ok_filter ok)
    have "ck_id x = ck_id ?c" if "x \<in> set ?v" "cookie_identity x = cookie_identity ?c" for x
    proof -
      have "cookie_identity x = cookie_identity kept" using that(2) k(2) by simp
      then have "x = kept" using that(1) v(2) k(1) inj_onD [OF u, of x kept] by blast
      then show ?thesis by simp
    qed
    from put [OF v this] show ?thesis
      using Cons assms(2) by (simp add: upsert_cookie_def store_well_formed_def store_ok_def)
  qed
qed

lemma upsert_cookies_ok:
  "storage_laws d \<Longrightarrow> store_well_formed s \<Longrightarrow> store_well_formed (upsert_cookies d cs s)"
  unfolding upsert_cookies_def by (induction cs arbitrary: s) (simp_all add: upsert_cookie_ok)

lemma update_cookie_ok:
  assumes "storage_laws d" and "store_well_formed s" and "update_cookie d c s rt = (r, s', rt')"
  shows "store_well_formed s'"
proof -
  have l: "table_laws ck_id (pa_cookies d)" and ok: "table_ok ck_id (st_cookies s)"
    and u: "inj_on cookie_identity (set (st_cookies s))"
    using assms(1,2) by (simp_all add: storage_laws_def store_well_formed_def store_ok_def)
  obtain now rt1 where clock: "read_clock rt = (now, rt1)" by (cases "read_clock rt")
  show ?thesis
  proof (cases "list_ex (\<lambda>x. cookie_identity x = cookie_identity c \<and> ck_id x \<noteq> ck_id c) (st_cookies s)")
    case True
    with assms(2,3) show ?thesis by (simp add: update_cookie_def clock)
  next
    case False
    let ?c = "c\<lparr>ck_updatedAt := now\<rparr>"
    have i: "cookie_identity ?c = cookie_identity c" by (simp add: cookie_identity_def)
    have s': "s' = s\<lparr>st_cookies := ta_put (pa_cookies d) ?c (st_cookies s)\<rparr>"
      using False assms(3) by (simp add: update_cookie_def clock)
    have "inj_on cookie_identity (set (ta_put (pa_cookies d) ?c (st_cookies s)))"
      unfolding put_laws(2) [OF l ok] inj_on_insert
      using u False i by (auto simp: list_ex_iff inj_on_def)
    then show ?thesis
      unfolding s' using assms(2) put_laws(1) [OF l ok] by (simp add: store_well_formed_def store_ok_def)
  qed
qed

lemma delete_cookies_ok:
  assumes "storage_laws d" and "store_well_formed s"
  shows "store_well_formed (delete_cookie d i s)" and "store_well_formed (clear_cookies d v s)"
proof -
  have l: "table_laws ck_id (pa_cookies d)" and ok: "table_ok ck_id (st_cookies s)"
    using assms by (simp_all add: storage_laws_def store_well_formed_def store_ok_def)
  show "store_well_formed (delete_cookie d i s)"
    using assms(2)
    by (auto simp: delete_cookie_def delete_law [OF l ok] store_well_formed_def store_ok_def table_ok_filter intro: inj_on_subset)
  show "store_well_formed (clear_cookies d v s)"
    using assms(2)
    by (auto simp: clear_cookies_def delete_where_filter [OF l ok] store_well_formed_def store_ok_def table_nil_ok
        table_ok_filter intro: inj_on_subset)
qed

lemma add_history_ok:
  assumes "storage_laws d" and "store_well_formed s" and "add_history d e s rt = (r, s', rt')"
  shows "store_well_formed s'"
proof -
  have put: "store_well_formed (s\<lparr>st_history := t\<rparr>)" if "add_row he_id (pa_history d) v (st_history s) = Some t" for v t
    using assms(1,2) that by (blast intro: table_intros table_add_ok)
  obtain i rt1 now rt2 where draw: "draw_uuid rt = (i, rt1)" "read_clock rt1 = (now, rt2)" by fastforce
  show ?thesis
    using assms(2,3) unfolding add_history_def draw Let_def prod.case
    by (auto split: option.splits prod.splits dest!: put intro: apply_retention_ok [OF assms(1)])
qed

lemma settings_ok:
  assumes "storage_laws d" and "store_well_formed s"
  shows "store_well_formed (snd (save_graphql_schema h d e j s))" and "store_well_formed (snd (set_retention_settings h d r s))"
    and "store_well_formed (snd (set_default_protocol_options h d p s))" and "store_well_formed (snd (save_response_example h d x s))"
    and "store_well_formed (snd (delete_response_example h d i s))" and "store_well_formed (snd (save_diff_ignore_rules h d rules s))"
    and "store_well_formed (snd (set_active_environment_id h d v s))"
  using set_meta_ok [OF assms]
  by (simp_all add: save_graphql_schema_def set_retention_settings_def set_default_protocol_options_def
      save_response_example_def delete_response_example_def save_diff_ignore_rules_def set_active_environment_id_def)

lemma delete_environment_ok:
  "storage_laws d \<Longrightarrow> store_well_formed s \<Longrightarrow> store_well_formed (snd (delete_environment h d i s))"
  by (auto simp: delete_environment_def Let_def intro!: table_intros settings_ok(7))

lemma import_workspace_ok:
  "storage_laws d \<Longrightarrow> store_well_formed s \<Longrightarrow> store_well_formed (import_workspace h d w s)"
proof -
  assume d: "storage_laws d" and s: "store_well_formed s"
  let ?s = "s\<lparr>st_collections := bulk_put (pa_collections d) (wk_collections w) (st_collections s),
    st_folders := bulk_put (pa_folders d) (wk_folders w) (st_folders s),
    st_requests := bulk_put (pa_requests d) (map strip_saved_request (wk_requests w)) (st_requests s),
    st_environments := bulk_put (pa_environments d) (wk_environments w) (st_environments s),
    st_flows := bulk_put (pa_flows d) (map strip_flow (wk_flows w)) (st_flows s)\<rparr>"
  have "store_well_formed ?s"
    using s d by (simp add: store_well_formed_def store_ok_def storage_laws_def bulk_put_ok)
  then show ?thesis using settings_ok(3) [OF d] by (simp add: import_workspace_def Let_def split: option.split)
qed

lemma saves_ok:
  assumes "storage_laws d" and "store_well_formed s"
  shows "save_environment d v name vars t s rt = (e, s', rt') \<Longrightarrow> store_well_formed s'"
    and "create_collection d name data s rt = (rc, s', rt') \<Longrightarrow> store_well_formed s'"
    and "update_collection d c s rt = (c', s', rt') \<Longrightarrow> store_well_formed s'"
    and "create_folder d i name v fdata s rt = (rf, s', rt') \<Longrightarrow> store_well_formed s'"
    and "update_folder d f s rt = (f', s', rt') \<Longrightarrow> store_well_formed s'"
    and "reorder_requests d ids s rt = (s', rt') \<Longrightarrow> store_well_formed s'"
    and "move_request d i v s rt = (m, s', rt') \<Longrightarrow> store_well_formed s'"
    and "save_request d q df name i opts s rt = (sr, s', rt') \<Longrightarrow> store_well_formed s'"
    and "save_flow d v name steps t s rt = (fl, s', rt') \<Longrightarrow> store_well_formed s'"
proof -
  note laws = table_api_laws [OF assms(1)] and tables = well_formed_tables [OF assms(2)]
  note adds = table_add_ok [OF _ laws(1) tables(1)] table_add_ok [OF _ laws(2) tables(2)]
    and rules = put_table_ok [OF assms(2)] table_puts(1) table_reorder_ok laws tables
  show "save_environment d v name vars t s rt = (e, s', rt') \<Longrightarrow> store_well_formed s'"
    by (auto simp: save_environment_def Let_def split_beta intro!: rules)
  show "create_collection d name data s rt = (rc, s', rt') \<Longrightarrow> store_well_formed s'"
    by (insert assms(2), auto simp: create_collection_def Let_def split_beta split: option.splits dest!: adds intro!: rules)
  show "update_collection d c s rt = (c', s', rt') \<Longrightarrow> store_well_formed s'"
    by (auto simp: update_collection_def Let_def split_beta intro!: rules)
  show "create_folder d i name v fdata s rt = (rf, s', rt') \<Longrightarrow> store_well_formed s'"
    by (insert assms(2), auto simp: create_folder_def Let_def split_beta split: option.splits dest!: adds intro!: rules)
  show "update_folder d f s rt = (f', s', rt') \<Longrightarrow> store_well_formed s'"
    by (auto simp: update_folder_def Let_def split_beta intro!: rules)
  show "reorder_requests d ids s rt = (s', rt') \<Longrightarrow> store_well_formed s'"
    by (auto simp: reorder_requests_def Let_def split_beta intro!: rules)
  show "move_request d i v s rt = (m, s', rt') \<Longrightarrow> store_well_formed s'"
    by (insert assms(2), auto simp: move_request_def Let_def split_beta split: option.splits intro!: rules)
  show "save_request d q df name i opts s rt = (sr, s', rt') \<Longrightarrow> store_well_formed s'"
    by (auto simp: save_request_def Let_def split_beta intro!: rules)
  show "save_flow d v name steps t s rt = (fl, s', rt') \<Longrightarrow> store_well_formed s'"
    by (auto simp: save_flow_def Let_def split_beta intro!: rules)
qed

lemma deletes_ok:
  assumes "storage_laws d" and "store_well_formed s"
  shows "store_well_formed (delete_collection d i s)" and "store_well_formed (delete_folder d i s)"
    and "store_well_formed (delete_request d i s)" and "store_well_formed (delete_flow d i s)"
    and "store_well_formed (pin_history_entry d i b s)" and "store_well_formed (set_history_entry_label d i l s)"
    and "store_well_formed (clear_history d s)" and "store_well_formed (delete_history_entry d i s)"
    and "store_well_formed (delete_history_entries d ids s)"
proof -
  show "store_well_formed (delete_collection d i s)"
    using assms by (simp add: delete_collection_def store_well_formed_def store_ok_def storage_laws_def
        table_delete_ok table_delete_where_ok)
  show "store_well_formed (delete_folder d i s)"
    using assms by (simp add: delete_folder_def Let_def store_well_formed_def store_ok_def storage_laws_def
        table_bulk_delete_ok table_delete_where_ok)
qed (use assms in \<open>auto simp: delete_request_def delete_flow_def pin_history_entry_def set_history_entry_label_def
    clear_history_def delete_history_entry_def delete_history_entries_def intro!: table_intros\<close>)

lemma store_step_ok:
  assumes "store_step h d s s'" and "storage_laws d" and "store_well_formed s"
  shows "store_well_formed s'"
  using assms
proof (induction rule: store_step.induct)
  case (add_history en s rt r s' rt') then show ?case by (blast intro: add_history_ok)
next
  case (update_cookie ck s rt r s' rt') then show ?case by (blast intro: update_cookie_ok)
qed (blast intro: settings_ok delete_environment_ok import_workspace_ok saves_ok deletes_ok upsert_cookies_ok
    delete_cookies_ok)+



section \<open>Order\<close>

text \<open>What the loop of \<open>reorderRequests\<close> makes of one request.\<close>

fun placed :: "int \<Rightarrow> int \<Rightarrow> string list \<Rightarrow> saved_request \<Rightarrow> saved_request" where
  "placed now i [] r = r"
| "placed now i (x # xs) r =
     placed now (i + 1) xs (if sr_id r = x then r\<lparr>sr_sortOrder := i, sr_updatedAt := now\<rparr> else r)"

lemma placed_keeps [simp]:
  "sr_id (placed now i ids r) = sr_id r" "sr_collectionId (placed now i ids r) = sr_collectionId r"
  by (induction ids arbitrary: i r) simp_all

lemma placed_other: "sr_id r \<notin> set ids \<Longrightarrow> placed now i ids r = r"
  by (induction ids arbitrary: i) simp_all

lemma placed_order:
  "distinct ids \<Longrightarrow> k < length ids \<Longrightarrow> sr_id r = ids ! k \<Longrightarrow> sr_sortOrder (placed now i ids r) = i + int k"
proof (induction ids arbitrary: i k r)
  case (Cons x xs)
  then show ?case
  proof (cases k)
    case 0
    with Cons.prems show ?thesis by (simp add: placed_other)
  next
    case (Suc j)
    then have "sr_id r \<noteq> x" using Cons.prems by auto
    with Suc Cons.prems Cons.IH [of j r "i + 1"] show ?thesis by simp
  qed
qed simp

lemma reorder_from_placed:
  assumes "table_laws sr_id (pa_requests d)"
  shows "table_ok sr_id t \<Longrightarrow> reorder_from d now i ids t = map (placed now i ids) t"
proof (induction ids arbitrary: i t)
  case (Cons x xs)
  let ?f = "\<lambda>r. if sr_id r = x then r\<lparr>sr_sortOrder := i, sr_updatedAt := now\<rparr> else r"
  have m: "modify_where (pa_requests d) (\<lambda>r. sr_id r = x) (\<lambda>r. r\<lparr>sr_sortOrder := i, sr_updatedAt := now\<rparr>) t = map ?f t"
    by (rule modify_where_map [OF assms Cons.prems]) simp
  have k: "map sr_id (map ?f t) = map sr_id t" by simp
  have "table_ok sr_id (map ?f t)" using Cons.prems unfolding table_ok_def k .
  from Cons.IH [OF this] show ?case by (simp add: m comp_def)
qed (simp add: map_idI)

lemma sort_by_position:
  assumes "\<And>x. x \<in> set xs \<Longrightarrow> 0 \<le> pos x \<and> nat (pos x) < length ids \<and> ids ! nat (pos x) = key x"
    and "set ids = key ` set xs" and "distinct ids" and "distinct (map key xs)"
  shows "map key (sort_key pos xs) = ids"
proof -
  let ?m = "sort_key pos xs"
  have key: "key x = ids ! nat (pos x)" if "x \<in> set xs" for x using assms(1) [OF that] by simp
  have "inj_on pos (set xs)" using assms(4) key by (auto simp: distinct_map inj_on_def)
  moreover have "distinct xs" using assms(4) by (simp add: distinct_map)
  ultimately have d: "distinct (map pos ?m)" by (simp add: distinct_map)
  have "pos ` set xs = int ` {0..<length ids}"
  proof (intro equalityI subsetI)
    fix k assume "k \<in> pos ` set xs"
    then show "k \<in> int ` {0..<length ids}" using assms(1) by (force intro: image_eqI [of _ _ "nat k"])
  next
    fix k assume "k \<in> int ` {0..<length ids}"
    then obtain n where n: "k = int n" "n < length ids" by auto
    then have "ids ! n \<in> key ` set xs" using assms(2) by (metis nth_mem)
    then obtain x where x: "x \<in> set xs" "ids ! n = key x" by blast
    with assms(1,3) n(2) have "nat (pos x) = n" by (metis nth_eq_iff_index_eq)
    then show "k \<in> pos ` set xs" using x(1) n(1) assms(1) by force
  qed
  then have s: "set (map pos ?m) = set (map int [0..<length ids])" by simp
  have "map pos ?m = map int [0..<length ids]"
  proof (rule sorted_distinct_set_unique)
    show "sorted (map pos ?m)" by simp
    show "sorted (map int [0..<length ids])" unfolding sorted_map by (rule sorted_wrt_mono_rel [OF _ sorted_wrt_upt]) simp
  qed (use d s in \<open>simp_all add: distinct_map\<close>)
  then have "map (\<lambda>p. ids ! nat p) (map pos ?m) = map (\<lambda>p. ids ! nat p) (map int [0..<length ids])" by (rule arg_cong)
  also have "\<dots> = ids" by (simp add: comp_def map_nth)
  finally have "map (\<lambda>x. ids ! nat (pos x)) ?m = ids" by (simp add: comp_def)
  moreover have "map key ?m = map (\<lambda>x. ids ! nat (pos x)) ?m" using key by simp
  ultimately show ?thesis by simp
qed

text \<open>
  Reordering is what listing shows: after \<open>reorderRequests\<close> with the identifiers of the requests of a
  collection in a new order, \<open>listRequests\<close> of that collection gives them in that order, and the requests
  of other collections are as they were.
\<close>

theorem reorder_is_listed:
  assumes "storage_laws d" and "store_ok s" and "c \<noteq> []" and "distinct ids"
    and "set ids = sr_id ` {r \<in> set (st_requests s). sr_collectionId r = c}"
  shows "map sr_id (list_requests (Some c) (fst (reorder_requests d ids s rt))) = ids
    \<and> (\<forall>b. b \<noteq> c \<and> b \<noteq> [] \<longrightarrow> list_requests (Some b) (fst (reorder_requests d ids s rt)) = list_requests (Some b) s)"
proof -
  obtain now rt1 where clock: "read_clock rt = (now, rt1)" by (cases "read_clock rt")
  have l: "table_laws sr_id (pa_requests d)" and ok: "table_ok sr_id (st_requests s)"
    using assms(1,2) by (simp_all add: storage_laws_def store_ok_def)
  let ?p = "placed now 0 ids"
  have after: "st_requests (fst (reorder_requests d ids s rt)) = map ?p (st_requests s)"
    by (simp add: reorder_requests_def clock reorder_from_placed [OF l ok])
  have own: "filter (\<lambda>r. sr_collectionId r = b) (map ?p (st_requests s))
      = map ?p (filter (\<lambda>r. sr_collectionId r = b) (st_requests s))" for b
    by (simp add: filter_map comp_def)
  let ?xs = "filter (\<lambda>r. sr_collectionId r = c) (st_requests s)"
  have "map sr_id (sort_key sr_sortOrder (map ?p ?xs)) = ids"
  proof (rule sort_by_position)
    fix x assume "x \<in> set (map ?p ?xs)"
    then obtain r where r: "r \<in> set ?xs" "x = ?p r" by auto
    then have "sr_id r \<in> set ids" using assms(5) by auto
    then obtain k where k: "k < length ids" "sr_id r = ids ! k" by (metis in_set_conv_nth)
    with placed_order [OF assms(4) k, of now 0] r(2)
    show "0 \<le> sr_sortOrder x \<and> nat (sr_sortOrder x) < length ids \<and> ids ! nat (sr_sortOrder x) = sr_id x" by simp
  next
    show "set ids = sr_id ` set (map ?p ?xs)" using assms(5) by (simp add: image_image)
  next
    have "distinct (map sr_id ?xs)" using ok by (simp add: table_ok_def distinct_map_filter)
    then show "distinct (map sr_id (map ?p ?xs))" by (simp add: comp_def)
  qed (rule assms(4))
  moreover have "map ?p (filter (\<lambda>r. sr_collectionId r = b) (st_requests s)) = filter (\<lambda>r. sr_collectionId r = b) (st_requests s)"
    if "b \<noteq> c" for b
  proof (rule map_idI)
    fix r assume "r \<in> set (filter (\<lambda>r. sr_collectionId r = b) (st_requests s))"
    then have r: "r \<in> set (st_requests s)" "sr_collectionId r = b" by auto
    have "sr_id r \<notin> set ids"
    proof
      assume "sr_id r \<in> set ids"
      then obtain q where q: "q \<in> set (st_requests s)" "sr_collectionId q = c" "sr_id q = sr_id r"
        using assms(5) by auto
      with table_key_unique [OF ok q(1) r(1)] r(2) that show False by simp
    qed
    then show "?p r = r" by (rule placed_other)
  qed
  ultimately show ?thesis
    using assms(3) by (auto simp: list_requests_def after own)
qed

definition listed_request :: "string \<Rightarrow> int \<Rightarrow> saved_request" where
  "listed_request i order = \<lparr>sr_id = i, sr_collectionId = ''c'', sr_folderId = None, sr_name = i, sr_protocol = P_rest,
     sr_request = RestRequest empty_request, sr_requestMode = None, sr_sortOrder = order, sr_createdAt = 0, sr_updatedAt = 0\<rparr>"

theorem reorder_is_listed_witness:
  "map sr_id (list_requests (Some ''c'') (fst (reorder_requests list_storage [''q'', ''p'']
     (store_empty\<lparr>st_requests := [listed_request ''p'' 1, listed_request ''q'' 2]\<rparr>) sample_runtime))) = [''q'', ''p'']"
proof -
  let ?s = "store_empty\<lparr>st_requests := [listed_request ''p'' 1, listed_request ''q'' 2]\<rparr>"
  have ok: "store_ok ?s" by (simp add: store_ok_def store_empty_def table_ok_def listed_request_def)
  have ids: "set [''q'', ''p''] = sr_id ` {r \<in> set (st_requests ?s). sr_collectionId r = ''c''}"
    by (auto simp: listed_request_def image_iff conj_disj_distribR ex_disj_distrib)
  show ?thesis using reorder_is_listed [OF list_storage_laws ok _ _ ids] by simp
qed

end
