(* ===== verification/Codegen_Http.thy ===== *)
theory Codegen_Http
  imports Request_Model Js_Host
begin

text \<open>
  The code generators for HTTP requests of packages/core/src/codegen/index.ts: one definition per
  generator, each template with its lines in the order of the source. \<open>prettier\<close>, which formats the
  JavaScript targets, is a parameter: \<open>None\<close> when its modules cannot be loaded, otherwise the text or
  the error it answers with.
\<close>

abbreviation tab :: char where "tab \<equiv> CHR 0x09"

text \<open>A template of several lines, and the lines of a shell command continued by backslashes.\<close>

definition text_lines :: "string list \<Rightarrow> string" where
  "text_lines ls = join [newline] ls"

definition continued :: "string list \<Rightarrow> string" where
  "continued parts = join ('' '' @ [backslash, newline] @ ''  '') parts"

text \<open>\<open>a || b\<close> on strings.\<close>

definition or_else :: "string \<Rightarrow> string \<Rightarrow> string" where
  "or_else a b = (if a = [] then b else a)"

section \<open>Quoting and helpers\<close>

definition shell_quote :: "string \<Rightarrow> string" where
  "shell_quote v = [squote] @ replace_all [squote] [squote, backslash, squote, squote] v @ [squote]"

definition js_string :: "string \<Rightarrow> string" where "js_string = json_quote"
definition go_string :: "string \<Rightarrow> string" where "go_string = json_quote"
definition java_string :: "string \<Rightarrow> string" where "java_string = json_quote"
definition kotlin_string :: "string \<Rightarrow> string" where "kotlin_string = json_quote"
definition ruby_string :: "string \<Rightarrow> string" where "ruby_string = json_quote"
definition rust_string :: "string \<Rightarrow> string" where "rust_string = json_quote"
definition php_string :: "string \<Rightarrow> string" where "php_string = json_quote"

definition csharp_string :: "string \<Rightarrow> string" where
  "csharp_string v = ''@'' @ [dquote] @ replace_all [dquote] [dquote, dquote] v @ [dquote]"

definition powershell_string :: "string \<Rightarrow> string" where
  "powershell_string v = [squote] @ replace_all [squote] [squote, squote] v @ [squote]"

definition has_body :: "request_config \<Rightarrow> bool" where
  "has_body r \<longleftrightarrow> rq_bodyMode r \<noteq> BM_none \<and> trim (rq_body r) \<noteq> []"

definition enabled_headers :: "key_value list \<Rightarrow> key_value list" where
  "enabled_headers hs = filter kv_active hs"

definition enabled_headers_object :: "key_value list \<Rightarrow> string obj" where
  "enabled_headers_object hs = obj_from_entries (map (\<lambda>hdr. (trim (kv_key hdr), kv_value hdr)) (enabled_headers hs))"

definition object_entries :: "key_value list \<Rightarrow> key_value list" where
  "object_entries hs = filter kv_active hs"

definition js_object :: "string obj \<Rightarrow> string" where
  "js_object ob = json_pretty 2 0 (JObj (map (\<lambda>(k, v). (k, JStr v)) ob))"

definition is_json_object_like :: "string \<Rightarrow> bool" where
  "is_json_object_like v =
     (case json_parse v of Some (JObj ms) \<Rightarrow> True | Some (JArr vs) \<Rightarrow> True | _ \<Rightarrow> False)"

definition json_expression :: "host \<Rightarrow> string \<Rightarrow> js_error + string" where
  "json_expression h v = (case json_parse v of Some j \<Rightarrow> Inr (json_pretty 2 0 j) | None \<Rightarrow> Inl (syntax_error h v))"

definition js_body_expression :: "host \<Rightarrow> request_config \<Rightarrow> js_error + string" where
  "js_body_expression h r =
     (if rq_bodyMode r = BM_json \<and> is_json_object_like (rq_body r)
      then map_sum id (\<lambda>e. ''JSON.stringify('' @ e @ '')'') (json_expression h (rq_body r))
      else Inr (js_string (rq_body r)))"

definition js_data_expression :: "host \<Rightarrow> request_config \<Rightarrow> js_error + string" where
  "js_data_expression h r =
     (if rq_bodyMode r = BM_json \<and> is_json_object_like (rq_body r) then json_expression h (rq_body r)
      else Inr (js_string (rq_body r)))"

definition python_timeout :: "int \<Rightarrow> int" where
  "python_timeout ms = max 1 ((ms + 500) div 1000)"

definition content_type :: "request_config \<Rightarrow> string" where
  "content_type r =
     (case find (\<lambda>hdr. to_lower (kv_key hdr) = ''content-type'') (enabled_headers (rq_headers r)) of
        Some hdr \<Rightarrow> kv_value hdr | None \<Rightarrow> [])"

definition ruby_request_class :: "string \<Rightarrow> string" where
  "ruby_request_class m = to_upper (take 1 m) @ to_lower (drop 1 m)"

text \<open>The methods are a closed union; another name falls back to \<open>Get\<close>.\<close>

definition csharp_methods :: "(string \<times> string) list" where
  "csharp_methods = [(''DELETE'', ''Delete''), (''GET'', ''Get''), (''HEAD'', ''Head''), (''OPTIONS'', ''Options''),
     (''PATCH'', ''Patch''), (''POST'', ''Post''), (''PUT'', ''Put'')]"

definition csharp_method :: "string \<Rightarrow> string" where
  "csharp_method m = (case map_of csharp_methods m of Some n \<Rightarrow> n | None \<Rightarrow> ''Get'')"

definition php_array :: "string obj \<Rightarrow> string" where
  "php_array ob = ''['' @ join '', '' (map (\<lambda>(k, v). php_string k @ '' => '' @ php_string v) ob) @ '']''"

section \<open>Shell\<close>

definition header_args :: "string \<Rightarrow> key_value list \<Rightarrow> string list" where
  "header_args flag hs = concat (map (\<lambda>hdr. [flag, shell_quote (kv_key hdr @ '': '' @ kv_value hdr)]) hs)"

text \<open>The text of the property \<open>map\<close>; an array inherits \<open>map\<close>, a function, which \<open>JSON.stringify\<close> omits.\<close>

definition map_member_text :: "json \<Rightarrow> string option" where
  "map_member_text j =
     (case j of JArr vs \<Rightarrow> Some ''undefined''
      | _ \<Rightarrow> (if json_truthy (json_field j ''map'')
              then map_option json_stringify (json_field j ''map'') else None))"

text \<open>One \<open>-F\<close> pair; reading a property of null raises.\<close>

definition file_part :: "json \<Rightarrow> string list option" where
  "file_part f =
     (if f = JNull then None
      else
        (let mime = json_field f ''mimeType'';
             kind = (if json_truthy mime then '';type='' @ js_to_string mime else []) in
         Some [''-F'', shell_quote (js_to_string (json_field f ''field'') @ ''=@'' @ js_to_string (json_field f ''filename'') @ kind)]))"

text \<open>The loop over the files: the parts pushed so far, and whether it ran to its end.\<close>

fun file_parts :: "json list \<Rightarrow> string list \<times> bool" where
  "file_parts [] = ([], True)"
| "file_parts (f # fs) =
     (case file_part f of
        None \<Rightarrow> ([], False)
      | Some ps \<Rightarrow> (case file_parts fs of (qs, ok) \<Rightarrow> (ps @ qs, ok)))"

text \<open>What \<open>for (const file of x ?? [])\<close> ranges over; \<open>None\<close> when it is not iterable.\<close>

definition iterated :: "jsval \<Rightarrow> json list option" where
  "iterated x = (case x of None \<Rightarrow> Some [] | Some JNull \<Rightarrow> Some [] | Some (JArr vs) \<Rightarrow> Some vs
     | Some (JStr s) \<Rightarrow> Some (map (\<lambda>c. JStr [c]) s) | _ \<Rightarrow> None)"

definition multipart_parts :: "json \<Rightarrow> string list \<times> bool" where
  "multipart_parts j =
     (if j = JNull then ([], False)
      else
        (let ops = json_field j ''operations'';
             op_parts = (if json_truthy ops then [''-F'', shell_quote (''operations='' @ json_stringify (the ops))] else []);
             map_parts = (case map_member_text j of Some t \<Rightarrow> [''-F'', shell_quote (''map='' @ t)] | None \<Rightarrow> []) in
         case iterated (json_field j ''files'') of
           None \<Rightarrow> (op_parts @ map_parts, False)
         | Some fs \<Rightarrow> (case file_parts fs of (ps, ok) \<Rightarrow> (op_parts @ map_parts @ ps, ok))))"

definition generate_curl_graphql_multipart :: "request_config \<Rightarrow> string" where
  "generate_curl_graphql_multipart r =
     (let start = [''curl'', ''-X'', shell_quote (rq_method r), shell_quote (rq_url r)]
                  @ header_args ''-H'' (filter (\<lambda>hdr. to_lower (kv_key hdr) \<noteq> ''content-type'') (enabled_headers (rq_headers r)));
          raw = [''--data-raw'', shell_quote (rq_body r)] in
      case json_parse (rq_body r) of
        None \<Rightarrow> continued (start @ raw)
      | Some j \<Rightarrow> (case multipart_parts j of (ps, ok) \<Rightarrow> continued (start @ ps @ (if ok then [] else raw))))"

definition generate_curl :: "request_config \<Rightarrow> string" where
  "generate_curl r =
     (if rq_bodyMode r = BM_graphql_multipart then generate_curl_graphql_multipart r
      else continued ([''curl'', ''-X'', shell_quote (rq_method r), shell_quote (rq_url r)]
             @ header_args ''-H'' (enabled_headers (rq_headers r))
             @ (if has_body r then [''--data-raw'', shell_quote (rq_body r)] else [])))"

definition generate_httpie :: "request_config \<Rightarrow> string" where
  "generate_httpie r =
     continued ([''http'', rq_method r, shell_quote (rq_url r)]
       @ map (\<lambda>hdr. shell_quote (kv_key hdr @ '':'' @ kv_value hdr)) (enabled_headers (rq_headers r))
       @ (if has_body r then [shell_quote (rq_body r)] else [])) @ [newline]"

section \<open>JavaScript\<close>

type_synonym prettier = "(string \<Rightarrow> js_error + string) option"

text \<open>
  \<open>formatJavaScript\<close>. The formatter is asynchronous and its promise is returned without \<open>await\<close>, so
  the surrounding \<open>catch\<close> sees a failed import but not a rejected format.
\<close>

definition format_javascript :: "prettier \<Rightarrow> string \<Rightarrow> js_error + string" where
  "format_javascript p source = (case p of Some format \<Rightarrow> format source | None \<Rightarrow> Inr (trim source @ [newline]))"

definition generate_fetch :: "host \<Rightarrow> prettier \<Rightarrow> request_config \<Rightarrow> js_error + string" where
  "generate_fetch h p r =
     (case (if has_body r then map_sum id (\<lambda>e. [''body: '' @ e]) (js_body_expression h r) else Inr []) of
        Inl e \<Rightarrow> Inl e
      | Inr body \<Rightarrow>
          (let properties = [''method: '' @ js_string (rq_method r)]
             @ (if object_entries (enabled_headers (rq_headers r)) \<noteq> []
                then [''headers: '' @ js_object (enabled_headers_object (rq_headers r))] else [])
             @ body in
           format_javascript p (text_lines [
             [],
             ''const response = await fetch('' @ js_string (rq_url r) @ '', {'',
             ''  '' @ join ('','' @ [newline] @ ''  '') properties,
             ''});'',
             [],
             ''const body = await response.text();'',
             ''console.log(response.status, body);'',
             []])))"

definition generate_node_fetch :: "host \<Rightarrow> prettier \<Rightarrow> request_config \<Rightarrow> js_error + string" where
  "generate_node_fetch h p r =
     (case generate_fetch h p r of
        Inl e \<Rightarrow> Inl e
      | Inr code \<Rightarrow> format_javascript p (text_lines [[], ''import fetch from \"node-fetch\";'', [], code, []]))"

definition generate_node_axios :: "host \<Rightarrow> prettier \<Rightarrow> request_config \<Rightarrow> js_error + string" where
  "generate_node_axios h p r =
     (case (if has_body r then map_sum id (\<lambda>e. [''data: '' @ e]) (js_data_expression h r) else Inr []) of
        Inl e \<Rightarrow> Inl e
      | Inr body \<Rightarrow>
          (let properties = [''method: '' @ js_string (rq_method r), ''url: '' @ js_string (rq_url r)]
             @ (if object_entries (enabled_headers (rq_headers r)) \<noteq> []
                then [''headers: '' @ js_object (enabled_headers_object (rq_headers r))] else [])
             @ body @ [''timeout: '' @ int_to_string (rq_timeoutMs r)] in
           format_javascript p (text_lines [
             [],
             ''import axios from \"axios\";'',
             [],
             ''const response = await axios({'',
             ''  '' @ join ('','' @ [newline] @ ''  '') properties,
             ''});'',
             [],
             ''console.log(response.status, response.data);'',
             []])))"

section \<open>Python\<close>

definition python_headers :: "request_config \<Rightarrow> string" where
  "python_headers r = js_object (enabled_headers_object (rq_headers r))"

text \<open>The imports, the lines and the arguments, for the name of the raw body's argument.\<close>

definition python_parts :: "string \<Rightarrow> string \<Rightarrow> request_config \<Rightarrow> string list \<times> string list \<times> string list" where
  "python_parts client raw r =
     (let lines = [''url = '' @ json_quote (rq_url r), ''headers = '' @ python_headers r];
          args = [''url'', ''headers=headers''];
          timeout = [''timeout='' @ int_to_string (python_timeout (rq_timeoutMs r))] in
      if has_body r then
        if rq_bodyMode r = BM_json \<and> is_json_object_like (rq_body r)
        then ([''import json'', ''import '' @ client], lines @ [''payload = json.loads('' @ json_quote (rq_body r) @ '')''],
              args @ [''json=payload''] @ timeout)
        else ([''import '' @ client], lines @ [''payload = '' @ json_quote (rq_body r)], args @ [raw @ ''=payload''] @ timeout)
      else ([''import '' @ client], lines, args @ timeout))"

definition generate_python_requests :: "request_config \<Rightarrow> string" where
  "generate_python_requests r =
     (case python_parts ''requests'' ''data'' r of (imports, lines, args) \<Rightarrow>
       text_lines (imports @ [[]] @ lines @ [[],
         ''response = requests.'' @ to_lower (rq_method r) @ ''('',
         ''    '' @ join ('','' @ [newline] @ ''    '') args,
         '')'',
         ''print(response.status_code)'',
         ''print(response.text)'',
         []]))"

definition generate_python_httpx :: "request_config \<Rightarrow> string" where
  "generate_python_httpx r =
     (case python_parts ''httpx'' ''content'' r of (imports, lines, args) \<Rightarrow>
       text_lines (imports @ [[]] @ lines @ [[],
         ''with httpx.Client() as client:'',
         ''    response = client.'' @ to_lower (rq_method r) @ ''('',
         ''        '' @ join ('','' @ [newline] @ ''        '') args,
         ''    )'',
         ''    print(response.status_code)'',
         ''    print(response.text)'',
         []]))"

section \<open>Other languages\<close>

definition generate_go_net_http :: "request_config \<Rightarrow> string" where
  "generate_go_net_http r =
     (let headers = join [newline, tab] (map (\<lambda>hdr. ''req.Header.Set('' @ go_string (kv_key hdr) @ '', '' @ go_string (kv_value hdr) @ '')'')
                     (enabled_headers (rq_headers r)));
          body = (if has_body r then ''strings.NewReader('' @ go_string (rq_body r) @ '')'' else ''nil'');
          imports = [''fmt'', ''io'', ''net/http''] @ (if has_body r then [''strings''] else []) in
     text_lines [
       ''package main'',
       [],
       ''import ('',
       join [newline] (map (\<lambda>i. [tab] @ [dquote] @ i @ [dquote]) imports),
       '')'',
       [],
       ''func main() {'',
       [tab] @ ''req, err := http.NewRequest('' @ go_string (rq_method r) @ '', '' @ go_string (rq_url r) @ '', '' @ body @ '')'',
       [tab] @ ''if err != nil {'',
       [tab] @ [tab] @ ''panic(err)'',
       [tab] @ ''}'',
       (if headers = [] then [] else [tab] @ headers @ [newline]),
       [tab] @ ''client := &http.Client{}'',
       [tab] @ ''resp, err := client.Do(req)'',
       [tab] @ ''if err != nil {'',
       [tab] @ [tab] @ ''panic(err)'',
       [tab] @ ''}'',
       [tab] @ ''defer resp.Body.Close()'',
       [],
       [tab] @ ''body, err := io.ReadAll(resp.Body)'',
       [tab] @ ''if err != nil {'',
       [tab] @ [tab] @ ''panic(err)'',
       [tab] @ ''}'',
       [tab] @ ''fmt.Println(resp.Status)'',
       [tab] @ ''fmt.Println(string(body))'',
       ''}'',
       []])"

definition generate_java_okhttp :: "request_config \<Rightarrow> string" where
  "generate_java_okhttp r =
     (let body_line = (if has_body r
                       then ''RequestBody body = RequestBody.create('' @ java_string (rq_body r) @ '', MediaType.parse(''
                            @ java_string (or_else (content_type r) ''text/plain'') @ ''));''
                       else ''RequestBody body = null;'');
          headers = map (\<lambda>hdr. ''      .addHeader('' @ java_string (kv_key hdr) @ '', '' @ java_string (kv_value hdr) @ '')'')
                      (enabled_headers (rq_headers r)) in
     text_lines [
       ''import okhttp3.MediaType;'',
       ''import okhttp3.OkHttpClient;'',
       ''import okhttp3.Request;'',
       ''import okhttp3.RequestBody;'',
       ''import okhttp3.Response;'',
       [],
       ''public class RequestExample {'',
       ''  public static void main(String[] args) throws Exception {'',
       ''    OkHttpClient client = new OkHttpClient();'',
       ''    '' @ body_line,
       ''    Request request = new Request.Builder()'',
       ''      .url('' @ java_string (rq_url r) @ '')'',
       (if headers = [] then [] else join [newline] headers @ [newline]) @ ''      .method('' @ java_string (rq_method r) @ '', body)'',
       ''      .build();'',
       [],
       ''    try (Response response = client.newCall(request).execute()) {'',
       ''      System.out.println(response.code());'',
       ''      System.out.println(response.body() != null ? response.body().string() : \"\");'',
       ''    }'',
       ''  }'',
       ''}'',
       []])"

definition generate_kotlin_okhttp :: "request_config \<Rightarrow> string" where
  "generate_kotlin_okhttp r =
     (let body_line = (if has_body r
                       then ''val body = '' @ kotlin_string (rq_body r) @ ''.toRequestBody(''
                            @ kotlin_string (or_else (content_type r) ''text/plain'') @ ''.toMediaType())''
                       else ''val body = null'');
          headers = map (\<lambda>hdr. ''    .addHeader('' @ kotlin_string (kv_key hdr) @ '', '' @ kotlin_string (kv_value hdr) @ '')'')
                      (enabled_headers (rq_headers r)) in
     text_lines [
       ''import okhttp3.OkHttpClient'',
       ''import okhttp3.Request'',
       ''import okhttp3.MediaType.Companion.toMediaType'',
       ''import okhttp3.RequestBody.Companion.toRequestBody'',
       [],
       ''fun main() {'',
       ''  val client = OkHttpClient()'',
       ''  '' @ body_line,
       ''  val request = Request.Builder()'',
       ''    .url('' @ kotlin_string (rq_url r) @ '')'',
       (if headers = [] then [] else join [newline] headers @ [newline]) @ ''    .method('' @ kotlin_string (rq_method r) @ '', body)'',
       ''    .build()'',
       [],
       ''  client.newCall(request).execute().use { response ->'',
       ''    println(response.code)'',
       ''    println(response.body?.string().orEmpty())'',
       ''  }'',
       ''}'',
       []])"

definition generate_ruby_net_http :: "request_config \<Rightarrow> string" where
  "generate_ruby_net_http r =
     (let headers = join [newline] (map (\<lambda>hdr. ''request['' @ ruby_string (kv_key hdr) @ ''] = '' @ ruby_string (kv_value hdr))
                     (enabled_headers (rq_headers r))) in
     text_lines [
       ''require \"net/http\"'',
       ''require \"uri\"'',
       [],
       ''uri = URI('' @ ruby_string (rq_url r) @ '')'',
       ''request = Net::HTTP::'' @ ruby_request_class (rq_method r) @ ''.new(uri)'',
       headers,
       (if has_body r then ''request.body = '' @ ruby_string (rq_body r) else []),
       [],
       ''response = Net::HTTP.start(uri.hostname, uri.port, use_ssl: uri.scheme == \"https\") do |http|'',
       ''  http.request(request)'',
       ''end'',
       [],
       ''puts response.code'',
       ''puts response.body'',
       []])"

definition generate_php_guzzle :: "request_config \<Rightarrow> string" where
  "generate_php_guzzle r =
     (let options = (if enabled_headers (rq_headers r) \<noteq> []
                      then [[squote] @ ''headers'' @ [squote] @ '' => '' @ php_array (enabled_headers_object (rq_headers r))] else [])
                    @ (if has_body r then [[squote] @ ''body'' @ [squote] @ '' => '' @ php_string (rq_body r)] else []) in
     text_lines [
       ''<?php'',
       [],
       ''require \"vendor/autoload.php\";'',
       [],
       ''$client = new '' @ [backslash] @ ''GuzzleHttp'' @ [backslash] @ ''Client();'',
       ''$response = $client->request('' @ php_string (rq_method r) @ '', '' @ php_string (rq_url r) @ '', ['',
       join ('','' @ [newline]) (map (\<lambda>l. ''    '' @ l) options),
       '']);'',
       [],
       ''echo $response->getStatusCode() . PHP_EOL;'',
       ''echo $response->getBody();'',
       []])"

definition generate_csharp_httpclient :: "request_config \<Rightarrow> string" where
  "generate_csharp_httpclient r =
     (let headers = join [newline]
                      (map (\<lambda>hdr. ''request.Headers.TryAddWithoutValidation('' @ csharp_string (kv_key hdr) @ '', ''
                              @ csharp_string (kv_value hdr) @ '');'')
                        (filter (\<lambda>hdr. to_lower (kv_key hdr) \<noteq> ''content-type'') (enabled_headers (rq_headers r))));
          content = (if has_body r
                     then ''request.Content = new StringContent('' @ csharp_string (rq_body r) @ '', System.Text.Encoding.UTF8, ''
                          @ csharp_string (or_else (content_type r) ''text/plain'') @ '');''
                     else []) in
     text_lines [
       ''using System.Net.Http;'',
       [],
       ''using var client = new HttpClient();'',
       ''using var request = new HttpRequestMessage(HttpMethod.'' @ csharp_method (rq_method r) @ '', '' @ csharp_string (rq_url r) @ '');'',
       headers,
       content,
       [],
       ''using var response = await client.SendAsync(request);'',
       ''Console.WriteLine((int)response.StatusCode);'',
       ''Console.WriteLine(await response.Content.ReadAsStringAsync());'',
       []])"

definition generate_rust_reqwest :: "request_config \<Rightarrow> string" where
  "generate_rust_reqwest r =
     (let headers = map (\<lambda>hdr. ''        .header('' @ rust_string (kv_key hdr) @ '', '' @ rust_string (kv_value hdr) @ '')'')
                      (enabled_headers (rq_headers r)) in
     text_lines [
       ''#[tokio::main]'',
       ''async fn main() -> Result<(), Box<dyn std::error::Error>> {'',
       ''    let client = reqwest::Client::new();'',
       ''    let response = client'',
       ''        .request(reqwest::Method::'' @ rq_method r @ '', '' @ rust_string (rq_url r) @ '')'',
       (if headers = [] then [] else join [newline] headers @ [newline]) @ (if has_body r then ''        .body('' @ rust_string (rq_body r) @ '')'' @ [newline] else []) @ ''        .send()'',
       ''        .await?;'',
       [],
       ''    println!(\"{}\", response.status());'',
       ''    println!(\"{}\", response.text().await?);'',
       ''    Ok(())'',
       ''}'',
       []])"

definition generate_powershell :: "request_config \<Rightarrow> string" where
  "generate_powershell r =
     (let header_lines = map (\<lambda>(k, v). ''  '' @ powershell_string k @ '' = '' @ powershell_string v)
                           (enabled_headers_object (rq_headers r)) in
     text_lines [
       ''$headers = @'' @ ''{'',
       join [newline] header_lines,
       ''}'',
       [],
       ''$response = Invoke-RestMethod `'',
       ''  -Method '' @ rq_method r @ '' `'',
       ''  -Uri '' @ powershell_string (rq_url r) @ '' `'',
       ''  -Headers $headers'' @ (if has_body r then '' `'' @ [newline] @ ''  -Body '' @ powershell_string (rq_body r) else []),
       [],
       ''$response'',
       []])"

end
