(* ===== verification/Codegen_Gql.thy ===== *)
theory Codegen_Gql
  imports Codegen_Http
begin

text \<open>
  The GraphQL targets of packages/core/src/codegen/index.ts, and the choice of the generator for a target.
\<close>

section \<open>The parsed body\<close>

datatype operation_kind = OK_query | OK_mutation | OK_subscription

text \<open>\<open>gb_operationName\<close> is \<open>None\<close> for null; the cast of the source does not check that it is a string.\<close>

record gql_body =
  gb_query :: string
  gb_variables :: "(string \<times> json) list option"
  gb_operationName :: jsval
  gb_operationKind :: operation_kind

definition operation_kind_of :: "string \<Rightarrow> operation_kind" where
  "operation_kind_of q =
     (let lower = to_lower (trim q) in
      if starts_with ''mutation'' lower then OK_mutation
      else if starts_with ''subscription'' lower then OK_subscription else OK_query)"

definition parse_gql_body :: "request_config \<Rightarrow> gql_body option" where
  "parse_gql_body r =
     (if \<not> has_body r then None
      else case json_parse (rq_body r) of
        Some j \<Rightarrow>
          (case json_field j ''query'' of
             Some (JStr q) \<Rightarrow>
               (if q = [] then None
                else Some \<lparr>gb_query = q,
                  gb_variables = (case json_field j ''variables'' of Some (JObj ms) \<Rightarrow> Some ms | _ \<Rightarrow> None),
                  gb_operationName = (case json_field j ''operationName'' of Some JNull \<Rightarrow> None | v \<Rightarrow> v),
                  gb_operationKind = operation_kind_of q\<rparr>)
           | _ \<Rightarrow> None)
      | None \<Rightarrow> None)"

definition has_variables :: "gql_body \<Rightarrow> bool" where
  "has_variables g \<longleftrightarrow> (case gb_variables g of Some ms \<Rightarrow> ms \<noteq> [] | None \<Rightarrow> False)"

definition pretty_variables :: "gql_body \<Rightarrow> string" where
  "pretty_variables g = (case gb_variables g of Some ms \<Rightarrow> json_pretty 2 0 (JObj ms) | None \<Rightarrow> ''null'')"

fun snake_words :: "string \<Rightarrow> string" where
  "snake_words (c # d # s) =
     (if is_lower_ascii c \<and> is_upper_ascii d then c # CHR ''_'' # d # snake_words s else c # snake_words (d # s))"
| "snake_words s = s"

definition kind_name :: "operation_kind \<Rightarrow> string" where
  "kind_name k = (case k of OK_query \<Rightarrow> ''query'' | OK_mutation \<Rightarrow> ''mutation'' | OK_subscription \<Rightarrow> ''subscription'')"

definition gql_const_name :: "gql_body \<Rightarrow> js_error + string" where
  "gql_const_name g =
     (if json_truthy (gb_operationName g) then
        (case gb_operationName g of
           Some (JStr n) \<Rightarrow> Inr (to_upper (snake_words n))
         | _ \<Rightarrow> Inl (type_error ''gql.operationName.replace is not a function''))
      else Inr (to_upper (kind_name (gb_operationKind g)) @ ''_OPERATION''))"

fun camel_words :: "string \<Rightarrow> string" where
  "camel_words (c # d # s) =
     (if c = CHR ''_'' \<and> is_lower_ascii d then upper_char d # camel_words s else c # camel_words (d # s))"
| "camel_words s = s"

definition to_camel_case :: "string \<Rightarrow> string" where
  "to_camel_case s = camel_words (to_lower s)"

section \<open>The generators\<close>

definition generate_graphql_fetch :: "host \<Rightarrow> prettier \<Rightarrow> request_config \<Rightarrow> js_error + string" where
  "generate_graphql_fetch h p r =
     (case parse_gql_body r of
        None \<Rightarrow> generate_fetch h p r
      | Some g \<Rightarrow>
          (let extra = filter (\<lambda>hdr. to_lower (kv_key hdr) \<noteq> ''content-type'') (enabled_headers (rq_headers r));
               has_vars = has_variables g;
               header_lines = join ('','' @ [newline]) ([''    \"Content-Type\": \"application/json\"'']
                 @ map (\<lambda>hdr. ''    '' @ js_string (kv_key hdr) @ '': '' @ js_string (kv_value hdr)) extra);
               body_fields = join ('','' @ [newline]) ([''    query: QUERY''] @ (if has_vars then [''    variables''] else [])
                 @ (case gb_operationName g of
                      Some n \<Rightarrow> (if json_truthy (Some n) then [''    operationName: '' @ json_stringify n] else [])
                    | None \<Rightarrow> [])) in
           format_javascript p (text_lines [
             [],
             ''const QUERY = `'',
             trim (gb_query g),
             ''`;'',
             (if has_vars then [newline] @ ''const variables = '' @ pretty_variables g @ '';'' @ [newline] else []),
             ''const response = await fetch('' @ js_string (rq_url r) @ '', {'',
             ''  method: \"POST\",'',
             ''  headers: {'',
             header_lines @ '','',
             ''  },'',
             ''  body: JSON.stringify({'',
             body_fields @ '','',
             ''  }),'',
             ''});'',
             [],
             ''const { data, errors } = await response.json();'',
             ''console.log(data);'',
             ''if (errors) console.error(errors);'',
             []])))"

definition apollo_usage :: "gql_body \<Rightarrow> string \<Rightarrow> string \<times> string" where
  "apollo_usage g const_name =
     (let vars = ''variables: '' @ pretty_variables g; has_vars = has_variables g in
      case gb_operationKind g of
        OK_mutation \<Rightarrow>
          (''useMutation'', ''const ['' @ to_camel_case const_name @ '', { data, loading, error }] = useMutation('' @ const_name
             @ (if has_vars then '', { '' @ vars @ '' }'' else []) @ '');'')
      | OK_subscription \<Rightarrow>
          (''useSubscription'', ''const { data, loading, error } = useSubscription('' @ const_name
             @ (if has_vars then '',   '' @ vars else []) @ '');'')
      | OK_query \<Rightarrow>
          (''useQuery'', ''const { data, loading, error } = useQuery('' @ const_name
             @ (if has_vars then ''{,'' @ [newline] @ ''  '' @ vars @ [newline] @ ''}'' else []) @ '');''))"

definition generate_graphql_apollo :: "host \<Rightarrow> prettier \<Rightarrow> request_config \<Rightarrow> js_error + string" where
  "generate_graphql_apollo h p r =
     (case parse_gql_body r of
        None \<Rightarrow> generate_fetch h p r
      | Some g \<Rightarrow>
          (case gql_const_name g of
             Inl e \<Rightarrow> Inl e
           | Inr const_name \<Rightarrow>
               (let (hook_import, hook_usage) = apollo_usage g const_name in
                format_javascript p (text_lines [
             [],
             ''import { gql, '' @ hook_import @ '' } from \"@apollo/client\";'',
             [],
             ''const '' @ const_name @ '' = gql`'',
             trim (gb_query g),
             ''`;'',
             [],
             ''// Inside your component:'',
             hook_usage,
             []]))))"

definition urql_usage :: "gql_body \<Rightarrow> string \<Rightarrow> string \<times> string" where
  "urql_usage g const_name =
     (let query = text_lines [
            ''  query: '' @ const_name @ '','' @ (if has_variables g then [newline] @ ''  variables: '' @ pretty_variables g @ '','' else []),
            ''});''] in
      case gb_operationKind g of
        OK_mutation \<Rightarrow>
          (''useMutation'', ''const [{ data, fetching, error }, execute] = useMutation('' @ const_name @ '');''
             @ (if has_variables g then [newline] @ ''// execute({ variables: '' @ pretty_variables g @ '' });'' else []))
      | OK_subscription \<Rightarrow> (''useSubscription'', ''const [{ data, fetching, error }] = useSubscription({'' @ [newline] @ query)
      | OK_query \<Rightarrow> (''useQuery'', ''const [{ data, fetching, error }] = useQuery({'' @ [newline] @ query))"

definition generate_graphql_urql :: "host \<Rightarrow> prettier \<Rightarrow> request_config \<Rightarrow> js_error + string" where
  "generate_graphql_urql h p r =
     (case parse_gql_body r of
        None \<Rightarrow> generate_fetch h p r
      | Some g \<Rightarrow>
          (case gql_const_name g of
             Inl e \<Rightarrow> Inl e
           | Inr const_name \<Rightarrow>
               (let (hook_import, hook_usage) = urql_usage g const_name in
                format_javascript p (text_lines [
             [],
             ''import { gql, '' @ hook_import @ '' } from \"urql\";'',
             [],
             ''const '' @ const_name @ '' = gql`'',
             trim (gb_query g),
             ''`;'',
             [],
             ''// Inside your component:'',
             hook_usage,
             []]))))"

section \<open>Targets\<close>

datatype export_target =
    CT_curl | CT_fetch | CT_node_fetch | CT_python_requests | CT_python_httpx | CT_node_axios
  | CT_go_net_http | CT_java_okhttp | CT_kotlin_okhttp | CT_ruby_net_http | CT_php_guzzle | CT_csharp_httpclient
  | CT_rust_reqwest | CT_powershell | CT_httpie | CT_graphql_fetch | CT_graphql_apollo | CT_graphql_urql

record snippet_meta =
  sm_target :: export_target
  sm_label :: string
  sm_language :: string
  sm_filename :: string

record code_snippet = snippet_meta +
  sn_code :: string

definition code_export_targets :: "snippet_meta list" where
  "code_export_targets = [
     \<lparr>sm_target = CT_curl, sm_label = ''cURL'', sm_language = ''shell'', sm_filename = ''request.sh''\<rparr>,
     \<lparr>sm_target = CT_fetch, sm_label = ''JavaScript fetch'', sm_language = ''javascript'', sm_filename = ''request.fetch.js''\<rparr>,
     \<lparr>sm_target = CT_node_fetch, sm_label = ''Node fetch'', sm_language = ''javascript'', sm_filename = ''request.node-fetch.js''\<rparr>,
     \<lparr>sm_target = CT_python_requests, sm_label = ''Python requests'', sm_language = ''python'', sm_filename = ''request.py''\<rparr>,
     \<lparr>sm_target = CT_python_httpx, sm_label = ''Python httpx'', sm_language = ''python'', sm_filename = ''request.httpx.py''\<rparr>,
     \<lparr>sm_target = CT_node_axios, sm_label = ''Node axios'', sm_language = ''javascript'', sm_filename = ''request.axios.js''\<rparr>,
     \<lparr>sm_target = CT_go_net_http, sm_label = ''Go net/http'', sm_language = ''shell'', sm_filename = ''request.go''\<rparr>,
     \<lparr>sm_target = CT_java_okhttp, sm_label = ''Java OkHttp'', sm_language = ''shell'', sm_filename = ''Request.java''\<rparr>,
     \<lparr>sm_target = CT_kotlin_okhttp, sm_label = ''Kotlin OkHttp'', sm_language = ''shell'', sm_filename = ''Request.kt''\<rparr>,
     \<lparr>sm_target = CT_ruby_net_http, sm_label = ''Ruby Net::HTTP'', sm_language = ''shell'', sm_filename = ''request.rb''\<rparr>,
     \<lparr>sm_target = CT_php_guzzle, sm_label = ''PHP Guzzle'', sm_language = ''shell'', sm_filename = ''request.php''\<rparr>,
     \<lparr>sm_target = CT_csharp_httpclient, sm_label = ''C# HttpClient'', sm_language = ''shell'', sm_filename = ''Request.cs''\<rparr>,
     \<lparr>sm_target = CT_rust_reqwest, sm_label = ''Rust reqwest'', sm_language = ''shell'', sm_filename = ''request.rs''\<rparr>,
     \<lparr>sm_target = CT_powershell, sm_label = ''PowerShell'', sm_language = ''shell'', sm_filename = ''request.ps1''\<rparr>,
     \<lparr>sm_target = CT_httpie, sm_label = ''HTTPie'', sm_language = ''shell'', sm_filename = ''request.http''\<rparr>,
     \<lparr>sm_target = CT_graphql_fetch, sm_label = ''GraphQL fetch'', sm_language = ''javascript'', sm_filename = ''query.fetch.js''\<rparr>,
     \<lparr>sm_target = CT_graphql_apollo, sm_label = ''GraphQL Apollo'', sm_language = ''javascript'', sm_filename = ''query.apollo.tsx''\<rparr>,
     \<lparr>sm_target = CT_graphql_urql, sm_label = ''GraphQL urql'', sm_language = ''javascript'', sm_filename = ''query.urql.tsx''\<rparr>]"

fun generator_for :: "host \<Rightarrow> prettier \<Rightarrow> export_target \<Rightarrow> request_config \<Rightarrow> js_error + string" where
  "generator_for h p CT_curl r = Inr (generate_curl r)"
| "generator_for h p CT_fetch r = generate_fetch h p r"
| "generator_for h p CT_node_fetch r = generate_node_fetch h p r"
| "generator_for h p CT_python_requests r = Inr (generate_python_requests r)"
| "generator_for h p CT_python_httpx r = Inr (generate_python_httpx r)"
| "generator_for h p CT_node_axios r = generate_node_axios h p r"
| "generator_for h p CT_go_net_http r = Inr (generate_go_net_http r)"
| "generator_for h p CT_java_okhttp r = Inr (generate_java_okhttp r)"
| "generator_for h p CT_kotlin_okhttp r = Inr (generate_kotlin_okhttp r)"
| "generator_for h p CT_ruby_net_http r = Inr (generate_ruby_net_http r)"
| "generator_for h p CT_php_guzzle r = Inr (generate_php_guzzle r)"
| "generator_for h p CT_csharp_httpclient r = Inr (generate_csharp_httpclient r)"
| "generator_for h p CT_rust_reqwest r = Inr (generate_rust_reqwest r)"
| "generator_for h p CT_powershell r = Inr (generate_powershell r)"
| "generator_for h p CT_httpie r = Inr (generate_httpie r)"
| "generator_for h p CT_graphql_fetch r = generate_graphql_fetch h p r"
| "generator_for h p CT_graphql_apollo r = generate_graphql_apollo h p r"
| "generator_for h p CT_graphql_urql r = generate_graphql_urql h p r"

definition generate_code_snippet :: "host \<Rightarrow> prettier \<Rightarrow> request_config \<Rightarrow> export_target \<Rightarrow> js_error + code_snippet" where
  "generate_code_snippet h p r target =
     (let meta = (case find (\<lambda>m. sm_target m = target) code_export_targets of Some m \<Rightarrow> m | None \<Rightarrow> hd code_export_targets) in
      map_sum id (\<lambda>code. snippet_meta.extend meta (code_snippet.fields code)) (generator_for h p target r))"

end
