(* ===== verification/Codegen_Ws.thy ===== *)
theory Codegen_Ws
  imports Codegen_Http
begin

text \<open>
  The code generators for WebSocket requests of packages/core/src/codegen/index.ts.
\<close>

section \<open>WebSocket\<close>

text \<open>The headers a handshake carries: the enabled ones and the one the credentials give.\<close>

definition ws_effective_headers :: "websocket_request \<Rightarrow> (string \<times> string) list" where
  "ws_effective_headers r =
     (let headers = map (\<lambda>hdr. (kv_key hdr, kv_value hdr))
            (filter (\<lambda>hdr. kv_enabled hdr \<noteq> Some False \<and> kv_key hdr \<noteq> []) (wq_headers r));
          a = wq_auth r in
      headers @
      (if au_type a = AT_none then []
       else if (au_type a = AT_bearer \<or> au_type a = AT_oauth2) \<and> truthy (au_token a)
       then [(''Authorization'', ''Bearer '' @ the (au_token a))]
       else if au_type a = AT_basic \<and> truthy (au_username a)
       then [(''Authorization'', ''Basic '' @ btoa (the (au_username a) @ '':''
               @ (case au_password a of Some p \<Rightarrow> p | None \<Rightarrow> [])))]
       else if au_type a = AT_api_key \<and> truthy (au_apiKeyName a) \<and> truthy (au_apiKeyValue a)
               \<and> au_apiKeyIn a \<noteq> Some In_query
       then [(the (au_apiKeyName a), the (au_apiKeyValue a))]
       else []))"

definition ws_header_text :: "string \<times> string \<Rightarrow> string" where
  "ws_header_text hdr = shell_quote (fst hdr @ '': '' @ snd hdr)"

text \<open>\<open>split(",").map(trim).filter(Boolean)\<close>, when there are protocols.\<close>

definition ws_protocols :: "websocket_request \<Rightarrow> string list option" where
  "ws_protocols r =
     (if truthy (wq_protocols r)
      then Some (filter (\<lambda>p. p \<noteq> []) (map trim (split_on CHR '','' (the (wq_protocols r))))) else None)"

definition json_list :: "string list \<Rightarrow> string" where
  "json_list xs = json_stringify (JArr (map JStr xs))"

definition ws_headers_object :: "websocket_request \<Rightarrow> json" where
  "ws_headers_object r = JObj (map (\<lambda>(k, v). (k, JStr v)) (obj_from_entries (ws_effective_headers r)))"

definition generate_wscat :: "websocket_request \<Rightarrow> string" where
  "generate_wscat r =
     continued ([''wscat'', ''-c'', shell_quote (wq_url r)]
       @ concat (map (\<lambda>hdr. [''-H'', ws_header_text hdr]) (ws_effective_headers r))
       @ (case ws_protocols r of Some ps \<Rightarrow> concat (map (\<lambda>p. [''--protocol'', shell_quote p]) ps) | None \<Rightarrow> []))"

definition generate_websocat :: "websocket_request \<Rightarrow> string" where
  "generate_websocat r =
     continued ([''websocat'', shell_quote (wq_url r)]
       @ map (\<lambda>hdr. ''-H '' @ ws_header_text hdr) (ws_effective_headers r))"

text \<open>\<open>if (request.message)\<close>: the first message, after the text before it.\<close>

definition init_message :: "string \<Rightarrow> websocket_request \<Rightarrow> string \<Rightarrow> string" where
  "init_message before r after =
     (if wq_message r = [] then [] else [newline] @ before @ json_quote (wq_message r) @ after)"

definition generate_ws_javascript :: "websocket_request \<Rightarrow> string" where
  "generate_ws_javascript r =
     (let protocols = (case ws_protocols r of Some ps \<Rightarrow> '', '' @ json_list ps | None \<Rightarrow> []);
          init_msg = init_message ''  ws.send('' r '');'' in
     text_lines [
       ''const ws = new WebSocket('' @ json_quote (wq_url r) @ protocols @ '');'',
       [],
       ''ws.onopen = () => {'',
       ''  console.log(\"Connected\");'' @ init_msg,
       ''};'',
       [],
       ''ws.onmessage = (event) => {'',
       ''  console.log(\"Received:\", event.data);'',
       ''};'',
       [],
       ''ws.onerror = (error) => {'',
       ''  console.error(\"Error:\", error);'',
       ''};'',
       [],
       ''ws.onclose = (event) => {'',
       ''  console.log(\"Closed:\", event.code, event.reason);'',
       ''};''])"

text \<open>\<open>replace(/\n/g, "\n  ")\<close>.\<close>

definition indent_lines :: "string \<Rightarrow> string" where
  "indent_lines s = replace_all [newline] ([newline] @ ''  '') s"

definition generate_ws_node_ws :: "websocket_request \<Rightarrow> string" where
  "generate_ws_node_ws r =
     (let headers_obj = (if ws_effective_headers r = [] then []
                         else [newline] @ ''  headers: '' @ indent_lines (json_pretty 4 0 (ws_headers_object r)) @ '','');
          protocols = (case ws_protocols r of Some ps \<Rightarrow> [newline] @ ''  protocols: '' @ json_list ps @ '','' | None \<Rightarrow> []);
          init_msg = init_message ''  ws.send('' r '');'';
          options = (if protocols \<noteq> [] \<or> headers_obj \<noteq> []
                     then '', {'' @ protocols @ headers_obj @ [newline] @ ''}'' else []) in
     text_lines [
       ''import WebSocket from \"ws\";'',
       [],
       ''const ws = new WebSocket('' @ json_quote (wq_url r) @ options @ '');'',
       [],
       ''ws.on(\"open\", () => {'',
       ''  console.log(\"Connected\");'' @ init_msg,
       ''});'',
       [],
       ''ws.on(\"message\", (data) => {'',
       ''  console.log(\"Received:\", data.toString());'',
       ''});'',
       [],
       ''ws.on(\"error\", (err) => {'',
       ''  console.error(\"Error:\", err);'',
       ''});'',
       [],
       ''ws.on(\"close\", (code, reason) => {'',
       ''  console.log(\"Closed:\", code, reason.toString());'',
       ''});''])"

definition generate_ws_python :: "websocket_request \<Rightarrow> string" where
  "generate_ws_python r =
     (let headers_dict = (if ws_effective_headers r = [] then [newline] @ ''extra_headers = {}'' @ [newline]
                          else [newline] @ ''extra_headers = '' @ json_pretty 4 0 (ws_headers_object r) @ [newline]);
          kwarg = (if ws_effective_headers r = [] then [] else '', additional_headers=extra_headers'');
          init_msg = init_message ''        await ws.send('' r '')'' in
     text_lines [
       ''import asyncio'',
       ''import websockets'',
       headers_dict,
       ''async def main():'',
       ''    async with websockets.connect('' @ json_quote (wq_url r) @ kwarg @ '') as ws:'' @ init_msg,
       ''        async for message in ws:'',
       ''            print(\"Received:\", message)'',
       [],
       ''asyncio.run(main())''])"

datatype ws_export_target = WT_wscat | WT_websocat | WT_javascript | WT_node_ws | WT_python_websockets

record ws_snippet_meta =
  wt_target :: ws_export_target
  wt_label :: string
  wt_language :: string
  wt_filename :: string

definition ws_code_export_targets :: "ws_snippet_meta list" where
  "ws_code_export_targets = [
     \<lparr>wt_target = WT_wscat, wt_label = ''wscat'', wt_language = ''shell'', wt_filename = ''websocket.sh''\<rparr>,
     \<lparr>wt_target = WT_websocat, wt_label = ''websocat'', wt_language = ''shell'', wt_filename = ''websocket.sh''\<rparr>,
     \<lparr>wt_target = WT_javascript, wt_label = ''Browser WebSocket'', wt_language = ''javascript'', wt_filename = ''websocket.js''\<rparr>,
     \<lparr>wt_target = WT_node_ws, wt_label = ''Node.js ws'', wt_language = ''javascript'', wt_filename = ''websocket.node.js''\<rparr>,
     \<lparr>wt_target = WT_python_websockets, wt_label = ''Python websockets'', wt_language = ''python'', wt_filename = ''websocket.py''\<rparr>]"

fun ws_generator_for :: "ws_export_target \<Rightarrow> websocket_request \<Rightarrow> string" where
  "ws_generator_for WT_wscat r = generate_wscat r"
| "ws_generator_for WT_websocat r = generate_websocat r"
| "ws_generator_for WT_javascript r = generate_ws_javascript r"
| "ws_generator_for WT_node_ws r = generate_ws_node_ws r"
| "ws_generator_for WT_python_websockets r = generate_ws_python r"

definition generate_ws_code_snippet :: "websocket_request \<Rightarrow> ws_export_target \<Rightarrow> ws_snippet_meta \<times> string" where
  "generate_ws_code_snippet r target =
     (case find (\<lambda>m. wt_target m = target) ws_code_export_targets of
        Some m \<Rightarrow> m | None \<Rightarrow> hd ws_code_export_targets, ws_generator_for target r)"

end
