(* ===== verification/Codegen_Grpc.thy ===== *)
theory Codegen_Grpc
  imports Codegen_Http
begin

text \<open>
  The code generators for gRPC requests of packages/core/src/codegen/index.ts.
\<close>

section \<open>Helpers\<close>

definition grpc_full_method :: "grpc_request \<Rightarrow> string" where
  "grpc_full_method r = rg_service r @ ''/'' @ rg_method r"

definition grpc_enabled_metadata :: "grpc_request \<Rightarrow> key_value list" where
  "grpc_enabled_metadata r = filter kv_active (rg_metadata r)"

text \<open>\<open>request.service.split(".").pop()\<close>.\<close>

definition last_part :: "string \<Rightarrow> string" where
  "last_part s = last (split_on CHR ''.'' s)"

definition uncapitalized :: "string \<Rightarrow> string" where
  "uncapitalized s = to_lower (take 1 s) @ drop 1 s"

definition metadata_lines :: "(key_value \<Rightarrow> string) \<Rightarrow> grpc_request \<Rightarrow> string" where
  "metadata_lines f r = join [newline] (map f (grpc_enabled_metadata r))"

text \<open>Whether the body is worth a flag: \<open>{}\<close> and blank text are left out.\<close>

definition grpc_has_body :: "grpc_request \<Rightarrow> bool" where
  "grpc_has_body r \<longleftrightarrow> rg_body r \<noteq> [] \<and> trim (rg_body r) \<noteq> ''{}'' \<and> trim (rg_body r) \<noteq> []"

section \<open>Shell\<close>

definition generate_grpcurl :: "grpc_request \<Rightarrow> string" where
  "generate_grpcurl r =
     continued ([''grpcurl''] @ (if rg_tls r then [] else [''-plaintext''])
       @ header_args ''-rpc-header'' (grpc_enabled_metadata r)
       @ (if grpc_has_body r then [''-d'', shell_quote (rg_body r)] else [])
       @ [shell_quote (rg_address r), shell_quote (grpc_full_method r)])"

definition generate_grpc_buf_curl :: "grpc_request \<Rightarrow> string" where
  "generate_grpc_buf_curl r =
     (let url = (if rg_tls r then ''https'' else ''http'') @ ''://'' @ rg_address r @ ''/'' @ grpc_full_method r in
      continued ([''buf'', ''curl''] @ header_args ''-H'' (grpc_enabled_metadata r)
        @ (if grpc_has_body r then [''--data'', shell_quote (rg_body r)] else [])
        @ (if rg_tls r then [] else [''--http2-prior-knowledge'']) @ [shell_quote url]))"

section \<open>Programs\<close>

definition generate_grpc_go :: "grpc_request \<Rightarrow> string" where
  "generate_grpc_go r =
     (let meta = grpc_enabled_metadata r;
          meta_lines = metadata_lines (\<lambda>m. [tab] @ ''md.Append('' @ go_string (kv_key m) @ '', '' @ go_string (kv_value m) @ '')'') r;
          dial_opts = (if rg_tls r then ''grpc.WithTransportCredentials(credentials.NewTLS(&tls.Config{}))''
                       else ''grpc.WithTransportCredentials(insecure.NewCredentials())'');
          imports = [''context'', ''encoding/json'', ''fmt'', ''time'', ''google.golang.org/grpc'', ''google.golang.org/grpc/metadata'']
                    @ (if rg_tls r then [''crypto/tls'', ''google.golang.org/grpc/credentials'']
                       else [''google.golang.org/grpc/credentials/insecure'']) in
     text_lines [
       ''package main'',
       [],
       ''import ('',
       join [newline] (map (\<lambda>i. [tab] @ [dquote] @ i @ [dquote]) imports),
       '')'',
       [],
       ''func main() {'',
       [tab] @ ''conn, err := grpc.NewClient('' @ go_string (rg_address r) @ '', '' @ dial_opts @ '')'',
       [tab] @ ''if err != nil {'',
       [tab] @ [tab] @ ''panic(err)'',
       [tab] @ ''}'',
       [tab] @ ''defer conn.Close()'',
       [],
       [tab] @ ''ctx, cancel := context.WithTimeout(context.Background(), '' @ int_to_string (rg_timeoutMs r) @ ''*time.Millisecond)'',
       [tab] @ ''defer cancel()'',
       [],
       (if meta = [] then [] else [tab] @ ''md := metadata.New(nil)'' @ [newline] @ meta_lines @ [newline, tab] @ ''ctx = metadata.NewOutgoingContext(ctx, md)'' @ [newline]) @ [tab] @ ''var request json.RawMessage = []byte('' @ go_string (or_else (rg_body r) ''{}'') @ '')'',
       [tab] @ ''var response json.RawMessage'',
       [],
       [tab] @ ''err = conn.Invoke(ctx, '' @ go_string (''/'' @ grpc_full_method r) @ '', &request, &response)'',
       [tab] @ ''if err != nil {'',
       [tab] @ [tab] @ ''panic(err)'',
       [tab] @ ''}'',
       [tab] @ ''fmt.Println(string(response))'',
       ''}'',
       []])"

definition generate_grpc_node :: "grpc_request \<Rightarrow> string" where
  "generate_grpc_node r =
     (let meta = grpc_enabled_metadata r;
          meta_obj = (if meta = [] then []
            else ''const metadata = new grpc.Metadata();'' @ [newline]
              @ metadata_lines (\<lambda>m. ''metadata.add('' @ json_quote (kv_key m) @ '', '' @ json_quote (kv_value m) @ '');'') r @ [newline]);
          creds = (if rg_tls r then ''grpc.credentials.createSsl()'' else ''grpc.credentials.createInsecure()'') in
     text_lines [
       ''const grpc = require(\"@grpc/grpc-js\");'',
       ''const protoLoader = require(\"@grpc/proto-loader\");'',
       [],
       ''// Load your .proto file'',
       ''const packageDefinition = protoLoader.loadSync(\"path/to/service.proto\", {'',
       ''  keepCase: true,'',
       ''  longs: String,'',
       ''  enums: String,'',
       ''  defaults: true,'',
       ''  oneofs: true,'',
       ''});'',
       ''const proto = grpc.loadPackageDefinition(packageDefinition);'',
       [],
       ''const client = new proto.'' @ rg_service r @ ''('',
       ''  '' @ json_quote (rg_address r) @ '','',
       ''  '' @ creds @ '','',
       '');'',
       [],
       meta_obj @ ''const request = '' @ or_else (rg_body r) ''{}'' @ '';'',
       [],
       ''client.'' @ rg_method r @ ''(request, '' @ (if meta = [] then [] else ''metadata, '') @ ''{ deadline: Date.now() + '' @ int_to_string (rg_timeoutMs r) @ '' }, (err, response) => {'',
       ''  if (err) {'',
       ''    console.error(err);'',
       ''    return;'',
       ''  }'',
       ''  console.log(JSON.stringify(response, null, 2));'',
       ''});'',
       []])"

definition generate_grpc_python :: "grpc_request \<Rightarrow> string" where
  "generate_grpc_python r =
     (let meta = grpc_enabled_metadata r;
          meta_tuples = metadata_lines (\<lambda>m. ''    ('' @ json_quote (kv_key m) @ '', '' @ json_quote (kv_value m) @ ''),'') r;
          channel = (if rg_tls r then ''grpc.secure_channel('' @ json_quote (rg_address r) @ '', grpc.ssl_channel_credentials())''
                     else ''grpc.insecure_channel('' @ json_quote (rg_address r) @ '')'') in
     text_lines [
       ''import grpc'',
       ''import json'',
       ''# from your_pb2_grpc import '' @ last_part (rg_service r) @ ''Stub'',
       ''# from your_pb2 import YourRequestMessage'',
       [],
       (if meta = [] then [] else ''metadata = ['' @ [newline] @ meta_tuples @ [newline] @ '']'' @ [newline]) @ ''channel = '' @ channel,
       ''# stub = '' @ last_part (rg_service r) @ ''Stub(channel)'',
       [],
       ''request_data = json.loads('' @ [squote, squote, squote] @ or_else (rg_body r) ''{}'' @ [squote, squote, squote] @ '')'',
       ''# response = stub.'' @ rg_method r @ ''(YourRequestMessage(**request_data)'' @ (if meta = [] then [] else '', metadata=metadata'') @ '', timeout='' @ int_to_string (python_timeout (rg_timeoutMs r)) @ '')'',
       ''# print(response)'',
       []])"

definition java_channel :: "grpc_request \<Rightarrow> string" where
  "java_channel r = ''ManagedChannelBuilder.forTarget('' @ json_quote (rg_address r) @ '')''
     @ (if rg_tls r then ''.useTransportSecurity()'' else ''.usePlaintext()'')"

definition generate_grpc_java :: "grpc_request \<Rightarrow> string" where
  "generate_grpc_java r =
     (let meta = grpc_enabled_metadata r; service_name = last_part (rg_service r);
          meta_lines = metadata_lines (\<lambda>m. ''    metadata.put(Metadata.Key.of('' @ json_quote (kv_key m)
            @ '', Metadata.ASCII_STRING_MARSHALLER), '' @ json_quote (kv_value m) @ '');'') r;
          channel_builder = java_channel r in
     text_lines [
       ''import io.grpc.ManagedChannel;'',
       ''import io.grpc.ManagedChannelBuilder;'',
       ''import io.grpc.Metadata;'',
       ''import io.grpc.stub.MetadataUtils;'',
       ''import java.util.concurrent.TimeUnit;'',
       [],
       ''public class GrpcRequest {'',
       ''  public static void main(String[] args) throws Exception {'',
       ''    ManagedChannel channel = '' @ channel_builder @ ''.build();'',
       [],
       (if meta = [] then [] else ''    Metadata metadata = new Metadata();'' @ [newline] @ meta_lines @ [newline]) @ ''    // '' @ service_name @ ''Grpc.'' @ service_name @ ''BlockingStub stub = '' @ service_name @ ''Grpc.newBlockingStub(channel)'' @ (if meta = [] then [] else [newline] @ ''    //   .withInterceptors(MetadataUtils.newAttachHeadersInterceptor(metadata))'') @ '';'',
       ''    // stub.withDeadlineAfter('' @ int_to_string (rg_timeoutMs r) @ '', TimeUnit.MILLISECONDS)'',
       ''    //   .'' @ uncapitalized (rg_method r) @ ''(request);'',
       [],
       ''    channel.shutdownNow().awaitTermination(5, TimeUnit.SECONDS);'',
       ''  }'',
       ''}'',
       []])"

definition generate_grpc_csharp :: "grpc_request \<Rightarrow> string" where
  "generate_grpc_csharp r =
     (let meta = grpc_enabled_metadata r; service_name = last_part (rg_service r);
          meta_lines = metadata_lines (\<lambda>m. ''    headers.Add('' @ json_quote (kv_key m) @ '', '' @ json_quote (kv_value m) @ '');'') r in
     text_lines [
       ''using Grpc.Net.Client;'',
       ''using Grpc.Core;'',
       [],
       ''var channel = GrpcChannel.ForAddress('' @ json_quote ((if rg_tls r then ''https://'' else ''http://'') @ rg_address r) @ '');'',
       ''var client = new '' @ service_name @ ''.'' @ service_name @ ''Client(channel);'',
       [],
       (if meta = [] then [] else ''var headers = new Metadata();'' @ [newline] @ meta_lines @ [newline]) @ ''var deadline = DateTime.UtcNow.AddMilliseconds('' @ int_to_string (rg_timeoutMs r) @ '');'',
       ''// var response = await client.'' @ rg_method r @ ''Async('',
       ''//     request,'' @ (if meta = [] then [] else [newline] @ ''//     headers: headers,''),
       ''//     deadline: deadline'',
       ''// );'',
       ''// Console.WriteLine(response);'',
       []])"

definition generate_grpc_kotlin :: "grpc_request \<Rightarrow> string" where
  "generate_grpc_kotlin r =
     (let meta = grpc_enabled_metadata r; service_name = last_part (rg_service r);
          meta_lines = metadata_lines (\<lambda>m. ''    metadata.put(Metadata.Key.of('' @ json_quote (kv_key m)
            @ '', Metadata.ASCII_STRING_MARSHALLER), '' @ json_quote (kv_value m) @ '')'') r;
          channel_builder = java_channel r in
     text_lines [
       ''import io.grpc.ManagedChannelBuilder'',
       ''import io.grpc.Metadata'',
       ''import io.grpc.stub.MetadataUtils'',
       ''import java.util.concurrent.TimeUnit'',
       [],
       ''fun main() {'',
       ''    val channel = '' @ channel_builder @ ''.build()'',
       [],
       (if meta = [] then [] else ''    val metadata = Metadata()'' @ [newline] @ meta_lines @ [newline]) @ ''    // val stub = '' @ service_name @ ''Grpc.newBlockingStub(channel)'' @ (if meta = [] then [] else [newline] @ ''    //     .withInterceptors(MetadataUtils.newAttachHeadersInterceptor(metadata))''),
       ''    //     .withDeadlineAfter('' @ int_to_string (rg_timeoutMs r) @ '', TimeUnit.MILLISECONDS)'',
       ''    // val response = stub.'' @ uncapitalized (rg_method r) @ ''(request)'',
       ''    // println(response)'',
       [],
       ''    channel.shutdownNow().awaitTermination(5, TimeUnit.SECONDS)'',
       ''}'',
       []])"

section \<open>Targets\<close>

datatype grpc_export_target = GT_grpcurl | GT_go | GT_node | GT_python | GT_java | GT_csharp | GT_kotlin

record grpc_snippet_meta =
  gt_target :: grpc_export_target
  gt_label :: string
  gt_language :: string
  gt_filename :: string

definition grpc_code_export_targets :: "grpc_snippet_meta list" where
  "grpc_code_export_targets = [
     \<lparr>gt_target = GT_grpcurl, gt_label = ''grpcurl'', gt_language = ''shell'', gt_filename = ''request.grpcurl.sh''\<rparr>,
     \<lparr>gt_target = GT_go, gt_label = ''Go gRPC'', gt_language = ''go'', gt_filename = ''request.grpc.go''\<rparr>,
     \<lparr>gt_target = GT_node, gt_label = ''Node @grpc/grpc-js'', gt_language = ''javascript'', gt_filename = ''request.grpc.js''\<rparr>,
     \<lparr>gt_target = GT_python, gt_label = ''Python grpcio'', gt_language = ''python'', gt_filename = ''request.grpc.py''\<rparr>,
     \<lparr>gt_target = GT_java, gt_label = ''Java gRPC'', gt_language = ''java'', gt_filename = ''Request.grpc.java''\<rparr>,
     \<lparr>gt_target = GT_csharp, gt_label = ''C# Grpc.Net.Client'', gt_language = ''csharp'', gt_filename = ''Request.grpc.cs''\<rparr>,
     \<lparr>gt_target = GT_kotlin, gt_label = ''Kotlin gRPC'', gt_language = ''kotlin'', gt_filename = ''Request.grpc.kt''\<rparr>]"

fun grpc_generator_for :: "grpc_export_target \<Rightarrow> grpc_request \<Rightarrow> string" where
  "grpc_generator_for GT_grpcurl r = generate_grpcurl r"
| "grpc_generator_for GT_go r = generate_grpc_go r"
| "grpc_generator_for GT_node r = generate_grpc_node r"
| "grpc_generator_for GT_python r = generate_grpc_python r"
| "grpc_generator_for GT_java r = generate_grpc_java r"
| "grpc_generator_for GT_csharp r = generate_grpc_csharp r"
| "grpc_generator_for GT_kotlin r = generate_grpc_kotlin r"

definition generate_grpc_code_snippet :: "grpc_request \<Rightarrow> grpc_export_target \<Rightarrow> grpc_snippet_meta \<times> string" where
  "generate_grpc_code_snippet r target =
     (case find (\<lambda>m. gt_target m = target) grpc_code_export_targets of
        Some m \<Rightarrow> m | None \<Rightarrow> hd grpc_code_export_targets, grpc_generator_for target r)"

end
