(* ===== verification/Import_Curl.thy ===== *)
theory Import_Curl
  imports Codegen_Http
begin

text \<open>
  Reading command lines: packages/core/src/import-export/curl.ts and grpcurl.ts. Each splits the text
  into tokens with one regular expression, whose matching is written out, and walks over the tokens.
\<close>

section \<open>curl: tokens\<close>

text \<open>\<open>replace(/\\\r?\n/g, " ")\<close>.\<close>

fun join_lines :: "string \<Rightarrow> string" where
  "join_lines (c # d # e # s) =
     (if c = backslash \<and> d = newline then CHR '' '' # join_lines (e # s)
      else if c = backslash \<and> d = carriage \<and> e = newline then CHR '' '' # join_lines s
      else c # join_lines (d # e # s))"
| "join_lines [c, d] = (if c = backslash \<and> d = newline then '' '' else [c, d])"
| "join_lines s = s"

text \<open>
  The rest of a quoted token after its opening quote, closing quote included: characters other than the
  quote and the backslash, or a backslash with any character that is no line terminator.
\<close>

fun quoted_token :: "char \<Rightarrow> string \<Rightarrow> (string \<times> string) option" where
  "quoted_token q [] = None"
| "quoted_token q (c # s) =
     (if c = q then Some ([q], s)
      else if c = backslash then
        (case s of
           d # t \<Rightarrow> (if d = newline \<or> d = carriage then None
                     else map_option (\<lambda>(w, u). (c # d # w, u)) (quoted_token q t))
         | [] \<Rightarrow> None)
      else map_option (\<lambda>(w, u). (c # w, u)) (quoted_token q s))"

definition plain_char :: "char \<Rightarrow> bool" where
  "plain_char c \<longleftrightarrow> \<not> js_space c \<and> c \<noteq> dquote \<and> c \<noteq> squote"

lemma quoted_token_shorter: "quoted_token q s = Some (w, u) \<Longrightarrow> length u < length s"
proof (induction q s arbitrary: w u rule: quoted_token.induct)
  case (2 q c s)
  then show ?case by (cases s) (fastforce split: if_splits intro: less_SucI)+
qed simp

text \<open>All matches of the expression, from left to right; a character no match starts at is skipped.\<close>

function curl_tokens :: "string \<Rightarrow> string list" where
  "curl_tokens [] = []"
| "curl_tokens (c # s) =
     (if plain_char c then (c # takeWhile plain_char s) # curl_tokens (dropWhile plain_char s)
      else if c = dquote \<or> c = squote then
        (case quoted_token c s of Some (w, u) \<Rightarrow> (c # w) # curl_tokens u | None \<Rightarrow> curl_tokens s)
      else curl_tokens s)"
  by pat_completeness auto
termination
  by (relation "measure length") (auto simp: length_dropWhile_le le_imp_less_Suc dest!: quoted_token_shorter)

definition strip_quotes :: "string \<Rightarrow> string" where
  "strip_quotes v =
     (if 2 \<le> length v \<and> (hd v = dquote \<and> last v = dquote \<or> hd v = squote \<and> last v = squote)
      then replace_all [backslash, squote] [squote] (replace_all [backslash, dquote] [dquote] (butlast (tl v)))
      else v)"

section \<open>curl: arguments\<close>

definition value_flags :: "string list" where
  "value_flags = [''-o'', ''--output'', ''-A'', ''--user-agent'', ''-e'', ''--referer'', ''-m'', ''--max-time'',
     ''--connect-timeout'', ''-F'', ''--form'', ''--form-string'', ''-x'', ''--proxy'', ''--cert'', ''--key'',
     ''--cacert'', ''-c'', ''--cookie-jar'', ''--limit-rate'', ''--retry'', ''--resolve'', ''--interface'',
     ''--data-urlencode'']"

text \<open>
  The request so far. Its method is kept apart: it is \<open>undefined\<close> when \<open>-X\<close> is the last token.
\<close>

record curl_request =
  cr_method :: "string option"
  cr_request :: request_config

definition first_or_empty :: "string list \<Rightarrow> string" where
  "first_or_empty ts = (case ts of t # us \<Rightarrow> t | [] \<Rightarrow> [])"

definition header_of_arg :: "string \<Rightarrow> key_value list" where
  "header_of_arg raw =
     (case index_of CHR '':'' raw of Some i \<Rightarrow> [kv_on (trim (take i raw)) (trim (drop (i + 1) raw))] | None \<Rightarrow> [])"

definition credentials_of_arg :: "string \<Rightarrow> auth_config" where
  "credentials_of_arg c =
     (case index_of CHR '':'' c of
        Some i \<Rightarrow> auth_none\<lparr>au_type := AT_basic, au_username := Some (take i c), au_password := Some (drop (i + 1) c)\<rparr>
      | None \<Rightarrow> auth_none\<lparr>au_type := AT_basic, au_username := Some c, au_password := Some []\<rparr>)"

definition is_flag :: "string \<Rightarrow> string list \<Rightarrow> bool" where
  "is_flag t names \<longleftrightarrow> t \<in> set names"

definition curl_data :: "string \<Rightarrow> curl_request \<Rightarrow> curl_request" where
  "curl_data v st =
     st\<lparr>cr_method := (if cr_method st = Some ''GET'' then Some ''POST'' else cr_method st),
        cr_request := (cr_request st)\<lparr>rq_bodyMode := BM_raw, rq_body := v\<rparr>\<rparr>"

fun curl_args :: "string list \<Rightarrow> curl_request \<Rightarrow> curl_request" where
  "curl_args [] st = st"
| "curl_args (t # ts) st =
     (if is_flag t [''-X'', ''--request''] then
        curl_args (drop 1 ts) (st\<lparr>cr_method := (case ts of v # us \<Rightarrow> Some (to_upper v) | [] \<Rightarrow> None)\<rparr>)
      else if is_flag t [''-H'', ''--header''] then
        curl_args (drop 1 ts)
          (st\<lparr>cr_request := (cr_request st)\<lparr>rq_headers := rq_headers (cr_request st) @ header_of_arg (first_or_empty ts)\<rparr>\<rparr>)
      else if is_flag t [''-d'', ''--data'', ''--data-raw'', ''--data-binary''] then
        curl_args (drop 1 ts) (curl_data (first_or_empty ts) st)
      else if is_flag t [''-u'', ''--user''] then
        curl_args (drop 1 ts) (st\<lparr>cr_request := (cr_request st)\<lparr>rq_auth := credentials_of_arg (first_or_empty ts)\<rparr>\<rparr>)
      else if is_flag t value_flags then curl_args (drop 1 ts) st
      else if \<not> starts_with ''-'' t then curl_args ts (st\<lparr>cr_request := (cr_request st)\<lparr>rq_url := t\<rparr>\<rparr>)
      else curl_args ts st)"

text \<open>The first \<open>Authorization\<close> header becomes a bearer token when it is one.\<close>

definition is_authorization :: "key_value \<Rightarrow> bool" where
  "is_authorization hdr \<longleftrightarrow> to_lower (kv_key hdr) = ''authorization''"

fun take_bearer :: "key_value list \<Rightarrow> (string \<times> key_value list) option" where
  "take_bearer [] = None"
| "take_bearer (hdr # hs) =
     (if is_authorization hdr then
        (if starts_with ''bearer '' (to_lower (kv_value hdr)) then Some (drop 7 (kv_value hdr), hs) else None)
      else map_option (\<lambda>(v, rest). (v, hdr # rest)) (take_bearer hs))"

definition bearer_auth :: "string \<Rightarrow> auth_config" where
  "bearer_auth v = auth_none\<lparr>au_type := AT_bearer, au_token := Some v\<rparr>"

definition curl_bearer :: "request_config \<Rightarrow> request_config" where
  "curl_bearer r =
     (case take_bearer (rq_headers r) of
        Some (v, hs) \<Rightarrow> r\<lparr>rq_auth := bearer_auth v, rq_headers := hs\<rparr> | None \<Rightarrow> r)"

definition parse_curl :: "string \<Rightarrow> curl_request option" where
  "parse_curl command =
     (case map strip_quotes (curl_tokens (join_lines command)) of
        [] \<Rightarrow> None
      | t # ts \<Rightarrow>
          (if to_lower t \<noteq> ''curl'' then None
           else let st = curl_args ts \<lparr>cr_method = Some (rq_method empty_request), cr_request = empty_request\<rparr> in
             Some (st\<lparr>cr_request := curl_bearer (cr_request st)\<rparr>)))"

section \<open>grpcurl: tokens\<close>

text \<open>A token: as many plain characters and closed quoted parts as there are.\<close>

definition split_at :: "char \<Rightarrow> string \<Rightarrow> (string \<times> string) option" where
  "split_at q s = (if q \<in> set s then Some (takeWhile (\<lambda>c. c \<noteq> q) s, tl (dropWhile (\<lambda>c. c \<noteq> q) s)) else None)"

lemma split_at_shorter: "split_at q s = Some (w, u) \<Longrightarrow> length u < length s"
  by (induction s arbitrary: w u) (auto simp: split_at_def split: if_splits)

function grpcurl_token :: "string \<Rightarrow> string \<times> string" where
  "grpcurl_token [] = ([], [])"
| "grpcurl_token (c # s) =
     (if plain_char c then (case grpcurl_token s of (w, u) \<Rightarrow> (c # w, u))
      else if c = dquote \<or> c = squote then
        (case split_at c s of
           Some (w, t) \<Rightarrow> (case grpcurl_token t of (v, u) \<Rightarrow> (c # w @ [c] @ v, u))
         | None \<Rightarrow> ([], c # s))
      else ([], c # s))"
  by pat_completeness auto
termination
  by (relation "measure length") (auto dest: split_at_shorter)

lemma grpcurl_token_length: "length (fst (grpcurl_token s)) + length (snd (grpcurl_token s)) = length s"
proof (induction s rule: grpcurl_token.induct)
  case (2 c s)
  have "split_at c s = Some (w, t) \<Longrightarrow> length s = length w + 1 + length t" for w t
  proof -
    assume "split_at c s = Some (w, t)"
    then have c: "c \<in> set s" "w = takeWhile (\<lambda>x. x \<noteq> c) s" "t = tl (dropWhile (\<lambda>x. x \<noteq> c) s)"
      by (auto simp: split_at_def split: if_splits)
    have "dropWhile (\<lambda>x. x \<noteq> c) s \<noteq> []" using c(1) by (auto simp: dropWhile_eq_Nil_conv)
    moreover have "length w + length (dropWhile (\<lambda>x. x \<noteq> c) s) = length s"
      unfolding c(2) length_append [symmetric] takeWhile_dropWhile_id ..
    ultimately show ?thesis by (cases "dropWhile (\<lambda>x. x \<noteq> c) s") (simp_all add: c(3))
  qed
  with 2 show ?case by (auto split: prod.splits option.splits)
qed simp

function grpcurl_tokens :: "string \<Rightarrow> string list" where
  "grpcurl_tokens s =
     (if s = [] then []
      else case grpcurl_token s of
        (w, u) \<Rightarrow> (if w = [] then grpcurl_tokens (tl s) else w # grpcurl_tokens u))"
  by pat_completeness auto
termination
proof (relation "measure length", goal_cases)
  case (2 s w u)
  then show ?case by (cases s) auto
next
  case (3 s w u)
  then have "length w + length u = length s" using grpcurl_token_length [of s] by (metis fst_conv snd_conv)
  with 3 show ?case by (cases w) auto
qed simp

declare grpcurl_tokens.simps [simp del]

definition is_quote :: "char \<Rightarrow> bool" where
  "is_quote c \<longleftrightarrow> c = dquote \<or> c = squote"

definition strip_outer_quotes :: "string \<Rightarrow> string" where
  "strip_outer_quotes v =
     (let t = (if v \<noteq> [] \<and> is_quote (hd v) then tl v else v) in
      if t \<noteq> [] \<and> is_quote (last t) then butlast t else t)"

section \<open>grpcurl: arguments\<close>

text \<open>\<open>parseFloat\<close>: the number at the start of the text.\<close>

definition parse_float :: "string \<Rightarrow> jsnum" where
  "parse_float s =
     (let t = trim_start s; neg = starts_with ''-'' t;
          u = (if neg \<or> starts_with ''+'' t then drop 1 t else t);
          ip = takeWhile is_digit u; a = dropWhile is_digit u;
          fp = (if starts_with ''.'' a then takeWhile is_digit (drop 1 a) else []);
          b = (if starts_with ''.'' a then dropWhile is_digit (drop 1 a) else a);
          e = (case read_exponent b of Some (n, v) \<Rightarrow> n | None \<Rightarrow> 0);
          x = (if starts_with ''Infinity'' u then PosInf
               else if ip = [] \<and> fp = [] then NaN else Fin (decimal_value ip fp e)) in
      if neg then num_neg x else x)"

definition seconds_to_ms :: "jsnum \<Rightarrow> jsnum" where
  "seconds_to_ms x = (case x of Fin v \<Rightarrow> Fin (of_int \<lfloor>v * 1000 + 1 / 2\<rfloor>) | y \<Rightarrow> y)"

text \<open>The request so far; its deadline is a number that may be \<open>NaN\<close>.\<close>

record grpcurl_request =
  gc_plaintext :: bool
  gc_timeoutMs :: jsnum
  gc_request :: grpc_request

definition metadata_of_arg :: "string \<Rightarrow> key_value list" where
  "metadata_of_arg raw =
     (let parts = split_on CHR '':'' raw; key = hd parts in
      if trim key \<noteq> [] then [kv_on (trim key) (trim (join '':'' (tl parts)))] else [])"

definition add_metadata :: "key_value list \<Rightarrow> grpcurl_request \<Rightarrow> grpcurl_request" where
  "add_metadata ms st = st\<lparr>gc_request := (gc_request st)\<lparr>rg_metadata := rg_metadata (gc_request st) @ ms\<rparr>\<rparr>"

text \<open>A positional argument: the address when there is none yet, otherwise the full method.\<close>

definition grpcurl_positional :: "string \<Rightarrow> grpc_request \<Rightarrow> grpc_request" where
  "grpcurl_positional t r =
     (if rg_address r = [] then r\<lparr>rg_address := t\<rparr>
      else
        (let parts = split_on CHR ''/'' t in
         r\<lparr>rg_method := last parts, rg_service := join ''/'' (butlast parts)\<rparr>))"

fun grpcurl_args :: "string list \<Rightarrow> grpcurl_request \<Rightarrow> grpcurl_request" where
  "grpcurl_args [] st = st"
| "grpcurl_args (t # ts) st =
     (if t = ''-plaintext'' then grpcurl_args ts (st\<lparr>gc_plaintext := True\<rparr>)
      else if t = ''-insecure'' then grpcurl_args ts (st\<lparr>gc_request := (gc_request st)\<lparr>rg_tls := True\<rparr>\<rparr>)
      else if is_flag t [''-d'', ''--data'', ''-data''] then
        grpcurl_args (drop 1 ts)
          (st\<lparr>gc_request := (gc_request st)\<lparr>rg_body := (case ts of v # us \<Rightarrow> v | [] \<Rightarrow> ''{}'')\<rparr>\<rparr>)
      else if is_flag t [''-rpc-header'', ''-H''] then
        grpcurl_args (drop 1 ts) (add_metadata (metadata_of_arg (first_or_empty ts)) st)
      else if t = ''-authority'' then
        grpcurl_args (drop 1 ts) (add_metadata [kv_on '':authority'' (first_or_empty ts)] st)
      else if is_flag t [''-connect-timeout'', ''-max-time''] then
        grpcurl_args (drop 1 ts)
          (st\<lparr>gc_timeoutMs := seconds_to_ms (parse_float (case ts of v # us \<Rightarrow> v | [] \<Rightarrow> ''30''))\<rparr>)
      else if is_flag t [''-import-path'', ''-proto'', ''-protoset''] then grpcurl_args (drop 1 ts) st
      else if \<not> starts_with ''-'' t then grpcurl_args ts (st\<lparr>gc_request := grpcurl_positional t (gc_request st)\<rparr>)
      else grpcurl_args ts st)"

text \<open>
  The bearer token of the first \<open>authorization\<close> row moves to the credentials; rows are filtered by
  identity, so only that one goes.
\<close>

definition grpcurl_bearer :: "grpc_request \<Rightarrow> grpc_request" where
  "grpcurl_bearer r =
     (case take_bearer (rg_metadata r) of
        Some (v, ms) \<Rightarrow> r\<lparr>rg_auth := Some (bearer_auth v), rg_metadata := ms\<rparr> | None \<Rightarrow> r)"

definition parse_grpcurl :: "string \<Rightarrow> grpcurl_request option" where
  "parse_grpcurl command =
     (case map strip_outer_quotes (grpcurl_tokens command) of
        [] \<Rightarrow> None
      | t # ts \<Rightarrow>
          (if t \<noteq> ''grpcurl'' then None
           else let st = grpcurl_args ts \<lparr>gc_plaintext = False, gc_timeoutMs = Fin 30000, gc_request = empty_grpc_request\<rparr> in
             Some (st\<lparr>gc_request := grpcurl_bearer ((gc_request st)\<lparr>rg_tls := \<not> gc_plaintext st\<rparr>)\<rparr>)))"

end
