(* ===== verification/Codegen_Facts.thy ===== *)
theory Codegen_Facts
  imports Codegen_Gql Codegen_Ws Codegen_Grpc Import_Curl
begin

text \<open>
  What the generated commands mean: a reader of POSIX shell words as the reference, against which every
  shell target is checked; and what the importers make of an exported command.
\<close>

section \<open>Words of a shell command\<close>

text \<open>
  A reader of one simple command: words are separated by blanks, a quoted part is taken as it is, a
  backslash makes the next character plain or continues the line, a line end closes the command. A
  character with any other meaning to a shell is refused.
\<close>

datatype shell_mode = Plain | Quoted | Escaped

definition shell_safe :: "char \<Rightarrow> bool" where
  "shell_safe c \<longleftrightarrow> is_alnum c \<or> c \<in> {CHR ''-'', CHR ''_'', CHR ''.'', CHR ''/'', CHR '':''}"

definition open_word :: "string option \<Rightarrow> string" where
  "open_word w = (case w of Some x \<Rightarrow> x | None \<Rightarrow> [])"

definition close_word :: "string option \<Rightarrow> string list" where
  "close_word w = (case w of Some x \<Rightarrow> [x] | None \<Rightarrow> [])"

fun sh_read :: "shell_mode \<Rightarrow> string option \<Rightarrow> string \<Rightarrow> string list option" where
  "sh_read m w [] = (if m = Plain then Some (close_word w) else None)"
| "sh_read Plain w (c # s) =
     (if c = squote then sh_read Quoted (Some (open_word w)) s
      else if c = backslash then sh_read Escaped w s
      else if c = CHR '' '' \<or> c = tab then map_option ((@) (close_word w)) (sh_read Plain None s)
      else if c = newline then (if s = [] then Some (close_word w) else None)
      else if shell_safe c then sh_read Plain (Some (open_word w @ [c])) s
      else None)"
| "sh_read Quoted w (c # s) =
     (if c = squote then sh_read Plain w s else sh_read Quoted (Some (open_word w @ [c])) s)"
| "sh_read Escaped w (c # s) =
     (if c = newline then sh_read Plain w s else sh_read Plain (Some (open_word w @ [c])) s)"

definition sh_words :: "string \<Rightarrow> string list option" where
  "sh_words s = sh_read Plain None s"

lemma open_close_word [simp]:
  "open_word (Some x) = x" "open_word None = []" "close_word (Some x) = [x]" "close_word None = []"
  by (simp_all add: open_word_def close_word_def)

lemma replace_char: "replace_all [q] rep s = concat (map (\<lambda>c. if c = q then rep else [c]) s)"
  by (induction s) auto

lemma shell_safe_plain: "shell_safe c \<Longrightarrow> c \<noteq> squote \<and> c \<noteq> backslash \<and> c \<noteq> CHR '' '' \<and> c \<noteq> tab \<and> c \<noteq> newline"
  by (auto simp: shell_safe_def is_alnum_def is_alpha_def is_upper_ascii_def is_lower_ascii_def is_digit_def code_unit_def)

lemma map_option_append_Nil [simp]: "map_option ((@) []) y = y"
  by (cases y) simp_all

text \<open>A piece of a command: what stands between two blanks gives these words, whatever follows.\<close>

definition blank_next :: "string \<Rightarrow> bool" where
  "blank_next rest \<longleftrightarrow> rest = [] \<or> rest = [newline] \<or> (\<exists>s. rest = CHR '' '' # s)"

definition sh_piece :: "string \<Rightarrow> string list \<Rightarrow> bool" where
  "sh_piece p vs \<longleftrightarrow> (\<forall>rest. blank_next rest \<longrightarrow> sh_read Plain None (p @ rest) = map_option ((@) vs) (sh_read Plain None rest))"

lemma sh_read_close: "blank_next rest \<Longrightarrow> sh_read Plain (Some x) rest = map_option ((@) [x]) (sh_read Plain None rest)"
  by (auto simp: blank_next_def)

lemma sh_read_quoted:
  "sh_read Quoted (Some x) (replace_all [squote] [squote, backslash, squote, squote] v @ squote # rest)
     = sh_read Plain (Some (x @ v)) rest"
  unfolding replace_char by (induction v arbitrary: x) (auto simp: open_word_def)

lemma shell_quote_piece [intro, simp]: "sh_piece (shell_quote v) [v]"
  unfolding sh_piece_def shell_quote_def by (auto simp: sh_read_quoted sh_read_close)

lemma sh_read_safe_char:
  "shell_safe c \<Longrightarrow> sh_read Plain w (c # s) = sh_read Plain (Some (open_word w @ [c])) s"
  using shell_safe_plain [of c] by simp

lemma sh_read_safe:
  "list_all shell_safe v \<Longrightarrow> sh_read Plain (Some x) (v @ rest) = sh_read Plain (Some (x @ v)) rest"
  by (induction v arbitrary: x) (simp_all add: sh_read_safe_char del: sh_read.simps)

lemma safe_piece [intro]: "list_all shell_safe v \<Longrightarrow> v \<noteq> [] \<Longrightarrow> sh_piece v [v]"
  unfolding sh_piece_def
proof (intro allI impI)
  fix rest assume v: "list_all shell_safe v" "v \<noteq> []" and rest: "blank_next rest"
  then obtain c u where c: "v = c # u" "shell_safe c" "list_all shell_safe u" by (cases v) auto
  then have "sh_read Plain None (v @ rest) = sh_read Plain (Some v) rest"
    using sh_read_safe [OF c(3), of "[c]" rest] by (simp add: sh_read_safe_char del: sh_read.simps)
  then show "sh_read Plain None (v @ rest) = map_option ((@) [v]) (sh_read Plain None rest)"
    using sh_read_close [OF rest] by simp
qed

lemma flag_piece [intro, simp]:
  "sh_piece ''curl'' [''curl'']" "sh_piece ''-X'' [''-X'']" "sh_piece ''-H'' [''-H'']" "sh_piece ''-F'' [''-F'']"
  "sh_piece ''--data-raw'' [''--data-raw'']" "sh_piece ''http'' [''http'']" "sh_piece ''wscat'' [''wscat'']"
  "sh_piece ''websocat'' [''websocat'']" "sh_piece ''-c'' [''-c'']" "sh_piece ''--protocol'' [''--protocol'']"
  "sh_piece ''grpcurl'' [''grpcurl'']" "sh_piece ''-plaintext'' [''-plaintext'']" "sh_piece ''-d'' [''-d'']"
  "sh_piece ''-rpc-header'' [''-rpc-header'']" "sh_piece ''buf'' [''buf'']" "sh_piece ''--data'' [''--data'']"
  "sh_piece ''--http2-prior-knowledge'' [''--http2-prior-knowledge'']"
  by (rule safe_piece; code_simp)+

lemma spaced_piece: "sh_piece p vs \<Longrightarrow> sh_piece q ws \<Longrightarrow> sh_piece (p @ '' '' @ q) (vs @ ws)"
proof -
  assume p: "sh_piece p vs" and q: "sh_piece q ws"
  have "sh_read Plain None ((p @ '' '' @ q) @ rest) = map_option ((@) (vs @ ws)) (sh_read Plain None rest)"
    if rest: "blank_next rest" for rest
  proof -
    have "blank_next ('' '' @ q @ rest)" by (simp add: blank_next_def)
    with p have "sh_read Plain None (p @ '' '' @ q @ rest) = map_option ((@) vs) (sh_read Plain None (q @ rest))"
      by (simp add: sh_piece_def)
    also have "\<dots> = map_option ((@) (vs @ ws)) (sh_read Plain None rest)"
      using q rest by (cases "sh_read Plain None rest") (simp_all add: sh_piece_def)
    finally show ?thesis by simp
  qed
  then show ?thesis by (simp add: sh_piece_def)
qed

text \<open>The continued lines of a command are its pieces one after the other.\<close>

lemma continued_words:
  assumes "list_all2 sh_piece ps vss" and "ps \<noteq> []" and "end \<in> {[], [newline]}"
  shows "sh_words (continued ps @ end) = Some (concat vss)"
  using assms(1,2)
proof (induction ps vss rule: list_all2_induct)
  case (Cons p ps v vss)
  have last: "blank_next end" "sh_read Plain None end = Some []" using assms(3) by (auto simp: blank_next_def)
  show ?case
  proof (cases ps)
    case Nil
    with Cons.hyps have "vss = []" by simp
    with Nil Cons.hyps(1) last show ?thesis by (simp add: sh_words_def continued_def sh_piece_def)
  next
    case (Cons q qs)
    let ?rest = "'' '' @ [backslash, newline] @ ''  '' @ continued ps @ end"
    have "continued (p # ps) @ end = p @ ?rest" using Cons by (simp add: continued_def)
    moreover have "blank_next ?rest" by (simp add: blank_next_def)
    moreover have "sh_read Plain None ?rest = sh_read Plain None (continued ps @ end)"
      by (cases "sh_read Plain None (continued ps @ end)") simp_all
    ultimately show ?thesis using Cons.IH Cons.hyps(1) Cons by (simp add: sh_words_def sh_piece_def)
  qed
qed simp

definition header_words :: "string \<Rightarrow> (string \<times> string) list \<Rightarrow> string list" where
  "header_words flag hs = concat (map (\<lambda>(k, v). [flag, k @ '': '' @ v]) hs)"

abbreviation pairs_of :: "key_value list \<Rightarrow> (string \<times> string) list" where
  "pairs_of hs \<equiv> map (\<lambda>hdr. (kv_key hdr, kv_value hdr)) hs"

lemma header_args_pieces:
  assumes "sh_piece flag [flag]"
  shows "\<exists>vss. list_all2 sh_piece (header_args flag hs) vss \<and> concat vss = header_words flag (pairs_of hs)"
proof (induction hs)
  case (Cons hdr hs)
  then obtain vss where "list_all2 sh_piece (header_args flag hs) vss" "concat vss = header_words flag (pairs_of hs)" by blast
  then show ?case using assms
    by (intro exI [of _ "[flag] # [kv_key hdr @ '': '' @ kv_value hdr] # vss"]) (simp add: header_args_def header_words_def)
qed (simp add: header_args_def header_words_def)

text \<open>Pieces that are built up part by part.\<close>

definition sh_pieces :: "string list \<Rightarrow> string list \<Rightarrow> bool" where
  "sh_pieces ps ws \<longleftrightarrow> (\<exists>vss. list_all2 sh_piece ps vss \<and> concat vss = ws)"

named_theorems pieces \<open>pieces of shell commands\<close>

lemma sh_pieces_Nil [pieces]: "sh_pieces [] []"
  by (auto simp: sh_pieces_def)

lemma sh_pieces_Cons [pieces]: "sh_piece p [v] \<Longrightarrow> sh_pieces ps ws \<Longrightarrow> sh_pieces (p # ps) (v # ws)"
  unfolding sh_pieces_def by (force intro: exI [of _ "[v] # _"])

lemma sh_pieces_append [pieces]: "sh_pieces ps ws \<Longrightarrow> sh_pieces qs vs \<Longrightarrow> sh_pieces (ps @ qs) (ws @ vs)"
  unfolding sh_pieces_def by (metis concat_append list_all2_appendI)

lemma sh_pieces_if [pieces]:
  "(b \<Longrightarrow> sh_pieces ps ws) \<Longrightarrow> (\<not> b \<Longrightarrow> sh_pieces qs vs) \<Longrightarrow> sh_pieces (if b then ps else qs) (if b then ws else vs)"
  by simp

lemma sh_pieces_headers [pieces]: "sh_piece flag [flag] \<Longrightarrow> sh_pieces (header_args flag hs) (header_words flag (pairs_of hs))"
  using header_args_pieces by (auto simp: sh_pieces_def)

lemma sh_pieces_map [pieces]: "(\<And>x. x \<in> set xs \<Longrightarrow> sh_piece (f x) [g x]) \<Longrightarrow> sh_pieces (map f xs) (map g xs)"
  by (induction xs) (auto intro: pieces)

lemma sh_pieces_concat [pieces]:
  "(\<And>x. x \<in> set xs \<Longrightarrow> sh_pieces (f x) (g x)) \<Longrightarrow> sh_pieces (concat (map f xs)) (concat (map g xs))"
  by (induction xs) (auto intro: pieces)

lemma sh_words_continued: "sh_pieces ps ws \<Longrightarrow> ps \<noteq> [] \<Longrightarrow> sh_words (continued ps) = Some ws"
  using continued_words [of ps _ "[]"] by (auto simp: sh_pieces_def)

lemma sh_words_continued_line: "sh_pieces ps ws \<Longrightarrow> ps \<noteq> [] \<Longrightarrow> sh_words (continued ps @ [newline]) = Some ws"
  using continued_words [of ps _ "[newline]"] by (auto simp: sh_pieces_def)

section \<open>The shell targets\<close>

lemma curl_words:
  assumes "rq_bodyMode r \<noteq> BM_graphql_multipart"
  shows "sh_words (generate_curl r) =
    Some ([''curl'', ''-X'', rq_method r, rq_url r] @ header_words ''-H'' (pairs_of (enabled_headers (rq_headers r)))
      @ (if has_body r then [''--data-raw'', rq_body r] else []))"
  using assms unfolding generate_curl_def by (simp only: if_False) (intro sh_words_continued pieces; simp)

lemma httpie_words:
  assumes "list_all shell_safe (rq_method r)" and "rq_method r \<noteq> []"
  shows "sh_words (generate_httpie r) =
    Some ([''http'', rq_method r, rq_url r] @ map (\<lambda>hdr. kv_key hdr @ '':'' @ kv_value hdr) (enabled_headers (rq_headers r))
      @ (if has_body r then [rq_body r] else []))"
  unfolding generate_httpie_def by (intro sh_words_continued_line pieces; simp add: safe_piece assms)

lemma wscat_words:
  "sh_words (generate_wscat r) =
    Some ([''wscat'', ''-c'', wq_url r] @ header_words ''-H'' (ws_effective_headers r)
      @ concat (map (\<lambda>p. [''--protocol'', p]) (case ws_protocols r of Some ps \<Rightarrow> ps | None \<Rightarrow> [])))"
proof -
  have h: "sh_pieces (concat (map (\<lambda>hdr. [''-H'', ws_header_text hdr]) hs)) (header_words ''-H'' hs)" for hs
    unfolding header_words_def by (intro pieces) (auto simp: ws_header_text_def split: prod.splits intro!: pieces)
  have p: "sh_pieces (case ws_protocols r of Some ps \<Rightarrow> concat (map (\<lambda>p. [''--protocol'', shell_quote p]) ps) | None \<Rightarrow> [])
      (concat (map (\<lambda>p. [''--protocol'', p]) (case ws_protocols r of Some ps \<Rightarrow> ps | None \<Rightarrow> [])))"
    by (auto split: option.splits intro!: pieces)
  show ?thesis unfolding generate_wscat_def by (intro sh_words_continued sh_pieces_append h p pieces; simp)
qed

lemma websocat_words:
  "sh_words (generate_websocat r) = Some ([''websocat'', wq_url r] @ header_words ''-H'' (ws_effective_headers r))"
proof -
  have "sh_piece (''-H '' @ ws_header_text hdr) [''-H'', fst hdr @ '': '' @ snd hdr]" for hdr
    using spaced_piece [OF flag_piece(3) shell_quote_piece] by (simp add: ws_header_text_def)
  then have h: "sh_pieces (map (\<lambda>hdr. ''-H '' @ ws_header_text hdr) hs) (header_words ''-H'' hs)" for hs
    unfolding sh_pieces_def
    by (intro exI [of _ "map (\<lambda>(k, v). [''-H'', k @ '': '' @ v]) hs"])
      (auto simp: header_words_def list_all2_map1 list_all2_map2 list_all2_same split: prod.splits)
  show ?thesis unfolding generate_websocat_def by (intro sh_words_continued sh_pieces_append h pieces; simp)
qed

lemma grpcurl_words:
  "sh_words (generate_grpcurl r) =
    Some ([''grpcurl''] @ (if rg_tls r then [] else [''-plaintext''])
      @ header_words ''-rpc-header'' (pairs_of (grpc_enabled_metadata r))
      @ (if grpc_has_body r then [''-d'', rg_body r] else []) @ [rg_address r, grpc_full_method r])"
  unfolding generate_grpcurl_def by (intro sh_words_continued pieces; simp)

lemma buf_curl_words:
  "sh_words (generate_grpc_buf_curl r) =
    Some ([''buf'', ''curl''] @ header_words ''-H'' (pairs_of (grpc_enabled_metadata r))
      @ (if grpc_has_body r then [''--data'', rg_body r] else [])
      @ (if rg_tls r then [] else [''--http2-prior-knowledge''])
      @ [(if rg_tls r then ''https'' else ''http'') @ ''://'' @ rg_address r @ ''/'' @ grpc_full_method r])"
  unfolding generate_grpc_buf_curl_def Let_def by (intro sh_words_continued pieces; simp)

text \<open>The fields of a multipart body: each is a flag and a quoted text, so they are read as some words.\<close>

definition readable :: "string list \<Rightarrow> bool" where
  "readable ps \<longleftrightarrow> (\<exists>ws. sh_pieces ps ws)"

lemma readable_Nil: "readable []"
  by (auto simp: readable_def intro: pieces)

lemma readable_append: "readable ps \<Longrightarrow> readable qs \<Longrightarrow> readable (ps @ qs)"
  by (auto simp: readable_def intro: pieces)

lemma readable_field: "sh_piece flag [flag] \<Longrightarrow> readable ps \<Longrightarrow> readable (flag # shell_quote v # ps)"
  unfolding readable_def by (blast intro: pieces shell_quote_piece)

lemma file_parts_readable: "readable (fst (file_parts fs))"
proof (induction fs)
  case (Cons f fs)
  have "readable ps" if "file_part f = Some ps" for ps
    using that by (auto simp: file_part_def Let_def intro: readable_field readable_Nil split: if_splits)
  with Cons show ?case
    by (auto simp: readable_Nil intro: readable_append split: option.splits prod.splits)
qed (simp add: readable_Nil)

lemma multipart_readable: "readable (fst (multipart_parts j))"
proof -
  have files: "readable ps" if "file_parts fs = (ps, ok)" for fs ps ok
    using file_parts_readable [of fs] that by simp
  show ?thesis
    unfolding multipart_parts_def Let_def
    by (auto split: option.splits prod.splits intro: readable_append readable_field readable_Nil dest!: files)
qed

lemma curl_multipart_words:
  "\<exists>fields. sh_words (generate_curl_graphql_multipart r) =
    Some ([''curl'', ''-X'', rq_method r, rq_url r]
      @ header_words ''-H'' (pairs_of (filter (\<lambda>hdr. to_lower (kv_key hdr) \<noteq> ''content-type'') (enabled_headers (rq_headers r))))
      @ fields)"
proof -
  let ?start = "[''curl'', ''-X'', shell_quote (rq_method r), shell_quote (rq_url r)]
    @ header_args ''-H'' (filter (\<lambda>hdr. to_lower (kv_key hdr) \<noteq> ''content-type'') (enabled_headers (rq_headers r)))"
  have raw: "readable [''--data-raw'', shell_quote (rq_body r)]" by (simp add: readable_field readable_Nil)
  have "\<exists>ps. generate_curl_graphql_multipart r = continued (?start @ ps) \<and> readable ps"
  proof (cases "json_parse (rq_body r)")
    case None
    with raw show ?thesis by (auto simp: generate_curl_graphql_multipart_def Let_def)
  next
    case (Some j)
    obtain ps ok where m: "multipart_parts j = (ps, ok)" by (cases "multipart_parts j")
    with multipart_readable [of j] have "readable ps" by simp
    then have "readable (ps @ (if ok then [] else [''--data-raw'', shell_quote (rq_body r)]))"
      using raw by (auto intro: readable_append readable_Nil)
    with Some m show ?thesis by (auto simp: generate_curl_graphql_multipart_def Let_def)
  qed
  then obtain ps ws where g: "generate_curl_graphql_multipart r = continued (?start @ ps)" "sh_pieces ps ws"
    by (auto simp: readable_def)
  have start: "sh_pieces ?start ([''curl'', ''-X'', rq_method r, rq_url r]
      @ header_words ''-H'' (pairs_of (filter (\<lambda>hdr. to_lower (kv_key hdr) \<noteq> ''content-type'') (enabled_headers (rq_headers r)))))"
    by (intro pieces; simp)
  show ?thesis unfolding g(1) using sh_words_continued [OF sh_pieces_append [OF start g(2)]] by auto
qed



end
