(* ===== verification/Import_Curl_Facts.thy ===== *)
theory Import_Curl_Facts
  imports Codegen_Facts
begin

text \<open>
  What the importers read back from an exported command.
\<close>

section \<open>Tokens of an exported curl command\<close>

definition plain_text :: "string \<Rightarrow> bool" where
  "plain_text s \<longleftrightarrow> squote \<notin> set s \<and> backslash \<notin> set s"

lemma join_lines_plain: "c \<noteq> backslash \<Longrightarrow> join_lines (c # s) = c # join_lines s"
  by (cases "c # s" rule: join_lines.cases) auto

lemma join_lines_append: "backslash \<notin> set p \<Longrightarrow> join_lines (p @ s) = p @ join_lines s"
  by (induction p) (auto simp: join_lines_plain)

lemma join_lines_continued: "join_lines (backslash # newline # s) = CHR '' '' # join_lines s"
  by (cases s) auto

definition read_tokens :: "string \<Rightarrow> string list" where
  "read_tokens s = map strip_quotes (curl_tokens s)"

text \<open>A piece as the tokenizer sees it.\<close>

definition token_piece :: "string \<Rightarrow> string \<Rightarrow> bool" where
  "token_piece p v \<longleftrightarrow> backslash \<notin> set p
     \<and> (\<forall>rest. rest = [] \<or> (\<exists>s. rest = CHR '' '' # s) \<longrightarrow> read_tokens (p @ rest) = v # read_tokens rest)"

lemma blank_no_plain: "\<not> plain_char (CHR '' '')"
  by (simp add: plain_char_def js_space_def)

lemma read_tokens_blank: "read_tokens (CHR '' '' # s) = read_tokens s"
  by (simp add: read_tokens_def blank_no_plain)

lemma quoted_token_plain:
  "plain_text v \<Longrightarrow> quoted_token squote (v @ squote # rest) = Some (v @ [squote], rest)"
  by (induction v) (auto simp: plain_text_def)

lemma no_includes: "c \<notin> set s \<Longrightarrow> \<not> str_includes (c # p) s"
  by (induction s) auto

lemma replace_absent: "c \<notin> set s \<Longrightarrow> replace_all (c # p) rep s = s"
  by (rule replace_all_no_match) (rule no_includes)

lemma strip_quotes_quoted: "plain_text v \<Longrightarrow> strip_quotes (squote # v @ [squote]) = v"
  by (simp add: strip_quotes_def plain_text_def replace_absent)

lemma quoted_token_piece: "plain_text v \<Longrightarrow> token_piece (shell_quote v) v"
proof -
  assume v: "plain_text v"
  then have q: "shell_quote v = squote # v @ [squote]"
    by (simp add: shell_quote_def replace_absent plain_text_def)
  have "\<not> plain_char squote" by (simp add: plain_char_def)
  then show ?thesis
    using v quoted_token_plain [OF v] strip_quotes_quoted [OF v]
    unfolding token_piece_def q by (auto simp: read_tokens_def plain_text_def)
qed

lemma span_plain:
  "list_all plain_char v \<Longrightarrow> rest = [] \<or> (\<exists>s. rest = CHR '' '' # s) \<Longrightarrow>
    takeWhile plain_char (v @ rest) = v \<and> dropWhile plain_char (v @ rest) = rest"
  by (induction v) (auto simp: blank_no_plain)

lemma plain_token_piece:
  assumes "list_all plain_char v" and "v \<noteq> []" and "backslash \<notin> set v"
  shows "token_piece v v"
  unfolding token_piece_def
proof (intro conjI allI impI)
  fix rest assume rest: "rest = [] \<or> (\<exists>s. rest = CHR '' '' # s)"
  obtain c u where v: "v = c # u" "plain_char c" "list_all plain_char u" using assms by (cases v) auto
  have "strip_quotes v = v" using v(2) by (auto simp: strip_quotes_def v(1) plain_char_def)
  then show "read_tokens (v @ rest) = v # read_tokens rest"
    using span_plain [OF v(3) rest] v(2) by (simp add: read_tokens_def v(1))
qed (rule assms(3))

lemma flag_tokens:
  "token_piece ''curl'' ''curl''" "token_piece ''-X'' ''-X''" "token_piece ''-H'' ''-H''" "token_piece ''--data-raw'' ''--data-raw''"
  by (rule plain_token_piece; code_simp)+

lemma continued_tokens:
  "list_all2 token_piece ps vs \<Longrightarrow> read_tokens (join_lines (continued ps)) = vs"
proof (induction ps vs rule: list_all2_induct)
  case Nil
  then show ?case by (simp add: continued_def read_tokens_def)
next
  case (Cons p ps v vs)
  have p: "backslash \<notin> set p"
    "\<And>rest. rest = [] \<or> (\<exists>s. rest = CHR '' '' # s) \<Longrightarrow> read_tokens (p @ rest) = v # read_tokens rest"
    using Cons.hyps(1) by (auto simp: token_piece_def)
  show ?case
  proof (cases ps)
    case Nil
    with Cons.hyps have "vs = []" by simp
    with Nil p(2) [of "[]"] join_lines_append [OF p(1), of "[]"] show ?thesis
      by (simp add: continued_def read_tokens_def)
  next
    case (Cons q qs)
    let ?s = "continued ps"
    have "continued (p # ps) = p @ '' '' @ backslash # newline # ''  '' @ ?s" using Cons by (simp add: continued_def)
    then have "join_lines (continued (p # ps)) = p @ '' '' @ '' '' @ ''  '' @ join_lines ?s"
      by (simp add: join_lines_append [OF p(1)] join_lines_plain join_lines_continued del: join_lines.simps)
    then show ?thesis using p(2) Cons.IH by (simp add: read_tokens_blank)
  qed
qed

section \<open>Arguments\<close>

text \<open>
  A request a command line can say in full: no quotes or backslashes in its texts, an upper-case method, a
  URL that is no option, and header rows that are trimmed and have no colon in the name; an \<open>Authorization\<close>
  row with a bearer token would come back as credentials.
\<close>

definition header_exportable :: "key_value \<Rightarrow> bool" where
  "header_exportable hdr \<longleftrightarrow> plain_text (kv_key hdr) \<and> plain_text (kv_value hdr) \<and> CHR '':'' \<notin> set (kv_key hdr)
     \<and> trim (kv_key hdr) = kv_key hdr \<and> trim (kv_value hdr) = kv_value hdr"

definition curl_exportable :: "request_config \<Rightarrow> bool" where
  "curl_exportable r \<longleftrightarrow> rq_bodyMode r \<noteq> BM_graphql_multipart
     \<and> plain_text (rq_method r) \<and> plain_text (rq_url r) \<and> plain_text (rq_body r)
     \<and> to_upper (rq_method r) = rq_method r \<and> \<not> starts_with ''-'' (rq_url r)
     \<and> list_all header_exportable (enabled_headers (rq_headers r))
     \<and> take_bearer (enabled_headers (rq_headers r)) = None"

lemma index_of_first: "d \<notin> set k \<Longrightarrow> index_of d (k @ d # v) = Some (length k)"
  by (induction k) auto

lemma header_of_exported:
  "header_exportable hdr \<Longrightarrow> header_of_arg (kv_key hdr @ '': '' @ kv_value hdr) = [kv_on (kv_key hdr) (kv_value hdr)]"
proof -
  assume h: "header_exportable hdr"
  have "trim (CHR '' '' # kv_value hdr) = trim (kv_value hdr)" by (simp add: trim_def js_space_def)
  with h index_of_first [of "CHR '':''" "kv_key hdr" "CHR '' '' # kv_value hdr"] show ?thesis
    by (simp add: header_of_arg_def header_exportable_def)
qed

lemma curl_headers_args:
  "list_all header_exportable hs \<Longrightarrow>
    curl_args (header_words ''-H'' (pairs_of hs) @ rest) st =
    curl_args rest (st\<lparr>cr_request := (cr_request st)\<lparr>rq_headers := rq_headers (cr_request st)
      @ map (\<lambda>hdr. kv_on (kv_key hdr) (kv_value hdr)) hs\<rparr>\<rparr>)"
proof (induction hs arbitrary: st)
  case (Cons hdr hs)
  have "header_words ''-H'' (pairs_of (hdr # hs)) = ''-H'' # (kv_key hdr @ '': '' @ kv_value hdr) # header_words ''-H'' (pairs_of hs)"
    by (simp add: header_words_def)
  then show ?case
    using Cons header_of_exported [of hdr] by (simp add: is_flag_def first_or_empty_def)
qed (simp add: header_words_def)

lemma take_bearer_exported:
  "take_bearer (map (\<lambda>hdr. kv_on (kv_key hdr) (kv_value hdr)) hs) = None \<longleftrightarrow> take_bearer hs = None"
  by (induction hs) (auto simp: is_authorization_def)

lemma no_flag: "\<not> starts_with ''-'' u \<Longrightarrow> list_all (starts_with ''-'') fs \<Longrightarrow> \<not> is_flag u fs"
  by (auto simp: is_flag_def list_all_iff)

lemma curl_url_arg:
  "\<not> starts_with ''-'' u \<Longrightarrow> curl_args (u # ts) st = curl_args ts (st\<lparr>cr_request := (cr_request st)\<lparr>rq_url := u\<rparr>\<rparr>)"
  using no_flag [of u] by (simp add: value_flags_def)

lemma curl_method_arg: "curl_args (''-X'' # m # ts) st = curl_args ts (st\<lparr>cr_method := Some (to_upper m)\<rparr>)"
  by (simp add: is_flag_def)

lemma curl_data_arg: "curl_args [''--data-raw'', v] st = curl_data v st"
  by (simp add: is_flag_def first_or_empty_def)


definition exported_sample :: request_config where
  "exported_sample = empty_request\<lparr>rq_method := ''PUT'', rq_url := ''https://a.b/c?d=e f'',
     rq_headers := [kv_on ''Accept'' ''text/plain, */*'', kv_on ''X-Id'' ''1:2''], rq_bodyMode := BM_json, rq_body := ''{ }''\<rparr>"


section \<open>What does not come back\<close>

text \<open>
  An apostrophe ends the quoted part for the importer, which does not know the shell's way to write one, and
  an escaped quote loses its backslash: the bodies \<open>it's\<close> and \<open>"\""\<close> come back changed.
\<close>

lemma curl_quotes_lost:
  "map_option (\<lambda>c. rq_body (cr_request c))
     (parse_curl (generate_curl (empty_request\<lparr>rq_bodyMode := BM_raw, rq_body := ''it'' @ [squote] @ ''s''\<rparr>))) = Some ''it''"
  "map_option (\<lambda>c. rq_body (cr_request c))
     (parse_curl (generate_curl (empty_request\<lparr>rq_bodyMode := BM_json,
        rq_body := [dquote, backslash, dquote, dquote]\<rparr>))) = Some [dquote, dquote, dquote]"
  by code_simp+

text \<open>
  The grpcurl importer does not join continued lines: the backslash after the program's name is taken as the
  address, so no exported command is read back with the address it was exported from.
\<close>

lemma grpcurl_args_address:
  "rg_address (gc_request st) = a \<Longrightarrow> a \<noteq> [] \<Longrightarrow> rg_address (gc_request (grpcurl_args ts st)) = a"
proof (induction ts st rule: grpcurl_args.induct)
  case (2 t ts st)
  then show ?case by (auto simp: add_metadata_def grpcurl_positional_def Let_def)
qed simp

theorem grpcurl_address_lost:
  "\<exists>st. parse_grpcurl (generate_grpcurl r) = Some st \<and> rg_address (gc_request st) = [backslash]"
proof -
  obtain rest where g: "generate_grpcurl r = ''grpcurl '' @ [backslash, newline] @ rest"
  proof -
    obtain p ps where "(if rg_tls r then [] else [''-plaintext'']) @ header_args ''-rpc-header'' (grpc_enabled_metadata r)
       @ (if grpc_has_body r then [''-d'', shell_quote (rg_body r)] else [])
       @ [shell_quote (rg_address r), shell_quote (grpc_full_method r)] = p # ps"
      by (metis append_is_Nil_conv list.exhaust not_Cons_self2)
    then have "generate_grpcurl r = continued (''grpcurl'' # p # ps)" by (simp add: generate_grpcurl_def)
    then show thesis by (intro that [of "''  '' @ continued (p # ps)"]) (simp add: continued_def)
  qed
  have space: "\<not> plain_char (CHR '' '')" "\<not> plain_char newline" by (simp_all add: plain_char_def js_space_def)
  have plain: "plain_char c" if "c \<in> set (backslash # ''grpcurl'')" for c
    using that by (auto simp: plain_char_def js_space_def)
  have skip: "grpcurl_tokens (c # s) = grpcurl_tokens s" if "c = CHR '' '' \<or> c = newline" for c s
    using that space by (subst grpcurl_tokens.simps) auto
  have "grpcurl_tokens (generate_grpcurl r) = ''grpcurl'' # [backslash] # grpcurl_tokens rest"
    using plain space
    by (simp add: g skip grpcurl_tokens.simps [of "CHR ''g'' # _"] grpcurl_tokens.simps [of "backslash # _"])
  then have "map strip_outer_quotes (grpcurl_tokens (generate_grpcurl r))
      = ''grpcurl'' # [backslash] # map strip_outer_quotes (grpcurl_tokens rest)"
    by (simp add: strip_outer_quotes_def is_quote_def)
  note tokens = this
  have address: "rg_address (gc_request (grpcurl_args ([backslash] # ts) \<lparr>gc_plaintext = False, gc_timeoutMs = Fin 30000,
      gc_request = empty_grpc_request\<rparr>)) = [backslash]" for ts
    by (simp add: is_flag_def grpcurl_args_address grpcurl_positional_def empty_grpc_request_def)
  have bearer: "rg_address (grpcurl_bearer q) = rg_address q" for q
    by (simp add: grpcurl_bearer_def split: option.split prod.split)
  show ?thesis
    unfolding parse_grpcurl_def tokens list.case Let_def
    by (intro exI conjI, simp del: grpcurl_args.simps, simp add: address bearer del: grpcurl_args.simps)
qed

end
