(* ===== verification/Codegen_Programs.thy ===== *)
theory Codegen_Programs
  imports Codegen_Gql Codegen_Grpc
begin

text \<open>
  What the texts of a request can do inside a generated program: string literals are read back as the text
  they were made from, and in the targets whose literals have no interpolation nothing of a text shows
  outside its literal. Some targets fail this, which the last section records.
\<close>

section \<open>Literals are read back\<close>

text \<open>A literal whose quote is written twice inside, as in PowerShell and in C# verbatim strings.\<close>

fun read_doubled :: "char \<Rightarrow> string \<Rightarrow> (string \<times> string) option" where
  "read_doubled q (c # d # s) =
     (if c \<noteq> q then map_option (\<lambda>(w, u). (c # w, u)) (read_doubled q (d # s))
      else if d = q then map_option (\<lambda>(w, u). (q # w, u)) (read_doubled q s)
      else Some ([], d # s))"
| "read_doubled q [c] = (if c = q then Some ([], []) else None)"
| "read_doubled q [] = None"

lemma replace_one: "replace_all [q] rep s = concat (map (\<lambda>c. if c = q then rep else [c]) s)"
  by (induction s) auto

lemma read_doubled_step:
  "c \<noteq> q \<Longrightarrow> read_doubled q (c # s) = map_option (\<lambda>(w, u). (c # w, u)) (read_doubled q s)"
  by (cases s) auto

lemma read_doubled_back:
  assumes "\<not> starts_with [q] rest"
  shows "read_doubled q (replace_all [q] [q, q] v @ q # rest) = Some (v, rest)"
proof (induction v)
  case Nil
  with assms show ?case by (cases rest) (auto simp: replace_one)
next
  case (Cons c v)
  then show ?case by (auto simp: replace_one read_doubled_step)
qed

text \<open>
  C28: Every text survives the literal it is written to: the JSON literals of the JavaScript, Go and Java
  targets, read with the escapes of JSON, the verbatim literals of C# and the literals of PowerShell, read
  with doubled quotes, are read back as exactly the text, and the reader stops right behind them, whatever
  the text holds.
\<close>

theorem literals_read_back:
  assumes "\<not> starts_with [dquote] rest" and "\<not> starts_with [squote] rest"
  shows "read_chars (drop 1 (js_string v @ rest)) = Some (v, rest)
    \<and> read_chars (drop 1 (go_string v @ rest)) = Some (v, rest)
    \<and> read_chars (drop 1 (java_string v @ rest)) = Some (v, rest)
    \<and> read_doubled dquote (drop 2 (csharp_string v @ rest)) = Some (v, rest)
    \<and> read_doubled squote (drop 1 (powershell_string v @ rest)) = Some (v, rest)"
  using read_quoted [of v rest] read_doubled_back [OF assms(1)] read_doubled_back [OF assms(2)]
  by (simp add: js_string_def go_string_def java_string_def json_quote_def csharp_string_def powershell_string_def)

theorem literals_read_back_witness:
  "read_doubled squote (drop 1 (powershell_string (''a'' @ [squote] @ ''; rm'') @ '' `'')) = Some (''a'' @ [squote] @ ''; rm'', '' `'')"
  using literals_read_back [of "'' `''" "''a'' @ [squote] @ ''; rm''"] by simp

section \<open>Programs with the literals left out\<close>

datatype program_mode = Code | Literal | Literal_escape

text \<open>A program without the contents of its literals in double quotes.\<close>

fun skeleton :: "program_mode \<Rightarrow> string \<Rightarrow> string" where
  "skeleton m [] = []"
| "skeleton Code (c # s) = c # skeleton (if c = dquote then Literal else Code) s"
| "skeleton Literal (c # s) =
     (if c = dquote then c # skeleton Code s else skeleton (if c = backslash then Literal_escape else Literal) s)"
| "skeleton Literal_escape (c # s) = skeleton Literal s"

lemma low_hex_plain: "d < 16 \<Longrightarrow> low_hex_char d \<noteq> dquote \<and> low_hex_char d \<noteq> backslash"
proof -
  have "list_all (\<lambda>d. low_hex_char d \<noteq> dquote \<and> low_hex_char d \<noteq> backslash) [0..<16]" by code_simp
  then show "d < 16 \<Longrightarrow> ?thesis" by (simp add: list_all_iff)
qed

lemma skeleton_quote_char: "skeleton Literal (quote_char c @ s) = skeleton Literal s"
proof (cases "code_unit c < 32")
  case True
  then have "code_unit c div 16 < 16" "code_unit c mod 16 < 16" by simp_all
  from this [THEN low_hex_plain] show ?thesis by (simp add: quote_char_def)
qed (simp add: quote_char_def)

lemma skeleton_quote: "skeleton Code (json_quote v @ s) = dquote # dquote # skeleton Code s"
proof -
  have "skeleton Literal (concat (map quote_char v) @ dquote # s) = dquote # skeleton Code s"
    by (induction v) (simp_all add: skeleton_quote_char)
  then show ?thesis by (simp add: json_quote_def)
qed

text \<open>Parts that end outside a literal, and parts that look alike.\<close>

definition alike :: "string \<Rightarrow> string \<Rightarrow> bool" where
  "alike p q \<longleftrightarrow> (\<exists>t. \<forall>rest. skeleton Code (p @ rest) = t @ skeleton Code rest \<and> skeleton Code (q @ rest) = t @ skeleton Code rest)"

named_theorems alikes \<open>parts of programs that look alike\<close>

lemma alike_quote [alikes]: "alike (json_quote v) (json_quote w)"
  unfolding alike_def by (rule exI [of _ "[dquote, dquote]"]) (simp add: skeleton_quote)

lemma alike_append [alikes]: "alike p q \<Longrightarrow> alike p' q' \<Longrightarrow> alike (p @ p') (q @ q')"
  unfolding alike_def by (elim exE) (metis append.assoc)

lemma alike_skeleton: "alike p q \<Longrightarrow> skeleton Code p = skeleton Code q"
  unfolding alike_def by (metis append_Nil2)

text \<open>A text that closes the literals it opens looks like itself.\<close>

fun closes :: "program_mode \<Rightarrow> string \<Rightarrow> bool" where
  "closes m [] = (m = Code)"
| "closes Code (c # s) = closes (if c = dquote then Literal else Code) s"
| "closes Literal (c # s) = closes (if c = dquote then Code else if c = backslash then Literal_escape else Literal) s"
| "closes Literal_escape (c # s) = closes Literal s"

lemma closes_skeleton: "closes m p \<Longrightarrow> skeleton m (p @ rest) = skeleton m p @ skeleton Code rest"
  by (induction m p rule: closes.induct) (auto split: if_splits)

lemma alike_same [alikes]: "closes Code p \<Longrightarrow> alike p p"
  unfolding alike_def using closes_skeleton by blast

lemma alike_join [alikes]:
  assumes "list_all2 alike ps qs" and "closes Code sep"
  shows "alike (join sep ps) (join sep qs)"
  using assms(1)
proof (induction ps qs rule: list_all2_induct)
  case (Cons p ps q qs)
  then show ?case using assms(2) by (cases ps; cases qs) (auto intro: alikes)
qed (simp add: alike_same)

lemma alike_if [alikes]: "(b \<Longrightarrow> alike p q) \<Longrightarrow> (\<not> b \<Longrightarrow> alike p' q') \<Longrightarrow> alike (if b then p else p') (if b then q else q')"
  by simp

lemma alike_map:
  "length xs = length ys \<Longrightarrow> (\<And>x y. alike (f x) (f y)) \<Longrightarrow> list_all2 alike (map f xs) (map f ys)"
  by (simp add: list_all2_conv_all_nth)

section \<open>No text leaves its literal\<close>

lemma alike_headers:
  assumes "length hs = length hs'" and "\<And>x y. alike (f x) (f y)" and "closes Code sep"
  shows "alike (join sep (map f hs)) (join sep (map f hs'))"
  using assms by (intro alike_join alike_map) auto

lemma alike_cond:
  "b = b' \<Longrightarrow> (b' \<Longrightarrow> alike p q) \<Longrightarrow> (\<not> b' \<Longrightarrow> alike p' q') \<Longrightarrow> alike (if b then p else p') (if b' then q else q')"
  by simp

lemma join_map_Nil: "(\<And>x. f x \<noteq> []) \<Longrightarrow> join sep (map f hs) = [] \<longleftrightarrow> hs = []"
  by (cases hs rule: remdups_adj.cases) simp_all

lemma alike_lines: "list_all2 alike ps qs \<Longrightarrow> alike (text_lines ps) (text_lines qs)"
  unfolding text_lines_def by (rule alike_join) simp_all

lemma same_length_Nil: "length xs = length ys \<Longrightarrow> (xs = []) = (ys = [])"
  by auto

lemmas program_rules = alike_lines list_all2_Cons [THEN iffD2] conjI list_all2_Nil [THEN iffD2] TrueI alike_cond

lemma closes_no_quote: "dquote \<notin> set p \<Longrightarrow> closes Code p"
  by (induction p) auto

lemma digits_no_quote: "dquote \<notin> set (nat_to_string n)"
  using nat_to_string_digits [of dquote n] by (auto simp: is_digit_def code_unit_def)

lemma alike_int: "alike (int_to_string i) (int_to_string i)"
  by (rule alike_same, rule closes_no_quote) (auto simp: int_to_string_def digits_no_quote)

lemmas literal_defs = go_string_def java_string_def rust_string_def

lemma go_alike:
  assumes "length (enabled_headers (rq_headers r)) = length (enabled_headers (rq_headers r'))" and "has_body r = has_body r'"
  shows "alike (generate_go_net_http r) (generate_go_net_http r')"
proof -
  let ?f = "\<lambda>hdr. ''req.Header.Set('' @ go_string (kv_key hdr) @ '', '' @ go_string (kv_value hdr) @ '')''"
  have f: "alike (?f x) (?f y)" for x y
    unfolding literal_defs by (intro alikes; code_simp)
  have h: "alike (join [newline, tab] (map ?f (enabled_headers (rq_headers r)))) (join [newline, tab] (map ?f (enabled_headers (rq_headers r'))))"
    by (rule alike_headers [OF assms(1) f]) code_simp
  have n: "(join [newline, tab] (map ?f (enabled_headers (rq_headers r))) = []) = (join [newline, tab] (map ?f (enabled_headers (rq_headers r'))) = [])"
    using same_length_Nil [OF assms(1)] by (simp add: join_map_Nil)
  have i: "alike (join [newline] (map (\<lambda>i. [tab] @ [dquote] @ i @ [dquote]) ([''fmt'', ''io'', ''net/http''] @ (if b then [''strings''] else []))))
      (join [newline] (map (\<lambda>i. [tab] @ [dquote] @ i @ [dquote]) ([''fmt'', ''io'', ''net/http''] @ (if b then [''strings''] else []))))" for b
    by (rule alike_same) (cases b; simp)
  show ?thesis
    unfolding generate_go_net_http_def Let_def assms(2) literal_defs
    by (intro program_rules i n [unfolded literal_defs] h [unfolded literal_defs] alikes refl; code_simp)
qed

lemma java_alike:
  assumes "length (enabled_headers (rq_headers r)) = length (enabled_headers (rq_headers r'))" and "has_body r = has_body r'"
  shows "alike (generate_java_okhttp r) (generate_java_okhttp r')"
proof -
  let ?f = "\<lambda>hdr. ''      .addHeader('' @ java_string (kv_key hdr) @ '', '' @ java_string (kv_value hdr) @ '')''"
  have f: "alike (?f x) (?f y)" for x y
    unfolding literal_defs by (intro alikes; code_simp)
  have h: "alike (join [newline] (map ?f (enabled_headers (rq_headers r)))) (join [newline] (map ?f (enabled_headers (rq_headers r'))))"
    by (rule alike_headers [OF assms(1) f]) code_simp
  have n: "(map ?f (enabled_headers (rq_headers r)) = []) = (map ?f (enabled_headers (rq_headers r')) = [])"
    using same_length_Nil [OF assms(1)] by simp
  show ?thesis
    unfolding generate_java_okhttp_def Let_def assms(2) literal_defs
    by (intro program_rules n [unfolded literal_defs] h [unfolded literal_defs] alikes refl; code_simp)
qed

lemma rust_alike:
  assumes "length (enabled_headers (rq_headers r)) = length (enabled_headers (rq_headers r'))" and "has_body r = has_body r'"
    and "rq_method r = rq_method r'" and "closes Code (rq_method r')"
  shows "alike (generate_rust_reqwest r) (generate_rust_reqwest r')"
proof -
  let ?f = "\<lambda>hdr. ''        .header('' @ rust_string (kv_key hdr) @ '', '' @ rust_string (kv_value hdr) @ '')''"
  have f: "alike (?f x) (?f y)" for x y
    unfolding literal_defs by (intro alikes; code_simp)
  have h: "alike (join [newline] (map ?f (enabled_headers (rq_headers r)))) (join [newline] (map ?f (enabled_headers (rq_headers r'))))"
    by (rule alike_headers [OF assms(1) f]) code_simp
  have n: "(map ?f (enabled_headers (rq_headers r)) = []) = (map ?f (enabled_headers (rq_headers r')) = [])"
    using same_length_Nil [OF assms(1)] by simp
  show ?thesis
    unfolding generate_rust_reqwest_def Let_def assms(2,3) literal_defs
    by (intro program_rules n [unfolded literal_defs] h [unfolded literal_defs] alike_same [OF assms(4)] alikes refl; code_simp)
qed

lemma grpc_go_alike:
  assumes "length (grpc_enabled_metadata g) = length (grpc_enabled_metadata g')"
    and "rg_tls g = rg_tls g'" and "rg_timeoutMs g = rg_timeoutMs g'"
  shows "alike (generate_grpc_go g) (generate_grpc_go g')"
proof -
  let ?f = "\<lambda>m. [tab] @ ''md.Append('' @ go_string (kv_key m) @ '', '' @ go_string (kv_value m) @ '')''"
  have f: "alike (?f x) (?f y)" for x y
    unfolding literal_defs by (intro alikes; code_simp)
  have h: "alike (join [newline] (map ?f (grpc_enabled_metadata g))) (join [newline] (map ?f (grpc_enabled_metadata g')))"
    by (rule alike_headers [OF assms(1) f]) code_simp
  have n: "(grpc_enabled_metadata g = []) = (grpc_enabled_metadata g' = [])"
    by (rule same_length_Nil [OF assms(1)])
  let ?base = "[''context'', ''encoding/json'', ''fmt'', ''time'', ''google.golang.org/grpc'', ''google.golang.org/grpc/metadata'']"
  have i: "alike (join [newline] (map (\<lambda>i. [tab] @ [dquote] @ i @ [dquote]) (?base @ (if b then [''crypto/tls'', ''google.golang.org/grpc/credentials'']
        else [''google.golang.org/grpc/credentials/insecure'']))))
      (join [newline] (map (\<lambda>i. [tab] @ [dquote] @ i @ [dquote]) (?base @ (if b then [''crypto/tls'', ''google.golang.org/grpc/credentials'']
        else [''google.golang.org/grpc/credentials/insecure'']))))" for b
    by (rule alike_same) (cases b; simp)
  show ?thesis
    unfolding generate_grpc_go_def Let_def assms(2,3) literal_defs metadata_lines_def
    by (intro program_rules i n h [unfolded literal_defs] alike_int alikes refl; code_simp)
qed

text \<open>
  In the Go, Java and Rust programs and the Go gRPC program, whatever the texts of the request are, what
  stands outside the string literals is the same: two requests with the same number of headers, both
  with or both without a body, give programs that differ in the contents of literals only. So a text
  cannot add code.
\<close>

theorem programs_contain_texts:
  assumes "length (enabled_headers (rq_headers r)) = length (enabled_headers (rq_headers r'))"
    and "has_body r = has_body r'" and "rq_method r = rq_method r'" and "closes Code (rq_method r)"
    and "length (grpc_enabled_metadata g) = length (grpc_enabled_metadata g')"
    and "rg_tls g = rg_tls g'" and "rg_timeoutMs g = rg_timeoutMs g'"
  shows "skeleton Code (generate_go_net_http r) = skeleton Code (generate_go_net_http r')
    \<and> skeleton Code (generate_java_okhttp r) = skeleton Code (generate_java_okhttp r')
    \<and> skeleton Code (generate_rust_reqwest r) = skeleton Code (generate_rust_reqwest r')
    \<and> skeleton Code (generate_grpc_go g) = skeleton Code (generate_grpc_go g')"
  using go_alike [OF assms(1,2)] java_alike [OF assms(1,2)] rust_alike [OF assms(1-3)] grpc_go_alike [OF assms(5-7)] assms(3,4)
  by (simp add: alike_skeleton)

definition hostile_request :: request_config where
  "hostile_request = empty_request\<lparr>rq_url := [dquote] @ ''); panic(1) //'' @ [backslash], rq_headers := [kv_on ''A'' [backslash, dquote]]\<rparr>"

theorem programs_contain_texts_witness:
  "skeleton Code (generate_go_net_http hostile_request)
     = skeleton Code (generate_go_net_http (empty_request\<lparr>rq_headers := [kv_on ''A'' []]\<rparr>))"
proof -
  have "length (enabled_headers (rq_headers hostile_request)) = length (enabled_headers [kv_on ''A'' []])"
    and "has_body hostile_request = has_body (empty_request\<lparr>rq_headers := [kv_on ''A'' []]\<rparr>)"
    and "closes Code (rq_method hostile_request)" by code_simp+
  then show ?thesis
    using programs_contain_texts [of hostile_request "empty_request\<lparr>rq_headers := [kv_on ''A'' []]\<rparr>"
        empty_grpc_request empty_grpc_request]
    by (simp add: hostile_request_def empty_request_def)
qed

section \<open>Where a text does get out\<close>

text \<open>
  Ruby, Kotlin and PHP evaluate \<open>#{...}\<close>, \<open>${...}\<close> and \<open>$x\<close> inside double quotes, which the JSON literal
  does not escape: such a text is code of the generated program.
\<close>

lemma interpolation_kept:
  assumes "\<forall>c \<in> set v. quote_char c = [c]"
  shows "ruby_string v = [dquote] @ v @ [dquote] \<and> kotlin_string v = [dquote] @ v @ [dquote] \<and> php_string v = [dquote] @ v @ [dquote]"
proof -
  have "concat (map quote_char v) = v" using assms by (induction v) auto
  then show ?thesis by (simp add: ruby_string_def kotlin_string_def php_string_def json_quote_def)
qed

lemma interpolation_kept_witness: "ruby_string ''#{exit}'' = [dquote] @ ''#{exit}'' @ [dquote]"
  using interpolation_kept [of "''#{exit}''"] by (simp add: quote_char_def code_unit_def)

text \<open>
  A GraphQL query with variables gives Apollo code with an object that starts with a comma, which no
  JavaScript parser accepts; the formatter's rejection is then the answer of the generator.
\<close>

lemma join_before: "ys \<noteq> [] \<Longrightarrow> join sep (xs @ ys) = concat (map (\<lambda>x. x @ sep) xs) @ join sep ys"
  by (induction xs) (auto simp: neq_Nil_conv join_Cons)

lemma apollo_query_with_variables:
  assumes "parse_gql_body r = Some g" and "gb_operationKind g = OK_query" and "has_variables g"
    and "\<not> json_truthy (gb_operationName g)"
    and "\<And>a b. format (a @ ''useQuery(QUERY_OPERATION{,'' @ b) = Inl e"
  shows "generate_graphql_apollo h (Some format) r = Inl e"
proof -
  have "to_upper ''query'' @ ''_OPERATION'' = ''QUERY_OPERATION''" by code_simp
  then have c: "gql_const_name g = Inr ''QUERY_OPERATION''"
    using assms(2,4) by (simp add: gql_const_name_def kind_name_def)
  obtain b where u: "apollo_usage g ''QUERY_OPERATION''
      = (''useQuery'', ''const { data, loading, error } = '' @ ''useQuery(QUERY_OPERATION{,'' @ b)"
    using assms(2,3) by (simp add: apollo_usage_def)
  have lines: "text_lines (xs @ [u, []]) = concat (map (\<lambda>x. x @ [newline]) xs) @ u @ [newline]" for xs u
    using join_before [of "[u, []]" "[newline]" xs] by (simp add: text_lines_def)
  let ?xs = "[[], ''import { gql, '' @ ''useQuery'' @ '' } from \"@apollo/client\";'', [],
    ''const '' @ ''QUERY_OPERATION'' @ '' = gql`'', trim (gb_query g), ''`;'', [], ''// Inside your component:'']"
  have "generate_graphql_apollo h (Some format) r
      = format (text_lines (?xs @ [''const { data, loading, error } = '' @ ''useQuery(QUERY_OPERATION{,'' @ b, []]))"
    unfolding generate_graphql_apollo_def assms(1) option.case c sum.case u Let_def prod.case format_javascript_def by simp
  also have "\<dots> = format ((concat (map (\<lambda>x. x @ [newline]) ?xs) @ ''const { data, loading, error } = '')
      @ ''useQuery(QUERY_OPERATION{,'' @ (b @ [newline]))"
    unfolding lines by simp
  also have "\<dots> = Inl e" by (rule assms(5))
  finally show ?thesis .
qed

end
