(* ===== verification/Diff.thy ===== *)
theory Diff
  imports Types Json_Round_Trip
begin

text \<open>
  Comparing two responses: packages/core/src/lib/diff.ts. Bodies that are both JSON are compared value by
  value, others line by line; headers are compared as an object keyed by lower-case names.
\<close>

section \<open>Values that are compared\<close>

text \<open>
  A property that an object does not have is read from \<open>Object.prototype\<close>: a function, or for
  \<open>__proto__\<close> that object itself; its own \<open>__proto__\<close> is null.
\<close>

datatype diff_value = Json json | Inherited_function | Prototype_object

definition read_member :: "(string \<times> json) list \<Rightarrow> string \<Rightarrow> diff_value option" where
  "read_member ms k =
     (case map_of ms k of
        Some v \<Rightarrow> Some (Json v)
      | None \<Rightarrow> (if k = ''__proto__'' then Some Prototype_object
                 else if k \<in> set object_prototype_keys then Some Inherited_function else None))"

definition read_prototype :: "string \<Rightarrow> diff_value option" where
  "read_prototype k =
     (if k = ''__proto__'' then Some (Json JNull)
      else if k \<in> set object_prototype_keys then Some Inherited_function else None)"

datatype diff_kind = DC_add | DC_remove | DC_change

record diff_change =
  dc_type :: diff_kind
  dc_path :: string
  dc_oldValue :: "diff_value option"
  dc_value :: "diff_value option"

definition added :: "string \<Rightarrow> diff_value \<Rightarrow> diff_change" where
  "added path v = \<lparr>dc_type = DC_add, dc_path = path, dc_oldValue = None, dc_value = Some v\<rparr>"

definition removed :: "string \<Rightarrow> diff_value \<Rightarrow> diff_change" where
  "removed path v = \<lparr>dc_type = DC_remove, dc_path = path, dc_oldValue = Some v, dc_value = None\<rparr>"

definition changed :: "string \<Rightarrow> diff_value \<Rightarrow> diff_value \<Rightarrow> diff_change" where
  "changed path v w = \<lparr>dc_type = DC_change, dc_path = path, dc_oldValue = Some v, dc_value = Some w\<rparr>"

section \<open>Comparing\<close>

definition is_equal :: "json \<Rightarrow> json \<Rightarrow> bool" where
  "is_equal l r \<longleftrightarrow> json_stringify l = json_stringify r"

text \<open>\<open>compareValueAt\<close> where one side is no JSON value, so that nothing is compared below it.\<close>

fun leaf_at :: "diff_value option \<Rightarrow> diff_value option \<Rightarrow> string \<Rightarrow> diff_change list" where
  "leaf_at None None path = []"
| "leaf_at None (Some w) path = [added path w]"
| "leaf_at (Some v) None path = [removed path v]"
| "leaf_at (Some (Json v)) (Some (Json w)) path = (if is_equal v w then [] else [changed path (Json v) (Json w)])"
| "leaf_at (Some v) (Some w) path = [changed path v w]"

definition member_path :: "string \<Rightarrow> string \<Rightarrow> string" where
  "member_path path k = (if path = [] then k else path @ ''.'' @ k)"

definition index_path :: "string \<Rightarrow> nat \<Rightarrow> string" where
  "index_path path i = path @ ''['' @ nat_to_string i @ '']''"

definition own_vs_prototype :: "json \<Rightarrow> string \<Rightarrow> diff_change list" where
  "own_vs_prototype v path =
     (if json_stringify v = ''{}'' then []
      else case v of
        JObj ms \<Rightarrow> concat (map (\<lambda>(k, x). leaf_at (Some (Json x)) (read_prototype k) (member_path path k)) ms)
      | _ \<Rightarrow> [changed path (Json v) Prototype_object])"

definition prototype_vs_own :: "json \<Rightarrow> string \<Rightarrow> diff_change list" where
  "prototype_vs_own w path =
     (if json_stringify w = ''{}'' then []
      else case w of
        JObj ms \<Rightarrow> concat (map (\<lambda>(k, x). leaf_at (read_prototype k) (Some (Json x)) (member_path path k)) ms)
      | _ \<Rightarrow> [changed path Prototype_object (Json w)])"

text \<open>The members only the right object has.\<close>

definition right_only :: "(string \<times> json) list \<Rightarrow> (string \<times> json) list \<Rightarrow> string \<Rightarrow> diff_change list" where
  "right_only ms ns path =
     concat (map (\<lambda>(k, w).
       case read_member ms k of
         None \<Rightarrow> [added (member_path path k) (Json w)]
       | Some (Json v) \<Rightarrow> []
       | Some Inherited_function \<Rightarrow> [changed (member_path path k) Inherited_function (Json w)]
       | Some Prototype_object \<Rightarrow> prototype_vs_own w (member_path path k)) ns)"

function (sequential) compare_values :: "json \<Rightarrow> json \<Rightarrow> string \<Rightarrow> diff_change list"
  and compare_elems :: "json list \<Rightarrow> json list \<Rightarrow> string \<Rightarrow> nat \<Rightarrow> diff_change list"
  and compare_left :: "(string \<times> json) list \<Rightarrow> (string \<times> json) list \<Rightarrow> string \<Rightarrow> diff_change list"
where
  "compare_values l r path =
     (if is_equal l r then []
      else case l of
        JArr xs \<Rightarrow> (case r of JArr ys \<Rightarrow> compare_elems xs ys path 0 | _ \<Rightarrow> [changed path (Json l) (Json r)])
      | JObj ms \<Rightarrow>
          (case r of JObj ns \<Rightarrow> compare_left ms ns path @ right_only ms ns path | _ \<Rightarrow> [changed path (Json l) (Json r)])
      | _ \<Rightarrow> [changed path (Json l) (Json r)])"
| "compare_elems [] [] path i = []"
| "compare_elems [] (y # ys) path i = added (index_path path i) (Json y) # compare_elems [] ys path (i + 1)"
| "compare_elems (x # xs) [] path i = removed (index_path path i) (Json x) # compare_elems xs [] path (i + 1)"
| "compare_elems (x # xs) (y # ys) path i = compare_values x y (index_path path i) @ compare_elems xs ys path (i + 1)"
| "compare_left [] ns path = []"
| "compare_left ((k, v) # ms) ns path =
     (case read_member ns k of
        None \<Rightarrow> [removed (member_path path k) (Json v)]
      | Some (Json w) \<Rightarrow> compare_values v w (member_path path k)
      | Some Inherited_function \<Rightarrow> [changed (member_path path k) (Json v) Inherited_function]
      | Some Prototype_object \<Rightarrow> own_vs_prototype v (member_path path k)) @ compare_left ms ns path"
  by pat_completeness auto
termination
  by (relation "measures
      [\<lambda>x. case x of Inl (l, r, p) \<Rightarrow> size l | Inr (Inl (xs, ys, p, i)) \<Rightarrow> size_list size xs
         | Inr (Inr (ms, ns, p)) \<Rightarrow> size_list (size_prod (\<lambda>k. 0) size) ms,
       \<lambda>x. case x of Inr (Inl (xs, ys, p, i)) \<Rightarrow> length ys | _ \<Rightarrow> 0]")
    auto

declare compare_values.simps [simp del]

text \<open>Lines are counted from 1.\<close>

definition line_path :: "nat \<Rightarrow> string" where
  "line_path i = ''line '' @ nat_to_string i"

fun compare_lines :: "string list \<Rightarrow> string list \<Rightarrow> nat \<Rightarrow> diff_change list" where
  "compare_lines [] [] i = []"
| "compare_lines [] (y # ys) i = added (line_path i) (Json (JStr y)) # compare_lines [] ys (i + 1)"
| "compare_lines (x # xs) [] i = removed (line_path i) (Json (JStr x)) # compare_lines xs [] (i + 1)"
| "compare_lines (x # xs) (y # ys) i =
     (if x = y then [] else [changed (line_path i) (Json (JStr x)) (Json (JStr y))]) @ compare_lines xs ys (i + 1)"

definition compare_text :: "string \<Rightarrow> string \<Rightarrow> diff_change list" where
  "compare_text l r = compare_lines (split_lines l) (split_lines r) 1"

section \<open>Responses\<close>

record diff_summary =
  ds_additions :: nat
  ds_deletions :: nat
  ds_changes :: nat

definition summarize :: "diff_change list \<Rightarrow> diff_summary" where
  "summarize cs = \<lparr>ds_additions = length (filter (\<lambda>c. dc_type c = DC_add) cs),
     ds_deletions = length (filter (\<lambda>c. dc_type c = DC_remove) cs),
     ds_changes = length (filter (\<lambda>c. dc_type c = DC_change) cs)\<rparr>"

datatype diff_mode = DM_json | DM_text

record diff_result =
  dr_changes :: "diff_change list"
  dr_summary :: diff_summary
  dr_leftText :: string
  dr_rightText :: string
  dr_responseTimeDeltaMs :: rat
  dr_mode :: diff_mode

definition headers_to_object :: "key_value list \<Rightarrow> json" where
  "headers_to_object hs = JObj (map (\<lambda>(k, v). (k, JStr v)) (obj_from_entries (map (\<lambda>hdr. (to_lower (kv_key hdr), kv_value hdr)) hs)))"

definition should_ignore :: "string list \<Rightarrow> string \<Rightarrow> bool" where
  "should_ignore paths path \<longleftrightarrow>
     (\<exists>p \<in> set paths. path = p \<or> starts_with (p @ ''.'') path \<or> starts_with (p @ ''['') path)"

definition pretty :: "json \<Rightarrow> string" where
  "pretty v = (case v of JStr s \<Rightarrow> s | _ \<Rightarrow> json_pretty 2 0 v)"

definition side_text :: "execute_response \<Rightarrow> string" where
  "side_text res = (case json_parse (rs_body res) of Some v \<Rightarrow> pretty v | None \<Rightarrow> rs_body res)"

definition total_ms :: "execute_response \<Rightarrow> rat" where
  "total_ms res = (case rs_timing res of Some t \<Rightarrow> tm_totalMs t | None \<Rightarrow> 0)"

definition raw_changes :: "execute_response \<Rightarrow> execute_response \<Rightarrow> diff_change list" where
  "raw_changes l r =
     (case (json_parse (rs_body l), json_parse (rs_body r)) of
        (Some v, Some w) \<Rightarrow> compare_values v w ''body''
      | _ \<Rightarrow> compare_text (rs_body l) (rs_body r))
     @ compare_values (headers_to_object (rs_headers l)) (headers_to_object (rs_headers r)) ''headers''
     @ (if rs_status l \<noteq> rs_status r
        then [changed ''status'' (Json (JNum (of_int (rs_status l)))) (Json (JNum (of_int (rs_status r))))] else [])
     @ (if rs_statusText l \<noteq> rs_statusText r
        then [changed ''statusText'' (Json (JStr (rs_statusText l))) (Json (JStr (rs_statusText r)))] else [])"

definition compare_responses :: "execute_response \<Rightarrow> execute_response \<Rightarrow> string list \<Rightarrow> diff_result" where
  "compare_responses l r ignorePaths =
     (let raw = raw_changes l r;
          changes = (if ignorePaths \<noteq> [] then filter (\<lambda>c. \<not> should_ignore ignorePaths (dc_path c)) raw else raw) in
      \<lparr>dr_changes = changes, dr_summary = summarize changes, dr_leftText = side_text l, dr_rightText = side_text r,
       dr_responseTimeDeltaMs = total_ms r - total_ms l,
       dr_mode = (if json_parse (rs_body l) \<noteq> None \<and> json_parse (rs_body r) \<noteq> None then DM_json else DM_text)\<rparr>)"

section \<open>Swapping the sides\<close>

definition flip :: "diff_change \<Rightarrow> diff_change" where
  "flip c = c\<lparr>dc_type := (case dc_type c of DC_add \<Rightarrow> DC_remove | DC_remove \<Rightarrow> DC_add | DC_change \<Rightarrow> DC_change),
     dc_oldValue := dc_value c, dc_value := dc_oldValue c\<rparr>"

lemma flip_simps [simp]:
  "flip (added p v) = removed p v" "flip (removed p v) = added p v" "flip (changed p v w) = changed p w v" "dc_path (flip c) = dc_path c"
  by (simp_all add: flip_def added_def removed_def changed_def)

lemma is_equal_sym: "is_equal r l = is_equal l r"
  by (auto simp: is_equal_def)

lemma flip_leaf: "map flip (leaf_at a b path) = leaf_at b a path"
  by (induction a b path rule: leaf_at.induct) (auto simp: is_equal_sym)

lemma flip_prototype: "map flip (own_vs_prototype v path) = prototype_vs_own v path"
  "map flip (prototype_vs_own v path) = own_vs_prototype v path"
  by (auto simp: own_vs_prototype_def prototype_vs_own_def map_concat flip_leaf split: json.splits
      intro!: arg_cong [where f = concat])

end
