(* ===== verification/Diff_Facts.thy ===== *)
theory Diff_Facts
  imports Diff "HOL-Library.Multiset"
begin

text \<open>
  What the comparison of two responses shows: it treats the two sides alike, and it reports nothing exactly
  when the responses have the same content.
\<close>

section \<open>Keys of parsed objects\<close>

fun keys_once :: "json \<Rightarrow> bool"
  and keys_once_list :: "json list \<Rightarrow> bool"
  and keys_once_members :: "(string \<times> json) list \<Rightarrow> bool"
where
  "keys_once (JArr vs) = keys_once_list vs"
| "keys_once (JObj ms) = (distinct (map fst ms) \<and> keys_once_members ms)"
| "keys_once _ = True"
| "keys_once_list [] = True"
| "keys_once_list (v # vs) = (keys_once v \<and> keys_once_list vs)"
| "keys_once_members [] = True"
| "keys_once_members ((k, v) # ms) = (keys_once v \<and> keys_once_members ms)"

lemma keys_once_members_iff: "keys_once_members ms \<longleftrightarrow> (\<forall>(k, v) \<in> set ms. keys_once v)"
  by (induction ms) auto

lemma keys_once_list_iff: "keys_once_list vs \<longleftrightarrow> (\<forall>v \<in> set vs. keys_once v)"
  by (induction vs) auto

lemma keys_once_update: "keys_once_members ms \<Longrightarrow> keys_once v \<Longrightarrow> keys_once_members (AList.update k v ms)"
  by (induction ms) auto

lemma read_keys_once:
  "read_value n s = Some (v, t) \<Longrightarrow> keys_once v"
  "read_elems n s = Some (vs, t) \<Longrightarrow> keys_once_list vs"
  "read_members n s acc = Some (ms, t) \<Longrightarrow> distinct (map fst acc) \<Longrightarrow> keys_once_members acc \<Longrightarrow>
     distinct (map fst ms) \<and> keys_once_members ms"
proof (induction n s and n s and n s acc arbitrary: v t and vs t and ms t
    rule: read_value_read_elems_read_members.induct)
  case (2 n s)
  then show ?case by (auto split: list.splits if_splits)
next
  case (4 n s)
  then show ?case by (auto split: list.splits if_splits option.splits)
next
  case (6 n s acc)
  then show ?case
    by (auto split: list.splits if_splits option.splits prod.splits simp: distinct_update keys_once_update)
qed simp_all

lemma parse_keys_once: "json_parse s = Some v \<Longrightarrow> keys_once v"
  by (auto simp: json_parse_def simp del: read_value.simps split: option.splits if_splits dest!: read_keys_once(1))

section \<open>The members of two objects\<close>

definition left_change :: "(string \<times> json) list \<Rightarrow> string \<Rightarrow> string \<Rightarrow> json \<Rightarrow> diff_change list" where
  "left_change ns path k v =
     (case read_member ns k of
        None \<Rightarrow> [removed (member_path path k) (Json v)]
      | Some (Json w) \<Rightarrow> compare_values v w (member_path path k)
      | Some Inherited_function \<Rightarrow> [changed (member_path path k) (Json v) Inherited_function]
      | Some Prototype_object \<Rightarrow> own_vs_prototype v (member_path path k))"

definition right_change :: "string \<Rightarrow> string \<Rightarrow> json \<Rightarrow> diff_change list" where
  "right_change path k w =
     (case read_member [] k of
        None \<Rightarrow> [added (member_path path k) (Json w)]
      | Some (Json v) \<Rightarrow> []
      | Some Inherited_function \<Rightarrow> [changed (member_path path k) Inherited_function (Json w)]
      | Some Prototype_object \<Rightarrow> prototype_vs_own w (member_path path k))"

text \<open>What one key contributes, whichever side has it.\<close>

definition key_changes ::
    "(string \<times> json) list \<Rightarrow> (string \<times> json) list \<Rightarrow> string \<Rightarrow> string \<Rightarrow> diff_change list" where
  "key_changes ms ns path k =
     (case map_of ms k of
        Some v \<Rightarrow> left_change ns path k v
      | None \<Rightarrow> (case map_of ns k of Some w \<Rightarrow> right_change path k w | None \<Rightarrow> []))"

lemma compare_left_concat: "compare_left ms ns path = concat (map (\<lambda>(k, v). left_change ns path k v) ms)"
  by (induction ms) (auto simp: left_change_def)

lemma read_member_own: "map_of ms k = Some v \<Longrightarrow> read_member ms k = Some (Json v)"
  by (simp add: read_member_def)

lemma right_only_concat:
  "right_only ms ns path = concat (map (\<lambda>(k, w). if map_of ms k = None then right_change path k w else []) ns)"
  unfolding right_only_def
proof (intro arg_cong [where f = concat] map_cong refl)
  fix x :: "string \<times> json"
  obtain k w where x: "x = (k, w)" by (cases x)
  show "(case x of (k, w) \<Rightarrow> case read_member ms k of
         None \<Rightarrow> [added (member_path path k) (Json w)]
       | Some (Json v) \<Rightarrow> []
       | Some Inherited_function \<Rightarrow> [changed (member_path path k) Inherited_function (Json w)]
       | Some Prototype_object \<Rightarrow> prototype_vs_own w (member_path path k))
    = (case x of (k, w) \<Rightarrow> if map_of ms k = None then right_change path k w else [])"
    by (cases "map_of ms k") (simp_all add: x right_change_def read_member_def)
qed

lemma mset_concat_distinct: "distinct xs \<Longrightarrow> mset (concat (map f xs)) = (\<Sum>x\<in>set xs. mset (f x))"
  by (induction xs) auto

lemma concat_members:
  assumes "distinct (map fst ms)"
  shows "mset (concat (map (\<lambda>(k, v). f k v) ms)) = (\<Sum>k\<in>set (map fst ms). mset (f k (the (map_of ms k))))"
proof -
  have "map (\<lambda>(k, v). f k v) ms = map (\<lambda>k. f k (the (map_of ms k))) (map fst ms)"
    using assms by auto
  then show ?thesis using mset_concat_distinct [OF assms] by metis
qed

lemma map_of_own: "distinct (map fst ms) \<Longrightarrow> (k, v) \<in> set ms \<Longrightarrow> map_of ms k = Some v"
  by simp

lemma map_of_key: "map_of ms k = Some v \<Longrightarrow> k \<in> fst ` set ms"
  using map_of_SomeD image_iff by fastforce

lemma members_by_key:
  assumes "distinct (map fst ms)" and "distinct (map fst ns)"
  shows "mset (compare_left ms ns path @ right_only ms ns path)
    = (\<Sum>k\<in>fst ` set ms \<union> fst ` set ns. mset (key_changes ms ns path k))"
proof -
  let ?A = "fst ` set ms" and ?B = "fst ` set ns"
  have L: "mset (compare_left ms ns path) = (\<Sum>k\<in>?A. mset (key_changes ms ns path k))"
    unfolding compare_left_concat
    unfolding concat_members [OF assms(1)] set_map
    by (rule sum.cong [OF refl]) (auto simp: key_changes_def map_of_own [OF assms(1)])
  have "mset (right_only ms ns path) = (\<Sum>k\<in>?B. if k \<in> ?A then {#} else mset (key_changes ms ns path k))"
    unfolding right_only_concat
    unfolding concat_members [OF assms(2)] set_map
    by (rule sum.cong [OF refl])
       (auto simp: key_changes_def map_of_own [OF assms(2)] map_of_eq_None_iff dest: map_of_key split: option.splits)
  also have "\<dots> = (\<Sum>k\<in>?B - ?A. mset (key_changes ms ns path k))"
    by (simp add: sum.If_cases Diff_eq Collect_neg_eq)
  finally have R: "mset (right_only ms ns path) = (\<Sum>k\<in>?B - ?A. mset (key_changes ms ns path k))" .
  have "(\<Sum>k\<in>?A \<union> ?B. mset (key_changes ms ns path k))
      = (\<Sum>k\<in>?A. mset (key_changes ms ns path k)) + (\<Sum>k\<in>?B - ?A. mset (key_changes ms ns path k))"
    by (subst Un_Diff_cancel [symmetric], rule sum.union_disjoint) auto
  with L R show ?thesis by simp
qed

section \<open>Swapping the sides\<close>

lemma flip_sum: "finite K \<Longrightarrow> image_mset flip (\<Sum>k\<in>K. g k) = (\<Sum>k\<in>K. image_mset flip (g k))"
  by (induction K rule: finite_induct) auto

lemma flip_right_change: "map_of ns k = None \<Longrightarrow> left_change ns path k v = map flip (right_change path k v)"
  by (simp add: left_change_def right_change_def read_member_def flip_prototype)

lemma flip_key:
  assumes "\<And>v w. map_of ms k = Some v \<Longrightarrow> map_of ns k = Some w \<Longrightarrow>
     mset (compare_values w v (member_path path k)) = mset (map flip (compare_values v w (member_path path k)))"
  shows "mset (key_changes ns ms path k) = mset (map flip (key_changes ms ns path k))"
proof (cases "map_of ms k"; cases "map_of ns k")
  fix v assume v: "map_of ms k = Some v" and n: "map_of ns k = None"
  have "left_change ns path k v = map flip (right_change path k v)" by (rule flip_right_change [OF n])
  moreover have "map flip (map flip xs) = xs" for xs
    by (induction xs) (auto simp: flip_def split: diff_kind.splits)
  ultimately show ?thesis using v n by (simp add: key_changes_def del: map_map)
next
  fix w assume v: "map_of ms k = None" and w: "map_of ns k = Some w"
  then show ?thesis by (simp add: key_changes_def flip_right_change)
next
  fix v w assume "map_of ms k = Some v" and "map_of ns k = Some w"
  with assms show ?thesis by (simp add: key_changes_def left_change_def read_member_own)
qed (simp add: key_changes_def)

lemma compare_values_arr:
  "compare_values (JArr xs) (JArr ys) path = (if is_equal (JArr xs) (JArr ys) then [] else compare_elems xs ys path 0)"
  by (simp add: compare_values.simps)

lemma compare_values_obj:
  "compare_values (JObj ms) (JObj ns) path =
     (if is_equal (JObj ms) (JObj ns) then [] else compare_left ms ns path @ right_only ms ns path)"
  by (simp add: compare_values.simps)

lemma compare_values_other:
  assumes "\<not> (\<exists>xs ys. l = JArr xs \<and> r = JArr ys)" and "\<not> (\<exists>ms ns. l = JObj ms \<and> r = JObj ns)"
  shows "compare_values l r path = (if is_equal l r then [] else [changed path (Json l) (Json r)])"
  using assms by (cases l; cases r) (simp_all add: compare_values.simps)

lemma flip_members:
  assumes "distinct (map fst ms)" and "distinct (map fst ns)"
    and "\<And>k v w. map_of ms k = Some v \<Longrightarrow> map_of ns k = Some w \<Longrightarrow>
      mset (compare_values w v (member_path path k)) = mset (map flip (compare_values v w (member_path path k)))"
  shows "mset (compare_left ns ms path @ right_only ns ms path)
    = image_mset flip (mset (compare_left ms ns path @ right_only ms ns path))"
proof -
  have "(\<Sum>k\<in>fst ` set ns \<union> fst ` set ms. mset (key_changes ns ms path k))
      = (\<Sum>k\<in>fst ` set ms \<union> fst ` set ns. image_mset flip (mset (key_changes ms ns path k)))"
    by (rule sum.cong) (use flip_key [OF assms(3)] in auto)
  then show ?thesis
    unfolding members_by_key [OF assms(1,2)] members_by_key [OF assms(2,1)] by (simp add: flip_sum)
qed

lemma compare_flip:
  "keys_once l \<Longrightarrow> keys_once r \<Longrightarrow> mset (compare_values r l path) = mset (map flip (compare_values l r path))"
  "keys_once_list xs \<Longrightarrow> keys_once_list ys \<Longrightarrow>
     mset (compare_elems ys xs path i) = mset (map flip (compare_elems xs ys path i))"
  "keys_once_members ms \<Longrightarrow> keys_once_members ns \<Longrightarrow> (k, v) \<in> set ms \<Longrightarrow> map_of ns k = Some w \<Longrightarrow>
     mset (compare_values w v (member_path path k)) = mset (map flip (compare_values v w (member_path path k)))"
proof (induction l r path and xs ys path i and ms ns path arbitrary: and and k v w
    rule: compare_values_compare_elems_compare_left.induct)
  case (1 l r path)
  show ?case
  proof (cases "is_equal l r")
    case True
    then show ?thesis by (simp add: compare_values.simps is_equal_sym)
  next
    case ne: False
    consider (arr) xs ys where "l = JArr xs" "r = JArr ys" | (obj) ms ns where "l = JObj ms" "r = JObj ns"
      | (other) "\<not> (\<exists>xs ys. l = JArr xs \<and> r = JArr ys)" "\<not> (\<exists>ms ns. l = JObj ms \<and> r = JObj ns)" by blast
    then show ?thesis
    proof cases
      case arr
      with 1(1) [OF ne] 1(3,4) ne show ?thesis by (simp add: compare_values_arr is_equal_sym)
    next
      case obj
      with 1(2) [OF ne] 1(3,4) have each:
        "(k, v) \<in> set ms \<Longrightarrow> map_of ns k = Some w \<Longrightarrow>
          mset (compare_values w v (member_path path k)) = mset (map flip (compare_values v w (member_path path k)))"
        for k v w by simp
      have "mset (compare_left ns ms path @ right_only ns ms path)
          = image_mset flip (mset (compare_left ms ns path @ right_only ms ns path))"
      proof (rule flip_members)
        show "distinct (map fst ms)" "distinct (map fst ns)" using obj 1(3,4) by simp_all
      qed (rule each [OF map_of_SomeD])
      moreover have "\<not> is_equal (JObj ns) (JObj ms)" using ne obj is_equal_sym by blast
      ultimately show ?thesis using ne unfolding obj compare_values_obj by simp
    next
      case other
      then have "compare_values l r path = [changed path (Json l) (Json r)]"
        and "compare_values r l path = [changed path (Json r) (Json l)]"
        using ne is_equal_sym by (metis compare_values_other)+
      then show ?thesis by simp
    qed
  qed
next
  case (7 k' v' ms ns path)
  show ?case
  proof (cases "(k, v) = (k', v')")
    case True
    have "read_member ns k' = Some (Json w)" using 7(6) True by (simp add: read_member_def)
    moreover have "keys_once w" using 7(4,6) by (auto simp: keys_once_members_iff dest: map_of_SomeD)
    ultimately show ?thesis using 7(1) 7(3) True by simp
  next
    case False
    then show ?thesis using 7(2) 7(3-6) by auto
  qed
qed simp_all

lemma compare_lines_flip: "compare_lines ys xs i = map flip (compare_lines xs ys i)"
  by (induction xs ys i rule: compare_lines.induct) auto

lemma compare_text_flip: "compare_text r l = map flip (compare_text l r)"
  unfolding compare_text_def by (rule compare_lines_flip)

lemma headers_keys_once: "keys_once (headers_to_object hs)"
  by (auto simp: headers_to_object_def keys_once_members_iff obj_from_entries_distinct comp_def case_prod_beta)

lemma raw_changes_flip: "mset (raw_changes r l) = mset (map flip (raw_changes l r))"
proof -
  have body: "mset (case (json_parse (rs_body r), json_parse (rs_body l)) of
        (Some v, Some w) \<Rightarrow> compare_values v w ''body'' | _ \<Rightarrow> compare_text (rs_body r) (rs_body l))
    = mset (map flip (case (json_parse (rs_body l), json_parse (rs_body r)) of
        (Some v, Some w) \<Rightarrow> compare_values v w ''body'' | _ \<Rightarrow> compare_text (rs_body l) (rs_body r)))"
    using compare_flip(1) [OF parse_keys_once parse_keys_once, of "rs_body l" _ "rs_body r"]
      compare_text_flip [of "rs_body r" "rs_body l"]
    by (simp split: option.split)
  show ?thesis
    unfolding raw_changes_def map_append mset_append body
      compare_flip(1) [OF headers_keys_once [of "rs_headers l"] headers_keys_once [of "rs_headers r"]]
    by simp
qed

lemma filter_flip:
  assumes "mset xs = mset (map flip ys)"
  shows "mset (filter (\<lambda>c. P (dc_path c)) xs) = mset (map flip (filter (\<lambda>c. P (dc_path c)) ys))"
proof -
  have "mset (filter (\<lambda>c. P (dc_path c)) xs) = filter_mset (\<lambda>c. P (dc_path c)) (mset (map flip ys))"
    using assms by (simp add: mset_filter)
  also have "\<dots> = mset (map flip (filter (\<lambda>c. P (dc_path c)) ys))" by (induction ys) auto
  finally show ?thesis .
qed

lemma length_filter_mset: "mset xs = mset ys \<Longrightarrow> length (filter P xs) = length (filter P ys)"
  by (metis mset_eq_length mset_filter)

lemma flip_type: "dc_type (flip c) = (case dc_type c of DC_add \<Rightarrow> DC_remove | DC_remove \<Rightarrow> DC_add | DC_change \<Rightarrow> DC_change)"
  by (simp add: flip_def)

lemma summarize_flip:
  assumes "mset xs = mset (map flip ys)"
  shows "summarize xs = \<lparr>ds_additions = ds_deletions (summarize ys), ds_deletions = ds_additions (summarize ys),
     ds_changes = ds_changes (summarize ys)\<rparr>"
  unfolding summarize_def length_filter_mset [OF assms]
  by (simp add: filter_map comp_def flip_type)
     (intro conjI arg_cong [where f = length] filter_cong refl; auto split: diff_kind.splits)

text \<open>
  C29: Comparing two responses treats the sides alike, whatever their bodies, headers and the ignored paths: with
  the sides exchanged the same changes are reported at the same paths, additions as removals and old values as
  new ones; the summary exchanges additions and deletions, the time difference changes its sign, the texts change
  places and the mode stays.
\<close>

theorem diff_symmetric:
  "mset (dr_changes (compare_responses r l ignored)) = mset (map flip (dr_changes (compare_responses l r ignored))) \<and>
   ds_additions (dr_summary (compare_responses r l ignored)) = ds_deletions (dr_summary (compare_responses l r ignored)) \<and>
   ds_deletions (dr_summary (compare_responses r l ignored)) = ds_additions (dr_summary (compare_responses l r ignored)) \<and>
   ds_changes (dr_summary (compare_responses r l ignored)) = ds_changes (dr_summary (compare_responses l r ignored)) \<and>
   dr_responseTimeDeltaMs (compare_responses r l ignored) = - dr_responseTimeDeltaMs (compare_responses l r ignored) \<and>
   dr_leftText (compare_responses r l ignored) = dr_rightText (compare_responses l r ignored) \<and>
   dr_mode (compare_responses r l ignored) = dr_mode (compare_responses l r ignored)"
proof -
  have c: "mset (dr_changes (compare_responses r l ignored)) = mset (map flip (dr_changes (compare_responses l r ignored)))"
    using raw_changes_flip [of r l] filter_flip [OF raw_changes_flip, of "\<lambda>p. \<not> should_ignore ignored p" r l]
    by (simp add: compare_responses_def Let_def del: mset_map)
  have s: "dr_summary (compare_responses a b ignored) = summarize (dr_changes (compare_responses a b ignored))" for a b
    by (simp add: compare_responses_def Let_def)
  show ?thesis
    using c unfolding s summarize_flip [OF c] by (auto simp: compare_responses_def Let_def)
qed

section \<open>No changes\<close>

text \<open>The same value, whatever the order of the members of its objects.\<close>

inductive json_same :: "json \<Rightarrow> json \<Rightarrow> bool" where
  same_leaf: "json_same v v"
| same_arr: "list_all2 json_same xs ys \<Longrightarrow> json_same (JArr xs) (JArr ys)"
| same_obj: "(\<And>k. rel_option json_same (map_of ms k) (map_of ns k)) \<Longrightarrow> json_same (JObj ms) (JObj ns)"

inductive_cases json_same_cases: "json_same l r"

lemma rel_option_same: "rel_option json_same m m"
  by (cases m) (simp_all add: same_leaf)

lemma json_same_simps [simp]:
  "json_same (JArr xs) (JArr ys) \<longleftrightarrow> list_all2 json_same xs ys"
  "json_same (JObj ms) (JObj ns) \<longleftrightarrow> (\<forall>k. rel_option json_same (map_of ms k) (map_of ns k))"
  "json_same (JStr s) (JStr t) \<longleftrightarrow> s = t"
  by (auto intro: json_same.intros list.rel_refl rel_option_same elim: json_same_cases)

lemma json_same_other:
  assumes "\<not> (\<exists>xs ys. l = JArr xs \<and> r = JArr ys)" and "\<not> (\<exists>ms ns. l = JObj ms \<and> r = JObj ns)"
  shows "json_same l r \<longleftrightarrow> l = r"
  using assms by (auto intro: same_leaf elim: json_same_cases)

text \<open>No object has a member of its own named \<open>__proto__\<close>.\<close>

fun no_proto :: "json \<Rightarrow> bool"
  and no_proto_list :: "json list \<Rightarrow> bool"
  and no_proto_members :: "(string \<times> json) list \<Rightarrow> bool"
where
  "no_proto (JArr vs) = no_proto_list vs"
| "no_proto (JObj ms) = no_proto_members ms"
| "no_proto _ = True"
| "no_proto_list [] = True"
| "no_proto_list (v # vs) = (no_proto v \<and> no_proto_list vs)"
| "no_proto_members [] = True"
| "no_proto_members ((k, v) # ms) = (k \<noteq> ''__proto__'' \<and> no_proto v \<and> no_proto_members ms)"

lemma no_proto_members_iff: "no_proto_members ms \<longleftrightarrow> (\<forall>(k, v) \<in> set ms. k \<noteq> ''__proto__'' \<and> no_proto v)"
  by (induction ms) auto

lemma json_ok_members_iff: "json_ok_members ms \<longleftrightarrow> (\<forall>(k, v) \<in> set ms. json_ok v)"
  by (induction ms) auto

lemma is_equal_iff: "json_ok l \<Longrightarrow> json_ok r \<Longrightarrow> is_equal l r \<longleftrightarrow> l = r"
  unfolding is_equal_def by (metis json_parse_stringify option.inject)

lemma compare_other_Nil:
  assumes "\<not> (\<exists>xs ys. l = JArr xs \<and> r = JArr ys)" and "\<not> (\<exists>ms ns. l = JObj ms \<and> r = JObj ns)"
    and "json_ok l" and "json_ok r"
  shows "compare_values l r path = [] \<longleftrightarrow> json_same l r"
  using compare_values_other [OF assms(1,2)] json_same_other [OF assms(1,2)] is_equal_iff [OF assms(3,4)] by simp

lemma key_changes_Nil:
  assumes "no_proto_members ms" and "no_proto_members ns"
    and "\<And>v w. map_of ms k = Some v \<Longrightarrow> map_of ns k = Some w \<Longrightarrow>
      compare_values v w (member_path path k) = [] \<longleftrightarrow> json_same v w"
  shows "key_changes ms ns path k = [] \<longleftrightarrow> rel_option json_same (map_of ms k) (map_of ns k)"
proof (cases "map_of ms k")
  case None
  then show ?thesis
    using assms(2)
    by (cases "map_of ns k") (auto simp: key_changes_def right_change_def read_member_def no_proto_members_iff dest: map_of_SomeD)
next
  case (Some v)
  show ?thesis
  proof (cases "map_of ns k")
    case None
    with Some show ?thesis
      using assms(1) by (auto simp: key_changes_def left_change_def read_member_def no_proto_members_iff dest: map_of_SomeD)
  next
    case (Some w)
    with \<open>map_of ms k = Some v\<close> show ?thesis
      using assms(3) by (simp add: key_changes_def left_change_def read_member_def)
  qed
qed

lemma compare_members_Nil:
  assumes "distinct (map fst ms)" and "distinct (map fst ns)" and "no_proto_members ms" and "no_proto_members ns"
    and "\<And>k v w. map_of ms k = Some v \<Longrightarrow> map_of ns k = Some w \<Longrightarrow>
      compare_values v w (member_path path k) = [] \<longleftrightarrow> json_same v w"
  shows "compare_left ms ns path @ right_only ms ns path = [] \<longleftrightarrow> json_same (JObj ms) (JObj ns)"
proof -
  let ?K = "fst ` set ms \<union> fst ` set ns"
  have "compare_left ms ns path @ right_only ms ns path = [] \<longleftrightarrow> mset (compare_left ms ns path @ right_only ms ns path) = {#}"
    by simp
  also have "\<dots> \<longleftrightarrow> (\<forall>k \<in> ?K. key_changes ms ns path k = [])"
    unfolding members_by_key [OF assms(1,2)] by (simp add: sum_eq_empty_iff)
  also have "\<dots> \<longleftrightarrow> (\<forall>k. rel_option json_same (map_of ms k) (map_of ns k))"
    using key_changes_Nil [OF assms(3,4,5)] by (metis UnCI map_of_eq_None_iff option.rel_inject(1))
  finally show ?thesis by simp
qed

lemma compare_Nil:
  "json_ok l \<Longrightarrow> json_ok r \<Longrightarrow> no_proto l \<Longrightarrow> no_proto r \<Longrightarrow> compare_values l r path = [] \<longleftrightarrow> json_same l r"
  "json_ok_list xs \<Longrightarrow> json_ok_list ys \<Longrightarrow> no_proto_list xs \<Longrightarrow> no_proto_list ys \<Longrightarrow>
     compare_elems xs ys path i = [] \<longleftrightarrow> list_all2 json_same xs ys"
  "json_ok_members ms \<Longrightarrow> json_ok_members ns \<Longrightarrow> no_proto_members ms \<Longrightarrow> no_proto_members ns \<Longrightarrow>
     (k, v) \<in> set ms \<Longrightarrow> map_of ns k = Some w \<Longrightarrow> compare_values v w (member_path path k) = [] \<longleftrightarrow> json_same v w"
proof (induction l r path and xs ys path i and ms ns path arbitrary: and and k v w
    rule: compare_values_compare_elems_compare_left.induct)
  case (1 l r path)
  show ?case
  proof (cases "l = r")
    case True
    then show ?thesis by (simp add: compare_values.simps is_equal_def same_leaf)
  next
    case False
    with 1(3,4) have ne: "\<not> is_equal l r" by (simp add: is_equal_iff)
    consider (arr) xs ys where "l = JArr xs" "r = JArr ys" | (obj) ms ns where "l = JObj ms" "r = JObj ns"
      | (other) "\<not> (\<exists>xs ys. l = JArr xs \<and> r = JArr ys)" "\<not> (\<exists>ms ns. l = JObj ms \<and> r = JObj ns)" by blast
    then show ?thesis
    proof cases
      case arr
      with 1(1) [OF ne] 1(3-) ne show ?thesis by (simp add: compare_values_arr)
    next
      case obj
      with 1(2) [OF ne] 1(3-) have each: "(k, v) \<in> set ms \<Longrightarrow> map_of ns k = Some w \<Longrightarrow>
          compare_values v w (member_path path k) = [] \<longleftrightarrow> json_same v w" for k v w by simp
      have "compare_left ms ns path @ right_only ms ns path = [] \<longleftrightarrow> json_same (JObj ms) (JObj ns)"
      proof (rule compare_members_Nil)
        show "distinct (map fst ms)" "distinct (map fst ns)" "no_proto_members ms" "no_proto_members ns"
          using obj 1(3-) by simp_all
      qed (rule each [OF map_of_SomeD])
      then show ?thesis using ne unfolding obj compare_values_obj by simp
    next
      case other
      then show ?thesis by (rule compare_other_Nil) (fact 1)+
    qed
  qed
next
  case (7 k' v' ms ns path)
  show ?case
  proof (cases "(k, v) = (k', v')")
    case True
    have "read_member ns k' = Some (Json w)" using 7(8) True by (simp add: read_member_def)
    moreover have "json_ok w" "no_proto w" using 7(4,6,8)
      by (auto simp: json_ok_members_iff no_proto_members_iff dest!: map_of_SomeD)
    ultimately show ?thesis using 7(1) 7(3,5) True by simp
  next
    case False
    then show ?thesis using 7(2) 7(3-8) by auto
  qed
qed simp_all

definition header_value :: "key_value list \<Rightarrow> string \<Rightarrow> string option" where
  "header_value hs k = map_of (rev (map (\<lambda>hdr. (to_lower (kv_key hdr), kv_value hdr)) hs)) k"

lemma header_object_same:
  "json_same (headers_to_object hs) (headers_to_object hs') \<longleftrightarrow> (\<forall>k. header_value hs k = header_value hs' k)"
proof -
  have read: "map_of (map (\<lambda>(k, v). (k, JStr v)) (obj_from_entries kvs)) k = map_option JStr (map_of (rev kvs) k)" for kvs k
    using obj_own_from_entries [of kvs k] by (simp add: obj_own_def map_of_map)
  have "rel_option json_same (map_option JStr a) (map_option JStr b) \<longleftrightarrow> a = b" for a b
    by (cases a; cases b) simp_all
  then show ?thesis by (simp add: headers_to_object_def header_value_def read)
qed

lemma header_object_ok: "json_ok (headers_to_object hs)"
  by (auto simp: headers_to_object_def json_ok_members_iff obj_from_entries_distinct comp_def case_prod_beta)

lemma header_object_no_proto:
  assumes "\<forall>hdr \<in> set hs. to_lower (kv_key hdr) \<noteq> ''__proto__''"
  shows "no_proto (headers_to_object hs)"
proof -
  have sub: "kv \<in> set kvs" if "kv \<in> set (obj_from_entries kvs)" for kv and kvs :: "(string \<times> string) list"
  proof -
    have "map_of (obj_from_entries kvs) (fst kv) = Some (snd kv)"
      using that by (intro map_of_is_SomeI obj_from_entries_distinct) simp
    then have "map_of (rev kvs) (fst kv) = Some (snd kv)" using obj_own_from_entries [of kvs] by (simp add: obj_own_def)
    then show ?thesis by (auto dest: map_of_SomeD)
  qed
  show ?thesis using assms by (fastforce simp: headers_to_object_def no_proto_members_iff dest!: sub)
qed

text \<open>
  C30: For JSON bodies without a member named \<open>__proto__\<close> whose numbers are integers below \<open>10 ^ 21\<close>, the
  comparison reports no change exactly when the bodies are the same value up to the order of the members of their
  objects, every header name has the same last value on both sides whatever its case, and status and status text
  agree.
\<close>

theorem no_changes_iff_same:
  assumes "json_parse (rs_body l) = Some v" and "json_parse (rs_body r) = Some w"
    and "json_ok v" and "json_ok w" and "no_proto v" and "no_proto w"
    and "\<forall>hdr \<in> set (rs_headers l) \<union> set (rs_headers r). to_lower (kv_key hdr) \<noteq> ''__proto__''"
  shows "dr_changes (compare_responses l r []) = [] \<longleftrightarrow>
    json_same v w \<and> (\<forall>k. header_value (rs_headers l) k = header_value (rs_headers r) k)
      \<and> rs_status l = rs_status r \<and> rs_statusText l = rs_statusText r"
proof -
  have "compare_values v w ''body'' = [] \<longleftrightarrow> json_same v w"
    by (rule compare_Nil(1) [OF assms(3-6)])
  moreover have "compare_values (headers_to_object (rs_headers l)) (headers_to_object (rs_headers r)) ''headers'' = []
      \<longleftrightarrow> (\<forall>k. header_value (rs_headers l) k = header_value (rs_headers r) k)"
    unfolding header_object_same [symmetric]
    by (rule compare_Nil(1)) (use assms(7) in \<open>auto intro: header_object_ok header_object_no_proto\<close>)
  ultimately show ?thesis by (simp add: compare_responses_def raw_changes_def Let_def assms(1,2))
qed

definition sample_response :: "json \<Rightarrow> string \<Rightarrow> execute_response" where
  "sample_response v name = \<lparr>rs_status = 200, rs_statusText = ''OK'',
     rs_headers = [\<lparr>kv_id = None, kv_key = name, kv_value = ''1'', kv_enabled = None, kv_sensitive = None,
       kv_type = None, kv_file_name = None\<rparr>],
     rs_body = json_stringify v, rs_bodyEncoding = None, rs_timing = None, rs_attempts = None, rs_tls = None,
     rs_redirects = None, rs_requestSize = 0, rs_responseSize = 0, rs_error = None\<rparr>"

theorem no_changes_iff_same_witness:
  "let v = JObj [(''a'', JNum 1), (''b'', JNull)]; w = JObj [(''b'', JNull), (''a'', JNum 1)];
       l = sample_response v ''X-A''; r = sample_response w ''x-a'' in
   dr_changes (compare_responses l r []) = [] \<longleftrightarrow>
     json_same v w \<and> (\<forall>k. header_value (rs_headers l) k = header_value (rs_headers r) k)
       \<and> rs_status l = rs_status r \<and> rs_statusText l = rs_statusText r"
  unfolding Let_def
proof (rule no_changes_iff_same)
  let ?v = "JObj [(''a'', JNum 1), (''b'', JNull)]" and ?w = "JObj [(''b'', JNull), (''a'', JNum 1)]"
  show ok: "json_ok ?v" "json_ok ?w" by (simp_all add: is_integral_def)
  show "json_parse (rs_body (sample_response ?v ''X-A'')) = Some ?v" "json_parse (rs_body (sample_response ?w ''x-a'')) = Some ?w"
    unfolding sample_response_def execute_response.simps by (rule json_parse_stringify [OF ok(1)] json_parse_stringify [OF ok(2)])+
  show "no_proto ?v" "no_proto ?w" by simp_all
  show "\<forall>hdr \<in> set (rs_headers (sample_response ?v ''X-A'')) \<union> set (rs_headers (sample_response ?w ''x-a'')).
      to_lower (kv_key hdr) \<noteq> ''__proto__''"
    by code_simp
qed

text \<open>
  A member named \<open>__proto__\<close> that is an empty object is not seen: the other object reads its prototype there.
\<close>

lemma proto_member_unseen:
  "compare_values (JObj [(''__proto__'', JObj [])]) (JObj []) path = []"
  by (simp add: compare_values.simps read_member_def own_vs_prototype_def right_only_def json_stringify.simps)

end
