(* ===== verification/Payload.thy ===== *)
theory Payload
  imports Resolve Request_Model
begin

text \<open>
  packages/server/src/features/execute/payload.ts with features/shared/payload.ts: the request the server
  hands to its executor, with the body as bytes, the headers that go with it, the credentials and the
  transport headers the executor reads and removes. A body that is JSON text may hold any value; reading it
  raises where the source would, and the source falls back to the text itself.
\<close>

section \<open>The input\<close>

text \<open>\<open>nh_from_base64\<close> is \<open>Buffer.from(s, "base64")\<close>, which accepts any text.\<close>

record node_host = host +
  nh_from_base64 :: "string \<Rightarrow> nat list"

record exec_auth =
  xa_type :: string
  xa_username :: "string option"
  xa_password :: "string option"
  xa_token :: "string option"
  xa_apiKeyName :: "string option"
  xa_apiKeyValue :: "string option"
  xa_apiKeyIn :: "api_key_in option"
  xa_ntlmUsername :: "string option"
  xa_ntlmPassword :: "string option"
  xa_ntlmDomain :: "string option"

record exec_proxy =
  xp_type :: proxy_kind
  xp_url :: string
  xp_username :: string
  xp_password :: string

record tls_input =
  ti_clientCertPem :: string
  ti_clientKeyPem :: string
  ti_caCertPem :: string
  ti_serverName :: string

record exec_input =
  xi_method :: string
  xi_url :: string
  xi_headers :: "key_value list"
  xi_body :: string
  xi_bodyMode :: "body_mode option"
  xi_auth :: "exec_auth option"
  xi_timeoutMs :: rat
  xi_connectTimeoutMs :: "rat option"
  xi_readTimeoutMs :: "rat option"
  xi_followRedirects :: bool
  xi_maxRedirects :: rat
  xi_verifySsl :: bool
  xi_httpVersion :: http_version
  xi_allowPrivateAddresses :: "bool option"
  xi_proxy :: "exec_proxy option"
  xi_tlsClientConfig :: "tls_input option"

text \<open>A literal \<open>{ key, value }\<close>.\<close>

definition plain_header :: "string \<Rightarrow> string \<Rightarrow> key_value" where
  "plain_header k v = \<lparr>kv_id = None, kv_key = k, kv_value = v, kv_enabled = None, kv_sensitive = None,
     kv_type = None, kv_file_name = None\<rparr>"

text \<open>A header that goes with the body; a soft one yields to the caller's.\<close>

record extra_header =
  eh_header :: key_value
  eh_soft :: bool

definition content_type_extra :: "string \<Rightarrow> extra_header list" where
  "content_type_extra v = [\<lparr>eh_header = plain_header ''Content-Type'' v, eh_soft = False\<rparr>]"

section \<open>Bodies\<close>

text \<open>\<open>p.enabled !== false && p.key\<close> on a value that is not null.\<close>

definition pair_active :: "json \<Rightarrow> bool" where
  "pair_active p \<longleftrightarrow> json_field p ''enabled'' \<noteq> Some (JBool False) \<and> json_truthy (json_field p ''key'')"

definition encoded_pair :: "json \<Rightarrow> string" where
  "encoded_pair p =
     encode_uri_component (js_to_string (json_field p ''key'')) @ ''=''
     @ encode_uri_component (js_to_string (json_field p ''value''))"

definition urlencoded_body :: "string \<Rightarrow> string option" where
  "urlencoded_body body =
     (case json_parse (if body = [] then ''[]'' else body) of
        Some (JArr ps) \<Rightarrow>
          (if JNull \<in> set ps then None else Some (join ''&'' (map encoded_pair (filter pair_active ps))))
      | _ \<Rightarrow> None)"

text \<open>\<open>/^data:([^;]+);base64,(.+)$/s\<close>: the media type and the data.\<close>

definition data_url :: "string \<Rightarrow> (string \<times> string) option" where
  "data_url s =
     (let r = drop 5 s; mime = takeWhile (\<lambda>c. c \<noteq> CHR '';'') r; t = dropWhile (\<lambda>c. c \<noteq> CHR '';'') r in
      if starts_with ''data:'' s \<and> mime \<noteq> [] \<and> starts_with '';base64,'' t \<and> drop 8 t \<noteq> []
      then Some (mime, drop 8 t) else None)"

fun nat_to_hex :: "nat \<Rightarrow> string" where
  "nat_to_hex n = (if n < 16 then [low_hex_char n] else nat_to_hex (n div 16) @ [low_hex_char (n mod 16)])"

declare nat_to_hex.simps [simp del]

definition form_boundary :: "int \<Rightarrow> string" where
  "form_boundary now = ''----InvokeBoundary'' @ nat_to_hex (nat now)"

definition crlf :: string where "crlf = [carriage, newline]"

definition form_field :: "string \<Rightarrow> string \<Rightarrow> string \<Rightarrow> string" where
  "form_field b name v =
     ''--'' @ b @ crlf @ ''Content-Disposition: form-data; name='' @ [dquote] @ name @ [dquote] @ crlf @ crlf @ v @ crlf"

definition form_end :: "string \<Rightarrow> string" where
  "form_end b = ''--'' @ b @ ''--'' @ crlf"

definition file_part_head :: "string \<Rightarrow> string \<Rightarrow> string \<Rightarrow> string \<Rightarrow> string" where
  "file_part_head b field filename mime =
     ''--'' @ b @ crlf @ ''Content-Disposition: form-data; name='' @ [dquote] @ field @ [dquote]
     @ ''; filename='' @ [dquote] @ filename @ [dquote] @ crlf @ ''Content-Type: '' @ mime @ crlf @ crlf"

text \<open>The text of \<open>JSON.stringify(x)\<close> put into a template: \<open>undefined\<close> when there is none.\<close>

definition stringify_or_undefined :: "jsval \<Rightarrow> string" where
  "stringify_or_undefined v = (case v of Some j \<Rightarrow> json_stringify j | None \<Rightarrow> ''undefined'')"

text \<open>One file; \<open>None\<close> when reading it raises, no bytes when its address is no data URL.\<close>

definition graphql_file :: "'a node_host_scheme \<Rightarrow> string \<Rightarrow> json \<Rightarrow> nat list option" where
  "graphql_file h b f =
     (case json_field f ''dataUrl'' of
        Some (JStr s) \<Rightarrow>
          (case data_url s of
             None \<Rightarrow> Some []
           | Some (mime, b64) \<Rightarrow>
               Some (string_bytes (file_part_head b (js_to_string (json_field f ''field''))
                        (js_to_string (json_field f ''filename'')) mime)
                     @ nh_from_base64 h b64 @ string_bytes crlf))
      | _ \<Rightarrow> None)"

fun graphql_files :: "'a node_host_scheme \<Rightarrow> string \<Rightarrow> json list \<Rightarrow> nat list option" where
  "graphql_files h b [] = Some []"
| "graphql_files h b (f # fs) =
     (case graphql_file h b f of
        None \<Rightarrow> None
      | Some bs \<Rightarrow> map_option ((@) bs) (graphql_files h b fs))"

text \<open>What \<open>for (const x of v)\<close> ranges over; it raises on other values.\<close>

definition for_of :: "jsval \<Rightarrow> json list option" where
  "for_of v = (case v of Some (JArr vs) \<Rightarrow> Some vs | Some (JStr s) \<Rightarrow> Some (map (\<lambda>c. JStr [c]) s) | _ \<Rightarrow> None)"

definition graphql_multipart_body :: "'a node_host_scheme \<Rightarrow> string \<Rightarrow> json \<Rightarrow> nat list option" where
  "graphql_multipart_body h b j =
     (case for_of (json_field j ''files'') of
        None \<Rightarrow> None
      | Some fs \<Rightarrow>
          map_option (\<lambda>files. string_bytes (form_field b ''operations'' (stringify_or_undefined (json_field j ''operations''))
              @ form_field b ''map'' (stringify_or_undefined (json_field j ''map'')))
            @ files @ string_bytes (form_end b)) (graphql_files h b fs))"

definition form_data_body :: "string \<Rightarrow> json \<Rightarrow> string option" where
  "form_data_body b j =
     (case for_of (Some j) of
        None \<Rightarrow> None
      | Some ps \<Rightarrow>
          (if JNull \<in> set ps then None
           else Some (concat (map (\<lambda>p. form_field b (js_to_string (json_field p ''key'')) (js_to_string (json_field p ''value'')))
                         (filter pair_active ps)) @ form_end b)))"

definition multipart_type :: "string \<Rightarrow> string" where
  "multipart_type b = ''multipart/form-data; boundary='' @ b"

definition is_json_text :: "string \<Rightarrow> bool" where
  "is_json_text body \<longleftrightarrow>
     (let t = trim_start body in (starts_with [lbrace] t \<or> starts_with ''['' t) \<and> json_parse t \<noteq> None)"

definition raw_body :: "string \<Rightarrow> nat list \<times> extra_header list" where
  "raw_body body = (string_bytes body, [\<lparr>eh_header = plain_header ''Content-Type''
      (if is_json_text body then ''application/json'' else ''text/plain; charset=utf-8''), eh_soft = True\<rparr>])"

definition file_body :: "'a node_host_scheme \<Rightarrow> string \<Rightarrow> nat list \<times> extra_header list" where
  "file_body h body =
     (case data_url body of
        Some (mime, b64) \<Rightarrow> (nh_from_base64 h b64, content_type_extra mime)
      | None \<Rightarrow> (string_bytes body, []))"

text \<open>
  \<open>serializeBody\<close>. The clock is read for the boundary, after the text has been parsed.
\<close>

definition serialize_body :: "'a node_host_scheme \<Rightarrow> exec_input \<Rightarrow> runtime \<Rightarrow> (nat list \<times> extra_header list) \<times> runtime" where
  "serialize_body h input rt =
     (let body = xi_body input; plain = (string_bytes body, []) in
      case xi_bodyMode input of
        Some BM_urlencoded \<Rightarrow>
          ((case urlencoded_body body of
              Some s \<Rightarrow> (string_bytes s, content_type_extra ''application/x-www-form-urlencoded'')
            | None \<Rightarrow> plain), rt)
      | Some BM_file \<Rightarrow> (file_body h body, rt)
      | Some BM_graphql_multipart \<Rightarrow>
          (case json_parse (if body = [] then ''{}'' else body) of
             None \<Rightarrow> (plain, rt)
           | Some JNull \<Rightarrow> (plain, rt)
           | Some j \<Rightarrow>
               (let (now, rt') = read_clock rt; b = form_boundary now in
                ((case graphql_multipart_body h b j of
                    Some bs \<Rightarrow> (bs, content_type_extra (multipart_type b)) | None \<Rightarrow> plain), rt')))
      | Some BM_form_data \<Rightarrow>
          (case json_parse (if body = [] then ''[]'' else body) of
             None \<Rightarrow> (plain, rt)
           | Some j \<Rightarrow>
               (let (now, rt') = read_clock rt; b = form_boundary now in
                ((case form_data_body b j of
                    Some s \<Rightarrow> (string_bytes s, content_type_extra (multipart_type b)) | None \<Rightarrow> plain), rt')))
      | _ \<Rightarrow> (raw_body body, rt))"

section \<open>Credentials\<close>

definition has_key :: "string \<Rightarrow> key_value list \<Rightarrow> bool" where
  "has_key k hs \<longleftrightarrow> list_ex (\<lambda>hdr. to_lower (kv_key hdr) = to_lower k) hs"

definition ntlm_headers :: "exec_auth \<Rightarrow> key_value list" where
  "ntlm_headers a =
     (if truthy (xa_ntlmUsername a)
      then [plain_header ''X-Invoke-Ntlm-Username''
              ((if truthy (xa_ntlmDomain a) then opt_str (xa_ntlmDomain a) @ [backslash] else []) @ opt_str (xa_ntlmUsername a)),
            plain_header ''X-Invoke-Ntlm-Password'' (opt_str (xa_ntlmPassword a))]
      else [])"

definition api_key_url :: "'a host_scheme \<Rightarrow> string \<Rightarrow> string \<Rightarrow> string \<Rightarrow> string" where
  "api_key_url h name v url =
     (case ho_url h url of
        Some u \<Rightarrow> (if name \<in> set (map fst (up_query u)) then url else ho_url_append h url [(name, v)])
      | None \<Rightarrow>
          (if str_includes (encode_uri_component name @ ''='') url then url
           else url @ (if CHR ''?'' \<in> set url then ''&'' else ''?'')
                    @ encode_uri_component name @ ''='' @ encode_uri_component v))"

text \<open>\<open>Buffer.from(s).toString("base64")\<close>.\<close>

definition base64_text :: "string \<Rightarrow> string" where
  "base64_text s = btoa (map char_of (string_bytes s))"

text \<open>The headers that are added and the URL.\<close>

definition credentials :: "'a host_scheme \<Rightarrow> exec_auth \<Rightarrow> string \<Rightarrow> key_value list \<Rightarrow> key_value list \<times> string" where
  "credentials h a url headers =
     (if xa_type a = ''basic'' \<and> truthy (xa_username a) then
        (if has_key ''authorization'' headers then []
         else [plain_header ''Authorization'' (''Basic '' @ base64_text (opt_str (xa_username a) @ '':'' @ opt_str (xa_password a)))], url)
      else if (xa_type a = ''bearer'' \<or> xa_type a = ''oauth2'') \<and> truthy (xa_token a) then
        (if has_key ''authorization'' headers then []
         else [plain_header ''Authorization'' (''Bearer '' @ opt_str (xa_token a))], url)
      else if xa_type a = ''api-key'' \<and> truthy (xa_apiKeyName a) \<and> truthy (xa_apiKeyValue a) then
        (if xa_apiKeyIn a = Some In_query
         then ([], api_key_url h (opt_str (xa_apiKeyName a)) (opt_str (xa_apiKeyValue a)) url)
         else (if has_key (opt_str (xa_apiKeyName a)) headers then []
               else [plain_header (opt_str (xa_apiKeyName a)) (opt_str (xa_apiKeyValue a))], url))
      else ([], url))"

definition apply_auth_if_needed :: "'a host_scheme \<Rightarrow> exec_input \<Rightarrow> key_value list \<Rightarrow> key_value list \<times> string" where
  "apply_auth_if_needed h input headers =
     (case xi_auth input of
        None \<Rightarrow> (headers, xi_url input)
      | Some a \<Rightarrow>
          (if xa_type a = ''none'' \<or> xa_type a = ''digest'' then (headers, xi_url input)
           else if xa_type a = ''ntlm'' then (headers @ ntlm_headers a, xi_url input)
           else (case credentials h a (xi_url input) headers of (added, url) \<Rightarrow> (headers @ added, url))))"

section \<open>The payload\<close>

record tls_payload =
  tp_clientCertPem :: "nat list"
  tp_clientKeyPem :: "nat list"
  tp_caCertPem :: "nat list"
  tp_serverName :: string

definition tls_client_config_payload :: "tls_input option \<Rightarrow> tls_payload option" where
  "tls_client_config_payload t =
     (case t of
        None \<Rightarrow> None
      | Some i \<Rightarrow>
          (if list_ex (\<lambda>v. trim v \<noteq> []) [ti_clientCertPem i, ti_clientKeyPem i, ti_caCertPem i, ti_serverName i]
           then Some \<lparr>tp_clientCertPem = string_bytes (ti_clientCertPem i), tp_clientKeyPem = string_bytes (ti_clientKeyPem i),
                  tp_caCertPem = string_bytes (ti_caCertPem i), tp_serverName = ti_serverName i\<rparr>
           else None))"

record exec_payload =
  ep_method :: string
  ep_url :: string
  ep_headers :: "key_value list"
  ep_body :: "nat list"
  ep_timeoutMs :: rat
  ep_followRedirects :: bool
  ep_maxRedirects :: rat
  ep_verifySsl :: bool
  ep_proxy :: "exec_proxy option"
  ep_tlsClientConfig :: "tls_payload option"

definition add_extra :: "extra_header \<Rightarrow> key_value list \<Rightarrow> key_value list" where
  "add_extra e headers =
     (let same = (\<lambda>hdr. to_lower (kv_key hdr) = to_lower (kv_key (eh_header e))) in
      if eh_soft e \<and> list_ex same headers then headers
      else filter (\<lambda>hdr. \<not> same hdr) headers @ [eh_header e])"

definition number_header :: "string \<Rightarrow> rat option \<Rightarrow> key_value list" where
  "number_header name v = (case v of Some x \<Rightarrow> if x \<noteq> 0 then [plain_header name (num_to_string x)] else [] | None \<Rightarrow> [])"

definition http_version_text :: "http_version \<Rightarrow> string" where
  "http_version_text v = (case v of HV_auto \<Rightarrow> ''auto'' | HV_http1 \<Rightarrow> ''http1'' | HV_h2c \<Rightarrow> ''h2c'')"

definition transport_headers :: "exec_input \<Rightarrow> key_value list" where
  "transport_headers i =
     number_header ''X-Invoke-Connect-Timeout-Ms'' (xi_connectTimeoutMs i)
     @ number_header ''X-Invoke-Read-Timeout-Ms'' (xi_readTimeoutMs i)
     @ (if xi_allowPrivateAddresses i = Some True then [plain_header ''X-Invoke-Allow-Private'' ''true''] else [])
     @ (if xi_httpVersion i \<noteq> HV_auto
        then [plain_header ''X-Invoke-Http-Version-Mode'' (http_version_text (xi_httpVersion i))] else [])"

definition execute_payload :: "'a node_host_scheme \<Rightarrow> exec_input \<Rightarrow> runtime \<Rightarrow> exec_payload \<times> runtime" where
  "execute_payload h input rt =
     (let ((body, extras), rt') = serialize_body h input rt;
          headers = fold add_extra extras (filter (\<lambda>hdr. kv_enabled hdr \<noteq> Some False) (xi_headers input));
          (headers', url) = apply_auth_if_needed h input headers in
      (\<lparr>ep_method = xi_method input, ep_url = url, ep_headers = headers' @ transport_headers input, ep_body = body,
         ep_timeoutMs = xi_timeoutMs input, ep_followRedirects = xi_followRedirects input,
         ep_maxRedirects = xi_maxRedirects input, ep_verifySsl = xi_verifySsl input, ep_proxy = xi_proxy input,
         ep_tlsClientConfig = tls_client_config_payload (xi_tlsClientConfig input)\<rparr>, rt'))"

end
