(* ===== verification/Execute.thy ===== *)
theory Execute
  imports Payload Ssrf Import_Curl
begin

text \<open>
  packages/server/src/features/execute/digest-auth.ts and response.ts, and api/handlers/execute.ts: answering
  a digest challenge, bringing the executor's answer into the form the interface reads, and the two handlers
  that put the SSRF guard in front of the executor. The executor is a parameter; the calls it gets are part
  of the result. Hashes are a parameter \<open>hash algorithm text\<close> that gives hexadecimal text.
\<close>

section \<open>Digest authentication\<close>

definition challenge_char :: "char \<Rightarrow> bool" where
  "challenge_char c \<longleftrightarrow> is_alnum c \<or> c = CHR ''_'' \<or> c = CHR ''-''"

text \<open>The value after an equals sign: a closed quoted part, otherwise everything up to a comma.\<close>

definition challenge_value :: "string \<Rightarrow> string \<times> string" where
  "challenge_value s =
     (case (if starts_with [dquote] s then quoted_token dquote (tl s) else None) of
        Some (w, u) \<Rightarrow> (dquote # w, u)
      | None \<Rightarrow> (takeWhile (\<lambda>c. c \<noteq> CHR '','') s, dropWhile (\<lambda>c. c \<noteq> CHR '','') s))"

lemma challenge_value_shorter: "length (snd (challenge_value s)) \<le> length s"
proof (cases "if starts_with [dquote] s then quoted_token dquote (tl s) else None")
  case None
  then show ?thesis by (simp add: challenge_value_def length_dropWhile_le)
next
  case (Some wu)
  then obtain w u where q: "quoted_token dquote (tl s) = Some (w, u)" "s \<noteq> []"
    by (cases wu; cases s) (auto split: if_splits)
  then have "length u < length (tl s)" by (blast dest: quoted_token_shorter)
  then have "length u \<le> length s" by simp
  with Some q show ?thesis by (simp add: challenge_value_def split: if_splits)
qed

text \<open>All matches of the expression, from left to right.\<close>

function challenge_pairs :: "string \<Rightarrow> (string \<times> string) list" where
  "challenge_pairs [] = []"
| "challenge_pairs (c # s) =
     (if challenge_char c then
        (case dropWhile challenge_char s of
           d # t \<Rightarrow>
             (if d = CHR ''='' then (c # takeWhile challenge_char s, fst (challenge_value t)) # challenge_pairs (snd (challenge_value t))
              else challenge_pairs (d # t))
         | [] \<Rightarrow> [])
      else challenge_pairs s)"
  by pat_completeness auto
termination
proof (relation "measure length", goal_cases)
  case (2 c s d t)
  have "length (snd (challenge_value t)) \<le> length t" by (rule challenge_value_shorter)
  moreover have "length (d # t) \<le> length s" unfolding 2(2) [symmetric] by (rule length_dropWhile_le)
  ultimately show ?case by simp
next
  case (3 c s d t)
  have "length (d # t) \<le> length s" unfolding 3(2) [symmetric] by (rule length_dropWhile_le)
  then show ?case by simp
qed simp_all

definition challenge_text :: "string \<Rightarrow> string" where
  "challenge_text v =
     (if starts_with [dquote] v then replace_all [backslash, dquote] [dquote] (butlast (tl v)) else trim v)"

text \<open>\<open>replace(/^Digest\s+/i, "")\<close>.\<close>

definition strip_scheme :: "string \<Rightarrow> string" where
  "strip_scheme s =
     (if starts_with ''digest'' (to_lower s) \<and> takeWhile js_space (drop 6 s) \<noteq> [] then dropWhile js_space (drop 6 s) else s)"

definition parse_digest_challenge :: "string \<Rightarrow> string obj" where
  "parse_digest_challenge challenge =
     fold (\<lambda>(k, v). obj_assign (to_lower k) (challenge_text v)) (challenge_pairs (strip_scheme challenge)) []"

definition digest_uri :: "'a host_scheme \<Rightarrow> string \<Rightarrow> string" where
  "digest_uri h raw = (case ho_url h raw of Some u \<Rightarrow> up_pathname u @ up_search u | None \<Rightarrow> raw)"

definition escape_digest_value :: "string \<Rightarrow> string" where
  "escape_digest_value v = concat (map (\<lambda>c. if c = dquote \<or> c = backslash then [backslash, c] else [c]) v)"

definition own_or_empty :: "string obj \<Rightarrow> string \<Rightarrow> string" where
  "own_or_empty vs k = opt_str (obj_own vs k)"

definition digest_quoted :: "string \<Rightarrow> string \<Rightarrow> string" where
  "digest_quoted name v = name @ ''='' @ [dquote] @ escape_digest_value v @ [dquote]"

definition digest_algorithm :: "string obj \<Rightarrow> string" where
  "digest_algorithm vs = to_upper (case obj_own vs ''algorithm'' of Some a \<Rightarrow> a | None \<Rightarrow> ''MD5'')"

text \<open>Whether \<open>auth\<close> is among the offered protections.\<close>

definition offers_auth :: "string obj \<Rightarrow> bool" where
  "offers_auth vs \<longleftrightarrow> ''auth'' \<in> set (map trim (split_on CHR '','' (own_or_empty vs ''qop'')))"

definition nonce_count :: string where "nonce_count = ''00000001''"

definition digest_response ::
    "(string \<Rightarrow> string \<Rightarrow> string) \<Rightarrow> string \<Rightarrow> string obj \<Rightarrow> string \<Rightarrow> string \<Rightarrow> string \<Rightarrow> string \<Rightarrow> string" where
  "digest_response hash cnonce vs username password meth uri =
     (let f = hash (if digest_algorithm vs = ''SHA-256'' then ''sha256'' else ''md5'');
          nonce = own_or_empty vs ''nonce'';
          ha1 = f (username @ '':'' @ own_or_empty vs ''realm'' @ '':'' @ password);
          ha2 = f (to_upper meth @ '':'' @ uri) in
      if offers_auth vs then f (ha1 @ '':'' @ nonce @ '':'' @ nonce_count @ '':'' @ cnonce @ '':auth:'' @ ha2)
      else f (ha1 @ '':'' @ nonce @ '':'' @ ha2))"

definition digest_authorization_header ::
    "'a host_scheme \<Rightarrow> (string \<Rightarrow> string \<Rightarrow> string) \<Rightarrow> string \<Rightarrow> exec_input \<Rightarrow> string \<Rightarrow> string" where
  "digest_authorization_header h hash cnonce input challenge =
     (let vs = parse_digest_challenge challenge;
          username = (case xi_auth input of Some a \<Rightarrow> opt_str (xa_username a) | None \<Rightarrow> []);
          password = (case xi_auth input of Some a \<Rightarrow> opt_str (xa_password a) | None \<Rightarrow> []);
          uri = digest_uri h (xi_url input) in
      ''Digest '' @ join '', ''
        ([digest_quoted ''username'' username, digest_quoted ''realm'' (own_or_empty vs ''realm''),
          digest_quoted ''nonce'' (own_or_empty vs ''nonce''), digest_quoted ''uri'' uri,
          ''response='' @ [dquote] @ digest_response hash cnonce vs username password (xi_method input) uri @ [dquote],
          ''algorithm='' @ digest_algorithm vs]
         @ (if own_or_empty vs ''opaque'' \<noteq> [] then [digest_quoted ''opaque'' (own_or_empty vs ''opaque'')] else [])
         @ (if offers_auth vs
            then [''qop=auth'', ''nc='' @ nonce_count, ''cnonce='' @ [dquote] @ cnonce @ [dquote]] else [])))"

section \<open>Answers\<close>

text \<open>What the executor answers, every field optional as the source reads it.\<close>

record exec_answer =
  xs_status :: "int option"
  xs_statusText :: "string option"
  xs_headers :: "key_value list option"
  xs_body :: "nat list option"
  xs_timing :: "timing option"
  xs_tls :: "tls_info option"
  xs_redirects :: "redirect_info list option"
  xs_attempts :: "timing_attempt list option"
  xs_requestSize :: "int option"
  xs_responseSize :: "int option"
  xs_error :: "string option"

definition bytes_from :: "nat list option \<Rightarrow> nat list" where
  "bytes_from v = (case v of Some bs \<Rightarrow> bs | None \<Rightarrow> [])"

text \<open>The expression over the content type, which ignores case.\<close>

definition text_words :: "string list" where
  "text_words = [''text/'', ''json'', ''xml'', ''html'', ''javascript'', ''css'', ''yaml'', ''csv'', ''urlencoded'']"

definition answer_content_type :: "exec_answer \<Rightarrow> string" where
  "answer_content_type a =
     (case find (\<lambda>hdr. to_lower (kv_key hdr) = ''content-type'') (case xs_headers a of Some hs \<Rightarrow> hs | None \<Rightarrow> []) of
        Some hdr \<Rightarrow> kv_value hdr | None \<Rightarrow> [])"

definition is_text_type :: "string \<Rightarrow> bool" where
  "is_text_type ct \<longleftrightarrow> list_ex (\<lambda>w. str_includes w (to_lower ct)) text_words \<or> ct = []"

text \<open>
  \<open>normalizeResponse\<close>. Timing that is missing stays missing here; the source puts an empty object, which
  reads the same. \<open>decode\<close> is \<open>toString("utf8")\<close>.
\<close>

record normal_response =
  nr_status :: "int option"
  nr_statusText :: "string option"
  nr_headers :: "key_value list"
  nr_body :: string
  nr_bodyEncoding :: body_encoding
  nr_timing :: "timing option"
  nr_tls :: "tls_info option"
  nr_redirects :: "redirect_info list"
  nr_attempts :: "timing_attempt list"
  nr_requestSize :: "int option"
  nr_responseSize :: "int option"
  nr_error :: "string option"

definition normalize_response :: "(nat list \<Rightarrow> string) \<Rightarrow> exec_answer \<Rightarrow> normal_response" where
  "normalize_response decode a =
     (let bytes = bytes_from (xs_body a); is_text = is_text_type (answer_content_type a) in
      \<lparr>nr_status = xs_status a, nr_statusText = xs_statusText a,
       nr_headers = (case xs_headers a of Some hs \<Rightarrow> hs | None \<Rightarrow> []),
       nr_body = (if is_text then decode bytes else btoa (map char_of bytes)),
       nr_bodyEncoding = (if is_text then BE_utf8 else BE_base64), nr_timing = xs_timing a, nr_tls = xs_tls a,
       nr_redirects = (case xs_redirects a of Some rs \<Rightarrow> rs | None \<Rightarrow> []),
       nr_attempts = (case xs_attempts a of Some rs \<Rightarrow> rs | None \<Rightarrow> []),
       nr_requestSize = xs_requestSize a, nr_responseSize = xs_responseSize a, nr_error = xs_error a\<rparr>)"

definition execute_error_answer :: "js_error \<Rightarrow> exec_answer" where
  "execute_error_answer e = \<lparr>xs_status = None, xs_statusText = None, xs_headers = Some [], xs_body = Some [],
     xs_timing = None, xs_tls = None, xs_redirects = None, xs_attempts = None, xs_requestSize = None,
     xs_responseSize = None, xs_error = Some (err_message e)\<rparr>"

definition execute_error_response :: "(nat list \<Rightarrow> string) \<Rightarrow> js_error \<Rightarrow> normal_response" where
  "execute_error_response decode e = normalize_response decode (execute_error_answer e)"

section \<open>executeDigest\<close>

type_synonym executor = "nat \<Rightarrow> exec_payload \<Rightarrow> js_error + exec_answer"

definition without_authorization :: "key_value list \<Rightarrow> key_value list" where
  "without_authorization hs = filter (\<lambda>hdr. to_lower (kv_key hdr) \<noteq> ''authorization'') hs"

definition digest_challenge_of :: "exec_answer \<Rightarrow> string option" where
  "digest_challenge_of a =
     (case find (\<lambda>hdr. to_lower (kv_key hdr) = ''www-authenticate'') (case xs_headers a of Some hs \<Rightarrow> hs | None \<Rightarrow> []) of
        Some hdr \<Rightarrow>
          (if xs_status a = Some 401 \<and> starts_with ''digest'' (to_lower (kv_value hdr)) then Some (kv_value hdr) else None)
      | None \<Rightarrow> None)"

text \<open>The calls that are made and the answer of the last one. \<open>call n\<close> is the executor at the \<open>n\<close>th call.\<close>

definition execute_digest ::
    "'a node_host_scheme \<Rightarrow> (string \<Rightarrow> string \<Rightarrow> string) \<Rightarrow> string \<Rightarrow> executor \<Rightarrow> exec_input \<Rightarrow> runtime
      \<Rightarrow> (exec_payload list \<times> (js_error + exec_answer)) \<times> runtime" where
  "execute_digest h hash cnonce call input rt =
     (let hs = without_authorization (xi_headers input);
          (p1, rt1) = execute_payload h (input\<lparr>xi_headers := hs\<rparr>) rt in
      case call 0 p1 of
        Inl e \<Rightarrow> (([p1], Inl e), rt1)
      | Inr first \<Rightarrow>
          (case digest_challenge_of first of
             None \<Rightarrow> (([p1], Inr first), rt1)
           | Some challenge \<Rightarrow>
               (let (p2, rt2) = execute_payload h (input\<lparr>xi_headers := hs
                       @ [kv_on ''Authorization'' (digest_authorization_header h hash cnonce input challenge)]\<rparr>) rt1 in
                (([p1, p2], call 1 p2), rt2))))"

section \<open>The handlers\<close>

datatype execute_reply = Refused string | Replied normal_response

definition is_digest :: "exec_input \<Rightarrow> bool" where
  "is_digest input \<longleftrightarrow> (case xi_auth input of Some a \<Rightarrow> xa_type a = ''digest'' | None \<Rightarrow> False)"

definition execute_handler ::
    "'a node_host_scheme \<Rightarrow> bool \<Rightarrow> (string \<Rightarrow> string option) \<Rightarrow> (nat list \<Rightarrow> string) \<Rightarrow> (string \<Rightarrow> string \<Rightarrow> string)
      \<Rightarrow> string \<Rightarrow> executor \<Rightarrow> exec_input \<Rightarrow> runtime \<Rightarrow> (exec_payload list \<times> execute_reply) \<times> runtime" where
  "execute_handler h guard lookup decode hash cnonce call input rt =
     (case ssrf_check (host.truncate h) guard lookup (xi_url input) of
        Some reason \<Rightarrow> (([], Refused reason), rt)
      | None \<Rightarrow>
          (let ((calls, raw), rt') =
             (if is_digest input then execute_digest h hash cnonce call input rt
              else (let (p, rt1) = execute_payload h input rt in (([p], call 0 p), rt1))) in
           ((calls, Replied (case raw of Inl e \<Rightarrow> execute_error_response decode e | Inr a \<Rightarrow> normalize_response decode a)), rt')))"

text \<open>A chunk of a streamed answer.\<close>

record exec_chunk =
  xk_body :: "nat list option"
  xk_finalResponse :: "exec_answer option"

datatype stream_event = Chunk_event string | Final_event normal_response | Final_refused string

definition format_execute_chunk :: "(nat list \<Rightarrow> string) \<Rightarrow> exec_chunk \<Rightarrow> stream_event list" where
  "format_execute_chunk decode ck =
     (let bytes = bytes_from (xk_body ck) in
      (if bytes \<noteq> [] then [Chunk_event (btoa (map char_of bytes))] else [])
      @ (case xk_finalResponse ck of Some a \<Rightarrow> [Final_event (normalize_response decode a)] | None \<Rightarrow> []))"

text \<open>The executor's stream: the chunks that came, and the error it ended with if it failed.\<close>

definition stream_handler ::
    "'a node_host_scheme \<Rightarrow> bool \<Rightarrow> (string \<Rightarrow> string option) \<Rightarrow> (nat list \<Rightarrow> string)
      \<Rightarrow> (exec_payload \<Rightarrow> exec_chunk list \<times> js_error option) \<Rightarrow> exec_input \<Rightarrow> runtime
      \<Rightarrow> (exec_payload list \<times> stream_event list) \<times> runtime" where
  "stream_handler h guard lookup decode call input rt =
     (case ssrf_check (host.truncate h) guard lookup (xi_url input) of
        Some reason \<Rightarrow> (([], [Final_refused reason]), rt)
      | None \<Rightarrow>
          (let (p, rt') = execute_payload h input rt; (chunks, failure) = call p in
           (([p], concat (map (format_execute_chunk decode) chunks)
              @ (case failure of Some e \<Rightarrow> [Final_event (execute_error_response decode e)] | None \<Rightarrow> [])), rt')))"

end
