(* ===== verification/Payload_Facts.thy ===== *)
theory Payload_Facts
  imports Payload "HOL-Library.Sublist"
begin

text \<open>
  What the request handed to the executor holds: which headers are sent, and readers of the two form
  encodings that give the rows back.
\<close>

section \<open>Headers\<close>

definition is_named :: "string \<Rightarrow> key_value \<Rightarrow> bool" where
  "is_named k hdr \<longleftrightarrow> to_lower (kv_key hdr) = k"

definition user_headers :: "exec_input \<Rightarrow> key_value list" where
  "user_headers i = filter (\<lambda>hdr. kv_enabled hdr \<noteq> Some False) (xi_headers i)"

lemma lower_names [simp]:
  "to_lower ''authorization'' = ''authorization''" "to_lower ''content-type'' = ''content-type''"
  "to_lower ''Content-Type'' = ''content-type''" "to_lower ''Authorization'' = ''authorization''"
  by code_simp+

lemma has_key_iff:
  "k = ''authorization'' \<or> k = ''content-type'' \<Longrightarrow> has_key k hs \<longleftrightarrow> filter (is_named k) hs \<noteq> []"
  by (auto simp: has_key_def is_named_def list_ex_iff filter_empty_conv)

definition one_type :: "extra_header list \<Rightarrow> bool" where
  "one_type es \<longleftrightarrow> es = [] \<or> (\<exists>v soft. es = [\<lparr>eh_header = plain_header ''Content-Type'' v, eh_soft = soft\<rparr>])"

lemma one_type_simps [simp]: "one_type []" "one_type (content_type_extra v)" "one_type (snd (raw_body b))"
  by (auto simp: one_type_def content_type_extra_def raw_body_def)

lemma one_type_option: "one_type (snd (case x of Some s \<Rightarrow> (f s, content_type_extra (g s)) | None \<Rightarrow> (p, [])))"
  by (cases x) simp_all

lemma one_type_file: "one_type (snd (file_body h b))"
  by (simp add: file_body_def split: option.split)

lemma one_type_graphql:
  "one_type (snd (fst (serialize_body h (i\<lparr>xi_bodyMode := Some BM_graphql_multipart\<rparr>) rt)))"
  by (cases "json_parse (if xi_body i = [] then ''{}'' else xi_body i)")
    (auto simp: serialize_body_def Let_def case_prod_beta split: json.split option.split)

lemma one_type_form:
  "one_type (snd (fst (serialize_body h (i\<lparr>xi_bodyMode := Some BM_form_data\<rparr>) rt)))"
  by (simp add: serialize_body_def Let_def case_prod_beta split: option.split)

lemma extras_shape: "one_type (snd (fst (serialize_body h i rt)))"
proof (cases "xi_bodyMode i")
  case None
  then show ?thesis by (simp add: serialize_body_def Let_def)
next
  case (Some m)
  then have "i = i\<lparr>xi_bodyMode := Some m\<rparr>" by simp
  with one_type_graphql [of h i rt] one_type_form [of h i rt] Some show ?thesis
    by (cases m) (auto simp: serialize_body_def Let_def one_type_file split: option.split)
qed

lemma added_by_credentials:
  assumes "credentials h a url hs = (added, u)" and "has_key k hs" and "k = ''authorization'' \<or> k = ''content-type''"
  shows "\<not> list_ex (is_named k) added"
proof -
  have k: "to_lower k = k" using assms(3) by auto
  show ?thesis
  proof
    assume n: "list_ex (is_named k) added"
    then obtain hdr where h: "added = [hdr]" "is_named k hdr"
      using assms(1) by (auto simp: credentials_def split: if_splits)
    have "\<not> has_key (kv_key hdr) hs \<or> kv_key hdr = ''Authorization'' \<and> \<not> has_key ''authorization'' hs"
      using assms(1) h(1) by (auto simp: credentials_def plain_header_def split: if_splits)
    moreover have "has_key (kv_key hdr) hs" using assms(2) h(2) k by (simp add: has_key_def is_named_def)
    moreover have "kv_key hdr = ''Authorization'' \<Longrightarrow> k = ''authorization''" using h(2) by (simp add: is_named_def)
    ultimately show False using assms(2) by blast
  qed
qed

text \<open>The internal headers start with the letter X.\<close>

lemma internal_not_named:
  assumes "kv_key hdr = CHR ''X'' # r" and "k = ''authorization'' \<or> k = ''content-type''"
  shows "\<not> is_named k hdr"
proof -
  have "lower_char CHR ''X'' = CHR ''x''" by code_simp
  with assms show ?thesis by (auto simp: is_named_def to_lower_def)
qed

lemma transport_names:
  assumes "k = ''authorization'' \<or> k = ''content-type''"
  shows "filter (is_named k) (transport_headers i) = []"
proof -
  have "\<exists>r. kv_key hdr = CHR ''X'' # r" if "hdr \<in> set (transport_headers i)" for hdr
    using that by (auto simp: transport_headers_def number_header_def plain_header_def split: option.splits if_splits)
  then show ?thesis using internal_not_named [OF _ assms] by (force simp: filter_empty_conv)
qed

lemma ntlm_names:
  assumes "k = ''authorization'' \<or> k = ''content-type''"
  shows "filter (is_named k) (ntlm_headers a) = []"
proof -
  have "\<exists>r. kv_key hdr = CHR ''X'' # r" if "hdr \<in> set (ntlm_headers a)" for hdr
    using that by (auto simp: ntlm_headers_def plain_header_def split: if_splits)
  then show ?thesis using internal_not_named [OF _ assms] by (force simp: filter_empty_conv)
qed

lemma applied_headers:
  assumes "apply_auth_if_needed h i hs = (hs', u)" and "k = ''authorization'' \<or> k = ''content-type''" and "has_key k hs"
  shows "filter (is_named k) hs' = filter (is_named k) hs"
proof (cases "xi_auth i")
  case None
  with assms show ?thesis by (simp add: apply_auth_if_needed_def)
next
  case (Some a)
  show ?thesis
  proof (cases "xa_type a = ''none'' \<or> xa_type a = ''digest'' \<or> xa_type a = ''ntlm''")
    case True
    with Some assms(1) have "hs' = hs \<or> hs' = hs @ ntlm_headers a"
      by (auto simp: apply_auth_if_needed_def split: if_splits)
    then show ?thesis using ntlm_names [OF assms(2), of a] by auto
  next
    case False
    with Some assms(1) obtain added where c: "credentials h a (xi_url i) hs = (added, u)" "hs' = hs @ added"
      by (auto simp: apply_auth_if_needed_def split: prod.splits)
    from added_by_credentials [OF c(1) assms(3,2)] c(2) show ?thesis
      by (auto simp: list_ex_iff filter_empty_conv)
  qed
qed

lemma applied_prefix: "apply_auth_if_needed h i hs = (hs', u) \<Longrightarrow> prefix hs hs'"
  by (auto simp: apply_auth_if_needed_def split: option.splits if_splits prod.splits)

lemma prefix_filter: "prefix xs ys \<Longrightarrow> prefix (filter P xs) (filter P ys)"
  by (auto simp: prefix_def)

lemma extras_kept:
  assumes "one_type extras"
  shows "filter (\<lambda>hdr. \<not> is_named ''content-type'' hdr) (fold add_extra extras hs) = filter (\<lambda>hdr. \<not> is_named ''content-type'' hdr) hs"
    and "filter (is_named ''content-type'') (fold add_extra extras hs) =
      (case extras of e # es \<Rightarrow> if eh_soft e \<and> has_key ''content-type'' hs then filter (is_named ''content-type'') hs else [eh_header e]
       | [] \<Rightarrow> filter (is_named ''content-type'') hs)"
    and "filter (is_named ''authorization'') (fold add_extra extras hs) = filter (is_named ''authorization'') hs"
proof -
  have "filter (is_named ''authorization'') (filter (\<lambda>hdr. to_lower (kv_key hdr) \<noteq> ''content-type'') hs) = filter (is_named ''authorization'') hs"
    by (auto simp: is_named_def intro!: filter_cong)
  with assms
  show "filter (\<lambda>hdr. \<not> is_named ''content-type'' hdr) (fold add_extra extras hs) = filter (\<lambda>hdr. \<not> is_named ''content-type'' hdr) hs"
    and "filter (is_named ''content-type'') (fold add_extra extras hs) =
      (case extras of e # es \<Rightarrow> if eh_soft e \<and> has_key ''content-type'' hs then filter (is_named ''content-type'') hs else [eh_header e]
       | [] \<Rightarrow> filter (is_named ''content-type'') hs)"
    and "filter (is_named ''authorization'') (fold add_extra extras hs) = filter (is_named ''authorization'') hs"
    by (auto simp: one_type_def add_extra_def Let_def plain_header_def is_named_def has_key_def)
qed

text \<open>What the executor is sent under the two names, by the headers with the body's content type added.\<close>

definition with_extras :: "'a node_host_scheme \<Rightarrow> exec_input \<Rightarrow> runtime \<Rightarrow> key_value list" where
  "with_extras h i rt = fold add_extra (snd (fst (serialize_body h i rt))) (user_headers i)"

lemma sent_named:
  assumes "k = ''authorization'' \<or> k = ''content-type''" and "has_key k (with_extras h i rt)"
  shows "filter (is_named k) (ep_headers (fst (execute_payload h i rt))) = filter (is_named k) (with_extras h i rt)"
    and "prefix (with_extras h i rt) (ep_headers (fst (execute_payload h i rt)))"
proof -
  obtain body extras rt' where s: "serialize_body h i rt = ((body, extras), rt')" by (metis prod.collapse)
  obtain hs' u where a: "apply_auth_if_needed h i (with_extras h i rt) = (hs', u)" by fastforce
  have sent: "ep_headers (fst (execute_payload h i rt)) = hs' @ transport_headers i"
    using a by (simp add: execute_payload_def with_extras_def s user_headers_def)
  show "filter (is_named k) (ep_headers (fst (execute_payload h i rt))) = filter (is_named k) (with_extras h i rt)"
    unfolding sent using applied_headers [OF a assms] transport_names [OF assms(1), of i] by simp
  show "prefix (with_extras h i rt) (ep_headers (fst (execute_payload h i rt)))"
    unfolding sent using applied_prefix [OF a] by (auto simp: prefix_def)
qed

lemma sent_prefix: "prefix (with_extras h i rt) (ep_headers (fst (execute_payload h i rt)))"
proof -
  obtain body extras rt' where s: "serialize_body h i rt = ((body, extras), rt')" by (metis prod.collapse)
  obtain hs' u where a: "apply_auth_if_needed h i (with_extras h i rt) = (hs', u)" by fastforce
  have "ep_headers (fst (execute_payload h i rt)) = hs' @ transport_headers i"
    using a by (simp add: execute_payload_def with_extras_def s user_headers_def)
  then show ?thesis using applied_prefix [OF a] by (auto simp: prefix_def)
qed

lemma sent_content_type:
  assumes "snd (fst (serialize_body h i rt)) = [e]"
  shows "filter (is_named ''content-type'') (ep_headers (fst (execute_payload h i rt))) =
      (if eh_soft e \<and> has_key ''content-type'' (user_headers i) then filter (is_named ''content-type'') (user_headers i)
       else [eh_header e])"
proof -
  have f: "filter (is_named ''content-type'') (with_extras h i rt) =
      (if eh_soft e \<and> has_key ''content-type'' (user_headers i) then filter (is_named ''content-type'') (user_headers i)
       else [eh_header e])"
    using extras_kept(2) [OF extras_shape [of h i rt], of "user_headers i"] assms by (simp add: with_extras_def)
  then have "has_key ''content-type'' (with_extras h i rt)" using has_key_iff [of "''content-type''"] by auto
  from trans [OF sent_named(1) [OF disjI2 [OF refl] this] f] show ?thesis .
qed


definition sample_node :: node_host where
  "sample_node = host.extend sample_host \<lparr>nh_from_base64 = (\<lambda>s. map code_unit s)\<rparr>"

definition sample_input :: exec_input where
  "sample_input = \<lparr>xi_method = ''POST'', xi_url = ''https://a.b/c'', xi_headers = [kv_on ''authorization'' ''mine'', kv_on ''X-A'' ''1''],
     xi_body = ''x=1'', xi_bodyMode = Some BM_raw,
     xi_auth = Some \<lparr>xa_type = ''bearer'', xa_username = None, xa_password = None, xa_token = Some ''t'', xa_apiKeyName = None,
       xa_apiKeyValue = None, xa_apiKeyIn = None, xa_ntlmUsername = None, xa_ntlmPassword = None, xa_ntlmDomain = None\<rparr>,
     xi_timeoutMs = 1000, xi_connectTimeoutMs = None, xi_readTimeoutMs = None, xi_followRedirects = True, xi_maxRedirects = 5,
     xi_verifySsl = True, xi_httpVersion = HV_auto, xi_allowPrivateAddresses = None, xi_proxy = None, xi_tlsClientConfig = None\<rparr>"


section \<open>Form encodings\<close>

text \<open>A row of a form as the interface writes it: an object whose key and value are texts.\<close>

definition text_row :: "json \<Rightarrow> bool" where
  "text_row p \<longleftrightarrow> is_string (json_field p ''key'') \<and> is_string (json_field p ''value'')"

definition row_pair :: "json \<Rightarrow> string \<times> string" where
  "row_pair p = (js_to_string (json_field p ''key''), js_to_string (json_field p ''value''))"

lemma encoded_pair_read:
  "map decode_uri_component (split_on CHR ''='' (encoded_pair p)) = [Some (fst (row_pair p)), Some (snd (row_pair p))]"
  by (simp add: encoded_pair_def row_pair_def split_on_append split_on_no_sep encoded_no_separator decode_encode)

lemma text_row_not_null: "text_row p \<Longrightarrow> p \<noteq> JNull"
  by (auto simp: text_row_def is_string_def json_field_def)

lemma urlencoded_read:
  assumes "json_parse (if body = [] then ''[]'' else body) = Some (JArr ps)" and "JNull \<notin> set ps" and "filter pair_active ps \<noteq> []"
  shows "\<exists>s. urlencoded_body body = Some s
    \<and> map (\<lambda>p. map decode_uri_component (split_on CHR ''='' p)) (split_on CHR ''&'' s)
      = map (\<lambda>p. [Some (fst (row_pair p)), Some (snd (row_pair p))]) (filter pair_active ps)"
proof -
  have "split_on CHR ''&'' (join ''&'' (map encoded_pair (filter pair_active ps))) = map encoded_pair (filter pair_active ps)"
    by (rule split_on_join) (use assms(3) in \<open>auto simp: encoded_pair_def encoded_no_separator\<close>)
  then show ?thesis
    using assms by (simp add: urlencoded_body_def encoded_pair_read comp_def)
qed

subsection \<open>A reader of multipart bodies\<close>

text \<open>The text before and after the first occurrence of a separator.\<close>

fun cut_at :: "string \<Rightarrow> string \<Rightarrow> (string \<times> string) option" where
  "cut_at p [] = (if p = [] then Some ([], []) else None)"
| "cut_at p (c # s) =
     (if starts_with p (c # s) then Some ([], drop (length p) (c # s))
      else map_option (\<lambda>(a, b). (c # a, b)) (cut_at p s))"

lemma cut_at_text: "cut_at p s = Some (a, b) \<Longrightarrow> s = a @ p @ b"
  by (induction p s arbitrary: a b rule: cut_at.induct)
    (auto simp: starts_with_iff split: if_splits)

text \<open>
  The parts of a multipart body with the boundary \<open>b\<close>, as names and values: every part has the single header
  of a form field, and ends where the next delimiter is first found.
\<close>

definition disposition :: string where
  "disposition = ''Content-Disposition: form-data; name='' @ [dquote]"

definition field_name :: "string \<Rightarrow> string option" where
  "field_name header =
     (let r = drop (length disposition) header; name = takeWhile (\<lambda>c. c \<noteq> dquote) r in
      if starts_with disposition header \<and> r = name @ [dquote] then Some name else None)"

function read_form_parts :: "string \<Rightarrow> string \<Rightarrow> (string \<times> string) list option" where
  "read_form_parts b s =
     (if s = form_end b then Some []
      else if starts_with (''--'' @ b @ crlf) s then
        (case cut_at (crlf @ crlf) (drop (length (''--'' @ b @ crlf)) s) of
           None \<Rightarrow> None
         | Some (header, r) \<Rightarrow>
             (case (field_name header, cut_at (crlf @ ''--'' @ b) r) of
                (Some name, Some (v, t)) \<Rightarrow> map_option ((#) (name, v)) (read_form_parts b (''--'' @ b @ t))
              | _ \<Rightarrow> None))
      else None)"
  by pat_completeness auto
termination
proof (relation "measure (\<lambda>(b, s). length s)", goal_cases)
  case (2 b s header_r header r x name y v_t v t)
  let ?d = "drop (length (''--'' @ b @ crlf)) s"
  have "cut_at (crlf @ crlf) ?d = Some (header, r)" and "cut_at (crlf @ ''--'' @ b) r = Some (v, t)" using 2 by simp_all
  then have "?d = header @ (crlf @ crlf) @ r" and "r = v @ (crlf @ ''--'' @ b) @ t" by (blast dest: cut_at_text)+
  then have "length t + length b + 4 \<le> length ?d" by (simp add: crlf_def)
  moreover have "length ?d \<le> length s" by simp
  ultimately show ?case by simp
qed simp

declare read_form_parts.simps [simp del]

lemma includes_prefix: "starts_with p s \<Longrightarrow> str_includes p s"
  by (cases s; cases p) auto

lemma cut_at_plain: "c \<notin> set a \<Longrightarrow> cut_at (c # p) (a @ c # p @ r) = Some (a, r)"
  by (induction a) simp_all

lemma cut_at_first:
  assumes "c \<notin> set q" and "\<not> str_includes q v"
  shows "cut_at (c # q) (v @ c # q @ r) = Some (v, r)"
  using assms(2)
proof (induction v)
  case Nil
  then show ?case by simp
next
  case (Cons x v)
  have "\<not> starts_with q (v @ c # q @ r)"
  proof
    assume s: "starts_with q (v @ c # q @ r)"
    show False
    proof (cases "length q \<le> length v")
      case True
      with s have "starts_with q v" by (simp add: starts_with_take)
      with Cons.prems show False using includes_prefix by auto
    next
      case False
      with s have "q = v @ take (length q - length v) (c # q @ r)" by (simp add: starts_with_take)
      moreover have "c \<in> set (take (length q - length v) (c # q @ r))" using False by (cases "length q - length v") auto
      ultimately show False using assms(1) by (metis Un_iff set_append)
    qed
  qed
  then show ?case using Cons by simp
qed

lemma field_name_read: "dquote \<notin> set k \<Longrightarrow> field_name (disposition @ k @ [dquote]) = Some k"
proof -
  assume "dquote \<notin> set k"
  then have "takeWhile (\<lambda>c. c \<noteq> dquote) (k @ [dquote]) = k" by (subst takeWhile_append2) auto
  then show ?thesis by (simp add: field_name_def Let_def)
qed

lemma includes_tail: "str_includes (c # p) s \<Longrightarrow> str_includes p s"
  by (induction s) (auto intro: includes_prefix)

lemma form_fields_start:
  "\<exists>t. concat (map (\<lambda>(k, v). form_field b k v) rows) @ form_end b = ''--'' @ b @ t"
  by (cases rows) (auto simp: form_field_def form_end_def)

lemma read_form_step:
  assumes "(''--'' @ b @ crlf) @ u \<noteq> form_end b" and "cut_at (crlf @ crlf) u = Some (header, r)"
    and "field_name header = Some name" and "cut_at (crlf @ ''--'' @ b) r = Some (v, t)"
  shows "read_form_parts b ((''--'' @ b @ crlf) @ u) = map_option ((#) (name, v)) (read_form_parts b (''--'' @ b @ t))"
proof -
  define d where "d = ''--'' @ b @ crlf"
  have u: "starts_with d (d @ u)" "drop (length d) (d @ u) = u" by simp_all
  show ?thesis
    by (subst read_form_parts.simps)
      (simp only: assms(1) [folded d_def] d_def [symmetric] u assms(2-4) if_False if_True option.case prod.case)
qed

lemma read_form_fields:
  assumes "carriage \<notin> set b" and "\<forall>(k, v) \<in> set rows. dquote \<notin> set k \<and> carriage \<notin> set k \<and> \<not> str_includes b v"
  shows "read_form_parts b (concat (map (\<lambda>(k, v). form_field b k v) rows) @ form_end b) = Some rows"
  using assms(2)
proof (induction rows)
  case Nil
  show ?case by (subst read_form_parts.simps) simp
next
  case (Cons kv rows)
  obtain k v where kv: "kv = (k, v)" by (cases kv)
  obtain t where t: "concat (map (\<lambda>(k, v). form_field b k v) rows) @ form_end b = ''--'' @ b @ t"
    using form_fields_start by blast
  have ok: "dquote \<notin> set k" "carriage \<notin> set k" "\<not> str_includes b v" using Cons.prems kv by auto
  let ?r = "v @ crlf @ ''--'' @ b @ t" and ?h = "disposition @ k @ [dquote]"
  have s: "concat (map (\<lambda>(k, v). form_field b k v) (kv # rows)) @ form_end b
      = (''--'' @ b @ crlf) @ ?h @ crlf @ crlf @ ?r"
    using t by (simp add: kv form_field_def disposition_def)
  have "carriage \<notin> set ?h" using ok(2) by (simp add: disposition_def)
  then have h: "cut_at (crlf @ crlf) (?h @ crlf @ crlf @ ?r) = Some (?h, ?r)"
    using cut_at_plain [of carriage ?h "newline # crlf" ?r] by (simp add: crlf_def)
  have "\<not> str_includes (newline # ''--'' @ b) v" 
    using ok(3) includes_tail [of newline "''--'' @ b" v] includes_tail [of "CHR ''-''" "''-'' @ b" v] includes_tail [of "CHR ''-''" b v]
    by auto
  then have v: "cut_at (crlf @ ''--'' @ b) ?r = Some (v, t)"
    using cut_at_first [of carriage "newline # ''--'' @ b" v t] assms(1) by (simp add: crlf_def)
  have ne: "(''--'' @ b @ crlf) @ ?h @ crlf @ crlf @ ?r \<noteq> form_end b" by (simp add: form_end_def crlf_def)
  have "read_form_parts b ((''--'' @ b @ crlf) @ ?h @ crlf @ crlf @ ?r)
      = map_option ((#) (k, v)) (read_form_parts b (''--'' @ b @ t))"
    by (rule read_form_step [OF ne h field_name_read [OF ok(1)] v])
  then show ?case unfolding s using Cons t by (simp add: kv)
qed

lemma no_empty_json: "json_parse [] = None"
proof -
  have "read_value (Suc 1) [] = None" by (simp only: read_value.simps skip_ws_def dropWhile.simps list.case)
  then show ?thesis by (simp add: json_parse_def del: read_value.simps)
qed

lemma boundary_plain: "carriage \<notin> set (form_boundary now)"
proof -
  have "carriage \<notin> set (nat_to_hex n)" for n
  proof (induction n rule: nat_to_hex.induct)
    case (1 n)
    have "list_all (\<lambda>d. carriage \<noteq> low_hex_char d) [0..<16]" by code_simp
    then have "carriage \<noteq> low_hex_char d" if "d < 16" for d using that by (simp add: list_all_iff)
    with 1 show ?case by (subst nat_to_hex.simps) auto
  qed
  then show ?thesis by (simp add: form_boundary_def)
qed

text \<open>
  C17: A form's rows arrive: for a body that is a JSON array, the bytes sent in the URL encoding are read back by
  splitting at ampersands and equals signs and decoding, and the bytes sent as multipart are read back by a
  reader of form parts with the boundary that the content type announces, as exactly the enabled rows with a
  key, in order. The names must hold no quote and no carriage return, and no value the boundary.
\<close>

theorem form_bodies_read_back:
  assumes "json_parse (xi_body i) = Some (JArr ps)" and "JNull \<notin> set ps" and "filter pair_active ps \<noteq> []"
    and "b = form_boundary (fst (read_clock rt))"
    and "\<forall>(k, v) \<in> set (map row_pair (filter pair_active ps)). dquote \<notin> set k \<and> carriage \<notin> set k \<and> \<not> str_includes b v"
  shows "(xi_bodyMode i = Some BM_urlencoded \<longrightarrow>
      (\<exists>s. ep_body (fst (execute_payload h i rt)) = string_bytes s
        \<and> map (\<lambda>p. map decode_uri_component (split_on CHR ''='' p)) (split_on CHR ''&'' s)
          = map (\<lambda>p. [Some (fst (row_pair p)), Some (snd (row_pair p))]) (filter pair_active ps)))
    \<and> (xi_bodyMode i = Some BM_form_data \<longrightarrow>
      (\<exists>s. ep_body (fst (execute_payload h i rt)) = string_bytes s
        \<and> read_form_parts b s = Some (map row_pair (filter pair_active ps))
        \<and> filter (is_named ''content-type'') (ep_headers (fst (execute_payload h i rt)))
          = [plain_header ''Content-Type'' (''multipart/form-data; boundary='' @ b)]))"
proof -
  have body: "ep_body (fst (execute_payload h i rt)) = fst (fst (serialize_body h i rt))"
    by (simp add: execute_payload_def case_prod_beta Let_def)
  have ne: "xi_body i \<noteq> []" using assms(1) no_empty_json by auto
  have url: "\<exists>s. urlencoded_body (xi_body i) = Some s
    \<and> map (\<lambda>p. map decode_uri_component (split_on CHR ''='' p)) (split_on CHR ''&'' s)
      = map (\<lambda>p. [Some (fst (row_pair p)), Some (snd (row_pair p))]) (filter pair_active ps)"
    by (rule urlencoded_read) (use assms(1-3) ne in simp_all)
  let ?s = "concat (map (\<lambda>(k, v). form_field b k v) (map row_pair (filter pair_active ps))) @ form_end b"
  have form: "form_data_body b (JArr ps) = Some ?s"
    using assms(2) by (simp add: form_data_body_def for_of_def row_pair_def comp_def)
  have read: "read_form_parts b ?s = Some (map row_pair (filter pair_active ps))"
    by (rule read_form_fields) (use assms(5) boundary_plain assms(4) in auto)
  have ser: "fst (serialize_body h i rt) = (string_bytes ?s, content_type_extra (multipart_type b))"
    if "xi_bodyMode i = Some BM_form_data"
    using that ne assms(1,4) form by (simp add: serialize_body_def Let_def case_prod_beta)
  have "filter (is_named ''content-type'') (ep_headers (fst (execute_payload h i rt))) = [plain_header ''Content-Type'' (multipart_type b)]"
    if "xi_bodyMode i = Some BM_form_data"
    using sent_content_type [of h i rt] ser [OF that] by (simp add: content_type_extra_def)
  with url read ser show ?thesis
    unfolding body by (auto simp: serialize_body_def Let_def multipart_type_def)
qed

definition sample_rows :: json where
  "sample_rows = JArr [JObj [(''key'', JStr ''a''), (''value'', JStr ''1&2'')],
     JObj [(''key'', JStr ''b''), (''value'', JStr ''x''), (''enabled'', JBool False)]]"

theorem form_bodies_read_back_witness:
  "\<exists>s. ep_body (fst (execute_payload sample_node
        (sample_input\<lparr>xi_bodyMode := Some BM_form_data, xi_body := json_stringify sample_rows\<rparr>) sample_runtime)) = string_bytes s
     \<and> read_form_parts (form_boundary 1700000000000) s = Some [(''a'', ''1&2'')]"
proof -
  let ?i = "sample_input\<lparr>xi_bodyMode := Some BM_form_data, xi_body := json_stringify sample_rows\<rparr>"
  let ?ps = "[JObj [(''key'', JStr ''a''), (''value'', JStr ''1&2'')],
     JObj [(''key'', JStr ''b''), (''value'', JStr ''x''), (''enabled'', JBool False)]]"
  have p: "json_parse (xi_body ?i) = Some (JArr ?ps)"
    using json_parse_stringify [of sample_rows] by (simp add: sample_rows_def)
  have f: "filter pair_active ?ps = [JObj [(''key'', JStr ''a''), (''value'', JStr ''1&2'')]]"
    by (simp add: pair_active_def json_field_def json_truthy_def)
  have r: "map row_pair (filter pair_active ?ps) = [(''a'', ''1&2'')]"
    unfolding f by (simp add: row_pair_def json_field_def js_to_string_def)
  have b: "form_boundary 1700000000000 = form_boundary (fst (read_clock sample_runtime))"
    by (simp add: read_clock_def sample_runtime_def)
  have n: "JNull \<notin> set ?ps" "filter pair_active ?ps \<noteq> []" "xi_bodyMode ?i = Some BM_form_data" unfolding f by simp_all
  have "\<not> str_includes (form_boundary 1700000000000) ''1&2''" by (simp add: form_boundary_def)
  then have c: "\<forall>(k, v) \<in> set (map row_pair (filter pair_active ?ps)).
      dquote \<notin> set k \<and> carriage \<notin> set k \<and> \<not> str_includes (form_boundary 1700000000000) v" unfolding r by simp
  from conjunct2 [OF form_bodies_read_back [OF p n(1,2) b c, of sample_node]] n(3) show ?thesis unfolding r by blast
qed

text \<open>
  A name is put between quotes as it is: one with a quote turns its field into a file upload.
\<close>

lemma form_name_escapes:
  "form_field b (''a'' @ [dquote] @ ''; filename='' @ [dquote] @ ''f'' @ [dquote] @ crlf @ ''Content-Type: t'' @ crlf @ crlf @ v @ crlf @ rest) w
    = file_part_head b ''a'' ''f'' ''t'' @ v @ crlf @ rest @ [dquote] @ crlf @ crlf @ w @ crlf"
  by (simp add: form_field_def file_part_head_def)

text \<open>
  A header that the caller names like an internal one reaches the executor like the server's own.
\<close>

lemma internal_header_passes:
  "plain_header ''X-Invoke-Allow-Private'' ''true''
     \<in> set (ep_headers (fst (execute_payload h
         (i\<lparr>xi_headers := [plain_header ''X-Invoke-Allow-Private'' ''true''], xi_allowPrivateAddresses := Some False\<rparr>) rt)))"
proof -
  let ?i = "i\<lparr>xi_headers := [plain_header ''X-Invoke-Allow-Private'' ''true''], xi_allowPrivateAddresses := Some False\<rparr>"
  let ?x = "plain_header ''X-Invoke-Allow-Private'' ''true''"
  have "filter (\<lambda>hdr. \<not> is_named ''content-type'' hdr) (with_extras h ?i rt)
      = filter (\<lambda>hdr. \<not> is_named ''content-type'' hdr) (user_headers ?i)"
    using extras_kept(1) [OF extras_shape [of h ?i rt]] by (simp add: with_extras_def)
  moreover have "?x \<in> set (filter (\<lambda>hdr. \<not> is_named ''content-type'' hdr) (user_headers ?i))"
    using internal_not_named [of ?x _ "''content-type''"] by (simp add: user_headers_def plain_header_def)
  ultimately have "?x \<in> set (filter (\<lambda>hdr. \<not> is_named ''content-type'' hdr) (with_extras h ?i rt))" by metis
  then have "?x \<in> set (with_extras h ?i rt)" by simp
  then show ?thesis using sent_prefix set_mono_prefix by blast
qed

end
