(* ===== verification/Execute_Facts.thy ===== *)
theory Execute_Facts
  imports Execute Payload_Facts
begin

text \<open>
  What executing a request guarantees: nothing reaches the executor past the SSRF guard, and a server that
  checks digest credentials by the book lets the client in.
\<close>

section \<open>Lists of parameters\<close>

text \<open>A parameter of a challenge or of credentials: its name, whether its value is quoted, and the value.\<close>

type_synonym param = "string \<times> bool \<times> string"

definition render_param :: "param \<Rightarrow> string" where
  "render_param p = (case p of (n, q, v) \<Rightarrow> if q then digest_quoted n v else n @ ''='' @ v)"

definition render_params :: "param list \<Rightarrow> string" where
  "render_params ps = join '', '' (map render_param ps)"

definition param_ok :: "param \<Rightarrow> bool" where
  "param_ok p \<longleftrightarrow> (case p of (n, q, v) \<Rightarrow> n \<noteq> [] \<and> list_all challenge_char n
     \<and> (\<not> q \<longrightarrow> CHR '','' \<notin> set v \<and> \<not> starts_with [dquote] v))"

lemma escaped_token: "quoted_token dquote (escape_digest_value v @ dquote # rest) = Some (escape_digest_value v @ [dquote], rest)"
  by (induction v) (auto simp: escape_digest_value_def)

lemma escaped_text:
  assumes "backslash \<notin> set v"
  shows "replace_all [backslash, dquote] [dquote] (escape_digest_value v) = v"
  using assms by (induction v) (auto simp: escape_digest_value_def)

lemma challenge_text_quoted:
  "backslash \<notin> set v \<Longrightarrow> challenge_text (dquote # escape_digest_value v @ [dquote]) = v"
  by (simp add: challenge_text_def escaped_text)

lemma equals_no_challenge_char: "\<not> challenge_char CHR ''=''" "\<not> challenge_char CHR '',''" "\<not> challenge_char CHR '' ''"
  by code_simp+

lemma challenge_name:
  assumes "n \<noteq> []" and "list_all challenge_char n"
  shows "challenge_pairs (n @ CHR ''='' # t) = (n, fst (challenge_value t)) # challenge_pairs (snd (challenge_value t))"
proof -
  obtain c m where n: "n = c # m" using assms(1) by (cases n) auto
  have "dropWhile challenge_char (m @ CHR ''='' # t) = CHR ''='' # t"
    and "takeWhile challenge_char (m @ CHR ''='' # t) = m"
    using assms(2) n equals_no_challenge_char(1) by (simp_all add: list_all_iff dropWhile_append2 takeWhile_append2)
  then show ?thesis using assms(2) n by simp
qed

definition raw_value :: "param \<Rightarrow> string" where
  "raw_value p = (case p of (n, q, v) \<Rightarrow> if q then dquote # escape_digest_value v @ [dquote] else v)"

lemma span_until:
  assumes "c \<notin> set v" and "u = [] \<or> (\<exists>w. u = c # w)"
  shows "takeWhile (\<lambda>x. x \<noteq> c) (v @ u) = v" and "dropWhile (\<lambda>x. x \<noteq> c) (v @ u) = u"
  using assms by (induction v) auto

lemma challenge_value_param:
  assumes "param_ok (n, q, v)" and "u = [] \<or> (\<exists>w. u = CHR '','' # w)"
  shows "challenge_value (raw_value (n, q, v) @ u) = (raw_value (n, q, v), u)"
proof (cases q)
  case True
  then show ?thesis by (simp add: challenge_value_def raw_value_def escaped_token)
next
  case False
  with assms(1) have v: "CHR '','' \<notin> set v" "\<not> starts_with [dquote] v" by (simp_all add: param_ok_def)
  have "\<not> starts_with [dquote] (v @ u)" using v(2) assms(2) by (cases v) auto
  moreover have "takeWhile (\<lambda>c. c \<noteq> CHR '','') (v @ u) = v" and "dropWhile (\<lambda>c. c \<noteq> CHR '','') (v @ u) = u"
    by (rule span_until [OF v(1) assms(2)])+
  ultimately show ?thesis using False by (simp add: challenge_value_def raw_value_def)
qed

lemma render_param_raw: "render_param (n, q, v) = n @ CHR ''='' # raw_value (n, q, v)"
  by (simp add: render_param_def raw_value_def digest_quoted_def)

lemma challenge_pairs_params:
  "list_all param_ok ps \<Longrightarrow> challenge_pairs (render_params ps) = map (\<lambda>p. (fst p, raw_value p)) ps"
proof (induction ps)
  case Nil
  show ?case by (simp add: render_params_def)
next
  case (Cons p ps)
  obtain n q v where p: "p = (n, q, v)" by (cases p)
  define u where "u = (if ps = [] then [] else '', '' @ render_params ps)"
  have s: "render_params (p # ps) = n @ CHR ''='' # (raw_value (n, q, v) @ u)"
    unfolding u_def p by (cases ps) (simp_all add: render_params_def render_param_raw)
  have ok: "param_ok (n, q, v)" using Cons.prems p by simp
  have "challenge_value (raw_value (n, q, v) @ u) = (raw_value (n, q, v), u)"
    by (rule challenge_value_param [OF ok]) (simp add: u_def)
  moreover have "challenge_pairs u = map (\<lambda>p. (fst p, raw_value p)) ps"
    using Cons by (simp add: u_def equals_no_challenge_char)
  ultimately show ?case
    unfolding s using ok p challenge_name [of n] by (simp add: param_ok_def)
qed

text \<open>\<open>read_escaped\<close> and \<open>auth_params\<close> are the server's readers: a quoted text with its escapes, and a list.\<close>

fun read_escaped :: "string \<Rightarrow> (string \<times> string) option" where
  "read_escaped [] = None"
| "read_escaped (c # s) =
     (if c = dquote then Some ([], s)
      else if c = backslash then (case s of d # t \<Rightarrow> map_option (\<lambda>(w, u). (d # w, u)) (read_escaped t) | [] \<Rightarrow> None)
      else map_option (\<lambda>(w, u). (c # w, u)) (read_escaped s))"

lemma read_escaped_shorter: "read_escaped s = Some (w, u) \<Longrightarrow> length u < length s"
proof (induction s arbitrary: w u rule: read_escaped.induct)
  case (2 c s)
  then show ?case by (cases s) (fastforce split: if_splits intro: less_SucI)+
qed simp

definition param_value :: "string \<Rightarrow> (string \<times> string) option" where
  "param_value t =
     (if starts_with [dquote] t then read_escaped (tl t)
      else Some (takeWhile (\<lambda>c. c \<noteq> CHR '','') t, dropWhile (\<lambda>c. c \<noteq> CHR '','') t))"

lemma param_value_shorter: "param_value t = Some (v, u) \<Longrightarrow> length u \<le> length t"
  by (cases t) (auto simp: param_value_def length_dropWhile_le le_SucI split: if_splits dest!: read_escaped_shorter)

function auth_params :: "string \<Rightarrow> (string \<times> string) list option" where
  "auth_params s =
     (case dropWhile (\<lambda>c. c \<noteq> CHR ''='') s of
        [] \<Rightarrow> None
      | e # t \<Rightarrow>
          (case param_value t of
             None \<Rightarrow> None
           | Some (v, u) \<Rightarrow>
               (let p = (takeWhile (\<lambda>c. c \<noteq> CHR ''='') s, v) in
                if u = [] then Some [p]
                else if starts_with '', '' u then map_option ((#) p) (auth_params (drop 2 u)) else None)))"
  by pat_completeness auto
termination
proof (relation "measure length", goal_cases)
  case (2 s e t vu v u p)
  have "length u \<le> length t" using 2 by (auto intro: param_value_shorter)
  moreover have "length (e # t) \<le> length s" unfolding 2(1) [symmetric] by (rule length_dropWhile_le)
  ultimately show ?case by simp
qed simp

declare auth_params.simps [simp del]

lemma read_escaped_back: "read_escaped (escape_digest_value v @ dquote # rest) = Some (v, rest)"
  by (induction v) (auto simp: escape_digest_value_def)

lemma param_value_back:
  assumes "param_ok (n, q, v)" and "u = [] \<or> (\<exists>w. u = CHR '','' # w)"
  shows "param_value (raw_value (n, q, v) @ u) = Some (v, u)"
proof (cases q)
  case True
  then show ?thesis by (simp add: param_value_def raw_value_def read_escaped_back)
next
  case False
  with assms(1) have v: "CHR '','' \<notin> set v" "\<not> starts_with [dquote] v" by (simp_all add: param_ok_def)
  have "\<not> starts_with [dquote] (v @ u)" using v(2) assms(2) by (cases v) auto
  moreover have "takeWhile (\<lambda>c. c \<noteq> CHR '','') (v @ u) = v" and "dropWhile (\<lambda>c. c \<noteq> CHR '','') (v @ u) = u"
    by (rule span_until [OF v(1) assms(2)])+
  ultimately show ?thesis using False by (simp add: param_value_def raw_value_def)
qed

lemma auth_params_back:
  "ps \<noteq> [] \<Longrightarrow> list_all param_ok ps \<Longrightarrow> auth_params (render_params ps) = Some (map (\<lambda>(n, q, v). (n, v)) ps)"
proof (induction ps)
  case (Cons p ps)
  obtain n q v where p: "p = (n, q, v)" by (cases p)
  define u where "u = (if ps = [] then [] else '', '' @ render_params ps)"
  have s: "render_params (p # ps) = n @ CHR ''='' # (raw_value (n, q, v) @ u)"
    unfolding u_def p by (cases ps) (simp_all add: render_params_def render_param_raw)
  have ok: "param_ok (n, q, v)" using Cons.prems p by simp
  then have "CHR ''='' \<notin> set n" using equals_no_challenge_char(1) by (auto simp: param_ok_def list_all_iff)
  then have "dropWhile (\<lambda>c. c \<noteq> CHR ''='') (render_params (p # ps)) = CHR ''='' # (raw_value (n, q, v) @ u)"
    and "takeWhile (\<lambda>c. c \<noteq> CHR ''='') (render_params (p # ps)) = n"
    unfolding s using span_until [of "CHR ''=''" n "CHR ''='' # (raw_value (n, q, v) @ u)"] by simp_all
  moreover have "param_value (raw_value (n, q, v) @ u) = Some (v, u)"
    by (rule param_value_back [OF ok]) (simp add: u_def)
  ultimately show ?case
    using Cons by (subst auth_params.simps) (auto simp: u_def p)
qed simp

section \<open>A server that checks digest credentials\<close>

text \<open>
  The challenge a server sends: realm and nonce quoted, whether it wants SHA-256, and whether it offers the
  protection \<open>auth\<close>.
\<close>

definition challenge_params :: "bool \<Rightarrow> bool \<Rightarrow> string \<Rightarrow> string \<Rightarrow> param list" where
  "challenge_params sha protect realm nonce =
     [(''realm'', True, realm), (''nonce'', True, nonce), (''algorithm'', False, if sha then ''SHA-256'' else ''MD5'')]
     @ (if protect then [(''qop'', True, ''auth'')] else [])"

definition server_challenge :: "bool \<Rightarrow> bool \<Rightarrow> string \<Rightarrow> string \<Rightarrow> string" where
  "server_challenge sha protect realm nonce = ''Digest '' @ render_params (challenge_params sha protect realm nonce)"

text \<open>The response a client has to send, computed from the user's password.\<close>

definition expected_response ::
    "(string \<Rightarrow> string \<Rightarrow> string) \<Rightarrow> (string \<times> string) list \<Rightarrow> string \<Rightarrow> string \<Rightarrow> string \<Rightarrow> string \<Rightarrow> string \<Rightarrow> string \<Rightarrow> string" where
  "expected_response hash ps u password realm nonce meth uri =
     (let f = hash (if map_of ps ''algorithm'' = Some ''SHA-256'' then ''sha256'' else ''md5'');
          ha1 = f (u @ '':'' @ realm @ '':'' @ password); ha2 = f (meth @ '':'' @ uri) in
      case map_of ps ''qop'' of
        None \<Rightarrow> f (ha1 @ '':'' @ nonce @ '':'' @ ha2)
      | Some q \<Rightarrow> f (ha1 @ '':'' @ nonce @ '':'' @ opt_str (map_of ps ''nc'') @ '':''
                    @ opt_str (map_of ps ''cnonce'') @ '':'' @ q @ '':'' @ ha2))"

definition server_accepts ::
    "(string \<Rightarrow> string \<Rightarrow> string) \<Rightarrow> (string \<Rightarrow> string option) \<Rightarrow> string \<Rightarrow> string \<Rightarrow> string \<Rightarrow> string \<Rightarrow> string \<Rightarrow> bool" where
  "server_accepts hash passwords realm nonce meth uri header \<longleftrightarrow>
     starts_with ''Digest '' header \<and>
     (case auth_params (drop 7 header) of
        None \<Rightarrow> False
      | Some ps \<Rightarrow>
          map_of ps ''realm'' = Some realm \<and> map_of ps ''nonce'' = Some nonce \<and> map_of ps ''uri'' = Some uri \<and>
          (case map_of ps ''username'' of
             None \<Rightarrow> False
           | Some u \<Rightarrow>
               (case passwords u of
                  None \<Rightarrow> False
                | Some password \<Rightarrow> map_of ps ''response'' = Some (expected_response hash ps u password realm nonce meth uri))))"

lemma strip_scheme_challenge:
  "strip_scheme (server_challenge sha protect realm nonce) = render_params (challenge_params sha protect realm nonce)"
proof -
  obtain r where r: "render_params (challenge_params sha protect realm nonce) = CHR ''r'' # r"
    by (cases protect) (simp_all add: challenge_params_def render_params_def render_param_def digest_quoted_def)
  have "to_lower ''Digest'' = ''digest''" "\<not> js_space CHR ''r''" "js_space CHR '' ''" by code_simp+
  then show ?thesis by (simp add: strip_scheme_def server_challenge_def r to_lower_def)
qed

lemma challenge_params_ok: "list_all param_ok (challenge_params sha protect realm nonce)"
proof -
  have "list_all challenge_char ''realm''" "list_all challenge_char ''nonce''" "list_all challenge_char ''algorithm''"
    "list_all challenge_char ''qop''" by code_simp+
  then show ?thesis by (simp add: challenge_params_def param_ok_def)
qed

lemma parsed_challenge:
  fixes sha protect :: bool
  assumes "backslash \<notin> set realm" and "backslash \<notin> set nonce"
  defines "vs \<equiv> parse_digest_challenge (server_challenge sha protect realm nonce)"
  shows "own_or_empty vs ''realm'' = realm" and "own_or_empty vs ''nonce'' = nonce"
    and "digest_algorithm vs = (if sha then ''SHA-256'' else ''MD5'')" and "offers_auth vs = protect"
    and "own_or_empty vs ''opaque'' = []"
proof -
  have lower: "to_lower ''realm'' = ''realm''" "to_lower ''nonce'' = ''nonce''" "to_lower ''algorithm'' = ''algorithm''"
    "to_lower ''qop'' = ''qop''" by code_simp+
  have texts: "challenge_text ''MD5'' = ''MD5''" "challenge_text ''SHA-256'' = ''SHA-256''" by code_simp+
  have auth: "challenge_text (dquote # escape_digest_value ''auth'' @ [dquote]) = ''auth''"
    by (rule challenge_text_quoted) simp
  have vs: "vs = [(''realm'', realm), (''nonce'', nonce), (''algorithm'', if sha then ''SHA-256'' else ''MD5'')]
      @ (if protect then [(''qop'', ''auth'')] else [])"
    unfolding vs_def parse_digest_challenge_def strip_scheme_challenge challenge_pairs_params [OF challenge_params_ok]
    using challenge_text_quoted [OF assms(1)] challenge_text_quoted [OF assms(2)]
    by (simp add: challenge_params_def raw_value_def lower texts auth obj_assign_def obj_own_def)
  show "own_or_empty vs ''realm'' = realm" "own_or_empty vs ''nonce'' = nonce" "own_or_empty vs ''opaque'' = []"
    by (simp_all add: vs own_or_empty_def obj_own_def opt_str_def)
  have "to_upper ''MD5'' = ''MD5''" "to_upper ''SHA-256'' = ''SHA-256''" by code_simp+
  then show "digest_algorithm vs = (if sha then ''SHA-256'' else ''MD5'')"
    by (simp add: vs digest_algorithm_def obj_own_def)
  have "''auth'' \<in> set (map trim (split_on CHR '','' ''auth''))" "''auth'' \<notin> set (map trim (split_on CHR '','' []))" by code_simp+
  then show "offers_auth vs = protect"
    by (simp add: vs offers_auth_def own_or_empty_def obj_own_def opt_str_def)
qed

definition plain_text :: "string \<Rightarrow> bool" where
  "plain_text v \<longleftrightarrow> dquote \<notin> set v \<and> backslash \<notin> set v"

lemma escape_plain: "plain_text v \<Longrightarrow> escape_digest_value v = v"
  by (induction v) (auto simp: escape_digest_value_def plain_text_def)

text \<open>The credentials as a list of parameters.\<close>

definition credential_params :: "string \<Rightarrow> string obj \<Rightarrow> string \<Rightarrow> string \<Rightarrow> string \<Rightarrow> param list" where
  "credential_params u vs uri response cnonce =
     [(''username'', True, u), (''realm'', True, own_or_empty vs ''realm''), (''nonce'', True, own_or_empty vs ''nonce''),
      (''uri'', True, uri), (''response'', True, response), (''algorithm'', False, digest_algorithm vs)]
     @ (if own_or_empty vs ''opaque'' \<noteq> [] then [(''opaque'', True, own_or_empty vs ''opaque'')] else [])
     @ (if offers_auth vs then [(''qop'', False, ''auth''), (''nc'', False, nonce_count), (''cnonce'', True, cnonce)] else [])"

lemma credentials_rendered:
  assumes "plain_text response" and "plain_text cnonce"
  shows "join '', ''
        ([digest_quoted ''username'' u, digest_quoted ''realm'' (own_or_empty vs ''realm''),
          digest_quoted ''nonce'' (own_or_empty vs ''nonce''), digest_quoted ''uri'' uri,
          ''response='' @ [dquote] @ response @ [dquote], ''algorithm='' @ digest_algorithm vs]
         @ (if own_or_empty vs ''opaque'' \<noteq> [] then [digest_quoted ''opaque'' (own_or_empty vs ''opaque'')] else [])
         @ (if offers_auth vs
            then [''qop=auth'', ''nc='' @ nonce_count, ''cnonce='' @ [dquote] @ cnonce @ [dquote]] else []))
    = render_params (credential_params u vs uri response cnonce)"
  unfolding render_params_def
  by (rule arg_cong [where f = "join '', ''"])
    (simp add: credential_params_def render_param_def digest_quoted_def escape_plain [OF assms(1)] escape_plain [OF assms(2)])

lemma credential_params_ok:
  assumes "digest_algorithm vs = (if sha then ''SHA-256'' else ''MD5'')"
  shows "list_all param_ok (credential_params u vs uri response cnonce)"
proof -
  have "list_all challenge_char ''username''" "list_all challenge_char ''realm''" "list_all challenge_char ''nonce''"
    "list_all challenge_char ''uri''" "list_all challenge_char ''response''" "list_all challenge_char ''algorithm''"
    "list_all challenge_char ''opaque''" "list_all challenge_char ''qop''" "list_all challenge_char ''nc''"
    "list_all challenge_char ''cnonce''" by code_simp+
  then show ?thesis by (simp add: credential_params_def param_ok_def assms nonce_count_def)
qed

lemma client_header_accepted:
  assumes "backslash \<notin> set realm" and "backslash \<notin> set nonce" and "\<And>alg t. plain_text (hash alg t)" and "plain_text cnonce"
    and "xi_auth i = Some a" and "passwords (opt_str (xa_username a)) = Some (opt_str (xa_password a))"
  shows "server_accepts hash passwords realm nonce (to_upper (xi_method i)) (digest_uri h (xi_url i))
    (digest_authorization_header h hash cnonce i (server_challenge sha protect realm nonce))"
proof -
  let ?vs = "parse_digest_challenge (server_challenge sha protect realm nonce)"
  let ?u = "opt_str (xa_username a)" and ?pw = "opt_str (xa_password a)" and ?uri = "digest_uri h (xi_url i)"
  note pc = parsed_challenge [OF assms(1,2), of sha protect]
  let ?resp = "digest_response hash cnonce ?vs ?u ?pw (xi_method i) ?uri"
  have "plain_text ?resp" by (simp add: digest_response_def Let_def assms(3))
  then have head: "digest_authorization_header h hash cnonce i (server_challenge sha protect realm nonce)
      = ''Digest '' @ render_params (credential_params ?u ?vs ?uri ?resp cnonce)"
    using credentials_rendered [OF _ assms(4)] assms(5) by (simp add: digest_authorization_header_def Let_def)
  have ps: "auth_params (render_params (credential_params ?u ?vs ?uri ?resp cnonce))
      = Some (map (\<lambda>(n, q, v). (n, v)) (credential_params ?u ?vs ?uri ?resp cnonce))"
    by (rule auth_params_back [OF _ credential_params_ok [OF pc(3)]]) (simp add: credential_params_def)
  let ?ps = "map (\<lambda>(n, q, v). (n, v)) (credential_params ?u ?vs ?uri ?resp cnonce)"
  have e: "expected_response hash ?ps ?u ?pw realm nonce (to_upper (xi_method i)) ?uri = ?resp"
    using pc
    by (cases protect; cases sha)
      (simp_all add: expected_response_def digest_response_def credential_params_def Let_def opt_str_def)
  have m: "map_of ?ps ''realm'' = Some realm" "map_of ?ps ''nonce'' = Some nonce" "map_of ?ps ''uri'' = Some ?uri"
    "map_of ?ps ''username'' = Some ?u" "map_of ?ps ''response'' = Some ?resp"
    by (simp_all add: credential_params_def pc)
  have d: "starts_with ''Digest '' (''Digest '' @ x)" "drop 7 (''Digest '' @ x) = x" for x by simp_all
  show ?thesis
    unfolding server_accepts_def head d ps by (simp only: option.case m assms(6) e simp_thms starts_with_append)
qed

lemma digest_payload:
  assumes "xi_auth i = Some a" and "xa_type a = ''digest''"
  shows "filter (is_named ''authorization'') (ep_headers (fst (execute_payload h i rt))) = filter (is_named ''authorization'') (user_headers i)"
    and "ep_url (fst (execute_payload h i rt)) = xi_url i"
proof -
  have "ep_headers (fst (execute_payload h i rt)) = with_extras h i rt @ transport_headers i"
    and "ep_url (fst (execute_payload h i rt)) = xi_url i"
    using assms by (simp_all add: execute_payload_def apply_auth_if_needed_def with_extras_def user_headers_def case_prod_beta Let_def)
  then show "filter (is_named ''authorization'') (ep_headers (fst (execute_payload h i rt))) = filter (is_named ''authorization'') (user_headers i)"
    and "ep_url (fst (execute_payload h i rt)) = xi_url i"
    using extras_kept(3) [OF extras_shape [of h i rt], of "user_headers i"] transport_names [of "''authorization''" i]
    by (simp_all add: with_extras_def)
qed

lemma user_headers_without:
  "filter (is_named ''authorization'') (user_headers (i\<lparr>xi_headers := without_authorization hs\<rparr>)) = []"
  "filter (is_named ''authorization'') (user_headers (i\<lparr>xi_headers := without_authorization hs @ [kv_on ''Authorization'' v]\<rparr>))
    = [kv_on ''Authorization'' v]"
  by (auto simp: user_headers_def without_authorization_def is_named_def kv_on_def filter_empty_conv)

text \<open>
  C16: Answering a digest challenge. Whatever the user's name and password are, when the first answer is a
  challenge for a realm and a nonce without backslashes, with MD5 or SHA-256 and with or without the
  protection \<open>auth\<close>, the request is made a second time, to the same address, with exactly one
  \<open>Authorization\<close> header, and a server that reads that header as quoted parameters and computes the response
  from the user's password accepts it. The first request carries no \<open>Authorization\<close> header.
\<close>

theorem digest_login_accepted:
  assumes "xi_auth i = Some a" and "xa_type a = ''digest''"
    and "passwords (opt_str (xa_username a)) = Some (opt_str (xa_password a))"
    and "\<And>alg t. plain_text (hash alg t)" and "plain_text cnonce" and "backslash \<notin> set realm" and "backslash \<notin> set nonce"
    and "call 0 (fst (execute_payload h (i\<lparr>xi_headers := without_authorization (xi_headers i)\<rparr>) rt)) = Inr first"
    and "digest_challenge_of first = Some (server_challenge sha protect realm nonce)"
  shows "\<exists>p1 p2 header. fst (fst (execute_digest h hash cnonce call i rt)) = [p1, p2]
    \<and> filter (is_named ''authorization'') (ep_headers p1) = []
    \<and> filter (is_named ''authorization'') (ep_headers p2) = [header] \<and> ep_url p2 = xi_url i
    \<and> server_accepts hash passwords realm nonce (to_upper (xi_method i)) (digest_uri h (xi_url i)) (kv_value header)"
proof -
  let ?v = "digest_authorization_header h hash cnonce i (server_challenge sha protect realm nonce)"
  let ?i1 = "i\<lparr>xi_headers := without_authorization (xi_headers i)\<rparr>"
  let ?i2 = "i\<lparr>xi_headers := without_authorization (xi_headers i) @ [kv_on ''Authorization'' ?v]\<rparr>"
  let ?rt1 = "snd (execute_payload h ?i1 rt)"
  have calls: "fst (fst (execute_digest h hash cnonce call i rt))
      = [fst (execute_payload h ?i1 rt), fst (execute_payload h ?i2 ?rt1)]"
    using assms(8,9) by (simp add: execute_digest_def case_prod_beta Let_def)
  have "server_accepts hash passwords realm nonce (to_upper (xi_method i)) (digest_uri h (xi_url i)) (kv_value (kv_on ''Authorization'' ?v))"
    unfolding kv_on_def key_value.simps by (rule client_header_accepted [where a = a]) (fact assms)+
  moreover have "filter (is_named ''authorization'') (ep_headers (fst (execute_payload h ?i1 rt))) = []"
    using digest_payload(1) [of ?i1 a] assms(1,2) user_headers_without(1) by simp
  moreover have "filter (is_named ''authorization'') (ep_headers (fst (execute_payload h ?i2 ?rt1))) = [kv_on ''Authorization'' ?v]"
    using digest_payload(1) [of ?i2 a] assms(1,2) user_headers_without(2) by simp
  moreover have "ep_url (fst (execute_payload h ?i2 ?rt1)) = xi_url i"
    using digest_payload(2) [of ?i2 a] assms(1,2) by simp
  ultimately show ?thesis using calls by blast
qed

definition digest_input :: exec_input where
  "digest_input = sample_input\<lparr>xi_auth := Some \<lparr>xa_type = ''digest'', xa_username = Some (''u'' @ [dquote]), xa_password = Some ''p'',
     xa_token = None, xa_apiKeyName = None, xa_apiKeyValue = None, xa_apiKeyIn = None, xa_ntlmUsername = None,
     xa_ntlmPassword = None, xa_ntlmDomain = None\<rparr>\<rparr>"

definition sample_challenge :: exec_answer where
  "sample_challenge = \<lparr>xs_status = Some 401, xs_statusText = None,
     xs_headers = Some [kv_on ''WWW-Authenticate'' (server_challenge False True ''r'' ''n'')], xs_body = None, xs_timing = None,
     xs_tls = None, xs_redirects = None, xs_attempts = None, xs_requestSize = None, xs_responseSize = None, xs_error = None\<rparr>"

theorem digest_login_accepted_witness:
  "\<exists>p1 p2 header. fst (fst (execute_digest sample_node (\<lambda>alg t. ''0'') ''c'' (\<lambda>n p. Inr sample_challenge) digest_input sample_runtime)) = [p1, p2]
    \<and> filter (is_named ''authorization'') (ep_headers p2) = [header]
    \<and> server_accepts (\<lambda>alg t. ''0'') (\<lambda>u. if u = ''u'' @ [dquote] then Some ''p'' else None) ''r'' ''n'' (to_upper ''POST'')
        (digest_uri sample_node ''https://a.b/c'') (kv_value header)"
proof -
  let ?pw = "\<lambda>u. if u = ''u'' @ [dquote] then Some ''p'' else None"
  obtain a where a: "xi_auth digest_input = Some a" "xa_type a = ''digest''" "?pw (opt_str (xa_username a)) = Some (opt_str (xa_password a))"
    by (simp add: digest_input_def opt_str_def)
  have ch: "digest_challenge_of sample_challenge = Some (server_challenge False True ''r'' ''n'')"
  proof -
    have "to_lower ''WWW-Authenticate'' = ''www-authenticate''" "to_lower ''Digest'' = ''digest''" by code_simp+
    then show ?thesis by (simp add: digest_challenge_of_def sample_challenge_def kv_on_def server_challenge_def to_lower_def)
  qed
  have i: "xi_url digest_input = ''https://a.b/c''" "xi_method digest_input = ''POST''"
    by (simp_all add: digest_input_def sample_input_def)
  have "plain_text ''0''" "plain_text ''c''" by (simp_all add: plain_text_def)
  with digest_login_accepted [where passwords = ?pw and hash = "\<lambda>alg t. ''0''" and call = "\<lambda>n p. Inr sample_challenge" and h = sample_node
      and rt = sample_runtime and realm = "''r''" and nonce = "''n''" and cnonce = "''c''", OF a(1,2,3) _ _ _ _ refl ch]
  show ?thesis unfolding i by simp blast
qed

section \<open>The guard\<close>

lemma payload_url:
  assumes "ho_url h (xi_url i) = Some u"
  shows "ep_url (fst (execute_payload h i rt)) = xi_url i
    \<or> (\<exists>k v. ep_url (fst (execute_payload h i rt)) = ho_url_append h (xi_url i) [(k, v)])"
proof -
  have "snd (apply_auth_if_needed h i hs) = xi_url i \<or> (\<exists>k v. snd (apply_auth_if_needed h i hs) = ho_url_append h (xi_url i) [(k, v)])" for hs
    using assms by (auto simp: apply_auth_if_needed_def credentials_def api_key_url_def split: option.split)
  then show ?thesis by (simp add: execute_payload_def case_prod_beta Let_def)
qed

lemma digest_calls_url:
  assumes "p \<in> set (fst (fst (execute_digest h hash cnonce call i rt)))"
  shows "\<exists>hs rt'. p = fst (execute_payload h (i\<lparr>xi_headers := hs\<rparr>) rt')"
  using assms by (auto simp: execute_digest_def case_prod_beta Let_def split: sum.splits option.splits)

lemma handler_calls:
  assumes "p \<in> set (fst (fst (execute_handler h g lookup decode hash cnonce call i rt)))
    \<or> p \<in> set (fst (fst (stream_handler h g lookup decode scall i rt)))"
  shows "ssrf_check (host.truncate h) g lookup (xi_url i) = None \<and> (\<exists>hs rt'. p = fst (execute_payload h (i\<lparr>xi_headers := hs\<rparr>) rt'))"
proof -
  have self: "i = i\<lparr>xi_headers := xi_headers i\<rparr>" by simp
  have "ssrf_check (host.truncate h) g lookup (xi_url i) = None"
    using assms by (auto simp: execute_handler_def stream_handler_def split: option.splits)
  with assms have "p \<in> set (fst (fst (execute_digest h hash cnonce call i rt))) \<or> p = fst (execute_payload h i rt)"
    by (auto simp: execute_handler_def stream_handler_def case_prod_beta Let_def split: if_splits)
  with \<open>ssrf_check (host.truncate h) g lookup (xi_url i) = None\<close> show ?thesis
    using digest_calls_url self by metis
qed

text \<open>
  C15: With the guard on, the executor is called, by the handler of single requests, digest authentication
  included, and by the one of streams, only for a URL that the guard lets pass: it parses, its scheme is HTTP
  or WebSocket, and no IPv4 address in a private range (127/8, 10/8, 172.16/12, 192.168/16, 169.254/16,
  100.64/10, 0/8) passes, neither written in the URL nor as the address its name resolves to. What the executor
  is called with is that URL, at most with an API key added to its query.
\<close>

theorem executor_only_after_guard:
  assumes "p \<in> set (fst (fst (execute_handler h True lookup decode hash cnonce call i rt)))
    \<or> p \<in> set (fst (fst (stream_handler h True lookup decode scall i rt)))"
  shows "\<exists>u. ho_url h (xi_url i) = Some u \<and> up_protocol u \<in> {''ws:'', ''wss:'', ''http:'', ''https:''}
    \<and> (\<forall>a b c d. a < 256 \<longrightarrow> b < 256 \<longrightarrow> c < 256 \<longrightarrow> d < 256 \<longrightarrow> private4 (addr4 a b c d) \<longrightarrow>
         strip_brackets (up_hostname u) \<noteq> dotted a b c d
         \<and> lookup (strip_brackets (up_hostname u)) \<noteq> Some (dotted a b c d))
    \<and> (ep_url p = xi_url i \<or> (\<exists>k v. ep_url p = ho_url_append h (xi_url i) [(k, v)]))"
proof -
  from handler_calls [OF assms] obtain hs rt' where g: "ssrf_check (host.truncate h) True lookup (xi_url i) = None"
    and p: "p = fst (execute_payload h (i\<lparr>xi_headers := hs\<rparr>) rt')" by blast
  from guard_passes [OF g] obtain u where u: "ho_url (host.truncate h) (xi_url i) = Some u"
    "up_protocol u \<in> {''ws:'', ''wss:'', ''http:'', ''https:''}"
    "\<forall>a b c d. a < 256 \<longrightarrow> b < 256 \<longrightarrow> c < 256 \<longrightarrow> d < 256 \<longrightarrow> private4 (addr4 a b c d) \<longrightarrow>
         strip_brackets (up_hostname u) \<noteq> dotted a b c d
         \<and> lookup (strip_brackets (up_hostname u)) \<noteq> Some (dotted a b c d)" by blast
  then have "ho_url h (xi_url (i\<lparr>xi_headers := hs\<rparr>)) = Some u" by (simp add: host.defs)
  with payload_url [OF this, of rt'] p u show ?thesis by auto
qed

theorem executor_only_after_guard_witness:
  "\<exists>u. ho_url sample_node ''https://a.b/c'' = Some u \<and> strip_brackets (up_hostname u) \<noteq> dotted 10 0 0 1"
proof -
  let ?p = "fst (execute_payload sample_node sample_input sample_runtime)"
  have t: "host.truncate sample_node = sample_host" by (simp add: sample_node_def host.defs)
  have g: "ssrf_check sample_host True (\<lambda>n. None) ''https://a.b/c'' = None" by code_simp
  have u: "xi_url sample_input = ''https://a.b/c''" "\<not> is_digest sample_input" by (simp_all add: sample_input_def is_digest_def)
  have "?p \<in> set (fst (fst (execute_handler sample_node True (\<lambda>n. None) (\<lambda>b. []) (\<lambda>alg t. []) []
      (\<lambda>n p. Inr sample_challenge) sample_input sample_runtime)))"
    by (simp add: execute_handler_def t u g case_prod_beta Let_def)
  from executor_only_after_guard [OF disjI1 [OF this]] obtain v where v: "ho_url sample_node ''https://a.b/c'' = Some v"
    "\<And>a b c d. a < 256 \<Longrightarrow> b < 256 \<Longrightarrow> c < 256 \<Longrightarrow> d < 256 \<Longrightarrow> private4 (addr4 a b c d) \<Longrightarrow>
         strip_brackets (up_hostname v) \<noteq> dotted a b c d" unfolding u by blast
  have "private4 (addr4 10 0 0 1)" by (simp add: private4_cases)
  with v show ?thesis by auto
qed

text \<open>
  A stream with digest credentials is requested without any: the handler of streams does not answer challenges.
\<close>

lemma stream_without_credentials:
  assumes "xi_auth i = Some a" and "xa_type a = ''digest''" and "filter (is_named ''authorization'') (user_headers i) = []"
    and "p \<in> set (fst (fst (stream_handler h g lookup decode scall i rt)))"
  shows "length (fst (fst (stream_handler h g lookup decode scall i rt))) = 1 \<and> filter (is_named ''authorization'') (ep_headers p) = []"
proof -
  have "fst (fst (stream_handler h g lookup decode scall i rt)) = [fst (execute_payload h i rt)]"
    using assms(4) by (auto simp: stream_handler_def case_prod_beta Let_def split: option.splits)
  with assms(4) digest_payload(1) [OF assms(1,2)] assms(3) show ?thesis by simp
qed

end
