(* ===== verification/Invoke_Yaml.thy ===== *)
theory Invoke_Yaml
  imports Request_Model Js_Runtime
begin

text \<open>
  packages/core/src/import-export/invoke-yaml.ts, shared.ts and the slugs of lib/format.ts: a collection written
  as a directory of YAML documents in a zip archive, and read back. The archive is the list of its files, a path
  with the document written there; the YAML text and the archive format belong to js-yaml and JSZip, which are not
  part of the repository. A document has the fields of its declared type, each of them optional where the reader
  allows for its absence; null and absent are one.
\<close>

section \<open>Names of files\<close>

definition slug_char :: "char \<Rightarrow> bool" where
  "slug_char c \<longleftrightarrow> is_lower_ascii c \<or> is_digit c"

text \<open>\<open>replace(/[^a-z0-9]+/g, "-")\<close>.\<close>

fun dashed :: "bool \<Rightarrow> string \<Rightarrow> string" where
  "dashed in_run [] = []"
| "dashed in_run (c # s) =
     (if slug_char c then c # dashed False s
      else (if in_run then [] else ''-'') @ dashed True s)"

text \<open>\<open>replace(/(^-|-$)/g, "")\<close>: one dash at either end.\<close>

definition strip_dash :: "string \<Rightarrow> string" where
  "strip_dash s =
     (let t = (if starts_with ''-'' s then tl s else s) in if t \<noteq> [] \<and> last t = CHR ''-'' then butlast t else t)"

definition slug :: "string \<Rightarrow> string" where
  "slug v = (let s = strip_dash (dashed False (to_lower v)) in if s = [] then ''request'' else s)"

text \<open>
  \<open>uniqueSlug\<close>: the first candidate that is not used. Among as many candidates as there are used names, and
  one more, there is one.
\<close>

definition slug_candidates :: "string \<Rightarrow> nat \<Rightarrow> string list" where
  "slug_candidates base n = base # map (\<lambda>i. base @ ''-'' @ nat_to_string i) [2..<n + 2]"

definition unique_slug :: "string \<Rightarrow> string list \<Rightarrow> string \<times> string list" where
  "unique_slug name used =
     (let c = the (find (\<lambda>c. c \<notin> set used) (slug_candidates (slug name) (length used))) in (c, used @ [c]))"

section \<open>Documents\<close>

text \<open>Rows as a mapping, or as the list that older documents have.\<close>

datatype yaml_rows = As_record "(string \<times> json) list" | As_list "key_value list"

record graphql_part =
  yq_query :: "string option"
  yq_variables :: "string option"
  yq_operationName :: "string option"

record grpc_part =
  yp_address :: "string option"
  yp_service :: "string option"
  yp_method :: "string option"
  yp_metadata :: "yaml_rows option"
  yp_body :: "string option"
  yp_tls :: "bool option"
  yp_timeoutMs :: "int option"
  yp_compression :: "grpc_compression option"

record body_part =
  yb_type :: "string option"
  yb_content :: "string option"

text \<open>A request kept whole under the key \<open>request\<close>, as older exports have it.\<close>

datatype wrapped_request =
    Wrapped_saved saved_request "protocol option"
  | Wrapped_draft request_config "string option" "string option"

record request_document =
  yd_id :: "string option"
  yd_name :: "string option"
  yd_protocol :: "protocol option"
  yd_folderId :: "string option"
  yd_method :: "string option"
  yd_url :: "string option"
  yd_params :: "yaml_rows option"
  yd_headers :: "yaml_rows option"
  yd_auth :: "auth_config option"
  yd_body :: "body_part option"
  yd_graphql :: "graphql_part option"
  yd_grpc :: "grpc_part option"
  yd_variables :: "yaml_rows option"
  yd_timeoutMs :: "int option"
  yd_request :: "wrapped_request option"

record folder_document =
  yf_id :: "string option"
  yf_name :: "string option"
  yf_parentFolderId :: "string option"
  yf_description :: "string option"
  yf_variables :: "yaml_rows option"
  yf_sortOrder :: "int option"

record collection_part =
  yc_name :: "string option"
  yc_description :: "string option"
  yc_variables :: "yaml_rows option"

record collection_document = collection_part +
  yc_collection :: "collection_part option"

datatype yaml_document =
    Collection_doc collection_document
  | Folder_doc folder_document
  | Request_doc request_document
  | Other_doc

section \<open>Export\<close>

text \<open>
  The properties of an object are listed with the keys that are array indices first, in ascending order, and the
  others in the order of their creation.
\<close>

definition is_index_key :: "string \<Rightarrow> bool" where
  "is_index_key k \<longleftrightarrow>
     list_all is_digit k \<and> k = nat_to_string (digits_value k) \<and> digits_value k < 4294967295"

definition property_order :: "'v obj \<Rightarrow> 'v obj" where
  "property_order ms =
     sort_key (\<lambda>(k, v). digits_value k) (filter (\<lambda>(k, v). is_index_key k) ms) @ filter (\<lambda>(k, v). \<not> is_index_key k) ms"

definition key_values_to_record :: "key_value list \<Rightarrow> yaml_rows" where
  "key_values_to_record items =
     As_record (map (\<lambda>(k, v). (k, JStr v))
       (property_order (obj_from_entries (map (\<lambda>r. (trim (kv_key r), kv_value r)) (filter kv_active items)))))"

definition body_mode_text :: "body_mode \<Rightarrow> string" where
  "body_mode_text m = (case m of BM_none \<Rightarrow> ''none'' | BM_json \<Rightarrow> ''json'' | BM_form_data \<Rightarrow> ''form-data''
     | BM_urlencoded \<Rightarrow> ''urlencoded'' | BM_raw \<Rightarrow> ''raw'' | BM_file \<Rightarrow> ''file'' | BM_graphql_multipart \<Rightarrow> ''graphql-multipart'')"

definition body_mode_to_yaml :: "body_mode \<Rightarrow> string" where
  "body_mode_to_yaml m =
     (if m = BM_raw then ''text'' else if m = BM_urlencoded then ''form-urlencoded''
      else if m = BM_file then ''file'' else body_mode_text m)"

definition blank_document :: request_document where
  "blank_document = \<lparr>yd_id = None, yd_name = None, yd_protocol = None, yd_folderId = None, yd_method = None, yd_url = None,
     yd_params = None, yd_headers = None, yd_auth = None, yd_body = None, yd_graphql = None, yd_grpc = None,
     yd_variables = None, yd_timeoutMs = None, yd_request = None\<rparr>"

definition graphql_document :: "saved_request \<Rightarrow> graphql_request \<Rightarrow> request_document" where
  "graphql_document saved r = blank_document\<lparr>yd_id := Some (sr_id saved), yd_name := Some (sr_name saved),
     yd_protocol := Some P_graphql, yd_folderId := sr_folderId saved, yd_url := Some (gq_url r),
     yd_headers := Some (key_values_to_record (gq_headers r)), yd_auth := Some (gq_auth r),
     yd_graphql := Some \<lparr>yq_query = Some (gq_query r), yq_variables = Some (gq_variables r), yq_operationName = gq_operationName r\<rparr>,
     yd_timeoutMs := Some (gq_timeoutMs r)\<rparr>"

definition grpc_document :: "saved_request \<Rightarrow> grpc_request \<Rightarrow> request_document" where
  "grpc_document saved r = blank_document\<lparr>yd_id := Some (sr_id saved), yd_name := Some (sr_name saved),
     yd_protocol := Some P_grpc, yd_folderId := sr_folderId saved, yd_url := Some (rg_address r), yd_auth := rg_auth r,
     yd_grpc := Some \<lparr>yp_address = Some (rg_address r), yp_service = Some (rg_service r), yp_method = Some (rg_method r),
       yp_metadata = Some (key_values_to_record (rg_metadata r)), yp_body = Some (rg_body r), yp_tls = Some (rg_tls r),
       yp_timeoutMs = Some (rg_timeoutMs r), yp_compression = rg_compression r\<rparr>,
     yd_timeoutMs := Some (rg_timeoutMs r)\<rparr>"

definition rest_document :: "saved_request \<Rightarrow> request_config \<Rightarrow> request_document" where
  "rest_document saved r = blank_document\<lparr>yd_id := Some (sr_id saved), yd_name := Some (sr_name saved),
     yd_protocol := Some P_rest, yd_folderId := sr_folderId saved, yd_method := Some (rq_method r), yd_url := Some (rq_url r),
     yd_params := Some (key_values_to_record (rq_params r)), yd_headers := Some (key_values_to_record (rq_headers r)),
     yd_auth := Some (rq_auth r),
     yd_body := Some \<lparr>yb_type = Some (body_mode_to_yaml (rq_bodyMode r)), yb_content = (if rq_body r = [] then None else Some (rq_body r))\<rparr>,
     yd_variables := Some (key_values_to_record (opt_rows (rq_variables r))), yd_timeoutMs := Some (rq_timeoutMs r)\<rparr>"

text \<open>A WebSocket request goes through the branch of plain requests; the fields it does not have are undefined.\<close>

definition websocket_as_rest_document :: "saved_request \<Rightarrow> websocket_request \<Rightarrow> request_document" where
  "websocket_as_rest_document saved r = blank_document\<lparr>yd_id := Some (sr_id saved), yd_name := Some (sr_name saved),
     yd_protocol := Some P_rest, yd_folderId := sr_folderId saved, yd_url := Some (wq_url r),
     yd_params := Some (key_values_to_record []), yd_headers := Some (key_values_to_record (wq_headers r)),
     yd_auth := Some (wq_auth r), yd_body := Some \<lparr>yb_type = None, yb_content = None\<rparr>,
     yd_variables := Some (key_values_to_record (opt_rows (wq_variables r))), yd_timeoutMs := wq_timeoutMs r\<rparr>"

definition flat_request_document :: "saved_request \<Rightarrow> request_document" where
  "flat_request_document saved =
     (case sr_request saved of
        GraphQLRequest r \<Rightarrow> graphql_document saved r
      | GrpcRequest r \<Rightarrow> grpc_document saved r
      | RestRequest r \<Rightarrow> rest_document saved r
      | WebSocketRequest r \<Rightarrow> websocket_as_rest_document saved r)"

definition folder_document_of :: "folder \<Rightarrow> folder_document" where
  "folder_document_of f = \<lparr>yf_id = Some (fo_id f), yf_name = Some (fo_name f), yf_parentFolderId = fo_parentFolderId f,
     yf_description = fo_description f, yf_variables = Some (key_values_to_record (opt_rows (fo_variables f))),
     yf_sortOrder = Some (fo_sortOrder f)\<rparr>"

definition collection_document_of :: "collection \<Rightarrow> collection_document" where
  "collection_document_of c = \<lparr>yc_name = Some (co_name c), yc_description = Some (opt_str (co_description c)),
     yc_variables = Some (key_values_to_record (opt_rows (co_variables c))), yc_collection = None\<rparr>"

text \<open>The folders above a folder, nearest first. A cycle of parents is never left.\<close>

definition folder_by_id :: "folder list \<Rightarrow> string option \<Rightarrow> folder option" where
  "folder_by_id fs pid = (if truthy pid then find (\<lambda>f. Some (fo_id f) = pid) (rev fs) else None)"

partial_function (option) folder_chain :: "folder list \<Rightarrow> string option \<Rightarrow> folder list option" where
  "folder_chain fs pid =
     (case folder_by_id fs pid of
        None \<Rightarrow> Some []
      | Some f \<Rightarrow> Option.bind (folder_chain fs (fo_parentFolderId f)) (\<lambda>up. Some (f # up)))"

definition folder_depth :: "folder list \<Rightarrow> folder \<Rightarrow> nat option" where
  "folder_depth fs f = map_option length (folder_chain fs (fo_parentFolderId f))"

text \<open>\<open>sortByOrderThenName\<close>, and with the depth before it \<open>sortFoldersForExport\<close>.\<close>

definition by_order_then_name :: "host \<Rightarrow> folder \<Rightarrow> folder \<Rightarrow> int" where
  "by_order_then_name h l r =
     (if fo_sortOrder l \<noteq> fo_sortOrder r then fo_sortOrder l - fo_sortOrder r else ho_locale_compare h (fo_name l) (fo_name r))"

definition sort_folders_for_export :: "host \<Rightarrow> folder list \<Rightarrow> folder list" where
  "sort_folders_for_export h fs =
     stable_sort (\<lambda>l r. let depth = (\<lambda>f. case folder_depth fs f of Some n \<Rightarrow> int n | None \<Rightarrow> 0) in
        (if depth l \<noteq> depth r then depth l - depth r else by_order_then_name h l r) \<le> 0) fs"

text \<open>The groups of folders with one parent, in the order in which the parents are met.\<close>

definition parent_key :: "folder \<Rightarrow> string" where
  "parent_key f = (case fo_parentFolderId f of Some p \<Rightarrow> p | None \<Rightarrow> ''root'')"

definition siblings :: "folder list \<Rightarrow> (string \<times> folder list) list" where
  "siblings fs = fold (\<lambda>f m. AList.update (parent_key f) ((case map_of m (parent_key f) of Some g \<Rightarrow> g | None \<Rightarrow> []) @ [f]) m) fs []"

definition group_slugs :: "host \<Rightarrow> folder list \<Rightarrow> (string \<times> string) list" where
  "group_slugs h g =
     fst (fold (\<lambda>f (m, used). let (c, used') = unique_slug (fo_name f) used in (m @ [(fo_id f, c)], used'))
       (stable_sort (\<lambda>l r. by_order_then_name h l r \<le> 0) g) ([], []))"

definition slug_by_id :: "host \<Rightarrow> folder list \<Rightarrow> (string \<times> string) list" where
  "slug_by_id h fs = fold (\<lambda>(k, v). AList.update k v) (concat (map (\<lambda>(k, g). group_slugs h g) (siblings fs))) []"

definition slug_of_folder :: "(string \<times> string) list \<Rightarrow> folder \<Rightarrow> string" where
  "slug_of_folder slugs f = (case map_of slugs (fo_id f) of Some s \<Rightarrow> s | None \<Rightarrow> slug (fo_name f))"

definition folder_export_path :: "folder list \<Rightarrow> (string \<times> string) list \<Rightarrow> folder \<Rightarrow> string option" where
  "folder_export_path fs slugs f =
     map_option (\<lambda>up. join ''/'' (map (slug_of_folder slugs) (rev up) @ [slug_of_folder slugs f])) (folder_chain fs (fo_parentFolderId f))"

text \<open>The paths of the folders, by identifier; nothing when the search for a parent does not end.\<close>

definition export_folder_paths :: "host \<Rightarrow> folder list \<Rightarrow> (string \<times> string) list option" where
  "export_folder_paths h fs =
     those (map (\<lambda>f. map_option (\<lambda>p. (fo_id f, p)) (folder_export_path fs (slug_by_id h fs) f)) fs)"

definition file_at :: "string \<Rightarrow> string \<Rightarrow> string" where
  "file_at path name = (if path = [] then name else path @ ''/'' @ name)"

definition unique_request_file_name :: "string \<Rightarrow> string \<Rightarrow> (string \<times> string list) list \<Rightarrow> string \<times> (string \<times> string list) list" where
  "unique_request_file_name name path by_path =
     (let used = (case map_of by_path path of Some u \<Rightarrow> u | None \<Rightarrow> []); (c, used') = unique_slug name used in
      (c @ ''.invoke.yaml'', AList.update path used' by_path))"

definition request_path :: "(string \<times> string) list \<Rightarrow> saved_request \<Rightarrow> string" where
  "request_path paths r =
     (if truthy (sr_folderId r) then (case map_of (rev paths) (the (sr_folderId r)) of Some p \<Rightarrow> p | None \<Rightarrow> []) else [])"

type_synonym archive = "(string \<times> yaml_document) list"

fun add_requests :: "(string \<times> string) list \<Rightarrow> saved_request list \<Rightarrow> (string \<times> string list) list \<Rightarrow> archive \<Rightarrow> archive" where
  "add_requests paths [] by_path arch = arch"
| "add_requests paths (r # rs) by_path arch =
     (let path = request_path paths r; (name, by_path') = unique_request_file_name (sr_name r) path by_path in
      add_requests paths rs by_path' (AList.update (file_at path name) (Request_doc (flat_request_document r)) arch))"

text \<open>
  \<open>exportCollectionZip\<close>: the files below the collection's directory. A file written to a path that is taken
  replaces what is there.
\<close>

definition export_collection_zip :: "host \<Rightarrow> collection \<Rightarrow> saved_request list \<Rightarrow> folder list \<Rightarrow> archive option" where
  "export_collection_zip h c requests folders =
     (let fs = filter (\<lambda>f. fo_collectionId f = co_id c) folders in
      map_option (\<lambda>paths.
        let arch = [(''collection.invoke.yaml'', Collection_doc (collection_document_of c))];
            arch = fold (\<lambda>f. AList.update (file_at (the (map_of (rev paths) (fo_id f))) ''folder.invoke.yaml'') (Folder_doc (folder_document_of f)))
                    (sort_folders_for_export h fs) arch in
        add_requests paths (filter (\<lambda>r. sr_collectionId r = co_id c) requests) [] arch)
      (export_folder_paths h fs))"

section \<open>Import\<close>

text \<open>
  \<open>recordToKeyValues\<close>: a list is taken as it is, the values of a mapping become texts. A mapping lists its
  members in the order of \<open>Object.entries\<close>.
\<close>

definition record_to_key_values :: "yaml_rows option \<Rightarrow> key_value list" where
  "record_to_key_values v =
     (case v of None \<Rightarrow> [] | Some (As_list rows) \<Rightarrow> rows
      | Some (As_record ms) \<Rightarrow> map (\<lambda>(k, raw). kv_on k (json_to_string raw)) ms)"

definition yaml_body_to_mode :: "string option \<Rightarrow> body_mode" where
  "yaml_body_to_mode m =
     (if m = Some ''text'' then BM_raw else if m = Some ''form-urlencoded'' then BM_urlencoded
      else if m = Some ''form-data'' then BM_form_data else if m = Some ''json'' then BM_json else BM_none)"

definition or_str :: "string option \<Rightarrow> string \<Rightarrow> string" where
  "or_str v d = (case v of Some s \<Rightarrow> s | None \<Rightarrow> d)"

record imported =
  im_collection :: collection
  im_folders :: "folder list"
  im_requests :: "saved_request list"

text \<open>The first pass over the folders draws their identifiers, the second one looks the parents up.\<close>

definition folder_source_id :: "nat \<Rightarrow> folder_document \<Rightarrow> string" where
  "folder_source_id index d = or_str (yf_id d) (''folder_'' @ nat_to_string index)"

definition source_parent :: "folder_document \<Rightarrow> string option" where
  "source_parent d = (if truthy (yf_parentFolderId d) then yf_parentFolderId d else None)"

definition folder_from_document :: "folder_document \<Rightarrow> nat \<Rightarrow> string \<Rightarrow> int \<Rightarrow> string \<Rightarrow> folder" where
  "folder_from_document d index cid now i =
     \<lparr>fo_id = i, fo_collectionId = cid, fo_parentFolderId = source_parent d,
      fo_name = or_str (yf_name d) ''Imported folder'', fo_description = yf_description d,
      fo_variables = Some (record_to_key_values (yf_variables d)),
      fo_sortOrder = (case yf_sortOrder d of Some n \<Rightarrow> n | None \<Rightarrow> now + int index), fo_createdAt = now, fo_updatedAt = now\<rparr>"

fun draw_folders :: "folder_document list \<Rightarrow> nat \<Rightarrow> string \<Rightarrow> int \<Rightarrow> runtime \<Rightarrow> (folder \<times> string) list \<times> runtime" where
  "draw_folders [] index cid now rt = ([], rt)"
| "draw_folders (d # ds) index cid now rt =
     (let (i, rt1) = draw_uuid rt; (rest, rt2) = draw_folders ds (index + 1) cid now rt1 in
      ((folder_from_document d index cid now i, folder_source_id index d) # rest, rt2))"

definition folders_from_documents ::
  "folder_document list \<Rightarrow> string \<Rightarrow> int \<Rightarrow> runtime \<Rightarrow> (folder list \<times> (string \<times> string) list) \<times> runtime" where
  "folders_from_documents ds cid now rt =
     (let (originals, rt1) = draw_folders ds 0 cid now rt;
          ids = fold (\<lambda>(f, src). AList.update src (fo_id f)) originals [] in
      ((map (\<lambda>(f, src). f\<lparr>fo_parentFolderId := Option.bind (fo_parentFolderId f) (map_of ids)\<rparr>) originals, ids), rt1))"

definition remap_folder_id :: "string option \<Rightarrow> (string \<times> string) list \<Rightarrow> string option" where
  "remap_folder_id fid ids =
     (case fid of None \<Rightarrow> None
      | Some k \<Rightarrow> if k = [] then None else Some (case map_of ids k of Some i \<Rightarrow> i | None \<Rightarrow> k))"

definition auth_or_none :: "auth_config option \<Rightarrow> auth_config" where
  "auth_or_none a = (case a of Some c \<Rightarrow> c | None \<Rightarrow> auth_none)"

definition timeout_or_default :: "int option \<Rightarrow> int" where
  "timeout_or_default t = (case t of Some ms \<Rightarrow> ms | None \<Rightarrow> 30000)"

definition graphql_from_document :: "request_document \<Rightarrow> graphql_request" where
  "graphql_from_document d =
     (let query = Option.bind (yd_graphql d) yq_query in
      \<lparr>gq_protocol = None, gq_url = opt_str (yd_url d), gq_headers = record_to_key_values (yd_headers d),
       gq_auth = auth_or_none (yd_auth d),
       gq_query = (if truthy query then the query else gq_query empty_graphql_request),
       gq_variables = or_str (Option.bind (yd_graphql d) yq_variables) ''{}'',
       gq_operationName = Some (opt_str (Option.bind (yd_graphql d) yq_operationName)),
       gq_timeoutMs = timeout_or_default (yd_timeoutMs d), gq_assertions = None, gq_extractionRules = None,
       gq_options = None, gq_scripts = None, gq_apq = None, gq_batchMode = None, gq_httpMethod = None, gq_contentType = None\<rparr>)"

definition grpc_from_document :: "request_document \<Rightarrow> grpc_request" where
  "grpc_from_document d =
     (let field = (\<lambda>get. Option.bind (yd_grpc d) get) in
      empty_grpc_request
        \<lparr>rg_address := opt_str (over (yd_url d) (field yp_address)),
         rg_service := opt_str (field yp_service), rg_method := opt_str (field yp_method),
         rg_metadata := record_to_key_values (Option.bind (yd_grpc d) yp_metadata),
         rg_body := or_str (field yp_body) ''{}'',
         rg_tls := (case Option.bind (yd_grpc d) yp_tls of Some b \<Rightarrow> b | None \<Rightarrow> True),
         rg_timeoutMs := timeout_or_default (over (yd_timeoutMs d) (Option.bind (yd_grpc d) yp_timeoutMs)),
         rg_auth := Some (auth_or_none (yd_auth d)),
         rg_compression := Option.bind (yd_grpc d) yp_compression\<rparr>)"

definition rest_from_document :: "request_document \<Rightarrow> request_config" where
  "rest_from_document d =
     to_request_config (empty_request
       \<lparr>rq_method := to_upper (or_str (yd_method d) ''GET''), rq_url := opt_str (yd_url d),
        rq_params := record_to_key_values (yd_params d), rq_headers := record_to_key_values (yd_headers d),
        rq_bodyMode := yaml_body_to_mode (Option.bind (yd_body d) yb_type),
        rq_body := opt_str (Option.bind (yd_body d) yb_content),
        rq_auth := auth_or_none (yd_auth d), rq_timeoutMs := timeout_or_default (yd_timeoutMs d),
        rq_variables := Some (record_to_key_values (yd_variables d))\<rparr>)"

definition fresh_saved :: "string \<Rightarrow> string \<Rightarrow> string option \<Rightarrow> int \<Rightarrow> int \<Rightarrow> string \<Rightarrow> protocol \<Rightarrow> protocol_request \<Rightarrow> saved_request" where
  "fresh_saved i cid fid sort_order now name p r =
     \<lparr>sr_id = i, sr_collectionId = cid, sr_folderId = fid, sr_name = name, sr_protocol = p, sr_request = r,
      sr_requestMode = None, sr_sortOrder = sort_order, sr_createdAt = now, sr_updatedAt = now\<rparr>"

text \<open>\<open>savedRequestFromWrappedDocument\<close>.\<close>

definition saved_from_wrapped ::
  "wrapped_request \<Rightarrow> string \<Rightarrow> int \<Rightarrow> (string \<times> string) list \<Rightarrow> runtime \<Rightarrow> saved_request \<times> runtime" where
  "saved_from_wrapped w cid sort_order ids rt =
     (let (now, rt1) = read_clock rt; (i, rt2) = draw_uuid rt1 in
      case w of
        Wrapped_saved s p \<Rightarrow>
          (s\<lparr>sr_id := i, sr_collectionId := cid, sr_folderId := remap_folder_id (sr_folderId s) ids,
             sr_protocol := (case p of Some v \<Rightarrow> v | None \<Rightarrow> P_rest), sr_sortOrder := sort_order,
             sr_createdAt := now, sr_updatedAt := now\<rparr>, rt2)
      | Wrapped_draft r name fid \<Rightarrow>
          (fresh_saved i cid (remap_folder_id fid ids) sort_order now (or_str name ''Imported request'') P_rest
             (RestRequest (to_request_config r)), rt2))"

text \<open>\<open>savedRequestFromDocument\<close>.\<close>

definition saved_from_document ::
  "request_document \<Rightarrow> string \<Rightarrow> int \<Rightarrow> (string \<times> string) list \<Rightarrow> runtime \<Rightarrow> saved_request \<times> runtime" where
  "saved_from_document d cid sort_order ids rt =
     (case yd_request d of
        Some w \<Rightarrow> saved_from_wrapped w cid sort_order ids rt
      | None \<Rightarrow>
          let (now, rt1) = read_clock rt; (i, rt2) = draw_uuid rt1; fid = remap_folder_id (yd_folderId d) ids in
          if yd_protocol d = Some P_graphql
          then (fresh_saved i cid fid sort_order now (or_str (yd_name d) ''Imported GraphQL request'') P_graphql
                  (GraphQLRequest (graphql_from_document d)), rt2)
          else if yd_protocol d = Some P_grpc
          then let r = grpc_from_document d in
               (fresh_saved i cid fid sort_order now (or_str (yd_name d) (rg_service r @ ''/'' @ rg_method r)) P_grpc
                  (GrpcRequest r), rt2)
          else let r = rest_from_document d in
               (fresh_saved i cid fid sort_order now (or_str (yd_name d) (rq_method r @ '' '' @ rq_url r))
                  (case yd_protocol d of Some p \<Rightarrow> p | None \<Rightarrow> P_rest) (RestRequest r), rt2))"

fun draw_requests ::
  "request_document list \<Rightarrow> string \<Rightarrow> int \<Rightarrow> (string \<times> string) list \<Rightarrow> runtime \<Rightarrow> saved_request list \<times> runtime" where
  "draw_requests [] cid sort_order ids rt = ([], rt)"
| "draw_requests (d # ds) cid sort_order ids rt =
     (let (r, rt1) = saved_from_document d cid sort_order ids rt; (rs, rt2) = draw_requests ds cid (sort_order + 1) ids rt1 in
      (r # rs, rt2))"

definition collection_docs :: "yaml_document list \<Rightarrow> collection_document list" where
  "collection_docs ds = List.map_filter (\<lambda>d. case d of Collection_doc c \<Rightarrow> Some c | _ \<Rightarrow> None) ds"

definition folder_docs :: "yaml_document list \<Rightarrow> folder_document list" where
  "folder_docs ds = List.map_filter (\<lambda>d. case d of Folder_doc c \<Rightarrow> Some c | _ \<Rightarrow> None) ds"

definition request_docs :: "yaml_document list \<Rightarrow> request_document list" where
  "request_docs ds = List.map_filter (\<lambda>d. case d of Request_doc c \<Rightarrow> Some c | _ \<Rightarrow> None) ds"

definition collection_from_document :: "collection_document option \<Rightarrow> string \<Rightarrow> int \<Rightarrow> collection" where
  "collection_from_document d i now =
     (let part = Option.bind d yc_collection in
      \<lparr>co_id = i, co_name = or_str (over (Option.bind part yc_name) (Option.bind d yc_name)) ''Imported collection'',
       co_description = over (Option.bind part yc_description) (Option.bind d yc_description),
       co_variables = Some (record_to_key_values (over (Option.bind part yc_variables) (Option.bind d yc_variables))),
       co_sortOrder = Some now, co_createdAt = now, co_updatedAt = now\<rparr>)"

definition imported_from_documents :: "yaml_document list \<Rightarrow> runtime \<Rightarrow> imported \<times> runtime" where
  "imported_from_documents ds rt =
     (let (now, rt1) = read_clock rt; (cid, rt2) = draw_uuid rt1;
          c = collection_from_document (case collection_docs ds of [] \<Rightarrow> None | d # _ \<Rightarrow> Some d) cid now;
          ((folders, ids), rt3) = folders_from_documents (folder_docs ds) cid now rt2;
          (requests, rt4) = draw_requests (request_docs ds) cid now ids rt3 in
      (\<lparr>im_collection = c, im_folders = folders, im_requests = requests\<rparr>, rt4))"

section \<open>Reading the files\<close>

definition is_yaml_name :: "string \<Rightarrow> bool" where
  "is_yaml_name n \<longleftrightarrow> ends_with ''.yaml'' n \<or> ends_with ''.yml'' n"

text \<open>What is read first to fail is the error; the library functions that read an archive and a text are parameters.\<close>

fun parse_all :: "('b \<Rightarrow> js_error + yaml_document) \<Rightarrow> 'b list \<Rightarrow> js_error + yaml_document list" where
  "parse_all parse [] = Inr []"
| "parse_all parse (b # bs) =
     (case parse b of Inl e \<Rightarrow> Inl e
      | Inr d \<Rightarrow> (case parse_all parse bs of Inl e \<Rightarrow> Inl e | Inr ds \<Rightarrow> Inr (d # ds)))"

definition import_documents_of ::
  "('b \<Rightarrow> js_error + yaml_document) \<Rightarrow> 'b list \<Rightarrow> runtime \<Rightarrow> js_error + (imported \<times> runtime)" where
  "import_documents_of parse contents rt =
     (case parse_all parse contents of Inl e \<Rightarrow> Inl e | Inr ds \<Rightarrow> Inr (imported_from_documents ds rt))"

text \<open>An entry of an archive: its name, whether it is a directory, its content.\<close>

definition import_invoke_zip ::
  "('b \<Rightarrow> js_error + (string \<times> bool \<times> 'b) list) \<Rightarrow> ('b \<Rightarrow> js_error + yaml_document) \<Rightarrow> 'b \<Rightarrow> runtime
   \<Rightarrow> js_error + (imported \<times> runtime)" where
  "import_invoke_zip load parse file rt =
     (case load file of Inl e \<Rightarrow> Inl e
      | Inr entries \<Rightarrow>
          import_documents_of parse (map (snd \<circ> snd) (filter (\<lambda>(name, dir, b). \<not> dir \<and> is_yaml_name name) entries)) rt)"

definition import_yaml_files ::
  "('b \<Rightarrow> js_error + (string \<times> bool \<times> 'b) list) \<Rightarrow> ('b \<Rightarrow> js_error + yaml_document) \<Rightarrow> (string \<times> 'b) list \<Rightarrow> runtime
   \<Rightarrow> js_error + (imported \<times> runtime)" where
  "import_yaml_files load parse files rt =
     (case find (\<lambda>(name, b). ends_with ''.zip'' name) files of
        Some (name, b) \<Rightarrow> import_invoke_zip load parse b rt
      | None \<Rightarrow> import_documents_of parse (map snd (filter (\<lambda>(name, b). is_yaml_name name) files)) rt)"

text \<open>The \<open>Effect\<close> wrappers: every failure is a \<open>ParseError\<close> of the format \<open>invoke-yaml\<close>.\<close>

record parse_error =
  pe_format :: string
  pe_message :: string

definition as_parse_error :: "string \<Rightarrow> js_error + 'a \<Rightarrow> parse_error + 'a" where
  "as_parse_error format r = map_sum (\<lambda>e. \<lparr>pe_format = format, pe_message = error_to_string e\<rparr>) id r"

definition import_invoke_zip_effect ::
  "('b \<Rightarrow> js_error + (string \<times> bool \<times> 'b) list) \<Rightarrow> ('b \<Rightarrow> js_error + yaml_document) \<Rightarrow> 'b \<Rightarrow> runtime
   \<Rightarrow> parse_error + (imported \<times> runtime)" where
  "import_invoke_zip_effect load parse file rt = as_parse_error ''invoke-yaml'' (import_invoke_zip load parse file rt)"

definition import_yaml_files_effect ::
  "('b \<Rightarrow> js_error + (string \<times> bool \<times> 'b) list) \<Rightarrow> ('b \<Rightarrow> js_error + yaml_document) \<Rightarrow> (string \<times> 'b) list \<Rightarrow> runtime
   \<Rightarrow> parse_error + (imported \<times> runtime)" where
  "import_yaml_files_effect load parse files rt = as_parse_error ''invoke-yaml'' (import_yaml_files load parse files rt)"

end
