(* ===== verification/Import_Json.thy ===== *)
theory Import_Json
  imports Invoke_Yaml
begin

text \<open>
  What the importers of packages/core/src/import-export share: reading a parsed JSON document whose shape nobody
  has checked, and the rows, requests and folders they build from it. A field that is copied from the document
  keeps whatever value it has there, so it is a JSON value here and not a text; a field the code computes has its
  type. Reading a property of null or of nothing, and calling a method a value does not have, raise a
  \<open>TypeError\<close>; its wording belongs to the engine, and the place stands for it.
\<close>

section \<open>Reading values\<close>

definition nullish :: "jsval \<Rightarrow> bool" where
  "nullish v \<longleftrightarrow> v = None \<or> v = Some JNull"

text \<open>\<open>v ?? d\<close>, on values and on the way to one.\<close>

definition coalesce :: "jsval \<Rightarrow> json \<Rightarrow> json" where
  "coalesce v d = (if nullish v then d else the v)"

definition either :: "jsval \<Rightarrow> jsval \<Rightarrow> jsval" where
  "either v w = (if nullish v then w else v)"

text \<open>\<open>v.k\<close>, and \<open>v?.k\<close>. Only objects have the properties that are read here.\<close>

definition js_get :: "string \<Rightarrow> jsval \<Rightarrow> ('s, jsval) sx" where
  "js_get k v = (if nullish v then sx_throw (type_error k) else sx_ret (json_field (the v) k))"

definition js_opt :: "string \<Rightarrow> jsval \<Rightarrow> jsval" where
  "js_opt k v = (if nullish v then None else json_field (the v) k)"

text \<open>\<open>(v ?? []).map\<close> and \<open>for (const x of v ?? [])\<close>: a text has no \<open>map\<close>, but it can be iterated.\<close>

definition js_array :: "string \<Rightarrow> jsval \<Rightarrow> ('s, json list) sx" where
  "js_array place v =
     (if nullish v then sx_ret []
      else case the v of JArr vs \<Rightarrow> sx_ret vs | _ \<Rightarrow> sx_throw (type_error place))"

definition js_iterate :: "string \<Rightarrow> jsval \<Rightarrow> ('s, json list) sx" where
  "js_iterate place v =
     (if nullish v then sx_ret []
      else case the v of JArr vs \<Rightarrow> sx_ret vs | JStr s \<Rightarrow> sx_ret (map (\<lambda>c. JStr [c]) s) | _ \<Rightarrow> sx_throw (type_error place))"

definition is_array :: "jsval \<Rightarrow> bool" where
  "is_array v = (case v of Some (JArr vs) \<Rightarrow> True | _ \<Rightarrow> False)"

text \<open>A method of texts, called on any value.\<close>

definition js_text :: "string \<Rightarrow> json \<Rightarrow> ('s, string) sx" where
  "js_text place v = (case v of JStr s \<Rightarrow> sx_ret s | _ \<Rightarrow> sx_throw (type_error place))"

definition text_or_empty :: "jsval \<Rightarrow> json" where
  "text_or_empty v = coalesce v (JStr [])"

definition is_text :: "jsval \<Rightarrow> string \<Rightarrow> bool" where
  "is_text v s \<longleftrightarrow> v = Some (JStr s)"

definition not_false :: "jsval \<Rightarrow> bool" where
  "not_false v \<longleftrightarrow> v \<noteq> Some (JBool False)"

section \<open>What is built\<close>

record loose_row =
  lr_key :: jsval
  lr_value :: jsval
  lr_enabled :: bool
  lr_sensitive :: "bool option"

datatype loose_auth = La_none | La_bearer json | La_basic json json | La_api_key json json api_key_in

text \<open>The fields of a request that are set over those of \<open>emptyRequest\<close> and \<open>emptyGrpcRequest\<close>.\<close>

record loose_request =
  lq_method :: string
  lq_url :: json
  lq_params :: "loose_row list"
  lq_headers :: "loose_row list"
  lq_bodyMode :: body_mode
  lq_body :: json
  lq_auth :: loose_auth

record loose_grpc =
  lg_address :: string
  lg_service :: json
  lg_method :: json
  lg_metadata :: "loose_row list"
  lg_body :: string
  lg_tls :: bool
  lg_auth :: loose_auth

datatype loose_protocol = Loose_rest loose_request | Loose_grpc loose_grpc

record loose_saved =
  ls_id :: string
  ls_collectionId :: string
  ls_folderId :: "string option"
  ls_name :: json
  ls_request :: loose_protocol
  ls_sortOrder :: int
  ls_createdAt :: int
  ls_updatedAt :: int

record loose_folder =
  lf_id :: string
  lf_collectionId :: string
  lf_parentFolderId :: "string option"
  lf_name :: json
  lf_variables :: "loose_row list"
  lf_sortOrder :: int
  lf_createdAt :: int
  lf_updatedAt :: int

record loose_collection =
  lc_id :: string
  lc_name :: json
  lc_variables :: "loose_row list"
  lc_sortOrder :: int
  lc_createdAt :: int
  lc_updatedAt :: int

record loose_environment =
  le_id :: string
  le_name :: json
  le_variables :: "loose_row list"
  le_createdAt :: int
  le_updatedAt :: int

record loose_import =
  li_collection :: loose_collection
  li_folders :: "loose_folder list"
  li_requests :: "loose_saved list"
  li_environments :: "loose_environment list"

text \<open>The state of an import: the runtime and what has been pushed so far.\<close>

record import_state =
  is_rt :: runtime
  is_folders :: "loose_folder list"
  is_requests :: "loose_saved list"

definition import_start :: "runtime \<Rightarrow> import_state" where
  "import_start rt = \<lparr>is_rt = rt, is_folders = [], is_requests = []\<rparr>"

type_synonym 'a importing = "(import_state, 'a) sx"

definition new_id :: "string importing" where
  "new_id = (\<lambda>s. let (i, rt) = draw_uuid (is_rt s) in Inr (i, s\<lparr>is_rt := rt\<rparr>))"

definition now_ms :: "int importing" where
  "now_ms = (\<lambda>s. let (t, rt) = read_clock (is_rt s) in Inr (t, s\<lparr>is_rt := rt\<rparr>))"

definition push_folder :: "loose_folder \<Rightarrow> unit importing" where
  "push_folder f = (\<lambda>s. Inr ((), s\<lparr>is_folders := is_folders s @ [f]\<rparr>))"

definition push_request :: "loose_saved \<Rightarrow> unit importing" where
  "push_request r = (\<lambda>s. Inr ((), s\<lparr>is_requests := is_requests s @ [r]\<rparr>))"

definition folder_count :: "int importing" where
  "folder_count = (\<lambda>s. Inr (int (length (is_folders s)), s))"

definition request_count :: "int importing" where
  "request_count = (\<lambda>s. Inr (int (length (is_requests s)), s))"

definition new_folder :: "string \<Rightarrow> string \<Rightarrow> string option \<Rightarrow> json \<Rightarrow> loose_row list \<Rightarrow> int \<Rightarrow> int \<Rightarrow> loose_folder" where
  "new_folder i cid parent name vars sort_order now =
     \<lparr>lf_id = i, lf_collectionId = cid, lf_parentFolderId = parent, lf_name = name, lf_variables = vars,
      lf_sortOrder = sort_order, lf_createdAt = now, lf_updatedAt = now\<rparr>"

definition new_saved :: "string \<Rightarrow> string \<Rightarrow> string option \<Rightarrow> json \<Rightarrow> loose_protocol \<Rightarrow> int \<Rightarrow> int \<Rightarrow> loose_saved" where
  "new_saved i cid fid name r sort_order now =
     \<lparr>ls_id = i, ls_collectionId = cid, ls_folderId = fid, ls_name = name, ls_request = r,
      ls_sortOrder = sort_order, ls_createdAt = now, ls_updatedAt = now\<rparr>"

definition new_collection :: "string \<Rightarrow> json \<Rightarrow> loose_row list \<Rightarrow> int \<Rightarrow> loose_collection" where
  "new_collection i name vars now =
     \<lparr>lc_id = i, lc_name = name, lc_variables = vars, lc_sortOrder = now, lc_createdAt = now, lc_updatedAt = now\<rparr>"

text \<open>Rows as they are written into the text of a form body; a value that is undefined is left out.\<close>

definition row_json :: "json \<Rightarrow> json \<Rightarrow> bool \<Rightarrow> (string \<times> json) list \<Rightarrow> json" where
  "row_json k v enabled extra = JObj ([(''key'', k), (''value'', v), (''enabled'', JBool enabled)] @ extra)"

text \<open>\<open>recordToKeyValues\<close> on a value of any shape: an array is taken as it is, an element of it then is the row.\<close>

definition row_of_json :: "json \<Rightarrow> loose_row" where
  "row_of_json v = \<lparr>lr_key = json_field v ''key'', lr_value = json_field v ''value'',
     lr_enabled = not_false (json_field v ''enabled''), lr_sensitive = None\<rparr>"

definition loose_record_rows :: "json \<Rightarrow> loose_row list" where
  "loose_record_rows v =
     (case v of
        JArr vs \<Rightarrow> map row_of_json vs
      | JObj ms \<Rightarrow> map (\<lambda>(k, raw). \<lparr>lr_key = Some (JStr k), lr_value = Some (JStr (json_to_string raw)), lr_enabled = True, lr_sensitive = None\<rparr>) ms
      | JStr s \<Rightarrow> map (\<lambda>(i, c). \<lparr>lr_key = Some (JStr (nat_to_string i)), lr_value = Some (JStr [c]), lr_enabled = True, lr_sensitive = None\<rparr>) (enumerate 0 s)
      | _ \<Rightarrow> [])"

text \<open>The effect: a document that is refused, or an exception, is a \<open>ParseError\<close> of the format.\<close>

definition import_effect :: "string \<Rightarrow> string \<Rightarrow> bool \<Rightarrow> (import_state, loose_import) sx \<Rightarrow> runtime \<Rightarrow> parse_error + loose_import" where
  "import_effect format refusal accepted run rt =
     as_parse_error format (if accepted then map_sum id fst (run (import_start rt)) else Inl (plain_error refusal))"

definition is_object_or_array :: "json \<Rightarrow> bool" where
  "is_object_or_array v = (case v of JObj ms \<Rightarrow> True | JArr vs \<Rightarrow> True | _ \<Rightarrow> False)"

end
