(* ===== verification/Import_Postman.thy ===== *)
theory Import_Postman
  imports Import_Json
begin

text \<open>packages/core/src/import-export/postman.ts: the import of a Postman collection.\<close>

definition postman_var :: "json \<Rightarrow> ('s, loose_row) sx" where
  "postman_var v =
     sx_bind (js_get ''key'' (Some v)) (\<lambda>k.
     sx_ret \<lparr>lr_key = Some (text_or_empty k), lr_value = Some (text_or_empty (json_field v ''value'')),
       lr_enabled = not_false (json_field v ''enabled''), lr_sensitive = Some (is_text (json_field v ''type'') ''secret'')\<rparr>)"

definition postman_vars :: "jsval \<Rightarrow> ('s, loose_row list) sx" where
  "postman_vars vars = sx_bind (js_array ''map'' vars) (sx_mapM postman_var)"

section \<open>Bodies\<close>

definition form_row :: "json \<Rightarrow> ('s, json) sx" where
  "form_row f =
     sx_bind (js_get ''key'' (Some f)) (\<lambda>k.
     let is_file = is_text (json_field f ''type'') ''file'' in
     sx_ret (row_json (text_or_empty k) (if is_file then JStr [] else text_or_empty (json_field f ''value''))
       (json_field f ''disabled'' \<noteq> Some (JBool True))
       ((''type'', JStr (if is_file then ''file'' else ''text''))
         # (if is_file then [(''fileName'', text_or_empty (json_field f ''src''))] else []))))"

definition urlencoded_row :: "json \<Rightarrow> ('s, json) sx" where
  "urlencoded_row f =
     sx_bind (js_get ''key'' (Some f)) (\<lambda>k.
     sx_ret (row_json (text_or_empty k) (text_or_empty (json_field f ''value''))
       (json_field f ''disabled'' \<noteq> Some (JBool True)) [(''type'', JStr ''text'')]))"

definition graphql_variables :: "host \<Rightarrow> json \<Rightarrow> ('s, json) sx" where
  "graphql_variables h v =
     (case v of
        JStr s \<Rightarrow> (case json_parse s of Some j \<Rightarrow> sx_ret j | None \<Rightarrow> sx_throw (syntax_error h s))
      | _ \<Rightarrow> sx_ret v)"

definition postman_graphql :: "host \<Rightarrow> jsval \<Rightarrow> ('s, string) sx" where
  "postman_graphql h g =
     (let query = text_or_empty (js_opt ''query'' g); vars = text_or_empty (js_opt ''variables'' g) in
      if json_truthy (Some vars)
      then sx_bind (graphql_variables h vars) (\<lambda>v. sx_ret (json_pretty 2 0 (JObj [(''query'', query), (''variables'', v)])))
      else sx_ret (json_pretty 2 0 (JObj [(''query'', query)])))"

definition postman_body :: "host \<Rightarrow> jsval \<Rightarrow> ('s, body_mode \<times> json) sx" where
  "postman_body h raw =
     (if \<not> json_truthy raw then sx_ret (BM_none, JStr [])
      else let mode = json_field (the raw) ''mode''; field = json_field (the raw) in
      if is_text mode ''raw''
      then sx_ret (if is_text (js_opt ''language'' (js_opt ''raw'' (field ''options''))) ''json'' then BM_json else BM_raw,
             text_or_empty (field ''raw''))
      else if is_text mode ''formdata''
      then sx_bind (js_array ''map'' (field ''formdata'')) (\<lambda>fs. sx_bind (sx_mapM form_row fs) (\<lambda>rows.
             sx_ret (BM_form_data, JStr (json_stringify (JArr rows)))))
      else if is_text mode ''urlencoded''
      then sx_bind (js_array ''map'' (field ''urlencoded'')) (\<lambda>fs. sx_bind (sx_mapM urlencoded_row fs) (\<lambda>rows.
             sx_ret (BM_urlencoded, JStr (json_stringify (JArr rows)))))
      else if is_text mode ''graphql''
      then sx_bind (postman_graphql h (field ''graphql'')) (\<lambda>s. sx_ret (BM_json, JStr s))
      else sx_ret (BM_none, JStr []))"

section \<open>Credentials\<close>

text \<open>\<open>auth[auth.type]\<close>: what an object inherits has no \<open>map\<close> either.\<close>

definition auth_entry :: "json \<Rightarrow> ('s, string \<times> jsval) sx" where
  "auth_entry item = sx_bind (js_get ''key'' (Some item)) (\<lambda>k. sx_ret (js_to_string k, json_field item ''value''))"

definition auth_values :: "json \<Rightarrow> string \<Rightarrow> ('s, jsval obj) sx" where
  "auth_values auth kind =
     (if json_field auth kind = None \<and> kind \<in> set object_prototype_keys then sx_throw (type_error ''map'')
      else sx_bind (js_array ''map'' (json_field auth kind)) (\<lambda>items.
           sx_bind (sx_mapM auth_entry items) (\<lambda>kvs. sx_ret (obj_from_entries kvs))))"

definition auth_value :: "jsval obj \<Rightarrow> string \<Rightarrow> jsval" where
  "auth_value values k = Option.bind (obj_own values k) id"

definition postman_auth :: "jsval \<Rightarrow> ('s, loose_auth) sx" where
  "postman_auth auth =
     (let kind = js_opt ''type'' auth in
      if \<not> json_truthy kind then sx_ret La_none
      else sx_bind (auth_values (the auth) (js_to_string kind)) (\<lambda>values.
        let value = (\<lambda>k. text_or_empty (auth_value values k)) in
        sx_ret (if is_text kind ''bearer'' then La_bearer (value ''token'')
          else if is_text kind ''basic'' then La_basic (value ''username'') (value ''password'')
          else if is_text kind ''apikey''
          then La_api_key (value ''key'') (value ''value'') (if is_text (auth_value values ''in'') ''query'' then In_query else In_header)
          else La_none)))"

section \<open>Requests\<close>

definition query_row :: "json \<Rightarrow> ('s, loose_row) sx" where
  "query_row q =
     sx_bind (js_get ''key'' (Some q)) (\<lambda>k.
     sx_ret \<lparr>lr_key = Some (text_or_empty k), lr_value = Some (text_or_empty (json_field q ''value'')), lr_enabled = True, lr_sensitive = None\<rparr>)"

definition header_row :: "json \<Rightarrow> ('s, loose_row) sx" where
  "header_row hdr =
     sx_bind (js_get ''key'' (Some hdr)) (\<lambda>k.
     sx_ret \<lparr>lr_key = k, lr_value = json_field hdr ''value'', lr_enabled = \<not> json_truthy (json_field hdr ''disabled''), lr_sensitive = None\<rparr>)"

definition metadata_row :: "json \<Rightarrow> ('s, loose_row) sx" where
  "metadata_row hdr =
     sx_bind (js_get ''key'' (Some hdr)) (\<lambda>k.
     sx_ret \<lparr>lr_key = Some (text_or_empty (either k (json_field hdr ''name''))), lr_value = Some (text_or_empty (json_field hdr ''value'')),
       lr_enabled = \<not> json_truthy (json_field hdr ''disabled''), lr_sensitive = None\<rparr>)"

text \<open>\<open>raw.method?.split("/")\<close>: the parts of a text, nothing for no method, an exception for another value.\<close>

definition method_parts :: "jsval \<Rightarrow> ('s, string list option) sx" where
  "method_parts m =
     (if nullish m then sx_ret None
      else sx_bind (js_text ''split'' (the m)) (\<lambda>s. sx_ret (Some (split_on CHR ''/'' s))))"

definition strip_prefix :: "string \<Rightarrow> string \<Rightarrow> string" where
  "strip_prefix p s = (if starts_with p s then drop (length p) s else s)"

definition postman_grpc_item :: "json \<Rightarrow> string \<Rightarrow> string option \<Rightarrow> loose_saved importing" where
  "postman_grpc_item item cid fid =
     (let raw = the (either (json_field item ''request'') (Some item)); field = json_field raw;
          url = text_or_empty (either (js_opt ''grpc'' (field ''url'')) (either (js_opt ''raw'' (field ''url'')) (field ''url'')));
          body = coalesce (either (js_opt ''raw'' (field ''body'')) (either (js_opt ''text'' (field ''body'')) (field ''body''))) (JStr ''{}'') in
      sx_bind (if nullish (field ''service'')
               then sx_bind (method_parts (field ''method'')) (\<lambda>ps.
                      sx_ret (case ps of Some ws \<Rightarrow> JStr (join ''/'' (butlast ws)) | None \<Rightarrow> JStr []))
               else sx_ret (the (field ''service''))) (\<lambda>service.
      sx_bind (sx_bind (method_parts (field ''method'')) (\<lambda>ps.
                 sx_ret (case ps of Some ws \<Rightarrow> JStr (last ws) | None \<Rightarrow> text_or_empty (field ''methodName'')))) (\<lambda>meth.
      sx_bind (sx_bind (js_array ''map'' (either (field ''header'') (field ''metadata''))) (sx_mapM metadata_row)) (\<lambda>metadata.
      sx_bind (js_text ''includes'' url) (\<lambda>u.
      sx_bind (postman_auth (field ''auth'')) (\<lambda>auth.
      sx_bind now_ms (\<lambda>now.
      sx_bind new_id (\<lambda>i.
      sx_ret (new_saved i cid fid
        (coalesce (json_field item ''name'') (JStr (json_to_string service @ ''/'' @ json_to_string meth)))
        (Loose_grpc \<lparr>lg_address = strip_prefix ''grpcs://'' (strip_prefix ''grpc://'' u), lg_service = service, lg_method = meth,
           lg_metadata = metadata, lg_body = (case body of JStr s \<Rightarrow> s | _ \<Rightarrow> json_stringify body),
           lg_tls = (not_false (field ''tls'') \<and> \<not> str_includes ''plaintext'' u), lg_auth = auth\<rparr>)
        now now)))))))))"

definition postman_rest_item :: "host \<Rightarrow> json \<Rightarrow> json \<Rightarrow> string \<Rightarrow> string option \<Rightarrow> loose_saved importing" where
  "postman_rest_item h item raw cid fid =
     (let field = json_field raw;
          url = (case field ''url'' of Some (JStr s) \<Rightarrow> JStr s | u \<Rightarrow> text_or_empty (js_opt ''raw'' u)) in
      sx_bind (postman_body h (field ''body'')) (\<lambda>(mode, body).
      sx_bind (sx_bind (js_array ''map'' (js_opt ''query'' (field ''url''))) (sx_mapM query_row)) (\<lambda>params.
      sx_bind now_ms (\<lambda>now.
      sx_bind (js_text ''toUpperCase'' (coalesce (field ''method'') (JStr ''GET''))) (\<lambda>meth.
      sx_bind (sx_bind (js_array ''map'' (field ''header'')) (sx_mapM header_row)) (\<lambda>headers.
      sx_bind (postman_auth (field ''auth'')) (\<lambda>auth.
      sx_bind new_id (\<lambda>i.
      sx_ret (new_saved i cid fid
        (coalesce (json_field item ''name'') (JStr (js_to_string (field ''method'') @ '' '' @ json_to_string url)))
        (Loose_rest \<lparr>lq_method = to_upper meth, lq_url = url, lq_params = params, lq_headers = headers,
           lq_bodyMode = mode, lq_body = body, lq_auth = auth\<rparr>)
        now now)))))))))"

definition visit_request :: "host \<Rightarrow> string \<Rightarrow> json \<Rightarrow> string option \<Rightarrow> unit importing" where
  "visit_request h cid item fid =
     (let raw = json_field item ''request'' in
      if \<not> json_truthy raw then sx_ret ()
      else if is_text (json_field (the raw) ''type'') ''grpc''
        \<or> is_text (js_opt ''protocolVersion'' (json_field item ''protocolProfileBehavior'')) ''grpc''
      then sx_bind (postman_grpc_item item cid fid) push_request
      else sx_bind (postman_rest_item h item (the raw) cid fid) push_request)"

section \<open>Items\<close>

lemma json_field_size: "json_field v k = Some w \<Longrightarrow> size w < size v"
proof (cases v)
  case (JObj ms)
  assume "json_field v k = Some w"
  then have "(k, w) \<in> set ms" using JObj by (auto simp: json_field_def dest: map_of_SomeD)
  then have "size_prod (\<lambda>k. 0) size (k, w) \<le> size_list (size_prod (\<lambda>k. 0) size) ms"
    by (rule size_list_estimation') simp
  then show ?thesis using JObj by simp
qed (auto simp: json_field_def)

text \<open>The folder of an item that has items, before what is in it.\<close>

definition push_group :: "string \<Rightarrow> int \<Rightarrow> json \<Rightarrow> string option \<Rightarrow> string importing" where
  "push_group cid now item parent =
     sx_bind new_id (\<lambda>i.
     sx_bind (postman_vars (json_field item ''variable'')) (\<lambda>vars.
     sx_bind folder_count (\<lambda>n.
     sx_bind (push_folder (new_folder i cid parent (coalesce (json_field item ''name'') (JStr ''Imported folder'')) vars (now + n) now)) (\<lambda>_.
     sx_ret i))))"

text \<open>A text in the place of the items is iterated too, but none of its characters is a folder or a request.\<close>

function (sequential) visit :: "host \<Rightarrow> string \<Rightarrow> int \<Rightarrow> json list \<Rightarrow> string option \<Rightarrow> unit importing" where
  "visit h cid now [] parent = sx_ret ()"
| "visit h cid now (item # items) parent =
     sx_bind (js_get ''item'' (Some item)) (\<lambda>sub.
     sx_bind (if json_truthy sub
              then sx_bind (push_group cid now item parent) (\<lambda>i.
                   sx_bind (case json_field item ''item'' of
                              Some (JArr subs) \<Rightarrow> visit h cid now subs (Some i)
                            | Some (JStr s) \<Rightarrow> sx_ret ()
                            | _ \<Rightarrow> sx_throw (type_error ''iterator'')) (\<lambda>_.
                   sx_ret (Some i)))
              else sx_ret parent) (\<lambda>fid.
     sx_bind (visit_request h cid item fid) (\<lambda>_.
     visit h cid now items parent)))"
  by pat_completeness auto

termination
  by (relation "measure (\<lambda>(h, cid, now, items, parent). size_list size items)") (auto dest: json_field_size)

declare visit.simps [simp del]

definition import_postman :: "host \<Rightarrow> json \<Rightarrow> loose_import importing" where
  "import_postman h doc =
     sx_bind now_ms (\<lambda>now.
     sx_bind new_id (\<lambda>cid.
     sx_bind (postman_vars (js_opt ''variable'' (Some doc))) (\<lambda>vars.
     sx_bind (js_iterate ''iterator'' (js_opt ''item'' (Some doc))) (\<lambda>items.
     sx_bind (visit h cid now items None) (\<lambda>_ s.
     Inr (\<lparr>li_collection = new_collection cid (coalesce (js_opt ''name'' (js_opt ''info'' (Some doc))) (JStr ''Postman import'')) vars now,
       li_folders = is_folders s, li_requests = is_requests s, li_environments = []\<rparr>, s))))))"

definition import_postman_effect :: "host \<Rightarrow> json \<Rightarrow> runtime \<Rightarrow> parse_error + loose_import" where
  "import_postman_effect h doc =
     import_effect ''postman'' ''not a valid Postman collection: missing info object''
       (is_object_or_array doc \<and> json_field doc ''info'' \<noteq> None) (import_postman h doc)"

end
