(* ===== verification/Import_Tools.thy ===== *)
theory Import_Tools
  imports Import_Postman
begin

text \<open>packages/core/src/import-export/har.ts, hoppscotch.ts and insomnia.ts: the imports from other tools.\<close>

definition on_row :: "jsval \<Rightarrow> jsval \<Rightarrow> bool \<Rightarrow> loose_row" where
  "on_row k v enabled = \<lparr>lr_key = Some (text_or_empty k), lr_value = Some (text_or_empty v), lr_enabled = enabled, lr_sensitive = None\<rparr>"

section \<open>HAR\<close>

definition skip_headers :: "string list" where
  "skip_headers = [''host'', ''content-length'', ''transfer-encoding'', '':authority'', '':method'', '':path'', '':scheme'', '':status'']"

text \<open>The origin of a URL with a host; any other scheme has the opaque origin \<open>null\<close>.\<close>

definition url_origin :: "url_parts \<Rightarrow> string" where
  "url_origin u =
     (if up_protocol u \<in> {''http:'', ''https:'', ''ws:'', ''wss:'', ''ftp:''} then up_protocol u @ ''//'' @ up_host u else ''null'')"

definition before_query :: "string \<Rightarrow> string" where
  "before_query s = hd (split_on CHR ''?'' s)"

definition har_path_name :: "host \<Rightarrow> string \<Rightarrow> string" where
  "har_path_name h raw =
     (case ho_url h (if starts_with ''http'' raw then raw else ''http://invoke.local'' @ raw) of
        Some u \<Rightarrow> if up_pathname u = [] then ''/'' else up_pathname u
      | None \<Rightarrow> let p = before_query raw in if starts_with ''/'' p then p else ''/'' @ p)"

text \<open>\<open>new URLSearchParams(text).entries()\<close> is the parameter \<open>search\<close>.\<close>

definition har_query_params :: "(string \<Rightarrow> (string \<times> string) list) \<Rightarrow> string \<Rightarrow> (string \<times> string) list" where
  "har_query_params search raw =
     (case split_on CHR ''?'' raw of
        a # b # _ \<Rightarrow> let query = hd (split_on CHR ''#'' b) in if query = [] then [] else search query
      | _ \<Rightarrow> [])"

definition named_pair :: "string \<times> string \<Rightarrow> json" where
  "named_pair p = JObj [(''name'', JStr (fst p)), (''value'', JStr (snd p))]"

definition har_param_row :: "json \<Rightarrow> ('s, json) sx" where
  "har_param_row p = sx_bind (js_get ''name'' (Some p)) (\<lambda>n. sx_ret (row_json (text_or_empty n) (text_or_empty (json_field p ''value'')) True []))"

definition har_post_data :: "jsval \<Rightarrow> ('s, body_mode \<times> json) sx" where
  "har_post_data post =
     (if \<not> json_truthy post then sx_ret (BM_none, JStr [])
      else let field = json_field (the post); mime = to_lower (json_to_string (text_or_empty (field ''mimeType'')));
        content = text_or_empty (field ''text'') in
      sx_bind (sx_mapM har_param_row (case field ''params'' of Some (JArr ps) \<Rightarrow> ps | _ \<Rightarrow> [])) (\<lambda>rows.
      let form = (if rows \<noteq> [] then JStr (json_stringify (JArr rows)) else content) in
      sx_ret (if str_includes ''json'' mime then (BM_json, content)
        else if str_includes ''x-www-form-urlencoded'' mime then (BM_urlencoded, form)
        else if str_includes ''multipart/form-data'' mime then (BM_form_data, form)
        else (if json_truthy (Some content) then BM_raw else BM_none, content))))"

definition har_header :: "json \<Rightarrow> ('s, loose_row list) sx" where
  "har_header hdr =
     sx_bind (js_get ''name'' (Some hdr)) (\<lambda>n.
     let name = trim (json_to_string (text_or_empty n)) in
     sx_ret (if name \<noteq> [] \<and> to_lower name \<notin> set skip_headers then [on_row n (json_field hdr ''value'') True] else []))"

definition har_query :: "json \<Rightarrow> ('s, loose_row) sx" where
  "har_query q = sx_bind (js_get ''name'' (Some q)) (\<lambda>n. sx_ret (on_row n (json_field q ''value'') True))"

definition har_entry :: "host \<Rightarrow> (string \<Rightarrow> (string \<times> string) list) \<Rightarrow> string \<Rightarrow> int \<Rightarrow> nat \<times> json \<Rightarrow> loose_saved importing" where
  "har_entry h search cid now = (\<lambda>(i, entry).
     let req = coalesce (js_opt ''request'' (Some entry)) (JObj []); field = json_field req in
     sx_bind (js_text ''toUpperCase'' (coalesce (field ''method'') (JStr ''GET''))) (\<lambda>m.
     sx_bind (js_text ''url'' (text_or_empty (field ''url''))) (\<lambda>raw.
     sx_bind (sx_bind (js_array ''filter'' (field ''headers'')) (sx_mapM har_header)) (\<lambda>headers.
     let given = (case field ''queryString'' of Some (JArr ps) \<Rightarrow> ps | _ \<Rightarrow> []);
         found = (case ho_url h raw of Some u \<Rightarrow> up_query u | None \<Rightarrow> har_query_params search raw) in
     sx_bind (sx_mapM har_query (if given \<noteq> [] then given else map named_pair found)) (\<lambda>params.
     sx_bind (har_post_data (field ''postData'')) (\<lambda>(mode, content).
     sx_bind new_id (\<lambda>k.
     sx_ret (new_saved k cid None (JStr (to_upper m @ '' '' @ har_path_name h raw))
       (Loose_rest \<lparr>lq_method = to_upper m,
          lq_url = JStr (case ho_url h raw of Some u \<Rightarrow> url_origin u @ up_pathname u | None \<Rightarrow> before_query raw),
          lq_params = params, lq_headers = concat headers, lq_bodyMode = mode, lq_body = content, lq_auth = La_none\<rparr>)
       (now + int i) (now + int i)))))))))"

definition import_har :: "host \<Rightarrow> (string \<Rightarrow> (string \<times> string) list) \<Rightarrow> json \<Rightarrow> loose_import importing" where
  "import_har h search doc =
     sx_bind now_ms (\<lambda>now.
     let log = js_opt ''log'' (Some doc); creator = js_opt ''name'' (js_opt ''creator'' log) in
     sx_bind new_id (\<lambda>cid.
     sx_bind (js_array ''map'' (js_opt ''entries'' log)) (\<lambda>entries.
     sx_bind (sx_mapM (har_entry h search cid now) (enumerate 0 entries)) (\<lambda>requests.
     sx_ret \<lparr>li_collection = new_collection cid (JStr (if json_truthy creator then js_to_string creator @ '' (HAR)'' else ''HAR import'')) [] now,
       li_folders = [], li_requests = requests, li_environments = []\<rparr>))))"

definition import_har_effect :: "host \<Rightarrow> (string \<Rightarrow> (string \<times> string) list) \<Rightarrow> json \<Rightarrow> runtime \<Rightarrow> parse_error + loose_import" where
  "import_har_effect h search doc =
     import_effect ''har'' ''not a valid HAR file: missing log object''
       (is_object_or_array doc \<and> json_field doc ''log'' \<noteq> None) (import_har h search doc)"

section \<open>Hoppscotch\<close>

definition hoppscotch_body :: "json \<Rightarrow> ('s, body_mode \<times> json) sx" where
  "hoppscotch_body item =
     sx_bind (js_get ''body'' (Some item)) (\<lambda>b.
     let body = either b (json_field item ''requestBody'') in
     if \<not> json_truthy body then sx_ret (BM_none, JStr [])
     else let field = json_field (the body);
       content = (case the body of JStr s \<Rightarrow> JStr s | _ \<Rightarrow> text_or_empty (either (field ''body'') (field ''content''))) in
     if \<not> json_truthy (Some content) then sx_ret (BM_none, JStr [])
     else let kind = json_to_string (text_or_empty (either (field ''contentType'') (json_field item ''contentType''))) in
     sx_ret (if str_includes ''json'' kind then (BM_json, content)
       else if str_includes ''x-www-form-urlencoded'' kind then (BM_urlencoded, content) else (BM_raw, content)))"

definition hoppscotch_auth :: "jsval \<Rightarrow> loose_auth" where
  "hoppscotch_auth auth =
     (let kind = js_opt ''authType'' auth; value = (\<lambda>k. text_or_empty (js_opt k auth)) in
      if \<not> json_truthy kind \<or> is_text kind ''none'' then La_none
      else if is_text kind ''bearer'' then La_bearer (text_or_empty (either (js_opt ''authToken'' auth) (js_opt ''token'' auth)))
      else if is_text kind ''basic'' then La_basic (value ''username'') (value ''password'')
      else if is_text kind ''api-key''
      then La_api_key (value ''key'') (value ''value'') (if is_text (js_opt ''addTo'' auth) ''queryParams'' then In_query else In_header)
      else La_none)"

definition hoppscotch_row :: "json \<Rightarrow> ('s, loose_row) sx" where
  "hoppscotch_row p =
     sx_bind (js_get ''key'' (Some p)) (\<lambda>k.
     sx_ret (on_row (either k (json_field p ''name'')) (json_field p ''value'')
       (not_false (json_field p ''active'') \<and> not_false (json_field p ''enabled''))))"

definition hoppscotch_variables :: "json \<Rightarrow> ('s, loose_row list) sx" where
  "hoppscotch_variables env =
     (case coalesce (either (json_field env ''variables'') (json_field env ''envVars'')) (JArr []) of
        JArr vs \<Rightarrow> sx_mapM hoppscotch_row vs
      | v \<Rightarrow> sx_ret (loose_record_rows v))"

definition hoppscotch_request :: "string \<Rightarrow> string option \<Rightarrow> json \<Rightarrow> int \<Rightarrow> loose_saved importing" where
  "hoppscotch_request cid fid item sort_order =
     (let field = json_field item; url = text_or_empty (either (field ''endpoint'') (field ''url'')) in
      sx_bind now_ms (\<lambda>now.
      sx_bind (hoppscotch_body item) (\<lambda>(mode, content).
      sx_bind (js_text ''toUpperCase'' (coalesce (field ''method'') (JStr ''GET''))) (\<lambda>m.
      sx_bind (sx_bind (js_array ''map'' (either (field ''params'') (field ''queryParams''))) (sx_mapM hoppscotch_row)) (\<lambda>params.
      sx_bind (sx_bind (js_array ''map'' (field ''headers'')) (sx_mapM hoppscotch_row)) (\<lambda>headers.
      sx_bind new_id (\<lambda>i.
      sx_ret (new_saved i cid fid (coalesce (field ''name'') (JStr (to_upper m @ '' '' @ json_to_string url)))
        (Loose_rest \<lparr>lq_method = to_upper m, lq_url = url, lq_params = params, lq_headers = headers,
           lq_bodyMode = mode, lq_body = content, lq_auth = hoppscotch_auth (field ''auth'')\<rparr>)
        sort_order now))))))))"

fun visit_requests :: "string \<Rightarrow> int \<Rightarrow> string option \<Rightarrow> json list \<Rightarrow> unit importing" where
  "visit_requests cid now fid [] = sx_ret ()"
| "visit_requests cid now fid (item # items) =
     sx_bind request_count (\<lambda>n.
     sx_bind (hoppscotch_request cid fid item (now + n)) (\<lambda>r.
     sx_bind (push_request r) (\<lambda>_. visit_requests cid now fid items)))"

definition push_named :: "string \<Rightarrow> int \<Rightarrow> jsval \<Rightarrow> string option \<Rightarrow> string importing" where
  "push_named cid now name parent =
     sx_bind new_id (\<lambda>i.
     sx_bind folder_count (\<lambda>n.
     sx_bind (push_folder (new_folder i cid parent (coalesce name (JStr ''Imported folder'')) [] (now + n) now)) (\<lambda>_.
     sx_ret i)))"

text \<open>The characters of a text in the place of the folders are nodes without a name, requests and folders.\<close>

fun blank_folders :: "string \<Rightarrow> int \<Rightarrow> string option \<Rightarrow> string \<Rightarrow> unit importing" where
  "blank_folders cid now parent [] = sx_ret ()"
| "blank_folders cid now parent (c # s) = sx_bind (push_named cid now None parent) (\<lambda>_. blank_folders cid now parent s)"

function (sequential) visit_folders :: "string \<Rightarrow> int \<Rightarrow> string option \<Rightarrow> json list \<Rightarrow> unit importing" where
  "visit_folders cid now parent [] = sx_ret ()"
| "visit_folders cid now parent (node # nodes) =
     sx_bind (push_named cid now (js_opt ''name'' (Some node)) parent) (\<lambda>i.
     sx_bind (js_iterate ''iterator'' (js_opt ''requests'' (Some node))) (\<lambda>items.
     sx_bind (visit_requests cid now (Some i) items) (\<lambda>_.
     sx_bind (case js_opt ''folders'' (Some node) of
                None \<Rightarrow> sx_ret () | Some JNull \<Rightarrow> sx_ret ()
              | Some (JArr subs) \<Rightarrow> visit_folders cid now (Some i) subs
              | Some (JStr s) \<Rightarrow> blank_folders cid now (Some i) s
              | _ \<Rightarrow> sx_throw (type_error ''iterator'')) (\<lambda>_.
     visit_folders cid now parent nodes))))"
  by pat_completeness auto

termination
  by (relation "measure (\<lambda>(cid, now, parent, nodes). size_list size nodes)") (auto simp: js_opt_def dest: json_field_size split: if_splits)

declare visit_folders.simps [simp del]

definition hoppscotch_environments :: "int \<Rightarrow> json list \<Rightarrow> loose_environment list importing" where
  "hoppscotch_environments now envs =
     sx_mapM (\<lambda>(index, env).
       sx_bind new_id (\<lambda>i.
       sx_bind (hoppscotch_variables env) (\<lambda>vars.
       sx_ret \<lparr>le_id = i, le_name = the (json_field env ''name''), le_variables = vars,
         le_createdAt = now + int index, le_updatedAt = now + int index\<rparr>)))
       (enumerate 0 (filter (\<lambda>env. json_truthy (js_opt ''name'' (Some env))) envs))"

definition import_hoppscotch :: "json \<Rightarrow> loose_import importing" where
  "import_hoppscotch doc =
     sx_bind now_ms (\<lambda>now.
     let top_node = (case js_opt ''collections'' (Some doc) of Some (JArr cs) \<Rightarrow> (case cs of [] \<Rightarrow> None | c # _ \<Rightarrow> Some c) | _ \<Rightarrow> Some doc);
         field = (\<lambda>k. either (js_opt k top_node) (js_opt k (Some doc))) in
     sx_bind new_id (\<lambda>cid.
     sx_bind (js_iterate ''iterator'' (field ''requests'')) (\<lambda>items.
     sx_bind (visit_requests cid now None items) (\<lambda>_.
     sx_bind (case field ''folders'' of
                None \<Rightarrow> sx_ret () | Some JNull \<Rightarrow> sx_ret ()
              | Some (JArr subs) \<Rightarrow> visit_folders cid now None subs
              | Some (JStr s) \<Rightarrow> blank_folders cid now None s
              | _ \<Rightarrow> sx_throw (type_error ''iterator'')) (\<lambda>_.
     sx_bind (js_array ''filter'' (either (js_opt ''environments'' (Some doc)) (js_opt ''envs'' (Some doc)))) (\<lambda>envs.
     sx_bind (hoppscotch_environments now envs) (\<lambda>environments s.
     Inr (\<lparr>li_collection = new_collection cid (coalesce (field ''name'') (JStr ''Hoppscotch import'')) [] now,
       li_folders = is_folders s, li_requests = is_requests s, li_environments = environments\<rparr>, s))))))))"

definition import_hoppscotch_effect :: "json \<Rightarrow> runtime \<Rightarrow> parse_error + loose_import" where
  "import_hoppscotch_effect doc =
     import_effect ''hoppscotch'' ''not a valid Hoppscotch collection: expected an object'' (is_object_or_array doc) (import_hoppscotch doc)"

end
