(* ===== verification/Import_Insomnia.thy ===== *)
theory Import_Insomnia
  imports Import_Tools
begin

text \<open>
  packages/core/src/import-export/insomnia.ts. The table of folders is keyed by the identifiers of the document,
  whatever they are (the code compares identifiers that are objects by identity, here they are compared by value).
\<close>

type_synonym folder_table = "(jsval \<times> loose_folder) list"

definition of_type :: "string \<Rightarrow> json \<Rightarrow> bool" where
  "of_type kind item \<longleftrightarrow> is_text (js_opt ''_type'' (Some item)) kind"

definition insomnia_body :: "jsval \<Rightarrow> body_mode \<times> json" where
  "insomnia_body body =
     (let mime = js_opt ''mimeType'' body; content = text_or_empty (js_opt ''text'' body); kind = js_to_string mime in
      if \<not> json_truthy body \<or> \<not> json_truthy mime \<or> \<not> json_truthy (Some content) then (BM_none, JStr [])
      else if str_includes ''json'' kind then (BM_json, content)
      else if str_includes ''x-www-form-urlencoded'' kind then (BM_urlencoded, content)
      else (BM_raw, content))"

definition insomnia_auth :: "jsval \<Rightarrow> loose_auth" where
  "insomnia_auth auth =
     (let kind = js_opt ''type'' auth; value = (\<lambda>k. text_or_empty (js_opt k auth)) in
      if \<not> json_truthy kind then La_none
      else if is_text kind ''bearer'' then La_bearer (value ''token'')
      else if is_text kind ''basic'' then La_basic (value ''username'') (value ''password'')
      else if is_text kind ''apikey''
      then La_api_key (value ''key'') (value ''value'') (if is_text (js_opt ''addTo'' auth) ''queryParams'' then In_query else In_header)
      else La_none)"

definition insomnia_row :: "json \<Rightarrow> ('s, loose_row) sx" where
  "insomnia_row hdr =
     sx_bind (js_get ''name'' (Some hdr)) (\<lambda>n.
     sx_ret (on_row (either n (json_field hdr ''key'')) (json_field hdr ''value'') (\<not> json_truthy (json_field hdr ''disabled''))))"

definition folder_at :: "folder_table \<Rightarrow> jsval \<Rightarrow> string option" where
  "folder_at table parent = (if json_truthy parent then map_option lf_id (map_of table parent) else None)"

text \<open>The first pass makes the folders; a second entry with the identifier of an earlier one takes its place.\<close>

fun insomnia_folders :: "string \<Rightarrow> int \<Rightarrow> json list \<Rightarrow> folder_table \<Rightarrow> folder_table importing" where
  "insomnia_folders cid now [] table = sx_ret table"
| "insomnia_folders cid now (g # gs) table =
     sx_bind new_id (\<lambda>i.
     insomnia_folders cid now gs (AList.update (json_field g ''_id'')
       (new_folder i cid None (coalesce (json_field g ''name'') (JStr ''Imported folder'')) [] (now + int (length table)) now) table))"

text \<open>The second pass sets the parents, in place.\<close>

definition set_parent :: "json \<Rightarrow> folder_table \<Rightarrow> folder_table" where
  "set_parent g table =
     (case map_of table (json_field g ''_id'') of
        None \<Rightarrow> table
      | Some f \<Rightarrow> AList.update (json_field g ''_id'') (f\<lparr>lf_parentFolderId := folder_at table (json_field g ''parentId'')\<rparr>) table)"

definition insomnia_grpc_request :: "json \<Rightarrow> string \<Rightarrow> folder_table \<Rightarrow> int \<Rightarrow> loose_saved importing" where
  "insomnia_grpc_request item cid table sort_order =
     (let field = json_field item; url = text_or_empty (either (field ''url'') (field ''host''));
          body = coalesce (either (js_opt ''text'' (field ''body'')) (field ''body'')) (JStr ''{}'') in
      sx_bind (js_text ''split'' (text_or_empty (either (field ''protoMethodName'') (field ''method'')))) (\<lambda>m.
      let parts = filter (\<lambda>w. w \<noteq> []) (split_on CHR ''/'' m);
          meth = (if parts = [] then [] else last parts); service = join ''/'' (butlast parts) in
      sx_bind (sx_bind (js_array ''map'' (either (field ''metadata'') (field ''headers''))) (sx_mapM insomnia_row)) (\<lambda>metadata.
      sx_bind (js_text ''replace'' url) (\<lambda>u.
      sx_bind now_ms (\<lambda>now.
      sx_bind new_id (\<lambda>i.
      sx_ret (new_saved i cid (folder_at table (field ''parentId''))
        (coalesce (field ''name'') (JStr (service @ ''/'' @ meth)))
        (Loose_grpc \<lparr>lg_address = (if starts_with ''grpc://'' u then drop 7 u else if starts_with ''grpcs://'' u then drop 8 u else u),
           lg_service = JStr service, lg_method = JStr meth, lg_metadata = metadata,
           lg_body = (case body of JStr s \<Rightarrow> s | _ \<Rightarrow> json_stringify body),
           lg_tls = (starts_with ''grpcs://'' u \<or> \<not> str_includes ''plaintext'' u), lg_auth = insomnia_auth (field ''authentication'')\<rparr>)
        sort_order now)))))))"

definition insomnia_rest_request :: "json \<Rightarrow> string \<Rightarrow> folder_table \<Rightarrow> int \<Rightarrow> int \<Rightarrow> loose_saved importing" where
  "insomnia_rest_request item cid table sort_order now =
     (let field = json_field item; url = text_or_empty (field ''url''); (mode, content) = insomnia_body (field ''body'') in
      sx_bind (js_text ''toUpperCase'' (coalesce (field ''method'') (JStr ''GET''))) (\<lambda>m.
      sx_bind (sx_bind (js_array ''map'' (field ''headers'')) (sx_mapM insomnia_row)) (\<lambda>headers.
      sx_bind new_id (\<lambda>i.
      sx_ret (new_saved i cid (folder_at table (field ''parentId''))
        (coalesce (field ''name'') (JStr (to_upper m @ '' '' @ json_to_string url)))
        (Loose_rest \<lparr>lq_method = to_upper m, lq_url = url, lq_params = [], lq_headers = headers,
           lq_bodyMode = mode, lq_body = content, lq_auth = insomnia_auth (field ''authentication'')\<rparr>)
        sort_order now)))))"

definition insomnia_request :: "string \<Rightarrow> folder_table \<Rightarrow> int \<Rightarrow> nat \<times> json \<Rightarrow> loose_saved importing" where
  "insomnia_request cid table now = (\<lambda>(index, item).
     if of_type ''grpc_request'' item then insomnia_grpc_request item cid table (now + int index)
     else insomnia_rest_request item cid table (now + int index) now)"

text \<open>\<open>Object.keys(v).length > 0\<close>.\<close>

definition has_keys :: "json \<Rightarrow> bool" where
  "has_keys v = (case v of JObj ms \<Rightarrow> ms \<noteq> [] | JArr vs \<Rightarrow> vs \<noteq> [] | JStr s \<Rightarrow> s \<noteq> [] | _ \<Rightarrow> False)"

definition is_environment :: "json \<Rightarrow> bool" where
  "is_environment item \<longleftrightarrow> of_type ''environment'' item \<and> json_truthy (json_field item ''name'')
     \<and> json_truthy (json_field item ''data'') \<and> has_keys (the (json_field item ''data''))"

definition insomnia_environment :: "int \<Rightarrow> nat \<times> json \<Rightarrow> loose_environment importing" where
  "insomnia_environment now = (\<lambda>(index, item).
     sx_bind new_id (\<lambda>i.
     sx_ret \<lparr>le_id = i, le_name = the (json_field item ''name''), le_variables = loose_record_rows (the (json_field item ''data'')),
       le_createdAt = now + int index, le_updatedAt = now + int index\<rparr>))"

definition import_insomnia :: "json \<Rightarrow> loose_import importing" where
  "import_insomnia doc =
     (let resources = (case js_opt ''resources'' (Some doc) of Some (JArr rs) \<Rightarrow> rs | _ \<Rightarrow> []);
          workspace = find (of_type ''workspace'') resources; groups = filter (of_type ''request_group'') resources in
      sx_bind now_ms (\<lambda>now.
      sx_bind new_id (\<lambda>cid.
      sx_bind (insomnia_folders cid now groups []) (\<lambda>made.
      let table = fold set_parent groups made in
      sx_bind (sx_mapM (insomnia_request cid table now)
                 (enumerate 0 (filter (\<lambda>item. of_type ''request'' item \<or> of_type ''grpc_request'' item) resources))) (\<lambda>requests.
      sx_bind (sx_mapM (insomnia_environment now) (enumerate 0 (filter is_environment resources))) (\<lambda>environments.
      sx_ret \<lparr>li_collection = new_collection cid
          (coalesce (either (js_opt ''name'' workspace) (js_opt ''name'' (Some doc))) (JStr ''Insomnia import'')) [] now,
        li_folders = map snd table, li_requests = requests, li_environments = environments\<rparr>))))))"

definition import_insomnia_effect :: "json \<Rightarrow> runtime \<Rightarrow> parse_error + loose_import" where
  "import_insomnia_effect doc =
     import_effect ''insomnia'' ''not a valid Insomnia export: expected an object'' (is_object_or_array doc) (import_insomnia doc)"

end
