(* ===== verification/Invoke_Yaml_Facts.thy ===== *)
theory Invoke_Yaml_Facts
  imports Invoke_Yaml
begin

text \<open>
  An exported collection loses no document: no file of the archive takes the place of another, as long as the
  folders form a forest and no request has a name that the export keeps for itself. Read back, the archive gives
  the folders, their nesting and the requests again, under fresh identifiers.
\<close>

section \<open>Slugs\<close>

definition slug_text :: "string \<Rightarrow> bool" where
  "slug_text s \<longleftrightarrow> list_all (\<lambda>c. slug_char c \<or> c = CHR ''-'') s"

lemma slug_text_append [simp]: "slug_text (s @ t) \<longleftrightarrow> slug_text s \<and> slug_text t"
  by (simp add: slug_text_def)

lemma slug_text_dashed: "slug_text (dashed b s)"
  by (induction b s rule: dashed.induct) (auto simp: slug_text_def)

lemma slug_text_sub: "slug_text s \<Longrightarrow> set t \<subseteq> set s \<Longrightarrow> slug_text t"
  by (auto simp: slug_text_def list_all_iff)

lemma strip_dash_sub: "set (strip_dash s) \<subseteq> set s"
proof -
  have "set (tl s) \<subseteq> set s" by (cases s) auto
  then show ?thesis by (auto simp: strip_dash_def Let_def dest!: in_set_butlastD)
qed

lemma slug_text_request: "slug_text ''request''"
  by code_simp

lemma slug_text_slug: "slug_text (slug v)"
  using slug_text_sub [OF slug_text_dashed strip_dash_sub] slug_text_request by (simp add: slug_def Let_def)

lemma slug_nonempty: "slug v \<noteq> []"
  by (simp add: slug_def Let_def)

lemma slug_text_number: "slug_text (nat_to_string n)"
proof -
  have "slug_char c" if "c \<in> set (nat_to_string n)" for c
    using digits_of_nat_to_string [OF that] by (auto simp: slug_char_def is_digit_digit_char)
  then show ?thesis by (simp add: slug_text_def list_all_iff)
qed

lemma no_slug_char: "\<not> slug_char CHR ''/''" "\<not> slug_char CHR ''.''"
  by code_simp+

lemma slug_text_free: "slug_text s \<Longrightarrow> CHR ''/'' \<notin> set s" "slug_text s \<Longrightarrow> CHR ''.'' \<notin> set s"
  using no_slug_char by (auto simp: slug_text_def list_all_iff)

lemma number_text_inj: "nat_to_string m = nat_to_string n \<Longrightarrow> m = n"
  by (metis digits_value_nat_to_string)

lemma distinct_candidates: "distinct (slug_candidates b n)"
  by (auto simp: slug_candidates_def distinct_map inj_on_def dest: number_text_inj)

lemma length_candidates: "length (slug_candidates b n) = n + 1"
  by (simp add: slug_candidates_def del: upt_Suc)

lemma candidate_text: "c \<in> set (slug_candidates (slug v) n) \<Longrightarrow> slug_text c \<and> c \<noteq> []"
  using slug_text_slug [of v] slug_nonempty [of v] slug_text_number
  by (auto simp: slug_candidates_def slug_text_def)

lemma candidate_reserved:
  assumes "c \<in> set (slug_candidates b n)" and "CHR ''-'' \<notin> set c"
  shows "c = b"
  using assms by (auto simp: slug_candidates_def)

text \<open>The name that is taken is new, is a slug, and is remembered.\<close>

lemma unique_slug_spec:
  assumes "unique_slug v used = (c, used')"
  shows "c \<notin> set used" and "used' = used @ [c]" and "c \<in> set (slug_candidates (slug v) (length used))"
proof -
  let ?cs = "slug_candidates (slug v) (length used)"
  have "card (set ?cs) = length used + 1"
    by (simp only: distinct_card [OF distinct_candidates] length_candidates)
  moreover have "card (set used) \<le> length used" by (rule card_length)
  ultimately have "\<not> set ?cs \<subseteq> set used" using card_mono [of "set used" "set ?cs"] by auto
  then obtain x where x: "find (\<lambda>c. c \<notin> set used) ?cs = Some x"
    by (cases "find (\<lambda>c. c \<notin> set used) ?cs") (auto simp: find_None_iff)
  then have "x \<notin> set used" "x \<in> set ?cs" by (auto simp: find_Some_iff)
  moreover have "c = x" "used' = used @ [x]" using assms x by (auto simp: unique_slug_def Let_def)
  ultimately show "c \<notin> set used" "used' = used @ [c]" "c \<in> set ?cs" by simp_all
qed

section \<open>Paths of folders\<close>

text \<open>The slugs of a group are as many different names, in the order of its sorted folders.\<close>

abbreviation slug_step :: "folder \<Rightarrow> (string \<times> string) list \<times> string list \<Rightarrow> (string \<times> string) list \<times> string list" where
  "slug_step f \<equiv> (\<lambda>(m, used). let (c, used') = unique_slug (fo_name f) used in (m @ [(fo_id f, c)], used'))"

lemma slug_steps:
  assumes "fold slug_step g (m, used) = (m', used')"
  shows "\<exists>cs. m' = m @ List.zip (map fo_id g) cs \<and> length cs = length g \<and> distinct cs \<and> set cs \<inter> set used = {}
    \<and> (\<forall>c \<in> set cs. slug_text c \<and> c \<noteq> [])"
  using assms
proof (induction g arbitrary: m used)
  case Nil
  then show ?case by simp
next
  case (Cons f g)
  obtain c u where cu: "unique_slug (fo_name f) used = (c, u)" by (cases "unique_slug (fo_name f) used")
  note new = unique_slug_spec [OF cu]
  from Cons.prems cu have "fold slug_step g (m @ [(fo_id f, c)], u) = (m', used')" by simp
  from Cons.IH [OF this] obtain cs where
    "m' = (m @ [(fo_id f, c)]) @ List.zip (map fo_id g) cs" "length cs = length g" "distinct cs"
    "set cs \<inter> set u = {}" "\<forall>c \<in> set cs. slug_text c \<and> c \<noteq> []" by blast
  then show ?case using new candidate_text [OF new(3)] by (intro exI [of _ "c # cs"]) auto
qed

lemma group_slugs_spec:
  "\<exists>g' cs. mset g' = mset g \<and> group_slugs h g = List.zip (map fo_id g') cs \<and> length cs = length g' \<and> distinct cs
    \<and> (\<forall>c \<in> set cs. slug_text c \<and> c \<noteq> [])"
proof -
  define g' where "g' = stable_sort (\<lambda>l r. by_order_then_name h l r \<le> 0) g"
  obtain m' used' where f: "fold slug_step g' ([], []) = (m', used')" by fastforce
  have "group_slugs h g = fst (fold slug_step g' ([], []))" by (simp add: group_slugs_def g'_def)
  then have "group_slugs h g = m'" by (simp only: f fst_conv)
  moreover have "mset g' = mset g" by (simp add: g'_def)
  ultimately show ?thesis using slug_steps [OF f] by auto
qed

abbreviation group_of :: "(string \<times> folder list) list \<Rightarrow> string \<Rightarrow> folder list" where
  "group_of m k \<equiv> (case map_of m k of Some g \<Rightarrow> g | None \<Rightarrow> [])"

abbreviation add_sibling :: "folder \<Rightarrow> (string \<times> folder list) list \<Rightarrow> (string \<times> folder list) list" where
  "add_sibling f m \<equiv> AList.update (parent_key f) (group_of m (parent_key f) @ [f]) m"

lemma map_of_add_sibling:
  "map_of (add_sibling f m) k = (if k = parent_key f then Some (group_of m k @ [f]) else map_of m k)"
  by (simp add: update_conv')

lemma siblings_fold:
  assumes "distinct (map fst m)"
  shows "distinct (map fst (fold add_sibling fs m))
    \<and> map_of (fold add_sibling fs m) k =
       (if filter (\<lambda>f. parent_key f = k) fs = [] then map_of m k else Some (group_of m k @ filter (\<lambda>f. parent_key f = k) fs))"
  using assms
proof (induction fs arbitrary: m)
  case Nil
  then show ?case by simp
next
  case (Cons f fs)
  have "distinct (map fst (add_sibling f m))" using Cons.prems by (rule distinct_update)
  from Cons.IH [OF this] show ?case by (simp add: map_of_add_sibling)
qed

lemma siblings_entry:
  "(k, g) \<in> set (siblings fs) \<longleftrightarrow> g \<noteq> [] \<and> g = filter (\<lambda>f. parent_key f = k) fs"
proof -
  have d: "distinct (map fst (siblings fs))" using siblings_fold [of "[]" fs] by (simp add: siblings_def)
  have "map_of (siblings fs) k = (if filter (\<lambda>f. parent_key f = k) fs = [] then None else Some (filter (\<lambda>f. parent_key f = k) fs))"
    using siblings_fold [of "[]" fs k] by (simp add: siblings_def)
  moreover have "(k, g) \<in> set (siblings fs) \<longleftrightarrow> map_of (siblings fs) k = Some g" using d by simp
  ultimately show ?thesis by auto
qed

section \<open>Folders have different paths\<close>

text \<open>Identifiers are unique, every parent is a folder of the collection, and no folder is above itself.\<close>

definition forest :: "folder list \<Rightarrow> bool" where
  "forest fs \<longleftrightarrow> distinct (map fo_id fs)
     \<and> list_all (\<lambda>f. fo_id f \<noteq> [] \<and> folder_chain fs (fo_parentFolderId f) \<noteq> None
         \<and> (case fo_parentFolderId f of None \<Rightarrow> True | Some p \<Rightarrow> p \<in> set (map fo_id fs))) fs"

lemma forest_id: "forest fs \<Longrightarrow> f \<in> set fs \<Longrightarrow> g \<in> set fs \<Longrightarrow> fo_id f = fo_id g \<Longrightarrow> f = g"
  by (auto simp: forest_def distinct_map inj_on_def)

lemma folder_by_id_member: "folder_by_id fs pid = Some p \<Longrightarrow> p \<in> set fs \<and> pid = Some (fo_id p)"
  by (auto simp: folder_by_id_def find_Some_iff split: if_splits) (metis nth_mem set_rev length_rev)+

lemma folder_by_id_forest:
  assumes "forest fs" and "f \<in> set fs" and "folder_by_id fs (fo_parentFolderId f) = None"
  shows "fo_parentFolderId f = None"
proof (rule ccontr)
  assume "fo_parentFolderId f \<noteq> None"
  then obtain p where p: "fo_parentFolderId f = Some p" by blast
  have "p \<in> set (map fo_id fs)" "\<forall>q \<in> set fs. fo_id q \<noteq> []"
    using assms(1,2) p by (auto simp: forest_def list_all_iff split: option.splits)
  then obtain q where "q \<in> set fs" "fo_id q = p" "p \<noteq> []" by auto
  with assms(3) p show False by (auto simp: folder_by_id_def find_None_iff)
qed

lemma fold_update_functional:
  fixes k :: string
  assumes "(k, v) \<in> set kvs" and "\<And>w. (k, w) \<in> set kvs \<Longrightarrow> w = v"
  shows "map_of (fold (\<lambda>(k, v). AList.update k v) kvs []) k = Some v"
proof -
  have "map_of (rev kvs) k = Some v"
    using assms by (metis map_of_SomeD set_rev weak_map_of_SomeI)
  then show ?thesis using obj_own_from_entries [of kvs k] by (simp add: obj_from_entries_def obj_own_def)
qed

text \<open>Each folder has the slug its group gave it, and in a group the slugs are different.\<close>

lemma group_slugs_of:
  assumes "f \<in> set g"
  shows "\<exists>c. (fo_id f, c) \<in> set (group_slugs h g) \<and> slug_text c \<and> c \<noteq> []"
proof -
  obtain g' cs where "mset g' = mset g" "group_slugs h g = List.zip (map fo_id g') cs" "length cs = length g'"
    "\<forall>c \<in> set cs. slug_text c \<and> c \<noteq> []" using group_slugs_spec [of g h] by blast
  moreover from this(1) assms obtain i where "i < length g'" "g' ! i = f" by (metis in_set_conv_nth mset_eq_setD)
  ultimately have "(fo_id f, cs ! i) = List.zip (map fo_id g') cs ! i" "i < length (List.zip (map fo_id g') cs)" "cs ! i \<in> set cs"
    by auto
  with \<open>group_slugs h g = _\<close> \<open>\<forall>c \<in> set cs. _\<close> show ?thesis by (metis nth_mem)
qed

lemma group_slugs_inj:
  assumes "distinct (map fo_id g)" and "(i, c) \<in> set (group_slugs h g)" and "(j, d) \<in> set (group_slugs h g)"
  shows "i = j \<longleftrightarrow> c = d"
proof -
  obtain g' cs where g': "mset g' = mset g" "group_slugs h g = List.zip (map fo_id g') cs" "length cs = length g'"
    "distinct cs" using group_slugs_spec [of g h] by blast
  have "distinct (map fo_id g')" using assms(1) g'(1) by (metis mset_map mset_eq_imp_distinct_iff)
  with g' assms(2,3) show ?thesis by (auto simp: set_zip nth_eq_iff_index_eq) (metis nth_eq_iff_index_eq length_map nth_map)+
qed

lemma group_slugs_ids: "(i, c) \<in> set (group_slugs h g) \<Longrightarrow> \<exists>f \<in> set g. fo_id f = i"
proof -
  assume "(i, c) \<in> set (group_slugs h g)"
  moreover obtain g' cs where "mset g' = mset g" "group_slugs h g = List.zip (map fo_id g') cs"
    using group_slugs_spec [of g h] by blast
  ultimately show ?thesis by (metis (no_types, lifting) imageE list.set_map mset_eq_setD set_zip_leftD)
qed

lemma slug_of_folder_in_group:
  assumes "forest fs" and "f \<in> set fs"
  shows "(fo_id f, slug_of_folder (slug_by_id h fs) f) \<in> set (group_slugs h (filter (\<lambda>g. parent_key g = parent_key f) fs))"
    and "slug_text (slug_of_folder (slug_by_id h fs) f) \<and> slug_of_folder (slug_by_id h fs) f \<noteq> []"
proof -
  let ?G = "\<lambda>k. filter (\<lambda>g. parent_key g = k) fs"
  let ?kvs = "concat (map (\<lambda>(k, g). group_slugs h g) (siblings fs))"
  obtain c where c: "(fo_id f, c) \<in> set (group_slugs h (?G (parent_key f)))" "slug_text c" "c \<noteq> []"
    using group_slugs_of [of f "?G (parent_key f)" h] assms(2) by auto
  have "(parent_key f, ?G (parent_key f)) \<in> set (siblings fs)"
    using assms(2) by (auto simp: siblings_entry filter_empty_conv)
  with c(1) have m: "(fo_id f, c) \<in> set ?kvs" by fastforce
  have "d = c" if "(fo_id f, d) \<in> set ?kvs" for d
  proof -
    from that obtain k where d: "(fo_id f, d) \<in> set (group_slugs h (?G k))" by (auto simp: siblings_entry)
    from group_slugs_ids [OF this] obtain g where "g \<in> set fs" "parent_key g = k" "fo_id g = fo_id f" by auto
    with forest_id [OF assms(1) _ assms(2)] have "k = parent_key f" by blast
    moreover have "distinct (map fo_id (?G k))" using assms(1) by (simp add: forest_def distinct_map_filter)
    ultimately show ?thesis using group_slugs_inj [OF _ d] c(1) by blast
  qed
  from fold_update_functional [OF m this] have "slug_of_folder (slug_by_id h fs) f = c"
    by (simp add: slug_of_folder_def slug_by_id_def)
  with c show "(fo_id f, slug_of_folder (slug_by_id h fs) f) \<in> set (group_slugs h (?G (parent_key f)))"
    and "slug_text (slug_of_folder (slug_by_id h fs) f) \<and> slug_of_folder (slug_by_id h fs) f \<noteq> []" by simp_all
qed

lemma sibling_slugs_differ:
  assumes "forest fs" and "f \<in> set fs" and "g \<in> set fs" and "fo_parentFolderId f = fo_parentFolderId g"
    and "slug_of_folder (slug_by_id h fs) f = slug_of_folder (slug_by_id h fs) g"
  shows "f = g"
proof -
  have k: "parent_key f = parent_key g" using assms(4) by (simp add: parent_key_def)
  have d: "distinct (map fo_id (filter (\<lambda>x. parent_key x = parent_key g) fs))"
    using assms(1) by (simp add: forest_def distinct_map_filter)
  have "fo_id f = fo_id g"
    using group_slugs_inj [OF d] slug_of_folder_in_group(1) [OF assms(1,2), of h] slug_of_folder_in_group(1) [OF assms(1,3), of h]
      assms(5) k by metis
  then show ?thesis by (rule forest_id [OF assms(1-3)])
qed

lemma chains_differ:
  assumes "forest fs" and "f \<in> set fs" and "g \<in> set fs"
    and "folder_chain fs (fo_parentFolderId f) = Some up" and "folder_chain fs (fo_parentFolderId g) = Some up'"
    and "map (slug_of_folder (slug_by_id h fs)) (f # up) = map (slug_of_folder (slug_by_id h fs)) (g # up')"
  shows "f = g"
  using assms(2-6)
proof (induction up arbitrary: f g up')
  case Nil
  then have "folder_by_id fs (fo_parentFolderId f) = None" "folder_by_id fs (fo_parentFolderId g) = None"
    by (auto simp: folder_chain.simps [of fs "fo_parentFolderId f"] folder_chain.simps [of fs "fo_parentFolderId g"]
        bind_eq_Some_conv split: option.splits)
  then have "fo_parentFolderId f = fo_parentFolderId g" using folder_by_id_forest [OF assms(1)] Nil.prems by metis
  then show ?case using sibling_slugs_differ [OF assms(1)] Nil.prems by simp
next
  case (Cons p up)
  obtain q up2 where up': "up' = q # up2" using Cons.prems(5) by (cases up') auto
  have p: "folder_by_id fs (fo_parentFolderId f) = Some p" "folder_chain fs (fo_parentFolderId p) = Some up"
    using Cons.prems(3) by (auto simp: folder_chain.simps [of fs "fo_parentFolderId f"] bind_eq_Some_conv split: option.splits)
  have q: "folder_by_id fs (fo_parentFolderId g) = Some q" "folder_chain fs (fo_parentFolderId q) = Some up2"
    using Cons.prems(4) up' by (auto simp: folder_chain.simps [of fs "fo_parentFolderId g"] bind_eq_Some_conv split: option.splits)
  have "p = q"
    using Cons.IH [of p q up2] folder_by_id_member [OF p(1)] folder_by_id_member [OF q(1)] p(2) q(2) Cons.prems(5) up' by simp
  then have "fo_parentFolderId f = fo_parentFolderId g"
    using folder_by_id_member [OF p(1)] folder_by_id_member [OF q(1)] by simp
  then show ?case using sibling_slugs_differ [OF assms(1)] Cons.prems by simp
qed

lemma chain_slugs:
  assumes "forest fs" and "f \<in> set fs"
  shows "\<exists>up. folder_chain fs (fo_parentFolderId f) = Some up \<and> set up \<subseteq> set fs"
proof -
  obtain up where up: "folder_chain fs (fo_parentFolderId f) = Some up" using assms by (auto simp: forest_def list_all_iff)
  have "set up \<subseteq> set fs" if "folder_chain fs pid = Some up" for pid up
    using that
  proof (induction up arbitrary: pid)
    case (Cons p up)
    then obtain "folder_by_id fs pid = Some p" "folder_chain fs (fo_parentFolderId p) = Some up"
      by (auto simp: folder_chain.simps [of fs pid] bind_eq_Some_conv split: option.splits)
    then show ?case using Cons.IH folder_by_id_member by auto
  qed simp
  with up show ?thesis by blast
qed

abbreviation path_of :: "host \<Rightarrow> folder list \<Rightarrow> folder \<Rightarrow> string" where
  "path_of h fs f \<equiv> the (folder_export_path fs (slug_by_id h fs) f)"

lemma path_parts:
  assumes "forest fs" and "f \<in> set fs"
  shows "\<exists>up. folder_chain fs (fo_parentFolderId f) = Some up
    \<and> folder_export_path fs (slug_by_id h fs) f = Some (path_of h fs f)
    \<and> split_on CHR ''/'' (path_of h fs f) = map (slug_of_folder (slug_by_id h fs)) (rev (f # up)) \<and> path_of h fs f \<noteq> []"
proof -
  let ?s = "slug_of_folder (slug_by_id h fs)"
  obtain up where up: "folder_chain fs (fo_parentFolderId f) = Some up" "set up \<subseteq> set fs" using chain_slugs [OF assms] by blast
  let ?parts = "map ?s (rev (f # up))"
  have t: "slug_text w \<and> w \<noteq> []" if "w \<in> set ?parts" for w
    using that up(2) assms slug_of_folder_in_group(2) [OF assms(1), of _ h] by auto
  have p: "folder_export_path fs (slug_by_id h fs) f = Some (join ''/'' ?parts)" by (simp add: folder_export_path_def up)
  have sp: "split_on CHR ''/'' (join ''/'' ?parts) = ?parts"
    by (rule split_on_join) (use t slug_text_free in auto)
  have ne: "join ''/'' ?parts \<noteq> []"
  proof
    assume "join ''/'' ?parts = []"
    with sp have "?parts = [[]]" by (simp only: split_on.simps)
    then have "[] \<in> set ?parts" by (simp only: list.set) simp
    with t show False by blast
  qed
  have pt: "path_of h fs f = join ''/'' ?parts" by (simp only: p option.sel)
  show ?thesis
  proof (intro exI conjI)
    show "folder_chain fs (fo_parentFolderId f) = Some up" by (rule up(1))
    show "folder_export_path fs (slug_by_id h fs) f = Some (path_of h fs f)" by (simp only: p option.sel)
    show "split_on CHR ''/'' (path_of h fs f) = ?parts" unfolding pt by (rule sp)
    show "path_of h fs f \<noteq> []" unfolding pt by (rule ne)
  qed
qed

lemma paths_differ:
  assumes "forest fs" and "f \<in> set fs" and "g \<in> set fs" and "path_of h fs f = path_of h fs g"
  shows "f = g"
proof -
  let ?s = "slug_of_folder (slug_by_id h fs)"
  obtain up up' where c: "folder_chain fs (fo_parentFolderId f) = Some up" "folder_chain fs (fo_parentFolderId g) = Some up'"
    and "map ?s (rev (f # up)) = map ?s (rev (g # up'))"
    using path_parts [OF assms(1,2), of h] path_parts [OF assms(1,3), of h] assms(4) by metis
  from this(3) have "map ?s (f # up) = map ?s (g # up')" by (metis rev_map rev_rev_ident)
  from chains_differ [OF assms(1-3) c this] show ?thesis .
qed

lemma export_folder_paths_forest:
  assumes "forest fs"
  shows "export_folder_paths h fs = Some (map (\<lambda>f. (fo_id f, path_of h fs f)) fs)"
proof -
  have e: "map (\<lambda>f. map_option (\<lambda>p. (fo_id f, p)) (folder_export_path fs (slug_by_id h fs) f)) fs
      = map (\<lambda>f. Some (fo_id f, path_of h fs f)) fs"
    using path_parts [OF assms, of _ h] by (auto intro!: map_cong)
  have "those (map (\<lambda>x. Some (q x)) xs) = Some (map q xs)" for q :: "folder \<Rightarrow> string \<times> string" and xs
    by (induction xs) auto
  then show ?thesis unfolding export_folder_paths_def e .
qed

section \<open>Files of the archive\<close>

lemma file_at_inj:
  assumes "file_at p m = file_at q n" and "CHR ''/'' \<notin> set m" and "CHR ''/'' \<notin> set n"
  shows "p = q \<and> m = n"
proof -
  have split: "split_on CHR ''/'' (r @ CHR ''/'' # s) = split_on CHR ''/'' r @ [s]" if "CHR ''/'' \<notin> set s" for r s
    using that
  proof (induction r)
    case Nil
    then show ?case by (simp add: split_on_no_sep)
  next
    case (Cons c r)
    then show ?case by (cases "split_on CHR ''/'' r") (auto split: list.splits)
  qed
  have slash: "split_on CHR ''/'' (file_at r s) = (if r = [] then [] else split_on CHR ''/'' r) @ [s]" if "CHR ''/'' \<notin> set s" for r s
    using split [OF that] that by (simp add: file_at_def split_on_no_sep)
  have "(if p = [] then [] else split_on CHR ''/'' p) @ [m] = (if q = [] then [] else split_on CHR ''/'' q) @ [n]"
    using slash [OF assms(2), of p] slash [OF assms(3), of q] assms(1) by metis
  then have "m = n" and e: "(if p = [] then [] else split_on CHR ''/'' p) = (if q = [] then [] else split_on CHR ''/'' q)" by simp_all
  moreover have "p = q"
  proof (cases "p = [] \<or> q = []")
    case True
    then show ?thesis using e split_on_neq_Nil by metis
  next
    case False
    then have "split_on CHR ''/'' p = split_on CHR ''/'' q" using e by simp
    then show ?thesis by (metis join_split_on)
  qed
  ultimately show ?thesis by simp
qed

lemma fold_update_fresh:
  assumes "distinct (map fst m @ map k xs)"
  shows "fold (\<lambda>x. AList.update (k x) (v x)) xs m = m @ map (\<lambda>x. (k x, v x)) xs"
  using assms
proof (induction xs arbitrary: m)
  case (Cons x xs)
  then show ?case by (auto simp: update_new)
qed simp

lemma invoke_yaml_name: "c @ ''.invoke.yaml'' = d @ ''.invoke.yaml'' \<longleftrightarrow> c = d"
  by simp

text \<open>What a request may be called: no slash, and a candidate of its name that is not used at its path.\<close>

definition open_file :: "(string \<times> string) list \<Rightarrow> (string \<times> string list) list \<Rightarrow> saved_request \<Rightarrow> string \<Rightarrow> bool" where
  "open_file paths by_path r c \<longleftrightarrow> slug_text c
     \<and> c \<notin> set (case map_of by_path (request_path paths r) of Some u \<Rightarrow> u | None \<Rightarrow> [])
     \<and> (\<exists>n. c \<in> set (slug_candidates (slug (sr_name r)) n))"

lemma add_requests_appends:
  assumes "distinct (map fst arch)"
    and "\<And>r c. r \<in> set rs \<Longrightarrow> open_file paths by_path r c \<Longrightarrow> file_at (request_path paths r) (c @ ''.invoke.yaml'') \<notin> fst ` set arch"
  shows "distinct (map fst (add_requests paths rs by_path arch))
    \<and> map snd (add_requests paths rs by_path arch) = map snd arch @ map (\<lambda>r. Request_doc (flat_request_document r)) rs"
  using assms
proof (induction rs arbitrary: by_path arch)
  case Nil
  then show ?case by simp
next
  case (Cons r rs)
  let ?p = "request_path paths r"
  let ?used = "case map_of by_path ?p of Some u \<Rightarrow> u | None \<Rightarrow> []"
  obtain c u where cu: "unique_slug (sr_name r) ?used = (c, u)" by (cases "unique_slug (sr_name r) ?used")
  note new = unique_slug_spec [OF cu]
  let ?key = "file_at ?p (c @ ''.invoke.yaml'')"
  have name: "unique_request_file_name (sr_name r) ?p by_path = (c @ ''.invoke.yaml'', AList.update ?p u by_path)"
    by (simp add: unique_request_file_name_def Let_def cu)
  have "open_file paths by_path r c" using new candidate_text by (auto simp: open_file_def)
  with Cons.prems(2) have fresh: "?key \<notin> fst ` set arch" by simp
  then have fresh': "?key \<notin> set (map fst arch)" by simp
  have slash: "CHR ''/'' \<notin> set (d @ ''.invoke.yaml'')" if "slug_text d" for d using slug_text_free(1) [OF that] by simp
  let ?arch = "arch @ [(?key, Request_doc (flat_request_document r))]"
  have "file_at (request_path paths r') (d @ ''.invoke.yaml'') \<notin> fst ` set ?arch"
    if r': "r' \<in> set rs" and d: "open_file paths (AList.update ?p u by_path) r' d" for r' d
  proof -
    have "open_file paths by_path r' d" using d new by (auto simp: open_file_def update_conv' split: if_splits option.splits)
    moreover have "file_at (request_path paths r') (d @ ''.invoke.yaml'') \<noteq> ?key"
    proof
      assume "file_at (request_path paths r') (d @ ''.invoke.yaml'') = ?key"
      from file_at_inj [OF this slash slash] have "request_path paths r' = ?p" "d = c"
        using d candidate_text [OF new(3)] by (auto simp: open_file_def)
      then show False using d new by (simp add: open_file_def update_conv')
    qed
    ultimately show ?thesis using Cons.prems(2) r' by simp
  qed
  moreover have "distinct (map fst ?arch)" using Cons.prems(1) fresh by auto
  ultimately have "distinct (map fst (add_requests paths rs (AList.update ?p u by_path) ?arch))
    \<and> map snd (add_requests paths rs (AList.update ?p u by_path) ?arch) = map snd ?arch @ map (\<lambda>r. Request_doc (flat_request_document r)) rs"
    by (intro Cons.IH) blast+
  then show ?case by (simp add: Let_def name update_new [OF fresh'])
qed

section \<open>Nothing is lost in the archive\<close>

definition exported_documents :: "host \<Rightarrow> collection \<Rightarrow> saved_request list \<Rightarrow> folder list \<Rightarrow> yaml_document list" where
  "exported_documents h c rs fs =
     Collection_doc (collection_document_of c) # map (\<lambda>f. Folder_doc (folder_document_of f)) (sort_folders_for_export h fs)
     @ map (\<lambda>r. Request_doc (flat_request_document r)) rs"

lemma set_sort_folders [simp]: "set (sort_folders_for_export h fs) = set fs"
  by (simp add: sort_folders_for_export_def)

abbreviation folder_file :: "host \<Rightarrow> folder list \<Rightarrow> folder \<Rightarrow> string" where
  "folder_file h fs g \<equiv> file_at (path_of h fs g) ''folder.invoke.yaml''"

abbreviation folder_paths :: "host \<Rightarrow> folder list \<Rightarrow> (string \<times> string) list" where
  "folder_paths h fs \<equiv> map (\<lambda>f. (fo_id f, path_of h fs f)) fs"

lemma folder_path_found:
  assumes "forest fs" and "g \<in> set fs"
  shows "the (map_of (rev (folder_paths h fs)) (fo_id g)) = path_of h fs g"
proof -
  have "distinct (map fst (rev (folder_paths h fs)))" using assms(1) by (simp add: forest_def rev_map [symmetric] comp_def)
  moreover have "(fo_id g, path_of h fs g) \<in> set (rev (folder_paths h fs))" using assms(2) by auto
  ultimately show ?thesis by simp
qed

lemma folder_file_slash:
  assumes "forest fs" and "g \<in> set fs"
  shows "folder_file h fs g \<noteq> ''collection.invoke.yaml''"
proof
  assume "folder_file h fs g = ''collection.invoke.yaml''"
  moreover have "folder_file h fs g = path_of h fs g @ ''/folder.invoke.yaml''"
    using path_parts [OF assms, of h] by (auto simp: file_at_def)
  ultimately have "''collection.invoke.yaml'' = path_of h fs g @ ''/folder.invoke.yaml''" by simp
  from arg_cong [OF this, of "\<lambda>s. CHR ''/'' \<in> set s"] show False by simp
qed

lemma folder_files:
  assumes "forest fs" and "start = [(''collection.invoke.yaml'', d)]" and "ordered = sort_folders_for_export h fs"
  shows "fold (\<lambda>g. AList.update (file_at (the (map_of (rev (folder_paths h fs)) (fo_id g))) ''folder.invoke.yaml'') (Folder_doc (folder_document_of g)))
      ordered start = start @ map (\<lambda>g. (folder_file h fs g, Folder_doc (folder_document_of g))) ordered" (is "?l = ?r")
    and "distinct (map fst (start @ map (\<lambda>g. (folder_file h fs g, Folder_doc (folder_document_of g))) ordered))"
proof -
  have mem: "set ordered = set fs" "distinct ordered"
    using assms(1,3) by (auto simp: sort_folders_for_export_def forest_def distinct_map)
  have "distinct (map (folder_file h fs) ordered)"
  proof -
    have "inj_on (folder_file h fs) (set ordered)"
    proof (rule inj_onI)
      fix f g assume fg: "f \<in> set ordered" "g \<in> set ordered" and e: "folder_file h fs f = folder_file h fs g"
      have "path_of h fs f = path_of h fs g" using file_at_inj [OF e] by simp
      then show "f = g" using paths_differ [OF assms(1)] fg mem(1) by blast
    qed
    then show ?thesis using mem(2) by (simp add: distinct_map)
  qed
  moreover have "''collection.invoke.yaml'' \<notin> folder_file h fs ` set ordered"
  proof
    assume "''collection.invoke.yaml'' \<in> folder_file h fs ` set ordered"
    then obtain g where ge: "''collection.invoke.yaml'' = folder_file h fs g" and g: "g \<in> set ordered" by (rule imageE)
    from g mem(1) have "g \<in> set fs" by simp
    from folder_file_slash [OF assms(1) this, of h] ge [symmetric] show False by (rule notE)
  qed
  ultimately have d: "distinct (map fst start @ map (folder_file h fs) ordered)" by (simp add: assms(2))
  have "?l = fold (\<lambda>g. AList.update (folder_file h fs g) (Folder_doc (folder_document_of g))) ordered start"
    using mem(1) folder_path_found [OF assms(1)] by (intro fold_cong) auto
  with fold_update_fresh [OF d] show "?l = ?r" by simp
  show "distinct (map fst ?r)" using d by (simp add: comp_def)
qed

text \<open>
  C21: exporting a collection loses nothing. When the folders form a forest and no request has one of the names
  the export uses itself, the export ends, its files have different paths, and their documents are that of the
  collection, those of its folders (in the order in which they are written) and those of its requests.
\<close>

theorem export_loses_nothing:
  assumes "forest (filter (\<lambda>f. fo_collectionId f = co_id c) folders)"
    and "list_all (\<lambda>r. slug (sr_name r) \<noteq> ''folder'' \<and> slug (sr_name r) \<noteq> ''collection'') requests"
  shows "\<exists>arch. export_collection_zip h c requests folders = Some arch \<and> distinct (map fst arch)
    \<and> map snd arch = exported_documents h c (filter (\<lambda>r. sr_collectionId r = co_id c) requests)
          (filter (\<lambda>f. fo_collectionId f = co_id c) folders)"
proof -
  define fs where "fs = filter (\<lambda>f. fo_collectionId f = co_id c) folders"
  define rs where "rs = filter (\<lambda>r. sr_collectionId r = co_id c) requests"
  let ?start = "[(''collection.invoke.yaml'', Collection_doc (collection_document_of c))]"
  let ?arch = "?start @ map (\<lambda>g. (folder_file h fs g, Folder_doc (folder_document_of g))) (sort_folders_for_export h fs)"
  have f: "forest fs" using assms(1) by (simp add: fs_def)
  note files = folder_files [OF f refl refl, where h = h and d = "Collection_doc (collection_document_of c)"]
  have "distinct (map fst (add_requests (folder_paths h fs) rs [] ?arch))
    \<and> map snd (add_requests (folder_paths h fs) rs [] ?arch) = map snd ?arch @ map (\<lambda>r. Request_doc (flat_request_document r)) rs"
  proof (rule add_requests_appends [OF files(2)])
    fix r s assume r: "r \<in> set rs" and s: "open_file (folder_paths h fs) [] r s"
    then have s': "slug_text s" by (simp add: open_file_def)
    obtain n where n: "s \<in> set (slug_candidates (slug (sr_name r)) n)" using s by (auto simp: open_file_def)
    have "slug (sr_name r) \<noteq> ''folder''" "slug (sr_name r) \<noteq> ''collection''"
      using assms(2) r by (auto simp: rs_def list_all_iff)
    then have s2: "s \<noteq> ''folder''" "s \<noteq> ''collection''" using candidate_reserved [OF n] by auto
    let ?file = "file_at (request_path (folder_paths h fs) r) (s @ ''.invoke.yaml'')"
    have slash: "CHR ''/'' \<notin> set (s @ ''.invoke.yaml'')" using slug_text_free(1) [OF s'] by simp
    have other: "?file \<noteq> file_at p (t @ ''.invoke.yaml'')" if "t \<in> {''folder'', ''collection''}" for p t
    proof
      have "CHR ''/'' \<notin> set (t @ ''.invoke.yaml'')" using that by auto
      moreover assume "?file = file_at p (t @ ''.invoke.yaml'')"
      ultimately have "s @ ''.invoke.yaml'' = t @ ''.invoke.yaml''" using file_at_inj slash by blast
      then show False using that s2 by auto
    qed
    have "?file \<noteq> ''collection.invoke.yaml''" using other [of "''collection''" "[]"] by (simp add: file_at_def [of "[]"])
    moreover have "?file \<noteq> folder_file h fs g" for g using other [of "''folder''"] by simp
    moreover have "fst ` set ?arch = insert ''collection.invoke.yaml'' (folder_file h fs ` set fs)" by force
    ultimately show "?file \<notin> fst ` set ?arch" by blast
  qed
  moreover have "export_collection_zip h c requests folders = Some (add_requests (folder_paths h fs) rs [] ?arch)"
    unfolding export_collection_zip_def Let_def fs_def [symmetric] rs_def [symmetric] export_folder_paths_forest [OF f]
    by (simp only: option.map files(1))
  moreover have "map snd ?arch @ map (\<lambda>r. Request_doc (flat_request_document r)) rs = exported_documents h c rs fs"
    by (simp add: exported_documents_def comp_def)
  ultimately show ?thesis unfolding fs_def [symmetric] rs_def [symmetric] by auto
qed

section \<open>What comes back\<close>

text \<open>Rows that a mapping can carry: named once, enabled, with nothing else, and no name that is an index.\<close>

definition portable_rows :: "key_value list \<Rightarrow> bool" where
  "portable_rows rows \<longleftrightarrow> distinct (map kv_key rows)
     \<and> list_all (\<lambda>r. r = kv_on (trim (kv_key r)) (kv_value r) \<and> kv_key r \<noteq> [] \<and> \<not> is_index_key (kv_key r)) rows"

lemma entries_of_distinct: "distinct (map fst kvs) \<Longrightarrow> obj_from_entries kvs = kvs"
  using fold_update_fresh [of "[]" fst kvs snd] by (simp add: obj_from_entries_def case_prod_unfold)

lemma rows_back:
  assumes "portable_rows rows"
  shows "record_to_key_values (Some (key_values_to_record rows)) = rows"
proof -
  have k: "trim (kv_key r) = kv_key r \<and> kv_active r \<and> \<not> is_index_key (kv_key r) \<and> kv_on (kv_key r) (kv_value r) = r"
    if "r \<in> set rows" for r
  proof -
    have r: "r = kv_on (trim (kv_key r)) (kv_value r)" "kv_key r \<noteq> []" "\<not> is_index_key (kv_key r)"
      using that assms by (auto simp: portable_rows_def list_all_iff)
    from arg_cong [OF r(1), of kv_key] have "trim (kv_key r) = kv_key r" by simp
    moreover from arg_cong [OF r(1), of kv_enabled] have "kv_enabled r = Some True" by simp
    ultimately show ?thesis using r by (simp add: kv_active_def)
  qed
  let ?kvs = "map (\<lambda>r. (kv_key r, kv_value r)) rows"
  have on: "filter kv_active rows = rows" using k by (simp add: filter_id_conv)
  have trimmed: "map (\<lambda>r. (trim (kv_key r), kv_value r)) rows = ?kvs" using k by simp
  have entries: "obj_from_entries ?kvs = ?kvs"
    by (rule entries_of_distinct) (use assms in \<open>simp add: portable_rows_def comp_def\<close>)
  have "property_order ?kvs = ?kvs"
    using k by (auto simp: property_order_def filter_map comp_def filter_id_conv filter_empty_conv)
  then have "key_values_to_record rows = As_record (map (\<lambda>(k, v). (k, JStr v)) ?kvs)"
    by (simp only: key_values_to_record_def on trimmed entries)
  then have "record_to_key_values (Some (key_values_to_record rows)) = map (\<lambda>r. kv_on (kv_key r) (kv_value r)) rows"
    by (simp add: record_to_key_values_def)
  also have "\<dots> = rows" using k by (simp add: map_idI)
  finally show ?thesis .
qed

text \<open>The requests a document can carry, and what of them it carries.\<close>

fun portable :: "protocol_request \<Rightarrow> bool" where
  "portable (RestRequest r) \<longleftrightarrow> portable_rows (rq_params r) \<and> portable_rows (rq_headers r)
     \<and> portable_rows (opt_rows (rq_variables r)) \<and> to_upper (rq_method r) = rq_method r
     \<and> rq_bodyMode r \<in> {BM_none, BM_json, BM_form_data, BM_urlencoded, BM_raw}"
| "portable (GraphQLRequest r) \<longleftrightarrow> portable_rows (gq_headers r) \<and> gq_query r \<noteq> []"
| "portable (GrpcRequest r) \<longleftrightarrow> portable_rows (rg_metadata r)"
| "portable (WebSocketRequest r) \<longleftrightarrow> False"

fun carried :: "protocol_request \<Rightarrow> protocol_request" where
  "carried (RestRequest r) = RestRequest (empty_request
     \<lparr>rq_method := rq_method r, rq_url := rq_url r, rq_params := rq_params r, rq_headers := rq_headers r,
      rq_bodyMode := rq_bodyMode r, rq_body := rq_body r, rq_auth := rq_auth r, rq_timeoutMs := rq_timeoutMs r,
      rq_variables := Some (opt_rows (rq_variables r))\<rparr>)"
| "carried (GraphQLRequest r) = GraphQLRequest (r
     \<lparr>gq_protocol := None, gq_operationName := Some (opt_str (gq_operationName r)), gq_assertions := None,
      gq_extractionRules := None, gq_options := None, gq_scripts := None, gq_apq := None, gq_batchMode := None,
      gq_httpMethod := None, gq_contentType := None\<rparr>)"
| "carried (GrpcRequest r) = GrpcRequest (empty_grpc_request
     \<lparr>rg_address := rg_address r, rg_service := rg_service r, rg_method := rg_method r, rg_metadata := rg_metadata r,
      rg_body := rg_body r, rg_tls := rg_tls r, rg_timeoutMs := rg_timeoutMs r,
      rg_auth := Some (auth_or_none (rg_auth r)), rg_compression := rg_compression r\<rparr>)"
| "carried (WebSocketRequest r) = WebSocketRequest r"

lemma blank_document_sel [simp]:
  "yd_request blank_document = None" "yd_body blank_document = None" "yd_graphql blank_document = None" "yd_grpc blank_document = None"
  by (simp_all add: blank_document_def)

lemma rest_back:
  assumes "portable (RestRequest r)"
  shows "RestRequest (rest_from_document (rest_document saved r)) = carried (RestRequest r)"
proof -
  have "yaml_body_to_mode (Some (body_mode_to_yaml (rq_bodyMode r))) = rq_bodyMode r"
    using assms by (auto simp: body_mode_to_yaml_def body_mode_text_def yaml_body_to_mode_def)
  moreover have "opt_str (if rq_body r = [] then None else Some (rq_body r)) = rq_body r" by (simp add: opt_str_def)
  ultimately show ?thesis using assms
    by (simp add: rest_from_document_def rest_document_def rows_back or_str_def auth_or_none_def timeout_or_default_def
        to_request_config_def empty_request_def opt_str_def opt_rows_def normalize_extraction_rules_def)
qed

lemma graphql_back:
  assumes "portable (GraphQLRequest r)"
  shows "GraphQLRequest (graphql_from_document (graphql_document saved r)) = carried (GraphQLRequest r)"
  using assms
  by (simp add: graphql_from_document_def graphql_document_def rows_back or_str_def auth_or_none_def timeout_or_default_def opt_str_def)

lemma grpc_back:
  assumes "portable (GrpcRequest r)"
  shows "GrpcRequest (grpc_from_document (grpc_document saved r)) = carried (GrpcRequest r)"
  using assms
  by (simp add: grpc_from_document_def grpc_document_def rows_back or_str_def auth_or_none_def timeout_or_default_def opt_str_def
      empty_grpc_request_def)

text \<open>A request read back: the same name and content, in the folder that its folder has become.\<close>

lemma request_back:
  assumes "portable (sr_request r)" and "saved_from_document (flat_request_document r) cid n ids rt = (r', rt')"
  shows "sr_name r' = sr_name r \<and> sr_request r' = carried (sr_request r) \<and> sr_collectionId r' = cid
    \<and> sr_folderId r' = remap_folder_id (sr_folderId r) ids"
proof -
  have "yd_request (flat_request_document r) = None"
    by (simp add: flat_request_document_def graphql_document_def grpc_document_def rest_document_def websocket_as_rest_document_def
        split: protocol_request.split)
  then show ?thesis
  proof (cases "sr_request r")
    case (RestRequest q)
    with assms rest_back [of q r] show ?thesis
      by (auto simp: saved_from_document_def flat_request_document_def read_clock_def draw_uuid_def fresh_saved_def Let_def or_str_def rest_document_def)
  next
    case (GraphQLRequest q)
    with assms graphql_back [of q r] show ?thesis
      by (auto simp: saved_from_document_def flat_request_document_def read_clock_def draw_uuid_def fresh_saved_def Let_def or_str_def graphql_document_def)
  next
    case (WebSocketRequest q)
    with assms(1) show ?thesis by simp
  next
    case (GrpcRequest q)
    with assms grpc_back [of q r] show ?thesis
      by (auto simp: saved_from_document_def flat_request_document_def read_clock_def draw_uuid_def fresh_saved_def Let_def or_str_def grpc_document_def)
  qed
qed

lemma requests_back:
  assumes "list_all (\<lambda>r. portable (sr_request r)) rs"
    and "draw_requests (map flat_request_document rs) cid n ids rt = (rs', rt')"
  shows "map sr_name rs' = map sr_name rs \<and> map sr_request rs' = map (\<lambda>r. carried (sr_request r)) rs
    \<and> map sr_folderId rs' = map (\<lambda>r. remap_folder_id (sr_folderId r) ids) rs"
  using assms
proof (induction rs arbitrary: n rt rs' rt')
  case Nil
  then show ?case by simp
next
  case (Cons r rs)
  obtain r' rt1 where r': "saved_from_document (flat_request_document r) cid n ids rt = (r', rt1)" by fastforce
  obtain rs2 rt2 where rs2: "draw_requests (map flat_request_document rs) cid (n + 1) ids rt1 = (rs2, rt2)" by fastforce
  have "rs' = r' # rs2" using Cons.prems(2) r' rs2 by simp
  with Cons.IH [OF _ rs2] request_back [OF _ r'] Cons.prems(1) show ?case by simp
qed

section \<open>The structure comes back\<close>

lemma drawn_folders:
  assumes "draw_folders ds k cid now rt = (os, rt')"
  shows "length os = length ds \<and> rt_uuid rt' = rt_uuid rt
    \<and> (\<forall>i < length ds. os ! i = (folder_from_document (ds ! i) (k + i) cid now (rt_uuid rt (rt_uuid_at rt + i)), folder_source_id (k + i) (ds ! i)))"
  using assms
proof (induction ds arbitrary: k rt os rt')
  case Nil
  then show ?case by simp
next
  case (Cons d ds)
  obtain os1 rt2 where d1: "draw_folders ds (k + 1) cid now (rt\<lparr>rt_uuid_at := Suc (rt_uuid_at rt)\<rparr>) = (os1, rt2)" by fastforce
  have os: "os = (folder_from_document d k cid now (rt_uuid rt (rt_uuid_at rt)), folder_source_id k d) # os1" "rt' = rt2"
    using Cons.prems d1 by (auto simp: draw_uuid_def)
  from Cons.IH [OF d1] show ?case by (auto simp: os nth_Cons split: nat.split)
qed

text \<open>The identifiers of folders are renamed one to one.\<close>

lemma folders_back:
  assumes "distinct (map fo_id gs)" and "inj (rt_uuid rt)"
    and "folders_from_documents (map folder_document_of gs) cid now rt = ((fs', ids), rt')"
  shows "\<exists>new. inj_on new (fo_id ` set gs) \<and> (\<forall>g \<in> set gs. map_of ids (fo_id g) = Some (new (fo_id g)))
    \<and> fs' = map (\<lambda>g. \<lparr>fo_id = new (fo_id g), fo_collectionId = cid,
          fo_parentFolderId = Option.bind (source_parent (folder_document_of g)) (map_of ids),
          fo_name = fo_name g, fo_description = fo_description g,
          fo_variables = Some (record_to_key_values (Some (key_values_to_record (opt_rows (fo_variables g))))),
          fo_sortOrder = fo_sortOrder g, fo_createdAt = now, fo_updatedAt = now\<rparr>) gs"
proof -
  obtain os rt1 where os: "draw_folders (map folder_document_of gs) 0 cid now rt = (os, rt1)" by fastforce
  note drawn = drawn_folders [OF os]
  let ?kvs = "map (\<lambda>(f, src). (src, fo_id f)) os"
  have ids: "ids = fold (\<lambda>(k, v). AList.update k v) ?kvs []" and fs': "fs' = map (\<lambda>(f, src). f\<lparr>fo_parentFolderId := Option.bind (fo_parentFolderId f) (map_of ids)\<rparr>) os"
    using assms(3) os by (auto simp: folders_from_documents_def fold_map comp_def case_prod_unfold Let_def)
  have nth: "os ! i = (folder_from_document (folder_document_of (gs ! i)) i cid now (rt_uuid rt (rt_uuid_at rt + i)), fo_id (gs ! i))"
    if "i < length gs" for i
    using drawn that by (auto simp: folder_source_id_def folder_document_of_def or_str_def)
  define new where "new k = the (map_of ids k)" for k
  have new: "map_of ids (fo_id (gs ! i)) = Some (rt_uuid rt (rt_uuid_at rt + i))" if i: "i < length gs" for i
    unfolding ids
  proof (rule fold_update_functional)
    have kv: "?kvs ! j = (fo_id (gs ! j), rt_uuid rt (rt_uuid_at rt + j))" if "j < length gs" for j
      using that nth [OF that] drawn by (simp add: folder_from_document_def)
    show "(fo_id (gs ! i), rt_uuid rt (rt_uuid_at rt + i)) \<in> set ?kvs"
      using kv [OF i] i drawn by (metis length_map nth_mem)
    fix w assume "(fo_id (gs ! i), w) \<in> set ?kvs"
    then obtain j where j: "j < length gs" "?kvs ! j = (fo_id (gs ! i), w)" using drawn by (metis in_set_conv_nth length_map)
    with kv have "fo_id (gs ! j) = fo_id (gs ! i)" "w = rt_uuid rt (rt_uuid_at rt + j)" by simp_all
    moreover have "j = i" using assms(1) i j(1) calculation(1) by (metis nth_eq_iff_index_eq length_map nth_map)
    ultimately show "w = rt_uuid rt (rt_uuid_at rt + i)" by simp
  qed
  have "inj_on new (fo_id ` set gs)"
  proof (rule inj_onI)
    fix k l assume kl: "k \<in> fo_id ` set gs" "l \<in> fo_id ` set gs" and e: "new k = new l"
    then obtain i j where i: "i < length gs" "k = fo_id (gs ! i)" and j: "j < length gs" "l = fo_id (gs ! j)"
      by (auto simp: in_set_conv_nth)
    with e new have "rt_uuid rt (rt_uuid_at rt + i) = rt_uuid rt (rt_uuid_at rt + j)" by (simp add: new_def)
    with assms(2) have "i = j" by (auto dest: injD)
    with i j show "k = l" by simp
  qed
  moreover have "\<forall>g \<in> set gs. map_of ids (fo_id g) = Some (new (fo_id g))"
    using new by (auto simp: new_def in_set_conv_nth)
  moreover have "fs' = map (\<lambda>g. \<lparr>fo_id = new (fo_id g), fo_collectionId = cid,
          fo_parentFolderId = Option.bind (source_parent (folder_document_of g)) (map_of ids),
          fo_name = fo_name g, fo_description = fo_description g,
          fo_variables = Some (record_to_key_values (Some (key_values_to_record (opt_rows (fo_variables g))))),
          fo_sortOrder = fo_sortOrder g, fo_createdAt = now, fo_updatedAt = now\<rparr>) gs"
    unfolding fs' using drawn
    by (intro nth_equalityI) (auto simp: nth new new_def folder_from_document_def folder_document_of_def or_str_def)
  ultimately show ?thesis by blast
qed

lemma docs_of_export [simp]:
  "collection_docs (exported_documents h c rs fs) = [collection_document_of c]"
  "folder_docs (exported_documents h c rs fs) = map folder_document_of (sort_folders_for_export h fs)"
  "request_docs (exported_documents h c rs fs) = map flat_request_document rs"
  by (simp_all add: collection_docs_def folder_docs_def request_docs_def exported_documents_def List.map_filter_def filter_map comp_def)


section \<open>A small collection\<close>

definition sample_collection :: collection where
  "sample_collection = \<lparr>co_id = ''c'', co_name = ''Shop API'', co_description = None, co_variables = None, co_sortOrder = None,
     co_createdAt = 1, co_updatedAt = 2\<rparr>"

definition sample_folder :: "string \<Rightarrow> string option \<Rightarrow> string \<Rightarrow> folder" where
  "sample_folder i parent name = \<lparr>fo_id = i, fo_collectionId = ''c'', fo_parentFolderId = parent, fo_name = name,
     fo_description = None, fo_variables = None, fo_sortOrder = 0, fo_createdAt = 1, fo_updatedAt = 2\<rparr>"

definition sample_saved :: "string \<Rightarrow> string option \<Rightarrow> string \<Rightarrow> saved_request" where
  "sample_saved i fid name = \<lparr>sr_id = i, sr_collectionId = ''c'', sr_folderId = fid, sr_name = name, sr_protocol = P_rest,
     sr_request = RestRequest (empty_request\<lparr>rq_headers := [kv_on ''A'' ''t'']\<rparr>), sr_requestMode = None,
     sr_sortOrder = 0, sr_createdAt = 1, sr_updatedAt = 2\<rparr>"

definition sample_folders :: "folder list" where
  "sample_folders = [sample_folder ''a'' None ''O'', sample_folder ''b'' (Some ''a'') ''N'', sample_folder ''d'' None ''o!'']"

definition sample_requests :: "saved_request list" where
  "sample_requests = [sample_saved ''r'' (Some ''b'') ''L'', sample_saved ''s'' (Some ''b'') ''l'', sample_saved ''t'' None ''P'']"

lemma sample_forest: "forest sample_folders"
  by (simp add: forest_def sample_folders_def sample_folder_def folder_chain.simps folder_by_id_def)

lemma sample_portable:
  "list_all (\<lambda>f. portable_rows (opt_rows (fo_variables f))) sample_folders"
  "list_all (\<lambda>r. portable (sr_request r) \<and> (case sr_folderId r of None \<Rightarrow> True | Some p \<Rightarrow> p \<in> set (map fo_id sample_folders))) sample_requests"
  by code_simp+

lemma sample_names:
  "filter (\<lambda>f. fo_collectionId f = co_id sample_collection) sample_folders = sample_folders"
  "list_all (\<lambda>r. slug (sr_name r) \<noteq> ''folder'' \<and> slug (sr_name r) \<noteq> ''collection'') sample_requests"
  by code_simp+

theorem export_loses_nothing_witness:
  "\<exists>arch. export_collection_zip sample_host sample_collection sample_requests sample_folders = Some arch \<and> distinct (map fst arch)
    \<and> map snd arch = exported_documents sample_host sample_collection (filter (\<lambda>r. sr_collectionId r = co_id sample_collection) sample_requests)
          (filter (\<lambda>f. fo_collectionId f = co_id sample_collection) sample_folders)"
  by (rule export_loses_nothing) (simp_all add: sample_names sample_forest)


section \<open>Where the hypotheses fail\<close>

text \<open>A folder that is its own parent: the search for its path does not end, and neither does the export.\<close>

lemma own_parent_never_ends:
  assumes "fo_parentFolderId f = Some (fo_id f)" and "fo_id f \<noteq> []"
  shows "folder_chain [f] (fo_parentFolderId f) = None"
proof (cases "folder_chain [f] (fo_parentFolderId f)")
  case (Some up)
  moreover have "folder_by_id [f] (Some (fo_id f)) = Some f" using assms(2) by (simp add: folder_by_id_def)
  ultimately have "Some up = Some (f # up)" using assms(1) folder_chain.simps [of "[f]" "fo_parentFolderId f"] by simp
  then show ?thesis by simp
qed simp

text \<open>A request named \<open>Folder\<close> is written over the document of the folder it is in.\<close>

lemma request_over_folder:
  "map fst (add_requests [(''a'', ''orders'')] [sample_saved ''r'' (Some ''a'') ''Folder''] [] [(''orders/folder.invoke.yaml'', Other_doc)])
     = [''orders/folder.invoke.yaml'']"
  by code_simp

end
