(* ===== verification/Import_Facts.thy ===== *)
theory Import_Facts
  imports Import_Insomnia Invoke_Yaml_Facts
begin

text \<open>
  The folders of an imported Postman or Hoppscotch collection form a forest, and every request is in one of them or
  at the top: the collection can be exported again. The folders of an Insomnia export need not.
\<close>

section \<open>Steps that only draw\<close>

text \<open>What reads the document and draws identifiers and times leaves the folders and requests made so far alone.\<close>

definition draws :: "'a importing \<Rightarrow> ('a \<Rightarrow> bool) \<Rightarrow> bool" where
  "draws m R \<longleftrightarrow> (\<forall>s a s'. m s = Inr (a, s') \<longrightarrow>
     is_folders s' = is_folders s \<and> is_requests s' = is_requests s \<and> rt_uuid (is_rt s') = rt_uuid (is_rt s)
     \<and> rt_uuid_at (is_rt s) \<le> rt_uuid_at (is_rt s') \<and> R a)"

named_theorems drawing

lemma drawsD:
  assumes "draws m R" and "m s = Inr (a, s')"
  shows "is_folders s' = is_folders s" "is_requests s' = is_requests s" "rt_uuid (is_rt s') = rt_uuid (is_rt s)"
    "rt_uuid_at (is_rt s) \<le> rt_uuid_at (is_rt s')" "R a"
  using assms by (auto simp: draws_def)

lemma draws_ret [drawing]: "R a \<Longrightarrow> draws (sx_ret a) R"
  by (simp add: draws_def)

lemma draws_throw [drawing]: "draws (sx_throw e) R"
  by (simp add: draws_def)

lemma draws_bind [drawing]: "draws m (\<lambda>_. True) \<Longrightarrow> (\<And>a. draws (f a) R) \<Longrightarrow> draws (sx_bind m f) R"
  by (fastforce simp: draws_def sx_bind_run split: sum.splits prod.splits)

lemma draws_if [drawing]: "draws m R \<Longrightarrow> draws n R \<Longrightarrow> draws (if b then m else n) R"
  by simp

lemma draws_pair [drawing]: "(\<And>a b. draws (f a b) R) \<Longrightarrow> draws (case p of (a, b) \<Rightarrow> f a b) R"
  by (cases p) simp

lemma draws_mapM [drawing]: "(\<And>x. draws (f x) (\<lambda>_. True)) \<Longrightarrow> draws (sx_mapM f xs) (\<lambda>_. True)"
  by (induction xs) (auto intro!: drawing)

lemma draws_new_id [drawing]: "draws new_id (\<lambda>_. True)"
  by (auto simp: draws_def new_id_def draw_uuid_def)

lemma draws_now [drawing]: "draws now_ms (\<lambda>_. True)"
  by (auto simp: draws_def now_ms_def read_clock_def)

lemma draws_count [drawing]: "draws folder_count (\<lambda>_. True)" "draws request_count (\<lambda>_. True)"
  by (auto simp: draws_def folder_count_def request_count_def)

lemma draws_get [drawing]: "draws (js_get k v) (\<lambda>_. True)"
  by (auto simp: js_get_def intro!: drawing)

lemma draws_array [drawing]: "draws (js_array p v) (\<lambda>_. True)" "draws (js_iterate p v) (\<lambda>_. True)"
  by (auto simp: js_array_def js_iterate_def intro!: drawing split: json.split)

lemma draws_text [drawing]: "draws (js_text p v) (\<lambda>_. True)"
  by (auto simp: js_text_def intro!: drawing split: json.split)

lemma draws_postman [drawing]:
  "draws (postman_vars v) (\<lambda>_. True)" "draws (method_parts m) (\<lambda>_. True)" "draws (query_row q) (\<lambda>_. True)"
  "draws (header_row q) (\<lambda>_. True)" "draws (metadata_row q) (\<lambda>_. True)" "draws (form_row q) (\<lambda>_. True)"
  "draws (urlencoded_row q) (\<lambda>_. True)" "draws (auth_entry q) (\<lambda>_. True)" "draws (graphql_variables h q) (\<lambda>_. True)"
  by (auto simp: postman_vars_def postman_var_def method_parts_def query_row_def header_row_def metadata_row_def form_row_def
      urlencoded_row_def auth_entry_def graphql_variables_def Let_def intro!: drawing split: json.split option.split)

lemma draws_postman_parts [drawing]:
  "draws (postman_graphql h g) (\<lambda>_. True)" "draws (auth_values a k) (\<lambda>_. True)"
  by (auto simp: postman_graphql_def auth_values_def Let_def intro!: drawing)

lemma draws_postman_body [drawing]: "draws (postman_body h raw) (\<lambda>_. True)"
  by (auto simp: postman_body_def Let_def intro!: drawing)

lemma draws_postman_auth [drawing]: "draws (postman_auth auth) (\<lambda>_. True)"
  by (auto simp: postman_auth_def Let_def intro!: drawing)

lemma draws_postman_items [drawing]:
  "draws (postman_grpc_item item cid fid) (\<lambda>r. ls_folderId r = fid)"
  "draws (postman_rest_item h item raw cid fid) (\<lambda>r. ls_folderId r = fid)"
  by (auto simp: postman_grpc_item_def postman_rest_item_def Let_def new_saved_def intro!: drawing)

lemma draws_hoppscotch [drawing]:
  "draws (hoppscotch_body item) (\<lambda>_. True)" "draws (hoppscotch_row p) (\<lambda>_. True)"
  by (auto simp: hoppscotch_body_def hoppscotch_row_def Let_def intro!: drawing)

lemma draws_hoppscotch_request [drawing]: "draws (hoppscotch_request cid fid item n) (\<lambda>r. ls_folderId r = fid)"
  by (auto simp: hoppscotch_request_def Let_def new_saved_def intro!: drawing)

lemma draws_hoppscotch_environments [drawing]: "draws (hoppscotch_environments now envs) (\<lambda>_. True)"
  by (auto simp: hoppscotch_environments_def hoppscotch_variables_def intro!: drawing split: json.split)

section \<open>Folders grow as a forest\<close>

definition placed_in :: "string option \<Rightarrow> loose_folder list \<Rightarrow> bool" where
  "placed_in parent fs \<longleftrightarrow> (case parent of None \<Rightarrow> True | Some p \<Rightarrow> p \<in> lf_id ` set fs)"

abbreviation placed :: "string option \<Rightarrow> import_state \<Rightarrow> bool" where
  "placed parent s \<equiv> placed_in parent (is_folders s)"

definition parents_before :: "loose_folder list \<Rightarrow> bool" where
  "parents_before fs \<longleftrightarrow> (\<forall>i < length fs. case lf_parentFolderId (fs ! i) of None \<Rightarrow> True | Some p \<Rightarrow> \<exists>j < i. lf_id (fs ! j) = p)"

lemma parents_before_snoc:
  assumes "parents_before fs" and "placed_in (lf_parentFolderId f) fs"
  shows "parents_before (fs @ [f])"
  unfolding parents_before_def
proof (intro allI impI)
  fix i assume i: "i < length (fs @ [f])"
  show "case lf_parentFolderId ((fs @ [f]) ! i) of None \<Rightarrow> True | Some p \<Rightarrow> \<exists>j < i. lf_id ((fs @ [f]) ! j) = p"
  proof (cases "lf_parentFolderId ((fs @ [f]) ! i)")
    case (Some p)
    have "\<exists>j < i. lf_id ((fs @ [f]) ! j) = p"
    proof (cases "i < length fs")
      case True
      have "case lf_parentFolderId (fs ! i) of None \<Rightarrow> True | Some p \<Rightarrow> \<exists>j < i. lf_id (fs ! j) = p"
        using assms(1) True unfolding parents_before_def by blast
      with Some True obtain j where "j < i" "lf_id (fs ! j) = p" by (auto simp: nth_append)
      with True show ?thesis by (intro exI [of _ j]) (simp add: nth_append)
    next
      case False
      with i have i': "i = length fs" by simp
      with Some assms(2) obtain j where "j < length fs" "lf_id (fs ! j) = p" by (auto simp: placed_in_def in_set_conv_nth)
      with i' show ?thesis by (intro exI [of _ j]) (simp add: nth_append)
    qed
    with Some show ?thesis by simp
  qed simp
qed

text \<open>Every folder has an identifier drawn before and its parent, if any, comes earlier in the list.\<close>

definition tidy :: "import_state \<Rightarrow> bool" where
  "tidy s \<longleftrightarrow> distinct (map lf_id (is_folders s))
     \<and> (\<forall>f \<in> set (is_folders s). \<exists>n < rt_uuid_at (is_rt s). lf_id f = rt_uuid (is_rt s) n)
     \<and> parents_before (is_folders s)
     \<and> (\<forall>r \<in> set (is_requests s). placed (ls_folderId r) s)"

definition grows :: "import_state \<Rightarrow> import_state \<Rightarrow> bool" where
  "grows s s' \<longleftrightarrow> tidy s' \<and> rt_uuid (is_rt s') = rt_uuid (is_rt s) \<and> (\<exists>more. is_folders s' = is_folders s @ more)"

lemma grows_trans: "grows s s' \<Longrightarrow> grows s' s'' \<Longrightarrow> grows s s''"
  by (auto simp: grows_def)

lemma grows_placed: "grows s s' \<Longrightarrow> placed parent s \<Longrightarrow> placed parent s'"
  by (auto simp: grows_def placed_in_def split: option.splits)

lemma draws_tidy:
  assumes "draws m R" and "m s = Inr (a, s')" and "tidy s"
  shows "grows s s'"
proof -
  note d = drawsD [OF assms(1,2)]
  have "\<exists>n < rt_uuid_at (is_rt s'). lf_id f = rt_uuid (is_rt s) n" if "f \<in> set (is_folders s)" for f
    using that assms(3) d(4) unfolding tidy_def by (meson less_le_trans)
  then show ?thesis using assms(3) by (simp add: grows_def tidy_def d)
qed

lemma push_request_grows:
  assumes "tidy s" and "placed (ls_folderId r) s" and "push_request r s = Inr (a, s')"
  shows "grows s s'"
proof -
  have s': "s' = s\<lparr>is_requests := is_requests s @ [r]\<rparr>" using assms(3) by (simp add: push_request_def)
  show ?thesis using assms(1,2) by (auto simp: grows_def tidy_def s')
qed

lemma push_folder_grows:
  assumes "tidy s" and "placed (lf_parentFolderId f) s" and "inj (rt_uuid (is_rt s))"
    and "lf_id f = rt_uuid (is_rt s) n" and "n < rt_uuid_at (is_rt s)" and "lf_id f \<notin> lf_id ` set (is_folders s)"
    and "push_folder f s = Inr (a, s')"
  shows "grows s s' \<and> placed (Some (lf_id f)) s'"
proof -
  have s': "s' = s\<lparr>is_folders := is_folders s @ [f]\<rparr>" using assms(7) by (simp add: push_folder_def)
  have "placed p s \<Longrightarrow> placed p s'" for p by (auto simp: placed_in_def s' split: option.splits)
  then have req: "\<forall>r \<in> set (is_requests s'). placed (ls_folderId r) s'" using assms(1) by (simp add: tidy_def s')
  have parent: "parents_before (is_folders s')"
    using parents_before_snoc [OF _ assms(2)] assms(1) by (simp add: tidy_def s')
  have "distinct (map lf_id (is_folders s'))" using assms(1,6) by (simp add: tidy_def s')
  moreover have "\<exists>n < rt_uuid_at (is_rt s'). lf_id g = rt_uuid (is_rt s') n" if "g \<in> set (is_folders s')" for g
  proof (cases "g = f")
    case True
    then show ?thesis using assms(4,5) by (auto simp: s')
  next
    case False
    then show ?thesis using that assms(1) by (auto simp: tidy_def s')
  qed
  ultimately have "tidy s'" using req parent unfolding tidy_def by blast
  then show ?thesis by (auto simp: grows_def placed_in_def s')
qed

text \<open>An identifier drawn just now is not that of a folder.\<close>

lemma fresh_folder_grows:
  assumes "tidy s" and "inj (rt_uuid (is_rt s))" and "placed parent s" and "new_id s = Inr (i, s1)"
    and "is_folders s2 = is_folders s1" and "grows s1 s2" and "rt_uuid_at (is_rt s1) \<le> rt_uuid_at (is_rt s2)"
    and "lf_id f = i" and "lf_parentFolderId f = parent" and "push_folder f s2 = Inr (a, s')"
  shows "grows s s' \<and> placed (Some i) s'"
proof -
  have i: "i = rt_uuid (is_rt s) (rt_uuid_at (is_rt s))" and s1: "is_folders s1 = is_folders s" "rt_uuid (is_rt s1) = rt_uuid (is_rt s)"
    "rt_uuid_at (is_rt s1) = Suc (rt_uuid_at (is_rt s))"
    using assms(4) by (auto simp: new_id_def draw_uuid_def)
  have "grows s s1" by (rule draws_tidy [OF draws_new_id assms(4,1)])
  then have g2: "grows s s2" using assms(6) by (rule grows_trans)
  have u: "rt_uuid (is_rt s2) = rt_uuid (is_rt s)" using g2 by (simp add: grows_def)
  have "lf_id f \<notin> lf_id ` set (is_folders s2)"
  proof
    assume "lf_id f \<in> lf_id ` set (is_folders s2)"
    then obtain g where g: "g \<in> set (is_folders s)" "lf_id f = lf_id g" using assms(5) s1(1) by auto
    then obtain n where "n < rt_uuid_at (is_rt s)" "lf_id g = rt_uuid (is_rt s) n" using assms(1) unfolding tidy_def by blast
    with g(2) assms(2,8) i show False by (auto dest: injD)
  qed
  moreover have "rt_uuid_at (is_rt s) < rt_uuid_at (is_rt s2)" using assms(7) s1(3) by simp
  ultimately have "grows s2 s' \<and> placed (Some (lf_id f)) s'"
    using push_folder_grows [of s2 f "rt_uuid_at (is_rt s)" a s'] g2 assms grows_placed [OF g2 assms(3)] i u
    by (simp add: grows_def)
  then show ?thesis using grows_trans [OF g2] assms(8) by blast
qed

lemma push_group_grows:
  assumes "tidy s" and "inj (rt_uuid (is_rt s))" and "placed parent s" and "push_group cid now item parent s = Inr (i, s')"
  shows "grows s s' \<and> placed (Some i) s'"
proof -
  from assms(4) obtain s1 vars s2 n s3 a where steps: "new_id s = Inr (i, s1)" "postman_vars (json_field item ''variable'') s1 = Inr (vars, s2)"
    "folder_count s2 = Inr (n, s3)"
    and push: "push_folder (new_folder i cid parent (coalesce (json_field item ''name'') (JStr ''Imported folder'')) vars (now + n) now) s3 = Inr (a, s')"
    by (auto simp: push_group_def elim!: sx_bind_InrE)
  have g1: "grows s s1" by (rule draws_tidy [OF draws_new_id steps(1) assms(1)])
  have g2: "grows s1 s2" by (rule draws_tidy [OF draws_postman(1) steps(2)]) (use g1 in \<open>simp add: grows_def\<close>)
  have g3: "grows s2 s3" by (rule draws_tidy [OF draws_count(1) steps(3)]) (use g2 in \<open>simp add: grows_def\<close>)
  show ?thesis
    by (rule fresh_folder_grows [OF assms(1-3) steps(1) _ grows_trans [OF g2 g3] _ _ _ push])
      (use drawsD [OF draws_postman(1) steps(2)] drawsD [OF draws_count(1) steps(3)] in \<open>auto simp: new_folder_def\<close>)
qed

lemma push_named_grows:
  assumes "tidy s" and "inj (rt_uuid (is_rt s))" and "placed parent s" and "push_named cid now name parent s = Inr (i, s')"
  shows "grows s s' \<and> placed (Some i) s'"
proof -
  from assms(4) obtain s1 n s3 a where steps: "new_id s = Inr (i, s1)" "folder_count s1 = Inr (n, s3)"
    and push: "push_folder (new_folder i cid parent (coalesce name (JStr ''Imported folder'')) [] (now + n) now) s3 = Inr (a, s')"
    by (auto simp: push_named_def elim!: sx_bind_InrE)
  have g1: "grows s s1" by (rule draws_tidy [OF draws_new_id steps(1) assms(1)])
  have g3: "grows s1 s3" by (rule draws_tidy [OF draws_count(1) steps(2)]) (use g1 in \<open>simp add: grows_def\<close>)
  show ?thesis
    by (rule fresh_folder_grows [OF assms(1-3) steps(1) _ g3 _ _ _ push])
      (use drawsD [OF draws_count(1) steps(2)] in \<open>auto simp: new_folder_def\<close>)
qed

lemma drawn_request_grows:
  assumes "tidy s" and "draws m (\<lambda>r. ls_folderId r = fid)" and "placed fid s" and "sx_bind m push_request s = Inr (a, s')"
  shows "grows s s'"
proof -
  from assms(4) obtain r s1 where r: "m s = Inr (r, s1)" "push_request r s1 = Inr (a, s')" by (auto elim!: sx_bind_InrE)
  have g: "grows s s1" by (rule draws_tidy [OF assms(2) r(1) assms(1)])
  have "ls_folderId r = fid" by (rule drawsD(5) [OF assms(2) r(1)])
  then have "grows s1 s'" using push_request_grows [OF _ _ r(2)] g grows_placed [OF g assms(3)] by (simp add: grows_def)
  with g show ?thesis by (rule grows_trans)
qed

lemma visit_request_grows:
  assumes "tidy s" and "placed fid s" and "visit_request h cid item fid s = Inr (a, s')"
  shows "grows s s'"
  using assms(3) drawn_request_grows [OF assms(1) draws_postman_items(1) assms(2)] drawn_request_grows [OF assms(1) draws_postman_items(2) assms(2)]
    assms(1)
  by (auto simp: visit_request_def Let_def grows_def split: if_splits)

lemma grows_refl: "tidy s \<Longrightarrow> grows s s"
  by (simp add: grows_def)

lemma visit_grows:
  assumes "tidy s" and "inj (rt_uuid (is_rt s))" and "placed parent s" and "visit h cid now items parent s = Inr (a, s')"
  shows "grows s s'"
  using assms
proof (induction h cid now items parent arbitrary: s a s' rule: visit.induct)
  case (1 h cid now parent)
  then show ?case by (auto simp: visit.simps intro: grows_refl)
next
  case (2 h cid now item items parent)
  from "2.prems"(4) obtain sub s1 fid s2 b s3 where get: "js_get ''item'' (Some item) s = Inr (sub, s1)"
    and group: "(if json_truthy sub
              then sx_bind (push_group cid now item parent) (\<lambda>i.
                   sx_bind (case json_field item ''item'' of
                              Some (JArr subs) \<Rightarrow> visit h cid now subs (Some i)
                            | Some (JStr s) \<Rightarrow> sx_ret ()
                            | _ \<Rightarrow> sx_throw (type_error ''iterator'')) (\<lambda>_.
                   sx_ret (Some i)))
              else sx_ret parent) s1 = Inr (fid, s2)"
    and req: "visit_request h cid item fid s2 = Inr (b, s3)" and rest: "visit h cid now items parent s3 = Inr (a, s')"
    by (auto simp: visit.simps elim!: sx_bind_InrE)
  have g1: "grows s s1" by (rule draws_tidy [OF draws_get get "2.prems"(1)])
  have t1: "tidy s1" "inj (rt_uuid (is_rt s1))" "placed parent s1"
    using g1 "2.prems"(2) grows_placed [OF g1 "2.prems"(3)] by (simp_all add: grows_def)
  have g2: "grows s1 s2 \<and> placed fid s2"
  proof (cases "json_truthy sub")
    case False
    then show ?thesis using group t1 by (auto intro: grows_refl)
  next
    case True
    with group obtain i s4 c where push: "push_group cid now item parent s1 = Inr (i, s4)" and fid: "fid = Some i"
      and subs: "(case json_field item ''item'' of
                              Some (JArr subs) \<Rightarrow> visit h cid now subs (Some i)
                            | Some (JStr s) \<Rightarrow> sx_ret ()
                            | _ \<Rightarrow> sx_throw (type_error ''iterator'')) s4 = Inr (c, s2)"
      by (auto elim!: sx_bind_InrE)
    note g4 = push_group_grows [OF t1 push]
    have t4: "tidy s4" "inj (rt_uuid (is_rt s4))" using g4 t1(2) by (simp_all add: grows_def)
    have "grows s4 s2"
    proof (cases "json_field item ''item''")
      case None
      with subs show ?thesis by simp
    next
      case (Some v)
      show ?thesis
      proof (cases v)
        case (JArr vs)
        have run: "visit h cid now vs (Some i) s4 = Inr (c, s2)" using Some JArr subs by simp
        from "2.IH"(1) [OF True Some JArr t4 _ run] g4 show ?thesis by blast
      qed (use Some subs t4 in \<open>auto intro: grows_refl\<close>)
    qed
    then show ?thesis using g4 grows_placed grows_trans fid by blast
  qed
  have g3: "grows s2 s3" using visit_request_grows [OF _ _ req] g2 by (simp add: grows_def)
  have g: "grows s s3" using g1 g2 g3 grows_trans by blast
  then have "tidy s3" "inj (rt_uuid (is_rt s3))" "placed parent s3"
    using "2.prems"(2,3) grows_placed by (auto simp: grows_def)
  from "2.IH"(2) [OF this rest] g show ?case using grows_trans by blast
qed

lemma visit_requests_grows:
  assumes "tidy s" and "placed fid s" and "visit_requests cid now fid items s = Inr (a, s')"
  shows "grows s s'"
  using assms
proof (induction items arbitrary: s)
  case Nil
  then show ?case by (auto intro: grows_refl)
next
  case (Cons item items)
  from Cons.prems(3) obtain n s1 r s2 b s3 where c: "request_count s = Inr (n, s1)" and r: "hoppscotch_request cid fid item (now + n) s1 = Inr (r, s2)"
    and p: "push_request r s2 = Inr (b, s3)" and rest: "visit_requests cid now fid items s3 = Inr (a, s')"
    by (auto elim!: sx_bind_InrE)
  have g1: "grows s s1" by (rule draws_tidy [OF draws_count(2) c Cons.prems(1)])
  have "sx_bind (hoppscotch_request cid fid item (now + n)) push_request s1 = Inr (b, s3)" by (simp add: sx_bind_run r p)
  then have "grows s1 s3" using drawn_request_grows [OF _ draws_hoppscotch_request] g1 grows_placed [OF g1 Cons.prems(2)] by (auto simp: grows_def)
  with g1 have g: "grows s s3" by (rule grows_trans)
  then have "grows s3 s'" using Cons.IH [OF _ _ rest] grows_placed [OF g Cons.prems(2)] by (simp add: grows_def)
  with g show ?case by (rule grows_trans)
qed

lemma blank_folders_grows:
  assumes "tidy s" and "inj (rt_uuid (is_rt s))" and "placed parent s" and "blank_folders cid now parent t s = Inr (a, s')"
  shows "grows s s'"
  using assms
proof (induction t arbitrary: s)
  case Nil
  then show ?case by (auto intro: grows_refl)
next
  case (Cons c t)
  from Cons.prems(4) obtain i s1 where p: "push_named cid now None parent s = Inr (i, s1)" and rest: "blank_folders cid now parent t s1 = Inr (a, s')"
    by (auto elim!: sx_bind_InrE)
  have g: "grows s s1" using push_named_grows [OF Cons.prems(1-3) p] by simp
  then have "grows s1 s'" using Cons.IH [OF _ _ _ rest] Cons.prems(2) grows_placed [OF g Cons.prems(3)] by (simp add: grows_def)
  with g show ?case by (rule grows_trans)
qed

lemma visit_folders_grows:
  assumes "tidy s" and "inj (rt_uuid (is_rt s))" and "placed parent s" and "visit_folders cid now parent nodes s = Inr (a, s')"
  shows "grows s s'"
  using assms
proof (induction cid now parent nodes arbitrary: s a s' rule: visit_folders.induct)
  case (1 cid now parent)
  then show ?case by (auto simp: visit_folders.simps intro: grows_refl)
next
  case (2 cid now parent node nodes)
  from "2.prems"(4) obtain i s1 items s2 b s3 c s4 where
    p: "push_named cid now (js_opt ''name'' (Some node)) parent s = Inr (i, s1)"
    and it: "js_iterate ''iterator'' (js_opt ''requests'' (Some node)) s1 = Inr (items, s2)"
    and rq: "visit_requests cid now (Some i) items s2 = Inr (b, s3)"
    and subs: "(case js_opt ''folders'' (Some node) of
                None \<Rightarrow> sx_ret () | Some JNull \<Rightarrow> sx_ret ()
              | Some (JArr subs) \<Rightarrow> visit_folders cid now (Some i) subs
              | Some (JStr s) \<Rightarrow> blank_folders cid now (Some i) s
              | _ \<Rightarrow> sx_throw (type_error ''iterator'')) s3 = Inr (c, s4)"
    and rest: "visit_folders cid now parent nodes s4 = Inr (a, s')"
    by (auto simp: visit_folders.simps elim!: sx_bind_InrE)
  have g1: "grows s s1 \<and> placed (Some i) s1" by (rule push_named_grows [OF "2.prems"(1-3) p])
  have g2: "grows s1 s2" by (rule draws_tidy [OF draws_array(2) it]) (use g1 in \<open>simp add: grows_def\<close>)
  have g3: "grows s2 s3" using visit_requests_grows [OF _ _ rq] g2 grows_placed [OF g2] g1 by (simp add: grows_def)
  have g: "grows s s3" using g1 g2 g3 grows_trans by blast
  have t3: "tidy s3" "inj (rt_uuid (is_rt s3))" using g "2.prems"(2) by (simp_all add: grows_def)
  have p3: "placed (Some i) s3" using grows_placed [OF g3 grows_placed [OF g2]] g1 by blast
  have g4: "grows s3 s4"
  proof (cases "js_opt ''folders'' (Some node)")
    case None
    with subs t3 show ?thesis by (auto intro: grows_refl)
  next
    case (Some v)
    show ?thesis
    proof (cases v)
      case (JArr vs)
      have run: "visit_folders cid now (Some i) vs s3 = Inr (c, s4)" using Some JArr subs by simp
      from "2.IH"(1) [OF Some JArr t3 p3 run] show ?thesis .
    next
      case (JStr w)
      with Some subs show ?thesis using blank_folders_grows [OF t3 p3] by simp
    qed (use Some subs t3 in \<open>auto intro: grows_refl\<close>)
  qed
  have g': "grows s s4" using g g4 grows_trans by blast
  then have "tidy s4" "inj (rt_uuid (is_rt s4))" "placed parent s4"
    using "2.prems"(2,3) grows_placed by (auto simp: grows_def)
  from "2.IH"(2) [OF this rest] g' show ?case using grows_trans by blast
qed

section \<open>A forest\<close>

text \<open>A folder as it is stored, with the text of its name.\<close>

definition typed_folder :: "loose_folder \<Rightarrow> folder" where
  "typed_folder f = \<lparr>fo_id = lf_id f, fo_collectionId = lf_collectionId f, fo_parentFolderId = lf_parentFolderId f,
     fo_name = json_to_string (lf_name f), fo_description = None, fo_variables = None, fo_sortOrder = lf_sortOrder f,
     fo_createdAt = lf_createdAt f, fo_updatedAt = lf_updatedAt f\<rparr>"

lemma typed_folder_sel [simp]: "fo_id (typed_folder f) = lf_id f" "fo_parentFolderId (typed_folder f) = lf_parentFolderId f"
  by (simp_all add: typed_folder_def)

lemma parents_before_forest:
  assumes "distinct (map lf_id fs)" and "parents_before fs" and "\<And>f. f \<in> set fs \<Longrightarrow> lf_id f \<noteq> []"
  shows "forest (map typed_folder fs)"
proof -
  let ?fs = "map typed_folder fs"
  have ends: "folder_chain ?fs (lf_parentFolderId (fs ! i)) \<noteq> None
      \<and> (case lf_parentFolderId (fs ! i) of None \<Rightarrow> True | Some p \<Rightarrow> p \<in> set (map fo_id ?fs))" if "i < length fs" for i
    using that
  proof (induction i rule: less_induct)
    case (less i)
    show ?case
    proof (cases "lf_parentFolderId (fs ! i)")
      case None
      then show ?thesis by (simp add: folder_chain.simps folder_by_id_def)
    next
      case (Some p)
      have "case lf_parentFolderId (fs ! i) of None \<Rightarrow> True | Some p \<Rightarrow> \<exists>j < i. lf_id (fs ! j) = p"
        using assms(2) less.prems unfolding parents_before_def by blast
      with Some obtain j where j: "j < i" "lf_id (fs ! j) = p" by auto
      with less.prems have len: "j < length fs" and p: "p \<noteq> []" using assms(3) [of "fs ! j"] by auto
      have "typed_folder (fs ! j) \<in> set (rev ?fs)" "Some (fo_id (typed_folder (fs ! j))) = Some p" using len j(2) by simp_all
      then have "find (\<lambda>f. Some (fo_id f) = Some p) (rev ?fs) \<noteq> None" unfolding find_None_iff by blast
      then obtain g where g: "folder_by_id ?fs (Some p) = Some g" using p by (auto simp: folder_by_id_def)
      from folder_by_id_member [OF g] have gm: "g \<in> typed_folder ` set fs" and gp: "fo_id g = p" by simp_all
      from gm obtain x where x: "g = typed_folder x" "x \<in> set fs" by (rule imageE)
      from gp have xp: "lf_id x = p" by (simp add: x(1))
      have inj: "inj_on lf_id (set fs)" using assms(1) by (simp add: distinct_map)
      have "lf_id x = lf_id (fs ! j)" using xp j(2) by simp
      from inj_onD [OF inj this x(2)] len have "x = fs ! j" by simp
      with x(1) have "g = typed_folder (fs ! j)" by simp
      then have "folder_chain ?fs (fo_parentFolderId g) \<noteq> None" using less.IH [OF j(1) len] by simp
      then show ?thesis using Some g len j(2) by (auto simp: folder_chain.simps [of ?fs "Some p"])
    qed
  qed
  have each: "fo_id g \<noteq> [] \<and> folder_chain ?fs (fo_parentFolderId g) \<noteq> None
      \<and> (case fo_parentFolderId g of None \<Rightarrow> True | Some p \<Rightarrow> p \<in> set (map fo_id ?fs))" if "g \<in> set ?fs" for g
  proof -
    from that obtain i where i: "i < length fs" "g = typed_folder (fs ! i)" by (auto simp: in_set_conv_nth)
    have "lf_id (fs ! i) \<noteq> []" using assms(3) i(1) by simp
    with ends [OF i(1)] show ?thesis unfolding i(2) typed_folder_sel by blast
  qed
  have "distinct (map fo_id ?fs)" using assms(1) by (simp add: comp_def)
  then show ?thesis unfolding forest_def list_all_iff using each by blast
qed

lemma tidy_start: "tidy (import_start rt)" "placed None s"
  by (simp_all add: tidy_def import_start_def parents_before_def placed_in_def)

lemma import_postman_tidy:
  assumes "inj (rt_uuid rt)" and "import_postman h doc (import_start rt) = Inr (im, s)"
  shows "grows (import_start rt) s \<and> li_folders im = is_folders s \<and> li_requests im = is_requests s"
proof -
  from assms(2) obtain now s1 cid s2 vars s3 items s4 where d: "now_ms (import_start rt) = Inr (now, s1)" "new_id s1 = Inr (cid, s2)"
    "postman_vars (js_opt ''variable'' (Some doc)) s2 = Inr (vars, s3)" "js_iterate ''iterator'' (js_opt ''item'' (Some doc)) s3 = Inr (items, s4)"
    and v: "visit h cid now items None s4 = Inr ((), s)" and im: "li_folders im = is_folders s \<and> li_requests im = is_requests s"
    by (auto simp: import_postman_def elim!: sx_bind_InrE)
  have g1: "grows (import_start rt) s1" by (rule draws_tidy [OF draws_now d(1) tidy_start(1)])
  have g2: "grows s1 s2" by (rule draws_tidy [OF draws_new_id d(2)]) (use g1 in \<open>simp add: grows_def\<close>)
  have g3: "grows s2 s3" by (rule draws_tidy [OF draws_postman(1) d(3)]) (use g2 in \<open>simp add: grows_def\<close>)
  have g4: "grows s3 s4" by (rule draws_tidy [OF draws_array(2) d(4)]) (use g3 in \<open>simp add: grows_def\<close>)
  have g: "grows (import_start rt) s4" using g1 g2 g3 g4 grows_trans by blast
  then have "grows s4 s" using visit_grows [OF _ _ tidy_start(2) v] assms(1) by (simp add: grows_def import_start_def)
  with g im show ?thesis using grows_trans by blast
qed

lemma import_hoppscotch_tidy:
  assumes "inj (rt_uuid rt)" and "import_hoppscotch doc (import_start rt) = Inr (im, s)"
  shows "grows (import_start rt) s \<and> li_folders im = is_folders s \<and> li_requests im = is_requests s"
proof -
  from assms(2) obtain now s1 cid s2 node items s3 a s4 fv b s5 ev envs s6 es where d: "now_ms (import_start rt) = Inr (now, s1)" "new_id s1 = Inr (cid, s2)"
    "js_iterate ''iterator'' node s2 = Inr (items, s3)" and rq: "visit_requests cid now None items s3 = Inr (a, s4)"
    and subs: "(case fv of
                None \<Rightarrow> sx_ret () | Some JNull \<Rightarrow> sx_ret ()
              | Some (JArr subs) \<Rightarrow> visit_folders cid now None subs
              | Some (JStr s) \<Rightarrow> blank_folders cid now None s
              | _ \<Rightarrow> sx_throw (type_error ''iterator'')) s4 = Inr (b, s5)"
    and e: "js_array ''filter'' ev s5 = Inr (envs, s6)" "hoppscotch_environments now envs s6 = Inr (es, s)"
    and im: "li_folders im = is_folders s \<and> li_requests im = is_requests s"
    by (auto simp: import_hoppscotch_def Let_def elim!: sx_bind_InrE)
  have g1: "grows (import_start rt) s1" by (rule draws_tidy [OF draws_now d(1) tidy_start(1)])
  have g2: "grows s1 s2" by (rule draws_tidy [OF draws_new_id d(2)]) (use g1 in \<open>simp add: grows_def\<close>)
  have g3: "grows s2 s3" by (rule draws_tidy [OF draws_array(2) d(3)]) (use g2 in \<open>simp add: grows_def\<close>)
  have g4: "grows s3 s4" by (rule visit_requests_grows [OF _ tidy_start(2) rq]) (use g3 in \<open>simp add: grows_def\<close>)
  have g: "grows (import_start rt) s4" using g1 g2 g3 g4 grows_trans by blast
  then have t: "tidy s4" "inj (rt_uuid (is_rt s4))" using assms(1) by (simp_all add: grows_def import_start_def)
  have g5: "grows s4 s5"
  proof (cases fv)
    case None
    with subs t show ?thesis by (auto intro: grows_refl)
  next
    case (Some v)
    show ?thesis
    proof (cases v)
      case (JArr vs)
      then have "visit_folders cid now None vs s4 = Inr (b, s5)" using subs Some by simp
      from visit_folders_grows [OF t tidy_start(2) this] show ?thesis .
    next
      case (JStr w)
      then have "blank_folders cid now None w s4 = Inr (b, s5)" using subs Some by simp
      from blank_folders_grows [OF t tidy_start(2) this] show ?thesis .
    qed (use Some subs t in \<open>auto intro: grows_refl\<close>)
  qed
  have g6: "grows s5 s6" by (rule draws_tidy [OF draws_array(1) e(1)]) (use g5 in \<open>simp add: grows_def\<close>)
  have g7: "grows s6 s" by (rule draws_tidy [OF draws_hoppscotch_environments e(2)]) (use g6 in \<open>simp add: grows_def\<close>)
  from g g5 g6 g7 im show ?thesis using grows_trans by blast
qed

text \<open>
  C23: whatever document a Postman or Hoppscotch import accepts, the folders it makes form a forest (their identifiers
  are different, every parent is one of them and no folder is above itself), and every request is at the top or in
  one of these folders. So the search for the path of a folder always ends, and the collection can be exported.
\<close>

theorem imports_make_forests:
  assumes "run \<in> {import_postman h doc, import_hoppscotch doc}" and "run (import_start rt) = Inr (im, s)"
    and "inj (rt_uuid rt)" and "\<And>n. rt_uuid rt n \<noteq> []"
  shows "forest (map typed_folder (li_folders im))
    \<and> list_all (\<lambda>r. ls_folderId r = None \<or> ls_folderId r \<in> Some ` lf_id ` set (li_folders im)) (li_requests im)"
proof -
  have "grows (import_start rt) s \<and> li_folders im = is_folders s \<and> li_requests im = is_requests s"
    using assms(1-3) import_postman_tidy import_hoppscotch_tidy by blast
  then have t: "tidy s" "rt_uuid (is_rt s) = rt_uuid rt" and im: "li_folders im = is_folders s" "li_requests im = is_requests s"
    by (auto simp: grows_def import_start_def)
  have "lf_id f \<noteq> []" if "f \<in> set (is_folders s)" for f
    using t that assms(4) unfolding tidy_def by metis
  then have "forest (map typed_folder (is_folders s))"
    using parents_before_forest t(1) by (auto simp: tidy_def)
  moreover have "list_all (\<lambda>r. ls_folderId r = None \<or> ls_folderId r \<in> Some ` lf_id ` set (is_folders s)) (is_requests s)"
    unfolding list_all_iff
  proof
    fix r assume "r \<in> set (is_requests s)"
    then have "placed (ls_folderId r) s" using t(1) by (simp add: tidy_def)
    then show "ls_folderId r = None \<or> ls_folderId r \<in> Some ` lf_id ` set (is_folders s)"
      by (cases "ls_folderId r") (auto simp: placed_in_def)
  qed
  ultimately show ?thesis by (simp add: im)
qed

section \<open>Nothing is left out\<close>

text \<open>The items of a Postman collection that hold a request, an item's own items before it.\<close>

function (sequential) request_items :: "json list \<Rightarrow> json list" where
  "request_items [] = []"
| "request_items (item # items) =
     (case json_field item ''item'' of Some (JArr subs) \<Rightarrow> request_items subs | _ \<Rightarrow> [])
     @ (if json_truthy (json_field item ''request'') then [item] else []) @ request_items items"
  by pat_completeness auto

termination
  by (relation "measure (size_list size)") (auto dest: json_field_size)

declare request_items.simps [simp del]

text \<open>A request made from an item has the name of the item, when that has one.\<close>

definition made_from :: "json \<Rightarrow> loose_saved \<Rightarrow> bool" where
  "made_from item r \<longleftrightarrow> nullish (json_field item ''name'') \<or> Some (ls_name r) = json_field item ''name''"

lemma made_from_new: "made_from item (new_saved i cid fid (coalesce (json_field item ''name'') d) q n m)"
  by (auto simp: made_from_def new_saved_def coalesce_def nullish_def)

lemma draws_made [drawing]:
  "draws (postman_grpc_item item cid fid) (made_from item)" "draws (postman_rest_item h item raw cid fid) (made_from item)"
  by (auto simp: postman_grpc_item_def postman_rest_item_def Let_def made_from_new intro!: drawing)

definition adds_requests :: "json list \<Rightarrow> import_state \<Rightarrow> import_state \<Rightarrow> bool" where
  "adds_requests items s s' \<longleftrightarrow> (\<exists>more. is_requests s' = is_requests s @ more \<and> list_all2 made_from items more)"

lemma adds_trans: "adds_requests xs s s1 \<Longrightarrow> adds_requests ys s1 s2 \<Longrightarrow> adds_requests (xs @ ys) s s2"
  by (fastforce simp: adds_requests_def intro: list_all2_appendI)

lemma adds_none: "is_requests s' = is_requests s \<Longrightarrow> adds_requests [] s s'"
  by (simp add: adds_requests_def)

lemma push_group_requests: "push_group cid now item parent s = Inr (i, s') \<Longrightarrow> is_requests s' = is_requests s"
  by (auto simp: push_group_def push_folder_def drawsD(2) [OF draws_new_id] drawsD(2) [OF draws_postman(1)] drawsD(2) [OF draws_count(1)]
      elim!: sx_bind_InrE)

lemma visit_request_adds:
  assumes "visit_request h cid item fid s = Inr (a, s')"
  shows "adds_requests (if json_truthy (json_field item ''request'') then [item] else []) s s'"
proof -
  have one: "adds_requests [item] s s'" if d: "draws m (made_from item)" and r: "sx_bind m push_request s = Inr (a, s')" for m
  proof -
    from r obtain q s1 where q: "m s = Inr (q, s1)" "push_request q s1 = Inr (a, s')" by (auto elim!: sx_bind_InrE)
    then show ?thesis using drawsD(2,5) [OF d q(1)] by (auto simp: adds_requests_def push_request_def)
  qed
  from assms one [OF draws_made(1)] one [OF draws_made(2)] show ?thesis
    by (auto simp: visit_request_def Let_def adds_none split: if_splits)
qed

lemma visit_adds: "visit h cid now items parent s = Inr (a, s') \<Longrightarrow> adds_requests (request_items items) s s'"
proof (induction h cid now items parent arbitrary: s a s' rule: visit.induct)
  case (1 h cid now parent)
  then show ?case by (auto simp: visit.simps request_items.simps intro: adds_none)
next
  case (2 h cid now item items parent)
  from "2.prems" obtain sub s1 fid s2 b s3 where get: "js_get ''item'' (Some item) s = Inr (sub, s1)"
    and group: "(if json_truthy sub
              then sx_bind (push_group cid now item parent) (\<lambda>i.
                   sx_bind (case json_field item ''item'' of
                              Some (JArr subs) \<Rightarrow> visit h cid now subs (Some i)
                            | Some (JStr s) \<Rightarrow> sx_ret ()
                            | _ \<Rightarrow> sx_throw (type_error ''iterator'')) (\<lambda>_.
                   sx_ret (Some i)))
              else sx_ret parent) s1 = Inr (fid, s2)"
    and req: "visit_request h cid item fid s2 = Inr (b, s3)" and rest: "visit h cid now items parent s3 = Inr (a, s')"
    by (auto simp: visit.simps elim!: sx_bind_InrE)
  have sub: "sub = json_field item ''item''" and s1: "is_requests s1 = is_requests s"
    using get by (auto simp: js_get_def split: if_splits)
  have "adds_requests (case json_field item ''item'' of Some (JArr subs) \<Rightarrow> request_items subs | _ \<Rightarrow> []) s s2"
  proof (cases "json_truthy sub")
    case False
    then show ?thesis using group s1 sub by (auto simp: json_truthy_def intro: adds_none split: option.splits json.splits)
  next
    case True
    with group obtain i s4 c where push: "push_group cid now item parent s1 = Inr (i, s4)"
      and subs: "(case json_field item ''item'' of
                              Some (JArr subs) \<Rightarrow> visit h cid now subs (Some i)
                            | Some (JStr s) \<Rightarrow> sx_ret ()
                            | _ \<Rightarrow> sx_throw (type_error ''iterator'')) s4 = Inr (c, s2)"
      by (auto elim!: sx_bind_InrE)
    have s4: "is_requests s4 = is_requests s" using push_group_requests [OF push] s1 by simp
    show ?thesis
    proof (cases "json_field item ''item''")
      case None
      with subs show ?thesis by simp
    next
      case (Some v)
      show ?thesis
      proof (cases v)
        case (JArr vs)
        have run: "visit h cid now vs (Some i) s4 = Inr (c, s2)" using Some JArr subs by simp
        from "2.IH"(1) [OF True Some JArr run] s4 Some JArr show ?thesis by (simp add: adds_requests_def)
      qed (use Some subs s4 in \<open>auto intro: adds_none\<close>)
    qed
  qed
  from adds_trans [OF adds_trans [OF this visit_request_adds [OF req]] "2.IH"(2) [OF rest]] show ?case
    by (simp add: request_items.simps)
qed

text \<open>
  C24: a Postman import leaves nothing out. When it succeeds, its requests are, one for one and in the order of the
  document, those of the items that hold a request at any depth, and each has the name of its item when that has one.
\<close>

theorem postman_import_complete:
  assumes "json_field doc ''item'' = Some (JArr items)" and "import_postman h doc (import_start rt) = Inr (im, s)"
  shows "list_all2 made_from (request_items items) (li_requests im)"
proof -
  have "js_opt ''item'' (Some doc) = Some (JArr items)" using assms(1) by (auto simp: js_opt_def nullish_def json_field_def split: json.splits)
  with assms(2) obtain now s1 cid s2 vars s3 where d: "now_ms (import_start rt) = Inr (now, s1)" "new_id s1 = Inr (cid, s2)"
    "postman_vars (js_opt ''variable'' (Some doc)) s2 = Inr (vars, s3)" and v: "visit h cid now items None s3 = Inr ((), s)"
    and im: "li_requests im = is_requests s"
    by (auto simp: import_postman_def js_iterate_def nullish_def elim!: sx_bind_InrE)
  have "is_requests s3 = []"
    using drawsD(2) [OF draws_now d(1)] drawsD(2) [OF draws_new_id d(2)] drawsD(2) [OF draws_postman(1) d(3)] by (simp add: import_start_def)
  with visit_adds [OF v] im show ?thesis by (simp add: adds_requests_def)
qed

section \<open>Examples\<close>

definition unary_runtime :: runtime where
  "unary_runtime = sample_runtime\<lparr>rt_uuid := \<lambda>n. replicate (Suc n) CHR ''x''\<rparr>"

lemma unary_ids: "inj (rt_uuid unary_runtime)" "rt_uuid unary_runtime n \<noteq> []"
  by (auto simp: unary_runtime_def inj_on_def dest: arg_cong [of _ _ length])

text \<open>One item that is a folder and a request at once, the request without a method.\<close>

definition sample_postman :: json where
  "sample_postman = JObj [(''item'', JArr [JObj [(''item'', JArr []), (''request'', JObj [(''url'', JStr ''u'')])]])]"

text \<open>It is imported, and called \<open>undefined u\<close>.\<close>

lemma sample_postman_imported:
  "map_sum id (\<lambda>(im, s). map ls_name (li_requests im)) (import_postman sample_host sample_postman (import_start unary_runtime))
   = Inr [JStr ''undefined u'']"
  by code_simp

lemma sample_postman_accepted: "\<exists>im s. import_postman sample_host sample_postman (import_start unary_runtime) = Inr (im, s)"
  using sample_postman_imported by (cases "import_postman sample_host sample_postman (import_start unary_runtime)") auto

theorem imports_make_forests_witness:
  "\<exists>im s. import_postman sample_host sample_postman (import_start unary_runtime) = Inr (im, s)
    \<and> forest (map typed_folder (li_folders im))"
proof -
  obtain im s where im: "import_postman sample_host sample_postman (import_start unary_runtime) = Inr (im, s)"
    using sample_postman_accepted by blast
  have "import_postman sample_host sample_postman \<in> {import_postman sample_host sample_postman, import_hoppscotch sample_postman}" by simp
  from imports_make_forests [OF this im unary_ids] im show ?thesis by blast
qed

theorem postman_import_complete_witness:
  "\<exists>im s items. import_postman sample_host sample_postman (import_start unary_runtime) = Inr (im, s)
    \<and> json_field sample_postman ''item'' = Some (JArr items) \<and> list_all2 made_from (request_items items) (li_requests im)"
proof -
  obtain im s where im: "import_postman sample_host sample_postman (import_start unary_runtime) = Inr (im, s)"
    using sample_postman_accepted by blast
  obtain items where items: "json_field sample_postman ''item'' = Some (JArr items)"
    by (simp add: sample_postman_def json_field_def)
  from postman_import_complete [OF items im] im items show ?thesis by blast
qed

text \<open>A group of an Insomnia export may name itself as its parent: the folder is then above itself.\<close>

lemma insomnia_own_parent:
  "map_sum id (\<lambda>(im, s). map (\<lambda>f. (lf_id f, lf_parentFolderId f)) (li_folders im))
     (import_insomnia (JObj [(''resources'', JArr [JObj [(''_type'', JStr ''request_group''), (''_id'', JStr ''g''), (''parentId'', JStr ''g'')]])])
       (import_start unary_runtime)) = Inr [(''xx'', Some ''xx'')]"
  by code_simp

end
