(* ===== verification/Import_Openapi.thy ===== *)
theory Import_Openapi
  imports Import_Json
begin

text \<open>
  The import of packages/core/src/import-export/openapi.ts. A document is a JSON value; js-yaml, which reads one
  from a text, and the parser that replaces the references in it are parameters. A document whose schemas refer to
  themselves is replaced by a graph, which is not a JSON value: those documents are outside the model, and the set
  of schemas under way, which only stops such a descent, is not kept. The members of an object are listed in the
  order of the engine.
\<close>

section \<open>Checks\<close>

definition is_plain_object :: "jsval \<Rightarrow> bool" where
  "is_plain_object v = (case v of Some (JObj ms) \<Rightarrow> True | _ \<Rightarrow> False)"

definition text_that :: "(string \<Rightarrow> bool) \<Rightarrow> jsval \<Rightarrow> bool" where
  "text_that p v = (case v of Some (JStr s) \<Rightarrow> p s | _ \<Rightarrow> False)"

definition assert_openapi_document :: "jsval \<Rightarrow> ('s, unit) sx" where
  "assert_openapi_document doc =
     (if \<not> is_plain_object doc \<or> \<not> text_that (starts_with ''3.'') (js_opt ''openapi'' doc)
      then sx_throw (plain_error ''Only OpenAPI 3.x documents are supported'')
      else if \<not> is_plain_object (js_opt ''info'' doc) \<or> \<not> text_that (\<lambda>s. trim s \<noteq> []) (js_opt ''title'' (js_opt ''info'' doc))
      then sx_throw (plain_error ''OpenAPI document is missing required info.title'')
      else if \<not> is_plain_object (js_opt ''paths'' doc)
      then sx_throw (plain_error ''OpenAPI document is missing required paths object'')
      else sx_ret ())"

definition external_ref_error :: string where
  "external_ref_error = ''external $ref not supported in browser context''"

text \<open>\<open>assertNoExternalRefs\<close>, as the reference it stops at.\<close>

fun external_ref :: "json \<Rightarrow> string option"
  and external_ref_in :: "json list \<Rightarrow> string option"
  and external_ref_members :: "(string \<times> json) list \<Rightarrow> string option" where
  "external_ref (JArr vs) = external_ref_in vs"
| "external_ref (JObj ms) =
     (case map_of ms ''$ref'' of
        Some (JStr s) \<Rightarrow> (if starts_with ''#/'' s then external_ref_members ms else Some s)
      | _ \<Rightarrow> external_ref_members ms)"
| "external_ref v = None"
| "external_ref_in [] = None"
| "external_ref_in (v # vs) = (case external_ref v of Some s \<Rightarrow> Some s | None \<Rightarrow> external_ref_in vs)"
| "external_ref_members [] = None"
| "external_ref_members ((k, v) # ms) = (case external_ref v of Some s \<Rightarrow> Some s | None \<Rightarrow> external_ref_members ms)"

definition assert_no_external_refs :: "json \<Rightarrow> ('s, unit) sx" where
  "assert_no_external_refs v =
     (case external_ref v of None \<Rightarrow> sx_ret () | Some s \<Rightarrow> sx_throw (plain_error (external_ref_error @ '': '' @ s)))"

definition openapi_import_error :: "js_error \<Rightarrow> js_error" where
  "openapi_import_error e =
     (if starts_with ''OpenAPI import failed:'' (err_message e) then e
      else plain_error (''OpenAPI import failed: '' @ err_message e))"

section \<open>Examples of bodies\<close>

definition js_first :: "jsval \<Rightarrow> jsval" where
  "js_first v = (case v of
     Some (JArr (x # xs)) \<Rightarrow> Some x
   | Some (JStr (c # cs)) \<Rightarrow> Some (JStr [c])
   | Some (JObj ms) \<Rightarrow> map_of ms ''0''
   | _ \<Rightarrow> None)"

text \<open>\<open>Object.entries(v ?? {})\<close>.\<close>

definition js_entries :: "jsval \<Rightarrow> (string \<times> json) list" where
  "js_entries v = (case v of
     Some (JObj ms) \<Rightarrow> ms
   | Some (JArr vs) \<Rightarrow> map (\<lambda>(i, x). (nat_to_string i, x)) (enumerate 0 vs)
   | Some (JStr s) \<Rightarrow> map (\<lambda>(i, c). (nat_to_string i, JStr [c])) (enumerate 0 s)
   | _ \<Rightarrow> [])"

definition first_value :: "jsval \<Rightarrow> jsval" where
  "first_value v = (case js_entries v of [] \<Rightarrow> None | (k, x) # r \<Rightarrow> Some x)"

text \<open>
  \<open>mergeExampleObjects\<close>: two objects at the same key are merged, any other value replaces the one before it. A
  member called \<open>__proto__\<close> is no member of the result, it is the object's prototype; what it would let the code
  read is outside the model.
\<close>

definition drop_proto :: "json obj \<Rightarrow> json obj" where
  "drop_proto ms = filter (\<lambda>(k, v). k \<noteq> ''__proto__'') ms"

function (sequential) merge_into :: "json obj \<Rightarrow> json obj \<Rightarrow> json obj" where
  "merge_into res [] = res"
| "merge_into res ((k, raw) # ms) =
     (if k = ''__proto__'' then merge_into res ms
      else let old = map_of res k in
        merge_into (AList.update k
          (case raw of
             JObj new \<Rightarrow> (case old of Some (JObj a) \<Rightarrow> JObj (property_order (merge_into (drop_proto a) new)) | _ \<Rightarrow> raw)
           | _ \<Rightarrow> raw) res) ms)"
  by pat_completeness auto
termination by (relation "measure (\<lambda>(res, ms). size (JObj ms))") auto

definition merge_example_objects :: "json list \<Rightarrow> json" where
  "merge_example_objects vs =
     JObj (property_order (foldl (\<lambda>res v. case v of JObj ms \<Rightarrow> merge_into res ms | _ \<Rightarrow> res) [] vs))"

text \<open>
  \<open>exampleFromSchema\<close>. The values of an \<open>enum\<close> are an array or a text; an object with a length is not modelled as
  one.
\<close>

definition enum_first :: "jsval \<Rightarrow> jsval" where
  "enum_first v = (case v of Some (JObj ms) \<Rightarrow> None | _ \<Rightarrow> js_first v)"

definition array_elements :: "jsval \<Rightarrow> json list" where
  "array_elements v = (case v of Some (JArr vs) \<Rightarrow> vs | _ \<Rightarrow> [])"

lemma map_of_size: "map_of ms k = Some v \<Longrightarrow> size v < size (JObj ms)"
  by (induction ms) (auto split: if_splits)

lemma size_member: "(k, v) \<in> set ms \<Longrightarrow> size v < size (JObj ms)"
  by (induction ms) auto

lemma size_element: "v \<in> set vs \<Longrightarrow> size v < size (JArr vs)"
  by (induction vs) auto

lemma size_entry: "(k, x) \<in> set (js_entries (Some v)) \<Longrightarrow> size x \<le> size v"
  using size_member size_element
  by (fastforce simp: js_entries_def in_set_enumerate_eq split: json.splits intro: less_imp_le)

lemma size_array_elements: "x \<in> set (array_elements (map_of ms k)) \<Longrightarrow> size x < size (JObj ms)"
  using map_of_size [of ms k] size_element
  by (fastforce simp: array_elements_def split: option.splits json.splits)

lemma size_map_entries: "(i, x) \<in> set (js_entries (map_of ms k)) \<Longrightarrow> size x < size (JObj ms)"
  using map_of_size [of ms k] size_entry [of i x]
  by (cases "map_of ms k") (auto simp: js_entries_def [of None] intro: le_less_trans)

function (sequential) example_from_schema :: "jsval \<Rightarrow> json" where
  "example_from_schema (Some (JObj ms)) =
     (let field = map_of ms in
      if field ''example'' \<noteq> None then the (field ''example'')
      else if field ''default'' \<noteq> None then the (field ''default'')
      else if enum_first (field ''enum'') \<noteq> None then the (enum_first (field ''enum''))
      else let parts = map (\<lambda>v. example_from_schema (Some v)) (array_elements (map_of ms ''allOf''));
               own = map (\<lambda>(k, v). (k, example_from_schema (Some v))) (js_entries (map_of ms ''properties''));
               kind = either (field ''type'') (if json_truthy (field ''properties'') \<or> parts \<noteq> [] then Some (JStr ''object'') else None) in
      if is_text kind ''object'' then merge_example_objects (parts @ [JObj own])
      else if is_text kind ''array'' then JArr [example_from_schema (map_of ms ''items'')]
      else if is_text kind ''integer'' \<or> is_text kind ''number'' then JNum 0
      else if is_text kind ''boolean'' then JBool True
      else if is_text kind ''string'' then JStr ''string''
      else coalesce (case parts of [] \<Rightarrow> None | p # ps \<Rightarrow> Some p) (JObj []))"
| "example_from_schema v = JObj []"
  by pat_completeness auto
termination
  by (relation "measure (\<lambda>v. case v of None \<Rightarrow> 0 | Some j \<Rightarrow> size j)")
    (auto dest: size_array_elements size_map_entries map_of_size split: option.splits)

definition example_from_request_body :: "jsval \<Rightarrow> json" where
  "example_from_request_body body =
     (let content = js_opt ''content'' body;
          content' = either content (Some (JObj []));
          media = either (js_opt ''application/json'' content') (first_value content');
          example = first_value (js_opt ''examples'' media) in
      coalesce (js_opt ''example'' media)
        (coalesce (js_opt ''value'' example) (example_from_schema (js_opt ''schema'' media))))"

section \<open>Paths, servers and folders\<close>

text \<open>\<open>path.replace(/\{([^}]+)\}/g, ...)\<close>.\<close>

function path_with_variables :: "string \<Rightarrow> string" where
  "path_with_variables [] = []"
| "path_with_variables (c # s) =
     (let name = takeWhile (\<lambda>d. d \<noteq> CHR ''}'') s; rest = dropWhile (\<lambda>d. d \<noteq> CHR ''}'') s in
      if c = CHR ''{'' \<and> name \<noteq> [] \<and> rest \<noteq> []
      then ''{{'' @ trim name @ ''}}'' @ path_with_variables (tl rest)
      else c # path_with_variables s)"
  by pat_completeness auto
termination
  by (relation "measure length") (auto simp: less_Suc_eq_le length_dropWhile_le intro!: le_trans [OF diff_le_self])

definition normalize_server_url :: "string \<Rightarrow> string" where
  "normalize_server_url value =
     (let trimmed = (if ends_with ''/'' value then butlast value else value) in
      if trimmed = [] then ''{{base_url}}'' else trimmed)"

definition named_server :: "json \<Rightarrow> bool" where
  "named_server server \<longleftrightarrow> text_that (\<lambda>s. trim s \<noteq> []) (js_opt ''url'' (Some server))"

definition server_environment :: "json \<Rightarrow> int \<Rightarrow> nat \<times> json \<Rightarrow> loose_environment importing" where
  "server_environment doc now = (\<lambda>(index, server).
     sx_bind new_id (\<lambda>i.
     sx_ret \<lparr>le_id = i,
       le_name = (if json_truthy (json_field server ''description'') then the (json_field server ''description'')
          else JStr (json_to_string (coalesce (js_opt ''title'' (json_field doc ''info'')) (JStr ''OpenAPI'')) @ '' server ''
                 @ nat_to_string (index + 1))),
       le_variables = [\<lparr>lr_key = Some (JStr ''base_url''),
          lr_value = Some (JStr (normalize_server_url (js_to_string (json_field server ''url'')))), lr_enabled = True, lr_sensitive = None\<rparr>],
       le_createdAt = now + int index, le_updatedAt = now + int index\<rparr>))"

definition environments_from_servers :: "json \<Rightarrow> int \<Rightarrow> loose_environment list importing" where
  "environments_from_servers doc now =
     sx_mapM (server_environment doc now) (enumerate 0 (filter named_server (array_elements (json_field doc ''servers''))))"

text \<open>The map from tags to folders is the list of folders: a folder is called like its tag.\<close>

definition folder_for_tag :: "string \<Rightarrow> string \<Rightarrow> int \<Rightarrow> string importing" where
  "folder_for_tag cid tag sort_order = (\<lambda>s.
     case find (\<lambda>f. lf_name f = JStr tag) (is_folders s) of
       Some f \<Rightarrow> Inr (lf_id f, s)
     | None \<Rightarrow>
         sx_bind now_ms (\<lambda>now. sx_bind new_id (\<lambda>i.
         sx_bind (push_folder (new_folder i cid None (JStr tag) [] sort_order now)) (\<lambda>_. sx_ret i))) s)"

section \<open>Operations\<close>

definition import_methods :: "string list" where
  "import_methods = [''get'', ''post'', ''put'', ''patch'', ''delete'', ''head'', ''options'']"

definition parameter_rows :: "string \<Rightarrow> json list \<Rightarrow> loose_row list" where
  "parameter_rows place parameters =
     map (\<lambda>p. let name = js_opt ''name'' (Some p) in
        \<lparr>lr_key = name, lr_value = Some (JStr (''{{'' @ js_to_string name @ ''}}'')), lr_enabled = True, lr_sensitive = None\<rparr>)
       (filter (\<lambda>p. is_text (js_opt ''in'' (Some p)) place) parameters)"

definition operation_tag :: "json \<Rightarrow> string" where
  "operation_tag operation =
     (let t = js_first (js_opt ''tags'' (Some operation)) in if json_truthy t then js_to_string t else [])"

definition openapi_request :: "string \<Rightarrow> string \<Rightarrow> json \<Rightarrow> json list \<Rightarrow> loose_request" where
  "openapi_request raw_path raw_method operation parameters =
     (let body = js_opt ''requestBody'' (Some operation) in
      \<lparr>lq_method = to_upper raw_method, lq_url = JStr (''{{base_url}}'' @ path_with_variables raw_path),
       lq_params = parameter_rows ''query'' parameters, lq_headers = parameter_rows ''header'' parameters,
       lq_bodyMode = (if json_truthy body then BM_json else BM_none),
       lq_body = JStr (if json_truthy body then json_pretty 2 0 (example_from_request_body body) else []),
       lq_auth = La_none\<rparr>)"

definition push_operation :: "string \<Rightarrow> int \<Rightarrow> string \<Rightarrow> string \<Rightarrow> json \<Rightarrow> string option \<Rightarrow> json list \<Rightarrow> unit importing" where
  "push_operation cid now raw_path raw_method operation fid parameters =
     (let request = openapi_request raw_path raw_method operation parameters in
      sx_bind new_id (\<lambda>i.
      sx_bind request_count (\<lambda>n.
      push_request (new_saved i cid fid
        (coalesce (either (js_opt ''operationId'' (Some operation)) (js_opt ''summary'' (Some operation)))
          (JStr (lq_method request @ '' '' @ raw_path)))
        (Loose_rest request) (now + n) now))))"

definition operation_folder :: "string \<Rightarrow> int \<Rightarrow> string \<Rightarrow> string option importing" where
  "operation_folder cid now tag =
     (if tag = [] then sx_ret None
      else sx_bind folder_count (\<lambda>k. sx_bind (folder_for_tag cid tag (now + k)) (\<lambda>i. sx_ret (Some i))))"

definition import_operation :: "string \<Rightarrow> int \<Rightarrow> string \<Rightarrow> json \<Rightarrow> string \<Rightarrow> json \<Rightarrow> unit importing" where
  "import_operation cid now raw_path path_item raw_method operation =
     sx_bind (operation_folder cid now (operation_tag operation)) (\<lambda>fid.
     sx_bind (js_iterate ''parameters'' (js_opt ''parameters'' (Some path_item))) (\<lambda>shared.
     sx_bind (js_iterate ''parameters'' (js_opt ''parameters'' (Some operation))) (\<lambda>own.
     push_operation cid now raw_path raw_method operation fid (shared @ own))))"

fun import_operations :: "string \<Rightarrow> int \<Rightarrow> string \<Rightarrow> json \<Rightarrow> (string \<times> json) list \<Rightarrow> unit importing" where
  "import_operations cid now raw_path path_item [] = sx_ret ()"
| "import_operations cid now raw_path path_item ((raw_method, operation) # ops) =
     sx_bind (if raw_method \<notin> set import_methods \<or> \<not> is_object_or_array operation then sx_ret ()
              else import_operation cid now raw_path path_item raw_method operation) (\<lambda>_.
     import_operations cid now raw_path path_item ops)"

fun import_paths :: "string \<Rightarrow> int \<Rightarrow> (string \<times> json) list \<Rightarrow> unit importing" where
  "import_paths cid now [] = sx_ret ()"
| "import_paths cid now ((raw_path, path_item) # paths) =
     sx_bind (if \<not> is_object_or_array path_item then sx_ret ()
              else import_operations cid now raw_path path_item (js_entries (Some path_item))) (\<lambda>_.
     import_paths cid now paths)"

section \<open>The import\<close>

record described_collection = loose_collection +
  dc_description :: jsval

record openapi_import =
  oi_collection :: described_collection
  oi_folders :: "loose_folder list"
  oi_requests :: "loose_saved list"
  oi_environments :: "loose_environment list"

definition sx_lift :: "js_error + 'a \<Rightarrow> ('s, 'a) sx" where
  "sx_lift r = (case r of Inl e \<Rightarrow> sx_throw e | Inr a \<Rightarrow> sx_ret a)"

definition plain_copy :: "host \<Rightarrow> json \<Rightarrow> ('s, json) sx" where
  "plain_copy h v =
     (case clone_plain v of Some c \<Rightarrow> sx_ret c | None \<Rightarrow> sx_throw (syntax_error h (json_stringify v)))"

definition import_document :: "json \<Rightarrow> openapi_import importing" where
  "import_document doc =
     sx_bind now_ms (\<lambda>now.
     sx_bind new_id (\<lambda>cid.
     sx_bind (environments_from_servers doc now) (\<lambda>environments.
     sx_bind (import_paths cid now (js_entries (json_field doc ''paths''))) (\<lambda>_ s.
     Inr (\<lparr>oi_collection = \<lparr>lc_id = cid, lc_name = the (js_opt ''title'' (json_field doc ''info'')), lc_variables = [],
             lc_sortOrder = now, lc_createdAt = now, lc_updatedAt = now,
             dc_description = js_opt ''description'' (json_field doc ''info'')\<rparr>,
           oi_folders = is_folders s, oi_requests = is_requests s, oi_environments = environments\<rparr>, s)))))"

text \<open>\<open>importOpenApiSpec\<close>; the input is a text or a document, and the name of the source is never needed,
  because the title has been checked.\<close>

definition read_document :: "(string \<Rightarrow> js_error + jsval) \<Rightarrow> string + json \<Rightarrow> ('s, jsval) sx" where
  "read_document load input = (case input of Inl content \<Rightarrow> sx_lift (load content) | Inr doc \<Rightarrow> sx_ret (Some doc))"

definition import_openapi_run ::
  "host \<Rightarrow> (string \<Rightarrow> js_error + jsval) \<Rightarrow> (json \<Rightarrow> js_error + json) \<Rightarrow> string + json \<Rightarrow> openapi_import importing" where
  "import_openapi_run h load dereference input =
     sx_bind (read_document load input) (\<lambda>raw.
     sx_bind (assert_openapi_document raw) (\<lambda>_.
     sx_bind (assert_no_external_refs (the raw)) (\<lambda>_.
     sx_bind (plain_copy h (the raw)) (\<lambda>copy.
     sx_bind (sx_lift (dereference copy)) (\<lambda>doc.
     sx_bind (assert_openapi_document (Some doc)) (\<lambda>_.
     import_document doc))))))"

definition import_openapi_spec ::
  "host \<Rightarrow> (string \<Rightarrow> js_error + jsval) \<Rightarrow> (json \<Rightarrow> js_error + json) \<Rightarrow> string + json \<Rightarrow> openapi_import importing" where
  "import_openapi_spec h load dereference input =
     (\<lambda>s. map_sum openapi_import_error id (import_openapi_run h load dereference input s))"

definition import_openapi_spec_effect ::
  "host \<Rightarrow> (string \<Rightarrow> js_error + jsval) \<Rightarrow> (json \<Rightarrow> js_error + json) \<Rightarrow> string + json \<Rightarrow> runtime
   \<Rightarrow> parse_error + openapi_import" where
  "import_openapi_spec_effect h load dereference input rt =
     as_parse_error ''openapi'' (map_sum id fst (import_openapi_spec h load dereference input (import_start rt)))"

end
