(* ===== verification/Export_Openapi.thy ===== *)
theory Export_Openapi
  imports Import_Openapi
begin

text \<open>
  The export of packages/core/src/import-export/openapi.ts: a collection as a document. The text of the document is
  made by js-yaml, a parameter; a member that is undefined is left out there, so it is left out here.
\<close>

section \<open>Paths\<close>

text \<open>\<open>urlPath.replace(/\{\{([^}]+)\}\}/g, "{$1}")\<close>.\<close>

function single_braces :: "string \<Rightarrow> string" where
  "single_braces [] = []"
| "single_braces (c # s) =
     (let inner = tl s; name = takeWhile (\<lambda>d. d \<noteq> CHR ''}'') inner; rest = dropWhile (\<lambda>d. d \<noteq> CHR ''}'') inner in
      if c = CHR ''{'' \<and> s \<noteq> [] \<and> hd s = CHR ''{'' \<and> name \<noteq> [] \<and> starts_with ''}}'' rest
      then ''{'' @ name @ ''}'' @ single_braces (drop 2 rest)
      else c # single_braces s)"
  by pat_completeness auto
termination
  by (relation "measure length")
    (auto simp: less_Suc_eq_le intro!: le_trans [OF diff_le_self] le_trans [OF length_dropWhile_le])

definition url_path :: "host \<Rightarrow> string \<Rightarrow> string" where
  "url_path h url =
     single_braces
       (case Option.bind (ho_url h url) (\<lambda>u. decode_uri_component (if up_pathname u = [] then ''/'' else up_pathname u)) of
          Some p \<Rightarrow> p
        | None \<Rightarrow> if starts_with ''/'' url then url else CHR ''/'' # url)"

text \<open>\<open>path.matchAll(/\{([^}/]+)\}/g)\<close>.\<close>

function path_parameter_names :: "string \<Rightarrow> string list" where
  "path_parameter_names [] = []"
| "path_parameter_names (c # s) =
     (let name = takeWhile (\<lambda>d. d \<noteq> CHR ''}'' \<and> d \<noteq> CHR ''/'') s; rest = dropWhile (\<lambda>d. d \<noteq> CHR ''}'' \<and> d \<noteq> CHR ''/'') s in
      if c = CHR ''{'' \<and> name \<noteq> [] \<and> starts_with ''}'' rest
      then name # path_parameter_names (tl rest)
      else path_parameter_names s)"
  by pat_completeness auto
termination
  by (relation "measure length")
    (auto simp: less_Suc_eq_le intro!: le_trans [OF diff_le_self] le_trans [OF length_dropWhile_le])

section \<open>The identifier of an operation\<close>

text \<open>\<open>replace(/\{\{?([^}]+)\}?\}/g, "$1")\<close>: the second brace belongs to the name only when nothing else does.\<close>

function without_braces :: "string \<Rightarrow> string" where
  "without_braces [] = []"
| "without_braces (c # s) =
     (let after = (if starts_with ''{'' s \<and> \<not> starts_with ''{}'' s then tl s else s);
          name = takeWhile (\<lambda>d. d \<noteq> CHR ''}'') after; rest = dropWhile (\<lambda>d. d \<noteq> CHR ''}'') after in
      if c = CHR ''{'' \<and> name \<noteq> [] \<and> rest \<noteq> []
      then name @ without_braces (drop (if starts_with ''}}'' rest then 2 else 1) rest)
      else c # without_braces s)"
  by pat_completeness auto
termination
  by (relation "measure length")
    (auto simp: less_Suc_eq_le intro!: le_trans [OF diff_le_self] le_trans [OF length_dropWhile_le])

text \<open>
  \<open>replace(/[^a-zA-Z0-9]+(.)/g, ...)\<close>: a run of other characters goes and the one after it is written large. At
  the end of the text the run itself gives that character, its last one that is no line terminator.
\<close>

definition line_terminator :: "char \<Rightarrow> bool" where
  "line_terminator c \<longleftrightarrow> c = newline \<or> c = char_of (13::nat)"

function camel :: "string \<Rightarrow> string" where
  "camel [] = []"
| "camel (c # s) =
     (let run = takeWhile (\<lambda>d. \<not> is_alnum d) s; rest = dropWhile (\<lambda>d. \<not> is_alnum d) s; tail = rev (takeWhile line_terminator (rev run)) in
      if is_alnum c then c # camel s
      else if rest \<noteq> [] then to_upper [hd rest] @ camel (tl rest)
      else if tail = run then c # run
      else to_upper [run ! (length run - length tail - 1)] @ tail)"
  by pat_completeness auto
termination
  by (relation "measure length")
    (auto simp: less_Suc_eq_le intro!: le_trans [OF diff_le_self] le_trans [OF length_dropWhile_le])

definition openapi_operation_id :: "string \<Rightarrow> string \<Rightarrow> string \<Rightarrow> string" where
  "openapi_operation_id name meth path =
     (let base = dropWhile (\<lambda>c. \<not> is_alpha c)
            (camel (without_braces (to_lower meth @ '' '' @ (if name = [] then path else name)))) in
      if base = [] then to_lower meth else to_lower [hd base] @ tl base)"

section \<open>Operations\<close>

definition string_schema :: json where
  "string_schema = JObj [(''type'', JStr ''string'')]"

definition path_parameter :: "string \<Rightarrow> json" where
  "path_parameter name =
     JObj [(''name'', JStr name), (''in'', JStr ''path''), (''required'', JBool True), (''schema'', string_schema)]"

definition row_parameter :: "string \<Rightarrow> key_value \<Rightarrow> json" where
  "row_parameter place r =
     JObj [(''name'', JStr (kv_key r)), (''in'', JStr place), (''schema'', string_schema), (''example'', JStr (kv_value r))]"

definition usable_row :: "key_value \<Rightarrow> bool" where
  "usable_row r \<longleftrightarrow> kv_enabled r \<noteq> Some False \<and> kv_key r \<noteq> []"

definition unexported_headers :: "string list" where
  "unexported_headers = [''content-type'', ''accept'', ''authorization'', ''content-length'']"

definition export_parameters :: "request_config \<Rightarrow> string \<Rightarrow> json list" where
  "export_parameters r path =
     map path_parameter (path_parameter_names path)
     @ map (row_parameter ''query'') (filter usable_row (rq_params r))
     @ map (row_parameter ''header'')
         (filter (\<lambda>x. usable_row x \<and> to_lower (kv_key x) \<notin> set unexported_headers) (rq_headers r))"

text \<open>
  The rows of a form body, read from its text. \<open>None\<close> is an exception, after which the text itself is the example.
  A row needs no value, and its key becomes a text.
\<close>

definition form_entry :: "json \<Rightarrow> (string \<times> jsval) option option" where
  "form_entry row =
     (if row = JNull then None
      else if not_false (json_field row ''enabled'') \<and> json_truthy (json_field row ''key'')
      then Some (Some (js_to_string (json_field row ''key''), json_field row ''value''))
      else Some None)"

definition form_example :: "json \<Rightarrow> json option" where
  "form_example rows =
     (case rows of
        JArr rs \<Rightarrow>
          (if None \<in> set (map form_entry rs) then None
           else Some (JObj (List.map_filter (\<lambda>(k, v). map_option (Pair k) v)
             (property_order (obj_from_entries (List.map_filter (\<lambda>r. the (form_entry r)) rs))))))
      | _ \<Rightarrow> None)"

definition openapi_body_example :: "request_config \<Rightarrow> json" where
  "openapi_body_example r =
     (if rq_bodyMode r = BM_json then (case json_parse (rq_body r) of Some v \<Rightarrow> v | None \<Rightarrow> JStr (rq_body r))
      else if rq_bodyMode r = BM_urlencoded \<or> rq_bodyMode r = BM_form_data
      then (case Option.bind (json_parse (rq_body r)) form_example of Some v \<Rightarrow> v | None \<Rightarrow> JStr (rq_body r))
      else JStr (rq_body r))"

definition body_media_type :: "body_mode \<Rightarrow> string" where
  "body_media_type mode =
     (case mode of BM_json \<Rightarrow> ''application/json'' | BM_urlencoded \<Rightarrow> ''application/x-www-form-urlencoded''
      | BM_form_data \<Rightarrow> ''multipart/form-data'' | _ \<Rightarrow> ''text/plain'')"

definition export_body :: "request_config \<Rightarrow> json obj" where
  "export_body r =
     (if rq_bodyMode r \<noteq> BM_none \<and> rq_body r \<noteq> []
      then [(''requestBody'', JObj [(''content'', JObj [(body_media_type (rq_bodyMode r),
              JObj [(''schema'', string_schema), (''example'', openapi_body_example r)])])])]
      else [])"

definition folder_by_id :: "folder list \<Rightarrow> string option \<Rightarrow> string option" where
  "folder_by_id folders fid =
     (if fid = None \<or> fid = Some [] then None
      else map_option fo_name (map_of (rev (map (\<lambda>f. (fo_id f, f)) folders)) (the fid)))"

definition export_operation :: "folder list \<Rightarrow> saved_request \<Rightarrow> request_config \<Rightarrow> string \<Rightarrow> json" where
  "export_operation folders saved r path =
     (let folder_name = folder_by_id folders (sr_folderId saved); parameters = export_parameters r path in
      JObj ([(''summary'', JStr (sr_name saved)),
             (''operationId'', JStr (openapi_operation_id (sr_name saved) (rq_method r) path))]
        @ (case folder_name of Some n \<Rightarrow> if n = [] then [] else [(''tags'', JArr [JStr n])] | None \<Rightarrow> [])
        @ (if parameters = [] then [] else [(''parameters'', JArr parameters)])
        @ [(''responses'', JObj [(''200'', JObj [(''description'', JStr ''OK'')])])]
        @ export_body r))"

section \<open>The document\<close>

definition exported_requests :: "collection \<Rightarrow> saved_request list \<Rightarrow> (saved_request \<times> request_config) list" where
  "exported_requests c requests =
     List.map_filter (\<lambda>s. case sr_request s of
         RestRequest r \<Rightarrow> if sr_collectionId s = co_id c \<and> sr_protocol s = P_rest then Some (s, r) else None
       | _ \<Rightarrow> None) requests"

text \<open>
  One request after the other is entered at its path and method. A path every object inherits is found on the
  prototype, and the operation is written there and not into the document.
\<close>

definition enter_operation :: "string \<Rightarrow> string \<Rightarrow> json \<Rightarrow> json obj obj \<Rightarrow> json obj obj" where
  "enter_operation path meth operation paths =
     (case map_of paths path of
        Some ops \<Rightarrow> AList.update path (AList.update meth operation ops) paths
      | None \<Rightarrow> if path \<in> set object_prototype_keys then paths else paths @ [(path, [(meth, operation)])])"

definition add_operation ::
  "host \<Rightarrow> folder list \<Rightarrow> saved_request \<times> request_config \<Rightarrow> json obj obj \<Rightarrow> json obj obj" where
  "add_operation h folders = (\<lambda>(saved, r) paths.
     if rq_url r = [] then paths
     else let path = url_path h (rq_url r) in
       enter_operation path (to_lower (rq_method r)) (export_operation folders saved r path) paths)"

definition export_paths :: "host \<Rightarrow> folder list \<Rightarrow> (saved_request \<times> request_config) list \<Rightarrow> json obj obj" where
  "export_paths h folders rs = fold (add_operation h folders) rs []"

definition tag_names :: "folder list \<Rightarrow> (saved_request \<times> request_config) list \<Rightarrow> string list" where
  "tag_names folders rs =
     fold set_add (filter (\<lambda>n. n \<noteq> []) (List.map_filter (\<lambda>(s, r). folder_by_id folders (sr_folderId s)) rs)) []"

definition openapi_document :: "host \<Rightarrow> collection \<Rightarrow> saved_request list \<Rightarrow> folder list \<Rightarrow> json" where
  "openapi_document h c requests folders =
     (let rs = exported_requests c requests; tags = tag_names folders rs in
      JObj ([(''openapi'', JStr ''3.0.3''),
             (''info'', JObj ([(''title'', JStr (co_name c))]
                @ (case co_description c of Some d \<Rightarrow> if d = [] then [] else [(''description'', JStr d)] | None \<Rightarrow> [])
                @ [(''version'', JStr ''1.0.0'')]))]
        @ (if tags = [] then [] else [(''tags'', JArr (map (\<lambda>n. JObj [(''name'', JStr n)]) tags))])
        @ [(''paths'', JObj (property_order (map (\<lambda>(p, ops). (p, JObj ops)) (export_paths h folders rs))))]))"

definition export_collection_as_openapi ::
  "host \<Rightarrow> (json \<Rightarrow> string) \<Rightarrow> collection \<Rightarrow> saved_request list \<Rightarrow> folder list \<Rightarrow> string" where
  "export_collection_as_openapi h dump c requests folders = dump (openapi_document h c requests folders)"

end
