(* ===== verification/Openapi_Facts.thy ===== *)
theory Openapi_Facts
  imports Export_Openapi
begin

text \<open>
  What the export to OpenAPI keeps and what an import of it brings back.
\<close>

section \<open>The last request at a path and method\<close>

definition operation_at :: "json obj obj \<Rightarrow> string \<Rightarrow> string \<Rightarrow> jsval" where
  "operation_at paths p m = Option.bind (map_of paths p) (\<lambda>ops. map_of ops m)"

lemma map_of_append_fresh: "map_of (xs @ [(k, v)]) x = (case map_of xs x of Some w \<Rightarrow> Some w | None \<Rightarrow> if x = k then Some v else None)"
  by (induction xs) auto

lemma operation_at_enter:
  "operation_at (enter_operation path meth operation paths) p m =
     (if path = p \<and> meth = m \<and> (map_of paths path \<noteq> None \<or> path \<notin> set object_prototype_keys)
      then Some operation else operation_at paths p m)"
  by (auto simp: operation_at_def enter_operation_def update_conv' map_of_append_fresh simp del: map_of_append split: option.splits)

definition occupies :: "host \<Rightarrow> string \<Rightarrow> string \<Rightarrow> saved_request \<times> request_config \<Rightarrow> bool" where
  "occupies h p m = (\<lambda>(saved, r). rq_url r \<noteq> [] \<and> url_path h (rq_url r) = p \<and> to_lower (rq_method r) = m)"

lemma operation_at_fold:
  assumes "p \<notin> set object_prototype_keys"
  shows "operation_at (fold (add_operation h folders) rs paths) p m =
     (case find (occupies h p m) (rev rs) of
        Some (saved, r) \<Rightarrow> Some (export_operation folders saved r p)
      | None \<Rightarrow> operation_at paths p m)"
proof (induction rs rule: rev_induct)
  case Nil
  then show ?case by simp
next
  case (snoc x rs)
  obtain saved r where x: "x = (saved, r)" by (cases x)
  show ?case using snoc assms
    by (auto simp: x add_operation_def Let_def operation_at_enter occupies_def)
qed

section \<open>What is imported of a document\<close>

definition imported_row :: "loose_saved \<Rightarrow> json \<times> string \<times> json" where
  "imported_row r =
     (case ls_request r of Loose_rest q \<Rightarrow> (ls_name r, lq_method q, lq_url q) | Loose_grpc g \<Rightarrow> (ls_name r, lg_address g, lg_service g))"

definition operation_row :: "string \<Rightarrow> string \<times> json \<Rightarrow> json \<times> string \<times> json" where
  "operation_row p = (\<lambda>(m, operation).
     (coalesce (either (js_opt ''operationId'' (Some operation)) (js_opt ''summary'' (Some operation)))
        (JStr (to_upper m @ '' '' @ p)), to_upper m, JStr (''{{base_url}}'' @ path_with_variables p)))"

definition iterable :: "jsval \<Rightarrow> bool" where
  "iterable v \<longleftrightarrow> nullish v \<or> (\<exists>vs. v = Some (JArr vs))"

lemma js_iterate_ok: "iterable v \<Longrightarrow> \<exists>vs. js_iterate place v s = Inr (vs, s)"
  by (auto simp: iterable_def js_iterate_def nullish_def)

lemma folder_for_tag_ok:
  "\<exists>i s'. folder_for_tag cid tag k s = Inr (i, s') \<and> is_requests s' = is_requests s"
  by (auto simp: folder_for_tag_def sx_bind_run now_ms_def new_id_def push_folder_def Let_def
      split: option.splits prod.splits)

lemma operation_folder_ok:
  "\<exists>fid s'. operation_folder cid now tag s = Inr (fid, s') \<and> is_requests s' = is_requests s"
  using folder_for_tag_ok [of cid tag "now + int (length (is_folders s))" s]
  by (cases "tag = []") (auto simp: operation_folder_def sx_bind_run folder_count_def)

lemma push_operation_ok:
  "\<exists>s'. push_operation cid now p m operation fid ps s = Inr ((), s')
     \<and> map imported_row (is_requests s') = map imported_row (is_requests s) @ [operation_row p (m, operation)]"
  by (cases "draw_uuid (is_rt s)")
    (simp add: push_operation_def Let_def sx_bind_run new_id_def request_count_def push_request_def
      imported_row_def operation_row_def new_saved_def openapi_request_def)

lemma import_operation_ok:
  assumes "iterable (js_opt ''parameters'' (Some path_item))" and "iterable (js_opt ''parameters'' (Some operation))"
  shows "\<exists>s'. import_operation cid now p path_item m operation s = Inr ((), s')
     \<and> map imported_row (is_requests s') = map imported_row (is_requests s) @ [operation_row p (m, operation)]"
proof -
  obtain fid s1 where f: "operation_folder cid now (operation_tag operation) s = Inr (fid, s1)"
    and r: "is_requests s1 = is_requests s"
    using operation_folder_ok [of cid now "operation_tag operation" s] by auto
  obtain shared where a: "js_iterate ''parameters'' (js_opt ''parameters'' (Some path_item)) s1 = Inr (shared, s1)"
    using js_iterate_ok [OF assms(1), of "''parameters''" s1] by auto
  obtain own where b: "js_iterate ''parameters'' (js_opt ''parameters'' (Some operation)) s1 = Inr (own, s1)"
    using js_iterate_ok [OF assms(2), of "''parameters''" s1] by auto
  have "import_operation cid now p path_item m operation s = push_operation cid now p m operation fid (shared @ own) s1"
    by (simp add: import_operation_def sx_bind_run f a b)
  then show ?thesis using push_operation_ok [of cid now p m operation fid "shared @ own" s1] by (simp add: r)
qed

lemma import_operations_ok:
  assumes "iterable (js_opt ''parameters'' (Some path_item))"
    and "\<And>m x. (m, x) \<in> set ops \<Longrightarrow> m \<in> set import_methods \<and> is_object_or_array x \<and> iterable (js_opt ''parameters'' (Some x))"
  shows "\<exists>s'. import_operations cid now p path_item ops s = Inr ((), s')
     \<and> map imported_row (is_requests s') = map imported_row (is_requests s) @ map (operation_row p) ops"
  using assms(2)
proof (induction ops arbitrary: s)
  case Nil
  then show ?case by simp
next
  case (Cons x ops)
  obtain m operation where x: "x = (m, operation)" by (cases x)
  from Cons.prems [of m operation] have m: "m \<in> set import_methods" "is_object_or_array operation"
    "iterable (js_opt ''parameters'' (Some operation))" by (auto simp: x)
  obtain s1 where s1: "import_operation cid now p path_item m operation s = Inr ((), s1)"
    "map imported_row (is_requests s1) = map imported_row (is_requests s) @ [operation_row p (m, operation)]"
    using import_operation_ok [OF assms(1) m(3), of cid now p m s] by auto
  obtain s2 where s2: "import_operations cid now p path_item ops s1 = Inr ((), s2)"
    "map imported_row (is_requests s2) = map imported_row (is_requests s1) @ map (operation_row p) ops"
    using Cons.IH [of s1] Cons.prems by auto
  show ?case using m s1 s2 by (simp add: x sx_bind_run)
qed

definition path_ok :: "string \<times> json \<Rightarrow> bool" where
  "path_ok = (\<lambda>(p, item). \<exists>ops. item = JObj ops \<and> map_of ops ''parameters'' = None
     \<and> (\<forall>(m, x) \<in> set ops. m \<in> set import_methods \<and> is_object_or_array x \<and> iterable (js_opt ''parameters'' (Some x))))"

definition path_rows :: "string \<times> json \<Rightarrow> (json \<times> string \<times> json) list" where
  "path_rows = (\<lambda>(p, item). map (operation_row p) (js_entries (Some item)))"

lemma import_paths_ok:
  assumes "list_all path_ok paths"
  shows "\<exists>s'. import_paths cid now paths s = Inr ((), s')
     \<and> map imported_row (is_requests s') = map imported_row (is_requests s) @ concat (map path_rows paths)"
  using assms
proof (induction paths arbitrary: s)
  case Nil
  then show ?case by simp
next
  case (Cons x paths)
  from Cons.prems obtain p ops where x: "x = (p, JObj ops)" and none: "map_of ops ''parameters'' = None"
    and ok: "\<And>m y. (m, y) \<in> set ops \<Longrightarrow> m \<in> set import_methods \<and> is_object_or_array y \<and> iterable (js_opt ''parameters'' (Some y))"
    by (cases x) (auto simp: path_ok_def)
  have "iterable (js_opt ''parameters'' (Some (JObj ops)))"
    using none by (simp add: iterable_def nullish_def js_opt_def json_field_def)
  from import_operations_ok [OF this ok, where ops = ops and cid = cid and now = now and p = p and s = s] obtain s1 where
    s1: "import_operations cid now p (JObj ops) ops s = Inr ((), s1)"
      "map imported_row (is_requests s1) = map imported_row (is_requests s) @ map (operation_row p) ops" by auto
  obtain s2 where s2: "import_paths cid now paths s1 = Inr ((), s2)"
    "map imported_row (is_requests s2) = map imported_row (is_requests s1) @ concat (map path_rows paths)"
    using Cons.IH [of s1] Cons.prems by auto
  show ?case using s1 s2 by (simp add: x sx_bind_run path_rows_def js_entries_def is_object_or_array_def)
qed

section \<open>What the export produces\<close>

lemma mset_property_order [simp]: "mset (property_order ms) = mset ms"
  by (simp add: property_order_def multiset_partition [symmetric] split_def)

lemma set_property_order [simp]: "set (property_order ms) = set ms"
  by (metis mset_property_order set_mset_mset)

definition exported_methods :: "(saved_request \<times> request_config) list \<Rightarrow> bool" where
  "exported_methods rs \<longleftrightarrow> (\<forall>(s, r) \<in> set rs. to_lower (rq_method r) \<in> set import_methods)"

definition operation_ok :: "string \<times> json \<Rightarrow> bool" where
  "operation_ok = (\<lambda>(m, x). m \<in> set import_methods \<and> is_object_or_array x \<and> iterable (js_opt ''parameters'' (Some x)))"

definition tidy_paths :: "json obj obj \<Rightarrow> bool" where
  "tidy_paths paths \<longleftrightarrow> distinct (map fst paths)
     \<and> (\<forall>(p, ops) \<in> set paths. distinct (map fst ops) \<and> list_all operation_ok ops)"

lemma export_operation_ok:
  "m \<in> set import_methods \<Longrightarrow> operation_ok (m, export_operation folders saved r p)"
  by (cases "folder_by_id folders (sr_folderId saved)"; cases "export_parameters r p")
    (simp_all add: operation_ok_def export_operation_def is_object_or_array_def iterable_def js_opt_def nullish_def
      json_field_def export_body_def Let_def)

lemma tidy_enter:
  assumes "tidy_paths paths" and "operation_ok (meth, operation)"
  shows "tidy_paths (enter_operation path meth operation paths)"
proof (cases "map_of paths path")
  case None
  then have "path \<notin> fst ` set paths" by (simp add: map_of_eq_None_iff)
  then show ?thesis using assms None
    by (auto simp: tidy_paths_def enter_operation_def simp del: map_of_eq_None_iff)
next
  case (Some ops)
  then have "(path, ops) \<in> set paths" by (rule map_of_SomeD)
  then have "distinct (map fst ops)" "list_all operation_ok ops" using assms(1) by (auto simp: tidy_paths_def)
  then have "distinct (map fst (AList.update meth operation ops))"
    "list_all operation_ok (AList.update meth operation ops)"
    using assms(2) by (auto simp: distinct_update list_all_iff dest: set_update_subset)
  then show ?thesis using assms(1) Some
    by (auto simp: tidy_paths_def enter_operation_def distinct_update dest!: set_update_subset)
qed

lemma tidy_export: "exported_methods rs \<Longrightarrow> tidy_paths (export_paths h folders rs)"
proof -
  have "exported_methods rs \<Longrightarrow> tidy_paths paths \<Longrightarrow> tidy_paths (fold (add_operation h folders) rs paths)" for paths
  proof (induction rs arbitrary: paths)
    case Nil
    then show ?case by simp
  next
    case (Cons x rs)
    obtain saved r where x: "x = (saved, r)" by (cases x)
    have "tidy_paths (add_operation h folders x paths)"
      using Cons.prems by (auto simp: x add_operation_def Let_def exported_methods_def intro!: tidy_enter export_operation_ok)
    then show ?case using Cons by (simp add: exported_methods_def)
  qed
  from this [of "[]"] show "exported_methods rs \<Longrightarrow> tidy_paths (export_paths h folders rs)"
    by (simp add: export_paths_def tidy_paths_def)
qed

definition path_members :: "json obj obj \<Rightarrow> json obj" where
  "path_members paths = property_order (map (\<lambda>(p, ops). (p, JObj ops)) paths)"

lemma tidy_path_ok: "tidy_paths paths \<Longrightarrow> list_all path_ok (path_members paths)"
  by (fastforce simp: path_members_def list_all_iff tidy_paths_def path_ok_def operation_ok_def map_of_eq_None_iff
      import_methods_def)

lemma document_fields:
  "json_field (openapi_document h c requests folders) ''openapi'' = Some (JStr ''3.0.3'')"
  "json_field (openapi_document h c requests folders) ''servers'' = None"
  "json_field (openapi_document h c requests folders) ''paths'' =
     Some (JObj (path_members (export_paths h folders (exported_requests c requests))))"
  "\<exists>r. json_field (openapi_document h c requests folders) ''info'' = Some (JObj ((''title'', JStr (co_name c)) # r))"
  by (auto simp: openapi_document_def Let_def json_field_def path_members_def split: option.splits)

text \<open>The operations of a document, as triples of path, method and operation.\<close>

definition all_operations :: "json obj obj \<Rightarrow> (string \<times> string \<times> json) list" where
  "all_operations paths = concat (map (\<lambda>(p, ops). map (\<lambda>(m, x). (p, m, x)) ops) paths)"

lemma all_operations_member:
  assumes "tidy_paths paths"
  shows "(p, m, x) \<in> set (all_operations paths) \<longleftrightarrow> operation_at paths p m = Some x"
proof -
  have "(p, m, x) \<in> set (all_operations paths) \<longleftrightarrow> (\<exists>ops. (p, ops) \<in> set paths \<and> (m, x) \<in> set ops)"
    by (force simp: all_operations_def)
  also have "\<dots> \<longleftrightarrow> operation_at paths p m = Some x"
    using assms by (fastforce simp: tidy_paths_def operation_at_def bind_eq_Some_conv)
  finally show ?thesis .
qed

lemma distinct_all_operations:
  assumes "tidy_paths paths"
  shows "distinct (map (\<lambda>(p, m, x). (p, m)) (all_operations paths))"
  using assms
proof (induction paths)
  case Nil
  then show ?case by (simp add: all_operations_def)
next
  case (Cons y paths)
  obtain p ops where y: "y = (p, ops)" by (cases y)
  have "distinct (map fst ops)" using Cons.prems by (simp add: y tidy_paths_def)
  then have "distinct (map (\<lambda>(m, x). (p, m)) ops)"
    by (induction ops) (auto simp: image_iff)
  moreover have "distinct (map (\<lambda>(p, m, x). (p, m)) (all_operations paths))"
    using Cons by (simp add: tidy_paths_def)
  moreover have "(\<lambda>(p, m, x). (p, m)) ` set (all_operations paths) \<inter> (\<lambda>(m, x). (p, m)) ` set ops = {}"
    using Cons.prems by (force simp: y tidy_paths_def all_operations_def)
  ultimately show ?case
    by (auto simp: y all_operations_def comp_def split_def)
qed

lemma path_rows_all_operations:
  "concat (map path_rows (map (\<lambda>(p, ops). (p, JObj ops)) paths)) = map (\<lambda>(p, mx). operation_row p mx) (all_operations paths)"
  by (induction paths) (auto simp: all_operations_def path_rows_def js_entries_def)

lemma mset_path_rows:
  "mset (concat (map path_rows (path_members paths))) = mset (map (\<lambda>(p, mx). operation_row p mx) (all_operations paths))"
proof -
  have "mset (concat (map f (property_order xs))) = mset (concat (map f xs))" for f :: "_ \<Rightarrow> 'b list" and xs :: "'c obj"
    by (simp only: mset_concat map_map mset_map [of "mset \<circ> f"] mset_property_order flip: sum_mset_sum_list)
  then have "mset (concat (map path_rows (path_members paths)))
      = mset (concat (map path_rows (map (\<lambda>(p, ops). (p, JObj ops)) paths)))"
    by (simp only: path_members_def)
  then show ?thesis by (simp only: path_rows_all_operations)
qed

lemma no_inherited_path:
  assumes "p \<in> set object_prototype_keys" and "map_of paths p = None"
  shows "map_of (fold (add_operation h folders) rs paths) p = None"
  using assms(2)
proof (induction rs arbitrary: paths)
  case Nil
  then show ?case by simp
next
  case (Cons x rs)
  obtain saved r where x: "x = (saved, r)" by (cases x)
  have "map_of (add_operation h folders x paths) p = None"
    using Cons.prems assms(1)
    by (auto simp: x add_operation_def Let_def enter_operation_def update_conv' split: option.splits)
  then show ?case using Cons.IH by simp
qed

definition last_at ::
  "host \<Rightarrow> (saved_request \<times> request_config) list \<Rightarrow> string \<Rightarrow> string \<Rightarrow> (saved_request \<times> request_config) option" where
  "last_at h rs p m = (if p \<in> set object_prototype_keys then None else find (occupies h p m) (rev rs))"

lemma operation_at_export:
  "operation_at (export_paths h folders rs) p m =
     (case last_at h rs p m of Some (saved, r) \<Rightarrow> Some (export_operation folders saved r p) | None \<Rightarrow> None)"
proof (cases "p \<in> set object_prototype_keys")
  case True
  then show ?thesis by (simp add: last_at_def export_paths_def operation_at_def no_inherited_path)
next
  case False
  then show ?thesis by (simp add: last_at_def export_paths_def operation_at_fold operation_at_def [of "[]"] split: option.splits)
qed

lemma last_at_Some: "last_at h rs p m = Some x \<Longrightarrow> x \<in> set rs \<and> occupies h p m x"
  by (auto simp: last_at_def dest: find_Some_in split: if_splits)

text \<open>The name, the method and the URL of what comes back for a request at a path.\<close>

definition returned_row :: "string \<Rightarrow> saved_request \<times> request_config \<Rightarrow> json \<times> string \<times> json" where
  "returned_row p = (\<lambda>(saved, r).
     (JStr (openapi_operation_id (sr_name saved) (rq_method r) p), to_upper (to_lower (rq_method r)),
      JStr (''{{base_url}}'' @ path_with_variables p)))"

lemma operation_row_export:
  "operation_row p (to_lower (rq_method r), export_operation folders saved r p) = returned_row p (saved, r)"
  by (auto simp: operation_row_def returned_row_def export_operation_def js_opt_def nullish_def json_field_def
      either_def coalesce_def Let_def)

lemma last_at_method: "last_at h rs p m = Some (saved, r) \<Longrightarrow> to_lower (rq_method r) = m"
  by (drule last_at_Some) (simp add: occupies_def)

lemma rows_of_export:
  assumes "exported_methods rs"
  shows "(\<lambda>(p, mx). operation_row p mx) ` set (all_operations (export_paths h folders rs))
     = {returned_row p x |p m x. last_at h rs p m = Some x}" (is "?l = ?r")
proof (intro set_eqI iffI)
  fix z assume "z \<in> ?l"
  then obtain p m y where y: "(p, m, y) \<in> set (all_operations (export_paths h folders rs))" "z = operation_row p (m, y)"
    by auto
  then have "operation_at (export_paths h folders rs) p m = Some y"
    by (simp add: all_operations_member tidy_export assms)
  then obtain saved r where l: "last_at h rs p m = Some (saved, r)" "y = export_operation folders saved r p"
    by (auto simp: operation_at_export split: option.splits)
  then show "z \<in> ?r" using y(2) last_at_method [OF l(1)] operation_row_export [of p r folders saved] by auto
next
  fix z assume "z \<in> ?r"
  then obtain p m saved r where l: "last_at h rs p m = Some (saved, r)" "z = returned_row p (saved, r)" by auto
  then have "(p, m, export_operation folders saved r p) \<in> set (all_operations (export_paths h folders rs))"
    by (simp add: all_operations_member tidy_export assms operation_at_export)
  then show "z \<in> ?l"
    using l(2) last_at_method [OF l(1)] operation_row_export [of p r folders saved] by (force simp: image_iff)
qed

lemma count_of_export:
  assumes "exported_methods rs"
  shows "length (all_operations (export_paths h folders rs)) = card {(p, m). last_at h rs p m \<noteq> None}"
proof -
  let ?k = "map (\<lambda>(p, m, x). (p, m)) (all_operations (export_paths h folders rs))"
  have "(p, m) \<in> set ?k \<longleftrightarrow> last_at h rs p m \<noteq> None" for p m
  proof -
    have "(p, m) \<in> set ?k \<longleftrightarrow> (\<exists>x. (p, m, x) \<in> set (all_operations (export_paths h folders rs)))" by force
    also have "\<dots> \<longleftrightarrow> last_at h rs p m \<noteq> None"
      by (auto simp: all_operations_member tidy_export assms operation_at_export split: option.splits)
    finally show ?thesis .
  qed
  then have "set ?k = {(p, m). last_at h rs p m \<noteq> None}"
    unfolding set_eq_iff split_paired_All mem_Collect_eq prod.case by blast
  moreover have "distinct ?k" by (rule distinct_all_operations [OF tidy_export [OF assms]])
  ultimately show ?thesis by (metis distinct_card length_map)
qed

lemma import_document_ok:
  assumes "json_field doc ''servers'' = None" and "json_field doc ''paths'' = Some (JObj ms)" and "list_all path_ok ms"
  shows "\<exists>imp s'. import_document doc s = Inr (imp, s')
     \<and> lc_name (oi_collection imp) = the (js_opt ''title'' (json_field doc ''info'')) \<and> oi_environments imp = []
     \<and> map imported_row (oi_requests imp) = map imported_row (is_requests s) @ concat (map path_rows ms)"
proof -
  obtain t s1 where n: "now_ms s = Inr (t, s1)" "is_requests s1 = is_requests s"
    by (cases "read_clock (is_rt s)") (simp add: now_ms_def)
  obtain i s2 where i: "new_id s1 = Inr (i, s2)" "is_requests s2 = is_requests s1"
    by (cases "draw_uuid (is_rt s1)") (simp add: new_id_def)
  have e: "environments_from_servers doc t s2 = Inr ([], s2)"
    using assms(1) by (simp add: environments_from_servers_def array_elements_def)
  obtain s3 where p: "import_paths i t ms s2 = Inr ((), s3)"
    "map imported_row (is_requests s3) = map imported_row (is_requests s2) @ concat (map path_rows ms)"
    using import_paths_ok [OF assms(3), of i t s2] by auto
  show ?thesis
    using n i p by (simp add: import_document_def sx_bind_run e assms(2) js_entries_def)
qed


definition shared_collection :: collection where
  "shared_collection = \<lparr>co_id = ''c'', co_name = ''A'', co_description = None, co_variables = None, co_sortOrder = None,
     co_createdAt = 0, co_updatedAt = 0\<rparr>"

definition shared_request :: "string \<Rightarrow> saved_request" where
  "shared_request n = \<lparr>sr_id = n, sr_collectionId = ''c'', sr_folderId = None, sr_name = n, sr_protocol = P_rest,
     sr_request = RestRequest (empty_request\<lparr>rq_url := ''/''\<rparr>), sr_requestMode = None, sr_sortOrder = 0,
     sr_createdAt = 0, sr_updatedAt = 0\<rparr>"

definition shared_requests :: "saved_request list" where
  "shared_requests = [shared_request ''a'', shared_request ''b'']"

definition read_yaml :: "string \<Rightarrow> js_error + jsval" where
  "read_yaml s = (case json_parse s of Some v \<Rightarrow> Inr (Some v) | None \<Rightarrow> Inl (plain_error ''bad''))"

lemma shared_exported: "exported_requests shared_collection shared_requests
    = [(shared_request ''a'', empty_request\<lparr>rq_url := ''/''\<rparr>), (shared_request ''b'', empty_request\<lparr>rq_url := ''/''\<rparr>)]"
  by (simp add: exported_requests_def shared_requests_def shared_request_def shared_collection_def map_filter_simps)

lemma shared_values:
  "openapi_operation_id ''b'' ''GET'' ''/'' = ''getB'' \<and> url_path sample_host ''/'' = ''/'' \<and> path_parameter_names ''/'' = []
   \<and> to_lower ''GET'' = ''get'' \<and> single_braces ''/{{base_url}}/u'' = ''/{base_url}/u''
   \<and> path_with_variables ''/{base_url}/u'' = ''/{{base_url}}/u''"
  by code_simp

lemmas shared_path = shared_values [THEN conjunct2, THEN conjunct1]
  shared_values [THEN conjunct2, THEN conjunct2, THEN conjunct1]
  shared_values [THEN conjunct2, THEN conjunct2, THEN conjunct2, THEN conjunct1]
  shared_values [THEN conjunct1]

lemma shared_document:
  "openapi_document sample_host shared_collection shared_requests [] =
     JObj [(''openapi'', JStr ''3.0.3''), (''info'', JObj [(''title'', JStr ''A''), (''version'', JStr ''1.0.0'')]),
       (''paths'', JObj [(''/'', JObj [(''get'', JObj [(''summary'', JStr ''b''), (''operationId'', JStr ''getB''),
          (''responses'', JObj [(''200'', JObj [(''description'', JStr ''OK'')])])])])])]"
  unfolding openapi_document_def shared_exported
  by (simp add: shared_path tag_names_def folder_by_id_def shared_request_def shared_collection_def
      export_paths_def add_operation_def enter_operation_def export_operation_def export_parameters_def export_body_def
      empty_request_def object_prototype_keys_def property_order_def is_index_key_def is_digit_def map_filter_simps code_unit_def)

lemma shared_document_ok:
  "json_ok (openapi_document sample_host shared_collection shared_requests [])"
  "external_ref (openapi_document sample_host shared_collection shared_requests []) = None"
  unfolding shared_document by simp_all


section \<open>Templates in URLs\<close>

text \<open>
  A URL that begins with a placeholder has no host the parser accepts. Such is every URL the import makes, and
  its base URL is exported as part of the path: on the way back it is there twice.
\<close>

lemma base_url_twice:
  assumes "ho_url h ''{{base_url}}/u'' = None"
  shows "''{{base_url}}'' @ path_with_variables (url_path h ''{{base_url}}/u'') = ''{{base_url}}/{{base_url}}/u''"
proof -
  have "\<not> starts_with ''/'' ''{{base_url}}/u''" by simp
  then show ?thesis using assms shared_values by (simp add: url_path_def del: single_braces.simps path_with_variables.simps)
qed

text \<open>Requests of one name and method have one identifier, whatever their paths are.\<close>

lemma one_operation_id: "name \<noteq> [] \<Longrightarrow> openapi_operation_id name meth p = openapi_operation_id name meth q"
  by (simp add: openapi_operation_id_def)

end
