(* ===== verification/Graphql_Schema.thy ===== *)
theory Graphql_Schema
  imports Codegen_Gql
begin

text \<open>
  packages/core/src/graphql/index.ts with types/graphql.ts: the schema a GraphQL endpoint describes itself with,
  and what the interface shows of it. A reference to a type is a chain of wrappers, lists and non-nulls, around a
  name; the introspection query asks for four links of the chain and no more.
\<close>

section \<open>The introspection query\<close>

definition GRAPHQL_INTROSPECTION_QUERY :: string where
  "GRAPHQL_INTROSPECTION_QUERY = text_lines [
    ''query IntrospectionQuery {'',
    ''  __schema {'',
    ''    queryType { name }'',
    ''    mutationType { name }'',
    ''    subscriptionType { name }'',
    ''    types {'',
    ''      kind'',
    ''      name'',
    ''      description'',
    ''      fields(includeDeprecated: true) {'',
    ''        name'',
    ''        description'',
    ''        isDeprecated'',
    ''        deprecationReason'',
    ''        args {'',
    ''          name'',
    ''          description'',
    ''          type { kind name ofType { kind name ofType { kind name ofType { kind name } } } }'',
    ''          defaultValue'',
    ''        }'',
    ''        type { kind name ofType { kind name ofType { kind name ofType { kind name } } } }'',
    ''      }'',
    ''      inputFields {'',
    ''        name'',
    ''        description'',
    ''        type { kind name ofType { kind name ofType { kind name ofType { kind name } } } }'',
    ''        defaultValue'',
    ''      }'',
    ''      enumValues(includeDeprecated: true) {'',
    ''        name'',
    ''        description'',
    ''        isDeprecated'',
    ''        deprecationReason'',
    ''      }'',
    ''      interfaces {'',
    ''        kind'',
    ''        name'',
    ''        ofType { kind name ofType { kind name } }'',
    ''      }'',
    ''      possibleTypes {'',
    ''        kind'',
    ''        name'',
    ''        ofType { kind name ofType { kind name } }'',
    ''      }'',
    ''    }'',
    ''  }'',
    ''}'']"

section \<open>The schema\<close>

text \<open>A field that may be null or missing is an option: the code does not tell the two apart.\<close>

datatype gql_type_ref =
  Type_ref (tr_kind: string) (tr_name: "string option") (tr_ofType: "gql_type_ref option")

record gql_input_value =
  iv_name :: string
  iv_description :: "string option"
  iv_type :: gql_type_ref
  iv_defaultValue :: "string option"

record gql_field =
  gf_name :: string
  gf_description :: "string option"
  gf_args :: "gql_input_value list option"
  gf_type :: gql_type_ref
  gf_isDeprecated :: "bool option"
  gf_deprecationReason :: "string option"

record gql_enum_value =
  ev_name :: string
  ev_description :: "string option"
  ev_isDeprecated :: "bool option"
  ev_deprecationReason :: "string option"

record gql_directive =
  gd_name :: string
  gd_description :: "string option"
  gd_locations :: "string list"
  gd_args :: "gql_input_value list option"
  gd_isRepeatable :: "bool option"

record gql_type =
  gt_kind :: string
  gt_name :: string
  gt_description :: "string option"
  gt_fields :: "gql_field list option"
  gt_inputFields :: "gql_input_value list option"
  gt_enumValues :: "gql_enum_value list option"
  gt_interfaces :: "gql_type_ref list option"
  gt_possibleTypes :: "gql_type_ref list option"

record gql_schema =
  gs_queryType :: "string option"
  gs_mutationType :: "string option"
  gs_subscriptionType :: "string option"
  gs_types :: "gql_type list"
  gs_directives :: "gql_directive list option"

section \<open>Reading the answer\<close>

text \<open>
  \<open>parsed?.data?.__schema ?? parsed?.__schema\<close>, kept only when it has \<open>types\<close>. The source then takes the value for
  a schema without looking further, so the value is what is returned.
\<close>

definition opt_member :: "string \<Rightarrow> jsval \<Rightarrow> jsval" where
  "opt_member k v = Option.bind v (\<lambda>j. json_field j k)"

definition introspected :: "json \<Rightarrow> jsval" where
  "introspected parsed =
     (case opt_member ''__schema'' (json_field parsed ''data'') of
        None \<Rightarrow> json_field parsed ''__schema''
      | Some JNull \<Rightarrow> json_field parsed ''__schema''
      | v \<Rightarrow> v)"

definition parse_graphql_introspection :: "host \<Rightarrow> string \<Rightarrow> js_error + json" where
  "parse_graphql_introspection h body =
     (case json_parse body of
        None \<Rightarrow> Inl (syntax_error h body)
      | Some parsed \<Rightarrow>
          (if json_truthy (opt_member ''types'' (introspected parsed)) then Inr (the (introspected parsed))
           else Inl (plain_error ''GraphQL introspection response did not include data.__schema'')))"

section \<open>Looking at types\<close>

definition type_by_name :: "gql_schema \<Rightarrow> string \<Rightarrow> gql_type option" where
  "type_by_name schema name = find (\<lambda>t. gt_name t = name) (gs_types schema)"

definition root_type :: "gql_schema \<Rightarrow> string \<Rightarrow> string option \<Rightarrow> (string \<times> gql_type) list" where
  "root_type schema label name =
     (case name of
        None \<Rightarrow> []
      | Some n \<Rightarrow> (if n = [] then []
                   else case type_by_name schema n of None \<Rightarrow> [] | Some t \<Rightarrow> [(label, t)]))"

definition root_graphql_types :: "gql_schema option \<Rightarrow> (string \<times> gql_type) list" where
  "root_graphql_types schema =
     (case schema of
        None \<Rightarrow> []
      | Some s \<Rightarrow> root_type s ''Query'' (gs_queryType s) @ root_type s ''Mutation'' (gs_mutationType s)
                   @ root_type s ''Subscription'' (gs_subscriptionType s))"

definition public_graphql_types :: "host \<Rightarrow> gql_schema option \<Rightarrow> gql_type list" where
  "public_graphql_types h schema =
     stable_sort (\<lambda>l r. ho_locale_compare h (gt_name l) (gt_name r) \<le> 0)
       (filter (\<lambda>t. gt_name t \<noteq> [] \<and> \<not> starts_with ''__'' (gt_name t))
         (case schema of None \<Rightarrow> [] | Some s \<Rightarrow> gs_types s))"

section \<open>Type references\<close>

fun format_type_ref :: "gql_type_ref \<Rightarrow> string" where
  "format_type_ref (Type_ref kind name (Some inner)) =
     (if kind = ''NON_NULL'' then format_type_ref inner @ ''!''
      else if kind = ''LIST'' then ''['' @ format_type_ref inner @ '']''
      else case name of Some n \<Rightarrow> n | None \<Rightarrow> kind)"
| "format_type_ref (Type_ref kind name None) = (case name of Some n \<Rightarrow> n | None \<Rightarrow> kind)"

fun named_graphql_type :: "gql_type_ref \<Rightarrow> string option" where
  "named_graphql_type (Type_ref kind name inner) =
     (if name \<noteq> None \<and> name \<noteq> Some [] then name
      else case inner of Some t \<Rightarrow> named_graphql_type t | None \<Rightarrow> None)"

section \<open>Completions\<close>

definition placeholder_for_type :: "gql_type_ref \<Rightarrow> string" where
  "placeholder_for_type t =
     (let named = (case named_graphql_type t of Some n \<Rightarrow> to_lower n | None \<Rightarrow> []) in
      if str_includes ''int'' named \<or> str_includes ''float'' named then ''0''
      else if str_includes ''boolean'' named then ''false''
      else [CHR 0x22, CHR 0x22])"

definition graphql_field_snippet :: "gql_field \<Rightarrow> string" where
  "graphql_field_snippet field =
     (let args = join '', ''
            (map (\<lambda>a. iv_name a @ '': '' @ placeholder_for_type (iv_type a))
              (filter (\<lambda>a. iv_defaultValue a = None \<or> iv_defaultValue a = Some [])
                (case gf_args field of None \<Rightarrow> [] | Some xs \<Rightarrow> xs))) in
      gf_name field @ (if args = [] then [] else ''('' @ args @ '')''))"

record gql_completion =
  co_label :: string
  co_detail :: string
  co_snippet :: string

definition graphql_autocomplete_fields :: "gql_schema option \<Rightarrow> string \<Rightarrow> gql_completion list" where
  "graphql_autocomplete_fields schema type_name =
     (case schema of
        None \<Rightarrow> []
      | Some s \<Rightarrow>
          map (\<lambda>f. \<lparr>co_label = gf_name f, co_detail = format_type_ref (gf_type f), co_snippet = graphql_field_snippet f\<rparr>)
            (case Option.bind (type_by_name s type_name) gt_fields of None \<Rightarrow> [] | Some fs \<Rightarrow> fs))"

end
