(* ===== verification/Graphql_Facts.thy ===== *)
theory Graphql_Facts
  imports Graphql_Schema
begin

text \<open>
  What is shown of a GraphQL type. A type of the language is a name, a list of a type, or a type that is never
  null; \<open>ref_of\<close> is the chain an endpoint describes it with, and \<open>cut\<close> what the introspection query, which asks
  for four links, brings back of it.
\<close>

datatype gql_written = Named string string | List_of gql_written | Non_null gql_written

fun ref_of :: "gql_written \<Rightarrow> gql_type_ref" where
  "ref_of (Named kind n) = Type_ref kind (Some n) None"
| "ref_of (List_of t) = Type_ref ''LIST'' None (Some (ref_of t))"
| "ref_of (Non_null t) = Type_ref ''NON_NULL'' None (Some (ref_of t))"

fun written :: "gql_written \<Rightarrow> string" where
  "written (Named kind n) = n"
| "written (List_of t) = ''['' @ written t @ '']''"
| "written (Non_null t) = written t @ ''!''"

fun wrappers :: "gql_written \<Rightarrow> nat" where
  "wrappers (Named kind n) = 0"
| "wrappers (List_of t) = Suc (wrappers t)"
| "wrappers (Non_null t) = Suc (wrappers t)"

fun base_name :: "gql_written \<Rightarrow> string" where
  "base_name (Named kind n) = n"
| "base_name (List_of t) = base_name t"
| "base_name (Non_null t) = base_name t"

fun cut :: "nat \<Rightarrow> gql_type_ref \<Rightarrow> gql_type_ref" where
  "cut 0 t = t"
| "cut (Suc n) (Type_ref kind name inner) =
     Type_ref kind name (if n = 0 then None else map_option (cut n) inner)"

definition queried_links :: nat where
  "queried_links = 4"

text \<open>The characters of a name in the language; none of them marks a wrapper.\<close>

definition gql_name :: "string \<Rightarrow> bool" where
  "gql_name n \<longleftrightarrow> n \<noteq> [] \<and> list_all (\<lambda>c. is_alnum c \<or> c = CHR ''_'') n"

definition marks :: "string \<Rightarrow> nat" where
  "marks s = length (filter (\<lambda>c. c = CHR ''['' \<or> c = CHR ''!'') s)"

lemma marks_Nil [simp]: "marks [] = 0"
  by (simp add: marks_def)

lemma marks_Cons [simp]: "marks (c # s) = (if c = CHR ''['' \<or> c = CHR ''!'' then Suc (marks s) else marks s)"
  by (simp add: marks_def)

lemma marks_append [simp]: "marks (a @ b) = marks a + marks b"
  by (simp add: marks_def)

lemma marks_name: "gql_name n \<Longrightarrow> marks n = 0"
  by (auto simp: gql_name_def marks_def list_all_iff filter_empty_conv is_alnum_def is_alpha_def is_digit_def
      is_upper_ascii_def is_lower_ascii_def code_unit_def)

lemma marks_written: "gql_name (base_name t) \<Longrightarrow> marks (written t) = wrappers t"
  by (induction t) (simp_all add: marks_name)

text \<open>Within the links that were asked for nothing is lost.\<close>

lemma cut_short: "wrappers t < n \<Longrightarrow> cut n (ref_of t) = ref_of t"
  by (induction t arbitrary: n; case_tac n) auto

lemma format_ref_of: "format_type_ref (ref_of t) = written t"
  by (induction t) simp_all

text \<open>Beyond them the last link stands for the rest.\<close>

lemma marks_cut:
  "gql_name (base_name t) \<Longrightarrow> 0 < n \<Longrightarrow> n \<le> wrappers t \<Longrightarrow> marks (format_type_ref (cut n (ref_of t))) < n"
proof (induction t arbitrary: n)
  case (Named kind x)
  then show ?case by simp
next
  case (List_of t)
  then obtain m where n: "n = Suc m" by (cases n) auto
  show ?case
  proof (cases m)
    case 0
    then show ?thesis using n by simp
  next
    case (Suc k)
    then show ?thesis using List_of.IH [of m] List_of.prems n by simp
  qed
next
  case (Non_null t)
  then obtain m where n: "n = Suc m" by (cases n) auto
  show ?case
  proof (cases m)
    case 0
    then show ?thesis using n by simp
  next
    case (Suc k)
    then show ?thesis using Non_null.IH [of m] Non_null.prems n by simp
  qed
qed

lemma named_ref_of: "gql_name (base_name t) \<Longrightarrow> named_graphql_type (ref_of t) = Some (base_name t)"
  by (induction t) (simp_all add: gql_name_def)

lemma named_cut:
  "0 < n \<Longrightarrow> n \<le> wrappers t \<Longrightarrow> named_graphql_type (cut n (ref_of t)) = None"
proof (induction t arbitrary: n)
  case (Named kind x)
  then show ?case by simp
next
  case (List_of t)
  from List_of.prems obtain m where n: "n = Suc m" and m: "m \<le> wrappers t" by (cases n) auto
  show ?case using List_of.IH [of m] m n by (cases m) auto
next
  case (Non_null t)
  from Non_null.prems obtain m where n: "n = Suc m" and m: "m \<le> wrappers t" by (cases n) auto
  show ?case using Non_null.IH [of m] m n by (cases m) auto
qed

text \<open>The type of a field is shown as the language writes it, for every type with at most three wrappers
  around its name, and for no other: a deeper type (a list of lists with non-null elements at both levels)
  reaches the interface cut off at the fourth link, and its name is unknown there, so that an argument of it is
  offered with the placeholder of a text.\<close>

theorem type_shown_iff:
  assumes "gql_name (base_name t)"
  shows "(format_type_ref (cut queried_links (ref_of t)) = written t \<longleftrightarrow> wrappers t \<le> 3)
     \<and> (named_graphql_type (cut queried_links (ref_of t)) = (if wrappers t \<le> 3 then Some (base_name t) else None))"
proof (cases "wrappers t \<le> 3")
  case True
  then show ?thesis using assms by (simp add: queried_links_def cut_short format_ref_of named_ref_of)
next
  case False
  then have "marks (format_type_ref (cut 4 (ref_of t))) < 4" using assms by (intro marks_cut) auto
  then have "format_type_ref (cut 4 (ref_of t)) \<noteq> written t" using marks_written [OF assms] False by auto
  then show ?thesis using False by (simp add: queried_links_def named_cut)
qed

theorem type_shown_iff_witness:
  "format_type_ref (cut queried_links (ref_of (Non_null (List_of (Non_null (Named ''SCALAR'' ''Int'')))))) = ''[Int!]!''
   \<and> named_graphql_type (cut queried_links (ref_of (Non_null (List_of (Non_null (List_of (Named ''SCALAR'' ''Int'')))))))
       = None"
  using type_shown_iff [of "Non_null (List_of (Non_null (Named ''SCALAR'' ''Int'')))"]
    type_shown_iff [of "Non_null (List_of (Non_null (List_of (Named ''SCALAR'' ''Int''))))"]
  by (simp add: gql_name_def is_alnum_def is_alpha_def is_upper_ascii_def is_lower_ascii_def is_digit_def code_unit_def)

text \<open>The list of types: every named type of the schema that is not the language's own, in the host's order.\<close>

lemma public_types_members:
  "set (public_graphql_types h (Some s)) = {t \<in> set (gs_types s). gt_name t \<noteq> [] \<and> \<not> starts_with ''__'' (gt_name t)}"
  by (auto simp: public_graphql_types_def set_stable_sort)

lemma type_by_name_name: "type_by_name s n = Some t \<Longrightarrow> gt_name t = n"
  by (auto simp: type_by_name_def find_Some_iff)

lemma root_type_named: "(label, t) \<in> set (root_type s l name) \<Longrightarrow> type_by_name s (gt_name t) = Some t"
  by (auto simp: root_type_def type_by_name_name split: option.splits if_splits)

lemma root_types_named:
  "(label, t) \<in> set (root_graphql_types (Some s)) \<Longrightarrow> type_by_name s (gt_name t) = Some t"
  by (auto simp: root_graphql_types_def root_type_named)

end
