(* ===== verification/Scripting.thy ===== *)
theory Scripting
  imports Request_Model
begin

text \<open>
  packages/core/src/scripting/index.ts: the scripts a user runs before a request and after a response. The text of
  a script is compiled by the engine, so what it does is a parameter: a tree of the calls it makes, each with the
  answer or the exception it gets and may catch, until it returns or throws. What it passes is a JSON value or
  \<open>undefined\<close>.
\<close>

section \<open>The calls\<close>

datatype expectation =
    To_be jsval bool
  | To_equal jsval
  | To_contain jsval
  | To_be_defined
  | To_be_undefined
  | To_be_null
  | To_be_truthy
  | To_have_length rat
  | To_match string string
  | To_be_greater_than jsnum
  | To_be_less_than jsnum

text \<open>
  \<open>To_be\<close> carries whether the two values are one object: only that makes two objects the same. \<open>To_match\<close> has
  the pattern and the flags of the expression.
\<close>

datatype script_call =
    Var_get string
  | Var_set string jsval
  | Var_unset string
  | Var_all
  | Make_uuid
  | Set_header string jsval
  | Set_param string jsval
  | Set_body jsval
  | Set_url string
  | Skip "string option"
  | Log "jsval list"
  | Mutate json
  | Expect jsval expectation

text \<open>\<open>Mutate\<close> is no call: a script also has the request itself and can make any object of it.\<close>

text \<open>What a call answers; a function an object inherits is a value of the engine.\<close>

datatype script_reply = Value jsval | Engine_value

datatype script =
    Return
  | Throw js_error
  | Call script_call "js_error + script_reply \<Rightarrow> script"
  | Test string script "js_error + script_reply \<Rightarrow> script"

section \<open>The state of a run\<close>

text \<open>\<open>sc_skip\<close> is the reason once the script has asked to skip the request.\<close>

record script_state =
  sc_request :: json
  sc_variables :: "string obj"
  sc_logs :: "string list"
  sc_skip :: "string option"
  sc_rt :: runtime

record script_result =
  sx_request :: json
  sx_variables :: "string obj"
  sx_logs :: "string list"
  sx_skipped :: "bool option"
  sx_skipReason :: "string option"

text \<open>\<open>formatLogValue\<close>: nothing for \<open>undefined\<close>, which a template writes out and \<open>join\<close> leaves empty.\<close>

definition format_log_value :: "jsval \<Rightarrow> string option" where
  "format_log_value v = (case v of None \<Rightarrow> None | Some (JStr s) \<Rightarrow> Some s | Some j \<Rightarrow> Some (json_stringify j))"

definition in_template :: "string option \<Rightarrow> string" where
  "in_template s = (case s of None \<Rightarrow> ''undefined'' | Some t \<Rightarrow> t)"

definition in_join :: "string option \<Rightarrow> string" where
  "in_join s = (case s of None \<Rightarrow> [] | Some t \<Rightarrow> t)"

definition shown :: "jsval \<Rightarrow> string" where
  "shown v = in_template (format_log_value v)"

text \<open>
  \<open>upsertKeyValue\<close> on the rows of a request. A row whose key is no text has no \<open>toLowerCase\<close>: \<open>None\<close> is the
  exception.
\<close>

definition key_matches :: "string \<Rightarrow> json \<Rightarrow> bool option" where
  "key_matches key item =
     (case json_field item ''key'' of
        None \<Rightarrow> Some False
      | Some JNull \<Rightarrow> Some False
      | Some (JStr k) \<Rightarrow> Some (to_lower k = to_lower key)
      | Some v \<Rightarrow> None)"

definition set_member :: "string \<Rightarrow> json \<Rightarrow> json \<Rightarrow> json" where
  "set_member k v item = (case item of JObj ms \<Rightarrow> JObj (AList.update k v ms) | _ \<Rightarrow> item)"

fun upsert_rows :: "string \<Rightarrow> string \<Rightarrow> json list \<Rightarrow> json list option" where
  "upsert_rows key value [] = Some [JObj [(''key'', JStr key), (''value'', JStr value), (''enabled'', JBool True)]]"
| "upsert_rows key value (r # rs) =
     (case key_matches key r of
        None \<Rightarrow> None
      | Some True \<Rightarrow> Some (set_member ''enabled'' (JBool True) (set_member ''value'' (JStr value) r) # rs)
      | Some False \<Rightarrow> map_option (Cons r) (upsert_rows key value rs))"

definition upsert_key_value :: "string \<Rightarrow> string \<Rightarrow> string \<Rightarrow> json \<Rightarrow> js_error + json" where
  "upsert_key_value field key value request =
     (case json_field request field of
        Some (JArr rs) \<Rightarrow>
          (case upsert_rows key value rs of
             None \<Rightarrow> Inl (type_error ''toLowerCase'')
           | Some rs' \<Rightarrow> Inr (set_member field (JArr rs') request))
      | _ \<Rightarrow> Inr request)"

definition random_uuid :: "bool \<Rightarrow> runtime \<Rightarrow> string \<times> runtime" where
  "random_uuid has_crypto rt =
     (if has_crypto then draw_uuid rt
      else let (r, rt') = draw_random rt in (''script-'' @ drop 2 (rt_base36 rt r), rt'))"

section \<open>Expectations\<close>

definition is_container :: "jsval \<Rightarrow> bool" where
  "is_container v = (case v of Some (JObj ms) \<Rightarrow> True | Some (JArr vs) \<Rightarrow> True | _ \<Rightarrow> False)"

definition strictly_equal :: "jsval \<Rightarrow> jsval \<Rightarrow> bool \<Rightarrow> bool" where
  "strictly_equal a b same = (if is_container a \<and> is_container b then same else a = b)"

definition length_member :: "jsval \<Rightarrow> jsval" where
  "length_member v =
     (case v of
        Some (JStr s) \<Rightarrow> Some (JNum (of_nat (length s)))
      | Some (JArr vs) \<Rightarrow> Some (JNum (of_nat (length vs)))
      | Some (JObj ms) \<Rightarrow> map_of ms ''length''
      | _ \<Rightarrow> None)"

definition num_text :: "jsnum \<Rightarrow> string" where
  "num_text n = (case n of Fin r \<Rightarrow> num_to_string r | PosInf \<Rightarrow> ''Infinity'' | NegInf \<Rightarrow> ''-Infinity'' | NaN \<Rightarrow> ''NaN'')"

text \<open>An expectation that is not met, as its message; a pattern the engine refuses throws before that.\<close>

definition expectation_failure ::
  "host \<Rightarrow> (string \<Rightarrow> string \<Rightarrow> string) \<Rightarrow> jsval \<Rightarrow> expectation \<Rightarrow> js_error option" where
  "expectation_failure h regex_text actual expected =
     (let failed = (\<lambda>bad msg. if bad then Some (plain_error msg) else None);
          to = (\<lambda>verb v. ''Expected '' @ shown actual @ '' to '' @ verb @ '' '' @ shown v) in
      case expected of
        To_be v same \<Rightarrow> failed (\<not> strictly_equal actual v same) (to ''be'' v)
      | To_equal v \<Rightarrow> failed (map_option json_stringify actual \<noteq> map_option json_stringify v) (to ''equal'' v)
      | To_contain v \<Rightarrow> failed (\<not> str_includes (js_to_string v) (js_to_string actual)) (to ''contain'' v)
      | To_be_defined \<Rightarrow> failed (actual = None) ''Expected value to be defined''
      | To_be_undefined \<Rightarrow> failed (actual \<noteq> None) (''Expected '' @ shown actual @ '' to be undefined'')
      | To_be_null \<Rightarrow> failed (actual \<noteq> Some JNull) (''Expected '' @ shown actual @ '' to be null'')
      | To_be_truthy \<Rightarrow> failed (\<not> json_truthy actual) (''Expected '' @ shown actual @ '' to be truthy'')
      | To_have_length n \<Rightarrow> failed (length_member actual \<noteq> Some (JNum n))
          (''Expected length '' @ shown (length_member actual) @ '' to be '' @ num_to_string n)
      | To_match p f \<Rightarrow>
          (case ho_regex h p f of
             None \<Rightarrow> Some (syntax_error h p)
           | Some test \<Rightarrow> failed (\<not> test (if actual = Some JNull \<or> actual = None then [] else js_to_string actual))
               (''Expected '' @ shown actual @ '' to match '' @ regex_text p f))
      | To_be_greater_than n \<Rightarrow> failed (\<not> num_less n (js_to_number actual))
          (''Expected '' @ shown actual @ '' to be greater than '' @ num_text n)
      | To_be_less_than n \<Rightarrow> failed (\<not> num_less (js_to_number actual) n)
          (''Expected '' @ shown actual @ '' to be less than '' @ num_text n))"

section \<open>A run\<close>

record script_env =
  se_host :: host
  se_regex_text :: "string \<Rightarrow> string \<Rightarrow> string"
  se_crypto :: bool
  se_worker :: bool

definition sample_script_env :: script_env where
  "sample_script_env = \<lparr>se_host = sample_host, se_regex_text = (\<lambda>p f. ''/'' @ p @ ''/'' @ f), se_crypto = True, se_worker = False\<rparr>"

definition upsert_call :: "string \<Rightarrow> string \<Rightarrow> jsval \<Rightarrow> script_state \<Rightarrow> (js_error + script_reply) \<times> script_state" where
  "upsert_call field key v s =
     (case upsert_key_value field key (js_to_string v) (sc_request s) of
        Inl e \<Rightarrow> (Inl e, s)
      | Inr r \<Rightarrow> (Inr (Value None), s\<lparr>sc_request := r\<rparr>))"

definition set_variable :: "string \<Rightarrow> string \<Rightarrow> string obj \<Rightarrow> string obj" where
  "set_variable key value vars = (if trim key = [] then vars else obj_assign (trim key) value vars)"

definition body_value :: "jsval \<Rightarrow> jsval" where
  "body_value v = (case v of None \<Rightarrow> None | Some (JStr s) \<Rightarrow> Some (JStr s) | Some j \<Rightarrow> Some (JStr (json_pretty 2 0 j)))"

definition assign_body :: "jsval \<Rightarrow> json \<Rightarrow> json" where
  "assign_body v request =
     (case body_value v of
        Some b \<Rightarrow> set_member ''body'' b request
      | None \<Rightarrow> (case request of JObj ms \<Rightarrow> JObj (filter (\<lambda>(k, x). k \<noteq> ''body'') ms) | _ \<Rightarrow> request))"

definition do_call :: "script_env \<Rightarrow> script_call \<Rightarrow> script_state \<Rightarrow> (js_error + script_reply) \<times> script_state" where
  "do_call env call s =
     (case call of
        Var_get k \<Rightarrow>
          (Inr (case obj_read (sc_variables s) k of
                  Own v \<Rightarrow> Value (Some (JStr v)) | Inherited \<Rightarrow> Engine_value | Absent \<Rightarrow> Value None), s)
      | Var_set k v \<Rightarrow> (Inr (Value None), s\<lparr>sc_variables := set_variable k (js_to_string v) (sc_variables s)\<rparr>)
      | Var_unset k \<Rightarrow> (Inr (Value None), s\<lparr>sc_variables := filter (\<lambda>(x, v). x \<noteq> k) (sc_variables s)\<rparr>)
      | Var_all \<Rightarrow> (Inr (Value (Some (JObj (map (\<lambda>(k, v). (k, JStr v)) (sc_variables s))))), s)
      | Make_uuid \<Rightarrow> (let (u, rt) = random_uuid (se_crypto env) (sc_rt s) in (Inr (Value (Some (JStr u))), s\<lparr>sc_rt := rt\<rparr>))
      | Set_header k v \<Rightarrow> upsert_call ''headers'' k v s
      | Set_param k v \<Rightarrow> upsert_call ''params'' k v s
      | Set_body v \<Rightarrow> (Inr (Value None), s\<lparr>sc_request := assign_body v (sc_request s)\<rparr>)
      | Set_url u \<Rightarrow> (Inr (Value None), s\<lparr>sc_request := set_member ''url'' (JStr u) (sc_request s)\<rparr>)
      | Skip reason \<Rightarrow> (Inr (Value None), s\<lparr>sc_skip := Some (case reason of Some r \<Rightarrow> r | None \<Rightarrow> ''Skipped by script'')\<rparr>)
      | Log vs \<Rightarrow> (Inr (Value (Some (JNum (of_nat (Suc (length (sc_logs s))))))),
                 s\<lparr>sc_logs := sc_logs s @ [join '' '' (map (in_join \<circ> format_log_value) vs)]\<rparr>)
      | Mutate r \<Rightarrow> (Inr (Value None), s\<lparr>sc_request := r\<rparr>)
      | Expect a e \<Rightarrow>
          (case expectation_failure (se_host env) (se_regex_text env) a e of
             Some err \<Rightarrow> (Inl err, s) | None \<Rightarrow> (Inr (Value None), s)))"

text \<open>
  \<open>test(name, fn)\<close>: what \<open>fn\<close> has done stays done when it throws. The promise of an asynchronous \<open>fn\<close> is not
  waited for, so its body here is what it does before it first gives way.
\<close>

definition pass_log :: "string \<Rightarrow> script_state \<Rightarrow> script_state" where
  "pass_log name s = s\<lparr>sc_logs := sc_logs s @ [''PASS '' @ name]\<rparr>"

definition test_failed :: "string \<Rightarrow> js_error \<Rightarrow> js_error" where
  "test_failed name e = plain_error (''Test failed: '' @ name @ '': '' @ err_message e)"

primrec run_tree :: "script_env \<Rightarrow> script \<Rightarrow> script_state \<Rightarrow> js_error option \<times> script_state" where
  "run_tree env Return s = (None, s)"
| "run_tree env (Throw e) s = (Some e, s)"
| "run_tree env (Call c k) s = (let (reply, s') = do_call env c s in run_tree env (k reply) s')"
| "run_tree env (Test name body k) s =
     (case run_tree env body s of
        (None, s') \<Rightarrow> run_tree env (k (Inr (Value None))) (pass_log name s')
      | (Some e, s') \<Rightarrow> run_tree env (k (Inl (test_failed name e))) s')"

definition execute_script :: "script_env \<Rightarrow> script \<Rightarrow> json \<Rightarrow> string obj \<Rightarrow> runtime \<Rightarrow> js_error + (script_result \<times> runtime)" where
  "execute_script env script request variables rt =
     (case run_tree env script \<lparr>sc_request = request, sc_variables = variables, sc_logs = [], sc_skip = None, sc_rt = rt\<rparr> of
        (Some e, s) \<Rightarrow> Inl e
      | (None, s) \<Rightarrow>
          Inr (\<lparr>sx_request = sc_request s, sx_variables = sc_variables s, sx_logs = sc_logs s,
                sx_skipped = Some (sc_skip s \<noteq> None), sx_skipReason = Some (case sc_skip s of Some r \<Rightarrow> r | None \<Rightarrow> [])\<rparr>, sc_rt s))"

section \<open>Choosing where to run\<close>

text \<open>
  \<open>takes\<close> is the time a script needs, nothing when it never ends; a script that is run inline is taken to give
  way to the timer. In a worker an exception travels as its message.
\<close>

definition timed_out :: "rat option \<Rightarrow> rat option \<Rightarrow> bool" where
  "timed_out timeout takes = (case takes of None \<Rightarrow> True | Some t \<Rightarrow> t \<ge> (case timeout of None \<Rightarrow> 5000 | Some x \<Rightarrow> x))"

definition run_in_worker :: "script_env \<Rightarrow> rat option \<Rightarrow> rat option \<Rightarrow> script \<Rightarrow> json \<Rightarrow> string obj \<Rightarrow> runtime \<Rightarrow> js_error + (script_result \<times> runtime)" where
  "run_in_worker env timeout takes script request variables rt =
     (if timed_out timeout takes then Inl (plain_error ''Script timed out'')
      else map_sum (\<lambda>e. plain_error (err_message e)) id (execute_script env script request variables rt))"

definition run_inline :: "script_env \<Rightarrow> rat option \<Rightarrow> rat option \<Rightarrow> script \<Rightarrow> json \<Rightarrow> string obj \<Rightarrow> runtime \<Rightarrow> js_error + (script_result \<times> runtime)" where
  "run_inline env timeout takes script request variables rt =
     (if timed_out timeout takes then Inl (plain_error ''Script timed out'')
      else execute_script env script request variables rt)"

text \<open>\<open>runScript\<close>, which the two exported functions call; \<open>compile\<close> is the engine on the text and the response.\<close>

definition run_script ::
  "script_env \<Rightarrow> (string \<Rightarrow> jsval \<Rightarrow> js_error + script) \<Rightarrow> (string \<Rightarrow> rat option) \<Rightarrow> rat option \<Rightarrow> jsval \<Rightarrow> string
   \<Rightarrow> json \<Rightarrow> string obj \<Rightarrow> runtime \<Rightarrow> js_error + (script_result \<times> runtime)" where
  "run_script env compile takes timeout response code request variables rt =
     (case clone_plain request of
        None \<Rightarrow> Inl (syntax_error (se_host env) (json_stringify request))
      | Some copy \<Rightarrow>
          if trim code = []
          then Inr (\<lparr>sx_request = copy, sx_variables = variables, sx_logs = [], sx_skipped = None, sx_skipReason = None\<rparr>, rt)
          else case compile code response of
            Inl e \<Rightarrow> Inl (if se_worker env then plain_error (err_message e) else e)
          | Inr script \<Rightarrow>
              (if se_worker env then run_in_worker else run_inline) env timeout (takes code) script copy variables rt)"

definition run_pre_request_script where
  "run_pre_request_script env compile takes timeout code request variables rt =
     run_script env compile takes timeout None code request variables rt"

definition run_post_response_script where
  "run_post_response_script env compile takes timeout response code request variables rt =
     run_script env compile takes timeout (Some response) code request variables rt"

end
