(* ===== verification/Scripting_Facts.thy ===== *)
theory Scripting_Facts
  imports Scripting "HOL-Library.Sublist"
begin

text \<open>What holds of the variables, the request and the log whatever a script does.\<close>

lemma run_tree_invariant:
  assumes "\<And>c s. P s \<Longrightarrow> P (snd (do_call env c s))" and "\<And>n s. P s \<Longrightarrow> P (pass_log n s)"
  shows "P s \<Longrightarrow> P (snd (run_tree env t s))"
proof (induction t arbitrary: s)
  case (Call c k)
  have "P (snd (run_tree env (k r) (snd (do_call env c s))))" for r
    by (rule Call.IH [OF rangeI assms(1) [OF Call.prems]])
  then show ?case by (simp add: split_def Let_def)
next
  case (Test name body k)
  have b: "P (snd (run_tree env body s))" by (rule Test.IH(1) [OF Test.prems])
  show ?case
  proof (cases "run_tree env body s")
    case (Pair r s')
    then show ?thesis using b Test.IH(2) assms(2) by (cases r) auto
  qed
qed simp_all

lemma run_tree_ordered:
  assumes "\<And>c s. R s (snd (do_call env c s))" and "\<And>n s. R s (pass_log n s)" and "\<And>s. R s s"
    and "\<And>a b c. R a b \<Longrightarrow> R b c \<Longrightarrow> R a c"
  shows "R s (snd (run_tree env t s))"
proof -
  have "R s s \<Longrightarrow> R s (snd (run_tree env t s))" for s
    by (rule run_tree_invariant [where P = "R s"]) (use assms in blast)+
  then show ?thesis using assms(3) by blast
qed

section \<open>Variables\<close>

definition names_ok :: "string obj \<Rightarrow> bool" where
  "names_ok vars \<longleftrightarrow> distinct (map fst vars) \<and> (\<forall>(k, v) \<in> set vars. k \<noteq> [] \<and> trim k = k)"

lemma dropWhile_prefix:
  assumes "dropWhile P a = a"
  shows "dropWhile P (rev (dropWhile P (rev a))) = rev (dropWhile P (rev a))"
proof (cases a)
  case (Cons x xs)
  have "\<not> P x"
  proof
    assume "P x"
    then have "dropWhile P xs = x # xs" using assms Cons by simp
    then show False using length_dropWhile_le [of P xs] by simp
  qed
  then show ?thesis by (simp add: Cons dropWhile_append)
qed simp

lemma trim_trim [simp]: "trim (trim s) = trim s"
proof -
  have "dropWhile js_space (dropWhile js_space xs) = dropWhile js_space xs" for xs by (induction xs) auto
  then show ?thesis by (simp add: trim_def trim_start_def trim_end_def dropWhile_prefix)
qed

lemma names_set_variable: "names_ok vars \<Longrightarrow> names_ok (set_variable k v vars)"
  by (auto simp: names_ok_def set_variable_def obj_assign_def distinct_update dest!: set_update_subset)

lemma names_unset: "names_ok vars \<Longrightarrow> names_ok (filter (\<lambda>(x, v). x \<noteq> k) vars)"
  by (auto simp: names_ok_def distinct_map_filter)

lemma upsert_call_rest [simp]:
  "sc_variables (snd (upsert_call field k v s)) = sc_variables s"
  "sc_logs (snd (upsert_call field k v s)) = sc_logs s"
  by (auto simp: upsert_call_def split: sum.splits)

lemma do_call_names: "names_ok (sc_variables s) \<Longrightarrow> names_ok (sc_variables (snd (do_call env c s)))"
  by (cases c) (auto simp: do_call_def names_set_variable names_unset split: prod.splits option.splits)

lemma do_call_logs: "prefix (sc_logs s) (sc_logs (snd (do_call env c s)))"
  by (cases c) (auto simp: do_call_def split: prod.splits option.splits)

theorem script_keeps_names:
  assumes "execute_script env t request variables rt = Inr (res, rt')" and "names_ok variables"
  shows "names_ok (sx_variables res)"
proof -
  let ?s = "\<lparr>sc_request = request, sc_variables = variables, sc_logs = [], sc_skip = None, sc_rt = rt\<rparr>"
  have "names_ok (sc_variables (snd (run_tree env t ?s)))"
    by (rule run_tree_invariant [where P = "\<lambda>s. names_ok (sc_variables s)"])
      (simp_all add: do_call_names pass_log_def assms(2))
  then show ?thesis using assms(1) by (auto simp: execute_script_def split: prod.splits option.splits)
qed

lemma logs_grow: "prefix (sc_logs s) (sc_logs (snd (run_tree env t s)))"
  by (rule run_tree_ordered [where R = "\<lambda>a b. prefix (sc_logs a) (sc_logs b)"])
    (auto simp: do_call_logs pass_log_def intro: prefix_order.trans)

section \<open>Tests\<close>

text \<open>A test that passes is logged; one that fails gives its name to the exception, and is not logged.\<close>

lemma test_passes:
  "run_tree env body s = (None, s') \<Longrightarrow>
   run_tree env (Test name body k) s = run_tree env (k (Inr (Value None))) (pass_log name s')"
  by simp

lemma uncaught_test_fails:
  assumes "run_tree env body s = (Some e, s')" and "\<And>err. k (Inl err) = Throw err"
  shows "run_tree env (Test name body k) s = (Some (plain_error (''Test failed: '' @ name @ '': '' @ err_message e)), s')"
  using assms by (simp add: test_failed_def)

section \<open>Headers and parameters\<close>

definition row_key_is :: "string \<Rightarrow> json \<Rightarrow> bool" where
  "row_key_is key r \<longleftrightarrow> key_matches key r = Some True"

text \<open>A row with a matching key gets the value and is enabled; without one a row is added; the others stay.\<close>

lemma upsert_rows_cases:
  assumes "\<And>r. r \<in> set rs \<Longrightarrow> key_matches key r \<noteq> None"
  shows "(\<forall>r \<in> set rs. \<not> row_key_is key r) \<and>
      upsert_rows key value rs = Some (rs @ [JObj [(''key'', JStr key), (''value'', JStr value), (''enabled'', JBool True)]])
    \<or> (\<exists>before r after. rs = before @ r # after \<and> row_key_is key r \<and> (\<forall>x \<in> set before. \<not> row_key_is key x)
        \<and> upsert_rows key value rs
            = Some (before @ set_member ''enabled'' (JBool True) (set_member ''value'' (JStr value) r) # after))"
  using assms
proof (induction rs)
  case Nil
  then show ?case by simp
next
  case (Cons x rs)
  then have x: "key_matches key x = Some True \<or> key_matches key x = Some False" by force
  show ?case
  proof (cases "key_matches key x = Some True")
    case True
    then show ?thesis by (intro disjI2 exI [of _ "[]"]) (auto simp: row_key_is_def)
  next
    case False
    then have f: "key_matches key x = Some False" using x by simp
    from Cons have "\<And>r. r \<in> set rs \<Longrightarrow> key_matches key r \<noteq> None" by simp
    from Cons.IH [OF this] show ?thesis
    proof
      assume "(\<forall>r \<in> set rs. \<not> row_key_is key r) \<and> upsert_rows key value rs
          = Some (rs @ [JObj [(''key'', JStr key), (''value'', JStr value), (''enabled'', JBool True)]])"
      then show ?thesis by (intro disjI1) (auto simp: f row_key_is_def)
    next
      assume "\<exists>before r after. rs = before @ r # after \<and> row_key_is key r \<and> (\<forall>x \<in> set before. \<not> row_key_is key x)
        \<and> upsert_rows key value rs
            = Some (before @ set_member ''enabled'' (JBool True) (set_member ''value'' (JStr value) r) # after)"
      then obtain before r after where "rs = before @ r # after" "row_key_is key r" "\<forall>x \<in> set before. \<not> row_key_is key x"
        "upsert_rows key value rs
            = Some (before @ set_member ''enabled'' (JBool True) (set_member ''value'' (JStr value) r) # after)" by blast
      then show ?thesis by (intro disjI2 exI [of _ "x # before"] exI [of _ r] exI [of _ after]) (auto simp: f row_key_is_def)
    qed
  qed
qed

end
