(* ===== verification/Client_Send.thy ===== *)
theory Client_Send
  imports Payload Cookies
begin

text \<open>
  How the interface sends a request, packages/ui/src/features: the cookies it adds (execution/cookies.ts), what it
  hands to the server (execute/payload.ts) and what the server's schema makes of that (packages/server/src/
  features/execute/schema.ts), and the browser's own \<open>fetch\<close> in client mode (execute/browserFetch.ts).
\<close>

section \<open>Cookies\<close>

definition is_cookie_header :: "key_value \<Rightarrow> bool" where
  "is_cookie_header hdr \<longleftrightarrow> to_lower (kv_key hdr) = ''cookie''"

definition add_cookie_text :: "string \<Rightarrow> key_value \<Rightarrow> key_value" where
  "add_cookie_text cookie hdr =
     (if is_cookie_header hdr
      then hdr\<lparr>kv_value := (if kv_value hdr = [] then cookie else kv_value hdr @ ''; '' @ cookie)\<rparr> else hdr)"

definition inject_cookies :: "host \<Rightarrow> request_config \<Rightarrow> stored_cookie list \<Rightarrow> runtime \<Rightarrow> request_config \<times> runtime" where
  "inject_cookies h request cookies rt =
     (let (matched, rt') = match_cookies h cookies (rq_url request) rt; cookie = build_cookie_header matched in
      (if matched = [] then request
       else if find is_cookie_header (rq_headers request) \<noteq> None
       then request\<lparr>rq_headers := map (add_cookie_text cookie) (rq_headers request)\<rparr>
       else request\<lparr>rq_headers := rq_headers request @ [kv_on ''Cookie'' cookie]\<rparr>, rt'))"

text \<open>The \<open>Set-Cookie\<close> headers of a response, which go to \<open>parseCookieHeaders\<close> and into the store.\<close>

definition set_cookie_values :: "key_value list \<Rightarrow> string list" where
  "set_cookie_values headers = map kv_value (filter (\<lambda>hdr. to_lower (kv_key hdr) = ''set-cookie'') headers)"

section \<open>The payload for the server\<close>

text \<open>Enabled headers with a key, the last of each name.\<close>

fun last_of_each :: "key_value list \<Rightarrow> key_value list" where
  "last_of_each [] = []"
| "last_of_each (x # xs) =
     (let r = last_of_each xs in
      if list_ex (\<lambda>y. to_lower (kv_key y) = to_lower (kv_key x)) r then r else x # r)"

definition sendable :: "key_value \<Rightarrow> bool" where
  "sendable hdr \<longleftrightarrow> kv_enabled hdr \<noteq> Some False \<and> kv_key hdr \<noteq> []"

definition has_header :: "string \<Rightarrow> key_value list \<Rightarrow> bool" where
  "has_header name headers \<longleftrightarrow> list_ex (\<lambda>x. to_lower (kv_key x) = name) headers"

definition auto_content_type :: "body_mode \<Rightarrow> string option" where
  "auto_content_type mode =
     (case mode of BM_json \<Rightarrow> Some ''application/json'' | BM_urlencoded \<Rightarrow> Some ''application/x-www-form-urlencoded'' | _ \<Rightarrow> None)"

definition payload_headers :: "request_config \<Rightarrow> key_value list" where
  "payload_headers request =
     (let deduped = last_of_each (filter sendable (rq_headers request)) in
      case auto_content_type (rq_bodyMode request) of
        Some t \<Rightarrow> if has_header ''content-type'' deduped then deduped else deduped @ [kv_on ''Content-Type'' t]
      | None \<Rightarrow> deduped)"

definition payload_auth :: "request_config \<Rightarrow> auth_config" where
  "payload_auth request =
     (let auth = rq_auth request in
      if has_header ''authorization'' (payload_headers request)
         \<and> (au_type auth \<in> {AT_bearer, AT_oauth2, AT_basic} \<or> au_type auth = AT_api_key \<and> au_apiKeyIn auth = Some In_header)
      then auth_none else auth)"

record client_payload =
  cp_method :: string
  cp_url :: string
  cp_headers :: "key_value list"
  cp_body :: string
  cp_bodyMode :: body_mode
  cp_auth :: auth_config
  cp_timeoutMs :: int
  cp_connectTimeoutMs :: "int option"
  cp_readTimeoutMs :: "int option"
  cp_followRedirects :: bool
  cp_maxRedirects :: int
  cp_verifySsl :: bool
  cp_httpVersion :: http_version
  cp_allowPrivateAddresses :: bool
  cp_proxy :: "proxy_config option"
  cp_tlsClientConfig :: "tls_client_config option"

definition build_execute_payload :: "request_config \<Rightarrow> client_payload" where
  "build_execute_payload request =
     (let opts = rq_options request in
      \<lparr>cp_method = rq_method request, cp_url = rq_url request, cp_headers = payload_headers request,
       cp_body = (if rq_bodyMode request = BM_none then [] else rq_body request), cp_bodyMode = rq_bodyMode request,
       cp_auth = payload_auth request, cp_timeoutMs = rq_timeoutMs request,
       cp_connectTimeoutMs = Option.bind opts ro_connectTimeoutMs, cp_readTimeoutMs = Option.bind opts ro_readTimeoutMs,
       cp_followRedirects = (case Option.bind opts ro_followRedirects of Some x \<Rightarrow> x | None \<Rightarrow> True),
       cp_maxRedirects = (case Option.bind opts ro_maxRedirects of Some x \<Rightarrow> x | None \<Rightarrow> 10),
       cp_verifySsl = (case Option.bind opts ro_verifySsl of Some x \<Rightarrow> x | None \<Rightarrow> True),
       cp_httpVersion = (case Option.bind opts ro_httpVersion of Some x \<Rightarrow> x | None \<Rightarrow> HV_auto),
       cp_allowPrivateAddresses = (case Option.bind opts ro_allowPrivateAddresses of Some x \<Rightarrow> x | None \<Rightarrow> True),
       cp_proxy = Option.bind opts ro_proxy, cp_tlsClientConfig = Option.bind opts ro_tlsClientConfig\<rparr>)"

text \<open>\<open>applyProtocolDefaults\<close> (lib/protocolDefaults.ts): the options of the settings, under those of the request.\<close>

definition apply_protocol_defaults :: "request_options \<Rightarrow> request_config \<Rightarrow> request_config" where
  "apply_protocol_defaults defaults request =
     request\<lparr>rq_options := Some (merge_with_defaults (rq_options request) defaults)\<rparr>"

section \<open>The schema of the server\<close>

definition auth_type_text :: "auth_kind \<Rightarrow> string" where
  "auth_type_text k = (case k of AT_none \<Rightarrow> ''none'' | AT_basic \<Rightarrow> ''basic'' | AT_bearer \<Rightarrow> ''bearer'' | AT_api_key \<Rightarrow> ''api-key''
     | AT_oauth2 \<Rightarrow> ''oauth2'' | AT_digest \<Rightarrow> ''digest'' | AT_aws_sigv4 \<Rightarrow> ''aws-sigv4'' | AT_ntlm \<Rightarrow> ''ntlm'')"

definition received_header :: "key_value \<Rightarrow> key_value" where
  "received_header x = \<lparr>kv_id = None, kv_key = kv_key x, kv_value = kv_value x, kv_enabled = kv_enabled x, kv_sensitive = None,
     kv_type = None, kv_file_name = None\<rparr>"

definition received_auth :: "auth_config \<Rightarrow> exec_auth" where
  "received_auth a = \<lparr>xa_type = auth_type_text (au_type a), xa_username = au_username a, xa_password = au_password a,
     xa_token = au_token a, xa_apiKeyName = au_apiKeyName a, xa_apiKeyValue = au_apiKeyValue a, xa_apiKeyIn = au_apiKeyIn a,
     xa_ntlmUsername = au_ntlmUsername a, xa_ntlmPassword = au_ntlmPassword a, xa_ntlmDomain = au_ntlmDomain a\<rparr>"

definition received_proxy :: "proxy_config \<Rightarrow> exec_proxy" where
  "received_proxy p = \<lparr>xp_type = px_type p, xp_url = px_url p, xp_username = opt_str (px_username p), xp_password = opt_str (px_password p)\<rparr>"

definition received_tls :: "tls_client_config \<Rightarrow> tls_input" where
  "received_tls t = \<lparr>ti_clientCertPem = opt_str (tc_clientCertPem t), ti_clientKeyPem = opt_str (tc_clientKeyPem t),
     ti_caCertPem = opt_str (tc_caCertPem t), ti_serverName = opt_str (tc_serverName t)\<rparr>"

text \<open>\<open>executeSchema\<close> on what the interface sends: only an empty URL is refused; unknown members go, and members with
  a default get it.\<close>

definition execute_schema :: "client_payload \<Rightarrow> exec_input option" where
  "execute_schema p =
     (if cp_url p = [] then None
      else Some \<lparr>xi_method = cp_method p, xi_url = cp_url p, xi_headers = map received_header (cp_headers p), xi_body = cp_body p,
        xi_bodyMode = Some (cp_bodyMode p), xi_auth = Some (received_auth (cp_auth p)), xi_timeoutMs = of_int (cp_timeoutMs p),
        xi_connectTimeoutMs = map_option of_int (cp_connectTimeoutMs p), xi_readTimeoutMs = map_option of_int (cp_readTimeoutMs p),
        xi_followRedirects = cp_followRedirects p, xi_maxRedirects = of_int (cp_maxRedirects p), xi_verifySsl = cp_verifySsl p,
        xi_httpVersion = cp_httpVersion p, xi_allowPrivateAddresses = Some (cp_allowPrivateAddresses p),
        xi_proxy = map_option received_proxy (cp_proxy p), xi_tlsClientConfig = map_option received_tls (cp_tlsClientConfig p)\<rparr>)"

section \<open>Client mode\<close>

text \<open>
  A \<open>Headers\<close> object: names without regard to case, the last value set. Names and values it does not accept raise;
  which these are is the browser's matter.
\<close>

type_synonym browser_headers = "(string \<times> string) list"

definition headers_set :: "(string \<Rightarrow> string \<Rightarrow> bool) \<Rightarrow> string \<Rightarrow> string \<Rightarrow> browser_headers \<Rightarrow> js_error + browser_headers" where
  "headers_set ok k v hs =
     (if ok k v then Inr (AList.update (to_lower k) v hs) else Inl (type_error ''Headers.set''))"

fun headers_set_all :: "(string \<Rightarrow> string \<Rightarrow> bool) \<Rightarrow> key_value list \<Rightarrow> browser_headers \<Rightarrow> js_error + browser_headers" where
  "headers_set_all ok [] hs = Inr hs"
| "headers_set_all ok (x # xs) hs =
     (case headers_set ok (kv_key x) (kv_value x) hs of Inl e \<Rightarrow> Inl e | Inr hs' \<Rightarrow> headers_set_all ok xs hs')"

definition browser_credentials :: "auth_config \<Rightarrow> (string \<times> string) option" where
  "browser_credentials auth =
     (if (au_type auth = AT_bearer \<or> au_type auth = AT_oauth2) \<and> truthy (au_token auth)
      then Some (''Authorization'', ''Bearer '' @ opt_str (au_token auth))
      else if au_type auth = AT_basic \<and> truthy (au_username auth)
      then Some (''Authorization'', ''Basic '' @ btoa (opt_str (au_username auth) @ '':'' @ opt_str (au_password auth)))
      else if au_type auth = AT_api_key \<and> au_apiKeyIn auth = Some In_header \<and> truthy (au_apiKeyName auth)
      then Some (opt_str (au_apiKeyName auth), opt_str (au_apiKeyValue auth))
      else None)"

definition build_browser_headers :: "(string \<Rightarrow> string \<Rightarrow> bool) \<Rightarrow> request_config \<Rightarrow> js_error + browser_headers" where
  "build_browser_headers ok request =
     (case headers_set_all ok (last_of_each (filter sendable (rq_headers request))) [] of
        Inl e \<Rightarrow> Inl e
      | Inr hs \<Rightarrow>
          if map_of hs ''authorization'' \<noteq> None then Inr hs
          else case browser_credentials (rq_auth request) of
              Some (k, v) \<Rightarrow> headers_set ok k v hs | None \<Rightarrow> Inr hs)"

definition build_browser_url :: "string \<Rightarrow> key_value list \<Rightarrow> auth_config \<Rightarrow> string" where
  "build_browser_url raw_url params auth =
     (let active = filter sendable params
            @ (if au_type auth = AT_api_key \<and> au_apiKeyIn auth = Some In_query \<and> truthy (au_apiKeyName auth)
               then [plain_header (opt_str (au_apiKeyName auth)) (opt_str (au_apiKeyValue auth))] else []) in
      if active = [] then raw_url
      else raw_url @ (if CHR ''?'' \<in> set raw_url then ''&'' else ''?'')
        @ join ''&'' (map (\<lambda>p. encode_uri_component (kv_key p) @ ''='' @ encode_uri_component (kv_value p)) active))"

definition build_browser_body ::
  "(string \<Rightarrow> string \<Rightarrow> bool) \<Rightarrow> request_config \<Rightarrow> browser_headers \<Rightarrow> js_error + (string option \<times> browser_headers)" where
  "build_browser_body ok request hs =
     (if rq_bodyMode request = BM_none \<or> rq_method request = ''GET'' \<or> rq_method request = ''HEAD'' then Inr (None, hs)
      else map_sum id (Pair (if rq_body request = [] then None else Some (rq_body request)))
        (case auto_content_type (rq_bodyMode request) of
           Some t \<Rightarrow> if map_of hs ''content-type'' = None then headers_set ok ''content-type'' t hs else Inr hs
         | None \<Rightarrow> Inr hs))"

text \<open>
  \<open>browserFetch\<close>: what is fetched, and the response that is made of the answer. The three readings of the clock are
  arguments; a failure to read the answer's text is an exception of its own.
\<close>

record browser_request =
  br_url :: string
  br_method :: string
  br_headers :: browser_headers
  br_body :: "string option"

record browser_answer =
  ba_status :: int
  ba_statusText :: string
  ba_headers :: "(string \<times> string) list"
  ba_text :: "js_error + string"

definition browser_timing :: "rat \<Rightarrow> rat \<Rightarrow> rat \<Rightarrow> rat list" where
  "browser_timing ttfb transfer total_ms = [0, 0, 0, ttfb, transfer, total_ms]"

record browser_response =
  bs_status :: int
  bs_statusText :: string
  bs_headers :: "key_value list"
  bs_body :: string
  bs_timing :: "rat list"
  bs_requestSize :: nat
  bs_responseSize :: nat
  bs_error :: "string option"

definition browser_error_response :: "rat \<Rightarrow> string \<Rightarrow> browser_response" where
  "browser_error_response total_ms e = \<lparr>bs_status = 0, bs_statusText = [], bs_headers = [], bs_body = [],
     bs_timing = browser_timing 0 0 total_ms, bs_requestSize = 0, bs_responseSize = 0, bs_error = Some e\<rparr>"

definition browser_fetch ::
  "(string \<Rightarrow> string \<Rightarrow> bool) \<Rightarrow> (browser_request \<Rightarrow> js_error + browser_answer) \<Rightarrow> rat \<times> rat \<times> rat \<Rightarrow> request_config
   \<Rightarrow> js_error + browser_response" where
  "browser_fetch ok fetch clock request =
     (case build_browser_headers ok request of
        Inl e \<Rightarrow> Inl e
      | Inr hs \<Rightarrow>
          (case build_browser_body ok request hs of
             Inl e \<Rightarrow> Inl e
           | Inr (body, hs') \<Rightarrow>
               (let (start, first, done) = clock in
                case fetch \<lparr>br_url = build_browser_url (rq_url request) (rq_params request) (rq_auth request),
                            br_method = rq_method request, br_headers = hs', br_body = body\<rparr> of
                  Inl e \<Rightarrow> if err_name e = ''AbortError'' then Inl e
                          else Inr (browser_error_response (first - start) (err_message e))
                | Inr a \<Rightarrow>
                    (case ba_text a of
                       Inl e \<Rightarrow> Inl e
                     | Inr t \<Rightarrow>
                         Inr \<lparr>bs_status = ba_status a, bs_statusText = ba_statusText a,
                              bs_headers = map (\<lambda>(k, v). plain_header k v) (ba_headers a), bs_body = t,
                              bs_timing = browser_timing (first - start) (done - first) (done - start),
                              bs_requestSize = 0, bs_responseSize = byte_length t, bs_error = None\<rparr>))))"

end
