(* ===== verification/Client_Send_Facts.thy ===== *)
theory Client_Send_Facts
  imports Client_Send Payload_Facts
begin

text \<open>What becomes of a request on its way from the resolver over the interface and the server to the executor.\<close>

section \<open>Headers\<close>

lemma list_ex_named: "list_ex (\<lambda>y. to_lower (kv_key y) = k) xs \<longleftrightarrow> filter (is_named k) xs \<noteq> []"
  by (auto simp: list_ex_iff is_named_def filter_empty_conv)

lemma is_named_abs: "is_named k = (\<lambda>x. to_lower (kv_key x) = k)"
  by (rule ext) (simp add: is_named_def)

lemma last_of_each_named:
  "filter (is_named k) (last_of_each xs) = (if filter (is_named k) xs = [] then [] else [last (filter (is_named k) xs)])"
proof (induction xs)
  case Nil
  then show ?case by simp
next
  case (Cons x xs)
  let ?r = "last_of_each xs"
  show ?case
  proof (cases "to_lower (kv_key x) = k")
    case True
    then have "list_ex (\<lambda>y. to_lower (kv_key y) = to_lower (kv_key x)) ?r \<longleftrightarrow> filter (is_named k) xs \<noteq> []"
      using Cons by (auto simp: list_ex_named)
    then show ?thesis using True Cons by (auto simp: is_named_abs Let_def)
  next
    case False
    then show ?thesis using Cons by (simp add: is_named_abs Let_def)
  qed
qed

lemma last_of_each_subset: "set (last_of_each xs) \<subseteq> set xs"
  by (induction xs) (auto simp: Let_def)

lemma last_of_each_distinct: "distinct (map (\<lambda>x. to_lower (kv_key x)) (last_of_each xs))"
  by (induction xs) (auto simp: Let_def list_ex_iff)

lemma payload_headers_named:
  assumes "k \<noteq> ''content-type''"
  shows "filter (is_named k) (payload_headers r) =
     (let hs = filter (is_named k) (filter sendable (rq_headers r)) in if hs = [] then [] else [last hs])"
proof -
  have "\<not> is_named k (kv_on ''Content-Type'' t)" for t using assms by (simp add: is_named_def kv_on_def)
  then show ?thesis
    by (simp add: payload_headers_def Let_def last_of_each_named split: option.split del: filter_filter)
qed

lemma payload_headers_sendable: "x \<in> set (payload_headers r) \<Longrightarrow> sendable x"
  using last_of_each_subset [of "filter sendable (rq_headers r)"]
  by (auto simp: payload_headers_def Let_def sendable_def kv_on_def split: option.splits if_splits)

lemma received_named: "filter (is_named k) (map received_header hs) = map received_header (filter (is_named k) hs)"
  by (simp add: filter_map is_named_abs received_header_def comp_def)

lemma user_headers_received:
  assumes "execute_schema (build_execute_payload r) = Some i"
  shows "user_headers i = map received_header (payload_headers r)"
proof -
  have i: "xi_headers i = map received_header (payload_headers r)"
    using assms by (auto simp: execute_schema_def build_execute_payload_def Let_def split: if_splits)
  have "\<forall>x \<in> set (map received_header (payload_headers r)). kv_enabled x \<noteq> Some False"
    using payload_headers_sendable by (fastforce simp: received_header_def sendable_def)
  then show ?thesis unfolding user_headers_def i by (intro filter_True) auto
qed

text \<open>Under the name \<open>Authorization\<close> the executor gets the last usable header of the request.\<close>

lemma executed_authorization:
  fixes n :: "'a node_host_scheme"
  assumes "execute_schema (build_execute_payload r) = Some i"
    and "filter (is_named ''authorization'') (filter sendable (rq_headers r)) = hs" and "hs \<noteq> []"
  shows "filter (is_named ''authorization'') (ep_headers (fst (execute_payload n i rt))) = [received_header (last hs)]"
proof -
  have u: "filter (is_named ''authorization'') (user_headers i) = [received_header (last hs)]"
    using assms by (simp add: user_headers_received received_named payload_headers_named Let_def)
  have w: "filter (is_named ''authorization'') (with_extras n i rt) = [received_header (last hs)]"
    using extras_kept(3) [OF extras_shape [of n i rt], of "user_headers i"] u by (simp add: with_extras_def)
  then have "has_key ''authorization'' (with_extras n i rt)"
    using has_key_iff [of "''authorization''"] by auto
  then show ?thesis using sent_named(1) [of "''authorization''" n i rt] w by simp
qed

section \<open>Cookies\<close>

lemma add_cookie_text_name [simp]:
  "is_named k (add_cookie_text c x) = is_named k x" "sendable (add_cookie_text c x) = sendable x"
  by (simp_all add: add_cookie_text_def is_named_def sendable_def)

lemma add_cookie_text_other: "is_named k x \<Longrightarrow> k \<noteq> ''cookie'' \<Longrightarrow> add_cookie_text c x = x"
  by (auto simp: add_cookie_text_def is_named_def is_cookie_header_def)

lemma cookies_keep_named:
  assumes "k \<noteq> ''cookie''"
  shows "filter (is_named k) (filter sendable (rq_headers (fst (inject_cookies h r cs rt))))
     = filter (is_named k) (filter sendable (rq_headers r))"
proof -
  have m: "filter (is_named k) (filter sendable (map (add_cookie_text c) hs)) = filter (is_named k) (filter sendable hs)" for c hs
    using assms by (induction hs) (simp_all add: add_cookie_text_other)
  have "to_lower ''Cookie'' = ''cookie''" by code_simp
  then have "\<not> is_named k (kv_on ''Cookie'' c)" for c using assms by (auto simp: is_named_def kv_on_def)
  then show ?thesis
    by (auto simp: inject_cookies_def Let_def m simp del: filter_filter split: prod.splits)
qed

section \<open>Credentials\<close>

definition one_credential :: "auth_config \<Rightarrow> key_value \<Rightarrow> bool" where
  "one_credential auth c \<longleftrightarrow> auth_headers auth = [c]"

lemma credential_header: "one_credential auth c \<Longrightarrow> kv_key c = ''Authorization'' \<and> sendable c \<and> auth_api_key auth = []"
  by (auto simp: one_credential_def auth_headers_def auth_api_key_def kv_on_def sendable_def split: option.splits if_splits)

lemma finished_headers:
  "one_credential (rq_auth base) c \<Longrightarrow> rq_headers (finish_request h base) = rq_headers base @ [c]"
  using credential_header [of "rq_auth base" c]
  by (auto simp: finish_request_def Let_def apply_auth_def one_credential_def)


definition signed_request :: request_config where
  "signed_request = empty_request\<lparr>rq_url := ''https://a.b'', rq_headers := [kv_on ''Authorization'' ''mine''],
     rq_auth := auth_none\<lparr>au_type := AT_bearer, au_token := Some ''t''\<rparr>\<rparr>"


section \<open>Client mode\<close>

text \<open>
  A resolved request has its parameters in its URL and in its rows. In client mode the rows are added to the URL a
  second time.
\<close>

lemma client_mode_repeats_parameters:
  assumes "filter sendable (rq_params (finish_request h base)) \<noteq> []"
  shows "\<exists>query. query \<noteq> []
    \<and> rq_url (finish_request h base)
        = build_url h (strip_query_string h (rq_url base)) (rq_params (finish_request h base))
    \<and> build_browser_url (rq_url (finish_request h base)) (rq_params (finish_request h base)) auth
        = rq_url (finish_request h base) @ query"
proof -
  have "rq_url (finish_request h base) = build_url h (strip_query_string h (rq_url base)) (rq_params (finish_request h base))"
    by (simp add: finish_request_def Let_def apply_auth_def)
  moreover have "\<exists>query. query \<noteq> [] \<and> build_browser_url (rq_url (finish_request h base)) (rq_params (finish_request h base)) auth
      = rq_url (finish_request h base) @ query"
    using assms by (auto simp: build_browser_url_def Let_def)
  ultimately show ?thesis by blast
qed

end
