(* ===== verification/Client_Body.thy ===== *)
theory Client_Body
  imports Import_Openapi
begin

text \<open>
  What the interface does to bodies, packages/ui/src/features: changing the mode of a request's body (request/
  components/body/bodyMode.ts), putting the parts of an incremental GraphQL response together (execute/multipart.ts),
  and automatic persisted queries (execute/apq.ts).
\<close>

section \<open>Changing the mode\<close>

record body_patch =
  bp_bodyMode :: body_mode
  bp_body :: "string option"
  bp_bodyFileName :: "string option"

definition mode_only :: "body_mode \<Rightarrow> body_patch" where
  "mode_only mode = \<lparr>bp_bodyMode = mode, bp_body = None, bp_bodyFileName = None\<rparr>"

definition with_body :: "body_mode \<Rightarrow> string \<Rightarrow> body_patch" where
  "with_body mode body = \<lparr>bp_bodyMode = mode, bp_body = Some body, bp_bodyFileName = None\<rparr>"

definition or_text :: "string \<Rightarrow> string \<Rightarrow> string" where
  "or_text s d = (if s = [] then d else s)"

definition looks_like_json_object :: "string \<Rightarrow> bool" where
  "looks_like_json_object body \<longleftrightarrow> body \<noteq> [] \<and> is_plain_object (json_parse body)"

definition looks_like_key_value_array :: "string \<Rightarrow> bool" where
  "looks_like_key_value_array body \<longleftrightarrow>
     body \<noteq> [] \<and>
     (case json_parse body of
        Some (JArr []) \<Rightarrow> True
      | Some (JArr (v # vs)) \<Rightarrow> json_field v ''key'' \<noteq> None
      | _ \<Rightarrow> False)"

definition entry_row :: "string \<times> json \<Rightarrow> json" where
  "entry_row = (\<lambda>(k, v).
     JObj [(''key'', JStr k), (''value'', JStr (case v of JStr s \<Rightarrow> s | _ \<Rightarrow> json_stringify v)),
       (''enabled'', JBool True), (''type'', JStr ''text'')])"

definition json_to_rows_patch :: "string \<Rightarrow> body_mode \<Rightarrow> body_patch" where
  "json_to_rows_patch body mode =
     (case json_parse (or_text body ''{}'') of
        Some (JObj ms) \<Rightarrow> with_body mode (json_stringify (JArr (map entry_row ms)))
      | _ \<Rightarrow> mode_only mode)"

definition row_entry :: "json \<Rightarrow> (string \<times> jsval) option" where
  "row_entry row =
     (if not_false (json_field row ''enabled'') \<and> \<not> is_text (json_field row ''type'') ''file''
      then Some (js_to_string (json_field row ''key''), json_field row ''value'') else None)"

text \<open>\<open>Object.fromEntries\<close>, as \<open>JSON.stringify\<close> sees it: what is undefined is left out.\<close>

definition entries_object :: "(string \<times> jsval) list \<Rightarrow> json" where
  "entries_object kvs =
     JObj (List.map_filter (\<lambda>(k, v). map_option (Pair k) v) (property_order (obj_from_entries kvs)))"

definition rows_to_json_patch :: "string \<Rightarrow> body_mode \<Rightarrow> body_patch" where
  "rows_to_json_patch body mode =
     (case json_parse (or_text body ''[]'') of
        Some (JArr rows) \<Rightarrow>
          (if JNull \<in> set rows then mode_only mode
           else with_body mode (json_pretty 2 0 (entries_object (List.map_filter row_entry rows))))
      | _ \<Rightarrow> mode_only mode)"

definition file_row_as_text :: "json \<Rightarrow> json" where
  "file_row_as_text row =
     (case row of
        JObj ms \<Rightarrow>
          (if is_text (json_field row ''type'') ''file''
           then JObj (filter (\<lambda>(k, v). k \<noteq> ''fileName'') (AList.update ''value'' (JStr []) (AList.update ''type'' (JStr ''text'') ms)))
           else row)
      | _ \<Rightarrow> row)"

definition form_data_to_url_encoded_patch :: "string \<Rightarrow> body_mode \<Rightarrow> body_patch" where
  "form_data_to_url_encoded_patch body mode =
     (case json_parse (or_text body ''[]'') of
        Some (JArr rows) \<Rightarrow>
          (if JNull \<in> set rows then mode_only mode
           else with_body mode (json_stringify (JArr (map file_row_as_text rows))))
      | _ \<Rightarrow> mode_only mode)"

definition build_body_mode_patch :: "string \<Rightarrow> body_mode \<Rightarrow> body_mode \<Rightarrow> body_patch" where
  "build_body_mode_patch body current next =
     (if current = BM_file \<or> next = BM_file
      then \<lparr>bp_bodyMode = next, bp_body = Some [], bp_bodyFileName = Some []\<rparr>
      else if next \<in> {BM_form_data, BM_urlencoded} \<and> (current \<in> {BM_json, BM_raw} \<or> looks_like_json_object body)
      then json_to_rows_patch body next
      else if next \<in> {BM_json, BM_raw} \<and> (current \<in> {BM_form_data, BM_urlencoded} \<or> looks_like_key_value_array body)
      then rows_to_json_patch body next
      else if next = BM_urlencoded \<and> current = BM_form_data then form_data_to_url_encoded_patch body next
      else mode_only next)"

definition parse_key_value_body :: "string \<Rightarrow> json list" where
  "parse_key_value_body body = (case json_parse (or_text body ''[]'') of Some (JArr vs) \<Rightarrow> vs | _ \<Rightarrow> [])"

section \<open>Incremental responses\<close>

text \<open>\<open>/boundary=([^\s;,"]+|"[^"]*")/i\<close>, without the quotes.\<close>

definition boundary_value :: "string \<Rightarrow> string option" where
  "boundary_value s =
     (let plain = takeWhile (\<lambda>c. \<not> js_space c \<and> c \<notin> {CHR '';'', CHR '','', dquote}) s;
          inner = takeWhile (\<lambda>c. c \<noteq> dquote) (tl s) in
      if plain \<noteq> [] then Some plain
      else if s \<noteq> [] \<and> hd s = dquote \<and> dropWhile (\<lambda>c. c \<noteq> dquote) (tl s) \<noteq> [] then Some inner
      else None)"

fun extract_multipart_boundary :: "string \<Rightarrow> string option" where
  "extract_multipart_boundary [] = None"
| "extract_multipart_boundary (c # s) =
     (case (if to_lower (take 9 (c # s)) = ''boundary='' then boundary_value (drop 9 (c # s)) else None) of
        Some b \<Rightarrow> Some b
      | None \<Rightarrow> extract_multipart_boundary s)"

fun find_text :: "string \<Rightarrow> string \<Rightarrow> nat option" where
  "find_text p [] = (if p = [] then Some 0 else None)"
| "find_text p (c # s) = (if starts_with p (c # s) then Some 0 else map_option Suc (find_text p s))"

lemma find_text_less: "find_text d s = Some i \<Longrightarrow> d \<noteq> [] \<Longrightarrow> i < length s"
  by (induction s arbitrary: i) (auto split: if_splits)

text \<open>\<open>s.split(d)\<close> for a separator that is not empty.\<close>

function split_text :: "string \<Rightarrow> string \<Rightarrow> string list" where
  "split_text d s =
     (case find_text d s of
        Some i \<Rightarrow> if d = [] then [s] else take i s # split_text d (drop (i + length d) s)
      | None \<Rightarrow> [s])"
  by pat_completeness auto

termination
  by (relation "measure (\<lambda>(d, s). length s)") (auto dest!: find_text_less intro!: diff_less)

declare split_text.simps [simp del]

definition split_part_body :: "string \<Rightarrow> string" where
  "split_part_body raw =
     (let blank = [newline, newline]; crlf_blank = [carriage, newline, carriage, newline] in
      trim (drop (case find_text crlf_blank raw of
                    Some i \<Rightarrow> i + 4
                  | None \<Rightarrow> (case find_text blank raw of Some i \<Rightarrow> i + 2 | None \<Rightarrow> 0)) raw))"

record deferred_part =
  dp_partIndex :: nat
  dp_path :: jsval
  dp_data :: jsval
  dp_errors :: jsval
  dp_hasNext :: json
  dp_label :: jsval

definition first_part :: "json \<Rightarrow> deferred_part" where
  "first_part payload = \<lparr>dp_partIndex = 0, dp_path = None, dp_data = json_field payload ''data'', dp_errors = json_field payload ''errors'',
     dp_hasNext = coalesce (json_field payload ''hasNext'') (JBool True), dp_label = None\<rparr>"

definition empty_part :: "nat \<Rightarrow> json \<Rightarrow> deferred_part" where
  "empty_part i payload = \<lparr>dp_partIndex = i, dp_path = None, dp_data = None, dp_errors = None,
     dp_hasNext = coalesce (json_field payload ''hasNext'') (JBool False), dp_label = None\<rparr>"

definition increment_part :: "nat \<Rightarrow> json \<Rightarrow> json \<Rightarrow> deferred_part" where
  "increment_part i payload inc = \<lparr>dp_partIndex = i, dp_path = json_field inc ''path'', dp_data = json_field inc ''data'',
     dp_errors = json_field inc ''errors'', dp_hasNext = coalesce (json_field payload ''hasNext'') (JBool False),
     dp_label = json_field inc ''label''\<rparr>"

text \<open>The parts of one section. An increment that is null stops the section; those before it stay.\<close>

definition section_parts :: "nat \<Rightarrow> json \<Rightarrow> deferred_part list" where
  "section_parts i payload =
     (if payload = JNull then []
      else if i = 0 then [first_part payload]
      else case coalesce (json_field payload ''incremental'') (JArr []) of
          JArr [] \<Rightarrow> [empty_part i payload]
        | JArr incs \<Rightarrow> map (increment_part i payload) (takeWhile (\<lambda>inc. inc \<noteq> JNull) incs)
        | JStr [] \<Rightarrow> [empty_part i payload]
        | JStr s \<Rightarrow> map (\<lambda>c. increment_part i payload (JStr [c])) s
        | JObj ms \<Rightarrow> if map_of ms ''length'' = Some (JNum 0) then [empty_part i payload] else []
        | _ \<Rightarrow> [])"

fun sections_parts :: "nat \<Rightarrow> string list \<Rightarrow> deferred_part list" where
  "sections_parts i [] = []"
| "sections_parts i (s # ss) =
     (let body = split_part_body s in
      if trim s = [] \<or> trim s = ''--'' \<or> body = [] then sections_parts i ss
      else (case json_parse body of Some payload \<Rightarrow> section_parts i payload | None \<Rightarrow> []) @ sections_parts (Suc i) ss)"

definition parse_multipart_mixed :: "string \<Rightarrow> string \<Rightarrow> deferred_part list" where
  "parse_multipart_mixed raw_body boundary = sections_parts 0 (tl (split_text (''--'' @ boundary) raw_body))"

text \<open>
  \<open>setAtPath\<close> on the tree of the data. A path is a list of names and indices, as its type says; an index beyond an
  array makes it longer, and one that is no index changes nothing a JSON text shows. What an object inherits is not
  data, except for the prototype, which the code would write to.
\<close>

definition array_index :: "json \<Rightarrow> nat option" where
  "array_index key =
     (case js_to_number (Some key) of
        Fin r \<Rightarrow> if r \<ge> 0 \<and> is_integral r then Some (nat \<lfloor>r\<rfloor>) else None
      | _ \<Rightarrow> None)"

definition merge_at :: "jsval \<Rightarrow> json \<Rightarrow> json" where
  "merge_at existing data =
     (case existing of
        Some v \<Rightarrow> if is_object_or_array v
          then JObj (property_order (obj_spread (obj_from_entries (js_entries (Some v))) (js_entries (Some data)))) else data
      | None \<Rightarrow> data)"

definition put_index :: "nat \<Rightarrow> json \<Rightarrow> json list \<Rightarrow> json list" where
  "put_index i v vs = (if i < length vs then vs[i := v] else vs @ replicate (i - length vs) JNull @ [v])"

definition nth_opt :: "'a list \<Rightarrow> nat \<Rightarrow> 'a option" where
  "nth_opt xs i = (if i < length xs then Some (xs ! i) else None)"

definition put_member :: "json \<Rightarrow> json \<Rightarrow> json \<Rightarrow> json" where
  "put_member key data cur =
     (case cur of
        JArr vs \<Rightarrow> (case array_index key of Some i \<Rightarrow> JArr (put_index i (merge_at (nth_opt vs i) data) vs) | None \<Rightarrow> cur)
      | JObj ms \<Rightarrow> (let k = json_to_string key in
          if k = ''__proto__'' \<and> map_of ms k = None then cur
          else JObj (AList.update k (merge_at (map_of ms k) data) ms))
      | _ \<Rightarrow> cur)"

fun put_deep :: "json list \<Rightarrow> json \<Rightarrow> json \<Rightarrow> json" where
  "put_deep [] data cur = cur"
| "put_deep [key] data cur = put_member key data cur"
| "put_deep (key # path) data cur =
     (case cur of
        JArr vs \<Rightarrow> (case array_index key of
            Some i \<Rightarrow> (if i < length vs then JArr (vs[i := put_deep path data (vs ! i)]) else cur)
          | None \<Rightarrow> cur)
      | JObj ms \<Rightarrow> (case map_of ms (json_to_string key) of
            Some v \<Rightarrow> JObj (AList.update (json_to_string key) (put_deep path data v) ms)
          | None \<Rightarrow> cur)
      | _ \<Rightarrow> cur)"

definition set_at_path :: "json list \<Rightarrow> json \<Rightarrow> json \<Rightarrow> json" where
  "set_at_path path data root_value =
     (if path = [] then (case root_value of JObj ms \<Rightarrow> JObj (property_order (obj_spread ms (js_entries (Some data)))) | _ \<Rightarrow> root_value)
      else put_deep path data root_value)"

text \<open>\<open>errors?.length\<close> and the spread of it.\<close>

definition has_errors :: "jsval \<Rightarrow> bool" where
  "has_errors v = (case v of Some (JArr es) \<Rightarrow> es \<noteq> [] | Some (JStr s) \<Rightarrow> s \<noteq> [] | _ \<Rightarrow> False)"

definition error_list :: "jsval \<Rightarrow> json list" where
  "error_list v = (case v of Some (JArr es) \<Rightarrow> es | Some (JStr s) \<Rightarrow> map (\<lambda>c. JStr [c]) s | _ \<Rightarrow> [])"

definition merge_part :: "deferred_part \<Rightarrow> json \<times> jsval \<Rightarrow> json \<times> jsval" where
  "merge_part part = (\<lambda>(data, errors).
     if dp_partIndex part = 0 then (data, errors)
     else ((case (dp_path part, dp_data part) of
              (Some (JArr path), Some d) \<Rightarrow> if d = JNull then data else set_at_path path d data
            | _ \<Rightarrow> data),
           (if has_errors (dp_errors part) then Some (JArr (error_list errors @ error_list (dp_errors part))) else errors)))"

definition merged_parts :: "deferred_part list \<Rightarrow> json \<times> jsval" where
  "merged_parts parts =
     (let first = find (\<lambda>p. dp_partIndex p = 0) parts in
      fold merge_part parts
        (coalesce (Option.bind first dp_data) (JObj []),
         (if has_errors (Option.bind first dp_errors) then Option.bind first dp_errors else None)))"

definition merge_incremental_parts :: "deferred_part list \<Rightarrow> string" where
  "merge_incremental_parts parts =
     (if parts = [] then ''{}''
      else let (data, errors) = merged_parts parts in
        json_stringify (JObj ((''data'', data) # (case errors of Some e \<Rightarrow> [(''errors'', e)] | None \<Rightarrow> []))))"

text \<open>
  \<open>processMultipartResponse\<close>, as the body it leaves in the response. The parts it hands on as well share objects with
  the merged data, which changes them; they are only shown.
\<close>

definition process_multipart_body :: "key_value list \<Rightarrow> string \<Rightarrow> string" where
  "process_multipart_body headers body =
     (let ct = (case find (\<lambda>x. to_lower (kv_key x) = ''content-type'') headers of Some x \<Rightarrow> kv_value x | None \<Rightarrow> []) in
      if \<not> str_includes ''multipart/mixed'' ct then body
      else case extract_multipart_boundary ct of
          None \<Rightarrow> body
        | Some b \<Rightarrow>
            (let parts = parse_multipart_mixed body b in
             if b = [] \<or> parts = [] then body else merge_incremental_parts parts))"

section \<open>Persisted queries\<close>

text \<open>
  The probe and the request proper are what the interface executes, a parameter: a body goes in, an answer with a
  body comes out. A body that is JSON null cannot be taken apart.
\<close>

definition query_hash :: "host \<Rightarrow> string \<Rightarrow> string" where
  "query_hash h query = concat (map (\<lambda>b. [low_hex_char (b div 16), low_hex_char (b mod 16)]) (ho_sha256 h query))"

definition persisted_extensions :: "string \<Rightarrow> json" where
  "persisted_extensions hash =
     JObj [(''persistedQuery'', JObj [(''version'', JNum 1), (''sha256Hash'', JStr hash)])]"

definition with_extensions :: "(string \<times> json) list \<Rightarrow> json \<Rightarrow> string" where
  "with_extensions kvs ext = json_stringify (JObj (AList.update ''extensions'' ext kvs))"

definition is_persisted_query_not_found :: "string \<Rightarrow> bool" where
  "is_persisted_query_not_found body =
     (case json_parse body of
        None \<Rightarrow> False
      | Some JNull \<Rightarrow> False
      | Some parsed \<Rightarrow>
          (case coalesce (json_field parsed ''errors'') (JArr []) of
             JArr es \<Rightarrow> list_ex (\<lambda>e.
               is_text (js_opt ''code'' (js_opt ''extensions'' (Some e))) ''PERSISTED_QUERY_NOT_FOUND''
               \<or> is_text (js_opt ''message'' (Some e)) ''PersistedQueryNotFound'') es
           | _ \<Rightarrow> False))"

record 'r apq_result =
  aq_response :: 'r
  aq_retried :: "bool option"

definition execute_with_apq ::
  "host \<Rightarrow> (string \<Rightarrow> js_error + 'r) \<Rightarrow> (string \<Rightarrow> js_error + 'r) \<Rightarrow> ('r \<Rightarrow> string) \<Rightarrow> string \<Rightarrow> string
   \<Rightarrow> js_error + 'r apq_result" where
  "execute_with_apq h execute retry body_of body query =
     (let ext = persisted_extensions (query_hash h query);
          parsed = (case json_parse body of Some v \<Rightarrow> v | None \<Rightarrow> JObj []);
          members = js_entries (Some parsed) in
      if parsed = JNull then Inl (type_error ''query'')
      else case execute (with_extensions (filter (\<lambda>(k, v). k \<noteq> ''query'') members) ext) of
          Inl e \<Rightarrow> Inl e
        | Inr probe \<Rightarrow>
            (if \<not> is_persisted_query_not_found (body_of probe) then Inr \<lparr>aq_response = probe, aq_retried = None\<rparr>
             else map_sum id (\<lambda>r. \<lparr>aq_response = r, aq_retried = Some True\<rparr>) (retry (with_extensions members ext))))"

end
