(* ===== verification/Client_Stream.thy ===== *)
theory Client_Stream
  imports Client_Body Execute Mock_Check
begin

text \<open>
  The stream of a response: how the server writes its events (packages/server/src/api/handlers/sse.ts) and how the
  interface reads them (packages/ui/src/features/execute/api.ts and lib/http.ts), whatever pieces the network makes
  of them; and the interface's retries.
\<close>

section \<open>Decoding base64\<close>

definition base64_digit :: "char \<Rightarrow> nat option" where
  "base64_digit c =
     (let n = code_unit c in
      if 65 \<le> n \<and> n \<le> 90 then Some (n - 65) else if 97 \<le> n \<and> n \<le> 122 then Some (n - 71)
      else if 48 \<le> n \<and> n \<le> 57 then Some (n + 4) else if c = CHR ''+'' then Some 62 else if c = CHR ''/'' then Some 63 else None)"

fun base64_groups :: "nat list \<Rightarrow> string option" where
  "base64_groups [] = Some []"
| "base64_groups [a] = None"
| "base64_groups [a, b] = Some [char_of (a * 4 + b div 16)]"
| "base64_groups [a, b, c] = Some [char_of (a * 4 + b div 16), char_of (b mod 16 * 16 + c div 4)]"
| "base64_groups (a # b # c # d # r) =
     map_option (\<lambda>s. char_of (a * 4 + b div 16) # char_of (b mod 16 * 16 + c div 4) # char_of (c mod 4 * 64 + d) # s) (base64_groups r)"

definition base64_space :: "char \<Rightarrow> bool" where
  "base64_space c \<longleftrightarrow> c \<in> {CHR 0x09, CHR 0x0A, CHR 0x0C, CHR 0x0D, CHR 0x20}"

definition strip_padding :: "string \<Rightarrow> string" where
  "strip_padding t =
     (if length t mod 4 = 0 then (if ends_with ''=='' t then take (length t - 2) t else if ends_with ''='' t then butlast t else t) else t)"

text \<open>\<open>atob\<close>; \<open>None\<close> is its exception.\<close>

definition atob :: "string \<Rightarrow> string option" where
  "atob s =
     (let u = strip_padding (filter (\<lambda>c. \<not> base64_space c) s) in
      if list_all (\<lambda>c. base64_digit c \<noteq> None) u then base64_groups (map (\<lambda>c. the (base64_digit c)) u) else None)"

text \<open>\<open>decodeBase64\<close>: the bytes of the text, read as UTF-8 by the browser's decoder.\<close>

definition decode_base64 :: "(nat list \<Rightarrow> string) \<Rightarrow> string \<Rightarrow> js_error + string" where
  "decode_base64 utf8 v =
     (case atob v of Some b \<Rightarrow> Inr (utf8 (map code_unit b)) | None \<Rightarrow> Inl \<lparr>err_name = ''InvalidCharacterError'', err_message = ''atob''\<rparr>)"

section \<open>Writing events\<close>

definition sse_event :: "string \<Rightarrow> json \<Rightarrow> string" where
  "sse_event event data = ''event: '' @ event @ [newline] @ ''data: '' @ json_stringify data @ [newline, newline]"

definition sse_data :: "json \<Rightarrow> string" where
  "sse_data data = ''data: '' @ json_stringify data @ [newline, newline]"

text \<open>The normalized response as the JSON that is sent; members that are \<open>undefined\<close> are left out.\<close>

definition int_json :: "int \<Rightarrow> json" where
  "int_json i = JNum (rat_of_int i)"

definition timing_json :: "timing \<Rightarrow> json" where
  "timing_json t = JObj
     [(''dnsMs'', JNum (tm_dnsMs t)), (''tcpMs'', JNum (tm_tcpMs t)), (''tlsMs'', JNum (tm_tlsMs t)),
      (''ttfbMs'', JNum (tm_ttfbMs t)), (''transferMs'', JNum (tm_transferMs t)), (''totalMs'', JNum (tm_totalMs t))]"

primrec phase_text :: "timing_phase_name \<Rightarrow> string" where
  "phase_text TP_dns = ''dns''"
| "phase_text TP_tcp = ''tcp''"
| "phase_text TP_tls = ''tls''"
| "phase_text TP_ttfb = ''ttfb''"
| "phase_text TP_transfer = ''transfer''"

definition phases_json :: "timing_phase list \<Rightarrow> json" where
  "phases_json ps = JArr (map (\<lambda>p. JObj
     [(''name'', JStr (phase_text (tp_name p))), (''startMs'', JNum (tp_startMs p)), (''durationMs'', JNum (tp_durationMs p))]) ps)"

definition attempt_json :: "timing_attempt \<Rightarrow> json" where
  "attempt_json a = JObj
     ((''url'', JStr (ta_url a)) # opt_field ''status'' (map_option int_json (ta_status a))
      @ [(''headers'', JArr (map json_of_key_value (ta_headers a))), (''timing'', timing_json (ta_timing a)),
         (''phases'', phases_json (ta_phases a)), (''redirect'', JBool (ta_redirect a))])"

definition redirect_json :: "redirect_info \<Rightarrow> json" where
  "redirect_json r = JObj
     ([(''url'', JStr (rd_url r)), (''status'', int_json (rd_status r)),
       (''headers'', JArr (map json_of_key_value (rd_headers r)))]
      @ opt_field ''timing'' (map_option timing_json (rd_timing r))
      @ opt_field ''phases'' (map_option phases_json (rd_phases r)))"

definition certificate_json :: "certificate_info \<Rightarrow> json" where
  "certificate_json c = JObj
     [(''subject'', JStr (ci_subject c)), (''issuer'', JStr (ci_issuer c)), (''notBefore'', JStr (ci_notBefore c)),
      (''notAfter'', JStr (ci_notAfter c)), (''dnsNames'', JArr (map JStr (ci_dnsNames c))),
      (''serialNumber'', JStr (ci_serialNumber c)), (''sha256Fingerprint'', JStr (ci_sha256Fingerprint c))]"

definition tls_json :: "tls_info \<Rightarrow> json" where
  "tls_json t = JObj
     [(''version'', JStr (ti_version t)), (''cipherSuite'', JStr (ti_cipherSuite t)),
      (''certificates'', JArr (map certificate_json (ti_certificates t)))]"

definition encoding_text :: "body_encoding \<Rightarrow> string" where
  "encoding_text e = (case e of BE_utf8 \<Rightarrow> ''utf8'' | BE_base64 \<Rightarrow> ''base64'')"

definition response_json :: "normal_response \<Rightarrow> (string \<times> json) list" where
  "response_json r =
     opt_field ''status'' (map_option int_json (nr_status r))
     @ opt_field ''statusText'' (map_option JStr (nr_statusText r))
     @ [(''headers'', JArr (map json_of_key_value (nr_headers r))), (''body'', JStr (nr_body r)),
        (''bodyEncoding'', JStr (encoding_text (nr_bodyEncoding r))),
        (''timing'', case nr_timing r of Some t \<Rightarrow> timing_json t | None \<Rightarrow> JObj [])]
     @ opt_field ''tls'' (map_option tls_json (nr_tls r))
     @ [(''redirects'', JArr (map redirect_json (nr_redirects r))), (''attempts'', JArr (map attempt_json (nr_attempts r)))]
     @ opt_field ''requestSize'' (map_option int_json (nr_requestSize r))
     @ opt_field ''responseSize'' (map_option int_json (nr_responseSize r))
     @ opt_field ''error'' (map_option JStr (nr_error r))"

definition stream_event_text :: "stream_event \<Rightarrow> string" where
  "stream_event_text ev =
     (case ev of
        Chunk_event b \<Rightarrow> sse_event ''chunk'' (JObj [(''chunk'', JStr b), (''encoding'', JStr ''base64'')])
      | Final_event r \<Rightarrow> sse_event ''final'' (JObj (response_json r))
      | Final_refused reason \<Rightarrow> sse_event ''final'' (JObj [(''error'', JStr reason), (''status'', JNum 403)]))"

definition stream_text :: "stream_event list \<Rightarrow> string" where
  "stream_text evs = concat (map stream_event_text evs)"

section \<open>Reading events\<close>

text \<open>What the caller's handlers are given.\<close>

datatype client_event = On_chunk string | On_final json

record sse_fields =
  sf_event :: "string option"
  sf_data :: "string list"

definition read_line :: "string \<Rightarrow> sse_fields \<Rightarrow> sse_fields" where
  "read_line line acc =
     (let acc1 = (if starts_with ''event:'' line then acc\<lparr>sf_event := Some (trim (drop 6 line))\<rparr> else acc) in
      if starts_with ''data:'' line then acc1\<lparr>sf_data := sf_data acc1 @ [trim_start (drop 5 line)]\<rparr> else acc1)"

definition read_fields :: "string \<Rightarrow> sse_fields" where
  "read_fields raw = fold read_line (map trim (split_lines raw)) \<lparr>sf_event = None, sf_data = []\<rparr>"

text \<open>A chunk: text that is not the expected JSON is handed on as it is.\<close>

definition read_chunk :: "string \<Rightarrow> string" where
  "read_chunk data =
     (case json_parse data of
        None \<Rightarrow> data
      | Some JNull \<Rightarrow> data
      | Some parsed \<Rightarrow>
          (let raw = coalesce (json_field parsed ''chunk'') (JStr []) in
           if is_text (json_field parsed ''encoding'') ''base64''
           then (case atob (json_to_string raw) of Some s \<Rightarrow> s | None \<Rightarrow> data)
           else json_to_string raw))"

definition read_final :: "host \<Rightarrow> (nat list \<Rightarrow> string) \<Rightarrow> string \<Rightarrow> js_error + json" where
  "read_final h utf8 data =
     (case json_parse data of
        None \<Rightarrow> Inl (syntax_error h data)
      | Some JNull \<Rightarrow> Inl (type_error ''bodyEncoding'')
      | Some payload \<Rightarrow>
          (if is_text (json_field payload ''bodyEncoding'') ''base64''
           then (case (payload, decode_base64 utf8 (js_to_string (json_field payload ''body''))) of
                   (JObj ms, Inr body) \<Rightarrow> Inr (JObj (AList.update ''body'' (JStr body) ms))
                 | (p, Inl e) \<Rightarrow> Inl e
                 | (p, Inr body) \<Rightarrow> Inr p)
           else Inr payload))"

definition handle_sse_event :: "host \<Rightarrow> (nat list \<Rightarrow> string) \<Rightarrow> string \<Rightarrow> js_error + client_event list" where
  "handle_sse_event h utf8 raw =
     (let f = read_fields raw; data = join [newline] (sf_data f) in
      if sf_event f = Some ''chunk'' then Inr [On_chunk (read_chunk data)]
      else if sf_event f = Some ''final'' then map_sum id (\<lambda>p. [On_final p]) (read_final h utf8 data)
      else Inr [])"

text \<open>Events are handled one after the other; an exception ends the reading.\<close>

fun handle_all :: "host \<Rightarrow> (nat list \<Rightarrow> string) \<Rightarrow> string list \<Rightarrow> client_event list \<times> js_error option" where
  "handle_all h utf8 [] = ([], None)"
| "handle_all h utf8 (raw # raws) =
     (case handle_sse_event h utf8 raw of
        Inl e \<Rightarrow> ([], Some e)
      | Inr evs \<Rightarrow> (let (r, failure) = handle_all h utf8 raws in (evs @ r, failure)))"

definition feed :: "string \<Rightarrow> string list \<times> string \<Rightarrow> string list \<times> string" where
  "feed piece = (\<lambda>(raws, buffer).
     let events = split_text [newline, newline] (buffer @ piece) in (raws @ butlast events, last events))"

definition raw_events :: "string list \<Rightarrow> string list" where
  "raw_events pieces =
     (let (raws, buffer) = fold feed pieces ([], []) in if trim buffer = [] then raws else raws @ [buffer])"

text \<open>\<open>executeStream\<close>, from the pieces of text that are read; an answer without success is an error with its text.\<close>

definition execute_stream ::
  "host \<Rightarrow> (nat list \<Rightarrow> string) \<Rightarrow> bool \<Rightarrow> string \<Rightarrow> string list \<Rightarrow> client_event list \<times> js_error option" where
  "execute_stream h utf8 success error_text pieces =
     (if \<not> success then ([], Some (plain_error error_text)) else handle_all h utf8 (raw_events pieces))"

section \<open>Retries of the interface\<close>

text \<open>
  \<open>executeWithRetry\<close>: \<open>run\<close> gives the outcome of each attempt, \<open>aborted\<close> whether the user has cancelled before it.
  The trace lists the pauses.
\<close>

record client_response =
  cr_status :: int
  cr_error :: "string option"

definition mentions_timeout :: "string \<Rightarrow> bool" where
  "mentions_timeout s \<longleftrightarrow> str_includes ''timeout'' (to_lower s)"

definition retry_response :: "retry_policy \<Rightarrow> client_response \<Rightarrow> bool" where
  "retry_response p r \<longleftrightarrow>
     rp_retryOn5xx p \<and> 500 \<le> cr_status r
     \<or> rp_retryOnTimeout p \<and> (case cr_error r of Some e \<Rightarrow> mentions_timeout e | None \<Rightarrow> False)"

definition abort_error :: js_error where
  "abort_error = \<lparr>err_name = ''AbortError'', err_message = ''Aborted''\<rparr>"

fun retry_from ::
  "retry_policy \<Rightarrow> (nat \<Rightarrow> bool) \<Rightarrow> (nat \<Rightarrow> js_error + client_response) \<Rightarrow> nat \<Rightarrow> nat \<Rightarrow> int
   \<Rightarrow> int list \<times> (js_error + (client_response \<times> nat))" where
  "retry_from p aborted run attempt left backoff =
     (if aborted attempt then ([], Inl abort_error)
      else case run attempt of
          Inr r \<Rightarrow>
            (if \<not> retry_response p r \<or> left = 0 then ([], Inr (r, attempt))
             else case left of
                 Suc k \<Rightarrow> (let (pauses, res) = retry_from p aborted run (Suc attempt) k (backoff * 2) in (backoff # pauses, res))
               | 0 \<Rightarrow> ([], Inr (r, attempt)))
        | Inl e \<Rightarrow>
            (if err_name e = ''AbortError'' then ([], Inl e)
             else if \<not> (rp_retryOnTimeout p \<and> mentions_timeout (error_to_string e)) \<or> left = 0 then ([], Inl e)
             else case left of
                 Suc k \<Rightarrow> (let (pauses, res) = retry_from p aborted run (Suc attempt) k (backoff * 2) in (backoff # pauses, res))
               | 0 \<Rightarrow> ([], Inl e)))"

declare retry_from.simps [simp del]

text \<open>The second component is the number of the attempt when a policy applies.\<close>

definition client_execute_with_retry ::
  "retry_policy option \<Rightarrow> (nat \<Rightarrow> bool) \<Rightarrow> (nat \<Rightarrow> js_error + client_response)
   \<Rightarrow> int list \<times> (js_error + (client_response \<times> nat option))" where
  "client_execute_with_retry policy aborted run =
     (case policy of
        Some p \<Rightarrow>
          (if rp_maxRetries p \<le> 0 then ([], map_sum id (\<lambda>r. (r, None)) (run 0))
           else let (pauses, res) = retry_from p aborted run 0 (nat (rp_maxRetries p)) (rp_backoffMs p) in
             (pauses, map_sum id (\<lambda>(r, k). (r, Some k)) res))
      | None \<Rightarrow> ([], map_sum id (\<lambda>r. (r, None)) (run 0)))"

end
