(* ===== verification/Client_Stream_Facts.thy ===== *)
theory Client_Stream_Facts
  imports Client_Stream Env_Text Execute_Facts
begin

text \<open>
  The interface sees what the server has streamed, however the network cuts the text into pieces: the bytes of each
  chunk, in order, and the final response.
\<close>

section \<open>Base64\<close>

lemma base64_code:
  "n < 64 \<Longrightarrow> code_unit (base64_char n) =
     (if n < 26 then 65 + n else if n < 52 then 71 + n else if n < 62 then n - 4 else if n = 62 then 43 else 47)"
  by (simp add: base64_char_def code_unit_def)

lemma base64_digit_char [simp]:
  assumes "n < 64"
  shows "base64_digit (base64_char n) = Some n" "base64_char n \<noteq> CHR ''=''" "\<not> base64_space (base64_char n)"
proof -
  show "base64_char n \<noteq> CHR ''=''"
  proof
    assume "base64_char n = CHR ''=''"
    then have "code_unit (base64_char n) = 61" by (simp add: code_unit_def)
    then show False using base64_code [OF assms] by (auto split: if_splits)
  qed
  show "\<not> base64_space (base64_char n)"
  proof
    assume "base64_space (base64_char n)"
    then have "code_unit (base64_char n) \<in> {9, 10, 12, 13, 32}" by (auto simp: base64_space_def code_unit_def)
    then show False using base64_code [OF assms] by (auto split: if_splits)
  qed
  consider "n < 26" | "26 \<le> n" "n < 52" | "52 \<le> n" "n < 62" | "n = 62" | "n = 63" using assms by linarith
  then show "base64_digit (base64_char n) = Some n"
  proof cases
    case 4
    then show ?thesis by (simp add: base64_digit_def base64_char_def code_unit_def)
  next
    case 5
    then show ?thesis by (simp add: base64_digit_def base64_char_def code_unit_def)
  qed (auto simp: base64_digit_def base64_code Let_def)
qed

text \<open>The digits of a text, without the padding.\<close>

fun btoa_digits :: "string \<Rightarrow> nat list" where
  "btoa_digits [] = []"
| "btoa_digits [a] = (let x = code_unit a * 16 in [x div 64, x mod 64])"
| "btoa_digits [a, b] = (let x = (code_unit a * 256 + code_unit b) * 4 in [x div 4096, x div 64 mod 64, x mod 64])"
| "btoa_digits (a # b # c # s) = (let x = (code_unit a * 256 + code_unit b) * 256 + code_unit c in
     [x div 262144, x div 4096 mod 64, x div 64 mod 64, x mod 64] @ btoa_digits s)"

fun btoa_padding :: "string \<Rightarrow> string" where
  "btoa_padding [] = []"
| "btoa_padding [a] = ''==''"
| "btoa_padding [a, b] = ''=''"
| "btoa_padding (a # b # c # s) = btoa_padding s"

lemma btoa_split: "btoa s = map base64_char (btoa_digits s) @ btoa_padding s"
  by (induction s rule: btoa.induct) (simp_all add: Let_def)

lemma btoa_digits_less: "n \<in> set (btoa_digits s) \<Longrightarrow> n < 64"
proof (induction s rule: btoa_digits.induct)
  case (2 a)
  then show ?case using code_unit_less [of a] by (auto simp: Let_def)
next
  case (3 a b)
  have "(code_unit a * 256 + code_unit b) * 4 < 64 * 4096" using code_unit_less [of a] code_unit_less [of b] by simp
  then have "(code_unit a * 256 + code_unit b) * 4 div 4096 < 64" by (rule less_mult_imp_div_less)
  then show ?case using 3 by (auto simp only: btoa_digits.simps Let_def set_simps)
next
  case (4 a b c s)
  have "(code_unit a * 256 + code_unit b) * 256 + code_unit c < 64 * 262144"
    using code_unit_less [of a] code_unit_less [of b] code_unit_less [of c] by simp
  then have "((code_unit a * 256 + code_unit b) * 256 + code_unit c) div 262144 < 64" by (rule less_mult_imp_div_less)
  then show ?case using 4 by (auto simp only: btoa_digits.simps Let_def set_simps set_append Un_iff insert_iff empty_iff)
qed simp

lemma char_of_code_unit [simp]: "char_of (code_unit c) = c"
  by (simp add: code_unit_def)

lemma mod_split: "q < 16 \<Longrightarrow> (a * 16 + q) mod 64 = a mod 4 * 16 + (q :: nat)"
  using mod_mult2_eq [of "a * 16 + q" 16 4] by (simp add: algebra_simps)

lemma mod_split_4: "q < 4 \<Longrightarrow> (a * 4 + q) mod 64 = a mod 16 * 4 + (q :: nat)"
  using mod_mult2_eq [of "a * 4 + q" 4 16] by (simp add: algebra_simps)

lemma low_bits: "(a * 256 + b) mod 16 = b mod (16 :: nat)"
proof -
  have "a * 256 + b = b + a * 16 * 16" by simp
  then show ?thesis by (simp only: mod_mult_self1)
qed

lemma group_three:
  fixes a b c :: nat
  assumes "a < 256" and "b < 256" and "c < 256"
  defines "x \<equiv> (a * 256 + b) * 256 + c"
  shows "x div 262144 * 4 + x div 4096 mod 64 div 16 = a"
    and "x div 4096 mod 64 mod 16 * 16 + x div 64 mod 64 div 4 = b"
    and "x div 64 mod 64 mod 4 * 64 + x mod 64 = c"
proof -
  have x8: "x div 256 = a * 256 + b" using assms(3) by (simp add: x_def)
  have "x div 262144 = x div 256 div 256 div 4" by (simp flip: div_mult2_eq)
  also have "\<dots> = a div 4" unfolding x8 using assms(2) by simp
  finally have d0: "x div 262144 = a div 4" .
  have "x div 4096 = x div 256 div 16" by (simp flip: div_mult2_eq)
  also have "\<dots> = a * 16 + b div 16" unfolding x8 using div_mult_self3 [of 16 "a * 16" b] by (simp add: algebra_simps)
  finally have d1: "x div 4096 mod 64 = a mod 4 * 16 + b div 16" using assms(2) by (simp add: mod_split)
  have x6: "x = c + ((a * 256 + b) * 4) * 64" by (simp add: x_def)
  have x6d: "x div 64 = (a * 256 + b) * 4 + c div 64" unfolding x6 by (simp only: div_mult_self1 [of 64] add.commute)
  have m: "x mod 64 = c mod 64" unfolding x6 by (rule mod_mult_self1)
  have "c div 64 < 4" using assms(3) by simp
  then have "x div 64 mod 64 = (a * 256 + b) mod 16 * 4 + c div 64" unfolding x6d by (rule mod_split_4)
  also have "(a * 256 + b) mod 16 = b mod 16" by (rule low_bits)
  finally have d2: "x div 64 mod 64 = b mod 16 * 4 + c div 64" .
  show "x div 262144 * 4 + x div 4096 mod 64 div 16 = a" using assms(2) by (simp add: d0 d1)
  show "x div 4096 mod 64 mod 16 * 16 + x div 64 mod 64 div 4 = b" using assms(2, 3) by (simp add: d1 d2)
  show "x div 64 mod 64 mod 4 * 64 + x mod 64 = c" using assms(3) by (simp add: d2 m)
qed

lemma group_two:
  fixes a b :: nat
  assumes "a < 256" and "b < 256"
  defines "x \<equiv> (a * 256 + b) * 4"
  shows "x div 4096 * 4 + x div 64 mod 64 div 16 = a" and "x div 64 mod 64 mod 16 * 16 + x mod 64 div 4 = b"
proof -
  have "x div 4096 = (a * 256 + b) div 256 div 4" unfolding x_def by (simp flip: div_mult2_eq)
  also have "\<dots> = a div 4" using assms(2) by simp
  finally have d0: "x div 4096 = a div 4" .
  have "x div 64 = (a * 256 + b) div 16" unfolding x_def using div_mult_mult2 [of 4 "a * 256 + b" 16] by simp
  also have "\<dots> = a * 16 + b div 16" using div_mult_self3 [of 16 "a * 16" b] by (simp add: algebra_simps)
  finally have d1: "x div 64 mod 64 = a mod 4 * 16 + b div 16" using assms(2) by (simp add: mod_split)
  have "x mod 64 = (a * 256 + b) mod 16 * 4" unfolding x_def using mult_mod_left [of "a * 256 + b" 16 4] by simp
  also have "(a * 256 + b) mod 16 = b mod 16" by (rule low_bits)
  finally have d2: "x mod 64 = b mod 16 * 4" .
  show "x div 4096 * 4 + x div 64 mod 64 div 16 = a" using assms(2) by (simp add: d0 d1)
  show "x div 64 mod 64 mod 16 * 16 + x mod 64 div 4 = b" using assms(2) by (simp add: d1 d2)
qed

lemma group_one:
  fixes a :: nat
  assumes "a < 256"
  shows "a * 16 div 64 * 4 + a * 16 mod 64 div 16 = a"
proof -
  have "a * 16 div 64 = a div 4" using div_mult_mult2 [of 16 a 4] by simp
  moreover have "a * 16 mod 64 = a mod 4 * 16" using mod_split [of 0 a] by simp
  ultimately show ?thesis by simp
qed

lemma groups_digits: "base64_groups (btoa_digits s) = Some s"
proof (induction s rule: btoa_digits.induct)
  case (4 a b c s)
  then show ?case
    using group_three [OF code_unit_less [of a] code_unit_less [of b] code_unit_less [of c]]
    by (simp only: btoa_digits.simps Let_def append_Cons append_Nil base64_groups.simps option.map char_of_code_unit)
next
  case (3 a b)
  then show ?case using group_two [OF code_unit_less [of a] code_unit_less [of b]]
    by (simp only: btoa_digits.simps Let_def base64_groups.simps char_of_code_unit)
next
  case (2 a)
  then show ?case using group_one [OF code_unit_less [of a]] by (simp add: Let_def)
qed simp

lemma btoa_length: "length (btoa s) mod 4 = 0"
  unfolding btoa_split length_append length_map
  by (induction s rule: btoa_digits.induct) (simp_all only: btoa_digits.simps btoa_padding.simps Let_def length_append list.size, simp_all)

lemma padding_cases: "btoa_padding s = [] \<or> btoa_padding s = ''='' \<or> btoa_padding s = ''==''"
  by (induction s rule: btoa_padding.induct) simp_all

lemma ends_with_last: "last d \<noteq> c \<or> d = [] \<Longrightarrow> \<not> ends_with (p @ [c]) d"
  by (auto simp: ends_with_iff)

lemma strip_padding_btoa: "strip_padding (btoa s) = map base64_char (btoa_digits s)"
proof -
  let ?d = "map base64_char (btoa_digits s)"
  have d: "CHR ''='' \<notin> set ?d" using btoa_digits_less [of _ s] by (auto dest: base64_digit_char(2) [THEN not_sym])
  then have last: "?d = [] \<or> last ?d \<noteq> CHR ''=''" by (metis last_in_set)
  have "\<not> ends_with ''='' ?d" "\<not> ends_with ''=='' ?d"
    using ends_with_last [of ?d "CHR ''=''" "[]"] ends_with_last [of ?d "CHR ''=''" "''=''"] last by auto
  moreover have "\<not> ends_with ''=='' (?d @ ''='')"
  proof
    assume "ends_with ''=='' (?d @ ''='')"
    then obtain t where "?d @ ''='' = (t @ ''='') @ ''=''" by (auto simp: ends_with_iff)
    then have "?d = t @ ''=''" by (simp only: append_same_eq)
    then show False using last by simp
  qed
  ultimately show ?thesis
    using padding_cases [of s] btoa_length [of s] unfolding strip_padding_def btoa_split
    by (auto simp: butlast_append ends_with_iff [of _ "_ @ _"])
qed

lemma atob_btoa [simp]: "atob (btoa s) = Some s"
proof -
  have "\<forall>c \<in> set (btoa s). \<not> base64_space c"
    using padding_cases [of s] btoa_digits_less [of _ s] by (auto simp: btoa_split base64_space_def [of "CHR ''=''"])
  then have f: "filter (\<lambda>c. \<not> base64_space c) (btoa s) = btoa s" by (simp add: filter_id_conv)
  have digits: "map (\<lambda>c. the (base64_digit c)) (map base64_char (btoa_digits s)) = btoa_digits s"
    using btoa_digits_less [of _ s] by (auto intro: map_idI)
  have "list_all (\<lambda>c. base64_digit c \<noteq> None) (map base64_char (btoa_digits s))"
    using btoa_digits_less [of _ s] by (auto simp: list_all_iff)
  then show ?thesis by (simp only: atob_def f strip_padding_btoa Let_def digits groups_digits if_True)
qed

section \<open>Pieces\<close>

lemma find_text_bound: "find_text d a = Some i \<Longrightarrow> i + length d \<le> length a"
proof (induction a arbitrary: i)
  case Nil
  then show ?case by (auto split: if_splits)
next
  case (Cons c a)
  show ?case
  proof (cases "starts_with d (c # a)")
    case True
    then show ?thesis using Cons.prems by (auto simp: starts_with_iff dest: arg_cong [of _ _ length])
  next
    case False
    then show ?thesis using Cons by auto
  qed
qed

lemma find_text_append: "find_text d a = Some i \<Longrightarrow> find_text d (a @ b) = Some i"
proof (induction a arbitrary: i)
  case Nil
  then show ?case by (cases b) (auto split: if_splits)
next
  case (Cons c a)
  have "length d \<le> length (c # a)" using find_text_bound [OF Cons.prems] by simp
  then have "starts_with d (c # a @ b) \<longleftrightarrow> starts_with d (c # a)"
    by (simp add: starts_with_take del: append_Cons flip: append_Cons)
  then show ?case using Cons by (auto split: if_splits)
qed

lemma split_text_neq_Nil [simp]: "split_text d s \<noteq> []"
  by (subst split_text.simps) (simp split: option.split)

text \<open>Splitting what is read so far and going on with the rest gives the pieces of the whole.\<close>

lemma split_text_append:
  assumes "d \<noteq> []"
  shows "split_text d (a @ b) = butlast (split_text d a) @ split_text d (last (split_text d a) @ b)"
proof (induction a rule: length_induct)
  case (1 a)
  show ?case
  proof (cases "find_text d a")
    case None
    then have "split_text d a = [a]" by (simp add: split_text.simps [of d a])
    then show ?thesis by simp
  next
    case (Some i)
    let ?r = "drop (i + length d) a"
    have n: "i < length a" by (rule find_text_less [OF Some assms])
    then have less: "length ?r < length a" using assms by (cases d) auto
    have s: "split_text d a = take i a # split_text d ?r" using Some assms by (simp add: split_text.simps [of d a])
    have "split_text d (a @ b) = take i a # split_text d (?r @ b)"
      using find_text_append [OF Some] find_text_bound [OF Some] n assms by (simp add: split_text.simps [of d "a @ b"])
    moreover have "split_text d (?r @ b) = butlast (split_text d ?r) @ split_text d (last (split_text d ?r) @ b)"
      using 1 less by blast
    ultimately show ?thesis by (simp add: s)
  qed
qed

abbreviation blank_line :: string where
  "blank_line \<equiv> [newline, newline]"

lemma feed_whole:
  "fold feed pieces (butlast (split_text blank_line a), last (split_text blank_line a))
     = (butlast (split_text blank_line (a @ concat pieces)), last (split_text blank_line (a @ concat pieces)))"
proof (induction pieces arbitrary: a)
  case Nil
  then show ?case by simp
next
  case (Cons p pieces)
  have "feed p (butlast (split_text blank_line a), last (split_text blank_line a))
      = (butlast (split_text blank_line (a @ p)), last (split_text blank_line (a @ p)))"
    by (simp add: feed_def Let_def split_text_append [of blank_line a p] butlast_append)
  then show ?case using Cons [of "a @ p"] by simp
qed

lemma raw_events_whole:
  "raw_events pieces =
     (let ps = split_text blank_line (concat pieces) in if trim (last ps) = [] then butlast ps else ps)"
proof -
  have "split_text blank_line [] = [[]]" by (simp add: split_text.simps [of blank_line "[]"])
  then have "fold feed pieces ([], []) = (butlast (split_text blank_line (concat pieces)), last (split_text blank_line (concat pieces)))"
    using feed_whole [of pieces "[]"] by simp
  then show ?thesis by (simp add: raw_events_def Let_def)
qed

section \<open>One event\<close>

lemma find_text_skip: "newline \<notin> set a \<Longrightarrow> find_text blank_line (a @ s) = map_option ((+) (length a)) (find_text blank_line s)"
proof (induction a)
  case Nil
  then show ?case by (cases "find_text blank_line s") auto
next
  case (Cons c a)
  then have "\<not> starts_with blank_line (c # a @ s)" by (auto simp: starts_with_iff)
  then show ?case using Cons by (cases "find_text blank_line s") auto
qed

lemma find_blank_line:
  assumes "newline \<notin> set a" and "newline \<notin> set b" and "b \<noteq> []"
  shows "find_text blank_line (a @ newline # b @ blank_line @ s) = Some (Suc (length a + length b))"
proof -
  obtain c b' where b: "b = c # b'" "c \<noteq> newline" using assms(2, 3) by (cases b) auto
  have "find_text blank_line (newline # b @ blank_line @ s) = Some (Suc (length b))"
    using find_text_skip [OF assms(2), of "blank_line @ s"] b by simp
  then show ?thesis using find_text_skip [OF assms(1), of "newline # b @ blank_line @ s"] by simp
qed

lemma split_event:
  assumes "newline \<notin> set a" and "newline \<notin> set b" and "b \<noteq> []"
  shows "split_text blank_line (a @ newline # b @ blank_line @ s) = (a @ newline # b) # split_text blank_line s"
proof -
  let ?t = "a @ newline # b @ blank_line @ s"
  have "take (Suc (length a + length b)) ?t = a @ newline # b" "drop (Suc (length a + length b) + length blank_line) ?t = s"
    by (simp_all add: take_Cons' drop_Cons')
  then show ?thesis using find_blank_line [OF assms, of s] by (simp only: split_text.simps [of blank_line ?t] option.case) simp
qed

lemma digits_no_newline: "newline \<notin> set (nat_to_string n)"
  using nat_to_string_digits [of newline n] by (auto simp: is_digit_def code_unit_def)

lemma quote_no_newline: "newline \<notin> set (json_quote s)"
  by (auto simp: json_quote_def dest: quote_char_no_newline)

lemma stringify_no_newline:
  "json_ok v \<Longrightarrow> newline \<notin> set (json_stringify v)"
  "json_ok_list vs \<Longrightarrow> newline \<notin> set (stringify_list vs)"
  "json_ok_members ms \<Longrightarrow> newline \<notin> set (stringify_members ms)"
proof (induction v and vs and ms rule: json_stringify_stringify_list_stringify_members.induct)
  case (3 x)
  from json_ok_num [OF 3] obtain i where i: "x = rat_of_int i" "\<bar>i\<bar> < 10 ^ 21" by blast
  then show ?case using num_to_string_int [OF i(2)] digits_no_newline by (auto simp: int_to_string_def)
qed (auto simp: quote_no_newline)

lemma read_object_line:
  assumes "json_ok (JObj ms)"
  shows "trim (''data: '' @ json_stringify (JObj ms)) = ''data: '' @ json_stringify (JObj ms)"
    and "trim_start (CHR '' '' # json_stringify (JObj ms)) = json_stringify (JObj ms)"
proof -
  show "trim (''data: '' @ json_stringify (JObj ms)) = ''data: '' @ json_stringify (JObj ms)"
    by (rule trim_hd_last) (simp_all add: js_space_def code_unit_def)
  show "trim_start (CHR '' '' # json_stringify (JObj ms)) = json_stringify (JObj ms)"
    by (simp add: js_space_def code_unit_def)
qed

lemma read_one_event:
  assumes ok: "json_ok (JObj ms)" and e: "e = ''chunk'' \<or> e = ''final''"
  shows "read_fields ((''event: '' @ e) @ newline # ''data: '' @ json_stringify (JObj ms))
    = \<lparr>sf_event = Some e, sf_data = [json_stringify (JObj ms)]\<rparr>"
proof -
  let ?data = "''data: '' @ json_stringify (JObj ms)"
  have n: "newline \<notin> set (''event: '' @ e)" "newline \<notin> set ?data" using e stringify_no_newline(1) [OF ok] by auto
  have "split_on newline ((''event: '' @ e) @ newline # ?data) = [''event: '' @ e, ?data]"
    using split_on_append [OF n(1)] split_on_no_sep [OF n(2)] by simp
  then have "split_lines ((''event: '' @ e) @ newline # ?data) = [''event: '' @ e, ?data]"
    using e by (auto simp: split_lines_def strip_cr_def)
  moreover have "read_line (trim (''event: '' @ e)) \<lparr>sf_event = None, sf_data = []\<rparr> = \<lparr>sf_event = Some e, sf_data = []\<rparr>"
    using e by (elim disjE; simp only:) code_simp+
  moreover have "read_line ?data \<lparr>sf_event = Some e, sf_data = []\<rparr> = \<lparr>sf_event = Some e, sf_data = [json_stringify (JObj ms)]\<rparr>"
    using read_object_line(2) [OF ok] by (simp add: read_line_def Let_def)
  ultimately show ?thesis by (simp only: read_fields_def list.map read_object_line(1) [OF ok] fold.simps id_apply comp_apply)
qed

section \<open>A whole stream\<close>

fun event_parts :: "stream_event \<Rightarrow> string \<times> (string \<times> json) list" where
  "event_parts (Chunk_event b) = (''chunk'', [(''chunk'', JStr b), (''encoding'', JStr ''base64'')])"
| "event_parts (Final_event r) = (''final'', response_json r)"
| "event_parts (Final_refused reason) = (''final'', [(''error'', JStr reason), (''status'', JNum 403)])"

definition event_body :: "stream_event \<Rightarrow> string" where
  "event_body ev = (''event: '' @ fst (event_parts ev)) @ newline # ''data: '' @ json_stringify (JObj (snd (event_parts ev)))"

definition event_ok :: "stream_event \<Rightarrow> bool" where
  "event_ok ev \<longleftrightarrow> json_ok (JObj (snd (event_parts ev)))"

lemma event_text: "stream_event_text ev = event_body ev @ blank_line"
  by (cases ev) (simp_all add: stream_event_text_def sse_event_def event_body_def)

lemma event_names: "fst (event_parts ev) = ''chunk'' \<or> fst (event_parts ev) = ''final''"
  by (cases ev) simp_all

lemma split_stream:
  "(\<And>ev. ev \<in> set evs \<Longrightarrow> event_ok ev) \<Longrightarrow> split_text blank_line (stream_text evs) = map event_body evs @ [[]]"
proof (induction evs)
  case Nil
  then show ?case by (simp add: stream_text_def split_text.simps [of blank_line "[]"])
next
  case (Cons ev evs)
  have n: "newline \<notin> set (''event: '' @ fst (event_parts ev))" using event_names [of ev] by auto
  have "event_ok ev" using Cons.prems by simp
  then have d: "newline \<notin> set (''data: '' @ json_stringify (JObj (snd (event_parts ev))))"
    using stringify_no_newline(1) by (auto simp only: event_ok_def set_append Un_iff) auto
  have "stream_text (ev # evs) = (''event: '' @ fst (event_parts ev)) @ newline
      # (''data: '' @ json_stringify (JObj (snd (event_parts ev)))) @ blank_line @ stream_text evs"
    by (simp add: stream_text_def event_text event_body_def)
  then have "split_text blank_line (stream_text (ev # evs)) = event_body ev # split_text blank_line (stream_text evs)"
    using split_event [OF n d, of "stream_text evs"] by (simp only: event_body_def) simp
  then show ?case using Cons by simp
qed

lemma handle_all_seen:
  "(\<And>ev. ev \<in> set evs \<Longrightarrow> handle_sse_event h utf8 (event_body ev) = Inr (seen ev))
    \<Longrightarrow> handle_all h utf8 (map event_body evs) = (concat (map seen evs), None)"
  by (induction evs) simp_all

lemma handle_chunk:
  "handle_sse_event h utf8 (event_body (Chunk_event (btoa s))) = Inr [On_chunk s]"
proof -
  let ?ms = "[(''chunk'', JStr (btoa s)), (''encoding'', JStr ''base64'')]"
  have ok: "json_ok (JObj ?ms)" by simp
  show ?thesis
    using read_one_event [OF ok, of "''chunk''"] json_parse_stringify [OF ok]
    by (simp only: handle_sse_event_def event_body_def event_parts.simps fst_conv snd_conv Let_def)
       (simp add: read_chunk_def json_field_def coalesce_def Import_Json.nullish_def is_text_def)
qed

text \<open>The response the interface shows: a body in base64 is decoded, the rest is what the server sent.\<close>

definition shown_response :: "(nat list \<Rightarrow> string) \<Rightarrow> string \<Rightarrow> normal_response \<Rightarrow> json" where
  "shown_response utf8 bytes r =
     JObj (if nr_bodyEncoding r = BE_base64
       then AList.update ''body'' (JStr (utf8 (map code_unit bytes))) (response_json r) else response_json r)"

lemma response_json_body:
  "map_of (response_json r) ''body'' = Some (JStr (nr_body r))"
  "map_of (response_json r) ''bodyEncoding'' = Some (JStr (encoding_text (nr_bodyEncoding r)))"
  by (simp_all add: response_json_def opt_field_def map_add_def split: option.split)

lemma handle_final:
  assumes ok: "json_ok (JObj (response_json r))" and body: "nr_bodyEncoding r = BE_base64 \<Longrightarrow> nr_body r = btoa bytes"
  shows "handle_sse_event h utf8 (event_body (Final_event r)) = Inr [On_final (shown_response utf8 bytes r)]"
proof -
  have "read_final h utf8 (json_stringify (JObj (response_json r))) = Inr (shown_response utf8 bytes r)"
    using json_parse_stringify [OF ok] body
    by (cases "nr_bodyEncoding r")
       (simp_all add: read_final_def is_text_def json_field_def response_json_body encoding_text_def shown_response_def
          decode_base64_def js_to_string_def)
  then show ?thesis
    using read_one_event [OF ok, of "''final''"]
    by (simp only: handle_sse_event_def event_body_def event_parts.simps fst_conv snd_conv Let_def) simp
qed

text \<open>What the interface is to see of one chunk of the executor's stream.\<close>

definition seen_of_chunk :: "(nat list \<Rightarrow> string) \<Rightarrow> (nat list \<Rightarrow> string) \<Rightarrow> exec_chunk \<Rightarrow> client_event list" where
  "seen_of_chunk decode utf8 ck =
     (if bytes_from (xk_body ck) = [] then [] else [On_chunk (map char_of (bytes_from (xk_body ck)))])
     @ (case xk_finalResponse ck of
          Some a \<Rightarrow> [On_final (shown_response utf8 (map char_of (bytes_from (xs_body a))) (normalize_response decode a))]
        | None \<Rightarrow> [])"

lemma stream_read_chunks:
  assumes ok: "\<And>ck a. ck \<in> set cks \<Longrightarrow> xk_finalResponse ck = Some a \<Longrightarrow> json_ok (JObj (response_json (normalize_response decode a)))"
    and pieces: "concat pieces = stream_text (concat (map (format_execute_chunk decode) cks))"
  shows "execute_stream h utf8 True e pieces = (concat (map (seen_of_chunk decode utf8) cks), None)"
proof -
  let ?evs = "concat (map (format_execute_chunk decode) cks)"
  have evs_ok: "event_ok ev" if "ev \<in> set ?evs" for ev
  proof -
    from that obtain ck where ck: "ck \<in> set cks" "ev \<in> set (format_execute_chunk decode ck)" by auto
    then show ?thesis using ok [OF ck(1)]
      by (auto simp: format_execute_chunk_def Let_def event_ok_def split: option.splits if_splits)
  qed
  have last: "handle_sse_event h utf8 (event_body (Final_event (normalize_response decode a)))
      = Inr [On_final (shown_response utf8 (map char_of (bytes_from (xs_body a))) (normalize_response decode a))]"
    if "ck \<in> set cks" "xk_finalResponse ck = Some a" for ck a
    by (rule handle_final [OF ok [OF that]]) (simp add: normalize_response_def Let_def split: if_splits)
  have seen: "handle_all h utf8 (map event_body (format_execute_chunk decode ck)) = (seen_of_chunk decode utf8 ck, None)"
    if "ck \<in> set cks" for ck
    using last [OF that] by (cases "xk_finalResponse ck") (simp_all add: format_execute_chunk_def seen_of_chunk_def Let_def handle_chunk)
  have join: "handle_all h utf8 (a @ b) = (x @ y, None)"
    if "handle_all h utf8 a = (x, None)" and "handle_all h utf8 b = (y, None)" for a b x y
    using that by (induction a arbitrary: x) (auto split: sum.splits prod.splits)
  have "handle_all h utf8 (map event_body (concat (map (format_execute_chunk decode) ds))) = (concat (map (seen_of_chunk decode utf8) ds), None)"
    if "set ds \<subseteq> set cks" for ds
    using that by (induction ds) (auto simp: seen join)
  then have "handle_all h utf8 (map event_body ?evs) = (concat (map (seen_of_chunk decode utf8) cks), None)" by blast
  moreover have "split_text blank_line (stream_text ?evs) = map event_body ?evs @ [[]]" by (rule split_stream) (rule evs_ok)
  then have "raw_events pieces = map event_body ?evs" by (simp add: raw_events_whole pieces Let_def)
  ultimately show ?thesis by (simp add: execute_stream_def)
qed


definition sample_image :: exec_answer where
  "sample_image = \<lparr>xs_status = Some 200, xs_statusText = Some ''OK'', xs_headers = Some [kv_on ''content-type'' ''image/png''],
     xs_body = Some [255, 0], xs_timing = None, xs_tls = None, xs_redirects = None, xs_attempts = None,
     xs_requestSize = None, xs_responseSize = Some 2, xs_error = None\<rparr>"

definition sample_chunks :: "exec_chunk list" where
  "sample_chunks = [\<lparr>xk_body = Some [104, 105], xk_finalResponse = None\<rparr>,
     \<lparr>xk_body = None, xk_finalResponse = Some sample_image\<rparr>]"

definition sample_stream :: string where
  "sample_stream = stream_text (snd (fst (stream_handler sample_node True (\<lambda>n. None) (\<lambda>bs. []) (\<lambda>p. (sample_chunks, None))
     sample_input sample_runtime)))"


end
