(* ===== verification/Spec2Isabelle.thy ===== *)
theory Spec2Isabelle
  imports Env_Text Cookies Runner_Facts Webhook OAuth2 Proxy_Records Rate_Limit Grpc_Record Ssrf Mock_Check_Facts Storage_Run Import_Curl_Facts Codegen_Programs Diff_Facts Execute_Facts Import_Facts Openapi_Facts Graphql_Facts Scripting_Facts Client_Send_Facts Client_Stream_Facts
begin

text \<open>
  Invoke is an API client for HTTP, GraphQL, WebSocket and gRPC. Its core library (packages/core) holds the
  logic: it resolves the templates of a request, adds credentials, checks responses against assertions,
  chains requests into flows and runs, keeps history and collections in the browser's database, and exports
  and imports requests. Its server (packages/server) executes requests for the browser and mocks, records,
  proxies and rate-limits them. Its interface (packages/ui) shows all of this. The development models the
  core library and the state and decisions of the server, and proves what each part promises and how the
  parts fit together.

  How the parts interact. A saved request holds texts with placeholders. \<open>resolve_request\<close> (Resolve)
  replaces them from the scopes (Template), applies the credentials and builds the URL (Auth), and reports
  the placeholders without a value. Executing the result is the work of the server and of the network, and
  a parameter of the model. The response is checked by \<open>run_assertions\<close> (Assertions), values are taken out
  of it by \<open>extract_variables\<close> (Extract_Vars) and go into the scopes of the next request. Flows (Flow) and
  the collection and batch runners (Runner) are these steps in sequence, with retries, conditions, loops
  and cancellation. \<open>validate_flow\<close> (Flow_Check) is the gate before a flow is stored or run. What was sent
  is redacted (History) and stored (Storage). The mock server (Mock_Store) answers from routes that
  \<open>validate_mock_routes\<close> (Mock_Check) has accepted, the proxy (Proxy_Records) turns recorded traffic into
  such routes, and the gRPC recorder (Grpc_Record) turns recorded calls into routes of the gRPC mock
  (Grpc_Mock).

  The language. Prelude has the result type \<open>js_error + 'a\<close>, a state-and-exception monad and objects as
  association lists with the lookups that see \<open>Object.prototype\<close>. Js_String, Js_Json, Js_Runtime and Js_Host
  have the operations of the JavaScript library the source calls: strings, JSON, numbers, the clock and the
  random numbers as explicit streams, and the host's URL parser, regular expressions, cryptography and
  similar as a record of functions that is an argument. Json_Round_Trip shows that printed JSON is read
  back. Interfaces has the contracts several parts share as locales (a bounded log, rotating counters, a
  keyed table), Db_Table the contract of a database table; each is interpreted on the model's own stores.

  The core library, by theory and source file under packages/core/src:
  Types (types/*.ts: the requests, responses and stored rows, field by field);
  Template, Resolve, Extract_Vars, Env_Text (variables/index.ts);
  Auth (request/auth.ts) and Request_Model (request/index.ts);
  Assertions (assertions/index.ts);
  Cookies (cookies/index.ts);
  Flow and Flow_Facts (flow/index.ts), Flow_Check and Flow_Check_Facts (flow/validation.ts);
  Runner and Runner_Facts (runner/index.ts);
  Mock_Check and Mock_Check_Facts (mock/validation.ts);
  History (lib/redact.ts, history/index.ts);
  Db_Table, Migrations, Storage, Storage_Facts, Storage_Run (storage/*.ts);
  Codegen_Http, Codegen_Gql, Codegen_Ws, Codegen_Grpc, Codegen_Facts, Codegen_Programs (codegen/index.ts);
  Import_Curl and Import_Curl_Facts (import-export/curl.ts and grpcurl.ts);
  Diff and Diff_Facts (lib/diff.ts).

  The server, by theory and source file under packages/server/src:
  Mock_Match (services/mock-match.ts), Mock_Store (services/mock-store.ts, api/raw/mock-catchall.ts);
  Webhook (services/webhook-store.ts, webhook-validator.ts, api/raw/webhook-receiver.ts);
  OAuth2 (services/oauth2-store.ts, api/handlers/oauth2.ts, api/raw/oauth2-callback.ts);
  Proxy_Records (services/proxy-record-store.ts, api/handlers/proxy.ts);
  Rate_Limit (services/rate-limiter.ts, middleware/rate-limit.ts);
  Grpc_Mock (services/mock-grpc-store.ts), Grpc_Record (services/mock-grpc-recorder.ts);
  Ssrf (services/ssrf-guard.ts).

  What the groups of lemmas show. Templates: resolution agrees with a reference that reads the placeholders
  one by one, and the reported names are exactly the ones without a value. Flows: a valid flow ends within a
  bound that the checks imply, a cancelled run is a prefix of the full run, validity is a predicate on the
  steps that mentions no messages. Runners, cookies, assertions, environment texts and URLs: each does what
  its reference says on every input of its type, and what is written is read back. Servers: a result of the
  authorization flow is handed out once, the limiter lets through no more than its rate and burst, private
  addresses are refused, accepted mock routes answer safely, interleaved gRPC calls take the answers in
  rotation, recorded calls are replayed. Storage: whatever sequence of operations runs, the tables stay well
  formed; deleting a folder removes what is below it and nothing else; an exported workspace is imported
  unchanged. Code generation: a request's texts cannot leave their place in a generated command or program,
  and an exported curl command is imported as the same request. Diff: both sides are treated alike, and no
  change is reported exactly for equal content.

  Modelling decisions. Strings are lists of HOL characters, code units below 256, so that ASCII and Latin-1
  text is exact and other text is outside the model. Counters, statuses and milliseconds are integers, other
  JavaScript numbers are rationals without rounding, with \<open>NaN\<close> and the infinities where the code can meet
  them. Objects keep the order of insertion; keys that look like array indices, which JavaScript would move
  to the front, are not reordered. A field declared with a question mark is an option, and absent is the
  same as \<open>undefined\<close>. Callbacks and hooks are recorded as a trace and do not throw. Cancellation is the
  number of interruptible points that pass before it. Operations on the database and on the stores of the
  server are atomic; where the code sleeps between two updates (Grpc_Mock) they are separate steps of a
  transition relation. Regular expressions of the source are written out as predicates or recursive readers;
  expressions the user supplies go to the host's engine. Templates of generated programs are lists of lines
  in the order of the source.

  Bounds and fuel. \<open>json_parse\<close> bounds the depth of its calls by twice the length of the text, which
  suffices because every second call consumes a character; Json_Round_Trip proves it on printed values.
  Templates are followed to the depth of ten that the source itself has. Flows are bounded by the limits of
  flow/validation.ts. Batch runs that may never end (a round of size zero) are modelled with an explicit
  option, and \<open>batch_ends_iff\<close> says when they end. Collecting the folders below one ends because every
  pass but the last adds one.

  Not modelled. The interface packages/ui (React components and hooks around the modelled functions), the
  execution of requests over the network (packages/server/src/features/execute and grpc-executor.ts with
  the child processes and sockets behind them), the registration of routes with the HTTP framework, the
  remaining formats of import-export, the script sandbox, the GraphQL introspection helpers, the declaration
  of the database's indexes and its upgrade to version 2, wrappers that only pass a call on
  (storage/index.ts, services.ts, dexie.ts), and the tests.
\<close>

end
